(* ===== verification/Prelude.thy ===== *)
theory Prelude
  imports Main "HOL-Library.Word" "HOL-Library.AList" "HOL-Library.Multiset"
    "HOL-Library.Char_ord" "HOL-Library.List_Lexorder"
begin

text \<open>
  Shared vocabulary of the development: Go's 64-bit integers with their wrap-around, times and
  durations, the result type of a call that may return an error, sequencing of fallible
  state-changing calls, and the generic list and association-list facts that several components
  use. The collections declared here gather the facts that the component proofs hand to the
  simplifier.
\<close>

named_theorems go_defs "small definitions that component proofs unfold"
named_theorems frame_simps "fields and tables that an operation leaves alone"

section \<open>Machine integers\<close>

text \<open>
  Go's \<open>int\<close>, \<open>int64\<close> and \<open>time.Duration\<close> are 64-bit two's complement. They are kept as \<open>int\<close>
  and every addition that can leave the range is written with \<open>wrap64\<close>. Counters are \<open>uint64\<close> and
  are kept as words. Identifiers of database rows, which \<open>AUTO_INCREMENT\<close> hands out and no code does
  arithmetic on, are natural numbers.
\<close>

type_synonym u64 = "64 word"

definition wrap64 :: "int \<Rightarrow> int" where
  "wrap64 i = (i + 2 ^ 63) mod 2 ^ 64 - 2 ^ 63"

definition max_int :: int where
  "max_int = 2 ^ 63 - 1"

definition min_int :: int where
  "min_int = - (2 ^ 63)"

definition in_int64 :: "int \<Rightarrow> bool" where
  "in_int64 i \<longleftrightarrow> min_int \<le> i \<and> i \<le> max_int"

definition go_add :: "int \<Rightarrow> int \<Rightarrow> int" where
  "go_add a b = wrap64 (a + b)"

definition go_mul :: "int \<Rightarrow> int \<Rightarrow> int" where
  "go_mul a b = wrap64 (a * b)"

lemma wrap64_id [simp]: "in_int64 i \<Longrightarrow> wrap64 i = i"
  by (simp add: wrap64_def in_int64_def min_int_def max_int_def)

lemma wrap64_range: "in_int64 (wrap64 i)"
proof -
  have "0 \<le> (i + 2 ^ 63) mod 2 ^ 64" and "(i + 2 ^ 63) mod 2 ^ 64 < (2 ^ 64 :: int)"
    by simp_all
  then show ?thesis
    by (simp add: wrap64_def in_int64_def min_int_def max_int_def)
qed

lemma wrap64_eq_sint: "wrap64 i = sint (word_of_int i :: 64 word)"
  by (simp add: wrap64_def sint_sbintrunc' signed_take_bit_eq_take_bit_shift take_bit_eq_mod)

lemma go_add_exact [simp]: "in_int64 (a + b) \<Longrightarrow> go_add a b = a + b"
  by (simp add: go_add_def)

lemma go_add_zero_right [simp]: "in_int64 a \<Longrightarrow> go_add a 0 = a"
  by (simp add: go_add_def)

lemma in_int64_numeral_0 [simp]: "in_int64 0"
  by (simp add: in_int64_def min_int_def max_int_def)

lemma in_int64_between:
  "in_int64 a \<Longrightarrow> in_int64 c \<Longrightarrow> a \<le> b \<Longrightarrow> b \<le> c \<Longrightarrow> in_int64 b"
  by (simp add: in_int64_def)

section \<open>Time\<close>

text \<open>
  A \<open>time.Time\<close> is the number of nanoseconds since Go's zero time, so that the zero value of the
  struct is 0 and \<open>IsZero\<close> is equality with 0. A \<open>time.Time\<close> holds 64 bits of seconds besides the
  nanoseconds: adding a duration does not overflow, so times are unbounded here. A duration is a
  64-bit number of nanoseconds.
\<close>

type_synonym time = int
type_synonym duration = int

definition nanosecond :: duration where "nanosecond = 1"
definition millisecond :: duration where "millisecond = 1000000"
definition second :: duration where "second = 1000000000"
definition minute :: duration where "minute = 60000000000"

definition is_zero_time :: "time \<Rightarrow> bool" where
  "is_zero_time t \<longleftrightarrow> t = 0"

definition time_after :: "time \<Rightarrow> time \<Rightarrow> bool" where
  "time_after t u \<longleftrightarrow> u < t"

declare is_zero_time_def [go_defs] time_after_def [go_defs]

text \<open>\<open>Time.Sub\<close> saturates at the ends of the duration range.\<close>

definition time_sub :: "time \<Rightarrow> time \<Rightarrow> duration" where
  "time_sub t u = max min_int (min max_int (t - u))"

text \<open>\<open>Duration.Milliseconds\<close> divides towards zero.\<close>

definition trunc_div :: "int \<Rightarrow> int \<Rightarrow> int" where
  "trunc_div a b =
     (let q = \<bar>a\<bar> div \<bar>b\<bar> in if a < 0 \<and> 0 < b \<or> 0 < a \<and> b < 0 then - q else q)"

definition milliseconds :: "duration \<Rightarrow> int" where
  "milliseconds d = trunc_div d millisecond"

lemma trunc_div_nonneg: "0 \<le> a \<Longrightarrow> 0 < b \<Longrightarrow> trunc_div a b = a div b"
  by (simp add: trunc_div_def Let_def)

text \<open>Division by a positive number, in the form linear arithmetic can use.\<close>

lemma div_bounds:
  fixes c :: int
  assumes "0 < c"
  shows "c * (x div c) \<le> x" and "x < c * (x div c) + c"
  using assms mult_div_mod_eq [of c x] pos_mod_sign [of c x] pos_mod_bound [of c x] by linarith+

lemma div_eqI:
  fixes c :: int
  assumes "c * q \<le> a" and "a < c * q + c"
  shows "a div c = q"
  using assms by (intro int_div_pos_eq [of a c q "a - c * q"]) auto

section \<open>Sequencing fallible calls\<close>

text \<open>
  A call that may fail and changes a state maps the state to a result and the new state. \<open>bindS\<close>
  runs the second call only when the first one succeeded, as the early \<open>return err\<close> does.
\<close>

definition bindS :: "('s \<Rightarrow> ('e + 'a) \<times> 's) \<Rightarrow> ('a \<Rightarrow> 's \<Rightarrow> ('e + 'b) \<times> 's) \<Rightarrow> 's \<Rightarrow> ('e + 'b) \<times> 's" where
  "bindS m f s = (case m s of (Inl e, s') \<Rightarrow> (Inl e, s') | (Inr a, s') \<Rightarrow> f a s')"

lemma bindS_Inl [simp]: "m s = (Inl e, s') \<Longrightarrow> bindS m f s = (Inl e, s')"
  by (simp add: bindS_def)

lemma bindS_Inr [simp]: "m s = (Inr a, s') \<Longrightarrow> bindS m f s = f a s'"
  by (simp add: bindS_def)

lemma bindS_InrE:
  assumes "bindS m f s = (Inr b, t)"
  obtains a s' where "m s = (Inr a, s')" and "f a s' = (Inr b, t)"
  using assms by (auto simp: bindS_def split: prod.splits sum.splits)

lemma bindS_InlE:
  assumes "bindS m f s = (Inl e, t)"
  obtains "m s = (Inl e, t)" | a s' where "m s = (Inr a, s')" and "f a s' = (Inl e, t)"
  using assms by (auto simp: bindS_def split: prod.splits sum.splits)

lemma bindS_split:
  "P (bindS m f s) \<longleftrightarrow>
     (\<forall>e s'. m s = (Inl e, s') \<longrightarrow> P (Inl e, s')) \<and>
     (\<forall>a s'. m s = (Inr a, s') \<longrightarrow> P (f a s'))"
  by (cases "m s"; cases "fst (m s)") (auto simp: bindS_def)

section \<open>Lists\<close>

fun strip_prefix :: "'a list \<Rightarrow> 'a list \<Rightarrow> 'a list option" where
  "strip_prefix [] s = Some s"
| "strip_prefix (c # p) [] = None"
| "strip_prefix (c # p) (d # s) = (if c = d then strip_prefix p s else None)"

lemma strip_prefix_eq_Some [simp]: "strip_prefix p s = Some r \<longleftrightarrow> s = p @ r"
  by (induction p s rule: strip_prefix.induct) auto

lemma strip_prefix_append: "strip_prefix p s = Some r \<Longrightarrow> strip_prefix p (s @ t) = Some (r @ t)"
  by simp

text \<open>The first element of a list that satisfies a predicate, with the elements after it.\<close>

fun find_rest :: "('a \<Rightarrow> bool) \<Rightarrow> 'a list \<Rightarrow> ('a \<times> 'a list) option" where
  "find_rest P [] = None"
| "find_rest P (x # xs) = (if P x then Some (x, xs) else find_rest P xs)"

text \<open>
  A stable sort keeps, for every key, the elements with that key in their order; \<open>sort_key\<close> of
  the library is the sort that Go's \<open>sort.SliceStable\<close> specifies when the comparison is the
  strict order of a key.
\<close>

lemma sort_key_filter_stable: "filter (\<lambda>x. f x = k) (sort_key f xs) = filter (\<lambda>x. f x = k) xs"
  by (rule sort_key_stable)

lemma sort_key_hd_min:
  assumes "sort_key f xs = y # ys" and "x \<in> set xs"
  shows "f y \<le> f x"
proof -
  have "sorted (map f (y # ys))"
    using sorted_sort_key [of f xs] by (simp add: assms(1))
  moreover have "x \<in> set (y # ys)"
    using assms by (metis set_sort)
  ultimately show ?thesis by auto
qed

text \<open>Sums over the elements that satisfy a predicate: what an aggregate query computes.\<close>

definition sum_where :: "('r \<Rightarrow> bool) \<Rightarrow> ('r \<Rightarrow> int) \<Rightarrow> 'r list \<Rightarrow> int" where
  "sum_where P f rs = sum_list (map f (filter P rs))"

lemma sum_where_Nil [simp]: "sum_where P f [] = 0"
  by (simp add: sum_where_def)

lemma sum_where_Cons [simp]:
  "sum_where P f (r # rs) = (if P r then f r else 0) + sum_where P f rs"
  by (simp add: sum_where_def)

lemma sum_where_append [simp]: "sum_where P f (rs @ qs) = sum_where P f rs + sum_where P f qs"
  by (simp add: sum_where_def)

lemma sum_where_cong:
  "(\<And>r. r \<in> set rs \<Longrightarrow> P r = Q (h r)) \<Longrightarrow> (\<And>r. r \<in> set rs \<Longrightarrow> P r \<Longrightarrow> f r = g (h r)) \<Longrightarrow>
   sum_where P f rs = sum_where Q g (map h rs)"
  by (induction rs) auto

lemma sum_where_mono:
  "(\<And>r. r \<in> set rs \<Longrightarrow> P r \<Longrightarrow> Q r) \<Longrightarrow> (\<And>r. r \<in> set rs \<Longrightarrow> 0 \<le> f r) \<Longrightarrow>
   sum_where P f rs \<le> sum_where Q f rs"
proof (induction rs)
  case Nil
  then show ?case by simp
next
  case (Cons r rs)
  have "sum_where P f rs \<le> sum_where Q f rs"
    using Cons.IH Cons.prems by simp
  moreover have "(if P r then f r else 0) \<le> (if Q r then f r else 0)"
    using Cons.prems [of r] by auto
  ultimately show ?case by simp
qed

lemma sum_where_nonneg: "(\<And>r. r \<in> set rs \<Longrightarrow> 0 \<le> f r) \<Longrightarrow> 0 \<le> sum_where P f rs"
  by (induction rs) auto

end
