(* ===== verification/Texts.thy ===== *)
theory Texts
  imports Prelude
begin

text \<open>
  The operations of Go's \<open>strings\<close> and \<open>strconv\<close> packages that the gateway uses. A Go string is a
  sequence of bytes, here a list of \<open>char\<close>. White space is Unicode white space, given by the UTF-8
  encodings of the runes \<open>unicode.IsSpace\<close> accepts: none of these encodings begins with a
  continuation byte, so scanning the bytes finds exactly the runes the decoder finds. Letter case
  is modelled for the ASCII letters, to which the model names, roles and scheme names the gateway
  compares belong; \<open>EqualFold\<close> also knows the two runes outside ASCII that fold to ASCII letters.
\<close>

section \<open>White space\<close>

definition ws_runes :: "string list" where
  "ws_runes =
    [[CHR 0x09], [CHR 0x0A], [CHR 0x0B], [CHR 0x0C], [CHR 0x0D], [CHR 0x20],
     [CHR 0xC2, CHR 0x85], [CHR 0xC2, CHR 0xA0], [CHR 0xE1, CHR 0x9A, CHR 0x80],
     [CHR 0xE2, CHR 0x80, CHR 0x80], [CHR 0xE2, CHR 0x80, CHR 0x81],
     [CHR 0xE2, CHR 0x80, CHR 0x82], [CHR 0xE2, CHR 0x80, CHR 0x83],
     [CHR 0xE2, CHR 0x80, CHR 0x84], [CHR 0xE2, CHR 0x80, CHR 0x85],
     [CHR 0xE2, CHR 0x80, CHR 0x86], [CHR 0xE2, CHR 0x80, CHR 0x87],
     [CHR 0xE2, CHR 0x80, CHR 0x88], [CHR 0xE2, CHR 0x80, CHR 0x89],
     [CHR 0xE2, CHR 0x80, CHR 0x8A], [CHR 0xE2, CHR 0x80, CHR 0xA8],
     [CHR 0xE2, CHR 0x80, CHR 0xA9], [CHR 0xE2, CHR 0x80, CHR 0xAF],
     [CHR 0xE2, CHR 0x81, CHR 0x9F], [CHR 0xE3, CHR 0x80, CHR 0x80]]"

fun strip_any :: "'a list list \<Rightarrow> 'a list \<Rightarrow> 'a list option" where
  "strip_any [] s = None"
| "strip_any (e # es) s =
     (case strip_prefix e s of Some r \<Rightarrow> Some r | None \<Rightarrow> strip_any es s)"

lemma strip_any_SomeE:
  assumes "strip_any es s = Some r"
  obtains e where "e \<in> set es" and "s = e @ r"
  using assms by (induction es) (auto split: option.splits)

lemma strip_any_None_iff: "strip_any es s = None \<longleftrightarrow> (\<forall>e \<in> set es. strip_prefix e s = None)"
  by (induction es) (auto split: option.splits)

lemma strip_any_prefix: "strip_any es s \<noteq> None \<Longrightarrow> strip_any es (s @ t) \<noteq> None"
proof -
  assume "strip_any es s \<noteq> None"
  then obtain r where "strip_any es s = Some r" by blast
  then obtain e where e: "e \<in> set es" "s = e @ r" by (elim strip_any_SomeE)
  then have "strip_prefix e (s @ t) = Some (r @ t)" by simp
  with e(1) show ?thesis unfolding strip_any_None_iff by (metis option.distinct(1))
qed

lemma ws_runes_nonempty: "e \<in> set ws_runes \<Longrightarrow> e \<noteq> []"
  by (auto simp: ws_runes_def)

lemma strip_ws_shorter: "strip_any ws_runes s = Some r \<Longrightarrow> length r < length s"
  by (auto elim!: strip_any_SomeE dest: ws_runes_nonempty)

lemma strip_rev_ws_shorter: "strip_any (map rev ws_runes) s = Some r \<Longrightarrow> length r < length s"
  by (auto elim!: strip_any_SomeE dest: ws_runes_nonempty)

text \<open>Removing the runes of a set from the front of a string, one at a time.\<close>

function trim_front :: "'a list list \<Rightarrow> 'a list \<Rightarrow> 'a list" where
  "trim_front es s =
     (case strip_any es s of
        None \<Rightarrow> s
      | Some r \<Rightarrow> if length r < length s then trim_front es r else s)"
  by pat_completeness auto
termination
  by (relation "measure (\<lambda>(es, s). length s)") auto

declare trim_front.simps [simp del]

lemma trim_front_Some:
  "strip_any es s = Some r \<Longrightarrow> length r < length s \<Longrightarrow> trim_front es s = trim_front es r"
  by (subst trim_front.simps) simp

lemma trim_front_id: "strip_any es s = None \<Longrightarrow> trim_front es s = s"
  by (subst trim_front.simps) simp

lemma trim_front_stuck:
  "strip_any es s = Some r \<Longrightarrow> \<not> length r < length s \<Longrightarrow> trim_front es s = s"
  by (subst trim_front.simps) simp

lemma trim_front_suffix: "\<exists>p. s = p @ trim_front es s"
proof (induction es s rule: trim_front.induct)
  case (1 es s)
  show ?case
  proof (cases "strip_any es s")
    case None
    then show ?thesis by (simp add: trim_front_id)
  next
    case (Some r)
    then obtain e where e: "s = e @ r" by (elim strip_any_SomeE)
    show ?thesis
    proof (cases "length r < length s")
      case True
      with "1.IH" [OF Some True] obtain p where "r = p @ trim_front es r" by blast
      then have "s = (e @ p) @ trim_front es r" using e by simp
      with Some True show ?thesis by (metis trim_front_Some)
    next
      case False
      with Some show ?thesis by (simp add: trim_front_stuck)
    qed
  qed
qed

lemma trim_front_done:
  assumes shorter: "\<And>s r. strip_any es s = Some r \<Longrightarrow> length r < length s"
  shows "strip_any es (trim_front es s) = None"
proof (induction s rule: length_induct)
  case (1 s)
  show ?case
  proof (cases "strip_any es s")
    case None
    then show ?thesis by (simp add: trim_front_id)
  next
    case (Some r)
    have len: "length r < length s" by (rule shorter) (rule Some)
    with 1 have "strip_any es (trim_front es r) = None" by blast
    then show ?thesis by (simp add: trim_front_Some [OF Some len])
  qed
qed

definition trim_left :: "string \<Rightarrow> string" where
  "trim_left s = trim_front ws_runes s"

definition trim_right :: "string \<Rightarrow> string" where
  "trim_right s = rev (trim_front (map rev ws_runes) (rev s))"

text \<open>\<open>strings.TrimSpace\<close>\<close>

definition trim_space :: "string \<Rightarrow> string" where
  "trim_space s = trim_right (trim_left s)"

lemma trim_left_done: "strip_any ws_runes (trim_left s) = None"
  unfolding trim_left_def by (rule trim_front_done) (rule strip_ws_shorter)

lemma trim_right_done: "strip_any (map rev ws_runes) (rev (trim_right s)) = None"
  unfolding trim_right_def rev_rev_ident
  by (rule trim_front_done) (rule strip_rev_ws_shorter)

lemma trim_right_prefix: "\<exists>q. s = trim_right s @ q"
proof -
  obtain p where "rev s = p @ trim_front (map rev ws_runes) (rev s)"
    using trim_front_suffix by blast
  then have "s = rev (trim_front (map rev ws_runes) (rev s)) @ rev p"
    by (metis rev_append rev_rev_ident)
  then show ?thesis by (auto simp: trim_right_def)
qed

lemma trim_space_front: "strip_any ws_runes (trim_space s) = None"
proof -
  obtain q where "trim_left s = trim_space s @ q"
    using trim_right_prefix by (auto simp: trim_space_def)
  then show ?thesis
    using trim_left_done [of s] strip_any_prefix [of ws_runes "trim_space s" q] by metis
qed

lemma trim_space_idem [simp]: "trim_space (trim_space s) = trim_space s"
proof -
  have "trim_left (trim_space s) = trim_space s"
    by (simp add: trim_left_def trim_front_id trim_space_front)
  moreover have "trim_right (trim_space s) = trim_space s"
  proof -
    have "strip_any (map rev ws_runes) (rev (trim_space s)) = None"
      by (simp add: trim_space_def trim_right_done)
    then show ?thesis
      by (simp add: trim_right_def trim_front_id)
  qed
  ultimately show ?thesis by (metis trim_space_def)
qed

lemma trim_space_Nil [simp]: "trim_space [] = []"
  by (simp add: trim_space_def trim_left_def trim_right_def trim_front.simps ws_runes_def)

section \<open>Fields\<close>

text \<open>
  \<open>strings.Fields\<close>: the maximal runs of bytes between white-space runes. The first argument
  collects the current run in reverse.
\<close>

function fields_from :: "string \<Rightarrow> string \<Rightarrow> string list" where
  "fields_from cur [] = (if cur = [] then [] else [rev cur])"
| "fields_from cur (c # s) =
     (case strip_any ws_runes (c # s) of
        Some r \<Rightarrow> (if cur = [] then [] else [rev cur]) @ fields_from [] r
      | None \<Rightarrow> fields_from (c # cur) s)"
  by pat_completeness auto
termination
  by (relation "measure (\<lambda>(cur, s). length s)") (auto dest: strip_ws_shorter)

declare fields_from.simps(2) [simp del]

definition text_fields :: "string \<Rightarrow> string list" where
  "text_fields s = fields_from [] s"

lemma fields_from_nonempty: "cur \<noteq> [] \<Longrightarrow> fields_from cur s \<noteq> []"
  by (induction cur s rule: fields_from.induct) (auto simp: fields_from.simps split: option.splits)

lemma fields_nonempty: "s \<noteq> [] \<Longrightarrow> strip_any ws_runes s = None \<Longrightarrow> text_fields s \<noteq> []"
  by (cases s) (simp_all add: text_fields_def fields_from.simps fields_from_nonempty)

text \<open>
  Every byte of a white-space rune after its first is a continuation byte, and the first is not.
  So a rune found by the scan never straddles the start of another rune, and a white-space rune
  cuts the scan into two independent halves.
\<close>

definition cont_byte :: "char \<Rightarrow> bool" where
  "cont_byte c \<longleftrightarrow> 128 \<le> (of_char c :: nat) \<and> (of_char c :: nat) < 192"

lemma ws_rune_shape: "e \<in> set ws_runes \<Longrightarrow> \<not> cont_byte (hd e) \<and> list_all cont_byte (tl e)"
  by (auto simp: ws_runes_def cont_byte_def)

lemma strip_prefix_conts:
  assumes "list_all cont_byte e" and "y \<noteq> []" and "\<not> cont_byte (hd y)"
  shows "strip_prefix e (x @ y) = map_option (\<lambda>r. r @ y) (strip_prefix e x)"
  using assms(1)
proof (induction e x rule: strip_prefix.induct)
  case (2 c p)
  then show ?case using assms(2,3) by (cases y) auto
qed simp_all

lemma strip_prefix_before_start:
  assumes "list_all cont_byte (tl e)" and "x \<noteq> []" and "y \<noteq> []" and "\<not> cont_byte (hd y)"
  shows "strip_prefix e (x @ y) = map_option (\<lambda>r. r @ y) (strip_prefix e x)"
  using assms by (cases e; cases x) (simp_all add: strip_prefix_conts del: strip_prefix_eq_Some)

lemma strip_any_before_start:
  assumes "\<forall>e \<in> set es. list_all cont_byte (tl e)"
    and "x \<noteq> []" and "y \<noteq> []" and "\<not> cont_byte (hd y)"
  shows "strip_any es (x @ y) = map_option (\<lambda>r. r @ y) (strip_any es x)"
  using assms(1)
proof (induction es)
  case (Cons e es)
  with strip_prefix_before_start [of e x y] assms(2-4) show ?case
    by (cases "strip_prefix e x") (simp_all del: strip_prefix_eq_Some)
qed simp

lemma strip_ws_before_rune:
  assumes "x \<noteq> []" and "e \<in> set ws_runes"
  shows "strip_any ws_runes (x @ e @ b) = map_option (\<lambda>r. r @ e @ b) (strip_any ws_runes x)"
  using assms ws_rune_shape ws_runes_nonempty
  by (intro strip_any_before_start) auto

lemma strip_ws_rune:
  assumes "e \<in> set ws_runes"
  shows "strip_any ws_runes (e @ b) = Some b"
  using assms by (auto simp: ws_runes_def)

lemma fields_from_rune:
  assumes "e \<in> set ws_runes"
  shows "fields_from cur (a @ e @ b) = fields_from cur a @ fields_from [] b"
proof (induction cur a rule: fields_from.induct)
  case (1 cur)
  obtain d ds where e: "e = d # ds"
    using ws_runes_nonempty [OF assms] by (cases e) auto
  show ?case
    using strip_ws_rune [OF assms, of b] by (simp add: e fields_from.simps(2))
next
  case (2 cur c s)
  have "strip_any ws_runes (c # s @ e @ b) =
      map_option (\<lambda>r. r @ e @ b) (strip_any ws_runes (c # s))"
    using strip_ws_before_rune [of "c # s" e b] assms by simp
  with 2 show ?case
    by (cases "strip_any ws_runes (c # s)") (simp_all add: fields_from.simps(2))
qed

lemma fields_rune: "e \<in> set ws_runes \<Longrightarrow> text_fields (a @ e @ b) = text_fields a @ text_fields b"
  by (simp add: text_fields_def fields_from_rune)

lemma fields_space: "text_fields (a @ CHR '' '' # b) = text_fields a @ text_fields b"
  using fields_rune [of "'' ''" a b] by (simp add: ws_runes_def)

lemma fields_Nil [simp]: "text_fields [] = []"
  by (simp add: text_fields_def)

text \<open>Leading white space adds no field, so trimming on the left changes none.\<close>

lemma fields_trim_left: "text_fields (trim_left s) = text_fields s"
  unfolding trim_left_def
proof (induction "ws_runes" s rule: trim_front.induct)
  case (1 s)
  show ?case
  proof (cases "strip_any ws_runes s")
    case None
    then show ?thesis by (simp add: trim_front_id)
  next
    case (Some r)
    then have len: "length r < length s" by (rule strip_ws_shorter)
    then have "text_fields s = text_fields r"
      using Some by (cases s) (simp_all add: text_fields_def fields_from.simps(2))
    with 1 [OF Some len] show ?thesis
      by (simp add: trim_front_Some [OF Some len])
  qed
qed

lemma fields_trim_right: "text_fields (trim_right s) = text_fields s"
proof -
  have "text_fields (rev (trim_front (map rev ws_runes) t)) = text_fields (rev t)" for t
  proof (induction t rule: length_induct)
    case (1 t)
    show ?case
    proof (cases "strip_any (map rev ws_runes) t")
      case None
      then show ?thesis by (simp add: trim_front_id)
    next
      case (Some r)
      then have len: "length r < length t" by (rule strip_rev_ws_shorter)
      from Some obtain e where e: "e \<in> set ws_runes" "t = rev e @ r"
        by (auto elim!: strip_any_SomeE)
      have "text_fields (rev t) = text_fields (rev r)"
        using fields_rune [OF e(1), of "rev r" "[]"] by (simp add: e(2))
      with 1 len show ?thesis by (simp add: trim_front_Some [OF Some len])
    qed
  qed
  then show ?thesis by (simp add: trim_right_def)
qed

lemma fields_trim_space [simp]: "text_fields (trim_space s) = text_fields s"
  by (simp add: trim_space_def fields_trim_right fields_trim_left)

section \<open>Runes\<close>

text \<open>
  The width in bytes of the rune at the head of a string, as \<open>utf8.DecodeRune\<close> reports it: a byte
  that does not start a well-formed sequence is one rune of width 1.
\<close>

definition byte_in :: "nat \<Rightarrow> nat \<Rightarrow> char \<Rightarrow> bool" where
  "byte_in lo hi c \<longleftrightarrow> lo \<le> (of_char c :: nat) \<and> (of_char c :: nat) \<le> hi"

definition rune_width :: "string \<Rightarrow> nat" where
  "rune_width s =
     (case s of
        c0 # c1 # c2 # c3 # _ \<Rightarrow>
          if byte_in 0xC2 0xDF c0 \<and> cont_byte c1 then 2
          else if byte_in 0xE0 0xEF c0 \<and> cont_byte c1 \<and> cont_byte c2 \<and>
            (of_char c0 = (0xE0::nat) \<longrightarrow> byte_in 0xA0 0xBF c1) \<and>
            (of_char c0 = (0xED::nat) \<longrightarrow> byte_in 0x80 0x9F c1) then 3
          else if byte_in 0xF0 0xF4 c0 \<and> cont_byte c1 \<and> cont_byte c2 \<and> cont_byte c3 \<and>
            (of_char c0 = (0xF0::nat) \<longrightarrow> byte_in 0x90 0xBF c1) \<and>
            (of_char c0 = (0xF4::nat) \<longrightarrow> byte_in 0x80 0x8F c1) then 4
          else 1
      | [c0, c1, c2] \<Rightarrow>
          if byte_in 0xC2 0xDF c0 \<and> cont_byte c1 then 2
          else if byte_in 0xE0 0xEF c0 \<and> cont_byte c1 \<and> cont_byte c2 \<and>
            (of_char c0 = (0xE0::nat) \<longrightarrow> byte_in 0xA0 0xBF c1) \<and>
            (of_char c0 = (0xED::nat) \<longrightarrow> byte_in 0x80 0x9F c1) then 3
          else 1
      | [c0, c1] \<Rightarrow> if byte_in 0xC2 0xDF c0 \<and> cont_byte c1 then 2 else 1
      | _ \<Rightarrow> 1)"

lemma rune_width_pos: "0 < rune_width s"
  by (simp add: rune_width_def split: list.splits)

function rune_count :: "string \<Rightarrow> nat" where
  "rune_count [] = 0"
| "rune_count (c # s) = Suc (rune_count (drop (rune_width (c # s)) (c # s)))"
  by pat_completeness auto
termination
  by (relation "measure length") (auto simp: rune_width_pos)

section \<open>Letter case\<close>

definition lower_char :: "char \<Rightarrow> char" where
  "lower_char c = (let n = of_char c :: nat in if 65 \<le> n \<and> n \<le> 90 then char_of (n + 32) else c)"

text \<open>\<open>strings.ToLower\<close> on ASCII letters.\<close>

definition to_lower :: "string \<Rightarrow> string" where
  "to_lower s = map lower_char s"

lemma lower_char_idem [simp]: "lower_char (lower_char c) = lower_char c"
  by (simp add: lower_char_def Let_def)

lemma to_lower_idem [simp]: "to_lower (to_lower s) = to_lower s"
  by (simp add: to_lower_def)

lemma to_lower_Nil [simp]: "to_lower [] = []"
  by (simp add: to_lower_def)

text \<open>
  \<open>strings.EqualFold\<close>: equality under simple case folding. The Kelvin sign folds to \<open>k\<close> and the
  long s to \<open>s\<close>; they are the only runes outside ASCII that fold to an ASCII letter.
\<close>

fun fold_key :: "string \<Rightarrow> string" where
  "fold_key (a # b # c # s) =
     (if a = CHR 0xE2 \<and> b = CHR 0x84 \<and> c = CHR 0xAA then CHR ''k'' # fold_key s
      else if a = CHR 0xC5 \<and> b = CHR 0xBF then CHR ''s'' # fold_key (c # s)
      else lower_char a # fold_key (b # c # s))"
| "fold_key [a, b] = (if a = CHR 0xC5 \<and> b = CHR 0xBF then ''s'' else [lower_char a, lower_char b])"
| "fold_key [a] = [lower_char a]"
| "fold_key [] = []"

definition equal_fold :: "string \<Rightarrow> string \<Rightarrow> bool" where
  "equal_fold s t \<longleftrightarrow> fold_key s = fold_key t"

lemma equal_fold_refl [simp]: "equal_fold s s"
  by (simp add: equal_fold_def)

lemma equal_fold_sym: "equal_fold s t \<Longrightarrow> equal_fold t s"
  by (simp add: equal_fold_def)

lemma equal_fold_trans: "equal_fold s t \<Longrightarrow> equal_fold t u \<Longrightarrow> equal_fold s u"
  by (simp add: equal_fold_def)

section \<open>Searching, splitting and joining\<close>

definition has_prefix :: "string \<Rightarrow> string \<Rightarrow> bool" where
  "has_prefix s p \<longleftrightarrow> strip_prefix p s \<noteq> None"

definition trim_prefix :: "string \<Rightarrow> string \<Rightarrow> string" where
  "trim_prefix s p = (case strip_prefix p s of None \<Rightarrow> s | Some r \<Rightarrow> r)"

lemma has_prefix_iff: "has_prefix s p \<longleftrightarrow> (\<exists>r. s = p @ r)"
  by (auto simp: has_prefix_def)

lemma trim_prefix_append [simp]: "trim_prefix (p @ r) p = r"
proof -
  have "strip_prefix p (p @ r) = Some r" by simp
  then show ?thesis by (simp add: trim_prefix_def del: strip_prefix_eq_Some)
qed

definition trim_suffix :: "string \<Rightarrow> string \<Rightarrow> string" where
  "trim_suffix s p = rev (trim_prefix (rev s) (rev p))"

lemma trim_suffix_append [simp]: "trim_suffix (r @ p) p = r"
  by (simp add: trim_suffix_def)

text \<open>\<open>strings.TrimRight(s, "c")\<close> for a single ASCII character.\<close>

definition trim_right_char :: "char \<Rightarrow> string \<Rightarrow> string" where
  "trim_right_char c s = rev (dropWhile (\<lambda>x. x = c) (rev s))"

text \<open>\<open>strings.Contains\<close>\<close>

fun contains :: "string \<Rightarrow> string \<Rightarrow> bool" where
  "contains [] p = (p = [])"
| "contains (c # s) p = (has_prefix (c # s) p \<or> contains s p)"

lemma contains_iff: "contains s p \<longleftrightarrow> (\<exists>a b. s = a @ p @ b)"
proof (induction s)
  case Nil
  then show ?case by simp
next
  case (Cons c s)
  note IH = Cons.IH
  show ?case
  proof
    assume "contains (c # s) p"
    then consider r where "c # s = p @ r" | a b where "s = a @ p @ b"
      by (auto simp: has_prefix_iff IH)
    then show "\<exists>a b. c # s = a @ p @ b"
    proof cases
      case 1
      then have "c # s = [] @ p @ r" by simp
      then show ?thesis by blast
    next
      case 2
      then have "c # s = (c # a) @ p @ b" by simp
      then show ?thesis by blast
    qed
  next
    assume "\<exists>a b. c # s = a @ p @ b"
    then obtain a b where ab: "c # s = a @ p @ b" by blast
    show "contains (c # s) p"
    proof (cases a)
      case Nil
      with ab have "has_prefix (c # s) p" by (auto simp: has_prefix_iff)
      then show ?thesis by simp
    next
      case (Cons x xs)
      with ab have "s = xs @ p @ b" by simp
      then have "contains s p" unfolding IH by blast
      then show ?thesis by simp
    qed
  qed
qed

text \<open>
  \<open>strings.Split(s, sep)\<close> for a one-character separator, and \<open>strings.SplitN(s, sep, 2)\<close>, which
  cuts at the first separator only.
\<close>

fun split_char :: "char \<Rightarrow> string \<Rightarrow> string list" where
  "split_char d [] = [[]]"
| "split_char d (c # s) =
     (if c = d then [] # split_char d s
      else case split_char d s of [] \<Rightarrow> [[c]] | w # ws \<Rightarrow> (c # w) # ws)"

fun split_n2 :: "char \<Rightarrow> string \<Rightarrow> string list" where
  "split_n2 d [] = [[]]"
| "split_n2 d (c # s) =
     (if c = d then [[], s]
      else case split_n2 d s of [] \<Rightarrow> [[c]] | w # ws \<Rightarrow> (c # w) # ws)"

lemma split_char_nonempty: "split_char d s \<noteq> []"
  by (cases s) (auto split: list.splits)

lemma split_char_append: "d \<notin> set a \<Longrightarrow> split_char d (a @ d # b) = a # split_char d b"
  by (induction a) auto

lemma split_char_absent: "d \<notin> set a \<Longrightarrow> split_char d a = [a]"
  by (induction a) auto

lemma split_n2_append: "d \<notin> set a \<Longrightarrow> split_n2 d (a @ d # b) = [a, b]"
  by (induction a) auto

lemma split_n2_absent: "d \<notin> set a \<Longrightarrow> split_n2 d a = [a]"
  by (induction a) auto

fun join :: "string \<Rightarrow> string list \<Rightarrow> string" where
  "join sep [] = []"
| "join sep [w] = w"
| "join sep (w # v # ws) = w @ sep @ join sep (v # ws)"

text \<open>\<open>strings.ReplaceAll(s, "c", r)\<close> for a single character.\<close>

definition replace_char :: "char \<Rightarrow> string \<Rightarrow> string \<Rightarrow> string" where
  "replace_char c r s = concat (map (\<lambda>x. if x = c then r else [x]) s)"

text \<open>
  \<open>ReadString('\n')\<close>: the bytes before the first newline and the bytes after it. The end of the
  input is an error.
\<close>

fun read_line :: "string \<Rightarrow> (string \<times> string) option" where
  "read_line [] = None"
| "read_line (c # s) =
     (if c = CHR 0x0A then Some ([], s)
      else case read_line s of None \<Rightarrow> None | Some (l, r) \<Rightarrow> Some (c # l, r))"

lemma read_line_shorter: "read_line s = Some (l, r) \<Longrightarrow> length r < length s"
  by (induction s arbitrary: l r) (auto split: if_splits option.splits)

lemma read_line_append:
  "CHR 0x0A \<notin> set l \<Longrightarrow> read_line (l @ CHR 0x0A # r) = Some (l, r)"
  by (induction l) auto

section \<open>Decimal numbers\<close>

definition digit_char :: "int \<Rightarrow> char" where
  "digit_char d = char_of (48 + d)"

function digits_of :: "int \<Rightarrow> string" where
  "digits_of n = (if n < 10 then [digit_char n] else digits_of (n div 10) @ [digit_char (n mod 10)])"
  by pat_completeness auto
termination
  by (relation "measure nat") auto

declare digits_of.simps [simp del]

text \<open>\<open>strconv.Itoa\<close>, and \<open>%d\<close> of \<open>fmt.Sprintf\<close>.\<close>

definition itoa :: "int \<Rightarrow> string" where
  "itoa i = (if i < 0 then CHR ''-'' # digits_of (- i) else digits_of i)"

definition is_digit :: "char \<Rightarrow> bool" where
  "is_digit c \<longleftrightarrow> 48 \<le> (of_char c :: int) \<and> (of_char c :: int) \<le> 57"

definition digit_val :: "char \<Rightarrow> int" where
  "digit_val c = of_char c - 48"

definition digits_val :: "string \<Rightarrow> int" where
  "digits_val s = foldl (\<lambda>n c. 10 * n + digit_val c) 0 s"

text \<open>
  \<open>strconv.Atoi\<close> and \<open>strconv.ParseInt(s, 10, 64)\<close>: an optional sign, at least one digit and
  nothing else; \<open>None\<close> stands for the syntax error and for the range error.
\<close>

definition parse_digits :: "string \<Rightarrow> int option" where
  "parse_digits s = (if s \<noteq> [] \<and> list_all is_digit s then Some (digits_val s) else None)"

definition parse_signed :: "string \<Rightarrow> int option" where
  "parse_signed s =
     (case s of
        [] \<Rightarrow> None
      | c # r \<Rightarrow> if c = CHR ''-'' then map_option uminus (parse_digits r)
                else if c = CHR ''+'' then parse_digits r
                else parse_digits s)"

definition atoi :: "string \<Rightarrow> int option" where
  "atoi s =
     (case parse_signed s of
        Some i \<Rightarrow> if in_int64 i then Some i else None
      | None \<Rightarrow> None)"

lemma of_char_digit: "0 \<le> d \<Longrightarrow> d < 10 \<Longrightarrow> (of_char (digit_char d) :: int) = 48 + d"
  by (simp add: digit_char_def)

lemma is_digit_digit_char [simp]: "0 \<le> d \<Longrightarrow> d < 10 \<Longrightarrow> is_digit (digit_char d)"
  by (simp add: is_digit_def of_char_digit)

lemma digit_val_digit_char [simp]: "0 \<le> d \<Longrightarrow> d < 10 \<Longrightarrow> digit_val (digit_char d) = d"
  by (simp add: digit_val_def of_char_digit)

lemma digits_val_snoc [simp]: "digits_val (s @ [c]) = 10 * digits_val s + digit_val c"
  by (simp add: digits_val_def)

lemma digits_of_nonempty [simp]: "digits_of n \<noteq> []"
  by (subst digits_of.simps) simp

lemma digits_of_all: "0 \<le> n \<Longrightarrow> list_all is_digit (digits_of n)"
proof (induction n rule: digits_of.induct)
  case (1 n)
  then show ?case by (cases "n < 10") (simp_all add: digits_of.simps [of n])
qed

lemma digits_val_digits_of [simp]: "0 \<le> n \<Longrightarrow> digits_val (digits_of n) = n"
proof (induction n rule: digits_of.induct)
  case (1 n)
  show ?case
  proof (cases "n < 10")
    case True
    with 1 show ?thesis by (simp add: digits_of.simps [of n] digits_val_def)
  next
    case False
    with 1 show ?thesis by (simp add: digits_of.simps [of n])
  qed
qed

lemma parse_digits_digits_of [simp]: "0 \<le> n \<Longrightarrow> parse_digits (digits_of n) = Some n"
  by (simp add: parse_digits_def digits_of_all)

lemma in_digits_of: "0 \<le> n \<Longrightarrow> c \<in> set (digits_of n) \<Longrightarrow> is_digit c"
  using digits_of_all [of n] by (simp add: list_all_iff)

lemma digits_of_head: "0 \<le> n \<Longrightarrow> digits_of n = c # r \<Longrightarrow> c \<noteq> CHR ''-'' \<and> c \<noteq> CHR ''+''"
  using in_digits_of [of n c] by (auto simp: is_digit_def)

lemma parse_signed_digits_of: "0 \<le> n \<Longrightarrow> parse_signed (digits_of n) = Some n"
proof (cases "digits_of n")
  case (Cons c r)
  assume n: "0 \<le> n"
  with digits_of_head [OF n Cons] parse_digits_digits_of [OF n] Cons show ?thesis
    by (simp add: parse_signed_def)
qed simp

lemma parse_signed_itoa [simp]: "parse_signed (itoa i) = Some i"
  by (cases "i < 0") (simp_all add: itoa_def parse_signed_digits_of, simp add: parse_signed_def)

lemma atoi_itoa: "in_int64 i \<Longrightarrow> atoi (itoa i) = Some i"
  by (simp add: atoi_def)

lemma itoa_inj: "itoa i = itoa j \<Longrightarrow> i = j"
  by (metis option.inject parse_signed_itoa)

lemma in_itoa: "c \<in> set (itoa i) \<Longrightarrow> c = CHR ''-'' \<or> is_digit c"
  using in_digits_of [of i c] in_digits_of [of "- i" c]
  by (auto simp: itoa_def split: if_splits)

end
