(* ===== verification/Errors.thy ===== *)
theory Errors
  imports Texts
begin

text \<open>
  Go errors as values: the sentinel errors of the gateway's packages and of the standard library
  it compares against, errors made from a text, and the wrapping errors. \<open>Panic\<close> is the run-time
  panic of the standard library, which is no error value in Go but ends the call as one. A wrapper
  is inspected with \<open>errors.Is\<close> and \<open>errors.As\<close>, which walk the chain of causes.
\<close>

datatype err =
    ErrPrincipalNotFound | ErrRateLimitExceeded | ErrTokenLimitExceeded | ErrBudgetExceeded
  | ErrLimiterUnavailable
  | ErrMissingAPIKey | ErrInvalidAPIKey | ErrDisabledAPIKey | ErrAPIKeyNotFound
  | UsagePrincipalNotFound | UsageInvalidLimit
  | ErrInvalidRequest
  | MockCreateFailed | MockStreamFailed
  | SqlNoRows | CtxCanceled | CtxDeadlineExceeded | IoEOF
  | MaxBytesError
  | NewErr string
  | Panic string
  | NetError string
  | UrlError string err
  | AttemptAccountingError err
  | RetryableError err
  | WrapErr string err
  | JoinErr "err list"

type_synonym 'a res = "err + 'a"

text \<open>The \<open>Error()\<close> method.\<close>

fun err_text :: "err \<Rightarrow> string" where
  "err_text ErrPrincipalNotFound = ''principal not found''"
| "err_text ErrRateLimitExceeded = ''rate limit exceeded''"
| "err_text ErrTokenLimitExceeded = ''token rate limit exceeded''"
| "err_text ErrBudgetExceeded = ''budget exceeded''"
| "err_text ErrLimiterUnavailable = ''limiter unavailable''"
| "err_text ErrMissingAPIKey = ''missing api key''"
| "err_text ErrInvalidAPIKey = ''invalid api key''"
| "err_text ErrDisabledAPIKey = ''disabled api key''"
| "err_text ErrAPIKeyNotFound = ''api key not found''"
| "err_text UsagePrincipalNotFound = ''principal not found''"
| "err_text UsageInvalidLimit = ''invalid limit''"
| "err_text ErrInvalidRequest = ''messages are required''"
| "err_text MockCreateFailed = ''mock provider create failed''"
| "err_text MockStreamFailed = ''mock provider stream failed''"
| "err_text SqlNoRows = ''sql: no rows in result set''"
| "err_text CtxCanceled = ''context canceled''"
| "err_text CtxDeadlineExceeded = ''context deadline exceeded''"
| "err_text IoEOF = ''EOF''"
| "err_text MaxBytesError = ''http: request body too large''"
| "err_text (NewErr t) = t"
| "err_text (Panic t) = t"
| "err_text (NetError t) = t"
| "err_text (UrlError t e) = t @ '': '' @ err_text e"
| "err_text (AttemptAccountingError e) = err_text e"
| "err_text (RetryableError e) = err_text e"
| "err_text (WrapErr t e) = t @ '': '' @ err_text e"
| "err_text (JoinErr es) = join [CHR 0x0A] (map err_text es)"

text \<open>\<open>errors.Is\<close>: the error itself or one in its chain of causes is the target.\<close>

fun errors_is :: "err \<Rightarrow> err \<Rightarrow> bool" where
  "errors_is e t \<longleftrightarrow> e = t \<or>
     (case e of
        UrlError _ c \<Rightarrow> errors_is c t
      | AttemptAccountingError c \<Rightarrow> errors_is c t
      | RetryableError c \<Rightarrow> errors_is c t
      | WrapErr _ c \<Rightarrow> errors_is c t
      | JoinErr cs \<Rightarrow> list_ex (\<lambda>c. errors_is c t) cs
      | _ \<Rightarrow> False)"

declare errors_is.simps [simp del]

lemma errors_is_refl [simp]: "errors_is e e"
  by (simp add: errors_is.simps)

lemma errors_is_wrap [simp]:
  "errors_is (UrlError s c) t \<longleftrightarrow> UrlError s c = t \<or> errors_is c t"
  "errors_is (AttemptAccountingError c) t \<longleftrightarrow> AttemptAccountingError c = t \<or> errors_is c t"
  "errors_is (RetryableError c) t \<longleftrightarrow> RetryableError c = t \<or> errors_is c t"
  "errors_is (WrapErr s c) t \<longleftrightarrow> WrapErr s c = t \<or> errors_is c t"
  by (simp_all add: errors_is.simps [of "UrlError s c"] errors_is.simps [of "RetryableError c"]
      errors_is.simps [of "AttemptAccountingError c"] errors_is.simps [of "WrapErr s c"])

text \<open>\<open>errors.As\<close> for the three error types the gateway extracts.\<close>

fun IsAttemptAccountingError :: "err \<Rightarrow> bool" where
  "IsAttemptAccountingError (AttemptAccountingError e) = True"
| "IsAttemptAccountingError (UrlError _ e) = IsAttemptAccountingError e"
| "IsAttemptAccountingError (RetryableError e) = IsAttemptAccountingError e"
| "IsAttemptAccountingError (WrapErr _ e) = IsAttemptAccountingError e"
| "IsAttemptAccountingError (JoinErr es) = list_ex IsAttemptAccountingError es"
| "IsAttemptAccountingError _ = False"

fun is_retryable_error :: "err \<Rightarrow> bool" where
  "is_retryable_error (RetryableError e) = True"
| "is_retryable_error (UrlError _ e) = is_retryable_error e"
| "is_retryable_error (AttemptAccountingError e) = is_retryable_error e"
| "is_retryable_error (WrapErr _ e) = is_retryable_error e"
| "is_retryable_error (JoinErr es) = list_ex is_retryable_error es"
| "is_retryable_error _ = False"

text \<open>
  \<open>net.Error\<close> is implemented by the network errors, by the \<open>*url.Error\<close> that \<open>http.Client.Do\<close>
  returns and by \<open>context.DeadlineExceeded\<close>.
\<close>

fun is_net_error :: "err \<Rightarrow> bool" where
  "is_net_error (NetError _) = True"
| "is_net_error (UrlError _ e) = True"
| "is_net_error CtxDeadlineExceeded = True"
| "is_net_error (AttemptAccountingError e) = is_net_error e"
| "is_net_error (RetryableError e) = is_net_error e"
| "is_net_error (WrapErr _ e) = is_net_error e"
| "is_net_error (JoinErr es) = list_ex is_net_error es"
| "is_net_error _ = False"

fun is_max_bytes_error :: "err \<Rightarrow> bool" where
  "is_max_bytes_error MaxBytesError = True"
| "is_max_bytes_error (UrlError _ e) = is_max_bytes_error e"
| "is_max_bytes_error (AttemptAccountingError e) = is_max_bytes_error e"
| "is_max_bytes_error (RetryableError e) = is_max_bytes_error e"
| "is_max_bytes_error (WrapErr _ e) = is_max_bytes_error e"
| "is_max_bytes_error (JoinErr es) = list_ex is_max_bytes_error es"
| "is_max_bytes_error _ = False"

text \<open>\<open>WrapAttemptAccountingError\<close> wraps the error of a result and keeps \<open>nil\<close>.\<close>

definition WrapAttemptAccountingError :: "'a res \<Rightarrow> 'a res" where
  "WrapAttemptAccountingError r =
     (case r of Inl e \<Rightarrow> Inl (AttemptAccountingError e) | Inr x \<Rightarrow> Inr x)"

lemma WrapAttemptAccountingError_simps [simp]:
  "WrapAttemptAccountingError (Inl e) = Inl (AttemptAccountingError e)"
  "WrapAttemptAccountingError (Inr x) = Inr x"
  by (simp_all add: WrapAttemptAccountingError_def)

lemma accounting_sentinels [simp]:
  "\<not> IsAttemptAccountingError CtxDeadlineExceeded"
  "\<not> IsAttemptAccountingError CtxCanceled"
  "\<not> IsAttemptAccountingError (NewErr t)"
  by simp_all

end
