(* ===== verification/ProviderTypes.thy ===== *)
theory ProviderTypes
  imports Errors
begin

text \<open>
  The package \<open>internal/provider\<close>: the requests, responses and stream events that travel between
  the chat service, the router and the provider adapters (\<open>provider.go\<close>), the metadata of an
  upstream attempt and the recorder an adapter reports it to (\<open>attempts.go\<close>), and the token
  estimate used when an upstream reports no usage (\<open>tokens.go\<close>).
\<close>

section \<open>Requests, responses and stream events\<close>

record chat_message =
  msg_role :: string
  msg_content :: string

record chat_completion_request =
  req_model :: string
  req_messages :: "chat_message list"
  req_stream :: bool

record chat_choice =
  choice_index :: int
  choice_message :: chat_message
  choice_finish_reason :: string

record usage =
  prompt_tokens :: int
  completion_tokens :: int
  total_tokens :: int

record chat_completion_response =
  resp_id :: string
  resp_object :: string
  resp_created :: int
  resp_model :: string
  resp_choices :: "chat_choice list"
  resp_usage :: usage

record provider_model =
  model_id :: string
  model_object :: string
  model_created :: int
  model_owned_by :: string

record chat_completion_chunk =
  chunk_id :: string
  chunk_object :: string
  chunk_created :: int
  chunk_model :: string
  chunk_choices :: "chat_choice list"

text \<open>
  A stream event carries a chunk, or an error, in which case its chunk is the zero value.
\<close>

datatype stream_event = ChunkEvent chat_completion_chunk | ErrEvent err

section \<open>Attempts\<close>

record attempt_metadata =
  meta_backend :: string
  meta_model :: string
  meta_stream :: bool
  meta_prompt_tokens :: int
  meta_created_at :: time

record attempt_result =
  ares_model :: string
  ares_status :: string
  ares_prompt_tokens :: int
  ares_completion_tokens :: int
  ares_total_tokens :: int

text \<open>
  The interfaces \<open>AttemptBeginner\<close> and \<open>AttemptHandle\<close> as functions on a world \<open>'w\<close>: beginning an
  attempt gives a handle of type \<open>'h\<close> or an error, completing it gives an error or none. Of the
  context that beginning an attempt receives, the implementation reads the backend's name only.
\<close>

record ('w, 'h) attempt_recorder =
  begin_attempt :: "string \<Rightarrow> attempt_metadata \<Rightarrow> 'w \<Rightarrow> 'h res \<times> 'w"
  complete_attempt :: "'h \<Rightarrow> attempt_result \<Rightarrow> 'w \<Rightarrow> unit res \<times> 'w"

text \<open>
  The part of a \<open>context.Context\<close> this package stores: the recorder and the name of the backend
  the router is trying.
\<close>

record ('w, 'h) attempt_ctx =
  ctx_recorder :: "('w, 'h) attempt_recorder option"
  ctx_backend :: string

definition WithAttemptRecorder ::
    "('w, 'h) attempt_recorder option \<Rightarrow> ('w, 'h) attempt_ctx \<Rightarrow> ('w, 'h) attempt_ctx" where
  "WithAttemptRecorder r ctx = (if r = None then ctx else ctx\<lparr>ctx_recorder := r\<rparr>)"

definition WithAttemptBackend :: "string \<Rightarrow> ('w, 'h) attempt_ctx \<Rightarrow> ('w, 'h) attempt_ctx" where
  "WithAttemptBackend b ctx = (if b = [] then ctx else ctx\<lparr>ctx_backend := b\<rparr>)"

section \<open>Token estimates\<close>

definition EstimateTextTokens :: "string \<Rightarrow> int" where
  "EstimateTextTokens txt =
     (let t = trim_space txt in
      if t = [] then 0
      else let fs = text_fields t in
        if 0 < length fs then int (length fs) else int (rune_count t))"

definition EstimatePromptTokens :: "chat_message list \<Rightarrow> int" where
  "EstimatePromptTokens messages =
     EstimateTextTokens
       (concat (map (\<lambda>m. msg_role m @ '' '' @ msg_content m @ '' '') messages))"

text \<open>
  A non-empty trimmed text has a field, so the estimate is the number of fields: the count of
  runes is never reached.
\<close>

lemma estimate_text_tokens_fields: "EstimateTextTokens txt = int (length (text_fields txt))"
proof (cases "trim_space txt = []")
  case True
  then have "text_fields txt = []" by (metis fields_Nil fields_trim_space)
  with True show ?thesis by (simp add: EstimateTextTokens_def)
next
  case False
  then have "text_fields (trim_space txt) \<noteq> []"
    by (rule fields_nonempty) (rule trim_space_front)
  with False show ?thesis by (simp add: EstimateTextTokens_def Let_def)
qed

lemma estimate_text_tokens_nonneg [simp]: "0 \<le> EstimateTextTokens txt"
  by (simp add: estimate_text_tokens_fields)

lemma fields_prompt:
  "text_fields (concat (map (\<lambda>m. msg_role m @ '' '' @ msg_content m @ '' '') ms)) =
     concat (map (\<lambda>m. text_fields (msg_role m) @ text_fields (msg_content m)) ms)"
  by (induction ms) (simp_all add: fields_space)

lemma estimate_prompt_tokens_fields:
  "EstimatePromptTokens ms =
     (\<Sum>m\<leftarrow>ms. int (length (text_fields (msg_role m))) + int (length (text_fields (msg_content m))))"
  unfolding EstimatePromptTokens_def estimate_text_tokens_fields fields_prompt
  by (induction ms) simp_all

lemma estimate_prompt_tokens_nonneg [simp]: "0 \<le> EstimatePromptTokens ms"
  by (simp add: EstimatePromptTokens_def)

lemma estimate_prompt_tokens_Nil [simp]: "EstimatePromptTokens [] = 0"
  by (simp add: estimate_prompt_tokens_fields)

lemma estimate_prompt_tokens_append:
  "EstimatePromptTokens (ms @ ns) = EstimatePromptTokens ms + EstimatePromptTokens ns"
  by (simp add: estimate_prompt_tokens_fields)

end
