(* ===== verification/Json.thy ===== *)
theory Json
  imports Errors
begin

text \<open>
  What the gateway uses of \<open>encoding/json\<close>: parsing of a text, reading the fields of a parsed object
  into a struct (keys are matched without regard to letter case, \<open>null\<close> leaves a field alone, the
  last of several assignments wins, a value of the wrong type is an error), and the text of an
  encoded value. Texts are byte strings; ill-formed UTF-8 is replaced as the package does. A number
  keeps its literal. The text of a syntax error is not modelled.
\<close>

section \<open>Values\<close>

datatype json =
    JNull | JBool bool | JNum string | JStr string
  | JArr "json list" | JObj "(string \<times> json) list"

definition syntax_error :: err where
  "syntax_error = NewErr ''invalid JSON''"

section \<open>Scanning\<close>

definition is_ws :: "char \<Rightarrow> bool" where
  "is_ws c \<longleftrightarrow> c = CHR '' '' \<or> c = CHR 0x09 \<or> c = CHR 0x0A \<or> c = CHR 0x0D"

definition skip_ws :: "string \<Rightarrow> string" where
  "skip_ws s = dropWhile is_ws s"

definition hex_val :: "char \<Rightarrow> int option" where
  "hex_val c =
     (let n = of_char c :: int in
      if 48 \<le> n \<and> n \<le> 57 then Some (n - 48)
      else if 97 \<le> n \<and> n \<le> 102 then Some (n - 87)
      else if 65 \<le> n \<and> n \<le> 70 then Some (n - 55)
      else None)"

fun hex4 :: "string \<Rightarrow> int option" where
  "hex4 (a # b # c # d # _) =
     (case (hex_val a, hex_val b, hex_val c, hex_val d) of
        (Some w, Some x, Some y, Some z) \<Rightarrow> Some (4096 * w + 256 * x + 16 * y + z)
      | _ \<Rightarrow> None)"
| "hex4 _ = None"

definition byte :: "int \<Rightarrow> char" where
  "byte n = char_of n"

text \<open>The UTF-8 encoding of a code point; a surrogate stands for itself no more than in Go.\<close>

definition encode_rune :: "int \<Rightarrow> string" where
  "encode_rune r =
     (if r < 0x80 then [byte r]
      else if r < 0x800 then [byte (0xC0 + r div 64), byte (0x80 + r mod 64)]
      else if 0xD800 \<le> r \<and> r \<le> 0xDFFF \<or> 0x10FFFF < r then [byte 0xEF, byte 0xBF, byte 0xBD]
      else if r < 0x10000
      then [byte (0xE0 + r div 4096), byte (0x80 + r div 64 mod 64), byte (0x80 + r mod 64)]
      else [byte (0xF0 + r div 262144), byte (0x80 + r div 4096 mod 64),
            byte (0x80 + r div 64 mod 64), byte (0x80 + r mod 64)])"

definition replacement :: string where
  "replacement = [CHR 0xEF, CHR 0xBF, CHR 0xBD]"

text \<open>The raw bytes of a string up to its closing quote.\<close>

fun scan_string :: "string \<Rightarrow> (string \<times> string) option" where
  "scan_string [] = None"
| "scan_string [c] = (if c = CHR 0x22 then Some ([], []) else None)"
| "scan_string (c # d # s) =
     (if c = CHR 0x22 then Some ([], d # s)
      else if c = CHR 0x5C then map_option (\<lambda>(r, t). (c # d # r, t)) (scan_string s)
      else if (of_char c :: nat) < 32 then None
      else map_option (\<lambda>(r, t). (c # r, t)) (scan_string (d # s)))"

definition simple_escape :: "char \<Rightarrow> string option" where
  "simple_escape e =
     (if e = CHR 0x22 \<or> e = CHR 0x5C \<or> e = CHR ''/'' then Some [e]
      else if e = CHR ''b'' then Some [CHR 0x08]
      else if e = CHR ''f'' then Some [CHR 0x0C]
      else if e = CHR ''n'' then Some [CHR 0x0A]
      else if e = CHR ''r'' then Some [CHR 0x0D]
      else if e = CHR ''t'' then Some [CHR 0x09]
      else None)"

text \<open>A unicode escape: the bytes it stands for and the text after it, a surrogate pair included.\<close>

definition unicode_escape :: "string \<Rightarrow> (string \<times> string) option" where
  "unicode_escape s =
     (case hex4 s of
        None \<Rightarrow> None
      | Some r \<Rightarrow>
          let rest = drop 4 s in
          if 0xD800 \<le> r \<and> r \<le> 0xDBFF \<and> has_prefix rest [CHR 0x5C, CHR ''u''] then
            (case hex4 (drop 2 rest) of
               None \<Rightarrow> None
             | Some q \<Rightarrow>
                 if 0xDC00 \<le> q \<and> q \<le> 0xDFFF
                 then Some (encode_rune (0x10000 + 1024 * (r - 0xD800) + (q - 0xDC00)), drop 6 rest)
                 else Some (replacement, rest))
          else Some (encode_rune r, rest))"

lemma unicode_escape_shorter: "unicode_escape s = Some (r, t) \<Longrightarrow> length t \<le> length s"
  by (auto simp: unicode_escape_def Let_def split: option.splits if_splits)

function unescape :: "string \<Rightarrow> string option" where
  "unescape [] = Some []"
| "unescape (c # s) =
     (if c = CHR 0x5C then
        (case s of
           [] \<Rightarrow> None
         | e # s' \<Rightarrow>
             if e = CHR ''u'' then
               (case unicode_escape s' of
                  None \<Rightarrow> None
                | Some (r, t) \<Rightarrow>
                    if length t \<le> length s' then map_option ((@) r) (unescape t) else None)
             else (case simple_escape e of
                     None \<Rightarrow> None
                   | Some r \<Rightarrow> map_option ((@) r) (unescape s')))
      else if (of_char c :: nat) < 128 then map_option (Cons c) (unescape s)
      else if rune_width (c # s) = 1 then map_option ((@) replacement) (unescape s)
      else map_option ((@) (take (rune_width (c # s)) (c # s)))
             (unescape (drop (rune_width (c # s)) (c # s))))"
  by pat_completeness auto
termination
  by (relation "measure length") (auto simp: rune_width_pos)

definition parse_string :: "string \<Rightarrow> (string \<times> string) option" where
  "parse_string s =
     (case scan_string s of
        None \<Rightarrow> None
      | Some (raw, rest) \<Rightarrow> map_option (\<lambda>t. (t, rest)) (unescape raw))"

text \<open>A number literal and what follows it.\<close>

definition take_digits :: "string \<Rightarrow> string \<times> string" where
  "take_digits s = (takeWhile is_digit s, dropWhile is_digit s)"

definition scan_int_part :: "string \<Rightarrow> (string \<times> string) option" where
  "scan_int_part s =
     (let (ds, rest) = take_digits s in
      if ds = [] then None
      else if hd ds = CHR ''0'' then Some (''0'', tl ds @ rest)
      else Some (ds, rest))"

definition scan_fraction :: "string \<Rightarrow> (string \<times> string) option" where
  "scan_fraction s =
     (if has_prefix s ''.'' then
        (let (ds, rest) = take_digits (tl s) in
         if ds = [] then None else Some (CHR ''.'' # ds, rest))
      else Some ([], s))"

definition scan_exponent :: "string \<Rightarrow> (string \<times> string) option" where
  "scan_exponent s =
     (case s of
        [] \<Rightarrow> Some ([], s)
      | c # r \<Rightarrow>
          if c = CHR ''e'' \<or> c = CHR ''E'' then
            (let (sgn, r') = (if has_prefix r ''+'' \<or> has_prefix r ''-'' then ([hd r], tl r)
                              else ([], r));
                 (ds, rest) = take_digits r'
             in if ds = [] then None else Some (c # sgn @ ds, rest))
          else Some ([], s))"

definition parse_number :: "string \<Rightarrow> (json \<times> string) option" where
  "parse_number s =
     (let (sgn, s1) = (if has_prefix s ''-'' then (''-'', tl s) else ([], s)) in
      case scan_int_part s1 of
        None \<Rightarrow> None
      | Some (ip, s2) \<Rightarrow>
          (case scan_fraction s2 of
             None \<Rightarrow> None
           | Some (fp, s3) \<Rightarrow>
               (case scan_exponent s3 of
                  None \<Rightarrow> None
                | Some (ep, s4) \<Rightarrow> Some (JNum (sgn @ ip @ fp @ ep), s4))))"

section \<open>Parsing\<close>

text \<open>
  \<open>fuel\<close> bounds the nesting and the length; \<open>parse_json\<close> supplies more than the text has bytes.
\<close>

fun parse_value :: "nat \<Rightarrow> string \<Rightarrow> (json \<times> string) option"
  and parse_items :: "nat \<Rightarrow> string \<Rightarrow> (json list \<times> string) option"
  and parse_members :: "nat \<Rightarrow> string \<Rightarrow> ((string \<times> json) list \<times> string) option" where
  "parse_value 0 s = None"
| "parse_value (Suc n) s =
     (let s = skip_ws s in
      if s = [] then None
      else if hd s = CHR 0x22 then map_option (\<lambda>(t, r). (JStr t, r)) (parse_string (tl s))
      else if hd s = CHR ''['' then
        (if has_prefix (skip_ws (tl s)) '']'' then Some (JArr [], tl (skip_ws (tl s)))
         else map_option (\<lambda>(vs, r). (JArr vs, r)) (parse_items n (tl s)))
      else if hd s = CHR 0x7B then
        (if has_prefix (skip_ws (tl s)) [CHR 0x7D] then Some (JObj [], tl (skip_ws (tl s)))
         else map_option (\<lambda>(ms, r). (JObj ms, r)) (parse_members n (tl s)))
      else if has_prefix s ''true'' then Some (JBool True, drop 4 s)
      else if has_prefix s ''false'' then Some (JBool False, drop 5 s)
      else if has_prefix s ''null'' then Some (JNull, drop 4 s)
      else parse_number s)"
| "parse_items 0 s = None"
| "parse_items (Suc n) s =
     (case parse_value n s of
        None \<Rightarrow> None
      | Some (v, s) \<Rightarrow>
          let s = skip_ws s in
          if has_prefix s '']'' then Some ([v], tl s)
          else if has_prefix s '','' then
            map_option (\<lambda>(vs, r). (v # vs, r)) (parse_items n (tl s))
          else None)"
| "parse_members 0 s = None"
| "parse_members (Suc n) s =
     (let s = skip_ws s in
      if \<not> has_prefix s [CHR 0x22] then None
      else case parse_string (tl s) of
        None \<Rightarrow> None
      | Some (k, s) \<Rightarrow>
          let s = skip_ws s in
          if \<not> has_prefix s '':'' then None
          else case parse_value n (tl s) of
            None \<Rightarrow> None
          | Some (v, s) \<Rightarrow>
              let s = skip_ws s in
              if has_prefix s [CHR 0x7D] then Some ([(k, v)], tl s)
              else if has_prefix s '','' then
                map_option (\<lambda>(ms, r). ((k, v) # ms, r)) (parse_members n (tl s))
              else None)"

text \<open>
  \<open>json.NewDecoder(r).Decode\<close> reads one value and leaves the rest of the stream; an empty stream is
  \<open>io.EOF\<close>. \<open>json.Unmarshal\<close> allows nothing but white space after the value.
\<close>

definition decode_stream :: "string \<Rightarrow> json res" where
  "decode_stream s =
     (if skip_ws s = [] then Inl IoEOF
      else case parse_value (2 * length s + 2) s of
        None \<Rightarrow> Inl syntax_error
      | Some (v, rest) \<Rightarrow> Inr v)"

definition unmarshal :: "string \<Rightarrow> json res" where
  "unmarshal s =
     (case parse_value (2 * length s + 2) s of
        None \<Rightarrow> Inl syntax_error
      | Some (v, rest) \<Rightarrow> if skip_ws rest = [] then Inr v else Inl syntax_error)"

section \<open>Structs\<close>

definition type_error :: "string \<Rightarrow> err" where
  "type_error field = NewErr (''json: cannot unmarshal into Go struct field '' @ field)"

text \<open>The members whose key names the field, in order.\<close>

definition field_values :: "string \<Rightarrow> (string \<times> json) list \<Rightarrow> json list" where
  "field_values name ms = map snd (filter (\<lambda>(k, _). equal_fold k name) ms)"

text \<open>One assignment after the other; \<open>null\<close> assigns nothing.\<close>

fun assign_all :: "(json \<Rightarrow> 'a \<Rightarrow> 'a res) \<Rightarrow> json list \<Rightarrow> 'a \<Rightarrow> 'a res" where
  "assign_all f [] x = Inr x"
| "assign_all f (JNull # vs) x = assign_all f vs x"
| "assign_all f (v # vs) x = (case f v x of Inl e \<Rightarrow> Inl e | Inr y \<Rightarrow> assign_all f vs y)"

definition read_field ::
    "string \<Rightarrow> (json \<Rightarrow> 'a \<Rightarrow> 'a res) \<Rightarrow> 'a \<Rightarrow> (string \<times> json) list \<Rightarrow> 'a res" where
  "read_field name f x ms = assign_all f (field_values name ms) x"

definition string_field :: "string \<Rightarrow> (string \<times> json) list \<Rightarrow> string res" where
  "string_field name =
     read_field name (\<lambda>v _. case v of JStr t \<Rightarrow> Inr t | _ \<Rightarrow> Inl (type_error name)) []"

definition int_of_literal :: "string \<Rightarrow> int option" where
  "int_of_literal lit = atoi lit"

definition int_field :: "string \<Rightarrow> (string \<times> json) list \<Rightarrow> int res" where
  "int_field name =
     read_field name
       (\<lambda>v _. case v of
                JNum lit \<Rightarrow> (case int_of_literal lit of Some i \<Rightarrow> Inr i | None \<Rightarrow> Inl (type_error name))
              | _ \<Rightarrow> Inl (type_error name)) 0"

definition bool_field :: "string \<Rightarrow> (string \<times> json) list \<Rightarrow> bool res" where
  "bool_field name =
     read_field name (\<lambda>v _. case v of JBool b \<Rightarrow> Inr b | _ \<Rightarrow> Inl (type_error name)) False"

text \<open>A nested struct, a pointer to one, and a slice of them; \<open>dec\<close> reads the struct's members.\<close>

definition struct_field ::
    "string \<Rightarrow> ((string \<times> json) list \<Rightarrow> 'a res) \<Rightarrow> 'a \<Rightarrow> (string \<times> json) list \<Rightarrow> 'a res" where
  "struct_field name dec zero =
     read_field name (\<lambda>v _. case v of JObj ms \<Rightarrow> dec ms | _ \<Rightarrow> Inl (type_error name)) zero"

definition pointer_field ::
    "string \<Rightarrow> ((string \<times> json) list \<Rightarrow> 'a res) \<Rightarrow> (string \<times> json) list \<Rightarrow> 'a option res" where
  "pointer_field name dec =
     read_field name
       (\<lambda>v _. case v of JObj ms \<Rightarrow> (case dec ms of Inl e \<Rightarrow> Inl e | Inr x \<Rightarrow> Inr (Some x))
              | _ \<Rightarrow> Inl (type_error name)) None"

fun decode_items :: "string \<Rightarrow> ((string \<times> json) list \<Rightarrow> 'a res) \<Rightarrow> json list \<Rightarrow> 'a list res" where
  "decode_items name dec [] = Inr []"
| "decode_items name dec (v # vs) =
     (case (case v of JObj ms \<Rightarrow> dec ms | JNull \<Rightarrow> dec [] | _ \<Rightarrow> Inl (type_error name)) of
        Inl e \<Rightarrow> Inl e
      | Inr x \<Rightarrow> (case decode_items name dec vs of Inl e \<Rightarrow> Inl e | Inr xs \<Rightarrow> Inr (x # xs)))"

definition list_field ::
    "string \<Rightarrow> ((string \<times> json) list \<Rightarrow> 'a res) \<Rightarrow> (string \<times> json) list \<Rightarrow> 'a list res" where
  "list_field name dec =
     read_field name
       (\<lambda>v _. case v of JArr vs \<Rightarrow> decode_items name dec vs | _ \<Rightarrow> Inl (type_error name)) []"

text \<open>The whole value: an object is read, \<open>null\<close> leaves the zero value.\<close>

definition decode_struct :: "((string \<times> json) list \<Rightarrow> 'a res) \<Rightarrow> json \<Rightarrow> 'a res" where
  "decode_struct dec v =
     (case v of JObj ms \<Rightarrow> dec ms | JNull \<Rightarrow> dec [] | _ \<Rightarrow> Inl (type_error []))"

definition and_then :: "'a res \<Rightarrow> ('a \<Rightarrow> 'b res) \<Rightarrow> 'b res" where
  "and_then r f = (case r of Inl e \<Rightarrow> Inl e | Inr x \<Rightarrow> f x)"

lemma and_then_simps [simp]: "and_then (Inl e) f = Inl e" "and_then (Inr x) f = f x"
  by (simp_all add: and_then_def)

section \<open>Encoding\<close>

definition hex_digit :: "int \<Rightarrow> char" where
  "hex_digit n = (if n < 10 then char_of (48 + n) else char_of (87 + n))"

definition escape_char :: "char \<Rightarrow> string" where
  "escape_char c =
     (if c = CHR 0x22 \<or> c = CHR 0x5C then [CHR 0x5C, c]
      else if c = CHR 0x08 then [CHR 0x5C, CHR ''b'']
      else if c = CHR 0x0C then [CHR 0x5C, CHR ''f'']
      else if c = CHR 0x0A then [CHR 0x5C, CHR ''n'']
      else if c = CHR 0x0D then [CHR 0x5C, CHR ''r'']
      else if c = CHR 0x09 then [CHR 0x5C, CHR ''t'']
      else if (of_char c :: nat) < 32 \<or> c = CHR ''<'' \<or> c = CHR ''>'' \<or> c = CHR ''&''
      then CHR 0x5C # ''u00'' @ [hex_digit (of_char c div 16), hex_digit (of_char c mod 16)]
      else [c])"

function escape :: "string \<Rightarrow> string" where
  "escape [] = []"
| "escape (c # s) =
     (if (of_char c :: nat) < 128 then escape_char c @ escape s
      else if rune_width (c # s) = 1 then CHR 0x5C # ''ufffd'' @ escape s
      else if has_prefix (c # s) [CHR 0xE2, CHR 0x80, CHR 0xA8]
      then CHR 0x5C # ''u2028'' @ escape (drop (rune_width (c # s)) (c # s))
      else if has_prefix (c # s) [CHR 0xE2, CHR 0x80, CHR 0xA9]
      then CHR 0x5C # ''u2029'' @ escape (drop (rune_width (c # s)) (c # s))
      else take (rune_width (c # s)) (c # s) @ escape (drop (rune_width (c # s)) (c # s)))"
  by pat_completeness auto
termination
  by (relation "measure length") (auto simp: rune_width_pos)

definition quoted :: "string \<Rightarrow> string" where
  "quoted s = CHR 0x22 # escape s @ [CHR 0x22]"

fun encode :: "json \<Rightarrow> string" where
  "encode JNull = ''null''"
| "encode (JBool b) = (if b then ''true'' else ''false'')"
| "encode (JNum lit) = lit"
| "encode (JStr s) = quoted s"
| "encode (JArr vs) = CHR ''['' # join '','' (map encode vs) @ '']''"
| "encode (JObj ms) =
     CHR 0x7B # join '','' (map (\<lambda>(k, v). quoted k @ '':'' @ encode v) ms) @ [CHR 0x7D]"

definition num :: "int \<Rightarrow> json" where
  "num i = JNum (itoa i)"

end
