(* ===== verification/Calendar.thy ===== *)
theory Calendar
  imports Texts
begin

text \<open>
  The calendar that \<open>time.Format\<close> uses: the date and the time of day in UTC of a number of
  nanoseconds since the first of January of year 1, and the layout \<open>200601021504\<close> (year, month,
  day, hour, minute) of the rate limiter's keys. The lemmas show that the layout identifies the
  minute for every time of the years 1 to 9999.
\<close>

section \<open>Dates\<close>

text \<open>
  Years are counted in cycles of 400, 100, 4 and 1 years; the last year of a cycle is one day
  longer, which the two \<open>min\<close> account for.
\<close>

definition year_and_day :: "int \<Rightarrow> int \<times> int" where
  "year_and_day d =
     (let n400 = d div 146097; d1 = d mod 146097;
          n100 = min 3 (d1 div 36524); d2 = d1 - 36524 * n100;
          n4 = d2 div 1461; d3 = d2 mod 1461;
          n1 = min 3 (d3 div 365); d4 = d3 - 365 * n1
      in (400 * n400 + 100 * n100 + 4 * n4 + n1, d4))"

text \<open>The number of days before the first of January of a year counted from 0.\<close>

definition days_before_year :: "int \<Rightarrow> int" where
  "days_before_year y = 365 * y + y div 4 - y div 100 + y div 400"

definition is_leap :: "int \<Rightarrow> bool" where
  "is_leap y \<longleftrightarrow> y mod 4 = 0 \<and> (y mod 100 \<noteq> 0 \<or> y mod 400 = 0)"

definition month_starts :: "bool \<Rightarrow> int list" where
  "month_starts leap =
     (if leap then [0, 31, 60, 91, 121, 152, 182, 213, 244, 274, 305, 335]
      else [0, 31, 59, 90, 120, 151, 181, 212, 243, 273, 304, 334])"

text \<open>The last month that starts on or before the day of the year.\<close>

fun month_day :: "int list \<Rightarrow> int \<Rightarrow> int \<Rightarrow> int \<times> int" where
  "month_day [] m yd = (m, yd + 1)"
| "month_day [s] m yd = (m, yd - s + 1)"
| "month_day (s # s' # ss) m yd =
     (if yd < s' then (m, yd - s + 1) else month_day (s' # ss) (m + 1) yd)"

definition civil_date :: "int \<Rightarrow> int \<times> int \<times> int" where
  "civil_date d =
     (let (y, yd) = year_and_day d;
          (m, md) = month_day (month_starts (is_leap (y + 1))) 1 yd
      in (y + 1, m, md))"

section \<open>The layout\<close>

definition pad2 :: "int \<Rightarrow> string" where
  "pad2 n = [digit_char (n div 10 mod 10), digit_char (n mod 10)]"

definition pad4 :: "int \<Rightarrow> string" where
  "pad4 n = pad2 (n div 100) @ pad2 n"

definition minutes_of :: "time \<Rightarrow> int" where
  "minutes_of t = t div minute"

definition format_minute :: "time \<Rightarrow> string" where
  "format_minute t =
     (let n = minutes_of t; d = n div 1440; tod = n mod 1440; (y, m, md) = civil_date d
      in pad4 y @ pad2 m @ pad2 md @ pad2 (tod div 60) @ pad2 (tod mod 60))"

section \<open>The layout identifies the minute\<close>

lemma year_and_day_split:
  assumes "year_and_day d = (y, yd)"
  shows "d = days_before_year y + yd" and "0 \<le> yd" and "yd < 366"
proof -
  define n400 where "n400 = d div 146097"
  define d1 where "d1 = d mod 146097"
  define n100 where "n100 = min 3 (d1 div 36524)"
  define d2 where "d2 = d1 - 36524 * n100"
  define n4 where "n4 = d2 div 1461"
  define d3 where "d3 = d2 mod 1461"
  define n1 where "n1 = min 3 (d3 div 365)"
  have y: "y = 400 * n400 + 100 * n100 + 4 * n4 + n1" and yd: "yd = d3 - 365 * n1"
    using assms
    unfolding year_and_day_def Let_def n400_def d1_def n100_def d2_def n4_def d3_def n1_def by auto
  have d1: "0 \<le> d1" "d1 < 146097" by (simp_all add: d1_def)
  have d: "d = 146097 * n400 + d1" by (simp add: n400_def d1_def)
  have n100: "0 \<le> n100" "n100 \<le> 3" using d1 by (simp_all add: n100_def)
  have d2: "0 \<le> d2" "d2 \<le> 36524"
    using d1 div_bounds [of 36524 d1] unfolding d2_def n100_def min_def by (auto split: if_splits)
  have n4: "0 \<le> n4" "n4 < 25"
    using d2 div_bounds [of 1461 d2] unfolding n4_def by (auto simp: pos_imp_zdiv_nonneg_iff)
  have d3: "0 \<le> d3" "d3 < 1461" by (simp_all add: d3_def)
  have d2': "d2 = 1461 * n4 + d3" by (simp add: n4_def d3_def)
  have n1: "0 \<le> n1" "n1 \<le> 3" using d3 by (simp_all add: n1_def)
  show "0 \<le> yd" and "yd < 366"
    using d3 div_bounds [of 365 d3] unfolding yd n1_def min_def by (auto split: if_splits)
  have "y div 4 = 100 * n400 + 25 * n100 + n4" using n1 unfolding y by (intro div_eqI) simp_all
  moreover have "y div 100 = 4 * n400 + n100" using n1 n4 unfolding y by (intro div_eqI) simp_all
  moreover have "y div 400 = n400" using n1 n4 n100 unfolding y by (intro div_eqI) simp_all
  ultimately have "days_before_year y =
      365 * y + (100 * n400 + 25 * n100 + n4) - (4 * n400 + n100) + n400"
    by (simp only: days_before_year_def)
  then show "d = days_before_year y + yd"
    using d d2' d2_def unfolding yd y by simp
qed

lemma month_day_bounds:
  "month_day (s # ss) m0 yd = (m, md) \<Longrightarrow> s \<le> yd \<Longrightarrow>
     m0 \<le> m \<and> m < m0 + int (length (s # ss)) \<and> 1 \<le> md \<and>
     yd = (s # ss) ! nat (m - m0) + md - 1"
proof (induction ss arbitrary: s m0)
  case Nil
  then show ?case by auto
next
  case (Cons s' ss)
  show ?case
  proof (cases "yd < s'")
    case True
    with Cons.prems show ?thesis by auto
  next
    case False
    with Cons.prems have "month_day (s' # ss) (m0 + 1) yd = (m, md)" "s' \<le> yd" by simp_all
    note IH = Cons.IH [OF this]
    then have "nat (m - m0) = Suc (nat (m - (m0 + 1)))" by auto
    with IH show ?thesis by auto
  qed
qed

lemma month_day_split:
  assumes "month_day (month_starts leap) 1 yd = (m, md)" and "0 \<le> yd" and "yd < 366"
  shows "yd = month_starts leap ! nat (m - 1) + md - 1"
    and "1 \<le> m" and "m \<le> 12" and "1 \<le> md" and "md < 100"
proof -
  obtain ss where ss: "month_starts leap = 0 # ss" and len: "length ss = 11"
    by (cases leap) (simp_all add: month_starts_def)
  note b = month_day_bounds [OF assms(1) [unfolded ss] assms(2)]
  then show "yd = month_starts leap ! nat (m - 1) + md - 1"
    and "1 \<le> m" and "m \<le> 12" and "1 \<le> md" by (auto simp: ss len)
  show "md < 100"
    using assms by (cases leap) (auto simp: month_starts_def split: if_splits)
qed

lemma civil_date_inj:
  assumes "civil_date d = civil_date e"
  shows "d = e"
proof -
  obtain y yd where y: "year_and_day d = (y, yd)" by fastforce
  obtain z zd where z: "year_and_day e = (z, zd)" by fastforce
  obtain m md where m: "month_day (month_starts (is_leap (y + 1))) 1 yd = (m, md)" by fastforce
  obtain n nd where n: "month_day (month_starts (is_leap (z + 1))) 1 zd = (n, nd)" by fastforce
  have "y = z" "m = n" "md = nd" using assms by (simp_all add: civil_date_def y z m n)
  then show ?thesis
    using year_and_day_split [OF y] year_and_day_split [OF z] month_day_split [OF m]
      month_day_split [OF n] by simp
qed

lemma civil_date_ranges:
  assumes "civil_date d = (y, m, md)" and "0 \<le> d" and "d < 3652059"
  shows "1 \<le> y" and "y \<le> 9999" and "1 \<le> m" and "m \<le> 12" and "1 \<le> md" and "md < 100"
proof -
  obtain y0 yd where y0: "year_and_day d = (y0, yd)" by fastforce
  have m: "month_day (month_starts (is_leap (y0 + 1))) 1 yd = (m, md)" and y: "y = y0 + 1"
    using assms(1) by (auto simp: civil_date_def y0 split: prod.splits)
  note sp = year_and_day_split [OF y0]
  show "1 \<le> m" and "m \<le> 12" and "1 \<le> md" and "md < 100"
    using month_day_split [OF m sp(2,3)] by auto
  define a b c where "a = y0 div 4" and "b = y0 div 100" and "c = y0 div 400"
  have q: "4 * a \<le> y0" "y0 < 4 * a + 4" "100 * b \<le> y0" "y0 < 100 * b + 100"
      "400 * c \<le> y0" "y0 < 400 * c + 400"
    using div_bounds [of 4 y0] div_bounds [of 100 y0] div_bounds [of 400 y0]
    by (simp_all add: a_def b_def c_def)
  have d: "d = 365 * y0 + a - b + c + yd"
    using sp(1) by (simp add: days_before_year_def a_def b_def c_def)
  show "1 \<le> y"
  proof (rule ccontr)
    assume "\<not> 1 \<le> y"
    then consider "y0 = -1" | "y0 \<le> -2" unfolding y by linarith
    then show False
    proof cases
      case 1
      then have "a = -1" "b = -1" "c = -1" by (simp_all add: a_def b_def c_def)
      then show False using d 1 sp(3) assms(2) by simp
    next
      case 2
      then show False using d q sp(3) assms(2) by linarith
    qed
  qed
  show "y \<le> 9999"
  proof (rule ccontr)
    assume "\<not> y \<le> 9999"
    then consider "y0 = 9999" | "10000 \<le> y0" unfolding y by linarith
    then show False
    proof cases
      case 1
      then have "a = 2499" "b = 99" "c = 24" by (simp_all add: a_def b_def c_def)
      then show False using d 1 sp(2) assms(3) by simp
    next
      case 2
      then show False using d q sp(2) assms(3) by linarith
    qed
  qed
qed

lemma digit_char_inj:
  assumes "digit_char a = digit_char b" and "0 \<le> a" "a < 10" "0 \<le> b" "b < 10"
  shows "a = b"
proof -
  have "48 + a = (of_char (digit_char a) :: int)" using of_char_digit [OF assms(2,3)] by (rule sym)
  also have "\<dots> = of_char (digit_char b)" by (simp only: assms(1))
  also have "\<dots> = 48 + b" using assms(4,5) by (rule of_char_digit)
  finally show ?thesis by simp
qed

lemma pad2_inj:
  assumes "pad2 a = pad2 b" and "0 \<le> a" "a < 100" "0 \<le> b" "b < 100"
  shows "a = b"
proof -
  have "a mod 10 = b mod 10"
    using assms(1) by (intro digit_char_inj) (simp_all add: pad2_def)
  moreover have "a div 10 mod 10 = b div 10 mod 10"
    using assms(1) by (intro digit_char_inj) (simp_all add: pad2_def)
  moreover have "a div 10 mod 10 = a div 10" "b div 10 mod 10 = b div 10"
    using assms(2-) div_bounds [of 10 a] div_bounds [of 10 b]
    by (auto intro!: mod_pos_pos_trivial simp: pos_imp_zdiv_nonneg_iff)
  ultimately show ?thesis using mult_div_mod_eq [of 10 a] mult_div_mod_eq [of 10 b] by linarith
qed

lemma pad2_mod: "pad2 a = pad2 (a mod 100)"
proof -
  have "a mod 100 = 10 * (a div 10 mod 10) + a mod 10"
    using zmod_zmult2_eq [of 10 a 10] by simp
  then have "a mod 100 div 10 = a div 10 mod 10"
    by (intro div_eqI) (use pos_mod_sign [of 10 a] pos_mod_bound [of 10 a] in linarith)+
  moreover have "a mod 100 mod 10 = a mod 10" by (simp add: mod_mod_cancel)
  ultimately show ?thesis by (simp add: pad2_def)
qed

lemma length_pad [simp]: "length (pad2 a) = 2" "length (pad4 a) = 4"
  by (simp_all add: pad2_def pad4_def)

lemma pad4_inj:
  assumes "pad4 a = pad4 b" and "0 \<le> a" "a < 10000" "0 \<le> b" "b < 10000"
  shows "a = b"
proof -
  have hi: "pad2 (a div 100) = pad2 (b div 100)" and lo: "pad2 a = pad2 b"
    using assms(1) unfolding pad4_def by (simp_all add: append_eq_append_conv)
  have "a div 100 = b div 100"
    using hi by (rule pad2_inj)
      (use assms(2-) div_bounds [of 100 a] div_bounds [of 100 b] in
        \<open>auto simp: pos_imp_zdiv_nonneg_iff\<close>)
  moreover have "pad2 (a mod 100) = pad2 (b mod 100)" using lo pad2_mod [of a] pad2_mod [of b] by simp
  then have "a mod 100 = b mod 100" by (rule pad2_inj) simp_all
  ultimately show ?thesis using mult_div_mod_eq [of 100 a] mult_div_mod_eq [of 100 b] by linarith
qed

text \<open>The end of year 9999, in minutes.\<close>

definition calendar_end :: int where
  "calendar_end = 3652059 * 1440"

lemma format_minute_eq_iff:
  assumes "0 \<le> minutes_of t" "minutes_of t < calendar_end"
    and "0 \<le> minutes_of u" "minutes_of u < calendar_end"
  shows "format_minute t = format_minute u \<longleftrightarrow> minutes_of t = minutes_of u"
proof
  assume eq: "format_minute t = format_minute u"
  define n k where "n = minutes_of t" and "k = minutes_of u"
  obtain y m md where c: "civil_date (n div 1440) = (y, m, md)" by (cases "civil_date (n div 1440)")
  obtain z p pd where e: "civil_date (k div 1440) = (z, p, pd)" by (cases "civil_date (k div 1440)")
  have n: "0 \<le> n div 1440" "n div 1440 < 3652059" and k: "0 \<le> k div 1440" "k div 1440 < 3652059"
    using assms div_bounds [of 1440 n] div_bounds [of 1440 k]
    unfolding n_def [symmetric] k_def [symmetric] calendar_end_def
    by (auto simp: pos_imp_zdiv_nonneg_iff)
  note rc = civil_date_ranges [OF c n] and re = civil_date_ranges [OF e k]
  have parts: "pad4 y = pad4 z" "pad2 m = pad2 p" "pad2 md = pad2 pd"
      "pad2 (n mod 1440 div 60) = pad2 (k mod 1440 div 60)"
      "pad2 (n mod 1440 mod 60) = pad2 (k mod 1440 mod 60)"
    using eq unfolding format_minute_def Let_def n_def [symmetric] k_def [symmetric] c e
    by (simp_all add: append_eq_append_conv)
  have "y = z" using parts(1) by (rule pad4_inj) (use rc re in simp_all)
  moreover have "m = p" using parts(2) by (rule pad2_inj) (use rc re in simp_all)
  moreover have "md = pd" using parts(3) by (rule pad2_inj) (use rc re in simp_all)
  ultimately have "n div 1440 = k div 1440" using c e by (intro civil_date_inj) simp
  moreover have "n mod 1440 div 60 = k mod 1440 div 60"
    using parts(4) by (rule pad2_inj)
      (use div_bounds [of 60 "n mod 1440"] div_bounds [of 60 "k mod 1440"]
          pos_mod_bound [of 1440 n] pos_mod_bound [of 1440 k] in
        \<open>auto simp: pos_imp_zdiv_nonneg_iff simp del: pos_mod_bound\<close>)
  moreover have "n mod 1440 mod 60 = k mod 1440 mod 60"
    using parts(5) by (rule pad2_inj)
      (use pos_mod_bound [of 60 "n mod 1440"] pos_mod_bound [of 60 "k mod 1440"] in
        \<open>simp_all del: pos_mod_bound\<close>)
  ultimately have "n = k"
    using mult_div_mod_eq [of 1440 n] mult_div_mod_eq [of 1440 k]
      mult_div_mod_eq [of 60 "n mod 1440"] mult_div_mod_eq [of 60 "k mod 1440"] by linarith
  then show "minutes_of t = minutes_of u" by (simp add: n_def k_def)
qed (simp add: format_minute_def)

lemma format_minute_length [simp]: "length (format_minute t) = 12"
  by (simp add: format_minute_def Let_def split: prod.splits)

section \<open>Parsing a timestamp\<close>

text \<open>
  \<open>time.Parse(time.RFC3339Nano, s)\<close>: a date, \<open>T\<close>, a time of day with an optional fraction of up to
  nine significant digits, and \<open>Z\<close> or an offset.
\<close>

definition digits_at :: "nat \<Rightarrow> string \<Rightarrow> int option" where
  "digits_at n s =
     (if length (take n s) = n \<and> list_all is_digit (take n s) then Some (digits_val (take n s)) else None)"

definition char_at :: "char \<Rightarrow> string \<Rightarrow> bool" where
  "char_at c s \<longleftrightarrow> s \<noteq> [] \<and> hd s = c"

definition month_length :: "int \<Rightarrow> int \<Rightarrow> int" where
  "month_length y m =
     (if m = 2 then (if is_leap y then 29 else 28)
      else if m \<in> set [4, 6, 9, 11] then 30 else 31)"

text \<open>The days before a date of the year \<open>y\<close>, counted from the first of January of year 1.\<close>

definition days_of_date :: "int \<Rightarrow> int \<Rightarrow> int \<Rightarrow> int" where
  "days_of_date y m d =
     days_before_year (y - 1) + month_starts (is_leap y) ! nat (m - 1) + (d - 1)"

definition fraction_nanos :: "string \<Rightarrow> int" where
  "fraction_nanos ds = digits_val (take 9 ds) * 10 ^ (9 - length (take 9 ds))"

text \<open>The offset in seconds, which is subtracted.\<close>

definition parse_zone :: "string \<Rightarrow> int option" where
  "parse_zone s =
     (if s = ''Z'' then Some 0
      else if length s = 6 \<and> (char_at CHR ''+'' s \<or> char_at CHR ''-'' s) \<and> char_at CHR '':'' (drop 3 s) then
        (case (digits_at 2 (drop 1 s), digits_at 2 (drop 4 s)) of
           (Some h, Some m) \<Rightarrow>
             if h \<le> 24 \<and> m < 60
             then Some ((if char_at CHR ''-'' s then -1 else 1) * (h * 3600 + m * 60)) else None
         | _ \<Rightarrow> None)
      else None)"

definition parse_rfc3339 :: "string \<Rightarrow> time option" where
  "parse_rfc3339 s =
     (if length s < 20 \<or> \<not> (char_at CHR ''-'' (drop 4 s) \<and> char_at CHR ''-'' (drop 7 s) \<and>
           char_at CHR ''T'' (drop 10 s) \<and> char_at CHR '':'' (drop 13 s) \<and>
           char_at CHR '':'' (drop 16 s)) then None
      else case (digits_at 4 s, digits_at 2 (drop 5 s), digits_at 2 (drop 8 s),
                 digits_at 2 (drop 11 s), digits_at 2 (drop 14 s), digits_at 2 (drop 17 s)) of
        (Some y, Some mo, Some d, Some h, Some mi, Some sc) \<Rightarrow>
          (let rest = drop 19 s;
               frac = (if char_at CHR ''.'' rest then takeWhile is_digit (tl rest) else []);
               zone = (if frac = [] then rest else drop (Suc (length frac)) rest)
           in if 1 \<le> mo \<and> mo \<le> 12 \<and> 1 \<le> d \<and> d \<le> month_length y mo \<and> h < 24 \<and> mi < 60 \<and> sc < 60
              then map_option (\<lambda>off.
                     (days_of_date y mo d * 86400 + h * 3600 + mi * 60 + sc - off) * second
                       + fraction_nanos frac) (parse_zone zone)
              else None)
      | _ \<Rightarrow> None)"

text \<open>The Unix epoch, and the two ways \<open>time.Time\<close> counts from it.\<close>

definition unix_epoch :: time where
  "unix_epoch = 62135596800 * second"

definition unix_seconds :: "time \<Rightarrow> int" where
  "unix_seconds t = (t - unix_epoch) div second"

definition unix_nanos :: "time \<Rightarrow> int" where
  "unix_nanos t = wrap64 (t - unix_epoch)"

end
