(* ===== verification/Adapter.thy ===== *)
theory Adapter
  imports ProviderTypes Json Calendar
begin

text \<open>
  What the three HTTP adapters (\<open>internal/provider/openai\<close>, \<open>ollama\<close>, \<open>anthropic\<close>) share, word for
  word: the retry loop around one request, the accounting of every attempt with the recorder in the
  context, and the classification of errors. The network and the end of the request's context are
  an environment \<open>'w upstream\<close>, a parameter; the recorder is the interface of \<open>attempts.go\<close>. The
  locale \<open>attempt_book\<close> states what a recorder keeps, and its lemma is that a request that fails
  leaves no attempt open.
\<close>

section \<open>The environment\<close>

record http_request =
  hr_method :: string
  hr_url :: string
  hr_body :: string
  hr_headers :: "(string \<times> string) list"

text \<open>A response: its body as far as it arrives, and the error that ends it other than its end.\<close>

record http_response =
  hs_status :: int
  hs_body :: string
  hs_body_err :: "err option"

text \<open>
  The deadline is the one \<open>withTimeout\<close> puts into the context. \<open>env_do\<close> is \<open>http.NewRequestWithContext\<close>
  and \<open>http.Client.Do\<close>; \<open>env_ctx_err\<close> is \<open>ctx.Err()\<close>; \<open>env_wait\<close> is the \<open>select\<close> between the context
  and a timer; \<open>env_offer\<close> is the \<open>select\<close> between the context and a consumer that takes an event.
\<close>

record 'w upstream =
  env_do :: "time option \<Rightarrow> http_request \<Rightarrow> 'w \<Rightarrow> http_response res \<times> 'w"
  env_ctx_err :: "time option \<Rightarrow> 'w \<Rightarrow> err option"
  env_wait :: "time option \<Rightarrow> duration \<Rightarrow> 'w \<Rightarrow> err option \<times> 'w"
  env_offer :: "'w \<Rightarrow> err option \<times> 'w"
  env_now :: "'w \<Rightarrow> time"

section \<open>The adapter\<close>

text \<open>The fields the adapters' \<open>Provider\<close> structs share, and what differs in a request.\<close>

record adapter =
  ad_base_url :: string
  ad_api_key :: string
  ad_default_model :: string
  ad_timeout :: duration
  ad_max_retries :: int
  ad_retry_backoff :: duration

definition normalize_adapter :: "adapter \<Rightarrow> adapter" where
  "normalize_adapter cfg =
     \<lparr>ad_base_url = trim_right_char CHR ''/'' (trim_space (ad_base_url cfg)),
      ad_api_key = trim_space (ad_api_key cfg),
      ad_default_model = trim_space (ad_default_model cfg),
      ad_timeout = (if ad_timeout cfg < 0 then 0 else ad_timeout cfg),
      ad_max_retries = (if ad_max_retries cfg < 0 then 0 else ad_max_retries cfg),
      ad_retry_backoff = (if ad_retry_backoff cfg \<le> 0 then 200 * millisecond
                          else ad_retry_backoff cfg)\<rparr>"

definition withTimeout :: "'a adapter_scheme \<Rightarrow> time \<Rightarrow> time option" where
  "withTimeout a now = (if ad_timeout a \<le> 0 then None else Some (now + ad_timeout a))"

definition resolveModel :: "'a adapter_scheme \<Rightarrow> string \<Rightarrow> string" where
  "resolveModel a model =
     (let m = trim_space model in if m \<noteq> [] then m else ad_default_model a)"

definition adapter_beginAttempt ::
    "('w, 'h) attempt_ctx \<Rightarrow> attempt_metadata option \<Rightarrow> 'w \<Rightarrow> 'h option res \<times> 'w" where
  "adapter_beginAttempt ctx metadata w =
     (case (metadata, ctx_recorder ctx) of
        (Some m, Some rec) \<Rightarrow>
          (case begin_attempt rec (ctx_backend ctx) m w of
             (Inl e, w) \<Rightarrow> (Inl e, w)
           | (Inr h, w) \<Rightarrow> (Inr (Some h), w))
      | _ \<Rightarrow> (Inr None, w))"

definition failed_result :: "string \<Rightarrow> attempt_result" where
  "failed_result model =
     \<lparr>ares_model = model, ares_status = ''failed'', ares_prompt_tokens = 0,
      ares_completion_tokens = 0, ares_total_tokens = 0\<rparr>"

text \<open>Completing an attempt, when there is one; an error is wrapped as one of accounting.\<close>

definition finish_attempt ::
    "('w, 'h) attempt_ctx \<Rightarrow> 'h option \<Rightarrow> attempt_result \<Rightarrow> 'w \<Rightarrow> unit res \<times> 'w" where
  "finish_attempt ctx handle result w =
     (case (handle, ctx_recorder ctx) of
        (Some h, Some rec) \<Rightarrow>
          (let (r, w) = complete_attempt rec h result w in (WrapAttemptAccountingError r, w))
      | _ \<Rightarrow> (Inr (), w))"

definition failAttempt ::
    "('w, 'h) attempt_ctx \<Rightarrow> 'h option \<Rightarrow> string \<Rightarrow> 'w \<Rightarrow> unit res \<times> 'w" where
  "failAttempt ctx handle model = finish_attempt ctx handle (failed_result model)"

definition metadataModel :: "attempt_metadata option \<Rightarrow> string" where
  "metadataModel metadata = (case metadata of None \<Rightarrow> [] | Some m \<Rightarrow> meta_model m)"

section \<open>One request\<close>

definition shouldRetryHTTPStatus :: "int \<Rightarrow> bool" where
  "shouldRetryHTTPStatus status \<longleftrightarrow> status = 408 \<or> status = 429 \<or> status \<ge> 500"

definition shouldRetryRequest :: "err option \<Rightarrow> err \<Rightarrow> bool" where
  "shouldRetryRequest ctxErr e \<longleftrightarrow>
     \<not> (ctxErr \<noteq> None \<or> errors_is e CtxCanceled) \<and>
     (is_retryable_error e \<or> errors_is e CtxDeadlineExceeded \<or> is_net_error e)"

definition read_limited :: "http_response \<Rightarrow> string res" where
  "read_limited resp =
     (if 65536 \<le> length (hs_body resp) then Inr (take 65536 (hs_body resp))
      else case hs_body_err resp of Some e \<Rightarrow> Inl e | None \<Rightarrow> Inr (hs_body resp))"

text \<open>\<open>readHTTPError\<close>; \<open>detail\<close> is the adapter's reading of an error message from the body.\<close>

definition status_error :: "int \<Rightarrow> string \<Rightarrow> err" where
  "status_error status detail =
     NewErr (''upstream status '' @ itoa status @ (if detail = [] then [] else '': '' @ detail))"

definition http_error :: "(string \<Rightarrow> string option) \<Rightarrow> http_response \<Rightarrow> err" where
  "http_error message resp =
     (case read_limited resp of
        Inl _ \<Rightarrow> status_error (hs_status resp) []
      | Inr body \<Rightarrow>
          (case message body of
             Some m \<Rightarrow> status_error (hs_status resp) m
           | None \<Rightarrow> status_error (hs_status resp) (trim_space body)))"

definition do_once ::
    "'w upstream \<Rightarrow> time option \<Rightarrow> (string \<Rightarrow> string option) \<Rightarrow> http_request \<Rightarrow> 'w \<Rightarrow>
     http_response res \<times> 'w" where
  "do_once env dl message rq w =
     (case env_do env dl rq w of
        (Inl e, w) \<Rightarrow> (Inl e, w)
      | (Inr resp, w) \<Rightarrow>
          if hs_status resp < 400 then (Inr resp, w)
          else if shouldRetryHTTPStatus (hs_status resp)
          then (Inl (RetryableError (http_error message resp)), w)
          else (Inl (http_error message resp), w))"

definition retry_delay :: "'a adapter_scheme \<Rightarrow> int \<Rightarrow> duration" where
  "retry_delay a attempt = go_mul (ad_retry_backoff a) (attempt + 1)"

text \<open>
  The loop of \<open>doRequest\<close>. \<open>left\<close> is the number of retries left, \<open>maxRetries - attempt\<close> of the code.
\<close>

fun request_loop ::
    "'a adapter_scheme \<Rightarrow> 'w upstream \<Rightarrow> (string \<Rightarrow> string option) \<Rightarrow> ('w, 'h) attempt_ctx \<Rightarrow>
     time option \<Rightarrow> attempt_metadata option \<Rightarrow> http_request \<Rightarrow> nat \<Rightarrow> int \<Rightarrow> 'w \<Rightarrow>
     (http_response \<times> 'h option) res \<times> 'w" where
  "request_loop a env message ctx dl metadata rq left attempt w =
     (case adapter_beginAttempt ctx metadata w of
        (Inl e, w) \<Rightarrow> (Inl e, w)
      | (Inr handle, w) \<Rightarrow>
        (case do_once env dl message rq w of
           (Inr resp, w) \<Rightarrow> (Inr (resp, handle), w)
         | (Inl e, w) \<Rightarrow>
           (case failAttempt ctx handle (metadataModel metadata) w of
              (Inl completeErr, w) \<Rightarrow> (Inl completeErr, w)
            | (Inr _, w) \<Rightarrow>
              (case left of
                 0 \<Rightarrow> (Inl e, w)
               | Suc left' \<Rightarrow>
                   if \<not> shouldRetryRequest (env_ctx_err env dl w) e then (Inl e, w)
                   else case env_wait env dl (retry_delay a attempt) w of
                     (Some _, w) \<Rightarrow> (Inl e, w)
                   | (None, w) \<Rightarrow>
                       request_loop a env message ctx dl metadata rq left' (attempt + 1) w))))"

declare request_loop.simps [simp del]

definition doRequest ::
    "'a adapter_scheme \<Rightarrow> 'w upstream \<Rightarrow> (string \<Rightarrow> string option) \<Rightarrow> ('w, 'h) attempt_ctx \<Rightarrow>
     time option \<Rightarrow> attempt_metadata option \<Rightarrow> http_request \<Rightarrow> 'w \<Rightarrow>
     (http_response \<times> 'h option) res \<times> 'w" where
  "doRequest a env message ctx dl metadata rq =
     request_loop a env message ctx dl metadata rq (nat (ad_max_retries a)) 0"

text \<open>\<open>json.NewDecoder(resp.Body).Decode\<close>, with the error that cut the body short, if one did.\<close>

definition decode_body :: "((string \<times> json) list \<Rightarrow> 'a res) \<Rightarrow> http_response \<Rightarrow> 'a res" where
  "decode_body dec resp =
     (case decode_stream (hs_body resp) of
        Inl e \<Rightarrow> Inl (case hs_body_err resp of Some e' \<Rightarrow> e' | None \<Rightarrow> e)
      | Inr v \<Rightarrow> decode_struct dec v)"

text \<open>
  A request whose whole answer is read: the attempt is failed when the answer cannot be decoded or
  is an error, and completed with the usage the upstream reports otherwise. \<open>judge\<close> is the adapter's
  test for an error in the answer, \<open>outcome\<close> the result it reports.
\<close>

definition json_request ::
    "'a adapter_scheme \<Rightarrow> 'w upstream \<Rightarrow> (string \<Rightarrow> string option) \<Rightarrow> ('w, 'h) attempt_ctx \<Rightarrow>
     time option \<Rightarrow> attempt_metadata \<Rightarrow> http_request \<Rightarrow> ((string \<times> json) list \<Rightarrow> 'p res) \<Rightarrow>
     ('p \<Rightarrow> err option) \<Rightarrow> ('p \<Rightarrow> attempt_result) \<Rightarrow> 'w \<Rightarrow> 'p res \<times> 'w" where
  "json_request a env message ctx dl metadata rq dec judge outcome w =
     (case doRequest a env message ctx dl (Some metadata) rq w of
        (Inl e, w) \<Rightarrow> (Inl e, w)
      | (Inr (resp, handle), w) \<Rightarrow>
        (case and_then (decode_body dec resp)
                (\<lambda>p. case judge p of Some e \<Rightarrow> Inl e | None \<Rightarrow> Inr p) of
           Inl e \<Rightarrow>
             (case failAttempt ctx handle (meta_model metadata) w of
                (Inl completeErr, w) \<Rightarrow> (Inl completeErr, w)
              | (Inr _, w) \<Rightarrow> (Inl e, w))
         | Inr p \<Rightarrow>
             (case finish_attempt ctx handle (outcome p) w of
                (Inl e, w) \<Rightarrow> (Inl e, w)
              | (Inr _, w) \<Rightarrow> (Inr p, w))))"

text \<open>Offering an error event: nothing is sent when the context ends first.\<close>

definition publishStreamError :: "'w upstream \<Rightarrow> err \<Rightarrow> 'w \<Rightarrow> stream_event list \<times> 'w" where
  "publishStreamError env e w =
     (case env_offer env w of (Some _, w) \<Rightarrow> ([], w) | (None, w) \<Rightarrow> ([ErrEvent e], w))"

definition publishFailure ::
    "'w upstream \<Rightarrow> ('w, 'h) attempt_ctx \<Rightarrow> 'h option \<Rightarrow> string \<Rightarrow> err \<Rightarrow> 'w \<Rightarrow>
     stream_event list \<times> 'w" where
  "publishFailure env ctx handle model e w =
     (let (_, w) = failAttempt ctx handle model w in publishStreamError env e w)"

section \<open>Attempts are not left open\<close>

text \<open>
  A recorder's books: \<open>open\<close> is the set of attempts begun and not completed, by their identifier.
  Beginning an attempt adds a new one or fails with an error of accounting; completing one removes
  it. \<open>given\<close> holds of the handles the recorder gives out, \<open>inv\<close> of its state.
\<close>

locale attempt_book =
  fixes rec :: "('w, 'h) attempt_recorder"
    and open_attempts :: "'w \<Rightarrow> nat set"
    and hid :: "'h \<Rightarrow> nat"
    and given :: "'h \<Rightarrow> bool"
    and inv :: "'w \<Rightarrow> bool"
  assumes begin_inv: "\<And>b m w r w'. inv w \<Longrightarrow> begin_attempt rec b m w = (r, w') \<Longrightarrow> inv w'"
    and begin_opens: "\<And>b m w h w'. inv w \<Longrightarrow> begin_attempt rec b m w = (Inr h, w') \<Longrightarrow>
      given h \<and> hid h \<notin> open_attempts w \<and> open_attempts w' = insert (hid h) (open_attempts w)"
    and begin_error: "\<And>b m w e w'. inv w \<Longrightarrow> begin_attempt rec b m w = (Inl e, w') \<Longrightarrow>
      IsAttemptAccountingError e"
    and complete_inv: "\<And>h a w r w'. inv w \<Longrightarrow> given h \<Longrightarrow> complete_attempt rec h a w = (r, w') \<Longrightarrow> inv w'"
    and complete_closes: "\<And>h a w u w'. inv w \<Longrightarrow> given h \<Longrightarrow> complete_attempt rec h a w = (Inr u, w') \<Longrightarrow>
      ares_status a \<noteq> ''started'' \<Longrightarrow> open_attempts w' = open_attempts w - {hid h}"
begin

text \<open>An environment that keeps out of the books.\<close>

definition quiet :: "'w upstream \<Rightarrow> bool" where
  "quiet env \<longleftrightarrow>
     (\<forall>dl rq w. inv w \<longrightarrow> inv (snd (env_do env dl rq w)) \<and>
        open_attempts (snd (env_do env dl rq w)) = open_attempts w) \<and>
     (\<forall>dl d w. inv w \<longrightarrow> inv (snd (env_wait env dl d w)) \<and>
        open_attempts (snd (env_wait env dl d w)) = open_attempts w)"

lemma quiet_do_once:
  assumes "quiet env" and "inv w" and "do_once env dl message rq w = (r, w')"
  shows "inv w' \<and> open_attempts w' = open_attempts w"
proof -
  have "w' = snd (env_do env dl rq w)"
    using assms(3) by (auto simp: do_once_def split: prod.splits sum.splits if_splits)
  with assms(1,2) show ?thesis by (simp add: quiet_def)
qed

lemma begin_cases:
  assumes "inv w" and "adapter_beginAttempt ctx m w = (r, w')" and "ctx_recorder ctx = Some rec"
  obtains (error) e where "r = Inl e" "IsAttemptAccountingError e" "inv w'"
    | (unrecorded) "r = Inr None" "inv w'" "open_attempts w' = open_attempts w"
    | (opened) h where "r = Inr (Some h)" "given h" "inv w'" "hid h \<notin> open_attempts w"
        "open_attempts w' = insert (hid h) (open_attempts w)"
proof (cases m)
  case None
  with assms unrecorded show thesis by (simp add: adapter_beginAttempt_def)
next
  case (Some md)
  obtain x w1 where x: "begin_attempt rec (ctx_backend ctx) md w = (x, w1)" by fastforce
  show thesis
  proof (cases x)
    case (Inl e)
    with Some x assms show thesis
      using begin_inv [OF assms(1) x] begin_error [OF assms(1), of "ctx_backend ctx" md e w1]
      by (intro error [of e]) (auto simp: adapter_beginAttempt_def)
  next
    case (Inr h)
    with Some x assms show thesis
      using begin_inv [OF assms(1) x] begin_opens [OF assms(1), of "ctx_backend ctx" md h w1]
      by (intro opened [of h]) (auto simp: adapter_beginAttempt_def)
  qed
qed

lemma finish_closes:
  assumes "inv w" and "finish_attempt ctx handle result w = (r, w')" and "ctx_recorder ctx = Some rec"
    and "\<And>h. handle = Some h \<Longrightarrow> given h" and "ares_status result \<noteq> ''started''"
  shows "inv w'"
    and "r = Inl e \<Longrightarrow> IsAttemptAccountingError e"
    and "r = Inr u \<Longrightarrow> open_attempts w' =
      open_attempts w - (case handle of None \<Rightarrow> {} | Some h \<Rightarrow> {hid h})"
proof -
  have *: "inv w' \<and> (\<forall>e. r = Inl e \<longrightarrow> IsAttemptAccountingError e) \<and>
      (\<forall>u. r = Inr u \<longrightarrow> open_attempts w' =
        open_attempts w - (case handle of None \<Rightarrow> {} | Some h \<Rightarrow> {hid h}))"
  proof (cases handle)
    case None
    with assms show ?thesis by (auto simp: finish_attempt_def)
  next
    case (Some h)
    obtain x w1 where x: "complete_attempt rec h result w = (x, w1)" by fastforce
    then have r: "r = WrapAttemptAccountingError x" "w' = w1"
      using assms(2,3) Some by (auto simp: finish_attempt_def)
    show ?thesis
      using complete_inv [OF assms(1) assms(4) [OF Some] x]
        complete_closes [OF assms(1) assms(4) [OF Some], of result _ w1] x assms(5) Some
      by (cases x) (auto simp: r)
  qed
  show "inv w'" "r = Inl e \<Longrightarrow> IsAttemptAccountingError e"
    "r = Inr u \<Longrightarrow> open_attempts w' =
      open_attempts w - (case handle of None \<Rightarrow> {} | Some h \<Rightarrow> {hid h})"
    using * by blast+
qed

lemma fail_closes:
  assumes "inv w" and "failAttempt ctx handle model w = (r, w')" and "ctx_recorder ctx = Some rec"
    and "\<And>h. handle = Some h \<Longrightarrow> given h"
  shows "inv w'"
    and "r = Inl e \<Longrightarrow> IsAttemptAccountingError e"
    and "r = Inr u \<Longrightarrow> open_attempts w' =
      open_attempts w - (case handle of None \<Rightarrow> {} | Some h \<Rightarrow> {hid h})"
proof -
  have "ares_status (failed_result model) \<noteq> ''started''" by (simp add: failed_result_def)
  note * = finish_closes [OF assms(1) assms(2) [unfolded failAttempt_def] assms(3,4) this]
  show "inv w'" "r = Inl e \<Longrightarrow> IsAttemptAccountingError e"
    "r = Inr u \<Longrightarrow> open_attempts w' =
      open_attempts w - (case handle of None \<Rightarrow> {} | Some h \<Rightarrow> {hid h})"
    using * by blast+
qed

text \<open>
  One turn of the loop: it ends with an error of accounting, with an answer and the attempt opened
  for it, with an error and no attempt open, or it goes on with no attempt open.
\<close>

lemma request_turn:
  assumes "request_loop a env message ctx dl m rq left attempt w = (r, w')"
    and "inv w" and "quiet env" and "ctx_recorder ctx = Some rec"
  obtains (accounting) e where "r = Inl e" "IsAttemptAccountingError e" "inv w'"
    | (answer) resp handle where "r = Inr (resp, handle)" "hs_status resp < 400" "inv w'"
        "open_attempts w' = open_attempts w \<union> (case handle of None \<Rightarrow> {} | Some h \<Rightarrow> {hid h})"
        "\<And>h. handle = Some h \<Longrightarrow> given h \<and> hid h \<notin> open_attempts w"
    | (failed) e where "r = Inl e" "inv w'" "open_attempts w' = open_attempts w"
    | (again) left' w1 where "left = Suc left'" "inv w1" "open_attempts w1 = open_attempts w"
        "request_loop a env message ctx dl m rq left' (attempt + 1) w1 = (r, w')"
proof -
  obtain b w1 where b: "adapter_beginAttempt ctx m w = (b, w1)" by fastforce
  note loop = assms(1) [unfolded request_loop.simps [of a env message ctx dl m rq left]]
  have begun: thesis if handle: "b = Inr handle" and inv1: "inv w1"
    and op: "open_attempts w1 = open_attempts w \<union> (case handle of None \<Rightarrow> {} | Some h \<Rightarrow> {hid h})"
    and new: "(case handle of None \<Rightarrow> {} | Some h \<Rightarrow> {hid h}) \<inter> open_attempts w = {}"
    and mine: "\<And>h. handle = Some h \<Longrightarrow> given h" for handle
  proof -
    obtain d w2 where d: "do_once env dl message rq w1 = (d, w2)" by fastforce
    note q = quiet_do_once [OF assms(3) inv1 d]
    show thesis
    proof (cases d)
      case (Inr resp)
      then have "r = Inr (resp, handle)" and "w' = w2" using loop b handle d by simp_all
      moreover have "hs_status resp < 400"
        using d Inr by (auto simp: do_once_def split: prod.splits sum.splits if_splits)
      ultimately show thesis using q op new mine by (intro answer [of resp handle]) auto
    next
      case (Inl e)
      obtain f w3 where f: "failAttempt ctx handle (metadataModel m) w2 = (f, w3)" by fastforce
      have inv3: "inv w3" using fail_closes(1) [OF _ f assms(4) mine] q by blast
      show thesis
      proof (cases f)
        case (Inl ce)
        then have "r = Inl ce" and "w' = w3" using loop b handle d \<open>d = Inl e\<close> f by simp_all
        then show thesis using fail_closes(2) [OF _ f assms(4) mine] q inv3 Inl
          by (intro accounting) auto
      next
        case (Inr u)
        have op3: "open_attempts w3 = open_attempts w"
          using fail_closes(3) [OF _ f assms(4) mine, of u] q Inr op new
          by auto
        show thesis
        proof (cases left)
          case 0
          then have "r = Inl e" and "w' = w3" using loop b handle d \<open>d = Inl e\<close> f Inr by simp_all
          then show thesis using inv3 op3 by (intro failed) auto
        next
          case (Suc left')
          show thesis
          proof (cases "shouldRetryRequest (env_ctx_err env dl w3) e")
            case False
            then have "r = Inl e" and "w' = w3"
              using loop b handle d \<open>d = Inl e\<close> f Inr Suc by simp_all
            then show thesis using inv3 op3 by (intro failed) auto
          next
            case True
            obtain x w4 where x: "env_wait env dl (retry_delay a attempt) w3 = (x, w4)" by fastforce
            then have "w4 = snd (env_wait env dl (retry_delay a attempt) w3)" by simp
            then have w4: "inv w4" "open_attempts w4 = open_attempts w"
              using assms(3) inv3 op3 by (simp_all add: quiet_def)
            show thesis
            proof (cases x)
              case (Some c)
              then have "r = Inl e" and "w' = w4"
                using loop b handle d \<open>d = Inl e\<close> f Inr Suc True x by simp_all
              then show thesis using w4 by (intro failed) auto
            next
              case None
              then have "request_loop a env message ctx dl m rq left' (attempt + 1) w4 = (r, w')"
                using loop b handle d \<open>d = Inl e\<close> f Inr Suc True x by simp
              then show thesis using Suc w4 by (intro again)
            qed
          qed
        qed
      qed
    qed
  qed
  show thesis
    using assms(2) b assms(4)
  proof (rule begin_cases)
    fix e assume "b = Inl e" "IsAttemptAccountingError e" "inv w1"
    with loop b show thesis by (intro accounting) auto
  next
    assume "b = Inr None" "inv w1" "open_attempts w1 = open_attempts w"
    then show thesis by (intro begun [of None]) simp_all
  next
    fix h assume "b = Inr (Some h)" "given h" "inv w1" "hid h \<notin> open_attempts w"
      "open_attempts w1 = insert (hid h) (open_attempts w)"
    then show thesis by (intro begun [of "Some h"]) simp_all
  qed
qed

text \<open>
  The retry loop: an answer comes with the one attempt opened for it; an error that is not one of
  accounting leaves the open attempts as they were.
\<close>

lemma request_loop_books:
  assumes "request_loop a env message ctx dl m rq left attempt w = (r, w')"
    and "inv w" and "quiet env" and "ctx_recorder ctx = Some rec"
  shows "inv w' \<and>
    (\<forall>e. r = Inl e \<longrightarrow> IsAttemptAccountingError e \<or> open_attempts w' = open_attempts w) \<and>
    (\<forall>resp handle. r = Inr (resp, handle) \<longrightarrow> hs_status resp < 400 \<and>
       open_attempts w' = open_attempts w \<union> (case handle of None \<Rightarrow> {} | Some h \<Rightarrow> {hid h}) \<and>
       (\<forall>h. handle = Some h \<longrightarrow> given h \<and> hid h \<notin> open_attempts w))"
  using assms(1,2)
proof (induction left arbitrary: attempt w)
  case 0
  from 0 assms(3,4) show ?case by (rule request_turn) auto
next
  case (Suc left)
  from Suc.prems assms(3,4) show ?case
  proof (rule request_turn)
    fix left' w1
    assume "Suc left = Suc left'" and "inv w1" and op: "open_attempts w1 = open_attempts w"
      and "request_loop a env message ctx dl m rq left' (attempt + 1) w1 = (r, w')"
    then show ?thesis using Suc.IH [of "attempt + 1" w1] by (simp add: op)
  qed auto
qed

text \<open>
  A request whose answer is read to its end closes the attempt it opened, whatever the answer.
\<close>

lemma json_request_books:
  assumes "json_request a env message ctx dl metadata rq dec judge outcome w = (r, w')"
    and "inv w" and "quiet env" and "ctx_recorder ctx = Some rec"
    and "\<And>p. ares_status (outcome p) \<noteq> ''started''"
  shows "inv w' \<and> ((\<exists>e. r = Inl e \<and> IsAttemptAccountingError e) \<or> open_attempts w' = open_attempts w)"
proof -
  obtain x w1 where x: "doRequest a env message ctx dl (Some metadata) rq w = (x, w1)" by fastforce
  note books = request_loop_books [OF x [unfolded doRequest_def] assms(2-4)]
  show ?thesis
  proof (cases x)
    case (Inl e)
    with assms(1) x have "r = Inl e" and "w' = w1" by (simp_all add: json_request_def)
    with Inl books show ?thesis by auto
  next
    case (Inr rh)
    then obtain resp handle where rh: "x = Inr (resp, handle)" by (cases rh) auto
    then have inv1: "inv w1" and mine: "\<And>h. handle = Some h \<Longrightarrow> given h"
      and op: "open_attempts w1 - (case handle of None \<Rightarrow> {} | Some h \<Rightarrow> {hid h}) = open_attempts w"
      using books by (auto split: option.splits)
    obtain y where y: "and_then (decode_body dec resp)
        (\<lambda>p. case judge p of Some e \<Rightarrow> Inl e | None \<Rightarrow> Inr p) = y" by blast
    note req = assms(1) [unfolded json_request_def x prod.case rh sum.case y]
    show ?thesis
    proof (cases y)
      case (Inl e)
      obtain f w2 where f: "failAttempt ctx handle (meta_model metadata) w1 = (f, w2)" by fastforce
      with req Inl have "w' = w2" and "\<And>ce. f = Inl ce \<Longrightarrow> r = Inl ce" by (auto split: sum.splits)
      then show ?thesis
        using fail_closes [OF inv1 f assms(4) mine] op by (cases f) auto
    next
      case (Inr p)
      obtain f w2 where f: "finish_attempt ctx handle (outcome p) w1 = (f, w2)" by fastforce
      with req Inr have "w' = w2" and "\<And>ce. f = Inl ce \<Longrightarrow> r = Inl ce" by (auto split: sum.splits)
      then show ?thesis
        using finish_closes [OF inv1 f assms(4) mine assms(5)] op by (cases f) auto
    qed
  qed
qed

end

section \<open>How often and when a request is sent\<close>

text \<open>\<open>sent\<close> counts the requests that reached the network; nothing else changes it.\<close>

definition counts_requests :: "('w \<Rightarrow> nat) \<Rightarrow> 'w upstream \<Rightarrow> ('w, 'h) attempt_ctx \<Rightarrow> bool" where
  "counts_requests sent env ctx \<longleftrightarrow>
     (\<forall>dl rq w. sent (snd (env_do env dl rq w)) = Suc (sent w)) \<and>
     (\<forall>dl d w. sent (snd (env_wait env dl d w)) = sent w) \<and>
     (\<forall>m w. sent (snd (adapter_beginAttempt ctx m w)) = sent w) \<and>
     (\<forall>h model w. sent (snd (failAttempt ctx h model w)) = sent w)"

lemma do_once_sent:
  "counts_requests sent env ctx \<Longrightarrow> do_once env dl message rq w = (r, w') \<Longrightarrow> sent w' = Suc (sent w)"
  by (auto simp: do_once_def counts_requests_def split: prod.splits sum.splits if_splits)
    (metis snd_conv)+

lemma request_loop_sent:
  assumes "counts_requests sent env ctx"
    and "request_loop a env message ctx dl m rq left attempt w = (r, w')"
  shows "sent w' \<le> sent w + left + 1"
  using assms(2)
proof (induction left arbitrary: attempt w)
  case 0
  have b: "sent w1 = sent w" if "adapter_beginAttempt ctx m w = (x, w1)" for x w1
    using assms(1) that by (auto simp: counts_requests_def) (metis snd_conv)
  have f: "sent w1 = sent v" if "failAttempt ctx h md v = (x, w1)" for h md v x w1
    using assms(1) that by (auto simp: counts_requests_def) (metis snd_conv)
  show ?case
    using 0 unfolding request_loop.simps [of a env message ctx dl m rq 0]
    by (auto split: prod.splits sum.splits dest!: b f do_once_sent [OF assms(1)])
next
  case (Suc left)
  have b: "sent w1 = sent w" if "adapter_beginAttempt ctx m w = (x, w1)" for x w1
    using assms(1) that by (auto simp: counts_requests_def) (metis snd_conv)
  have f: "sent w1 = sent v" if "failAttempt ctx h md v = (x, w1)" for h md v x w1
    using assms(1) that by (auto simp: counts_requests_def) (metis snd_conv)
  have t: "sent w1 = sent v" if "env_wait env dl d v = (x, w1)" for d v x w1
    using assms(1) that by (auto simp: counts_requests_def) (metis snd_conv)
  show ?case
    using Suc.prems unfolding request_loop.simps [of a env message ctx dl m rq "Suc left"]
    by (auto split: prod.splits sum.splits if_splits option.splits
        dest!: b f t do_once_sent [OF assms(1)] Suc.IH)
qed

text \<open>Only a request that may succeed on a second try is tried again.\<close>

lemma request_loop_stops:
  assumes "adapter_beginAttempt ctx m w = (Inr handle, w1)" and "do_once env dl message rq w1 = (Inl e, w2)"
    and "failAttempt ctx handle (metadataModel m) w2 = (Inr u, w3)"
    and "\<not> shouldRetryRequest (env_ctx_err env dl w3) e"
  shows "request_loop a env message ctx dl m rq left attempt w = (Inl e, w3)"
  using assms by (simp add: request_loop.simps [of a env message ctx dl m rq left] split: nat.splits)

text \<open>An attempt whose failure cannot be recorded ends the request with that error.\<close>

lemma request_loop_unrecorded:
  assumes "adapter_beginAttempt ctx m w = (Inr handle, w1)" and "do_once env dl message rq w1 = (Inl e, w2)"
    and "failAttempt ctx handle (metadataModel m) w2 = (Inl ce, w3)"
  shows "request_loop a env message ctx dl m rq left attempt w = (Inl ce, w3)"
  using assms by (simp add: request_loop.simps [of a env message ctx dl m rq left])

end
