(* ===== verification/OpenAI.thy ===== *)
theory OpenAI
  imports Adapter
begin

text \<open>
  \<open>internal/provider/openai/chat.go\<close>: requests to an OpenAI-compatible upstream, its JSON answers,
  and its event streams, whose lines carry one chunk each and end with \<open>[DONE]\<close>. The parts shared
  with the other adapters are those of the theory \<open>Adapter\<close>.
\<close>

section \<open>Payloads\<close>

record oa_request =
  oaq_model :: string
  oaq_messages :: "chat_message list"
  oaq_stream :: bool

record oa_choice =
  oac_index :: int
  oac_message :: chat_message
  oac_delta :: chat_message
  oac_finish_reason :: string

record api_error =
  ae_message :: string
  ae_type :: string

record oa_response =
  oar_id :: string
  oar_object :: string
  oar_created :: int
  oar_model :: string
  oar_choices :: "oa_choice list"
  oar_usage :: usage
  oar_error :: "api_error option"

definition message_json :: "chat_message \<Rightarrow> json" where
  "message_json m = JObj [(''role'', JStr (msg_role m)), (''content'', JStr (msg_content m))]"

definition oa_request_json :: "oa_request \<Rightarrow> json" where
  "oa_request_json q =
     JObj ([(''model'', JStr (oaq_model q)), (''messages'', JArr (map message_json (oaq_messages q)))]
           @ (if oaq_stream q then [(''stream'', JBool True)] else []))"

definition empty_message :: chat_message where
  "empty_message = \<lparr>msg_role = [], msg_content = []\<rparr>"

definition dec_message :: "(string \<times> json) list \<Rightarrow> chat_message res" where
  "dec_message ms =
     and_then (string_field ''role'' ms) (\<lambda>role.
     and_then (string_field ''content'' ms) (\<lambda>content.
     Inr \<lparr>msg_role = role, msg_content = content\<rparr>))"

definition dec_usage :: "(string \<times> json) list \<Rightarrow> usage res" where
  "dec_usage ms =
     and_then (int_field ''prompt_tokens'' ms) (\<lambda>p.
     and_then (int_field ''completion_tokens'' ms) (\<lambda>c.
     and_then (int_field ''total_tokens'' ms) (\<lambda>t.
     Inr \<lparr>prompt_tokens = p, completion_tokens = c, total_tokens = t\<rparr>)))"

definition dec_api_error :: "(string \<times> json) list \<Rightarrow> api_error res" where
  "dec_api_error ms =
     and_then (string_field ''message'' ms) (\<lambda>m.
     and_then (string_field ''type'' ms) (\<lambda>t. Inr \<lparr>ae_message = m, ae_type = t\<rparr>))"

definition dec_oa_choice :: "(string \<times> json) list \<Rightarrow> oa_choice res" where
  "dec_oa_choice ms =
     and_then (int_field ''index'' ms) (\<lambda>i.
     and_then (struct_field ''message'' dec_message empty_message ms) (\<lambda>m.
     and_then (struct_field ''delta'' dec_message empty_message ms) (\<lambda>d.
     and_then (string_field ''finish_reason'' ms) (\<lambda>f.
     Inr \<lparr>oac_index = i, oac_message = m, oac_delta = d, oac_finish_reason = f\<rparr>))))"

definition zero_usage :: usage where
  "zero_usage = \<lparr>prompt_tokens = 0, completion_tokens = 0, total_tokens = 0\<rparr>"

definition dec_oa_response :: "(string \<times> json) list \<Rightarrow> oa_response res" where
  "dec_oa_response ms =
     and_then (string_field ''id'' ms) (\<lambda>i.
     and_then (string_field ''object'' ms) (\<lambda>ob.
     and_then (int_field ''created'' ms) (\<lambda>cr.
     and_then (string_field ''model'' ms) (\<lambda>m.
     and_then (list_field ''choices'' dec_oa_choice ms) (\<lambda>cs.
     and_then (struct_field ''usage'' dec_usage zero_usage ms) (\<lambda>u.
     and_then (pointer_field ''error'' dec_api_error ms) (\<lambda>e.
     Inr \<lparr>oar_id = i, oar_object = ob, oar_created = cr, oar_model = m, oar_choices = cs,
          oar_usage = u, oar_error = e\<rparr>)))))))"

definition dec_provider_model :: "(string \<times> json) list \<Rightarrow> provider_model res" where
  "dec_provider_model ms =
     and_then (string_field ''id'' ms) (\<lambda>i.
     and_then (string_field ''object'' ms) (\<lambda>ob.
     and_then (int_field ''created'' ms) (\<lambda>cr.
     and_then (string_field ''owned_by'' ms) (\<lambda>ow.
     Inr \<lparr>model_id = i, model_object = ob, model_created = cr, model_owned_by = ow\<rparr>))))"

text \<open>An error with a message, as the answers, the streams and the error bodies are tested for.\<close>

definition error_message :: "api_error option \<Rightarrow> string option" where
  "error_message e =
     (case e of None \<Rightarrow> None | Some x \<Rightarrow> if ae_message x \<noteq> [] then Some (ae_message x) else None)"

section \<open>Requests\<close>

definition openai_New :: "adapter \<Rightarrow> adapter" where
  "openai_New cfg = normalize_adapter cfg"

definition openai_endpointURL :: "adapter \<Rightarrow> string" where
  "openai_endpointURL a = ad_base_url a @ ''/chat/completions''"

definition openai_modelsEndpointURL :: "adapter \<Rightarrow> string" where
  "openai_modelsEndpointURL a = ad_base_url a @ ''/models''"

definition openai_request :: "adapter \<Rightarrow> string \<Rightarrow> string \<Rightarrow> string \<Rightarrow> string \<Rightarrow> http_request" where
  "openai_request a meth url body accept =
     \<lparr>hr_method = meth, hr_url = url, hr_body = body,
      hr_headers =
        (if body \<noteq> [] then [(''Content-Type'', ''application/json'')] else []) @
        (if accept \<noteq> [] then [(''Accept'', accept)] else []) @
        (if ad_api_key a \<noteq> [] then [(''Authorization'', ''Bearer '' @ ad_api_key a)] else [])\<rparr>"

definition openai_error_message :: "string \<Rightarrow> string option" where
  "openai_error_message body =
     (case and_then (unmarshal body) (decode_struct dec_oa_response) of
        Inl _ \<Rightarrow> None
      | Inr p \<Rightarrow> error_message (oar_error p))"

definition openai_readHTTPError :: "http_response \<Rightarrow> err" where
  "openai_readHTTPError = http_error openai_error_message"

definition openai_metadata ::
    "('w, 'h) attempt_ctx \<Rightarrow> 'w upstream \<Rightarrow> oa_request \<Rightarrow> bool \<Rightarrow> 'w \<Rightarrow> attempt_metadata" where
  "openai_metadata ctx env q stream w =
     \<lparr>meta_backend = ctx_backend ctx, meta_model = oaq_model q, meta_stream = stream,
      meta_prompt_tokens = EstimatePromptTokens (oaq_messages q), meta_created_at = env_now env w\<rparr>"

definition openai_outcome :: "oa_response \<Rightarrow> attempt_result" where
  "openai_outcome p =
     \<lparr>ares_model = oar_model p, ares_status = ''succeeded'',
      ares_prompt_tokens = prompt_tokens (oar_usage p),
      ares_completion_tokens = completion_tokens (oar_usage p),
      ares_total_tokens = total_tokens (oar_usage p)\<rparr>"

text \<open>The answer's error field is not looked at here, unlike in the other two adapters.\<close>

definition openai_doJSONRequest ::
    "adapter \<Rightarrow> 'w upstream \<Rightarrow> ('w, 'h) attempt_ctx \<Rightarrow> oa_request \<Rightarrow> bool \<Rightarrow> 'w \<Rightarrow>
     oa_response res \<times> 'w" where
  "openai_doJSONRequest a env ctx q stream w =
     json_request a env openai_error_message ctx (withTimeout a (env_now env w))
       (openai_metadata ctx env q stream w)
       (openai_request a ''POST'' (openai_endpointURL a) (encode (oa_request_json q))
          (if stream then ''text/event-stream'' else []))
       dec_oa_response (\<lambda>_. None) openai_outcome w"

definition toProviderChoices :: "oa_choice list \<Rightarrow> chat_choice list" where
  "toProviderChoices choices =
     map (\<lambda>c. \<lparr>choice_index = oac_index c, choice_message = oac_message c,
               choice_finish_reason = oac_finish_reason c\<rparr>) choices"

definition toProviderStreamChoices :: "oa_choice list \<Rightarrow> chat_choice list" where
  "toProviderStreamChoices choices =
     map (\<lambda>c.
       let message = (if msg_role (oac_message c) = [] \<and> msg_content (oac_message c) = []
                      then oac_delta c else oac_message c)
       in \<lparr>choice_index = oac_index c, choice_message = message,
           choice_finish_reason = oac_finish_reason c\<rparr>) choices"

definition openai_CreateChatCompletion ::
    "adapter \<Rightarrow> 'w upstream \<Rightarrow> ('w, 'h) attempt_ctx \<Rightarrow> chat_completion_request \<Rightarrow> 'w \<Rightarrow>
     chat_completion_response res \<times> 'w" where
  "openai_CreateChatCompletion a env ctx req w =
     (case openai_doJSONRequest a env ctx
             \<lparr>oaq_model = resolveModel a (req_model req), oaq_messages = req_messages req,
              oaq_stream = False\<rparr> False w of
        (Inl e, w) \<Rightarrow> (Inl e, w)
      | (Inr p, w) \<Rightarrow>
          (Inr \<lparr>resp_id = oar_id p, resp_object = oar_object p, resp_created = oar_created p,
                resp_model = oar_model p, resp_choices = toProviderChoices (oar_choices p),
                resp_usage = oar_usage p\<rparr>, w))"

definition openai_ListModels ::
    "adapter \<Rightarrow> 'w upstream \<Rightarrow> ('w, 'h) attempt_ctx \<Rightarrow> 'w \<Rightarrow> provider_model list res \<times> 'w" where
  "openai_ListModels a env ctx w =
     (case doRequest a env openai_error_message ctx (withTimeout a (env_now env w)) None
             (openai_request a ''GET'' (openai_modelsEndpointURL a) [] []) w of
        (Inl e, w) \<Rightarrow> (Inl e, w)
      | (Inr (resp, _), w) \<Rightarrow>
          (decode_body (list_field ''data'' dec_provider_model) resp, w))"

section \<open>Streams\<close>

definition openai_openStream ::
    "adapter \<Rightarrow> 'w upstream \<Rightarrow> ('w, 'h) attempt_ctx \<Rightarrow> oa_request \<Rightarrow> 'w \<Rightarrow>
     (http_response \<times> 'h option) res \<times> 'w" where
  "openai_openStream a env ctx q w =
     doRequest a env openai_error_message ctx None (Some (openai_metadata ctx env q True w))
       (openai_request a ''POST'' (openai_endpointURL a) (encode (oa_request_json q))
          ''text/event-stream'') w"

text \<open>The lines that \<open>ReadString\<close> returns before the end: a last line without a newline is not one.\<close>

fun complete_lines :: "string \<Rightarrow> string list" where
  "complete_lines [] = []"
| "complete_lines (c # s) =
     (if c = CHR 0x0A then [c] # complete_lines s
      else case complete_lines s of
        [] \<Rightarrow> []
      | l # ls \<Rightarrow> (c # l) # ls)"

definition openai_decodeStreamPayload :: "string \<Rightarrow> oa_response res" where
  "openai_decodeStreamPayload data =
     and_then (unmarshal data) (\<lambda>v.
     and_then (decode_struct dec_oa_response v) (\<lambda>p.
       case error_message (oar_error p) of Some m \<Rightarrow> Inl (NewErr m) | None \<Rightarrow> Inr p))"

definition openai_chunk :: "oa_response \<Rightarrow> chat_completion_chunk" where
  "openai_chunk p =
     \<lparr>chunk_id = oar_id p, chunk_object = oar_object p, chunk_created = oar_created p,
      chunk_model = oar_model p, chunk_choices = toProviderStreamChoices (oar_choices p)\<rparr>"

text \<open>\<open>publishChunk\<close>: the context's end fails the attempt and offers its error.\<close>

definition openai_publishChunk ::
    "'w upstream \<Rightarrow> ('w, 'h) attempt_ctx \<Rightarrow> 'h option \<Rightarrow> string \<Rightarrow> oa_response \<Rightarrow> 'w \<Rightarrow>
     bool \<times> stream_event list \<times> 'w" where
  "openai_publishChunk env ctx handle model p w =
     (case env_offer env w of
        (Some e, w) \<Rightarrow> (let (evs, w) = publishFailure env ctx handle model e w in (False, evs, w))
      | (None, w) \<Rightarrow> (True, [ChunkEvent (openai_chunk p)], w))"

text \<open>
  \<open>consumeLine\<close>: whether the stream is done, whether to go on, what was sent, and the model seen last.
\<close>

definition openai_consumeLine ::
    "'w upstream \<Rightarrow> ('w, 'h) attempt_ctx \<Rightarrow> 'h option \<Rightarrow> string \<Rightarrow> string \<Rightarrow> 'w \<Rightarrow>
     bool \<times> bool \<times> stream_event list \<times> string \<times> 'w" where
  "openai_consumeLine env ctx handle model line w =
     (let trimmed = trim_space line in
      if trimmed = [] \<or> has_prefix trimmed '':'' \<or> \<not> has_prefix trimmed ''data: ''
      then (False, True, [], model, w)
      else let data = trim_space (trim_prefix trimmed ''data: '') in
        if data = ''[DONE]'' then (True, False, [], model, w)
        else case openai_decodeStreamPayload data of
          Inl e \<Rightarrow> (let (evs, w) = publishFailure env ctx handle model e w
                   in (False, False, evs, model, w))
        | Inr p \<Rightarrow>
            (let model = (if trim_space (oar_model p) \<noteq> [] then oar_model p else model);
                 (ok, evs, w) = openai_publishChunk env ctx handle model p w
             in (False, ok, evs, model, w)))"

fun openai_stream_lines ::
    "'w upstream \<Rightarrow> ('w, 'h) attempt_ctx \<Rightarrow> 'h option \<Rightarrow> err \<Rightarrow> string \<Rightarrow> string list \<Rightarrow> 'w \<Rightarrow>
     stream_event list \<times> 'w" where
  "openai_stream_lines env ctx handle ending model [] w = publishFailure env ctx handle model ending w"
| "openai_stream_lines env ctx handle ending model (line # lines) w =
     (let (done, ok, evs, model, w) = openai_consumeLine env ctx handle model line w in
      if done \<or> \<not> ok then (evs, w)
      else let (rest, w) = openai_stream_lines env ctx handle ending model lines w
           in (evs @ rest, w))"

definition openai_ending :: "http_response \<Rightarrow> err" where
  "openai_ending resp =
     (case hs_body_err resp of
        Some e \<Rightarrow> if errors_is e IoEOF then NewErr ''upstream stream ended before [DONE]'' else e
      | None \<Rightarrow> NewErr ''upstream stream ended before [DONE]'')"

definition openai_StreamChatCompletion ::
    "adapter \<Rightarrow> 'w upstream \<Rightarrow> ('w, 'h) attempt_ctx \<Rightarrow> chat_completion_request \<Rightarrow> 'w \<Rightarrow>
     stream_event list res \<times> 'w" where
  "openai_StreamChatCompletion a env ctx req w =
     (case openai_openStream a env ctx
             \<lparr>oaq_model = resolveModel a (req_model req), oaq_messages = req_messages req,
              oaq_stream = True\<rparr> w of
        (Inl e, w) \<Rightarrow> (Inl e, w)
      | (Inr (resp, handle), w) \<Rightarrow>
          (let (evs, w) = openai_stream_lines env ctx handle (openai_ending resp)
                            (resolveModel a (req_model req)) (complete_lines (hs_body resp)) w
           in (Inr evs, w)))"

section \<open>Lemmas\<close>

lemma complete_lines_append:
  "CHR 0x0A \<notin> set l \<Longrightarrow> complete_lines (l @ CHR 0x0A # s) = (l @ [CHR 0x0A]) # complete_lines s"
  by (induction l) auto

lemma complete_lines_rest: "CHR 0x0A \<notin> set l \<Longrightarrow> complete_lines l = []"
  by (induction l) auto

text \<open>A line of a stream that carries a payload.\<close>

definition data_line :: "string \<Rightarrow> string" where
  "data_line d = ''data: '' @ d @ [CHR 0x0A]"

text \<open>
  \<open>plain_data d\<close>: the payload text begins and ends with a visible byte, so that the line read back
  is the payload.
\<close>

definition plain_data :: "string \<Rightarrow> bool" where
  "plain_data d \<longleftrightarrow> d \<noteq> [] \<and> trim_space d = d \<and> trim_space (data_line d) = ''data: '' @ d"

definition always_offers :: "'w upstream \<Rightarrow> bool" where
  "always_offers env \<longleftrightarrow> (\<forall>w. env_offer env w = (None, w))"

lemma consumeLine_chunk:
  assumes "plain_data d" and "d \<noteq> ''[DONE]''" and "openai_decodeStreamPayload d = Inr p"
    and "always_offers env"
  shows "openai_consumeLine env ctx handle model (data_line d) w =
    (False, True, [ChunkEvent (openai_chunk p)],
     (if trim_space (oar_model p) \<noteq> [] then oar_model p else model), w)"
proof -
  have t: "trim_space (data_line d) = ''data: '' @ d" and d: "trim_space d = d"
    using assms(1) by (simp_all add: plain_data_def)
  have "trim_prefix (''data: '' @ d) ''data: '' = d" by (rule trim_prefix_append)
  moreover have "has_prefix (''data: '' @ d) ''data: ''" unfolding has_prefix_iff by blast
  moreover have "\<not> has_prefix (''data: '' @ d) '':''" by (simp add: has_prefix_def)
  ultimately show ?thesis
    using assms(2-4)
    unfolding openai_consumeLine_def Let_def t openai_publishChunk_def always_offers_def
    by (simp add: d)
qed

lemma consumeLine_done: "openai_consumeLine env ctx handle model (''data: [DONE]'' @ [CHR 0x0A]) w =
    (True, False, [], model, w)"
proof -
  have "trim_space (''data: [DONE]'' @ [CHR 0x0A]) = ''data: [DONE]''" by code_simp
  moreover have "trim_space (trim_prefix ''data: [DONE]'' ''data: '') = ''[DONE]''" by code_simp
  moreover have "has_prefix ''data: [DONE]'' ''data: ''" "\<not> has_prefix ''data: [DONE]'' '':''"
    by code_simp+
  ultimately show ?thesis by (simp add: openai_consumeLine_def Let_def)
qed

text \<open>A stream that ends with \<open>[DONE]\<close> is delivered whole and without an error.\<close>

lemma openai_stream_done:
  assumes "always_offers env"
    and "list_all2 (\<lambda>d p. plain_data d \<and> d \<noteq> ''[DONE]'' \<and> openai_decodeStreamPayload d = Inr p) ds ps"
  shows "openai_stream_lines env ctx handle ending model
      (map data_line ds @ (''data: [DONE]'' @ [CHR 0x0A]) # lines) w =
    (map (\<lambda>p. ChunkEvent (openai_chunk p)) ps, w)"
  using assms(2)
proof (induction ds arbitrary: ps model)
  case Nil
  then show ?case by (simp add: consumeLine_done [simplified])
next
  case (Cons d ds)
  then obtain p ps' where ps: "ps = p # ps'" and p: "plain_data d" "d \<noteq> ''[DONE]''"
      "openai_decodeStreamPayload d = Inr p"
    and rest: "list_all2 (\<lambda>d p. plain_data d \<and> d \<noteq> ''[DONE]'' \<and> openai_decodeStreamPayload d = Inr p)
      ds ps'"
    by (auto simp: list_all2_Cons1)
  show ?case
    using Cons.IH [OF rest] by (simp add: consumeLine_chunk [OF p assms(1)] ps)
qed

text \<open>A stream cut before \<open>[DONE]\<close> ends with the error, after the chunks that arrived.\<close>

lemma openai_stream_cut:
  assumes "always_offers env"
    and "list_all2 (\<lambda>d p. plain_data d \<and> d \<noteq> ''[DONE]'' \<and> openai_decodeStreamPayload d = Inr p) ds ps"
  shows "fst (openai_stream_lines env ctx handle ending model (map data_line ds) w) =
    map (\<lambda>p. ChunkEvent (openai_chunk p)) ps @ [ErrEvent ending]"
  using assms(2)
proof (induction ds arbitrary: ps model)
  case Nil
  then show ?case
    using assms(1)
    by (simp add: publishFailure_def publishStreamError_def always_offers_def split: prod.splits)
next
  case (Cons d ds)
  then obtain p ps' where ps: "ps = p # ps'" and p: "plain_data d" "d \<noteq> ''[DONE]''"
      "openai_decodeStreamPayload d = Inr p"
    and rest: "list_all2 (\<lambda>d p. plain_data d \<and> d \<noteq> ''[DONE]'' \<and> openai_decodeStreamPayload d = Inr p)
      ds ps'"
    by (auto simp: list_all2_Cons1)
  show ?case
    using Cons.IH [OF rest]
    by (simp add: consumeLine_chunk [OF p assms(1)] ps case_prod_beta)
qed

text \<open>An error stands last and at most once in what a stream sends.\<close>

lemma publishFailure_events:
  "fst (publishFailure env ctx handle model e w) = [] \<or>
   fst (publishFailure env ctx handle model e w) = [ErrEvent e]"
  by (auto simp: publishFailure_def publishStreamError_def split: prod.splits option.splits)

end
