(* ===== verification/Ollama.thy ===== *)
theory Ollama
  imports OpenAI
begin

text \<open>
  \<open>internal/provider/ollama/chat.go\<close>: requests to an Ollama server, whose streams are one JSON
  object to a line with a \<open>done\<close> flag on the last one.
\<close>

section \<open>Payloads\<close>

record ollama_response =
  olr_model :: string
  olr_created_at :: string
  olr_message :: chat_message
  olr_done :: bool
  olr_done_reason :: string
  olr_prompt_eval_count :: int
  olr_eval_count :: int
  olr_error :: string

record ollama_model =
  olm_name :: string
  olm_model :: string
  olm_modified_at :: string

definition ollama_request_json :: "oa_request \<Rightarrow> json" where
  "ollama_request_json q =
     JObj [(''model'', JStr (oaq_model q)), (''messages'', JArr (map message_json (oaq_messages q))),
           (''stream'', JBool (oaq_stream q))]"

definition dec_ollama_response :: "(string \<times> json) list \<Rightarrow> ollama_response res" where
  "dec_ollama_response ms =
     and_then (string_field ''model'' ms) (\<lambda>m.
     and_then (string_field ''created_at'' ms) (\<lambda>c.
     and_then (struct_field ''message'' dec_message empty_message ms) (\<lambda>msg.
     and_then (bool_field ''done'' ms) (\<lambda>d.
     and_then (string_field ''done_reason'' ms) (\<lambda>r.
     and_then (int_field ''prompt_eval_count'' ms) (\<lambda>pe.
     and_then (int_field ''eval_count'' ms) (\<lambda>ev.
     and_then (string_field ''error'' ms) (\<lambda>er.
     Inr \<lparr>olr_model = m, olr_created_at = c, olr_message = msg, olr_done = d,
          olr_done_reason = r, olr_prompt_eval_count = pe, olr_eval_count = ev,
          olr_error = er\<rparr>))))))))"

definition dec_ollama_model :: "(string \<times> json) list \<Rightarrow> ollama_model res" where
  "dec_ollama_model ms =
     and_then (string_field ''name'' ms) (\<lambda>n.
     and_then (string_field ''model'' ms) (\<lambda>m.
     and_then (string_field ''modified_at'' ms) (\<lambda>t.
     Inr \<lparr>olm_name = n, olm_model = m, olm_modified_at = t\<rparr>)))"

section \<open>Small functions\<close>

definition ollama_New :: "adapter \<Rightarrow> adapter" where
  "ollama_New cfg = normalize_adapter cfg"

definition ollama_chatEndpointURL :: "adapter \<Rightarrow> string" where
  "ollama_chatEndpointURL a = ad_base_url a @ ''/api/chat''"

definition ollama_modelsEndpointURL :: "adapter \<Rightarrow> string" where
  "ollama_modelsEndpointURL a = ad_base_url a @ ''/api/tags''"

definition completionID :: "time \<Rightarrow> string" where
  "completionID created = ''ollama-'' @ itoa (unix_nanos created)"

definition parseTimestamp :: "string \<Rightarrow> time" where
  "parseTimestamp value =
     (let trimmed = trim_space value in
      if trimmed = [] then unix_epoch
      else case parse_rfc3339 trimmed of None \<Rightarrow> unix_epoch | Some t \<Rightarrow> t)"

definition ollama_finishReason :: "string \<Rightarrow> bool \<Rightarrow> string" where
  "ollama_finishReason reason finished =
     (let trimmed = trim_space reason in
      if trimmed \<noteq> [] then trimmed else if finished then ''stop'' else [])"

definition isDoneSentinel :: "ollama_response \<Rightarrow> bool" where
  "isDoneSentinel p \<longleftrightarrow>
     olr_done p \<and> msg_role (olr_message p) = [] \<and> msg_content (olr_message p) = [] \<and>
     olr_done_reason p = []"

definition payloadModel :: "ollama_response \<Rightarrow> string \<Rightarrow> string" where
  "payloadModel p fallback = (if trim_space (olr_model p) \<noteq> [] then olr_model p else fallback)"

section \<open>Requests\<close>

text \<open>The body of an error answer is decoded as an object with an \<open>error\<close> text.\<close>

definition ollama_error_message :: "string \<Rightarrow> string option" where
  "ollama_error_message body =
     (case and_then (unmarshal body) (decode_struct (string_field ''error'')) of
        Inl _ \<Rightarrow> None
      | Inr t \<Rightarrow> if trim_space t \<noteq> [] then Some t else None)"

definition ollama_readHTTPError :: "http_response \<Rightarrow> err" where
  "ollama_readHTTPError = http_error ollama_error_message"

definition ollama_doRequestOnce ::
    "adapter \<Rightarrow> 'w upstream \<Rightarrow> time option \<Rightarrow> string \<Rightarrow> string \<Rightarrow> string \<Rightarrow> string \<Rightarrow> 'w \<Rightarrow>
     http_response res \<times> 'w" where
  "ollama_doRequestOnce a env dl meth url body accept =
     do_once env dl ollama_error_message (openai_request a meth url body accept)"

definition ollama_doRequest ::
    "adapter \<Rightarrow> 'w upstream \<Rightarrow> ('w, 'h) attempt_ctx \<Rightarrow> time option \<Rightarrow> attempt_metadata option \<Rightarrow>
     string \<Rightarrow> string \<Rightarrow> string \<Rightarrow> string \<Rightarrow> 'w \<Rightarrow> (http_response \<times> 'h option) res \<times> 'w" where
  "ollama_doRequest a env ctx dl metadata meth url body accept =
     doRequest a env ollama_error_message ctx dl metadata (openai_request a meth url body accept)"

definition ollama_outcome :: "ollama_response \<Rightarrow> attempt_result" where
  "ollama_outcome p =
     \<lparr>ares_model = olr_model p, ares_status = ''succeeded'',
      ares_prompt_tokens = olr_prompt_eval_count p, ares_completion_tokens = olr_eval_count p,
      ares_total_tokens = go_add (olr_prompt_eval_count p) (olr_eval_count p)\<rparr>"

definition ollama_judge :: "ollama_response \<Rightarrow> err option" where
  "ollama_judge p = (if olr_error p \<noteq> [] then Some (NewErr (olr_error p)) else None)"

definition ollama_doChatRequest ::
    "adapter \<Rightarrow> 'w upstream \<Rightarrow> ('w, 'h) attempt_ctx \<Rightarrow> oa_request \<Rightarrow> 'w \<Rightarrow> ollama_response res \<times> 'w" where
  "ollama_doChatRequest a env ctx q w =
     json_request a env ollama_error_message ctx (withTimeout a (env_now env w))
       (openai_metadata ctx env q False w)
       (openai_request a ''POST'' (ollama_chatEndpointURL a) (encode (ollama_request_json q)) [])
       dec_ollama_response ollama_judge ollama_outcome w"

definition ollama_CreateChatCompletion ::
    "adapter \<Rightarrow> 'w upstream \<Rightarrow> ('w, 'h) attempt_ctx \<Rightarrow> chat_completion_request \<Rightarrow> 'w \<Rightarrow>
     chat_completion_response res \<times> 'w" where
  "ollama_CreateChatCompletion a env ctx req w =
     (case ollama_doChatRequest a env ctx
             \<lparr>oaq_model = resolveModel a (req_model req), oaq_messages = req_messages req,
              oaq_stream = False\<rparr> w of
        (Inl e, w) \<Rightarrow> (Inl e, w)
      | (Inr p, w) \<Rightarrow>
          (let created = parseTimestamp (olr_created_at p);
               model = (if trim_space (olr_model p) = [] then resolveModel a (req_model req)
                        else olr_model p)
           in (Inr \<lparr>resp_id = completionID created, resp_object = ''chat.completion'',
                    resp_created = unix_seconds created, resp_model = model,
                    resp_choices =
                      [\<lparr>choice_index = 0, choice_message = olr_message p,
                        choice_finish_reason =
                          ollama_finishReason (olr_done_reason p) (olr_done p)\<rparr>],
                    resp_usage = \<lparr>prompt_tokens = olr_prompt_eval_count p,
                                  completion_tokens = olr_eval_count p,
                                  total_tokens =
                                    go_add (olr_prompt_eval_count p) (olr_eval_count p)\<rparr>\<rparr>, w)))"

text \<open>The loop of \<open>ListModels\<close>: a model without an identifier is named by its name or left out.\<close>

fun ollama_models :: "ollama_model list \<Rightarrow> provider_model list" where
  "ollama_models [] = []"
| "ollama_models (m # ms) =
     (let i = trim_space (olm_model m);
          i = (if i = [] then trim_space (olm_name m) else i)
      in if i = [] then ollama_models ms
         else \<lparr>model_id = i, model_object = ''model'',
               model_created = unix_seconds (parseTimestamp (olm_modified_at m)),
               model_owned_by = ''ollama''\<rparr> # ollama_models ms)"

definition ollama_ListModels ::
    "adapter \<Rightarrow> 'w upstream \<Rightarrow> ('w, 'h) attempt_ctx \<Rightarrow> 'w \<Rightarrow> provider_model list res \<times> 'w" where
  "ollama_ListModels a env ctx w =
     (case ollama_doRequest a env ctx (withTimeout a (env_now env w)) None
             ''GET'' (ollama_modelsEndpointURL a) [] [] w of
        (Inl e, w) \<Rightarrow> (Inl e, w)
      | (Inr (resp, _), w) \<Rightarrow>
          (and_then (decode_body (list_field ''models'' dec_ollama_model) resp)
             (\<lambda>ms. Inr (ollama_models ms)), w))"

section \<open>Streams\<close>

definition ollama_openStream ::
    "adapter \<Rightarrow> 'w upstream \<Rightarrow> ('w, 'h) attempt_ctx \<Rightarrow> oa_request \<Rightarrow> 'w \<Rightarrow>
     (http_response \<times> 'h option) res \<times> 'w" where
  "ollama_openStream a env ctx q w =
     ollama_doRequest a env ctx None (Some (openai_metadata ctx env q True w))
       ''POST'' (ollama_chatEndpointURL a) (encode (ollama_request_json q)) ''application/x-ndjson'' w"

text \<open>
  \<open>bufio.Scanner\<close> with a buffer of one megabyte: lines without their newline and a carriage return
  before it, the last one also when no newline follows; a longer line ends the scan with an error.
\<close>

definition max_line :: nat where
  "max_line = 1048576"

definition drop_cr :: "string \<Rightarrow> string" where
  "drop_cr l = trim_suffix l [CHR 0x0D]"

definition too_long :: err where
  "too_long = NewErr ''bufio.Scanner: token too long''"

function scan_lines :: "string \<Rightarrow> err option \<Rightarrow> string list \<times> err option" where
  "scan_lines s tail =
     (case read_line s of
        Some (l, rest) \<Rightarrow>
          if max_line \<le> length l then ([], Some too_long)
          else (let (ls, e) = scan_lines rest tail in (drop_cr l # ls, e))
      | None \<Rightarrow>
          if max_line \<le> length s then ([], Some too_long)
          else if s = [] then ([], tail)
          else ([drop_cr s], tail))"
  by pat_completeness auto
termination
  by (relation "measure (\<lambda>(s, _). length s)") (auto dest: read_line_shorter)

declare scan_lines.simps [simp del]

definition ollama_decodeStreamPayload :: "string \<Rightarrow> ollama_response res" where
  "ollama_decodeStreamPayload line =
     and_then (unmarshal line) (\<lambda>v.
     and_then (decode_struct dec_ollama_response v) (\<lambda>p.
       if olr_error p \<noteq> [] then Inl (NewErr (olr_error p)) else Inr p))"

definition ollama_chunk :: "ollama_response \<Rightarrow> string \<Rightarrow> chat_completion_chunk" where
  "ollama_chunk p model =
     (let created = parseTimestamp (olr_created_at p) in
      \<lparr>chunk_id = completionID created, chunk_object = ''chat.completion.chunk'',
       chunk_created = unix_seconds created, chunk_model = model,
       chunk_choices =
         [\<lparr>choice_index = 0, choice_message = olr_message p,
           choice_finish_reason = ollama_finishReason (olr_done_reason p) (olr_done p)\<rparr>]\<rparr>)"

definition ollama_publishChunk ::
    "'w upstream \<Rightarrow> ('w, 'h) attempt_ctx \<Rightarrow> 'h option \<Rightarrow> ollama_response \<Rightarrow> string \<Rightarrow> 'w \<Rightarrow>
     bool \<times> stream_event list \<times> 'w" where
  "ollama_publishChunk env ctx handle p model w =
     (case env_offer env w of
        (Some e, w) \<Rightarrow> (let (evs, w) = publishFailure env ctx handle model e w in (False, evs, w))
      | (None, w) \<Rightarrow> (True, [ChunkEvent (ollama_chunk p model)], w))"

definition ollama_consumeLine ::
    "'w upstream \<Rightarrow> ('w, 'h) attempt_ctx \<Rightarrow> 'h option \<Rightarrow> string \<Rightarrow> string \<Rightarrow> 'w \<Rightarrow>
     bool \<times> bool \<times> stream_event list \<times> 'w" where
  "ollama_consumeLine env ctx handle defaultModel line w =
     (let trimmed = trim_space line in
      if trimmed = [] then (False, True, [], w)
      else case ollama_decodeStreamPayload trimmed of
        Inl e \<Rightarrow>
          (let (evs, w) = publishFailure env ctx handle defaultModel e w in (False, False, evs, w))
      | Inr p \<Rightarrow>
          if isDoneSentinel p then (True, False, [], w)
          else
            (let (ok, evs, w) =
                   ollama_publishChunk env ctx handle p (payloadModel p defaultModel) w
             in if \<not> ok then (False, False, evs, w) else (olr_done p, \<not> olr_done p, evs, w)))"

fun ollama_stream_lines ::
    "'w upstream \<Rightarrow> ('w, 'h) attempt_ctx \<Rightarrow> 'h option \<Rightarrow> err option \<Rightarrow> string \<Rightarrow> string list \<Rightarrow> 'w \<Rightarrow>
     stream_event list \<times> 'w" where
  "ollama_stream_lines env ctx handle scanErr model [] w =
     (case scanErr of
        None \<Rightarrow> ([], w)
      | Some e \<Rightarrow> publishFailure env ctx handle model e w)"
| "ollama_stream_lines env ctx handle scanErr model (line # lines) w =
     (let (done, ok, evs, w) = ollama_consumeLine env ctx handle model line w in
      if done \<or> \<not> ok then (evs, w)
      else let (rest, w) = ollama_stream_lines env ctx handle scanErr model lines w
           in (evs @ rest, w))"

definition ollama_StreamChatCompletion ::
    "adapter \<Rightarrow> 'w upstream \<Rightarrow> ('w, 'h) attempt_ctx \<Rightarrow> chat_completion_request \<Rightarrow> 'w \<Rightarrow>
     stream_event list res \<times> 'w" where
  "ollama_StreamChatCompletion a env ctx req w =
     (case ollama_openStream a env ctx
             \<lparr>oaq_model = resolveModel a (req_model req), oaq_messages = req_messages req,
              oaq_stream = True\<rparr> w of
        (Inl e, w) \<Rightarrow> (Inl e, w)
      | (Inr (resp, handle), w) \<Rightarrow>
          (let (lines, scanErr) = scan_lines (hs_body resp) (hs_body_err resp);
               (evs, w) = ollama_stream_lines env ctx handle scanErr
                            (resolveModel a (req_model req)) lines w
           in (Inr evs, w)))"

section \<open>Lemmas\<close>

text \<open>The chunks of a stream's payloads up to the one that says it is done.\<close>

fun ollama_expected :: "string \<Rightarrow> ollama_response list \<Rightarrow> stream_event list" where
  "ollama_expected model [] = []"
| "ollama_expected model (p # ps) =
     (if isDoneSentinel p then []
      else ChunkEvent (ollama_chunk p (payloadModel p model)) #
        (if olr_done p then [] else ollama_expected model ps))"

definition is_payload_line :: "string \<Rightarrow> ollama_response \<Rightarrow> bool" where
  "is_payload_line l p \<longleftrightarrow>
     trim_space l \<noteq> [] \<and> ollama_decodeStreamPayload (trim_space l) = Inr p"

text \<open>A body that is not cut short by an error gives the expected chunks, whether or not one of
  them says the stream is done.\<close>

lemma ollama_stream_expected:
  assumes "always_offers env" and "list_all2 is_payload_line ls ps"
  shows "ollama_stream_lines env ctx handle None model ls w = (ollama_expected model ps, w)"
  using assms(2)
proof (induction ls arbitrary: ps)
  case Nil
  then show ?case by simp
next
  case (Cons l ls)
  then obtain p ps' where ps: "ps = p # ps'" and p: "is_payload_line l p"
    and rest: "list_all2 is_payload_line ls ps'"
    by (auto simp: list_all2_Cons1)
  have "ollama_consumeLine env ctx handle model l w =
      (if isDoneSentinel p then (True, False, [], w)
       else (olr_done p, \<not> olr_done p, [ChunkEvent (ollama_chunk p (payloadModel p model))], w))"
    using p assms(1)
    by (simp add: ollama_consumeLine_def is_payload_line_def ollama_publishChunk_def
        always_offers_def Let_def)
  then show ?case using Cons.IH [OF rest] by (simp add: ps)
qed

end
