(* ===== verification/Anthropic.thy ===== *)
theory Anthropic
  imports Ollama
begin

text \<open>
  \<open>internal/provider/anthropic/chat.go\<close>: requests with the system prompt taken out of the messages,
  and server-sent events, whose kinds drive a small state machine: the role is sent with the first
  text of a message, the finish reason once.
\<close>

section \<open>Payloads\<close>

record anthropic_config = adapter +
  ac_api_version :: string
  ac_max_tokens :: int

record anthropic_request =
  anq_model :: string
  anq_max_tokens :: int
  anq_system :: string
  anq_messages :: "chat_message list"
  anq_stream :: bool

record content_block =
  cb_type :: string
  cb_text :: string

record anthropic_usage =
  anu_input_tokens :: int
  anu_output_tokens :: int

record anthropic_response =
  anr_id :: string
  anr_type :: string
  anr_role :: string
  anr_content :: "content_block list"
  anr_model :: string
  anr_stop_reason :: string
  anr_usage :: anthropic_usage
  anr_error :: "api_error option"

record stream_delta =
  sd_type :: string
  sd_text :: string
  sd_stop_reason :: string

record stream_event_payload =
  sep_type :: string
  sep_message :: "anthropic_response option"
  sep_delta :: stream_delta
  sep_error :: "api_error option"

record anthropic_model =
  anm_id :: string
  anm_type :: string
  anm_created_at :: string

definition anthropic_request_json :: "anthropic_request \<Rightarrow> json" where
  "anthropic_request_json q =
     JObj ([(''model'', JStr (anq_model q)), (''max_tokens'', num (anq_max_tokens q))]
           @ (if anq_system q \<noteq> [] then [(''system'', JStr (anq_system q))] else [])
           @ [(''messages'', JArr (map message_json (anq_messages q)))]
           @ (if anq_stream q then [(''stream'', JBool True)] else []))"

definition dec_content_block :: "(string \<times> json) list \<Rightarrow> content_block res" where
  "dec_content_block ms =
     and_then (string_field ''type'' ms) (\<lambda>ty.
     and_then (string_field ''text'' ms) (\<lambda>tx. Inr \<lparr>cb_type = ty, cb_text = tx\<rparr>))"

definition dec_anthropic_usage :: "(string \<times> json) list \<Rightarrow> anthropic_usage res" where
  "dec_anthropic_usage ms =
     and_then (int_field ''input_tokens'' ms) (\<lambda>i.
     and_then (int_field ''output_tokens'' ms) (\<lambda>ou.
     Inr \<lparr>anu_input_tokens = i, anu_output_tokens = ou\<rparr>))"

definition dec_anthropic_response :: "(string \<times> json) list \<Rightarrow> anthropic_response res" where
  "dec_anthropic_response ms =
     and_then (string_field ''id'' ms) (\<lambda>i.
     and_then (string_field ''type'' ms) (\<lambda>ty.
     and_then (string_field ''role'' ms) (\<lambda>ro.
     and_then (list_field ''content'' dec_content_block ms) (\<lambda>co.
     and_then (string_field ''model'' ms) (\<lambda>mo.
     and_then (string_field ''stop_reason'' ms) (\<lambda>st.
     and_then (struct_field ''usage'' dec_anthropic_usage
                 \<lparr>anu_input_tokens = 0, anu_output_tokens = 0\<rparr> ms) (\<lambda>us.
     and_then (pointer_field ''error'' dec_api_error ms) (\<lambda>er.
     Inr \<lparr>anr_id = i, anr_type = ty, anr_role = ro, anr_content = co, anr_model = mo,
          anr_stop_reason = st, anr_usage = us, anr_error = er\<rparr>))))))))"

definition zero_delta :: stream_delta where
  "zero_delta = \<lparr>sd_type = [], sd_text = [], sd_stop_reason = []\<rparr>"

definition dec_stream_delta :: "(string \<times> json) list \<Rightarrow> stream_delta res" where
  "dec_stream_delta ms =
     and_then (string_field ''type'' ms) (\<lambda>ty.
     and_then (string_field ''text'' ms) (\<lambda>tx.
     and_then (string_field ''stop_reason'' ms) (\<lambda>st.
     Inr \<lparr>sd_type = ty, sd_text = tx, sd_stop_reason = st\<rparr>)))"

definition dec_stream_event_payload :: "(string \<times> json) list \<Rightarrow> stream_event_payload res" where
  "dec_stream_event_payload ms =
     and_then (string_field ''type'' ms) (\<lambda>ty.
     and_then (pointer_field ''message'' dec_anthropic_response ms) (\<lambda>me.
     and_then (struct_field ''delta'' dec_stream_delta zero_delta ms) (\<lambda>de.
     and_then (pointer_field ''error'' dec_api_error ms) (\<lambda>er.
     Inr \<lparr>sep_type = ty, sep_message = me, sep_delta = de, sep_error = er\<rparr>))))"

definition dec_anthropic_model :: "(string \<times> json) list \<Rightarrow> anthropic_model res" where
  "dec_anthropic_model ms =
     and_then (string_field ''id'' ms) (\<lambda>i.
     and_then (string_field ''type'' ms) (\<lambda>ty.
     and_then (string_field ''created_at'' ms) (\<lambda>c.
     Inr \<lparr>anm_id = i, anm_type = ty, anm_created_at = c\<rparr>)))"

section \<open>Requests\<close>

definition anthropic_New :: "anthropic_config \<Rightarrow> anthropic_config" where
  "anthropic_New cfg =
     (let apiVersion = trim_space (ac_api_version cfg);
          maxTokens = (if ac_max_tokens cfg \<le> 0 then 1024 else ac_max_tokens cfg)
      in adapter.extend (normalize_adapter (adapter.truncate cfg))
           \<lparr>ac_api_version = (if apiVersion = [] then ''2023-06-01'' else apiVersion),
            ac_max_tokens = maxTokens\<rparr>)"

definition anthropic_messagesEndpointURL :: "anthropic_config \<Rightarrow> string" where
  "anthropic_messagesEndpointURL a = ad_base_url a @ ''/messages''"

definition anthropic_modelsEndpointURL :: "anthropic_config \<Rightarrow> string" where
  "anthropic_modelsEndpointURL a = ad_base_url a @ ''/models''"

text \<open>\<open>splitMessages\<close>: the system contents joined by blank lines, and the other messages in order.\<close>

definition is_system :: "chat_message \<Rightarrow> bool" where
  "is_system m \<longleftrightarrow> equal_fold (trim_space (msg_role m)) ''system''"

definition splitMessages :: "chat_message list \<Rightarrow> string \<times> chat_message list" where
  "splitMessages messages =
     (let parts = filter (\<lambda>c. c \<noteq> []) (map (\<lambda>m. trim_space (msg_content m)) (filter is_system messages))
      in (join [CHR 0x0A, CHR 0x0A] parts, filter (\<lambda>m. \<not> is_system m) messages))"

definition extractTextContent :: "content_block list \<Rightarrow> string" where
  "extractTextContent blocks =
     concat (map cb_text (filter (\<lambda>b. trim_space (cb_type b) = ''text'') blocks))"

definition anthropic_finishReason :: "string \<Rightarrow> string" where
  "anthropic_finishReason stopReason =
     (let trimmed = trim_space stopReason in
      if trimmed = [] then ''stop''
      else if trimmed = ''end_turn'' then ''stop''
      else if trimmed = ''tool_use'' then ''tool_calls''
      else trimmed)"

definition estimateAttemptPromptTokens :: "anthropic_request \<Rightarrow> int" where
  "estimateAttemptPromptTokens q =
     EstimatePromptTokens
       ((if trim_space (anq_system q) \<noteq> []
         then [\<lparr>msg_role = ''system'', msg_content = anq_system q\<rparr>] else []) @ anq_messages q)"

definition anthropic_error_message :: "string \<Rightarrow> string option" where
  "anthropic_error_message body =
     (case and_then (unmarshal body) (decode_struct dec_anthropic_response) of
        Inr p \<Rightarrow> (case error_message (anr_error p) of
                   Some m \<Rightarrow> Some m
                 | None \<Rightarrow> (case and_then (unmarshal body)
                                    (decode_struct (pointer_field ''error'' dec_api_error)) of
                              Inr e \<Rightarrow> error_message e | Inl _ \<Rightarrow> None))
      | Inl _ \<Rightarrow> (case and_then (unmarshal body)
                           (decode_struct (pointer_field ''error'' dec_api_error)) of
                     Inr e \<Rightarrow> error_message e | Inl _ \<Rightarrow> None))"

definition anthropic_readHTTPError :: "http_response \<Rightarrow> err" where
  "anthropic_readHTTPError = http_error anthropic_error_message"

definition anthropic_request_of ::
    "anthropic_config \<Rightarrow> string \<Rightarrow> string \<Rightarrow> string \<Rightarrow> string \<Rightarrow> http_request" where
  "anthropic_request_of a meth url body accept =
     \<lparr>hr_method = meth, hr_url = url, hr_body = body,
      hr_headers =
        (if body \<noteq> [] then [(''Content-Type'', ''application/json'')] else []) @
        (if accept \<noteq> [] then [(''Accept'', accept)] else []) @
        (if ad_api_key a \<noteq> [] then [(''x-api-key'', ad_api_key a)] else []) @
        (if ac_api_version a \<noteq> [] then [(''anthropic-version'', ac_api_version a)] else [])\<rparr>"

definition anthropic_doRequestOnce ::
    "anthropic_config \<Rightarrow> 'w upstream \<Rightarrow> time option \<Rightarrow> string \<Rightarrow> string \<Rightarrow> string \<Rightarrow> string \<Rightarrow> 'w \<Rightarrow>
     http_response res \<times> 'w" where
  "anthropic_doRequestOnce a env dl meth url body accept =
     do_once env dl anthropic_error_message (anthropic_request_of a meth url body accept)"

definition anthropic_doRequest ::
    "anthropic_config \<Rightarrow> 'w upstream \<Rightarrow> ('w, 'h) attempt_ctx \<Rightarrow> time option \<Rightarrow>
     attempt_metadata option \<Rightarrow> string \<Rightarrow> string \<Rightarrow> string \<Rightarrow> string \<Rightarrow> 'w \<Rightarrow>
     (http_response \<times> 'h option) res \<times> 'w" where
  "anthropic_doRequest a env ctx dl metadata meth url body accept =
     doRequest a env anthropic_error_message ctx dl metadata (anthropic_request_of a meth url body accept)"

definition anthropic_metadata ::
    "('w, 'h) attempt_ctx \<Rightarrow> 'w upstream \<Rightarrow> anthropic_request \<Rightarrow> bool \<Rightarrow> 'w \<Rightarrow> attempt_metadata" where
  "anthropic_metadata ctx env q stream w =
     \<lparr>meta_backend = ctx_backend ctx, meta_model = anq_model q, meta_stream = stream,
      meta_prompt_tokens = estimateAttemptPromptTokens q, meta_created_at = env_now env w\<rparr>"

definition anthropic_outcome :: "anthropic_response \<Rightarrow> attempt_result" where
  "anthropic_outcome p =
     \<lparr>ares_model = anr_model p, ares_status = ''succeeded'',
      ares_prompt_tokens = anu_input_tokens (anr_usage p),
      ares_completion_tokens = anu_output_tokens (anr_usage p),
      ares_total_tokens = go_add (anu_input_tokens (anr_usage p)) (anu_output_tokens (anr_usage p))\<rparr>"

definition anthropic_judge :: "anthropic_response \<Rightarrow> err option" where
  "anthropic_judge p = map_option NewErr (error_message (anr_error p))"

definition anthropic_doJSONRequest ::
    "anthropic_config \<Rightarrow> 'w upstream \<Rightarrow> ('w, 'h) attempt_ctx \<Rightarrow> anthropic_request \<Rightarrow> 'w \<Rightarrow>
     anthropic_response res \<times> 'w" where
  "anthropic_doJSONRequest a env ctx q w =
     json_request a env anthropic_error_message ctx (withTimeout a (env_now env w))
       (anthropic_metadata ctx env q False w)
       (anthropic_request_of a ''POST'' (anthropic_messagesEndpointURL a)
          (encode (anthropic_request_json q)) [])
       dec_anthropic_response anthropic_judge anthropic_outcome w"

definition anthropic_payload ::
    "anthropic_config \<Rightarrow> chat_completion_request \<Rightarrow> bool \<Rightarrow> anthropic_request" where
  "anthropic_payload a req stream =
     (let (systemPrompt, messages) = splitMessages (req_messages req)
      in \<lparr>anq_model = resolveModel a (req_model req), anq_max_tokens = ac_max_tokens a,
          anq_system = systemPrompt, anq_messages = messages, anq_stream = stream\<rparr>)"

definition anthropic_CreateChatCompletion ::
    "anthropic_config \<Rightarrow> 'w upstream \<Rightarrow> ('w, 'h) attempt_ctx \<Rightarrow> chat_completion_request \<Rightarrow> 'w \<Rightarrow>
     chat_completion_response res \<times> 'w" where
  "anthropic_CreateChatCompletion a env ctx req w =
     (case anthropic_doJSONRequest a env ctx (anthropic_payload a req False) w of
        (Inl e, w) \<Rightarrow> (Inl e, w)
      | (Inr p, w) \<Rightarrow>
          (Inr \<lparr>resp_id = anr_id p, resp_object = ''chat.completion'',
                resp_created = unix_seconds (env_now env w), resp_model = anr_model p,
                resp_choices =
                  [\<lparr>choice_index = 0,
                    choice_message = \<lparr>msg_role = anr_role p,
                                      msg_content = extractTextContent (anr_content p)\<rparr>,
                    choice_finish_reason = anthropic_finishReason (anr_stop_reason p)\<rparr>],
                resp_usage = \<lparr>prompt_tokens = anu_input_tokens (anr_usage p),
                              completion_tokens = anu_output_tokens (anr_usage p),
                              total_tokens = go_add (anu_input_tokens (anr_usage p))
                                (anu_output_tokens (anr_usage p))\<rparr>\<rparr>, w))"

fun anthropic_models :: "anthropic_model list \<Rightarrow> provider_model list" where
  "anthropic_models [] = []"
| "anthropic_models (m # ms) =
     (if trim_space (anm_id m) = [] then anthropic_models ms
      else \<lparr>model_id = anm_id m, model_object = ''model'',
            model_created = unix_seconds (parseTimestamp (anm_created_at m)),
            model_owned_by = ''anthropic''\<rparr> # anthropic_models ms)"

definition anthropic_ListModels ::
    "anthropic_config \<Rightarrow> 'w upstream \<Rightarrow> ('w, 'h) attempt_ctx \<Rightarrow> 'w \<Rightarrow> provider_model list res \<times> 'w" where
  "anthropic_ListModels a env ctx w =
     (case anthropic_doRequest a env ctx (withTimeout a (env_now env w)) None
             ''GET'' (anthropic_modelsEndpointURL a) [] [] w of
        (Inl e, w) \<Rightarrow> (Inl e, w)
      | (Inr (resp, _), w) \<Rightarrow>
          (and_then (decode_body (list_field ''data'' dec_anthropic_model) resp)
             (\<lambda>ms. Inr (anthropic_models ms)), w))"

section \<open>Server-sent events\<close>

record sse_event =
  sse_name :: string
  sse_data :: string

definition trim_crlf :: "string \<Rightarrow> string" where
  "trim_crlf s = rev (dropWhile (\<lambda>c. c = CHR 0x0D \<or> c = CHR 0x0A) (rev s))"

definition buildSSEEvent :: "string \<Rightarrow> string list \<Rightarrow> sse_event option" where
  "buildSSEEvent name dataLines =
     (if name = [] \<and> dataLines = [] then None
      else Some \<lparr>sse_name = name, sse_data = join [CHR 0x0A] dataLines\<rparr>)"

definition consumeSSELine :: "string \<Rightarrow> string \<Rightarrow> string list \<Rightarrow> string \<times> string list" where
  "consumeSSELine line name dataLines =
     (if has_prefix line '':'' then (name, dataLines)
      else if has_prefix line ''event:''
      then (trim_space (trim_prefix line ''event:''), dataLines)
      else if has_prefix line ''data:''
      then (name, dataLines @ [trim_space (trim_prefix line ''data:'')])
      else (name, dataLines))"

text \<open>
  The end of the stream: the last line, which has no newline, and what was collected may still make
  an event; the error comes at the next read then.
\<close>

definition finalizeSSERead :: "err \<Rightarrow> string \<Rightarrow> string \<Rightarrow> string list \<Rightarrow> sse_event option" where
  "finalizeSSERead e line name dataLines =
     (if \<not> errors_is e IoEOF then None
      else case consumeSSELine line name dataLines of
        (name, dataLines) \<Rightarrow> buildSSEEvent name dataLines)"

text \<open>
  All the events that repeated calls of \<open>readSSEEvent\<close> return, from the complete lines of the body
  and the rest after the last newline; \<open>e\<close> is the error that ends the body.
\<close>

fun read_sse :: "err \<Rightarrow> string \<Rightarrow> string list \<Rightarrow> string \<Rightarrow> string list \<Rightarrow> sse_event list" where
  "read_sse e tail [] name dataLines =
     (case finalizeSSERead e (trim_crlf tail) name dataLines of None \<Rightarrow> [] | Some ev \<Rightarrow> [ev])"
| "read_sse e tail (l # ls) name dataLines =
     (let line = trim_crlf l in
      if line = [] then
        (case buildSSEEvent name dataLines of
           Some ev \<Rightarrow> ev # read_sse e tail ls [] []
         | None \<Rightarrow> read_sse e tail ls name dataLines)
      else let (name, dataLines) = consumeSSELine line name dataLines
           in read_sse e tail ls name dataLines)"

definition after_lines :: "string \<Rightarrow> string" where
  "after_lines s = rev (takeWhile (\<lambda>c. c \<noteq> CHR 0x0A) (rev s))"

section \<open>The state of a stream\<close>

record anthropic_stream =
  as_created :: int
  as_id :: string
  as_model :: string
  as_pending_role :: string
  as_role_emitted :: bool
  as_finish_emitted :: bool

definition decodeStreamEventPayload :: "string \<Rightarrow> stream_event_payload res" where
  "decodeStreamEventPayload data =
     and_then (unmarshal data) (\<lambda>v.
     and_then (decode_struct dec_stream_event_payload v) (\<lambda>p.
       case error_message (sep_error p) of Some m \<Rightarrow> Inl (NewErr m) | None \<Rightarrow> Inr p))"

definition streamEventKind :: "string \<Rightarrow> string \<Rightarrow> string" where
  "streamEventKind eventName payloadType =
     (let kind = trim_space eventName in if kind \<noteq> [] then kind else trim_space payloadType)"

definition consumeMessageStart :: "stream_event_payload \<Rightarrow> anthropic_stream \<Rightarrow> anthropic_stream" where
  "consumeMessageStart p st =
     (case sep_message p of
        None \<Rightarrow> st
      | Some m \<Rightarrow>
          (let st = (if trim_space (anr_id m) \<noteq> [] then st\<lparr>as_id := anr_id m\<rparr> else st);
               st = (if trim_space (anr_model m) \<noteq> [] then st\<lparr>as_model := anr_model m\<rparr> else st)
           in if trim_space (anr_role m) \<noteq> []
              then st\<lparr>as_pending_role := anr_role m, as_role_emitted := False\<rparr> else st))"

definition anthropic_chunk :: "anthropic_stream \<Rightarrow> chat_message \<Rightarrow> string \<Rightarrow> chat_completion_chunk" where
  "anthropic_chunk st message finishReason =
     \<lparr>chunk_id = as_id st, chunk_object = ''chat.completion.chunk'', chunk_created = as_created st,
      chunk_model = as_model st,
      chunk_choices = [\<lparr>choice_index = 0, choice_message = message,
                        choice_finish_reason = finishReason\<rparr>]\<rparr>"

text \<open>The end of the context offers its error; the attempt is not failed here.\<close>

definition publishStreamChunk ::
    "'w upstream \<Rightarrow> anthropic_stream \<Rightarrow> chat_message \<Rightarrow> string \<Rightarrow> 'w \<Rightarrow> bool \<times> stream_event list \<times> 'w" where
  "publishStreamChunk env st message finishReason w =
     (case env_offer env w of
        (Some e, w) \<Rightarrow> (let (evs, w) = publishStreamError env e w in (False, evs, w))
      | (None, w) \<Rightarrow> (True, [ChunkEvent (anthropic_chunk st message finishReason)], w))"

definition publishContentDelta ::
    "'w upstream \<Rightarrow> stream_event_payload \<Rightarrow> anthropic_stream \<Rightarrow> 'w \<Rightarrow>
     bool \<times> stream_event list \<times> anthropic_stream \<times> 'w" where
  "publishContentDelta env p st w =
     (if trim_space (sd_type (sep_delta p)) \<noteq> ''text_delta'' \<or> sd_text (sep_delta p) = []
      then (True, [], st, w)
      else
        let first = \<not> as_role_emitted st \<and> as_pending_role st \<noteq> [];
            message = \<lparr>msg_role = (if first then as_pending_role st else []),
                       msg_content = sd_text (sep_delta p)\<rparr>;
            st = (if first then st\<lparr>as_role_emitted := True\<rparr> else st);
            (ok, evs, w) = publishStreamChunk env st message [] w
        in (ok, evs, st, w))"

definition publishMessageDelta ::
    "'w upstream \<Rightarrow> stream_event_payload \<Rightarrow> anthropic_stream \<Rightarrow> 'w \<Rightarrow>
     bool \<times> stream_event list \<times> anthropic_stream \<times> 'w" where
  "publishMessageDelta env p st w =
     (if sd_stop_reason (sep_delta p) = [] then (True, [], st, w)
      else
        let st = st\<lparr>as_finish_emitted := True\<rparr>;
            (ok, evs, w) = publishStreamChunk env st empty_message
                             (anthropic_finishReason (sd_stop_reason (sep_delta p))) w
        in (ok, evs, st, w))"

definition publishMessageStop ::
    "'w upstream \<Rightarrow> anthropic_stream \<Rightarrow> 'w \<Rightarrow> bool \<times> stream_event list \<times> 'w" where
  "publishMessageStop env st w =
     (if as_finish_emitted st then (True, [], w)
      else publishStreamChunk env st empty_message ''stop'' w)"

definition consumeEvent ::
    "'w upstream \<Rightarrow> ('w, 'h) attempt_ctx \<Rightarrow> 'h option \<Rightarrow> sse_event \<Rightarrow> anthropic_stream \<Rightarrow> 'w \<Rightarrow>
     bool \<times> bool \<times> stream_event list \<times> anthropic_stream \<times> 'w" where
  "consumeEvent env ctx handle event st w =
     (case decodeStreamEventPayload (sse_data event) of
        Inl e \<Rightarrow> (let (evs, w) = publishFailure env ctx handle (as_model st) e w
                 in (False, False, evs, st, w))
      | Inr p \<Rightarrow>
          (let kind = streamEventKind (sse_name event) (sep_type p) in
           if kind = ''ping'' \<or> kind = ''content_block_start'' \<or> kind = ''content_block_stop''
           then (False, True, [], st, w)
           else if kind = ''message_start'' then (False, True, [], consumeMessageStart p st, w)
           else if kind = ''content_block_delta''
           then (let (ok, evs, st, w) = publishContentDelta env p st w in (False, ok, evs, st, w))
           else if kind = ''message_delta''
           then (let (ok, evs, st, w) = publishMessageDelta env p st w in (False, ok, evs, st, w))
           else if kind = ''message_stop''
           then (let (ok, evs, w) = publishMessageStop env st w in (True, ok, evs, st, w))
           else if kind = ''error''
           then (let (evs, w) = publishFailure env ctx handle (as_model st)
                                  (NewErr ''anthropic stream error'') w
                 in (False, False, evs, st, w))
           else (False, True, [], st, w)))"

fun anthropic_stream_events ::
    "'w upstream \<Rightarrow> ('w, 'h) attempt_ctx \<Rightarrow> 'h option \<Rightarrow> err \<Rightarrow> sse_event list \<Rightarrow> anthropic_stream \<Rightarrow> 'w \<Rightarrow>
     stream_event list \<times> 'w" where
  "anthropic_stream_events env ctx handle ending [] st w =
     publishFailure env ctx handle (as_model st) ending w"
| "anthropic_stream_events env ctx handle ending (ev # events) st w =
     (if trim_space (sse_data ev) = [] then anthropic_stream_events env ctx handle ending events st w
      else let (done, ok, evs, st, w) = consumeEvent env ctx handle ev st w in
        if done \<or> \<not> ok then (evs, w)
        else let (rest, w) = anthropic_stream_events env ctx handle ending events st w
             in (evs @ rest, w))"

definition anthropic_openStream ::
    "anthropic_config \<Rightarrow> 'w upstream \<Rightarrow> ('w, 'h) attempt_ctx \<Rightarrow> anthropic_request \<Rightarrow> 'w \<Rightarrow>
     (http_response \<times> 'h option) res \<times> 'w" where
  "anthropic_openStream a env ctx q w =
     anthropic_doRequest a env ctx None (Some (anthropic_metadata ctx env q True w))
       ''POST'' (anthropic_messagesEndpointURL a) (encode (anthropic_request_json q))
       ''text/event-stream'' w"

definition anthropic_ending :: "err \<Rightarrow> err" where
  "anthropic_ending e =
     (if errors_is e IoEOF then NewErr ''upstream stream ended before message_stop'' else e)"

definition anthropic_StreamChatCompletion ::
    "anthropic_config \<Rightarrow> 'w upstream \<Rightarrow> ('w, 'h) attempt_ctx \<Rightarrow> chat_completion_request \<Rightarrow> 'w \<Rightarrow>
     stream_event list res \<times> 'w" where
  "anthropic_StreamChatCompletion a env ctx req w =
     (case anthropic_openStream a env ctx (anthropic_payload a req True) w of
        (Inl e, w) \<Rightarrow> (Inl e, w)
      | (Inr (resp, handle), w) \<Rightarrow>
          (let st = \<lparr>as_created = unix_seconds (env_now env w),
                     as_id = ''anthropic-'' @ itoa (unix_nanos (env_now env w)),
                     as_model = resolveModel a (req_model req), as_pending_role = [],
                     as_role_emitted = False, as_finish_emitted = False\<rparr>;
               e = (case hs_body_err resp of None \<Rightarrow> IoEOF | Some e \<Rightarrow> e);
               events = read_sse e (after_lines (hs_body resp)) (complete_lines (hs_body resp)) [] [];
               (evs, w) = anthropic_stream_events env ctx handle (anthropic_ending e) events st w
           in (Inr evs, w)))"

section \<open>Lemmas\<close>

text \<open>The text that the chunks of a stream carry, and the text its events carry.\<close>

fun event_text :: "stream_event \<Rightarrow> string" where
  "event_text (ChunkEvent c) = concat (map (\<lambda>ch. msg_content (choice_message ch)) (chunk_choices c))"
| "event_text (ErrEvent e) = []"

fun event_roles :: "stream_event \<Rightarrow> string list" where
  "event_roles (ChunkEvent c) =
     filter (\<lambda>r. r \<noteq> []) (map (\<lambda>ch. msg_role (choice_message ch)) (chunk_choices c))"
| "event_roles (ErrEvent e) = []"

fun event_finishes :: "stream_event \<Rightarrow> string list" where
  "event_finishes (ChunkEvent c) =
     filter (\<lambda>r. r \<noteq> []) (map choice_finish_reason (chunk_choices c))"
| "event_finishes (ErrEvent e) = []"

definition payload_text :: "sse_event \<Rightarrow> string" where
  "payload_text ev =
     (case decodeStreamEventPayload (sse_data ev) of
        Inl _ \<Rightarrow> []
      | Inr p \<Rightarrow>
          if streamEventKind (sse_name ev) (sep_type p) = ''content_block_delta'' \<and>
             trim_space (sd_type (sep_delta p)) = ''text_delta''
          then sd_text (sep_delta p) else [])"

definition payload_kind :: "sse_event \<Rightarrow> string" where
  "payload_kind ev =
     (case decodeStreamEventPayload (sse_data ev) of
        Inl _ \<Rightarrow> []
      | Inr p \<Rightarrow> streamEventKind (sse_name ev) (sep_type p))"

text \<open>An event that neither ends the stream nor is an error.\<close>

definition flowing :: "sse_event \<Rightarrow> bool" where
  "flowing ev \<longleftrightarrow> trim_space (sse_data ev) \<noteq> [] \<and>
     (case decodeStreamEventPayload (sse_data ev) of Inl _ \<Rightarrow> False | Inr _ \<Rightarrow> True) \<and>
     payload_kind ev \<noteq> ''message_stop'' \<and> payload_kind ev \<noteq> ''error''"

text \<open>The event that ends a message.\<close>

definition stopping :: "sse_event \<Rightarrow> bool" where
  "stopping ev \<longleftrightarrow> trim_space (sse_data ev) \<noteq> [] \<and> payload_kind ev = ''message_stop''"

fun chunk_event :: "stream_event \<Rightarrow> bool" where
  "chunk_event (ChunkEvent _) \<longleftrightarrow> True"
| "chunk_event (ErrEvent _) \<longleftrightarrow> False"

lemma anthropic_finishReason_nonempty: "anthropic_finishReason r \<noteq> []"
  by (simp add: anthropic_finishReason_def Let_def)

lemma publishStreamChunk_sent:
  "always_offers env \<Longrightarrow> publishStreamChunk env st m f w = (True, [ChunkEvent (anthropic_chunk st m f)], w)"
  by (simp add: publishStreamChunk_def always_offers_def)

lemma anthropic_chunk_choices [simp]:
  "chunk_choices (anthropic_chunk st m f) =
    [\<lparr>choice_index = 0, choice_message = m, choice_finish_reason = f\<rparr>]"
  by (simp add: anthropic_chunk_def)

lemma consumeMessageStart_finish [simp]:
  "as_finish_emitted (consumeMessageStart p st) = as_finish_emitted st"
  by (simp add: consumeMessageStart_def Let_def split: option.splits)

text \<open>What one flowing event adds: chunks with its text, and a finish reason if it has one.\<close>

definition adds :: "sse_event \<Rightarrow> anthropic_stream \<Rightarrow> stream_event list \<Rightarrow> anthropic_stream \<Rightarrow> bool" where
  "adds ev st evs st' \<longleftrightarrow>
     concat (map event_text evs) = payload_text ev \<and> list_all chunk_event evs \<and>
     (as_finish_emitted st' \<longleftrightarrow> as_finish_emitted st \<or> concat (map event_finishes evs) \<noteq> [])"

lemma publishContentDelta_adds:
  assumes "always_offers env" and "decodeStreamEventPayload (sse_data ev) = Inr p"
    and "streamEventKind (sse_name ev) (sep_type p) = ''content_block_delta''"
  shows "\<exists>evs st'. publishContentDelta env p st w = (True, evs, st', w) \<and> adds ev st evs st'"
  using assms
  by (auto simp: publishContentDelta_def adds_def payload_text_def Let_def publishStreamChunk_sent)

lemma publishMessageDelta_adds:
  assumes "always_offers env" and "decodeStreamEventPayload (sse_data ev) = Inr p"
    and "streamEventKind (sse_name ev) (sep_type p) = ''message_delta''"
  shows "\<exists>evs st'. publishMessageDelta env p st w = (True, evs, st', w) \<and> adds ev st evs st'"
  using assms
  by (auto simp: publishMessageDelta_def adds_def payload_text_def Let_def publishStreamChunk_sent
      empty_message_def anthropic_finishReason_nonempty)

lemma consumeEvent_flowing:
  assumes env: "always_offers env" and "flowing ev"
  shows "\<exists>evs st'. consumeEvent env ctx handle ev st w = (False, True, evs, st', w) \<and> adds ev st evs st'"
proof -
  obtain p where p: "decodeStreamEventPayload (sse_data ev) = Inr p"
    using assms(2) by (auto simp: flowing_def split: sum.splits)
  define kind where "kind = streamEventKind (sse_name ev) (sep_type p)"
  have kinds: "kind \<noteq> ''message_stop''" "kind \<noteq> ''error''"
    using assms(2) p by (simp_all add: flowing_def payload_kind_def kind_def)
  consider (words) "kind = ''content_block_delta''" | (finish) "kind = ''message_delta''"
    | (start) "kind = ''message_start''"
    | (other) "kind \<notin> {''content_block_delta'', ''message_delta'', ''message_start''}"
    by auto
  then show ?thesis
  proof cases
    case words
    then obtain evs st' where "publishContentDelta env p st w = (True, evs, st', w)" "adds ev st evs st'"
      using publishContentDelta_adds [OF env p, of st w] by (auto simp: kind_def)
    with words p show ?thesis by (simp add: consumeEvent_def kind_def [symmetric])
  next
    case finish
    then obtain evs st' where "publishMessageDelta env p st w = (True, evs, st', w)" "adds ev st evs st'"
      using publishMessageDelta_adds [OF env p, of st w] by (auto simp: kind_def)
    with finish p show ?thesis by (simp add: consumeEvent_def kind_def [symmetric])
  next
    case start
    then have "consumeEvent env ctx handle ev st w = (False, True, [], consumeMessageStart p st, w)"
      using p by (simp add: consumeEvent_def kind_def [symmetric])
    moreover have "adds ev st [] (consumeMessageStart p st)"
      using p start by (simp add: adds_def payload_text_def kind_def [symmetric])
    ultimately show ?thesis by blast
  next
    case other
    then have "consumeEvent env ctx handle ev st w = (False, True, [], st, w)"
      using p kinds by (auto simp: consumeEvent_def kind_def [symmetric])
    moreover have "adds ev st [] st"
      using p other by (simp add: adds_def payload_text_def kind_def [symmetric])
    ultimately show ?thesis by blast
  qed
qed

lemma consumeEvent_stopping:
  assumes "always_offers env" and "stopping ev"
  shows "consumeEvent env ctx handle ev st w =
    (True, True, if as_finish_emitted st then [] else [ChunkEvent (anthropic_chunk st empty_message ''stop'')],
     st, w)"
  using assms
  by (auto simp: stopping_def payload_kind_def consumeEvent_def publishMessageStop_def Let_def
      publishStreamChunk_sent split: sum.splits)

text \<open>A complete message: chunks only, all of its text, and a finish reason.\<close>

lemma anthropic_stream_complete:
  assumes env: "always_offers env" and "list_all flowing events" and stop: "stopping ev"
    and "anthropic_stream_events env ctx handle ending (events @ ev # rest) st w = (out, w')"
  shows "list_all chunk_event out \<and> concat (map event_text out) = concat (map payload_text events) \<and>
    (as_finish_emitted st \<or> concat (map event_finishes out) \<noteq> []) \<and> w' = w"
  using assms(2,4)
proof (induction events arbitrary: st out)
  case Nil
  then show ?case
    using consumeEvent_stopping [OF env stop, of ctx handle st w] stop
    by (auto simp: stopping_def empty_message_def split: if_splits)
next
  case (Cons e events)
  obtain evs st' where e: "consumeEvent env ctx handle e st w = (False, True, evs, st', w)"
    and adds: "adds e st evs st'"
    using consumeEvent_flowing [OF env, of e ctx handle st w] Cons.prems(1) by auto
  obtain out' where out': "anthropic_stream_events env ctx handle ending (events @ ev # rest) st' w = (out', w')"
    and out: "out = evs @ out'"
    using Cons.prems e by (auto simp: flowing_def split: prod.splits)
  from Cons.IH [OF _ out'] Cons.prems(1) adds show ?case by (auto simp: out adds_def)
qed

text \<open>A stream that breaks off gives the text that arrived, and the error last.\<close>

lemma anthropic_stream_broken:
  assumes env: "always_offers env" and "list_all flowing events"
    and "anthropic_stream_events env ctx handle ending events st w = (out, w')"
  shows "\<exists>evs. out = evs @ [ErrEvent ending] \<and> list_all chunk_event evs \<and>
    concat (map event_text evs) = concat (map payload_text events)"
  using assms(2,3)
proof (induction events arbitrary: st out)
  case Nil
  then show ?case
    using env by (auto simp: publishFailure_def publishStreamError_def always_offers_def split: prod.splits)
next
  case (Cons e events)
  obtain evs st' where e: "consumeEvent env ctx handle e st w = (False, True, evs, st', w)"
    and adds: "adds e st evs st'"
    using consumeEvent_flowing [OF env, of e ctx handle st w] Cons.prems(1) by auto
  obtain out' where out': "anthropic_stream_events env ctx handle ending events st' w = (out', w')"
    and out: "out = evs @ out'"
    using Cons.prems e by (auto simp: flowing_def split: prod.splits)
  obtain evs' where "out' = evs' @ [ErrEvent ending]" "list_all chunk_event evs'"
      "concat (map event_text evs') = concat (map payload_text events)"
    using Cons.IH [OF _ out'] Cons.prems(1) by auto
  with adds show ?case by (intro exI [of _ "evs @ evs'"]) (simp add: out adds_def)
qed

text \<open>The lines of an event and the blank line that ends it give the event.\<close>

lemma read_sse_event:
  assumes "trim_crlf l = ''event: '' @ name" and "trim_space ('' '' @ name) = name"
    and "trim_crlf d = ''data: '' @ data" and "trim_space ('' '' @ data) = data"
    and "trim_crlf b = []"
  shows "read_sse e tail (l # d # b # ls) [] [] =
    \<lparr>sse_name = name, sse_data = data\<rparr> # read_sse e tail ls [] []"
proof -
  have "consumeSSELine (''event: '' @ name) [] [] = (name, [])"
    using assms(2) by (simp add: consumeSSELine_def has_prefix_def trim_prefix_def)
  moreover have "consumeSSELine (''data: '' @ data) name [] = (name, [data])"
    using assms(4) by (simp add: consumeSSELine_def has_prefix_def trim_prefix_def)
  moreover have "buildSSEEvent name [data] = Some \<lparr>sse_name = name, sse_data = data\<rparr>"
    by (simp add: buildSSEEvent_def)
  ultimately show ?thesis
    using assms(1,3,5) by (simp add: Let_def)
qed

end
