(* ===== verification/Auth.thy ===== *)
theory Auth
  imports ProviderTypes Sha256
begin

text \<open>
  The package \<open>internal/auth\<close>: who calls. A request carries an \<open>Authorization\<close> header; the bearer
  token is extracted, hashed and looked up, and the record found must have both its key and its
  tenant enabled. The lookup is the interface \<open>APIKeyFinder\<close>, a function on a world \<open>'w\<close>.
\<close>

section \<open>Tenants and principals\<close>

record tenant =
  tenant_id :: nat
  tenant_name :: string
  rpm_limit :: int
  tpm_limit :: int
  token_budget :: int

record principal =
  principal_tenant :: tenant
  principal_key_id :: nat
  principal_key_prefix :: string

record api_key_record =
  rec_tenant :: tenant
  rec_key_enabled :: bool
  rec_tenant_enabled :: bool
  rec_key_id :: nat
  rec_key_hash :: string
  rec_key_prefix :: string

type_synonym 'w api_key_finder = "string \<Rightarrow> 'w \<Rightarrow> api_key_record res \<times> 'w"

section \<open>The bearer token\<close>

definition bearerToken :: "string \<Rightarrow> string res" where
  "bearerToken authorization =
     (if trim_space authorization = [] then Inl ErrMissingAPIKey
      else case split_n2 CHR '' '' (trim_space authorization) of
        [scheme, rest] \<Rightarrow>
          if \<not> equal_fold scheme ''Bearer'' then Inl ErrInvalidAPIKey
          else let token = trim_space rest in
            if token = [] then Inl ErrInvalidAPIKey else Inr token
      | _ \<Rightarrow> Inl ErrInvalidAPIKey)"

definition hashAPIKey :: "string \<Rightarrow> string" where
  "hashAPIKey rawKey = sha256_hex rawKey"

section \<open>Authentication\<close>

definition AuthenticateRequest ::
    "'w api_key_finder \<Rightarrow> string \<Rightarrow> 'w \<Rightarrow> principal res \<times> 'w" where
  "AuthenticateRequest lookup authorization w =
     (case bearerToken authorization of
        Inl e \<Rightarrow> (Inl e, w)
      | Inr rawKey \<Rightarrow>
        (case lookup (hashAPIKey rawKey) w of
           (Inl e, w') \<Rightarrow>
             (if errors_is e ErrAPIKeyNotFound \<or> errors_is e SqlNoRows
              then (Inl ErrInvalidAPIKey, w') else (Inl e, w'))
         | (Inr record, w') \<Rightarrow>
             (if \<not> rec_key_enabled record \<or> \<not> rec_tenant_enabled record
              then (Inl ErrDisabledAPIKey, w')
              else (Inr \<lparr>principal_tenant = rec_tenant record,
                         principal_key_id = rec_key_id record,
                         principal_key_prefix = rec_key_prefix record\<rparr>, w'))))"

section \<open>Lemmas\<close>

lemma bearerToken_token:
  "bearerToken authorization = Inr t \<Longrightarrow> t \<noteq> [] \<and> trim_space t = t"
  by (auto simp: bearerToken_def Let_def split: if_splits list.splits)

lemma bearerToken_errors:
  "bearerToken authorization = Inl e \<Longrightarrow> e = ErrMissingAPIKey \<or> e = ErrInvalidAPIKey"
  by (auto simp: bearerToken_def Let_def split: if_splits list.splits)

lemma bearerToken_missing_iff:
  "bearerToken authorization = Inl ErrMissingAPIKey \<longleftrightarrow> trim_space authorization = []"
  by (auto simp: bearerToken_def Let_def split: if_splits list.splits)

lemma bearerToken_header:
  assumes "CHR '' '' \<notin> set scheme" and "equal_fold scheme ''Bearer''"
    and "trim_space token = token" and "token \<noteq> []"
    and "trim_space (scheme @ '' '' @ token) = scheme @ '' '' @ token"
  shows "bearerToken (scheme @ '' '' @ token) = Inr token"
  using assms by (simp add: bearerToken_def split_n2_append Let_def)

text \<open>
  Trimming a text with visible ends changes nothing; with it the accepted headers are closed under
  white space around the header and between scheme and token.
\<close>

lemma trim_space_visible:
  assumes "strip_any ws_runes s = None" and "strip_any (map rev ws_runes) (rev s) = None"
  shows "trim_space s = s"
  using assms by (simp add: trim_space_def trim_left_def trim_right_def trim_front_id)

lemma trim_space_back: "strip_any (map rev ws_runes) (rev (trim_space s)) = None"
  by (simp add: trim_space_def trim_right_done)

lemma strip_rev_prefix:
  "strip_any (map rev ws_runes) (rev t) = None \<Longrightarrow> t \<noteq> [] \<Longrightarrow>
   \<forall>e \<in> set ws_runes. \<not> (\<exists>p. t = p @ e)"
proof (intro ballI notI)
  fix e assume none: "strip_any (map rev ws_runes) (rev t) = None" and e: "e \<in> set ws_runes"
    and "\<exists>p. t = p @ e"
  then obtain p where "rev t = rev e @ rev p" by auto
  then have "strip_prefix (rev e) (rev t) = Some (rev p)" by simp
  with none e show False unfolding strip_any_None_iff by (metis image_eqI list.set_map option.distinct(1))
qed

end
