(* ===== verification/Database.thy ===== *)
theory Database
  imports Auth
begin

text \<open>
  The MySQL database the gateway keeps its state in: the tables that \<open>internal/store/mysql\<close>
  creates, with the columns its statements touch, and the two ways a statement reaches them. A
  driver call can fail: \<open>db_faults\<close> scripts the outcome of the calls to come, so a theorem about
  every database is a theorem about every pattern of failures. A call that changes data can also
  take effect and still report an error, when the acknowledgement is lost.
\<close>

section \<open>Rows\<close>

record tenant_row =
  t_id :: nat
  t_name :: string
  t_enabled :: bool
  t_rpm_limit :: int
  t_tpm_limit :: int
  t_token_budget :: int

record api_key_row =
  k_id :: nat
  k_tenant_id :: nat
  k_hash :: string
  k_prefix :: string
  k_enabled :: bool

record usage_row =
  u_id :: nat
  u_request_id :: string
  u_tenant_id :: nat
  u_api_key_id :: nat
  u_model :: string
  u_stream :: bool
  u_status :: string
  u_prompt_tokens :: int
  u_completion_tokens :: int
  u_total_tokens :: int
  u_created_at :: time
  u_updated_at :: time

text \<open>\<open>request_attempt_usages\<close> has the columns of \<open>request_usages\<close> and the backend.\<close>

record attempt_row = usage_row +
  a_backend :: string

record route_rule_row =
  rr_backend_name :: string
  rr_model :: string
  rr_priority :: int
  rr_enabled :: bool

section \<open>The database and its calls\<close>

datatype outcome = Done | Failed err | Lost err

record db =
  tenants :: "tenant_row list"
  api_keys :: "api_key_row list"
  request_usages :: "usage_row list"
  request_attempt_usages :: "attempt_row list"
  route_rules :: "route_rule_row list"
  next_usage_id :: nat
  next_attempt_id :: nat
  next_tenant_id :: nat
  next_key_id :: nat
  db_schema :: "(string \<times> string list) list"
  db_now :: time
  db_faults :: "outcome list"

text \<open>
  \<open>db_schema\<close> is what \<open>information_schema\<close> shows: the tables that exist, with their columns. The four
  counters are the \<open>AUTO_INCREMENT\<close> values to come.
\<close>

text \<open>The outcome of the next driver call; an exhausted script means success.\<close>

definition db_call :: "db \<Rightarrow> outcome \<times> db" where
  "db_call d =
     (case db_faults d of [] \<Rightarrow> (Done, d) | f # fs \<Rightarrow> (f, d\<lparr>db_faults := fs\<rparr>))"

text \<open>A call that only reads: an error hides what it read.\<close>

definition db_query :: "(db \<Rightarrow> 'a) \<Rightarrow> db \<Rightarrow> 'a res \<times> db" where
  "db_query f d =
     (case db_call d of
        (Done, d') \<Rightarrow> (Inr (f d), d')
      | (Failed e, d') \<Rightarrow> (Inl e, d')
      | (Lost e, d') \<Rightarrow> (Inl e, d'))"

text \<open>A statement that changes the tables and returns a result.\<close>

definition db_exec :: "(db \<Rightarrow> 'a \<times> db) \<Rightarrow> db \<Rightarrow> 'a res \<times> db" where
  "db_exec f d =
     (case db_call d of
        (Done, d') \<Rightarrow> (let (x, d'') = f d' in (Inr x, d''))
      | (Failed e, d') \<Rightarrow> (Inl e, d')
      | (Lost e, d') \<Rightarrow> (Inl e, snd (f d')))"

text \<open>
  A transaction: the body works on the tables and a failure restores them; the \<open>AUTO_INCREMENT\<close>
  counters are not restored, as InnoDB documents. A commit whose acknowledgement is lost has
  happened. Admission transactions lock the tenant's row first, so two of them for one tenant do
  not overlap and each is one step.
\<close>

definition rollback :: "db \<Rightarrow> db \<Rightarrow> db" where
  "rollback d0 d =
     d\<lparr>tenants := tenants d0, api_keys := api_keys d0, request_usages := request_usages d0,
       request_attempt_usages := request_attempt_usages d0, route_rules := route_rules d0\<rparr>"

definition db_tx :: "(db \<Rightarrow> 'a res \<times> db) \<Rightarrow> db \<Rightarrow> 'a res \<times> db" where
  "db_tx body d =
     (case db_query (\<lambda>_. ()) d of
        (Inl e, d0) \<Rightarrow> (Inl e, d0)
      | (Inr _, d0) \<Rightarrow>
        (case body d0 of
           (Inl e, d1) \<Rightarrow> (Inl e, rollback d0 d1)
         | (Inr x, d1) \<Rightarrow>
           (case db_call d1 of
              (Done, d2) \<Rightarrow> (Inr x, d2)
            | (Failed e, d2) \<Rightarrow> (Inl e, rollback d0 d2)
            | (Lost e, d2) \<Rightarrow> (Inl e, d2))))"

section \<open>Frame facts\<close>

text \<open>\<open>same_data\<close>: two databases differ at most in the outcomes still to come.\<close>

definition same_data :: "db \<Rightarrow> db \<Rightarrow> bool" where
  "same_data d d' \<longleftrightarrow> d\<lparr>db_faults := []\<rparr> = d'\<lparr>db_faults := []\<rparr>"

lemma same_data_refl [simp]: "same_data d d"
  by (simp add: same_data_def)

lemma same_data_sym: "same_data d d' \<Longrightarrow> same_data d' d"
  by (simp add: same_data_def)

lemma same_data_trans [trans]: "same_data a b \<Longrightarrow> same_data b c \<Longrightarrow> same_data a c"
  by (simp add: same_data_def)

lemma same_data_fields:
  assumes "same_data d d'"
  shows "tenants d' = tenants d" and "api_keys d' = api_keys d"
    and "request_usages d' = request_usages d"
    and "request_attempt_usages d' = request_attempt_usages d"
    and "route_rules d' = route_rules d"
    and "next_usage_id d' = next_usage_id d" and "next_attempt_id d' = next_attempt_id d"
    and "db_now d' = db_now d"
    and "db_schema d' = db_schema d" and "next_tenant_id d' = next_tenant_id d"
    and "next_key_id d' = next_key_id d"
  using assms by (cases d; cases d'; simp add: same_data_def)+

lemma db_call_same: "db_call d = (oc, d') \<Longrightarrow> same_data d d'"
  by (auto simp: db_call_def same_data_def split: list.splits)

lemma db_query_same: "db_query f d = (r, d') \<Longrightarrow> same_data d d'"
  by (auto simp: db_query_def db_call_same split: prod.splits outcome.splits)

lemma db_query_Inr: "db_query f d = (Inr x, d') \<Longrightarrow> x = f d"
  by (auto simp: db_query_def split: prod.splits outcome.splits)

lemma db_exec_Inr:
  assumes "db_exec f d = (Inr x, d')"
  obtains d0 where "same_data d d0" and "f d0 = (x, d')"
  using assms by (auto simp: db_exec_def dest: db_call_same split: prod.splits outcome.splits)

lemma db_exec_Inl:
  assumes "db_exec f d = (Inl e, d')"
  obtains "same_data d d'" | d0 where "same_data d d0" and "d' = snd (f d0)"
  using assms by (auto simp: db_exec_def dest: db_call_same split: prod.splits outcome.splits)

text \<open>
  \<open>rolled_back d d'\<close>: the tables of \<open>d'\<close> are those of \<open>d\<close>; the counters may have moved.
\<close>

definition same_tables :: "db \<Rightarrow> db \<Rightarrow> bool" where
  "same_tables d d' \<longleftrightarrow>
     tenants d' = tenants d \<and> api_keys d' = api_keys d \<and> request_usages d' = request_usages d \<and>
     request_attempt_usages d' = request_attempt_usages d \<and> route_rules d' = route_rules d"

lemma same_tables_refl [simp]: "same_tables d d"
  by (simp add: same_tables_def)

lemma same_tables_trans [trans]: "same_tables a b \<Longrightarrow> same_tables b c \<Longrightarrow> same_tables a c"
  by (simp add: same_tables_def)

lemma same_data_tables: "same_data d d' \<Longrightarrow> same_tables d d'"
  by (simp add: same_tables_def same_data_fields)

lemma rollback_tables [simp]: "same_tables d (rollback d d')"
  by (simp add: same_tables_def rollback_def)

lemma db_tx_Inr:
  assumes "db_tx body d = (Inr x, d')"
  obtains d0 d1 where "same_data d d0" and "body d0 = (Inr x, d1)" and "same_data d1 d'"
  using assms
  by (auto simp: db_tx_def split: prod.splits sum.splits outcome.splits)
    (blast dest: db_query_same db_call_same)

text \<open>A failed transaction left the tables alone, unless it committed without being told so.\<close>

lemma db_tx_Inl:
  assumes "db_tx body d = (Inl e, d')"
  obtains (undone) "same_tables d d'"
    | (lost) d0 x d1 where "same_data d d0" and "body d0 = (Inr x, d1)" and "same_data d1 d'"
proof -
  obtain r d0 where q: "db_query (\<lambda>_. ()) d = (r, d0)" by fastforce
  then have same: "same_data d d0" by (rule db_query_same)
  obtain r1 d1 where b: "body d0 = (r1, d1)" by fastforce
  obtain oc d2 where c: "db_call d1 = (oc, d2)" by fastforce
  show thesis
  proof (cases "(\<exists>u. r = Inr u) \<and> (\<exists>x. r1 = Inr x) \<and> (\<exists>e. oc = Lost e)")
    case True
    then show thesis
      using lost [OF same] assms q b c db_call_same [OF c]
      by (auto simp: db_tx_def)
  next
    case False
    have "same_tables d d'"
      using False assms q b c same_data_tables [OF same] same_tables_trans rollback_tables
      by (auto simp: db_tx_def split: sum.splits outcome.splits)
    then show thesis by (rule undone)
  qed
qed

end
