(* ===== verification/GovernanceTypes.thy ===== *)
theory GovernanceTypes
  imports Database
begin

text \<open>
  The data and interfaces of \<open>internal/service/governance/service.go\<close>: the records and updates it
  hands to its store, the inputs of the atomic admissions, and the interfaces \<open>Store\<close>,
  \<open>AtomicRequestBeginner\<close>, \<open>AtomicAttemptBeginner\<close> and \<open>Limiter\<close> as records of functions on a world
  \<open>'w\<close>. A type assertion to an optional interface is a field of option type.
\<close>

section \<open>Records and updates\<close>

record usage_record =
  ur_request_id :: string
  ur_tenant_id :: nat
  ur_api_key_id :: nat
  ur_model :: string
  ur_stream :: bool
  ur_status :: string
  ur_prompt_tokens :: int
  ur_completion_tokens :: int
  ur_total_tokens :: int
  ur_created_at :: time

record usage_update =
  uu_id :: nat
  uu_tenant_id :: nat
  uu_model :: string
  uu_status :: string
  uu_prompt_tokens :: int
  uu_completion_tokens :: int
  uu_total_tokens :: int

text \<open>The struct \<open>AttemptUsageRecord\<close> has the fields of \<open>UsageRecord\<close> and the backend.\<close>

record attempt_usage_record = usage_record +
  aur_backend :: string

record attempt_usage_update =
  au_id :: nat
  au_model :: string
  au_status :: string
  au_prompt_tokens :: int
  au_completion_tokens :: int
  au_total_tokens :: int

record atomic_begin_request =
  abr_principal :: principal
  abr_request_id :: string
  abr_model :: string
  abr_stream :: bool
  abr_prompt_tokens :: int
  abr_created_at :: time

record atomic_begin_attempt = atomic_begin_request +
  aba_backend :: string

text \<open>\<open>usage.RecentUsageRecord\<close>, which the store returns to the usage service.\<close>

record recent_usage_record =
  rec_request_id :: string
  rec_api_key_id :: nat
  rec_model :: string
  rec_stream :: bool
  rec_status :: string
  rec_prompt_tokens :: int
  rec_completion_tokens :: int
  rec_total_tokens :: int
  rec_created_at :: time
  rec_updated_at :: time

section \<open>Interfaces\<close>

record 'w usage_store =
  st_SumTotalTokens :: "nat \<Rightarrow> 'w \<Rightarrow> int res \<times> 'w"
  st_SumTotalAttemptTokens :: "nat \<Rightarrow> 'w \<Rightarrow> int res \<times> 'w"
  st_InsertUsageRecord :: "usage_record \<Rightarrow> 'w \<Rightarrow> nat res \<times> 'w"
  st_UpdateUsageRecord :: "usage_update \<Rightarrow> 'w \<Rightarrow> unit res \<times> 'w"
  st_InsertAttemptUsageRecord :: "attempt_usage_record \<Rightarrow> 'w \<Rightarrow> nat res \<times> 'w"
  st_UpdateAttemptUsageRecord :: "attempt_usage_update \<Rightarrow> 'w \<Rightarrow> unit res \<times> 'w"
  st_BeginRequestAtomic :: "(atomic_begin_request \<Rightarrow> 'w \<Rightarrow> nat res \<times> 'w) option"
  st_BeginAttemptAtomic :: "(atomic_begin_attempt \<Rightarrow> 'w \<Rightarrow> nat res \<times> 'w) option"

text \<open>
  A limiter value: its dynamic type matters to \<open>usesAtomicAdmission\<close>, which asks whether it is a
  \<open>MySQLLimiter\<close>.
\<close>

record 'w limiter =
  lim_is_mysql :: bool
  lim_Admit :: "principal \<Rightarrow> int \<Rightarrow> time \<Rightarrow> 'w \<Rightarrow> unit res \<times> 'w"
  lim_RecordCompletionTokens :: "principal \<Rightarrow> int \<Rightarrow> time \<Rightarrow> 'w \<Rightarrow> unit res \<times> 'w"

end
