(* ===== verification/GovernanceStore.thy ===== *)
theory GovernanceStore
  imports GovernanceTypes "HOL-Library.Product_Lexorder"
begin

text \<open>
  \<open>internal/store/mysql/governance_store.go\<close>: the statements that count, sum, insert and update
  the usage tables, and the two admission transactions. The lemmas show what each statement reads
  and writes, that admission checks only read, and that a successful admission leaves the tenant
  within its limits.
\<close>

section \<open>Aggregate queries\<close>

definition of_tenant :: "nat \<Rightarrow> 'a usage_row_scheme \<Rightarrow> bool" where
  "of_tenant tid r \<longleftrightarrow> u_tenant_id r = tid"

definition of_tenant_since :: "nat \<Rightarrow> time \<Rightarrow> 'a usage_row_scheme \<Rightarrow> bool" where
  "of_tenant_since tid since r \<longleftrightarrow> u_tenant_id r = tid \<and> since \<le> u_created_at r"

definition requests_since :: "nat \<Rightarrow> time \<Rightarrow> db \<Rightarrow> int" where
  "requests_since tid since d = int (length (filter (of_tenant_since tid since) (request_usages d)))"

definition tokens_since :: "nat \<Rightarrow> time \<Rightarrow> db \<Rightarrow> int" where
  "tokens_since tid since d = sum_where (of_tenant_since tid since) u_total_tokens (request_usages d)"

definition tokens_used :: "nat \<Rightarrow> db \<Rightarrow> int" where
  "tokens_used tid d = sum_where (of_tenant tid) u_total_tokens (request_usages d)"

definition attempt_tokens_since :: "nat \<Rightarrow> time \<Rightarrow> db \<Rightarrow> int" where
  "attempt_tokens_since tid since d =
     sum_where (of_tenant_since tid since) u_total_tokens (request_attempt_usages d)"

definition attempt_tokens_used :: "nat \<Rightarrow> db \<Rightarrow> int" where
  "attempt_tokens_used tid d =
     sum_where (of_tenant tid) u_total_tokens (request_attempt_usages d)"

definition CountRequestsSince :: "nat \<Rightarrow> time \<Rightarrow> db \<Rightarrow> int res \<times> db" where
  "CountRequestsSince tid since = db_query (requests_since tid since)"

definition SumTotalTokensSince :: "nat \<Rightarrow> time \<Rightarrow> db \<Rightarrow> int res \<times> db" where
  "SumTotalTokensSince tid since = db_query (tokens_since tid since)"

definition SumTotalTokens :: "nat \<Rightarrow> db \<Rightarrow> int res \<times> db" where
  "SumTotalTokens tid = db_query (tokens_used tid)"

definition SumTotalAttemptTokensSince :: "nat \<Rightarrow> time \<Rightarrow> db \<Rightarrow> int res \<times> db" where
  "SumTotalAttemptTokensSince tid since = db_query (attempt_tokens_since tid since)"

definition SumTotalAttemptTokens :: "nat \<Rightarrow> db \<Rightarrow> int res \<times> db" where
  "SumTotalAttemptTokens tid = db_query (attempt_tokens_used tid)"

text \<open>The same queries issued inside a transaction.\<close>

definition countRequestsSince :: "nat \<Rightarrow> time \<Rightarrow> db \<Rightarrow> int res \<times> db" where
  "countRequestsSince tid since = db_query (requests_since tid since)"

definition sumTotalTokensSince :: "nat \<Rightarrow> time \<Rightarrow> db \<Rightarrow> int res \<times> db" where
  "sumTotalTokensSince tid since = db_query (tokens_since tid since)"

definition sumTotalTokens :: "nat \<Rightarrow> db \<Rightarrow> int res \<times> db" where
  "sumTotalTokens tid = db_query (tokens_used tid)"

definition sumTotalAttemptTokens :: "nat \<Rightarrow> db \<Rightarrow> int res \<times> db" where
  "sumTotalAttemptTokens tid = db_query (attempt_tokens_used tid)"

section \<open>Recent records\<close>

definition recent_of_row :: "usage_row \<Rightarrow> recent_usage_record" where
  "recent_of_row r =
     \<lparr>rec_request_id = u_request_id r, rec_api_key_id = u_api_key_id r, rec_model = u_model r,
      rec_stream = u_stream r, rec_status = u_status r, rec_prompt_tokens = u_prompt_tokens r,
      rec_completion_tokens = u_completion_tokens r, rec_total_tokens = u_total_tokens r,
      rec_created_at = u_created_at r, rec_updated_at = u_updated_at r\<rparr>"

text \<open>Newest first: \<open>ORDER BY created_at DESC, id DESC LIMIT n\<close>.\<close>

definition recent_rows :: "nat \<Rightarrow> int \<Rightarrow> db \<Rightarrow> usage_row list" where
  "recent_rows tid limit d =
     take (nat limit)
       (rev (sort_key (\<lambda>r. (u_created_at r, u_id r)) (filter (of_tenant tid) (request_usages d))))"

definition ListRecentUsageRecords ::
    "nat \<Rightarrow> int \<Rightarrow> db \<Rightarrow> recent_usage_record list res \<times> db" where
  "ListRecentUsageRecords tid limit =
     bindS (db_query (recent_rows tid limit)) (\<lambda>rows.
     bindS (db_query (\<lambda>_. ())) (\<lambda>_ d. (Inr (map recent_of_row rows), d)))"

section \<open>Inserting and updating\<close>

text \<open>
  A \<open>TIMESTAMP\<close> column holds whole seconds: MySQL rounds the value a statement supplies, and
  \<open>CURRENT_TIMESTAMP\<close> is the current time without its fraction.
\<close>

definition sql_timestamp :: "time \<Rightarrow> time" where
  "sql_timestamp t = (t + second div 2) div second * second"

definition sql_current :: "db \<Rightarrow> time" where
  "sql_current d = db_now d div second * second"

definition usage_row_of :: "nat \<Rightarrow> time \<Rightarrow> 'a usage_record_scheme \<Rightarrow> usage_row" where
  "usage_row_of rid now r =
     \<lparr>u_id = rid, u_request_id = ur_request_id r, u_tenant_id = ur_tenant_id r,
      u_api_key_id = ur_api_key_id r, u_model = ur_model r, u_stream = ur_stream r,
      u_status = ur_status r, u_prompt_tokens = ur_prompt_tokens r,
      u_completion_tokens = ur_completion_tokens r, u_total_tokens = ur_total_tokens r,
      u_created_at = sql_timestamp (ur_created_at r), u_updated_at = now\<rparr>"

definition attempt_row_of :: "nat \<Rightarrow> time \<Rightarrow> attempt_usage_record \<Rightarrow> attempt_row" where
  "attempt_row_of rid now r = usage_row.extend (usage_row_of rid now r) (attempt_row.fields (aur_backend r))"

definition insertUsageRecordStatement :: "usage_record \<Rightarrow> db \<Rightarrow> nat \<times> db" where
  "insertUsageRecordStatement r d =
     (next_usage_id d,
      d\<lparr>request_usages := request_usages d @ [usage_row_of (next_usage_id d) (sql_current d) r],
        next_usage_id := Suc (next_usage_id d)\<rparr>)"

definition insertAttemptUsageRecordStatement :: "attempt_usage_record \<Rightarrow> db \<Rightarrow> nat \<times> db" where
  "insertAttemptUsageRecordStatement r d =
     (next_attempt_id d,
      d\<lparr>request_attempt_usages :=
          request_attempt_usages d @ [attempt_row_of (next_attempt_id d) (sql_current d) r],
        next_attempt_id := Suc (next_attempt_id d)\<rparr>)"

text \<open>\<open>result.LastInsertId\<close> reads the identifier the insertion returned; it may fail.\<close>

definition LastInsertId :: "nat \<Rightarrow> db \<Rightarrow> nat res \<times> db" where
  "LastInsertId rid = db_query (\<lambda>_. rid)"

definition InsertUsageRecord :: "usage_record \<Rightarrow> db \<Rightarrow> nat res \<times> db" where
  "InsertUsageRecord r = bindS (db_exec (insertUsageRecordStatement r)) LastInsertId"

definition InsertAttemptUsageRecord :: "attempt_usage_record \<Rightarrow> db \<Rightarrow> nat res \<times> db" where
  "InsertAttemptUsageRecord r = bindS (db_exec (insertAttemptUsageRecordStatement r)) LastInsertId"

definition update_usage_row :: "usage_update \<Rightarrow> time \<Rightarrow> usage_row \<Rightarrow> usage_row" where
  "update_usage_row u now r =
     (if u_id r = uu_id u then
        r\<lparr>u_model := uu_model u, u_status := uu_status u, u_prompt_tokens := uu_prompt_tokens u,
          u_completion_tokens := uu_completion_tokens u, u_total_tokens := uu_total_tokens u,
          u_updated_at := now\<rparr>
      else r)"

definition update_attempt_row :: "attempt_usage_update \<Rightarrow> time \<Rightarrow> attempt_row \<Rightarrow> attempt_row" where
  "update_attempt_row u now r =
     (if u_id r = au_id u then
        r\<lparr>u_model := au_model u, u_status := au_status u, u_prompt_tokens := au_prompt_tokens u,
          u_completion_tokens := au_completion_tokens u, u_total_tokens := au_total_tokens u,
          u_updated_at := now\<rparr>
      else r)"

definition UpdateUsageRecord :: "usage_update \<Rightarrow> db \<Rightarrow> unit res \<times> db" where
  "UpdateUsageRecord u =
     db_exec (\<lambda>d. ((), d\<lparr>request_usages := map (update_usage_row u (sql_current d)) (request_usages d)\<rparr>))"

definition UpdateAttemptUsageRecord :: "attempt_usage_update \<Rightarrow> db \<Rightarrow> unit res \<times> db" where
  "UpdateAttemptUsageRecord u =
     db_exec (\<lambda>d. ((), d\<lparr>request_attempt_usages :=
       map (update_attempt_row u (sql_current d)) (request_attempt_usages d)\<rparr>))"

section \<open>Admission\<close>

definition lockTenantForAdmission :: "nat \<Rightarrow> db \<Rightarrow> nat res \<times> db" where
  "lockTenantForAdmission tid =
     bindS (db_query (\<lambda>d. find (\<lambda>t. t_id t = tid) (tenants d)))
       (\<lambda>row d. case row of None \<Rightarrow> (Inl SqlNoRows, d) | Some t \<Rightarrow> (Inr (t_id t), d))"

definition lockTenantAdmission :: "nat \<Rightarrow> db \<Rightarrow> unit res \<times> db" where
  "lockTenantAdmission tid = bindS (lockTenantForAdmission tid) (\<lambda>_ d. (Inr (), d))"

definition enforceBudget :: "tenant \<Rightarrow> int \<Rightarrow> db \<Rightarrow> unit res \<times> db" where
  "enforceBudget t promptTokens d =
     (if token_budget t \<le> 0 then (Inr (), d)
      else bindS (sumTotalAttemptTokens (tenant_id t)) (\<lambda>totalTokensUsed d.
        if token_budget t < go_add totalTokensUsed promptTokens
        then (Inl ErrBudgetExceeded, d) else (Inr (), d)) d)"

text \<open>The two checks of \<open>enforceRateLimit\<close>, in its order.\<close>

definition check_rpm :: "tenant \<Rightarrow> time \<Rightarrow> db \<Rightarrow> unit res \<times> db" where
  "check_rpm t windowStart d =
     (if 0 < rpm_limit t
      then bindS (countRequestsSince (tenant_id t) windowStart) (\<lambda>count d.
        if rpm_limit t \<le> count then (Inl ErrRateLimitExceeded, d) else (Inr (), d)) d
      else (Inr (), d))"

definition check_tpm :: "tenant \<Rightarrow> time \<Rightarrow> int \<Rightarrow> db \<Rightarrow> unit res \<times> db" where
  "check_tpm t windowStart promptTokens d =
     (if tpm_limit t \<le> 0 then (Inr (), d)
      else bindS (sumTotalTokensSince (tenant_id t) windowStart) (\<lambda>tokensUsedThisMinute d.
        if tpm_limit t < go_add tokensUsedThisMinute promptTokens
        then (Inl ErrTokenLimitExceeded, d) else (Inr (), d)) d)"

definition enforceRateLimit :: "tenant \<Rightarrow> time \<Rightarrow> int \<Rightarrow> db \<Rightarrow> unit res \<times> db" where
  "enforceRateLimit t createdAt promptTokens =
     (let windowStart = createdAt - minute in
      bindS (check_rpm t windowStart) (\<lambda>_. check_tpm t windowStart promptTokens))"

definition admitRequest :: "atomic_begin_request \<Rightarrow> db \<Rightarrow> unit res \<times> db" where
  "admitRequest input =
     (let t = principal_tenant (abr_principal input) in
      bindS (lockTenantAdmission (tenant_id t)) (\<lambda>_.
      bindS (enforceBudget t (abr_prompt_tokens input)) (\<lambda>_.
      enforceRateLimit t (abr_created_at input) (abr_prompt_tokens input))))"

definition admitAttempt :: "atomic_begin_attempt \<Rightarrow> db \<Rightarrow> unit res \<times> db" where
  "admitAttempt input =
     (let t = principal_tenant (abr_principal input) in
      bindS (lockTenantAdmission (tenant_id t)) (\<lambda>_.
      enforceBudget t (abr_prompt_tokens input)))"

definition begin_request_record :: "atomic_begin_request \<Rightarrow> usage_record" where
  "begin_request_record input =
     \<lparr>ur_request_id = abr_request_id input,
      ur_tenant_id = tenant_id (principal_tenant (abr_principal input)),
      ur_api_key_id = principal_key_id (abr_principal input),
      ur_model = abr_model input, ur_stream = abr_stream input, ur_status = ''started'',
      ur_prompt_tokens = abr_prompt_tokens input, ur_completion_tokens = 0,
      ur_total_tokens = abr_prompt_tokens input, ur_created_at = abr_created_at input\<rparr>"

definition begin_attempt_record :: "atomic_begin_attempt \<Rightarrow> attempt_usage_record" where
  "begin_attempt_record input =
     \<lparr>ur_request_id = abr_request_id input,
      ur_tenant_id = tenant_id (principal_tenant (abr_principal input)),
      ur_api_key_id = principal_key_id (abr_principal input),
      ur_model = abr_model input, ur_stream = abr_stream input, ur_status = ''started'',
      ur_prompt_tokens = abr_prompt_tokens input, ur_completion_tokens = 0,
      ur_total_tokens = abr_prompt_tokens input, ur_created_at = abr_created_at input,
      aur_backend = aba_backend input\<rparr>"

definition BeginRequestAtomic :: "atomic_begin_request \<Rightarrow> db \<Rightarrow> nat res \<times> db" where
  "BeginRequestAtomic input =
     db_tx (bindS (admitRequest input) (\<lambda>_.
       bindS (db_exec (insertUsageRecordStatement (begin_request_record input))) LastInsertId))"

definition BeginAttemptAtomic :: "atomic_begin_attempt \<Rightarrow> db \<Rightarrow> nat res \<times> db" where
  "BeginAttemptAtomic input =
     db_tx (bindS (admitAttempt input) (\<lambda>_.
       bindS (db_exec (insertAttemptUsageRecordStatement (begin_attempt_record input))) LastInsertId))"

section \<open>Calls that only read\<close>

text \<open>
  A call is read-only when it leaves every table and counter alone, whatever its outcome. The
  rules below follow the shape of the code, so that whole admission checks are read-only by
  \<open>intro\<close>.
\<close>

named_theorems read_only_rules "introduction rules for read-only calls"

definition read_only :: "(db \<Rightarrow> 'a res \<times> db) \<Rightarrow> bool" where
  "read_only m \<longleftrightarrow> (\<forall>d r d'. m d = (r, d') \<longrightarrow> same_data d d')"

lemma read_onlyD: "read_only m \<Longrightarrow> m d = (r, d') \<Longrightarrow> same_data d d'"
  by (auto simp: read_only_def)

lemma read_only_return [read_only_rules]: "read_only (\<lambda>d. (r, d))"
  by (simp add: read_only_def)

lemma read_only_query [read_only_rules]: "read_only (db_query f)"
  by (auto simp: read_only_def dest: db_query_same)

lemma read_only_if [read_only_rules]:
  "read_only m \<Longrightarrow> read_only n \<Longrightarrow> read_only (\<lambda>d. if c then m d else n d)"
  by (simp add: read_only_def)

lemma read_only_bindS [read_only_rules]:
  "read_only m \<Longrightarrow> (\<And>a. read_only (f a)) \<Longrightarrow> read_only (bindS m f)"
  unfolding read_only_def bindS_def
  by (auto split: prod.splits sum.splits) (blast intro: same_data_trans)+

lemma read_only_bindS_at [read_only_rules]:
  "read_only m \<Longrightarrow> (\<And>a. read_only (f a)) \<Longrightarrow> read_only (\<lambda>d. bindS m f d)"
  by (rule read_only_bindS)

lemma read_only_queries [read_only_rules]:
  "read_only (CountRequestsSince tid since)" "read_only (SumTotalTokensSince tid since)"
  "read_only (SumTotalTokens tid)" "read_only (SumTotalAttemptTokensSince tid since)"
  "read_only (SumTotalAttemptTokens tid)" "read_only (LastInsertId rid)"
  by (simp_all add: CountRequestsSince_def SumTotalTokensSince_def SumTotalTokens_def
      SumTotalAttemptTokensSince_def SumTotalAttemptTokens_def LastInsertId_def read_only_query)

lemma read_only_ListRecentUsageRecords [read_only_rules]:
  "read_only (ListRecentUsageRecords tid limit)"
  unfolding ListRecentUsageRecords_def by (intro read_only_rules)

lemma read_only_lockTenantAdmission [read_only_rules]: "read_only (lockTenantAdmission tid)"
  unfolding lockTenantAdmission_def lockTenantForAdmission_def
  by (intro read_only_rules) (simp add: read_only_def split: option.splits)

lemma read_only_enforceBudget [read_only_rules]: "read_only (enforceBudget t p)"
  unfolding enforceBudget_def sumTotalAttemptTokens_def by (intro read_only_rules)

lemma read_only_check_rpm [read_only_rules]: "read_only (check_rpm t start)"
  unfolding check_rpm_def countRequestsSince_def by (intro read_only_rules)

lemma read_only_check_tpm [read_only_rules]: "read_only (check_tpm t start p)"
  unfolding check_tpm_def sumTotalTokensSince_def by (intro read_only_rules)

lemma read_only_enforceRateLimit [read_only_rules]: "read_only (enforceRateLimit t c p)"
  unfolding enforceRateLimit_def Let_def by (intro read_only_rules)

lemma read_only_admitRequest [read_only_rules]: "read_only (admitRequest input)"
  unfolding admitRequest_def Let_def by (intro read_only_rules)

lemma read_only_admitAttempt [read_only_rules]: "read_only (admitAttempt input)"
  unfolding admitAttempt_def Let_def by (intro read_only_rules)

text \<open>The aggregates depend on the tables only.\<close>

lemma same_data_aggregates:
  assumes "same_data d d'"
  shows "requests_since tid since d' = requests_since tid since d"
    and "tokens_since tid since d' = tokens_since tid since d"
    and "tokens_used tid d' = tokens_used tid d"
    and "attempt_tokens_since tid since d' = attempt_tokens_since tid since d"
    and "attempt_tokens_used tid d' = attempt_tokens_used tid d"
  by (simp_all add: requests_since_def tokens_since_def tokens_used_def attempt_tokens_since_def
      attempt_tokens_used_def same_data_fields [OF assms])

section \<open>What admission checks\<close>

definition within_budget :: "tenant \<Rightarrow> int \<Rightarrow> db \<Rightarrow> bool" where
  "within_budget t p d \<longleftrightarrow> token_budget t \<le> 0 \<or>
     go_add (attempt_tokens_used (tenant_id t) d) p \<le> token_budget t"

definition within_rate :: "tenant \<Rightarrow> time \<Rightarrow> db \<Rightarrow> bool" where
  "within_rate t start d \<longleftrightarrow> rpm_limit t \<le> 0 \<or> requests_since (tenant_id t) start d < rpm_limit t"

definition within_tokens :: "tenant \<Rightarrow> time \<Rightarrow> int \<Rightarrow> db \<Rightarrow> bool" where
  "within_tokens t start p d \<longleftrightarrow> tpm_limit t \<le> 0 \<or>
     go_add (tokens_since (tenant_id t) start d) p \<le> tpm_limit t"

lemma same_data_within:
  assumes "same_data d d'"
  shows "within_budget t p d' = within_budget t p d"
    and "within_rate t start d' = within_rate t start d"
    and "within_tokens t start p d' = within_tokens t start p d"
  by (simp_all add: within_budget_def within_rate_def within_tokens_def
      same_data_aggregates [OF assms])

lemma enforceBudget_Inr: "enforceBudget t p d = (Inr u, d') \<Longrightarrow> within_budget t p d"
  by (auto simp: enforceBudget_def within_budget_def sumTotalAttemptTokens_def
      split: if_splits elim!: bindS_InrE dest!: db_query_Inr)

lemma check_rpm_Inr: "check_rpm t start d = (Inr u, d') \<Longrightarrow> within_rate t start d"
  by (auto simp: check_rpm_def within_rate_def countRequestsSince_def
      split: if_splits elim!: bindS_InrE dest!: db_query_Inr)

lemma check_tpm_Inr: "check_tpm t start p d = (Inr u, d') \<Longrightarrow> within_tokens t start p d"
  by (auto simp: check_tpm_def within_tokens_def sumTotalTokensSince_def
      split: if_splits elim!: bindS_InrE dest!: db_query_Inr)

lemma enforceRateLimit_Inr:
  assumes "enforceRateLimit t c p d = (Inr u, d')"
  shows "within_rate t (c - minute) d" and "within_tokens t (c - minute) p d"
proof -
  obtain v d1 where rate: "check_rpm t (c - minute) d = (Inr v, d1)"
    and tokens: "check_tpm t (c - minute) p d1 = (Inr u, d')"
    using assms unfolding enforceRateLimit_def Let_def by (rule bindS_InrE)
  have "same_data d d1" using read_only_check_rpm rate by (rule read_onlyD)
  then show "within_tokens t (c - minute) p d"
    using check_tpm_Inr [OF tokens] by (simp add: same_data_within)
  show "within_rate t (c - minute) d" using rate by (rule check_rpm_Inr)
qed

lemma admitRequest_Inr:
  assumes "admitRequest input d = (Inr u, d')"
  defines "t \<equiv> principal_tenant (abr_principal input)"
  shows "within_budget t (abr_prompt_tokens input) d"
    and "within_rate t (abr_created_at input - minute) d"
    and "within_tokens t (abr_created_at input - minute) (abr_prompt_tokens input) d"
proof -
  obtain v1 d1 v2 d2 where
    lock: "lockTenantAdmission (tenant_id t) d = (Inr v1, d1)" and
    budget: "enforceBudget t (abr_prompt_tokens input) d1 = (Inr v2, d2)" and
    rate: "enforceRateLimit t (abr_created_at input) (abr_prompt_tokens input) d2 = (Inr u, d')"
    using assms(1) unfolding admitRequest_def Let_def t_def by (elim bindS_InrE)
  have s1: "same_data d d1" using read_only_lockTenantAdmission lock by (rule read_onlyD)
  have s2: "same_data d d2"
    using s1 read_onlyD [OF read_only_enforceBudget budget] by (rule same_data_trans)
  show "within_budget t (abr_prompt_tokens input) d"
    using enforceBudget_Inr [OF budget] by (simp add: same_data_within [OF s1])
  show "within_rate t (abr_created_at input - minute) d"
    using enforceRateLimit_Inr(1) [OF rate] by (simp add: same_data_within [OF s2])
  show "within_tokens t (abr_created_at input - minute) (abr_prompt_tokens input) d"
    using enforceRateLimit_Inr(2) [OF rate] by (simp add: same_data_within [OF s2])
qed

lemma admitAttempt_Inr:
  assumes "admitAttempt input d = (Inr u, d')"
  shows "within_budget (principal_tenant (abr_principal input)) (abr_prompt_tokens input) d"
proof -
  let ?t = "principal_tenant (abr_principal input)"
  obtain v1 d1 where
    lock: "lockTenantAdmission (tenant_id ?t) d = (Inr v1, d1)" and
    budget: "enforceBudget ?t (abr_prompt_tokens input) d1 = (Inr u, d')"
    using assms unfolding admitAttempt_def Let_def by (elim bindS_InrE)
  have "same_data d d1" using read_only_lockTenantAdmission lock by (rule read_onlyD)
  with enforceBudget_Inr [OF budget] show ?thesis by (simp add: same_data_within)
qed

section \<open>What an insertion does\<close>

definition request_inserted :: "usage_record \<Rightarrow> nat \<Rightarrow> db \<Rightarrow> db \<Rightarrow> bool" where
  "request_inserted r rid d d' \<longleftrightarrow>
     rid = next_usage_id d \<and> next_usage_id d' = Suc rid \<and> next_attempt_id d' = next_attempt_id d \<and>
     request_usages d' = request_usages d @ [usage_row_of rid (sql_current d) r] \<and>
     request_attempt_usages d' = request_attempt_usages d \<and>
     tenants d' = tenants d \<and> api_keys d' = api_keys d \<and> route_rules d' = route_rules d \<and>
     db_now d' = db_now d"

definition attempt_inserted :: "attempt_usage_record \<Rightarrow> nat \<Rightarrow> db \<Rightarrow> db \<Rightarrow> bool" where
  "attempt_inserted r rid d d' \<longleftrightarrow>
     rid = next_attempt_id d \<and> next_attempt_id d' = Suc rid \<and> next_usage_id d' = next_usage_id d \<and>
     request_attempt_usages d' =
       request_attempt_usages d @ [attempt_row_of rid (sql_current d) r] \<and>
     request_usages d' = request_usages d \<and>
     tenants d' = tenants d \<and> api_keys d' = api_keys d \<and> route_rules d' = route_rules d \<and>
     db_now d' = db_now d"

lemma same_data_sql_current: "same_data d d' \<Longrightarrow> sql_current d' = sql_current d"
  by (simp add: sql_current_def same_data_fields)

lemma request_inserted_same:
  assumes "same_data d d0" and "request_inserted r rid d0 d1" and "same_data d1 d'"
  shows "request_inserted r rid d d'"
  using assms(2) same_data_fields [OF assms(1)] same_data_fields [OF assms(3)]
    same_data_sql_current [OF assms(1)]
  by (simp add: request_inserted_def)

lemma attempt_inserted_same:
  assumes "same_data d d0" and "attempt_inserted r rid d0 d1" and "same_data d1 d'"
  shows "attempt_inserted r rid d d'"
  using assms(2) same_data_fields [OF assms(1)] same_data_fields [OF assms(3)]
    same_data_sql_current [OF assms(1)]
  by (simp add: attempt_inserted_def)

lemma insertUsageRecordStatement_inserts:
  "insertUsageRecordStatement r d = (rid, d') \<Longrightarrow> request_inserted r rid d d'"
  by (auto simp: insertUsageRecordStatement_def request_inserted_def)

lemma insertAttemptUsageRecordStatement_inserts:
  "insertAttemptUsageRecordStatement r d = (rid, d') \<Longrightarrow> attempt_inserted r rid d d'"
  by (auto simp: insertAttemptUsageRecordStatement_def attempt_inserted_def)

lemma insert_request_Inr:
  assumes "bindS (db_exec (insertUsageRecordStatement r)) LastInsertId d = (Inr rid, d')"
  shows "request_inserted r rid d d'"
proof -
  obtain rid' d1 where ins: "db_exec (insertUsageRecordStatement r) d = (Inr rid', d1)"
    and last: "LastInsertId rid' d1 = (Inr rid, d')"
    using assms by (rule bindS_InrE)
  obtain d0 where d0: "same_data d d0" and st: "insertUsageRecordStatement r d0 = (rid', d1)"
    using ins by (rule db_exec_Inr)
  have "rid = rid'" using last by (auto simp: LastInsertId_def dest: db_query_Inr)
  moreover have "same_data d1 d'" using last by (simp add: LastInsertId_def db_query_same)
  ultimately show ?thesis
    using request_inserted_same [OF d0] insertUsageRecordStatement_inserts [OF st] by blast
qed

lemma insert_attempt_Inr:
  assumes "bindS (db_exec (insertAttemptUsageRecordStatement r)) LastInsertId d = (Inr rid, d')"
  shows "attempt_inserted r rid d d'"
proof -
  obtain rid' d1 where ins: "db_exec (insertAttemptUsageRecordStatement r) d = (Inr rid', d1)"
    and last: "LastInsertId rid' d1 = (Inr rid, d')"
    using assms by (rule bindS_InrE)
  obtain d0 where d0: "same_data d d0" and st: "insertAttemptUsageRecordStatement r d0 = (rid', d1)"
    using ins by (rule db_exec_Inr)
  have "rid = rid'" using last by (auto simp: LastInsertId_def dest: db_query_Inr)
  moreover have "same_data d1 d'" using last by (simp add: LastInsertId_def db_query_same)
  ultimately show ?thesis
    using attempt_inserted_same [OF d0] insertAttemptUsageRecordStatement_inserts [OF st] by blast
qed

lemma InsertUsageRecord_Inr: "InsertUsageRecord r d = (Inr rid, d') \<Longrightarrow> request_inserted r rid d d'"
  unfolding InsertUsageRecord_def by (rule insert_request_Inr)

lemma InsertAttemptUsageRecord_Inr:
  "InsertAttemptUsageRecord r d = (Inr rid, d') \<Longrightarrow> attempt_inserted r rid d d'"
  unfolding InsertAttemptUsageRecord_def by (rule insert_attempt_Inr)

section \<open>The admission transactions\<close>

lemma BeginRequestAtomic_body:
  assumes "bindS (admitRequest input) (\<lambda>_.
      bindS (db_exec (insertUsageRecordStatement (begin_request_record input))) LastInsertId) d =
    (Inr rid, d')"
  shows "request_inserted (begin_request_record input) rid d d'"
    and "within_budget (principal_tenant (abr_principal input)) (abr_prompt_tokens input) d"
    and "within_rate (principal_tenant (abr_principal input)) (abr_created_at input - minute) d"
    and "within_tokens (principal_tenant (abr_principal input))
      (abr_created_at input - minute) (abr_prompt_tokens input) d"
proof -
  obtain u d1 where adm: "admitRequest input d = (Inr u, d1)"
    and ins: "bindS (db_exec (insertUsageRecordStatement (begin_request_record input)))
      LastInsertId d1 = (Inr rid, d')"
    using assms by (rule bindS_InrE)
  have "same_data d d1" using read_only_admitRequest adm by (rule read_onlyD)
  then show "request_inserted (begin_request_record input) rid d d'"
    using insert_request_Inr [OF ins] same_data_refl by (rule request_inserted_same)
qed (use assms in \<open>auto elim!: bindS_InrE dest: admitRequest_Inr\<close>)

lemma BeginAttemptAtomic_body:
  assumes "bindS (admitAttempt input) (\<lambda>_.
      bindS (db_exec (insertAttemptUsageRecordStatement (begin_attempt_record input))) LastInsertId) d =
    (Inr rid, d')"
  shows "attempt_inserted (begin_attempt_record input) rid d d'"
    and "within_budget (principal_tenant (abr_principal input)) (abr_prompt_tokens input) d"
proof -
  obtain u d1 where adm: "admitAttempt input d = (Inr u, d1)"
    and ins: "bindS (db_exec (insertAttemptUsageRecordStatement (begin_attempt_record input)))
      LastInsertId d1 = (Inr rid, d')"
    using assms by (rule bindS_InrE)
  have "same_data d d1" using read_only_admitAttempt adm by (rule read_onlyD)
  then show "attempt_inserted (begin_attempt_record input) rid d d'"
    using insert_attempt_Inr [OF ins] same_data_refl by (rule attempt_inserted_same)
  show "within_budget (principal_tenant (abr_principal input)) (abr_prompt_tokens input) d"
    using adm by (rule admitAttempt_Inr)
qed

lemma BeginRequestAtomic_Inr:
  assumes "BeginRequestAtomic input d = (Inr rid, d')"
  shows "request_inserted (begin_request_record input) rid d d'"
    and "within_budget (principal_tenant (abr_principal input)) (abr_prompt_tokens input) d"
    and "within_rate (principal_tenant (abr_principal input)) (abr_created_at input - minute) d"
    and "within_tokens (principal_tenant (abr_principal input))
      (abr_created_at input - minute) (abr_prompt_tokens input) d"
proof -
  obtain d0 d1 where d0: "same_data d d0" and d1: "same_data d1 d'"
    and body: "bindS (admitRequest input) (\<lambda>_. bindS (db_exec
      (insertUsageRecordStatement (begin_request_record input))) LastInsertId) d0 = (Inr rid, d1)"
    using assms unfolding BeginRequestAtomic_def by (rule db_tx_Inr)
  show "request_inserted (begin_request_record input) rid d d'"
    using d0 BeginRequestAtomic_body(1) [OF body] d1 by (rule request_inserted_same)
  note admitted = BeginRequestAtomic_body(2-4) [OF body, unfolded same_data_within [OF d0]]
  show "within_budget (principal_tenant (abr_principal input)) (abr_prompt_tokens input) d"
    by (rule admitted(1))
  show "within_rate (principal_tenant (abr_principal input)) (abr_created_at input - minute) d"
    by (rule admitted(2))
  show "within_tokens (principal_tenant (abr_principal input))
      (abr_created_at input - minute) (abr_prompt_tokens input) d"
    by (rule admitted(3))
qed

lemma BeginAttemptAtomic_Inr:
  assumes "BeginAttemptAtomic input d = (Inr rid, d')"
  shows "attempt_inserted (begin_attempt_record input) rid d d'"
    and "within_budget (principal_tenant (abr_principal input)) (abr_prompt_tokens input) d"
proof -
  obtain d0 d1 where d0: "same_data d d0" and d1: "same_data d1 d'"
    and body: "bindS (admitAttempt input) (\<lambda>_. bindS (db_exec
      (insertAttemptUsageRecordStatement (begin_attempt_record input))) LastInsertId) d0 = (Inr rid, d1)"
    using assms unfolding BeginAttemptAtomic_def by (rule db_tx_Inr)
  show "attempt_inserted (begin_attempt_record input) rid d d'"
    using d0 BeginAttemptAtomic_body(1) [OF body] d1 by (rule attempt_inserted_same)
  show "within_budget (principal_tenant (abr_principal input)) (abr_prompt_tokens input) d"
    using BeginAttemptAtomic_body(2) [OF body] by (simp add: same_data_within [OF d0])
qed

text \<open>A failed admission changed no table, unless its commit went through unacknowledged.\<close>

lemma BeginAttemptAtomic_Inl:
  assumes "BeginAttemptAtomic input d = (Inl e, d')"
  obtains "same_tables d d'"
    | rid where "attempt_inserted (begin_attempt_record input) rid d d'"
        "within_budget (principal_tenant (abr_principal input)) (abr_prompt_tokens input) d"
  using assms unfolding BeginAttemptAtomic_def
proof (rule db_tx_Inl)
  fix d0 x d1
  assume d0: "same_data d d0" and d1: "same_data d1 d'"
    and body: "bindS (admitAttempt input) (\<lambda>_. bindS (db_exec
      (insertAttemptUsageRecordStatement (begin_attempt_record input))) LastInsertId) d0 = (Inr x, d1)"
  then show thesis
    using that(2) attempt_inserted_same [OF d0 BeginAttemptAtomic_body(1) [OF body] d1]
      BeginAttemptAtomic_body(2) [OF body] by (simp add: same_data_within [OF d0])
qed (rule that(1))

lemma BeginRequestAtomic_Inl:
  assumes "BeginRequestAtomic input d = (Inl e, d')"
  obtains "same_tables d d'"
    | rid where "request_inserted (begin_request_record input) rid d d'"
  using assms unfolding BeginRequestAtomic_def
proof (rule db_tx_Inl)
  fix d0 x d1
  assume d0: "same_data d d0" and d1: "same_data d1 d'"
    and body: "bindS (admitRequest input) (\<lambda>_. bindS (db_exec
      (insertUsageRecordStatement (begin_request_record input))) LastInsertId) d0 = (Inr x, d1)"
  then show thesis
    using that(2) request_inserted_same [OF d0 BeginRequestAtomic_body(1) [OF body] d1] by blast
qed (rule that(1))

section \<open>How insertions and updates move the aggregates\<close>

lemma attempt_row_of_fields [simp]:
  "u_id (attempt_row_of rid now r) = rid"
  "u_tenant_id (attempt_row_of rid now r) = ur_tenant_id r"
  "u_total_tokens (attempt_row_of rid now r) = ur_total_tokens r"
  "u_status (attempt_row_of rid now r) = ur_status r"
  "u_model (attempt_row_of rid now r) = ur_model r"
  "u_stream (attempt_row_of rid now r) = ur_stream r"
  "u_created_at (attempt_row_of rid now r) = sql_timestamp (ur_created_at r)"
  "a_backend (attempt_row_of rid now r) = aur_backend r"
  by (simp_all add: attempt_row_of_def usage_row_of_def usage_row.defs attempt_row.defs)

lemma usage_row_of_fields [simp]:
  "u_id (usage_row_of rid now r) = rid"
  "u_tenant_id (usage_row_of rid now r) = ur_tenant_id r"
  "u_total_tokens (usage_row_of rid now r) = ur_total_tokens r"
  "u_status (usage_row_of rid now r) = ur_status r"
  "u_created_at (usage_row_of rid now r) = sql_timestamp (ur_created_at r)"
  by (simp_all add: usage_row_of_def)

lemma attempt_inserted_aggregates:
  assumes "attempt_inserted r rid d d'"
  shows "attempt_tokens_used tid d' =
      attempt_tokens_used tid d + (if ur_tenant_id r = tid then ur_total_tokens r else 0)"
    and "tokens_used tid d' = tokens_used tid d"
    and "requests_since tid since d' = requests_since tid since d"
    and "tokens_since tid since d' = tokens_since tid since d"
  using assms
  by (simp_all add: attempt_inserted_def attempt_tokens_used_def tokens_used_def
      requests_since_def tokens_since_def of_tenant_def)

lemma request_inserted_aggregates:
  assumes "request_inserted r rid d d'"
  shows "requests_since tid since d' = requests_since tid since d +
      (if ur_tenant_id r = tid \<and> since \<le> sql_timestamp (ur_created_at r) then 1 else 0)"
    and "tokens_since tid since d' = tokens_since tid since d +
      (if ur_tenant_id r = tid \<and> since \<le> sql_timestamp (ur_created_at r)
       then ur_total_tokens r else 0)"
    and "tokens_used tid d' =
      tokens_used tid d + (if ur_tenant_id r = tid then ur_total_tokens r else 0)"
    and "attempt_tokens_used tid d' = attempt_tokens_used tid d"
  using assms
  by (simp_all add: request_inserted_def attempt_tokens_used_def tokens_used_def
      requests_since_def tokens_since_def of_tenant_def of_tenant_since_def)

text \<open>Rounding to seconds moves a record by at most half a second, so never out of its minute.\<close>

lemma sql_timestamp_bounds:
  "t - second div 2 \<le> sql_timestamp t" and "sql_timestamp t \<le> t + second div 2"
proof -
  have "(t + 500000000) mod 1000000000 \<ge> 0" and "(t + 500000000) mod 1000000000 < 1000000000"
    by simp_all
  moreover have "t + 500000000 =
      (t + 500000000) div 1000000000 * 1000000000 + (t + 500000000) mod 1000000000"
    by simp
  ultimately show "t - second div 2 \<le> sql_timestamp t" and "sql_timestamp t \<le> t + second div 2"
    by (simp_all add: sql_timestamp_def second_def)
qed

lemma sql_timestamp_in_window: "t - minute \<le> sql_timestamp t"
  using sql_timestamp_bounds(1) [of t] by (simp add: second_def minute_def)

definition request_updated :: "usage_update \<Rightarrow> db \<Rightarrow> db \<Rightarrow> bool" where
  "request_updated u d d' \<longleftrightarrow>
     same_data (d\<lparr>request_usages := map (update_usage_row u (sql_current d)) (request_usages d)\<rparr>) d'"

definition attempt_updated :: "attempt_usage_update \<Rightarrow> db \<Rightarrow> db \<Rightarrow> bool" where
  "attempt_updated u d d' \<longleftrightarrow>
     same_data (d\<lparr>request_attempt_usages :=
       map (update_attempt_row u (sql_current d)) (request_attempt_usages d)\<rparr>) d'"

lemma same_data_update_usages:
  "same_data d d0 \<Longrightarrow> same_data (d\<lparr>request_usages := xs\<rparr>) (d0\<lparr>request_usages := xs\<rparr>)"
  by (cases d, cases d0, simp add: same_data_def)

lemma same_data_update_attempts:
  "same_data d d0 \<Longrightarrow>
     same_data (d\<lparr>request_attempt_usages := xs\<rparr>) (d0\<lparr>request_attempt_usages := xs\<rparr>)"
  by (cases d, cases d0, simp add: same_data_def)

lemma request_updated_same:
  assumes "same_data d d0"
  shows "request_updated u d
    (d0\<lparr>request_usages := map (update_usage_row u (sql_current d0)) (request_usages d0)\<rparr>)"
  unfolding request_updated_def same_data_sql_current [OF assms] same_data_fields(3) [OF assms]
  by (rule same_data_update_usages [OF assms])

lemma attempt_updated_same:
  assumes "same_data d d0"
  shows "attempt_updated u d (d0\<lparr>request_attempt_usages :=
    map (update_attempt_row u (sql_current d0)) (request_attempt_usages d0)\<rparr>)"
  unfolding attempt_updated_def same_data_sql_current [OF assms] same_data_fields(4) [OF assms]
  by (rule same_data_update_attempts [OF assms])

lemma UpdateUsageRecord_Inr: "UpdateUsageRecord u d = (Inr x, d') \<Longrightarrow> request_updated u d d'"
  unfolding UpdateUsageRecord_def by (erule db_exec_Inr) (use request_updated_same in fastforce)

lemma UpdateUsageRecord_Inl:
  "UpdateUsageRecord u d = (Inl e, d') \<Longrightarrow> same_data d d' \<or> request_updated u d d'"
  unfolding UpdateUsageRecord_def by (erule db_exec_Inl) (use request_updated_same in fastforce)+

lemma UpdateAttemptUsageRecord_Inr:
  "UpdateAttemptUsageRecord u d = (Inr x, d') \<Longrightarrow> attempt_updated u d d'"
  unfolding UpdateAttemptUsageRecord_def
  by (erule db_exec_Inr) (use attempt_updated_same in fastforce)

lemma UpdateAttemptUsageRecord_Inl:
  "UpdateAttemptUsageRecord u d = (Inl e, d') \<Longrightarrow> same_data d d' \<or> attempt_updated u d d'"
  unfolding UpdateAttemptUsageRecord_def
  by (erule db_exec_Inl) (use attempt_updated_same in fastforce)+

end
