(* ===== verification/RedisProtocol.thy ===== *)
theory RedisProtocol
  imports Errors
begin

text \<open>
  The wire format of \<open>internal/store/redis/client.go\<close>: commands are written as arrays of bulk
  strings, replies are read by a recursive reader. A connection is the bytes still to be read. The
  lemmas show that the reader returns for every input, that it reads back what the writer wrote,
  and what it makes of each kind of reply.
\<close>

section \<open>Writing\<close>

definition crlf :: string where
  "crlf = [CHR 0x0D, CHR 0x0A]"

definition bulk :: "string \<Rightarrow> string" where
  "bulk part = CHR ''$'' # itoa (int (length part)) @ crlf @ part @ crlf"

definition writeCommand :: "string list \<Rightarrow> string" where
  "writeCommand command =
     CHR ''*'' # itoa (int (length command)) @ crlf @ concat (map bulk command)"

section \<open>Reading\<close>

datatype resp_value = RStr string | RInt int | RArr "resp_value list"

definition readHeader :: "string \<Rightarrow> (char \<times> string) res \<times> string" where
  "readHeader s =
     (case s of
        [] \<Rightarrow> (Inl IoEOF, [])
      | prefix # s' \<Rightarrow>
        (case read_line s' of
           None \<Rightarrow> (Inl IoEOF, [])
         | Some (line, rest) \<Rightarrow> (Inr (prefix, trim_suffix line [CHR 0x0D]), rest)))"

definition number_error :: "string \<Rightarrow> string \<Rightarrow> err" where
  "number_error f line = NewErr (''strconv.'' @ f @ '': parsing '' @ line @ '': invalid number'')"

text \<open>The length from which \<open>make\<close> panics, for elements of one byte and of an interface.\<close>

definition max_alloc :: int where
  "max_alloc = 2 ^ 48"

definition readBulkString :: "string \<Rightarrow> string \<Rightarrow> resp_value res \<times> string" where
  "readBulkString line s =
     (case atoi line of
        None \<Rightarrow> (Inl (number_error ''Atoi'' line), s)
      | Some len \<Rightarrow>
          if len < 0 then (Inr (RStr []), s)
          else if max_alloc < len + 2 then (Inl (Panic ''makeslice: len out of range''), s)
          else if int (length s) < len + 2
          then (Inl (if s = [] then IoEOF else NewErr ''unexpected EOF''), [])
          else (Inr (RStr (take (nat len) s)), drop (nat (len + 2)) s))"

text \<open>
  The reader recurs on the elements of an array, which the bytes read so far do not bound; \<open>fuel\<close>
  bounds the calls and \<open>readRESP\<close> supplies enough for every input.
\<close>

fun read_resp :: "nat \<Rightarrow> string \<Rightarrow> (resp_value res \<times> string) option"
  and read_items :: "nat \<Rightarrow> int \<Rightarrow> string \<Rightarrow> (resp_value list res \<times> string) option" where
  "read_resp 0 s = None"
| "read_resp (Suc fuel) s =
     (case readHeader s of
        (Inl e, s) \<Rightarrow> Some (Inl e, s)
      | (Inr (prefix, line), s) \<Rightarrow>
          if prefix = CHR ''+'' then Some (Inr (RStr line), s)
          else if prefix = CHR ''-'' then Some (Inl (NewErr line), s)
          else if prefix = CHR '':'' then
            Some (case atoi line of None \<Rightarrow> Inl (number_error ''ParseInt'' line)
                                  | Some i \<Rightarrow> Inr (RInt i), s)
          else if prefix = CHR ''$'' then Some (readBulkString line s)
          else if prefix = CHR ''*'' then
            (case atoi line of
               None \<Rightarrow> Some (Inl (number_error ''Atoi'' line), s)
             | Some len \<Rightarrow>
                 if len < 0 then Some (Inr (RArr []), s)
                 else if max_alloc < 16 * len
                 then Some (Inl (Panic ''makeslice: cap out of range''), s)
                 else (case read_items fuel len s of
                         None \<Rightarrow> None
                       | Some (Inl e, s) \<Rightarrow> Some (Inl e, s)
                       | Some (Inr items, s) \<Rightarrow> Some (Inr (RArr items), s)))
          else Some (Inl (NewErr (''unsupported redis response prefix '' @ [prefix])), s))"
| "read_items 0 n s = None"
| "read_items (Suc fuel) n s =
     (if n \<le> 0 then Some (Inr [], s)
      else case read_resp fuel s of
        None \<Rightarrow> None
      | Some (Inl e, s) \<Rightarrow> Some (Inl e, s)
      | Some (Inr item, s) \<Rightarrow>
          (case read_items fuel (n - 1) s of
             None \<Rightarrow> None
           | Some (Inl e, s) \<Rightarrow> Some (Inl e, s)
           | Some (Inr items, s) \<Rightarrow> Some (Inr (item # items), s)))"

definition readRESP :: "string \<Rightarrow> resp_value res \<times> string" where
  "readRESP s =
     (case read_resp (2 * length s + 1) s of Some r \<Rightarrow> r | None \<Rightarrow> (Inl (Panic ''fuel''), s))"

section \<open>The reader returns\<close>

lemma readHeader_shorter:
  "readHeader s = (Inr (p, l), r) \<Longrightarrow> length r + 2 \<le> length s"
  by (auto simp: readHeader_def split: list.splits option.splits dest: read_line_shorter)

lemma readHeader_no_longer: "readHeader s = (x, r) \<Longrightarrow> length r \<le> length s"
  by (auto simp: readHeader_def split: list.splits option.splits dest: read_line_shorter)

lemma readBulkString_no_longer: "readBulkString line s = (x, r) \<Longrightarrow> length r \<le> length s"
  by (auto simp: readBulkString_def split: option.splits if_splits)

lemma read_shorter:
  "read_resp fuel s = Some (x, r) \<Longrightarrow> length r \<le> length s \<and> (\<forall>v. x = Inr v \<longrightarrow> length r < length s)"
  "read_items fuel n s = Some (y, r) \<Longrightarrow> length r \<le> length s"
proof (induction fuel arbitrary: s n x y r)
  case 0
  { case 1 then show ?case by simp
  next case 2 then show ?case by simp }
next
  case (Suc fuel)
  { case 1
    obtain h s' where h: "readHeader s = (h, s')" by fastforce
    show ?case
    proof (cases h)
      case (Inl e)
      with 1 h readHeader_no_longer [OF h] show ?thesis by auto
    next
      case (Inr pl)
      obtain p l where pl: "pl = (p, l)" by fastforce
      have short: "length s' + 2 \<le> length s" using h by (auto simp: Inr pl dest: readHeader_shorter)
      have items: "length t \<le> length s'" if "read_items fuel n s' = Some (y, t)" for n y t
        using Suc.IH(2) that by simp
      have "length r \<le> length s'"
        using 1 by (auto simp: h Inr pl split: if_splits option.splits sum.splits prod.splits
            dest: items readBulkString_no_longer)
      with short show ?thesis by auto
    qed
  next
    case 2
    then show ?case
      using Suc.IH by (fastforce split: if_splits option.splits sum.splits prod.splits) }
qed

lemma read_enough_fuel:
  "2 * length s + 1 \<le> fuel \<Longrightarrow> read_resp fuel s \<noteq> None"
  "2 * length s + 2 \<le> fuel \<Longrightarrow> read_items fuel n s \<noteq> None"
proof (induction fuel arbitrary: s n)
  case 0
  { case 1 then show ?case by simp
  next case 2 then show ?case by simp }
next
  case (Suc fuel)
  { case 1
    obtain h s' where h: "readHeader s = (h, s')" by fastforce
    show ?case
    proof (cases h)
      case (Inl e)
      with h show ?thesis by simp
    next
      case (Inr pl)
      obtain p l where pl: "pl = (p, l)" by fastforce
      have "length s' + 2 \<le> length s" using h by (auto simp: Inr pl dest: readHeader_shorter)
      with 1 have "2 * length s' + 2 \<le> fuel" by simp
      then have some: "read_items fuel n s' \<noteq> None" for n by (rule Suc.IH(2))
      show ?thesis by (auto simp: h Inr pl some split: option.splits sum.splits)
    qed
  next
    case 2
    then obtain x s' where x: "read_resp fuel s = Some (x, s')" using Suc.IH(1) [of s] by auto
    show ?case
    proof (cases x)
      case (Inl e)
      with x show ?thesis by simp
    next
      case (Inr v)
      then have "length s' < length s" using read_shorter(1) [OF x] by simp
      with 2 have some: "read_items fuel (n - 1) s' \<noteq> None" by (intro Suc.IH(2)) simp
      show ?thesis by (auto simp: x Inr some split: option.splits sum.splits)
    qed }
qed

lemma readRESP_read: "read_resp (2 * length s + 1) s = Some (readRESP s)"
  using read_enough_fuel(1) [of s "2 * length s + 1"] by (auto simp: readRESP_def)

text \<open>More fuel changes nothing.\<close>

lemma read_more_fuel:
  "read_resp fuel s = Some x \<Longrightarrow> fuel \<le> fuel' \<Longrightarrow> read_resp fuel' s = Some x"
  "read_items fuel n s = Some y \<Longrightarrow> fuel \<le> fuel' \<Longrightarrow> read_items fuel' n s = Some y"
proof (induction fuel arbitrary: s n x y fuel')
  case 0
  { case 1 then show ?case by simp
  next case 2 then show ?case by simp }
next
  case (Suc fuel)
  { case 1
    then obtain f where f: "fuel' = Suc f" "fuel \<le> f" by (cases fuel') auto
    have "read_items f n s' = Some y" if "read_items fuel n s' = Some y" for n s' y
      using Suc.IH(2) that f(2) by blast
    then show ?case using 1(1) unfolding f(1)
      by (auto split: if_splits option.splits sum.splits prod.splits)
  next
    case 2
    then obtain f where f: "fuel' = Suc f" "fuel \<le> f" by (cases fuel') auto
    have "read_items f n s' = Some y" if "read_items fuel n s' = Some y" for n s' y
      using Suc.IH(2) that f(2) by blast
    moreover have "read_resp f s' = Some y" if "read_resp fuel s' = Some y" for s' y
      using Suc.IH(1) that f(2) by blast
    ultimately show ?case using 2(1) unfolding f(1)
      by (auto split: if_splits option.splits sum.splits prod.splits) }
qed

lemma readRESP_eqI:
  assumes "read_resp fuel s = Some x"
  shows "readRESP s = x"
proof -
  let ?big = "fuel + (2 * length s + 1)"
  have "read_resp ?big s = Some x" using assms by (rule read_more_fuel(1)) simp
  moreover have "read_resp ?big s = Some (readRESP s)"
    using readRESP_read by (rule read_more_fuel(1)) simp
  ultimately show ?thesis by simp
qed

section \<open>Round trips\<close>

lemma readHeader_line:
  assumes "CHR 0x0A \<notin> set l"
  shows "readHeader (p # l @ crlf @ r) = (Inr (p, l), r)"
proof -
  have "read_line ((l @ [CHR 0x0D]) @ CHR 0x0A # r) = Some (l @ [CHR 0x0D], r)"
    using assms by (intro read_line_append) simp
  then show ?thesis by (simp add: readHeader_def crlf_def)
qed

lemma itoa_no_newline: "CHR 0x0A \<notin> set (itoa i)"
  using in_itoa [of "CHR 0x0A" i] by (auto simp: is_digit_def)

lemma in_int64_length: "0 \<le> i \<Longrightarrow> 16 * i \<le> max_alloc \<Longrightarrow> in_int64 i"
  "0 \<le> i \<Longrightarrow> i + 2 \<le> max_alloc \<Longrightarrow> in_int64 i"
  by (simp_all add: in_int64_def min_int_def max_int_def max_alloc_def)

definition bulk_fits :: "string \<Rightarrow> bool" where
  "bulk_fits part \<longleftrightarrow> int (length part) + 2 \<le> max_alloc"

lemma read_resp_bulk:
  assumes "bulk_fits part"
  shows "read_resp (Suc fuel) (bulk part @ r) = Some (Inr (RStr part), r)"
proof -
  have "readHeader (bulk part @ r) = (Inr (CHR ''$'', itoa (int (length part))), part @ crlf @ r)"
    unfolding bulk_def using readHeader_line [OF itoa_no_newline] by simp
  moreover have "nat (int (length part) + 2) = Suc (Suc (length part))" by simp
  then have "readBulkString (itoa (int (length part))) (part @ crlf @ r) =
      (Inr (RStr part), r)"
    using assms in_int64_length(2) [of "int (length part)"]
    by (simp add: readBulkString_def atoi_itoa bulk_fits_def crlf_def)
  ultimately show ?thesis by simp
qed

lemma read_items_cons:
  assumes "read_resp fuel s = Some (Inr item, s')"
    and "read_items fuel (int n) s' = Some (Inr items, r)"
  shows "read_items (Suc fuel) (int (Suc n)) s = Some (Inr (item # items), r)"
  using assms by simp

lemma read_items_bulks:
  assumes "list_all bulk_fits parts" and "length parts < fuel"
  shows "read_items fuel (int (length parts)) (concat (map bulk parts) @ r) =
    Some (Inr (map RStr parts), r)"
  using assms
proof (induction parts arbitrary: fuel)
  case Nil
  then show ?case by (cases fuel) auto
next
  case (Cons part parts)
  from Cons.prems(2) have "fuel = Suc (Suc (fuel - 2))" by simp
  then obtain f where f: "fuel = Suc (Suc f)" ..
  have "read_items (Suc f) (int (length parts)) (concat (map bulk parts) @ r) =
      Some (Inr (map RStr parts), r)"
    by (rule Cons.IH) (use Cons.prems f in simp_all)
  moreover have "read_resp (Suc f) (bulk part @ concat (map bulk parts) @ r) =
      Some (Inr (RStr part), concat (map bulk parts) @ r)"
    using Cons.prems by (intro read_resp_bulk) simp
  ultimately show ?case unfolding f list.size list.map concat.simps append_assoc add_Suc_right add_0_right
    by (intro read_items_cons) 
qed

lemma readRESP_command:
  assumes "list_all bulk_fits command" and "16 * int (length command) \<le> max_alloc"
  shows "readRESP (writeCommand command @ r) = (Inr (RArr (map RStr command)), r)"
proof (rule readRESP_eqI)
  let ?n = "int (length command)"
  have "readHeader (writeCommand command @ r) =
      (Inr (CHR ''*'', itoa ?n), concat (map bulk command) @ r)"
    unfolding writeCommand_def using readHeader_line [OF itoa_no_newline] by simp
  moreover have "atoi (itoa ?n) = Some ?n"
    using assms(2) by (intro atoi_itoa in_int64_length(1)) simp_all
  ultimately show "read_resp (Suc (Suc (length command))) (writeCommand command @ r) =
      Some (Inr (RArr (map RStr command)), r)"
    using assms read_items_bulks [OF assms(1), of "Suc (length command)" r] by simp
qed

text \<open>The replies a server gives to the commands of this client.\<close>

datatype reply = Status string | Failure string | Number int | Numbers "int list"

fun encode_reply :: "reply \<Rightarrow> string" where
  "encode_reply (Status t) = CHR ''+'' # t @ crlf"
| "encode_reply (Failure t) = CHR ''-'' # t @ crlf"
| "encode_reply (Number i) = CHR '':'' # itoa i @ crlf"
| "encode_reply (Numbers is) =
     CHR ''*'' # itoa (int (length is)) @ crlf @
       concat (map (\<lambda>i. CHR '':'' # itoa i @ crlf) is)"

fun reply_value :: "reply \<Rightarrow> resp_value res" where
  "reply_value (Status t) = Inr (RStr t)"
| "reply_value (Failure t) = Inl (NewErr t)"
| "reply_value (Number i) = Inr (RInt i)"
| "reply_value (Numbers is) = Inr (RArr (map RInt is))"

fun reply_fits :: "reply \<Rightarrow> bool" where
  "reply_fits (Status t) = (CHR 0x0A \<notin> set t)"
| "reply_fits (Failure t) = (CHR 0x0A \<notin> set t)"
| "reply_fits (Number i) = in_int64 i"
| "reply_fits (Numbers is) = (list_all in_int64 is \<and> 16 * int (length is) \<le> max_alloc)"

lemma read_items_numbers:
  assumes "list_all in_int64 is" and "length is < fuel"
  shows "read_items fuel (int (length is)) (concat (map (\<lambda>i. CHR '':'' # itoa i @ crlf) is) @ r) =
    Some (Inr (map RInt is), r)"
  using assms
proof (induction "is" arbitrary: fuel)
  case Nil
  then show ?case by (cases fuel) auto
next
  case (Cons i "is")
  from Cons.prems(2) have "fuel = Suc (Suc (fuel - 2))" by simp
  then obtain f where f: "fuel = Suc (Suc f)" ..
  let ?rest = "concat (map (\<lambda>i. CHR '':'' # itoa i @ crlf) is) @ r"
  have "read_items (Suc f) (int (length is)) ?rest = Some (Inr (map RInt is), r)"
    by (rule Cons.IH) (use Cons.prems f in simp_all)
  moreover have "read_resp (Suc f) (CHR '':'' # itoa i @ crlf @ ?rest) = Some (Inr (RInt i), ?rest)"
    using Cons.prems readHeader_line [OF itoa_no_newline, of "CHR '':''" i ?rest]
    unfolding read_resp.simps by (simp add: atoi_itoa)
  ultimately show ?case unfolding f list.size list.map concat.simps append_assoc add_Suc_right add_0_right
    append_Cons by (intro read_items_cons)
qed

lemma readRESP_reply:
  assumes "reply_fits rp"
  shows "readRESP (encode_reply rp @ r) = (reply_value rp, r)"
proof (cases rp)
  case (Status t)
  with assms show ?thesis
    using readHeader_line [of t "CHR ''+''" r] by (intro readRESP_eqI [of 1]) simp
next
  case (Failure t)
  with assms show ?thesis
    using readHeader_line [of t "CHR ''-''" r] by (intro readRESP_eqI [of 1]) simp
next
  case (Number i)
  with assms show ?thesis
    using readHeader_line [OF itoa_no_newline, of "CHR '':''" i r]
    by (intro readRESP_eqI [of 1]) (simp add: atoi_itoa)
next
  case (Numbers "is")
  let ?n = "int (length is)"
  have "readHeader (encode_reply rp @ r) = (Inr (CHR ''*'', itoa ?n),
      concat (map (\<lambda>i. CHR '':'' # itoa i @ crlf) is) @ r)"
    unfolding Numbers using readHeader_line [OF itoa_no_newline] by simp
  moreover have "atoi (itoa ?n) = Some ?n"
    using assms Numbers by (intro atoi_itoa in_int64_length(1)) simp_all
  ultimately show ?thesis
    using assms read_items_numbers [of "is" "Suc (length is)" r]
    by (intro readRESP_eqI [of "Suc (Suc (length is))"]) (simp add: Numbers)
qed

end
