(* ===== verification/RedisClient.thy ===== *)
theory RedisClient
  imports RedisProtocol Database
begin

text \<open>
  The client of \<open>internal/store/redis/client.go\<close> over a network that is a parameter, and the part
  of a Redis server the gateway relies on: counters with an expiry, \<open>INCRBY\<close>, \<open>EXPIRE\<close> and the
  evaluation of the limiter's script. The server is a network of its own, so the client's functions
  can be run against it and every failure of the connection is a state it can be in.
\<close>

section \<open>The client\<close>

text \<open>
  A connection: dialling, sending bytes, and the bytes that can be read before the server closes or
  the deadline passes. The three functions stand for \<open>net.Conn\<close>.
\<close>

record 'w network =
  net_dial :: "string \<Rightarrow> 'w \<Rightarrow> unit res \<times> 'w"
  net_send :: "string \<Rightarrow> 'w \<Rightarrow> unit res \<times> 'w"
  net_recv :: "'w \<Rightarrow> string \<times> 'w"

record redis_config =
  cfg_address :: string
  cfg_password :: string
  cfg_db :: int
  cfg_dial_timeout :: duration

record redis_client =
  cl_address :: string
  cl_password :: string
  cl_db :: int
  cl_dial_timeout :: duration

definition NewClient :: "redis_config \<Rightarrow> redis_client" where
  "NewClient cfg =
     (let timeout = (if cfg_dial_timeout cfg \<le> 0 then 2 * second else cfg_dial_timeout cfg)
      in \<lparr>cl_address = cfg_address cfg, cl_password = cfg_password cfg, cl_db = cfg_db cfg,
          cl_dial_timeout = timeout\<rparr>)"

definition recv_value :: "'w network \<Rightarrow> 'w \<Rightarrow> resp_value res \<times> 'w" where
  "recv_value net w = (let (bytes, w) = net_recv net w in (fst (readRESP bytes), w))"

definition doHandshake :: "'w network \<Rightarrow> string list \<Rightarrow> 'w \<Rightarrow> resp_value res \<times> 'w" where
  "doHandshake net command = bindS (net_send net (writeCommand command)) (\<lambda>_. recv_value net)"

definition dial :: "redis_client \<Rightarrow> 'w network \<Rightarrow> 'w \<Rightarrow> unit res \<times> 'w" where
  "dial c net =
     bindS (net_dial net (cl_address c)) (\<lambda>_.
     bindS (\<lambda>w. if cl_password c \<noteq> []
                then bindS (doHandshake net [''AUTH'', cl_password c]) (\<lambda>_ w. (Inr (), w)) w
                else (Inr (), w)) (\<lambda>_ w.
       if 0 < cl_db c
       then bindS (doHandshake net [''SELECT'', itoa (cl_db c)]) (\<lambda>_ w. (Inr (), w)) w
       else (Inr (), w)))"

definition do_command :: "redis_client \<Rightarrow> 'w network \<Rightarrow> string list \<Rightarrow> 'w \<Rightarrow> resp_value res \<times> 'w" where
  "do_command c net command =
     bindS (dial c net) (\<lambda>_. bindS (net_send net (writeCommand command)) (\<lambda>_. recv_value net))"

definition doSimple :: "redis_client \<Rightarrow> 'w network \<Rightarrow> string list \<Rightarrow> 'w \<Rightarrow> string res \<times> 'w" where
  "doSimple c net command =
     bindS (do_command c net command) (\<lambda>v w.
       case v of
         RStr s \<Rightarrow> (Inr s, w)
       | RInt i \<Rightarrow> (Inr (itoa i), w)
       | RArr _ \<Rightarrow> (Inl (NewErr ''unexpected redis response type []interface {}''), w))"

definition Ping :: "redis_client \<Rightarrow> 'w network \<Rightarrow> 'w \<Rightarrow> unit res \<times> 'w" where
  "Ping c net = bindS (doSimple c net [''PING'']) (\<lambda>_ w. (Inr (), w))"

fun resp_type :: "resp_value \<Rightarrow> string" where
  "resp_type (RStr _) = ''string''"
| "resp_type (RInt _) = ''int64''"
| "resp_type (RArr _) = ''[]interface {}''"

fun int_items :: "resp_value list \<Rightarrow> int list res" where
  "int_items [] = Inr []"
| "int_items (RInt i # items) =
     (case int_items items of Inl e \<Rightarrow> Inl e | Inr is \<Rightarrow> Inr (i # is))"
| "int_items (v # items) = Inl (NewErr (''unexpected eval item type '' @ resp_type v))"

definition EvalIntArray ::
    "redis_client \<Rightarrow> 'w network \<Rightarrow> string \<Rightarrow> string list \<Rightarrow> string list \<Rightarrow> 'w \<Rightarrow> int list res \<times> 'w" where
  "EvalIntArray c net script keys args =
     (let command = [''EVAL'', script, itoa (int (length keys))] @ keys @ args in
      bindS (do_command c net command) (\<lambda>value w.
        case value of
          RArr items \<Rightarrow> (int_items items, w)
        | _ \<Rightarrow> (Inl (NewErr (''unexpected eval response type '' @ resp_type value)), w)))"

definition IncrBy ::
    "redis_client \<Rightarrow> 'w network \<Rightarrow> string \<Rightarrow> int \<Rightarrow> duration \<Rightarrow> 'w \<Rightarrow> int res \<times> 'w" where
  "IncrBy c net key delta ttl =
     bindS (do_command c net [''INCRBY'', key, itoa delta]) (\<lambda>value.
       case value of
         RInt n \<Rightarrow>
           (if 0 < ttl
            then bindS (doSimple c net [''EXPIRE'', key, itoa (trunc_div ttl second)])
                   (\<lambda>_ w. (Inr n, w))
            else (\<lambda>w. (Inr n, w)))
       | _ \<Rightarrow> (\<lambda>w. (Inl (NewErr (''unexpected INCRBY response type '' @ resp_type value)), w)))"

section \<open>The limiter's script\<close>

text \<open>\<open>admitScript\<close> of \<open>internal/service/governance/redis_limiter.go\<close>, line by line.\<close>

definition admitScript :: string where
  "admitScript = join [CHR 0x0A]
     [[],
      ''local rpm_current = tonumber(redis.call('GET', KEYS[1]) or '0')'',
      ''local tpm_current = tonumber(redis.call('GET', KEYS[2]) or '0')'',
      ''local rpm_limit = tonumber(ARGV[2])'',
      ''local prompt_tokens = tonumber(ARGV[3])'',
      ''local tpm_limit = tonumber(ARGV[4])'',
      [],
      ''if rpm_limit > 0 and (rpm_current + 1) > rpm_limit then'',
      ''  return {err='RPM_EXCEEDED'}'',
      ''end'',
      [],
      ''if tpm_limit > 0 and (tpm_current + prompt_tokens) > tpm_limit then'',
      ''  return {err='TPM_EXCEEDED'}'',
      ''end'',
      [],
      ''redis.call('SET', KEYS[1], rpm_current + 1, 'EX', ARGV[1])'',
      ''redis.call('SET', KEYS[2], tpm_current + prompt_tokens, 'EX', ARGV[1])'',
      ''return {rpm_current + 1, tpm_current + prompt_tokens}'',
      []]"

section \<open>The server\<close>

text \<open>
  The server's state: the counters with the time they expire at, its clock, the outcomes of the
  connections and commands to come, and the reply waiting on the connection. A counter is an
  integer; the script computes with the numbers of Lua, which hold integers of this size exactly.
\<close>

record redis =
  r_counters :: "string \<Rightarrow> (int \<times> time option) option"
  r_now :: time
  r_faults :: "outcome list"
  r_reply :: string

definition live :: "redis \<Rightarrow> string \<Rightarrow> (int \<times> time option) option" where
  "live r k =
     (case r_counters r k of
        None \<Rightarrow> None
      | Some (v, ex) \<Rightarrow> if (case ex of None \<Rightarrow> False | Some t \<Rightarrow> t \<le> r_now r) then None
                        else Some (v, ex))"

definition counter :: "redis \<Rightarrow> string \<Rightarrow> int" where
  "counter r k = (case live r k of None \<Rightarrow> 0 | Some (v, _) \<Rightarrow> v)"

definition set_counter :: "string \<Rightarrow> int \<Rightarrow> time option \<Rightarrow> redis \<Rightarrow> redis" where
  "set_counter k v ex r = r\<lparr>r_counters := (r_counters r)(k \<mapsto> (v, ex))\<rparr>"

definition eval_admit :: "string list \<Rightarrow> string list \<Rightarrow> redis \<Rightarrow> reply \<times> redis" where
  "eval_admit keys args r =
     (case (keys, map parse_signed args) of
        ([k1, k2], [Some ttl, Some rpmLimit, Some promptTokens, Some tpmLimit]) \<Rightarrow>
          (let rpmCurrent = counter r k1; tpmCurrent = counter r k2 in
           if rpmLimit > 0 \<and> rpmCurrent + 1 > rpmLimit then (Failure ''RPM_EXCEEDED'', r)
           else if tpmLimit > 0 \<and> tpmCurrent + promptTokens > tpmLimit
           then (Failure ''TPM_EXCEEDED'', r)
           else if ttl \<le> 0 then (Failure ''ERR invalid expire time in 'set' command'', r)
           else (Numbers [rpmCurrent + 1, tpmCurrent + promptTokens],
                 set_counter k2 (tpmCurrent + promptTokens) (Some (r_now r + ttl * second))
                   (set_counter k1 (rpmCurrent + 1) (Some (r_now r + ttl * second)) r)))
      | _ \<Rightarrow> (Failure ''ERR Error running script'', r))"

definition serve_incrby :: "string \<Rightarrow> string \<Rightarrow> redis \<Rightarrow> reply \<times> redis" where
  "serve_incrby k d r =
     (case atoi d of
        None \<Rightarrow> (Failure ''ERR value is not an integer or out of range'', r)
      | Some delta \<Rightarrow>
          if in_int64 (counter r k + delta)
          then (Number (counter r k + delta),
                set_counter k (counter r k + delta)
                  (case live r k of None \<Rightarrow> None | Some (_, ex) \<Rightarrow> ex) r)
          else (Failure ''ERR increment or decrement would overflow'', r))"

definition serve_expire :: "string \<Rightarrow> string \<Rightarrow> redis \<Rightarrow> reply \<times> redis" where
  "serve_expire k t r =
     (case (live r k, atoi t) of
        (Some (v, _), Some s) \<Rightarrow> (Number 1, set_counter k v (Some (r_now r + s * second)) r)
      | (None, Some _) \<Rightarrow> (Number 0, r)
      | (_, None) \<Rightarrow> (Failure ''ERR value is not an integer or out of range'', r))"

definition redis_exec :: "string list \<Rightarrow> redis \<Rightarrow> reply \<times> redis" where
  "redis_exec command r =
     (case command of
        [] \<Rightarrow> (Failure ''ERR unknown command'', r)
      | name # args \<Rightarrow>
          if name = ''PING'' then (Status ''PONG'', r)
          else if name = ''AUTH'' \<or> name = ''SELECT'' then (Status ''OK'', r)
          else if name = ''INCRBY'' then
            (case args of [k, d] \<Rightarrow> serve_incrby k d r
             | _ \<Rightarrow> (Failure ''ERR wrong number of arguments'', r))
          else if name = ''EXPIRE'' then
            (case args of [k, t] \<Rightarrow> serve_expire k t r
             | _ \<Rightarrow> (Failure ''ERR wrong number of arguments'', r))
          else if name = ''EVAL'' then
            (case args of
               script # n # rest \<Rightarrow>
                 (if script = admitScript then
                    (case parse_signed n of
                       Some i \<Rightarrow> eval_admit (take (nat i) rest) (drop (nat i) rest) r
                     | None \<Rightarrow> (Failure ''ERR value is not an integer or out of range'', r))
                  else (Failure ''ERR unknown script'', r))
             | _ \<Rightarrow> (Failure ''ERR wrong number of arguments'', r))
          else (Failure ''ERR unknown command'', r))"

fun resp_strings :: "resp_value list \<Rightarrow> string list option" where
  "resp_strings [] = Some []"
| "resp_strings (RStr s # vs) = map_option (Cons s) (resp_strings vs)"
| "resp_strings (_ # vs) = None"

text \<open>What the server does with the bytes of one command.\<close>

definition serve :: "string \<Rightarrow> redis \<Rightarrow> reply \<times> redis" where
  "serve bytes r =
     (case fst (readRESP bytes) of
        Inr (RArr vs) \<Rightarrow>
          (case resp_strings vs of
             Some command \<Rightarrow> redis_exec command r
           | None \<Rightarrow> (Failure ''ERR Protocol error'', r))
      | _ \<Rightarrow> (Failure ''ERR Protocol error'', r))"

definition next_fault :: "redis \<Rightarrow> outcome \<times> redis" where
  "next_fault r =
     (case r_faults r of [] \<Rightarrow> (Done, r) | f # fs \<Rightarrow> (f, r\<lparr>r_faults := fs\<rparr>))"

text \<open>
  Dialling fails or succeeds. A command reaches the server and is answered, or does not reach it,
  or is executed and its reply lost.
\<close>

definition redis_network :: "redis network" where
  "redis_network =
     \<lparr>net_dial = (\<lambda>_ r.
        case next_fault r of
          (Done, r) \<Rightarrow> (Inr (), r\<lparr>r_reply := []\<rparr>)
        | (Failed e, r) \<Rightarrow> (Inl e, r)
        | (Lost e, r) \<Rightarrow> (Inl e, r)),
      net_send = (\<lambda>bytes r.
        case next_fault r of
          (Done, r) \<Rightarrow> (let (rep, r) = serve bytes r in (Inr (), r\<lparr>r_reply := encode_reply rep\<rparr>))
        | (Failed e, r) \<Rightarrow> (Inl e, r)
        | (Lost e, r) \<Rightarrow> (let (rep, r) = serve bytes r in (Inr (), r\<lparr>r_reply := []\<rparr>))),
      net_recv = (\<lambda>r. (r_reply r, r\<lparr>r_reply := []\<rparr>))\<rparr>"

section \<open>Running commands against the server\<close>

definition same_counters :: "redis \<Rightarrow> redis \<Rightarrow> bool" where
  "same_counters r q \<longleftrightarrow> r_counters q = r_counters r \<and> r_now q = r_now r"

lemma same_counters_refl [simp]: "same_counters r r"
  by (simp add: same_counters_def)

lemma same_counters_trans [trans]: "same_counters a b \<Longrightarrow> same_counters b c \<Longrightarrow> same_counters a c"
  by (simp add: same_counters_def)

lemma same_counters_reply [simp]:
  "same_counters r (q\<lparr>r_reply := x\<rparr>) = same_counters r q"
  "same_counters (q\<lparr>r_reply := x\<rparr>) r = same_counters q r"
  by (simp_all add: same_counters_def)

lemma next_fault_same: "next_fault r = (f, r') \<Longrightarrow> same_counters r r'"
  by (auto simp: next_fault_def same_counters_def split: list.splits)

lemma same_counters_live:
  assumes "same_counters r q"
  shows "live q = live r"
proof -
  have eq: "r_counters q = r_counters r" "r_now q = r_now r"
    using assms by (simp_all add: same_counters_def)
  show ?thesis by (rule ext) (unfold live_def eq, rule refl)
qed

lemma same_counters_counter: "same_counters r q \<Longrightarrow> counter q = counter r"
  by (rule ext) (simp add: counter_def same_counters_live)

lemma same_counters_set:
  "same_counters r q \<Longrightarrow> same_counters (set_counter k v ex r) (set_counter k v ex q)"
  by (simp add: set_counter_def same_counters_def)

lemma same_counters_now: "same_counters r q \<Longrightarrow> r_now q = r_now r"
  by (simp add: same_counters_def)

lemma eval_admit_same:
  assumes "same_counters r q"
  shows "fst (eval_admit keys args q) = fst (eval_admit keys args r)"
    and "same_counters (snd (eval_admit keys args r)) (snd (eval_admit keys args q))"
  unfolding eval_admit_def same_counters_counter [OF assms] same_counters_now [OF assms]
  by (auto simp: Let_def assms same_counters_set split: list.splits option.splits)

lemma serve_incrby_same:
  assumes "same_counters r q"
  shows "fst (serve_incrby k d q) = fst (serve_incrby k d r)"
    and "same_counters (snd (serve_incrby k d r)) (snd (serve_incrby k d q))"
  unfolding serve_incrby_def same_counters_counter [OF assms] same_counters_live [OF assms]
  by (auto simp: assms same_counters_set split: option.splits)

lemma serve_expire_same:
  assumes "same_counters r q"
  shows "fst (serve_expire k t q) = fst (serve_expire k t r)"
    and "same_counters (snd (serve_expire k t r)) (snd (serve_expire k t q))"
  unfolding serve_expire_def same_counters_now [OF assms] same_counters_live [OF assms]
  by (auto simp: assms same_counters_set split: option.splits)

lemma redis_exec_same:
  assumes "same_counters r q"
  shows "fst (redis_exec command q) = fst (redis_exec command r)"
    and "same_counters (snd (redis_exec command r)) (snd (redis_exec command q))"
  unfolding redis_exec_def
  by (auto simp: assms eval_admit_same [OF assms] serve_incrby_same [OF assms]
      serve_expire_same [OF assms] split: list.splits option.splits)

text \<open>Whole commands: those the wire format can carry.\<close>

definition command_fits :: "string list \<Rightarrow> bool" where
  "command_fits command \<longleftrightarrow>
     list_all bulk_fits command \<and> 16 * int (length command) \<le> max_alloc"

lemma resp_strings_map [simp]: "resp_strings (map RStr command) = Some command"
  by (induction command) simp_all

lemma serve_command:
  assumes "command_fits command"
  shows "serve (writeCommand command) r = redis_exec command r"
  using readRESP_command [of command "[]"] assms by (simp add: serve_def command_fits_def)

text \<open>\<open>executed command r r'\<close>: the server ran the command in the state \<open>r\<close>.\<close>

definition executed :: "string list \<Rightarrow> redis \<Rightarrow> redis \<Rightarrow> bool" where
  "executed command r r' \<longleftrightarrow> same_counters (snd (redis_exec command r)) r'"

lemma executed_same:
  assumes "same_counters r q" and "executed command q q'"
  shows "executed command r q'"
  using redis_exec_same(2) [OF assms(1)] assms(2)
  unfolding executed_def by (rule same_counters_trans)

lemma executed_then_same:
  "executed command r q \<Longrightarrow> same_counters q q' \<Longrightarrow> executed command r q'"
  unfolding executed_def by (rule same_counters_trans)

text \<open>
  One exchange on an open connection: the command ran and was answered, or ran and its reply was
  lost, or never arrived.
\<close>

definition exchange :: "string list \<Rightarrow> redis \<Rightarrow> resp_value res \<times> redis" where
  "exchange command =
     bindS (net_send redis_network (writeCommand command)) (\<lambda>_. recv_value redis_network)"

lemma exchange_cases:
  assumes "exchange command r = (x, r')" and "command_fits command"
    and "reply_fits (fst (redis_exec command r))"
  obtains (answered) "executed command r r'" "x = reply_value (fst (redis_exec command r))"
    | (lost) "executed command r r'" "x = Inl IoEOF"
    | (refused) e where "same_counters r r'" "x = Inl e"
proof -
  obtain oc r1 where f: "next_fault r = (oc, r1)" by fastforce
  then have same: "same_counters r r1" by (rule next_fault_same)
  obtain rep r2 where e: "redis_exec command r1 = (rep, r2)" by fastforce
  have rep: "rep = fst (redis_exec command r)" using redis_exec_same(1) [OF same, of command] e by simp
  have run: "executed command r r2"
    using redis_exec_same(2) [OF same, of command] e by (simp add: executed_def)
  show thesis
  proof (cases oc)
    case Done
    have "readRESP (encode_reply rep) = (reply_value rep, [])"
      using readRESP_reply [of rep "[]"] assms(3) by (simp add: rep)
    then have "x = reply_value rep" and "r' = r2\<lparr>r_reply := []\<rparr>"
      using assms(1,2) f e Done
      by (auto simp: exchange_def bindS_def redis_network_def recv_value_def serve_command)
    with run rep show thesis by (intro answered) (simp_all add: executed_def)
  next
    case (Failed e)
    then have "same_counters r r'" and "x = Inl e"
      using assms(1) f same by (auto simp: exchange_def bindS_def redis_network_def)
    then show thesis by (rule refused)
  next
    case (Lost e')
    have "readRESP [] = (Inl IoEOF, [])" by (simp add: readRESP_def readHeader_def)
    then have "x = Inl IoEOF" and "r' = r2\<lparr>r_reply := []\<rparr>"
      using assms(1,2) f e Lost
      by (auto simp: exchange_def bindS_def redis_network_def recv_value_def serve_command)
    with run show thesis by (intro lost) (simp_all add: executed_def)
  qed
qed

text \<open>Dialling changes no counter, whatever the handshakes answer.\<close>

definition client_fits :: "redis_client \<Rightarrow> bool" where
  "client_fits c \<longleftrightarrow> command_fits [''AUTH'', cl_password c] \<and> command_fits [''SELECT'', itoa (cl_db c)]"

lemma handshake_same:
  assumes "doHandshake redis_network command r = (x, r')" and "command_fits command"
    and "command = ''AUTH'' # args \<or> command = ''SELECT'' # args"
  shows "same_counters r r'"
proof -
  have ok: "redis_exec command q = (Status ''OK'', q)" for q
    using assms(3) by (auto simp: redis_exec_def)
  have ex: "exchange command r = (x, r')"
    using assms(1) by (simp add: doHandshake_def exchange_def)
  have fits: "reply_fits (fst (redis_exec command r))" by (simp add: ok)
  from ex assms(2) fits show ?thesis
    by (rule exchange_cases) (simp_all add: executed_def ok)
qed

lemma net_dial_same: "net_dial redis_network a r = (x, r') \<Longrightarrow> same_counters r r'"
  by (auto simp: redis_network_def dest: next_fault_same split: prod.splits outcome.splits)

lemma dial_same:
  assumes "dial c redis_network r = (x, r')" and "client_fits c"
  shows "same_counters r r'"
proof -
  have auth: "same_counters q q'"
    if "doHandshake redis_network [''AUTH'', cl_password c] q = (y, q')" for q y q'
    using that assms(2) by (intro handshake_same [OF that]) (auto simp: client_fits_def)
  have select: "same_counters q q'"
    if "doHandshake redis_network [''SELECT'', itoa (cl_db c)] q = (y, q')" for q y q'
    using that assms(2) by (intro handshake_same [OF that]) (auto simp: client_fits_def)
  show ?thesis
    using assms(1) unfolding dial_def bindS_def
    by (auto split: prod.splits sum.splits if_splits
        dest!: net_dial_same auth select intro: same_counters_trans)
qed

lemma do_command_cases:
  assumes "do_command c redis_network command r = (x, r')" and "client_fits c"
    and "command_fits command" and "reply_fits (fst (redis_exec command r))"
  obtains (answered) "executed command r r'" "x = reply_value (fst (redis_exec command r))"
    | (lost) "executed command r r'" "x = Inl IoEOF"
    | (refused) e where "same_counters r r'" "x = Inl e"
proof -
  obtain d r1 where d: "dial c redis_network r = (d, r1)" by fastforce
  have same: "same_counters r r1" using d assms(2) by (rule dial_same)
  show thesis
  proof (cases d)
    case (Inl e)
    with d assms(1) same show thesis by (intro refused) (auto simp: do_command_def bindS_def)
  next
    case (Inr u)
    with d assms(1) have ex: "exchange command r1 = (x, r')"
      by (simp add: do_command_def exchange_def)
    have rep: "fst (redis_exec command r1) = fst (redis_exec command r)"
      by (rule redis_exec_same(1) [OF same])
    show thesis
      using ex assms(3,4) [folded rep]
    proof (rule exchange_cases)
      show thesis if "executed command r1 r'" "x = reply_value (fst (redis_exec command r1))"
        using that executed_same [OF same] by (intro answered) (simp_all add: rep)
      show thesis if "executed command r1 r'" "x = Inl IoEOF"
        using that executed_same [OF same] by (intro lost)
      show thesis if "same_counters r1 r'" "x = Inl e" for e
        using that same_counters_trans [OF same] by (intro refused)
    qed
  qed
qed

end
