(* ===== verification/ChatService.thy ===== *)
theory ChatService
  imports ProviderTypes
begin

text \<open>
  \<open>internal/service/chat/service.go\<close>: the service between the HTTP handlers and the provider. It
  fills in the default model, translates the records of the two packages into each other, and
  forwards the events of a provider stream until the first error, the end of the stream or the end
  of the request's context.
\<close>

section \<open>Requests and responses of the service\<close>

record cmessage =
  cm_role :: string
  cm_content :: string

record completion_request =
  cr_model :: string
  cr_messages :: "cmessage list"
  cr_stream :: bool

record cchoice =
  cc_index :: int
  cc_message :: cmessage
  cc_finish_reason :: string

record cusage =
  cu_prompt_tokens :: int
  cu_completion_tokens :: int
  cu_total_tokens :: int

record completion_response =
  cp_id :: string
  cp_object :: string
  cp_created :: int
  cp_model :: string
  cp_choices :: "cchoice list"
  cp_usage :: cusage

record chunk_delta =
  delta_role :: string
  delta_content :: string

record chunk_choice =
  ck_index :: int
  ck_delta :: chunk_delta
  ck_finish_reason :: string

record completion_chunk =
  ch_id :: string
  ch_object :: string
  ch_created :: int
  ch_model :: string
  ch_choices :: "chunk_choice list"

datatype completion_event = CChunk completion_chunk | CErr err

section \<open>The provider\<close>

text \<open>
  \<open>provider.ChatCompletionProvider\<close>. The channel of a stream is a value of the type \<open>'s\<close>: for the
  service it is the sequence of events the channel delivers before it is closed. The context handed
  down carries the attempt recorder.
\<close>

record ('w, 'h, 's) chat_provider =
  CreateChatCompletion ::
    "('w, 'h) attempt_ctx \<Rightarrow> chat_completion_request \<Rightarrow> 'w \<Rightarrow> chat_completion_response res \<times> 'w"
  StreamChatCompletion ::
    "('w, 'h) attempt_ctx \<Rightarrow> chat_completion_request \<Rightarrow> 'w \<Rightarrow> 's res \<times> 'w"

record ('w, 'h) chat_service =
  svc_default_model :: string
  svc_provider :: "('w, 'h, stream_event list) chat_provider"

section \<open>Translations\<close>

definition toProviderMessages :: "cmessage list \<Rightarrow> chat_message list" where
  "toProviderMessages messages =
     map (\<lambda>m. \<lparr>msg_role = cm_role m, msg_content = cm_content m\<rparr>) messages"

definition toChoices :: "chat_choice list \<Rightarrow> cchoice list" where
  "toChoices choices =
     map (\<lambda>c. \<lparr>cc_index = choice_index c,
               cc_message = \<lparr>cm_role = msg_role (choice_message c),
                             cm_content = msg_content (choice_message c)\<rparr>,
               cc_finish_reason = choice_finish_reason c\<rparr>) choices"

text \<open>The two tests skip the assignment of an empty text to a field that is empty already.\<close>

definition toChunkChoices :: "chat_choice list \<Rightarrow> chunk_choice list" where
  "toChunkChoices choices =
     map (\<lambda>c.
       (let sc = \<lparr>ck_index = choice_index c, ck_delta = \<lparr>delta_role = [], delta_content = []\<rparr>,
                  ck_finish_reason = choice_finish_reason c\<rparr>;
            sc = (if msg_role (choice_message c) \<noteq> []
                  then sc\<lparr>ck_delta := (ck_delta sc)\<lparr>delta_role := msg_role (choice_message c)\<rparr>\<rparr>
                  else sc);
            sc = (if msg_content (choice_message c) \<noteq> []
                  then sc\<lparr>ck_delta := (ck_delta sc)\<lparr>delta_content := msg_content (choice_message c)\<rparr>\<rparr>
                  else sc)
        in sc)) choices"

definition toCompletionChunk :: "chat_completion_chunk \<Rightarrow> completion_chunk" where
  "toCompletionChunk chunk =
     \<lparr>ch_id = chunk_id chunk, ch_object = chunk_object chunk, ch_created = chunk_created chunk,
      ch_model = chunk_model chunk, ch_choices = toChunkChoices (chunk_choices chunk)\<rparr>"

definition prepareProviderRequest ::
    "('w, 'h) chat_service \<Rightarrow> completion_request \<Rightarrow> chat_completion_request res" where
  "prepareProviderRequest s req =
     (if cr_messages req = [] then Inl ErrInvalidRequest
      else
        let model = (if cr_model req = [] then svc_default_model s else cr_model req) in
        Inr \<lparr>req_model = model, req_messages = toProviderMessages (cr_messages req),
             req_stream = cr_stream req\<rparr>)"

section \<open>Completions\<close>

definition CreateCompletion ::
    "('w, 'h) chat_service \<Rightarrow> ('w, 'h) attempt_ctx \<Rightarrow> completion_request \<Rightarrow> 'w \<Rightarrow>
     completion_response res \<times> 'w" where
  "CreateCompletion s ctx req w =
     (case prepareProviderRequest s req of
        Inl e \<Rightarrow> (Inl e, w)
      | Inr preq \<Rightarrow>
        (case CreateChatCompletion (svc_provider s) ctx preq w of
           (Inl e, w') \<Rightarrow> (Inl e, w')
         | (Inr r, w') \<Rightarrow>
             (Inr \<lparr>cp_id = resp_id r, cp_object = resp_object r, cp_created = resp_created r,
                   cp_model = resp_model r, cp_choices = toChoices (resp_choices r),
                   cp_usage = \<lparr>cu_prompt_tokens = prompt_tokens (resp_usage r),
                               cu_completion_tokens = completion_tokens (resp_usage r),
                               cu_total_tokens = total_tokens (resp_usage r)\<rparr>\<rparr>, w')))"

section \<open>Streams\<close>

text \<open>
  Forwarding reads the context's error three times around one event; \<open>ctxErr\<close> is one read, which
  may find the context ended where an earlier read did not. The result holds the event put on the
  service's channel, if any, beside the fields of \<open>streamEventResult\<close>.
\<close>

record stream_event_result =
  ser_sent :: "completion_event option"
  ser_chunk_sent :: bool
  ser_trace_err :: "err option"
  ser_should_stop :: bool

definition stop_with :: "err \<Rightarrow> stream_event_result" where
  "stop_with e = \<lparr>ser_sent = None, ser_chunk_sent = False, ser_trace_err = Some e,
                  ser_should_stop = True\<rparr>"

definition handleProviderStreamEvent ::
    "('w \<Rightarrow> err option \<times> 'w) \<Rightarrow> stream_event \<Rightarrow> 'w \<Rightarrow> stream_event_result \<times> 'w" where
  "handleProviderStreamEvent ctxErr event w =
     (case ctxErr w of
        (Some e, w) \<Rightarrow> (stop_with e, w)
      | (None, w) \<Rightarrow>
        (case event of
           ErrEvent err \<Rightarrow>
             (case ctxErr w of
                (Some e, w) \<Rightarrow> (stop_with e, w)
              | (None, w) \<Rightarrow>
                  (\<lparr>ser_sent = Some (CErr err), ser_chunk_sent = False, ser_trace_err = Some err,
                    ser_should_stop = True\<rparr>, w))
         | ChunkEvent chunk \<Rightarrow>
             (case ctxErr w of
                (Some e, w) \<Rightarrow> (stop_with e, w)
              | (None, w) \<Rightarrow>
                  (\<lparr>ser_sent = Some (CChunk (toCompletionChunk chunk)), ser_chunk_sent = True,
                    ser_trace_err = None, ser_should_stop = False\<rparr>, w))))"

text \<open>
  The goroutine's loop over the provider's events: the events it sends, the number of chunks and
  the error it reports to the span when it ends.
\<close>

fun forward_events ::
    "('w \<Rightarrow> err option \<times> 'w) \<Rightarrow> stream_event list \<Rightarrow> nat \<Rightarrow> err option \<Rightarrow> 'w \<Rightarrow>
     completion_event list \<times> nat \<times> err option \<times> 'w" where
  "forward_events ctxErr [] n tr w = ([], n, tr, w)"
| "forward_events ctxErr (event # events) n tr w =
     (let (result, w) = handleProviderStreamEvent ctxErr event w;
          out = (case ser_sent result of None \<Rightarrow> [] | Some e \<Rightarrow> [e]);
          n = (if ser_chunk_sent result then Suc n else n);
          tr = (if ser_trace_err result \<noteq> None then ser_trace_err result else tr)
      in if ser_should_stop result then (out, n, tr, w)
         else let (rest, n, tr, w) = forward_events ctxErr events n tr w
              in (out @ rest, n, tr, w))"

definition StreamCompletion ::
    "('w, 'h) chat_service \<Rightarrow> ('w \<Rightarrow> err option \<times> 'w) \<Rightarrow> ('w, 'h) attempt_ctx \<Rightarrow>
     completion_request \<Rightarrow> 'w \<Rightarrow> completion_event list res \<times> 'w" where
  "StreamCompletion s ctxErr ctx req w =
     (case prepareProviderRequest s req of
        Inl e \<Rightarrow> (Inl e, w)
      | Inr preq \<Rightarrow>
        (case StreamChatCompletion (svc_provider s) ctx preq w of
           (Inl e, w') \<Rightarrow> (Inl e, w')
         | (Inr chunks, w') \<Rightarrow>
             (let (events, n, tr, w'') = forward_events ctxErr chunks 0 None w'
              in (Inr events, w''))))"

section \<open>Lemmas\<close>

lemma toChunkChoices_plain:
  "toChunkChoices cs =
     map (\<lambda>c. \<lparr>ck_index = choice_index c,
               ck_delta = \<lparr>delta_role = msg_role (choice_message c),
                           delta_content = msg_content (choice_message c)\<rparr>,
               ck_finish_reason = choice_finish_reason c\<rparr>) cs"
  by (simp add: toChunkChoices_def Let_def)

text \<open>The event a client of the service is to see for an event of the provider.\<close>

fun toCompletionEvent :: "stream_event \<Rightarrow> completion_event" where
  "toCompletionEvent (ChunkEvent c) = CChunk (toCompletionChunk c)"
| "toCompletionEvent (ErrEvent e) = CErr e"

fun until_error :: "stream_event list \<Rightarrow> stream_event list" where
  "until_error [] = []"
| "until_error (ErrEvent e # es) = [ErrEvent e]"
| "until_error (ChunkEvent c # es) = ChunkEvent c # until_error es"

fun is_chunk :: "stream_event \<Rightarrow> bool" where
  "is_chunk (ChunkEvent c) = True"
| "is_chunk (ErrEvent e) = False"

text \<open>What one step sends, if anything, is the translation of its event.\<close>

lemma handle_event_sent:
  assumes "handleProviderStreamEvent ctxErr ev w = (r, w')"
  shows "ser_sent r = None \<and> ser_should_stop r \<or>
         ser_sent r = Some (toCompletionEvent ev) \<and> ser_should_stop r = (\<not> is_chunk ev)"
    and "ser_chunk_sent r \<longleftrightarrow> is_chunk ev \<and> ser_sent r \<noteq> None"
  using assms
  by (auto simp: handleProviderStreamEvent_def stop_with_def
      split: prod.splits option.splits stream_event.splits)

text \<open>One turn of the loop, with the counter and the trace error it hands to the next turn.\<close>

lemma forward_events_step:
  fixes n :: nat and tr :: "err option"
  assumes "handleProviderStreamEvent ctxErr ev w = (r, w')"
  defines "n' \<equiv> (if ser_chunk_sent r then Suc n else n)"
    and "tr' \<equiv> (if ser_trace_err r \<noteq> None then ser_trace_err r else tr)"
    and "out \<equiv> (case ser_sent r of None \<Rightarrow> [] | Some e \<Rightarrow> [e])"
  shows "fst (forward_events ctxErr (ev # events) n tr w) =
      (if ser_should_stop r then out else out @ fst (forward_events ctxErr events n' tr' w'))"
    and "fst (snd (forward_events ctxErr (ev # events) n tr w)) =
      (if ser_should_stop r then n' else fst (snd (forward_events ctxErr events n' tr' w')))"
proof -
  have "forward_events ctxErr (ev # events) n tr w =
      (if ser_should_stop r then (out, n', tr', w')
       else let (rest, m, t, v) = forward_events ctxErr events n' tr' w' in (out @ rest, m, t, v))"
    unfolding forward_events.simps assms(1) n'_def tr'_def out_def by (simp only: Let_def prod.case)
  then show "fst (forward_events ctxErr (ev # events) n tr w) =
      (if ser_should_stop r then out else out @ fst (forward_events ctxErr events n' tr' w'))"
    and "fst (snd (forward_events ctxErr (ev # events) n tr w)) =
      (if ser_should_stop r then n' else fst (snd (forward_events ctxErr events n' tr' w')))"
    by (cases "forward_events ctxErr events n' tr' w'", simp)+
qed

lemma forward_events_prefix:
  "fst (forward_events ctxErr events n tr w) =
     take (length (fst (forward_events ctxErr events n tr w)))
       (map toCompletionEvent (until_error events))"
proof (induction events arbitrary: n tr w)
  case Nil
  then show ?case by simp
next
  case (Cons ev events)
  obtain r w' where h: "handleProviderStreamEvent ctxErr ev w = (r, w')" by fastforce
  obtain n' tr' where IH: "fst (forward_events ctxErr events n' tr' w') =
      take (length (fst (forward_events ctxErr events n' tr' w')))
        (map toCompletionEvent (until_error events))"
    and step: "fst (forward_events ctxErr (ev # events) n tr w) =
      (if ser_should_stop r then case ser_sent r of None \<Rightarrow> [] | Some e \<Rightarrow> [e]
       else (case ser_sent r of None \<Rightarrow> [] | Some e \<Rightarrow> [e]) @
         fst (forward_events ctxErr events n' tr' w'))"
    using forward_events_step(1) [OF h] Cons.IH by blast
  show ?case
    unfolding step using handle_event_sent(1) [OF h] IH by (cases ev) auto
qed

lemma forward_events_count:
  "fst (snd (forward_events ctxErr events n tr w)) =
     n + length (filter (\<lambda>e. case e of CChunk c \<Rightarrow> True | CErr e \<Rightarrow> False)
                  (fst (forward_events ctxErr events n tr w)))"
proof (induction events arbitrary: n tr w)
  case Nil
  then show ?case by simp
next
  case (Cons ev events)
  obtain r w' where h: "handleProviderStreamEvent ctxErr ev w = (r, w')" by fastforce
  show ?case
    unfolding forward_events_step [OF h] using handle_event_sent [OF h] Cons.IH
    by (cases ev) auto
qed

lemma handle_event_live:
  assumes "\<And>w. fst (ctxErr w) = None" and "handleProviderStreamEvent ctxErr ev w = (r, w')"
  shows "ser_sent r = Some (toCompletionEvent ev)" and "ser_should_stop r = (\<not> is_chunk ev)"
proof -
  obtain w1 where w1: "ctxErr w = (None, w1)" using assms(1) [of w] by (cases "ctxErr w") auto
  obtain w2 where w2: "ctxErr w1 = (None, w2)" using assms(1) [of w1] by (cases "ctxErr w1") auto
  show "ser_sent r = Some (toCompletionEvent ev)" and "ser_should_stop r = (\<not> is_chunk ev)"
    using assms(2) w1 w2 by (cases ev; auto simp: handleProviderStreamEvent_def)+
qed

lemma forward_events_live:
  assumes "\<And>w. fst (ctxErr w) = None"
  shows "fst (forward_events ctxErr events n tr w) = map toCompletionEvent (until_error events)"
proof (induction events arbitrary: n tr w)
  case Nil
  then show ?case by simp
next
  case (Cons ev events)
  obtain r w' where h: "handleProviderStreamEvent ctxErr ev w = (r, w')" by fastforce
  show ?case
    unfolding forward_events_step(1) [OF h] using handle_event_live [OF assms h] Cons.IH
    by (cases ev) auto
qed

end
