(* ===== verification/Router.thy ===== *)
theory Router
  imports ChatService
begin

text \<open>
  \<open>internal/provider/router/chat.go\<close>: the provider that chooses among backends. It ranks them for
  the request's model, skips those in their cooldown, tries the rest in order until one answers,
  counts failures and closes a backend for a cooldown when they reach the threshold.

  The providers of the backends work on the same state as the router, so that a call to a backend
  can be interleaved with other requests that count failures of their own; a mutex makes every
  update of a backend's state one step. Spans and cancel functions are left out: they do not
  influence what is returned.
\<close>

section \<open>State\<close>

record backend_state =
  bs_consecutive_failures :: int
  bs_unhealthy_until :: time
  bs_last_probe_at :: time
  bs_last_probe_error :: string

definition zero_state :: backend_state where
  "zero_state = \<lparr>bs_consecutive_failures = 0, bs_unhealthy_until = 0, bs_last_probe_at = 0,
                 bs_last_probe_error = []\<rparr>"

record event =
  ev_type :: string
  ev_operation :: string
  ev_backend :: string
  ev_attempt :: int
  ev_duration :: duration
  ev_failures :: int
  ev_unhealthy_until :: time
  ev_error :: string

definition plain_event :: "string \<Rightarrow> string \<Rightarrow> string \<Rightarrow> event" where
  "plain_event typ op name =
     \<lparr>ev_type = typ, ev_operation = op, ev_backend = name, ev_attempt = 0, ev_duration = 0,
      ev_failures = 0, ev_unhealthy_until = 0, ev_error = []\<rparr>"

text \<open>
  The state the router shares with the world: the states of the backends (a name that is not in
  the code's map has the zero state), what the observer was told, and the clock.
\<close>

record rstate =
  rs_states :: "string \<Rightarrow> backend_state"
  rs_log :: "event list"
  rs_clock :: time

record route_rule =
  rule_model :: string
  rule_priority :: int

text \<open>
  What a \<open>select\<close> on a backend's stream sees: the end of the request's context, the timer, or an
  event, together with what happens when the event is offered to the consumer, which takes it or is
  beaten by the end of the context. \<open>SWait\<close> is the time that passes before the next of these. The
  end of the list is the closed channel.
\<close>

datatype selection = SWait duration | SDone err | STimer | SEvent stream_event "err option"

record ('m, 'h) backend =
  be_name :: string
  be_provider :: "('m rstate_scheme, 'h, selection list) chat_provider"
  be_list_models :: "('m rstate_scheme \<Rightarrow> provider_model list res \<times> 'm rstate_scheme) option"
  be_priority :: int
  be_models :: "string list"
  be_rules :: "route_rule list"
  be_first_event_timeout :: duration

record router_config =
  rc_failure_threshold :: int
  rc_cooldown :: duration
  rc_observer :: bool

record ('m, 'h) router =
  ro_backends :: "('m, 'h) backend list"
  ro_failure_threshold :: int
  ro_cooldown :: duration
  ro_observer :: bool

definition router_New :: "('m, 'h) backend list \<Rightarrow> router_config \<Rightarrow> ('m, 'h) router" where
  "router_New backends cfg =
     (let threshold = (if rc_failure_threshold cfg \<le> 0 then 1 else rc_failure_threshold cfg);
          cooldown = (if rc_cooldown cfg \<le> 0 then 30 * second else rc_cooldown cfg)
      in \<lparr>ro_backends = backends, ro_failure_threshold = threshold, ro_cooldown = cooldown,
          ro_observer = rc_observer cfg\<rparr>)"

definition observe :: "('m, 'h) router \<Rightarrow> event \<Rightarrow> 'm rstate_scheme \<Rightarrow> 'm rstate_scheme" where
  "observe p e s = (if ro_observer p then s\<lparr>rs_log := rs_log s @ [e]\<rparr> else s)"

definition observeSkipped ::
    "('m, 'h) router \<Rightarrow> string \<Rightarrow> ('m, 'h) backend list \<Rightarrow> 'm rstate_scheme \<Rightarrow> 'm rstate_scheme" where
  "observeSkipped p operation backends s =
     fold (\<lambda>b. observe p (plain_event ''provider_skipped_unhealthy'' operation (be_name b))) backends s"

section \<open>Ranking\<close>

definition no_priority :: int where
  "no_priority = max_int"

text \<open>The loop of \<open>routeRulePreference\<close>: the smallest exact and the smallest generic priority.\<close>

fun rule_priorities :: "string \<Rightarrow> route_rule list \<Rightarrow> int \<times> int \<Rightarrow> int \<times> int" where
  "rule_priorities model [] eg = eg"
| "rule_priorities model (r # rs) (ex, gen) =
     (let m = trim_space (to_lower (rule_model r)) in
      rule_priorities model rs
        (if m = [] then (ex, if rule_priority r < gen then rule_priority r else gen)
         else if m = model then (if rule_priority r < ex then rule_priority r else ex, gen)
         else (ex, gen)))"

definition routeRulePreference :: "route_rule list \<Rightarrow> string \<Rightarrow> int \<times> int \<times> bool" where
  "routeRulePreference rules normalizedModel =
     (let (exactPriority, genericPriority) =
            rule_priorities normalizedModel rules (no_priority, no_priority)
      in if normalizedModel \<noteq> [] \<and> exactPriority \<noteq> no_priority then (2, exactPriority, True)
         else if genericPriority \<noteq> no_priority then (1, genericPriority, True)
         else (0, 0, False))"

definition backendPreference :: "('m, 'h) backend \<Rightarrow> string \<Rightarrow> int \<times> int \<times> bool" where
  "backendPreference b normalizedModel =
     (if be_rules b \<noteq> [] then routeRulePreference (be_rules b) normalizedModel
      else if normalizedModel = [] then (1, be_priority b, True)
      else if be_models b = [] then (1, be_priority b, True)
      else if list_ex (\<lambda>candidate. equal_fold (trim_space candidate) normalizedModel) (be_models b)
      then (2, be_priority b, True)
      else (0, be_priority b, True))"

text \<open>
  The order \<open>sort.SliceStable\<close> sorts by: higher score, then lower rule priority, then lower backend
  priority. As a linear order it lets the library's stable sort stand for Go's.
\<close>

datatype rank = Rank (rank_score: int) (rank_priority: int) (rank_backend: int)

definition rank_before :: "rank \<Rightarrow> rank \<Rightarrow> bool" where
  "rank_before l r \<longleftrightarrow>
     (if rank_score l \<noteq> rank_score r then rank_score r < rank_score l
      else if rank_priority l \<noteq> rank_priority r then rank_priority l < rank_priority r
      else rank_backend l < rank_backend r)"

instantiation rank :: linorder
begin

definition less_rank :: "rank \<Rightarrow> rank \<Rightarrow> bool" where
  "less_rank = rank_before"

definition less_eq_rank :: "rank \<Rightarrow> rank \<Rightarrow> bool" where
  "less_eq_rank l r \<longleftrightarrow> l < r \<or> l = r"

instance
proof
  fix x y z :: rank
  show "x < y \<longleftrightarrow> x \<le> y \<and> \<not> y \<le> x"
    by (auto simp: less_eq_rank_def less_rank_def rank_before_def split: if_splits)
  show "x \<le> x" by (simp add: less_eq_rank_def)
  show "x \<le> z" if "x \<le> y" and "y \<le> z"
    using that by (auto simp: less_eq_rank_def less_rank_def rank_before_def split: if_splits)
  show "x = y" if "x \<le> y" and "y \<le> x"
    using that by (auto simp: less_eq_rank_def less_rank_def rank_before_def split: if_splits)
  show "x \<le> y \<or> y \<le> x"
    by (cases x; cases y) (auto simp: less_eq_rank_def less_rank_def rank_before_def)
qed

end

definition backend_rank :: "string \<Rightarrow> ('m, 'h) backend \<Rightarrow> rank" where
  "backend_rank model b =
     (let (score, prio, _) = backendPreference b model in Rank score prio (be_priority b))"

definition applicable :: "string \<Rightarrow> ('m, 'h) backend \<Rightarrow> bool" where
  "applicable model b = snd (snd (backendPreference b model))"

definition rankBackends :: "('m, 'h) backend list \<Rightarrow> string \<Rightarrow> ('m, 'h) backend list" where
  "rankBackends backends model =
     (let normalizedModel = trim_space (to_lower model);
          ranked = filter (applicable normalizedModel) backends
      in if length ranked \<le> 1 then ranked
         else sort_key (backend_rank normalizedModel) ranked)"

section \<open>Health\<close>

definition cooling :: "'m rstate_scheme \<Rightarrow> string \<Rightarrow> bool" where
  "cooling s name \<longleftrightarrow>
     \<not> is_zero_time (bs_unhealthy_until (rs_states s name)) \<and>
     time_after (bs_unhealthy_until (rs_states s name)) (rs_clock s)"

definition candidates_of ::
    "('m, 'h) router \<Rightarrow> string \<Rightarrow> 'm rstate_scheme \<Rightarrow> ('m, 'h) backend list \<times> ('m, 'h) backend list" where
  "candidates_of p model s =
     (let ranked = rankBackends (ro_backends p) model;
          skipped = filter (\<lambda>b. cooling s (be_name b)) ranked;
          candidates = filter (\<lambda>b. \<not> cooling s (be_name b)) ranked
      in if candidates = [] then (candidates @ skipped, []) else (candidates, skipped))"

definition set_state :: "string \<Rightarrow> backend_state \<Rightarrow> 'm rstate_scheme \<Rightarrow> 'm rstate_scheme" where
  "set_state name st s = s\<lparr>rs_states := (rs_states s)(name := st)\<rparr>"

definition markSuccess :: "string \<Rightarrow> 'm rstate_scheme \<Rightarrow> bool \<times> 'm rstate_scheme" where
  "markSuccess name s =
     (let previous = rs_states s name in
      (0 < bs_consecutive_failures previous \<or> \<not> is_zero_time (bs_unhealthy_until previous),
       set_state name (zero_state\<lparr>bs_last_probe_at := bs_last_probe_at previous\<rparr>) s))"

text \<open>Counting one more failure, which closes the backend when the threshold is reached.\<close>

definition count_failure :: "('m, 'h) router \<Rightarrow> time \<Rightarrow> backend_state \<Rightarrow> backend_state" where
  "count_failure p now st =
     (let st = st\<lparr>bs_consecutive_failures := go_add (bs_consecutive_failures st) 1\<rparr> in
      if ro_failure_threshold p \<le> bs_consecutive_failures st
      then st\<lparr>bs_unhealthy_until := now + ro_cooldown p\<rparr> else st)"

definition markFailure ::
    "('m, 'h) router \<Rightarrow> string \<Rightarrow> 'm rstate_scheme \<Rightarrow> (int \<times> time) \<times> 'm rstate_scheme" where
  "markFailure p name s =
     (let st = count_failure p (rs_clock s) (rs_states s name) in
      ((bs_consecutive_failures st, bs_unhealthy_until st), set_state name st s))"

definition markProbeSuccess :: "string \<Rightarrow> time \<Rightarrow> 'm rstate_scheme \<Rightarrow> bool \<times> 'm rstate_scheme" where
  "markProbeSuccess name probedAt s =
     (let previous = rs_states s name in
      (0 < bs_consecutive_failures previous \<or> \<not> is_zero_time (bs_unhealthy_until previous),
       set_state name (zero_state\<lparr>bs_last_probe_at := probedAt, bs_last_probe_error := []\<rparr>) s))"

definition markProbeFailure ::
    "('m, 'h) router \<Rightarrow> string \<Rightarrow> string \<Rightarrow> time \<Rightarrow> 'm rstate_scheme \<Rightarrow> (int \<times> time) \<times> 'm rstate_scheme" where
  "markProbeFailure p name probeError probedAt s =
     (let st = count_failure p (rs_clock s)
                 ((rs_states s name)\<lparr>bs_last_probe_at := probedAt, bs_last_probe_error := probeError\<rparr>)
      in ((bs_consecutive_failures st, bs_unhealthy_until st), set_state name st s))"

record backend_status =
  st_name :: string
  st_priority :: int
  st_models :: "string list"
  st_rules :: "route_rule list"
  st_healthy :: bool
  st_failures :: int
  st_unhealthy_until :: time
  st_last_probe_at :: time
  st_last_probe_error :: string

definition BackendStatuses :: "('m, 'h) router \<Rightarrow> 'm rstate_scheme \<Rightarrow> backend_status list" where
  "BackendStatuses p s =
     map (\<lambda>b.
       let st = rs_states s (be_name b);
           healthy = is_zero_time (bs_unhealthy_until st) \<or>
                     \<not> time_after (bs_unhealthy_until st) (rs_clock s)
       in \<lparr>st_name = be_name b, st_priority = be_priority b, st_models = be_models b,
           st_rules = be_rules b, st_healthy = healthy,
           st_failures = bs_consecutive_failures st, st_unhealthy_until = bs_unhealthy_until st,
           st_last_probe_at = bs_last_probe_at st, st_last_probe_error = bs_last_probe_error st\<rparr>)
       (ro_backends p)"

definition Ready :: "('m, 'h) router \<Rightarrow> 'm rstate_scheme \<Rightarrow> bool" where
  "Ready p s = list_ex st_healthy (BackendStatuses p s)"

section \<open>Completions\<close>

definition noCandidatesError :: "nat \<Rightarrow> err" where
  "noCandidatesError configuredBackends =
     (if configuredBackends = 0 then NewErr ''no provider backends configured''
      else NewErr ''no provider backends matched routing policy'')"

text \<open>What is observed when a backend answered at its attempt (counted from 1), and when it failed.\<close>

definition observe_success ::
    "('m, 'h) router \<Rightarrow> string \<Rightarrow> string \<Rightarrow> int \<Rightarrow> duration \<Rightarrow> bool \<Rightarrow> 'm rstate_scheme \<Rightarrow> 'm rstate_scheme" where
  "observe_success p op name attempt dur recovered s =
     (let e = (\<lambda>typ. (plain_event typ op name)\<lparr>ev_attempt := attempt\<rparr>);
          s = observe p ((e ''provider_request_succeeded'')\<lparr>ev_duration := dur\<rparr>) s;
          s = (if 1 < attempt
               then observe p ((e ''provider_fallback_succeeded'')\<lparr>ev_duration := dur\<rparr>) s else s)
      in if recovered then observe p (e ''provider_recovered'') s else s)"

definition fail_backend ::
    "('m, 'h) router \<Rightarrow> string \<Rightarrow> string \<Rightarrow> string \<Rightarrow> int \<Rightarrow> duration \<Rightarrow> err \<Rightarrow> 'm rstate_scheme \<Rightarrow> 'm rstate_scheme" where
  "fail_backend p typ op name attempt dur e s =
     (let ((failures, unhealthyUntil), s) = markFailure p name s in
      observe p \<lparr>ev_type = typ, ev_operation = op, ev_backend = name, ev_attempt = attempt,
                ev_duration = dur, ev_failures = failures, ev_unhealthy_until = unhealthyUntil,
                ev_error = err_text e\<rparr> s)"

text \<open>
  The loop over the candidates. \<open>lastErr\<close> starts as \<open>nil\<close>, which \<open>no_error\<close> stands for; there is at
  least one candidate, so it is never returned.
\<close>

definition no_error :: err where
  "no_error = NewErr []"

fun create_loop ::
    "('m, 'h) router \<Rightarrow> ('m rstate_scheme, 'h) attempt_ctx \<Rightarrow> chat_completion_request \<Rightarrow>
     ('m, 'h) backend list \<Rightarrow> int \<Rightarrow> err \<Rightarrow> 'm rstate_scheme \<Rightarrow>
     chat_completion_response res \<times> 'm rstate_scheme" where
  "create_loop p ctx req [] attempt lastErr s = (Inl lastErr, s)"
| "create_loop p ctx req (b # bs) attempt lastErr s =
     (let startedAt = rs_clock s;
          (r, s) = CreateChatCompletion (be_provider b) (WithAttemptBackend (be_name b) ctx) req s;
          dur = time_sub (rs_clock s) startedAt
      in case r of
           Inr resp \<Rightarrow>
             (let (recovered, s) = markSuccess (be_name b) s
              in (Inr resp, observe_success p ''create'' (be_name b) attempt dur recovered s))
         | Inl e \<Rightarrow>
             (if IsAttemptAccountingError e then (Inl e, s)
              else create_loop p ctx req bs (attempt + 1) e
                     (fail_backend p ''provider_request_failed'' ''create'' (be_name b) attempt dur e s)))"

definition router_CreateChatCompletion ::
    "('m, 'h) router \<Rightarrow> ('m rstate_scheme, 'h) attempt_ctx \<Rightarrow> chat_completion_request \<Rightarrow>
     'm rstate_scheme \<Rightarrow> chat_completion_response res \<times> 'm rstate_scheme" where
  "router_CreateChatCompletion p ctx req s =
     (let (candidates, skipped) = candidates_of p (req_model req) s in
      if candidates = [] then (Inl (noCandidatesError (length (ro_backends p))), s)
      else create_loop p ctx req candidates 1 no_error (observeSkipped p ''create'' skipped s))"

section \<open>Streams\<close>

definition first_closed :: err where
  "first_closed = NewErr ''upstream stream closed before first chunk''"

text \<open>
  Waiting for the first event, with a timer when \<open>timed\<close>. Without one the timer never fires. The
  rest of the selections is what the forwarder will see; \<open>err option\<close> is the fate of the first
  event when it is forwarded.
\<close>

definition pass_time :: "duration \<Rightarrow> 'm rstate_scheme \<Rightarrow> 'm rstate_scheme" where
  "pass_time d s = s\<lparr>rs_clock := rs_clock s + d\<rparr>"

fun await_first ::
    "bool \<Rightarrow> selection list \<Rightarrow> 'm rstate_scheme \<Rightarrow>
     (stream_event \<times> err option \<times> selection list) res \<times> 'm rstate_scheme" where
  "await_first timed [] s = (Inl first_closed, s)"
| "await_first timed (SWait d # sels) s = await_first timed sels (pass_time d s)"
| "await_first timed (SDone e # sels) s = (Inl e, s)"
| "await_first timed (STimer # sels) s =
     (if timed then (Inl CtxDeadlineExceeded, s) else await_first timed sels s)"
| "await_first timed (SEvent (ErrEvent e) fate # sels) s = (Inl e, s)"
| "await_first timed (SEvent (ChunkEvent c) fate # sels) s = (Inr (ChunkEvent c, fate, sels), s)"

definition awaitStreamEvent ::
    "selection list \<Rightarrow> 'm rstate_scheme \<Rightarrow>
     (stream_event \<times> err option \<times> selection list) res \<times> 'm rstate_scheme" where
  "awaitStreamEvent sels s = await_first False sels s"

definition awaitFirstStreamEvent ::
    "duration \<Rightarrow> selection list \<Rightarrow> 'm rstate_scheme \<Rightarrow>
     (stream_event \<times> err option \<times> selection list) res \<times> 'm rstate_scheme" where
  "awaitFirstStreamEvent timeout sels s =
     (if timeout \<le> 0 then awaitStreamEvent sels s else await_first True sels s)"

record stream_execution =
  ex_first :: stream_event
  ex_fate :: "err option"
  ex_events :: "selection list"
  ex_backend :: string
  ex_attempt :: int

text \<open>The backends are tried as for a completion; a stream that gave its first event is committed to.\<close>

fun stream_loop ::
    "('m, 'h) router \<Rightarrow> ('m rstate_scheme, 'h) attempt_ctx \<Rightarrow> chat_completion_request \<Rightarrow>
     ('m, 'h) backend list \<Rightarrow> int \<Rightarrow> err \<Rightarrow> 'm rstate_scheme \<Rightarrow>
     stream_execution res \<times> 'm rstate_scheme" where
  "stream_loop p ctx req [] attempt lastErr s = (Inl lastErr, s)"
| "stream_loop p ctx req (b # bs) attempt lastErr s =
     (let startedAt = rs_clock s;
          (r, s) = StreamChatCompletion (be_provider b) (WithAttemptBackend (be_name b) ctx) req s
      in case r of
           Inl e \<Rightarrow>
             (if IsAttemptAccountingError e then (Inl e, s)
              else stream_loop p ctx req bs (attempt + 1) e
                     (fail_backend p ''provider_request_failed'' ''stream'' (be_name b) attempt
                        (time_sub (rs_clock s) startedAt) e s))
         | Inr sels \<Rightarrow>
             (case awaitFirstStreamEvent (be_first_event_timeout b) sels s of
                (Inl e, s) \<Rightarrow>
                  stream_loop p ctx req bs (attempt + 1) e
                    (fail_backend p ''provider_request_failed'' ''stream'' (be_name b) attempt
                       (time_sub (rs_clock s) startedAt) e s)
              | (Inr (first, fate, rest), s) \<Rightarrow>
                  (let dur = time_sub (rs_clock s) startedAt;
                       (recovered, s) = markSuccess (be_name b) s
                   in (Inr \<lparr>ex_first = first, ex_fate = fate, ex_events = rest,
                            ex_backend = be_name b, ex_attempt = attempt\<rparr>,
                       observe_success p ''stream'' (be_name b) attempt dur recovered s))))"

definition router_StreamChatCompletion ::
    "('m, 'h) router \<Rightarrow> ('m rstate_scheme, 'h) attempt_ctx \<Rightarrow> chat_completion_request \<Rightarrow>
     'm rstate_scheme \<Rightarrow> stream_execution res \<times> 'm rstate_scheme" where
  "router_StreamChatCompletion p ctx req s =
     (let (candidates, skipped) = candidates_of p (req_model req) s in
      if candidates = [] then (Inl (noCandidatesError (length (ro_backends p))), s)
      else stream_loop p ctx req candidates 1 no_error (observeSkipped p ''stream'' skipped s))"

text \<open>
  Forwarding one event: what is delivered, whether the forwarder goes on, and the error it reports
  to its span. An error event is counted against the backend before it is offered.
\<close>

record forwarder =
  fw_backend :: string
  fw_attempt :: int
  fw_started_at :: time
  fw_chunk_count :: int
  fw_trace_err :: "err option"
  fw_out :: "stream_event list"

definition forwardStreamEvent ::
    "('m, 'h) router \<Rightarrow> stream_event \<Rightarrow> err option \<Rightarrow> forwarder \<Rightarrow> 'm rstate_scheme \<Rightarrow>
     bool \<times> forwarder \<times> 'm rstate_scheme" where
  "forwardStreamEvent p event fate f s =
     (case event of
        ErrEvent e \<Rightarrow>
          (let f = f\<lparr>fw_trace_err := Some e\<rparr>;
               s = fail_backend p ''provider_stream_interrupted'' ''stream'' (fw_backend f) (fw_attempt f)
                     (time_sub (rs_clock s) (fw_started_at f)) e s
           in (False, (if fate = None then f\<lparr>fw_out := fw_out f @ [event]\<rparr> else f), s))
      | ChunkEvent c \<Rightarrow>
          (case fate of
             Some e \<Rightarrow> (False, f\<lparr>fw_trace_err := Some e\<rparr>, s)
           | None \<Rightarrow> (True, f\<lparr>fw_chunk_count := fw_chunk_count f + 1, fw_out := fw_out f @ [event]\<rparr>, s)))"

fun forward_loop ::
    "('m, 'h) router \<Rightarrow> selection list \<Rightarrow> forwarder \<Rightarrow> 'm rstate_scheme \<Rightarrow> forwarder \<times> 'm rstate_scheme" where
  "forward_loop p [] f s = (f, s)"
| "forward_loop p (SWait d # sels) f s = forward_loop p sels f (pass_time d s)"
| "forward_loop p (SDone e # sels) f s = (f\<lparr>fw_trace_err := Some e\<rparr>, s)"
| "forward_loop p (STimer # sels) f s = forward_loop p sels f s"
| "forward_loop p (SEvent event fate # sels) f s =
     (let (go_on, f, s) = forwardStreamEvent p event fate f s in
      if go_on then forward_loop p sels f s else (f, s))"

definition wrapStream ::
    "('m, 'h) router \<Rightarrow> stream_execution \<Rightarrow> 'm rstate_scheme \<Rightarrow> stream_event list \<times> 'm rstate_scheme" where
  "wrapStream p ex s =
     (let f = \<lparr>fw_backend = ex_backend ex, fw_attempt = ex_attempt ex, fw_started_at = rs_clock s,
               fw_chunk_count = 0, fw_trace_err = None, fw_out = []\<rparr>;
          (go_on, f, s) = forwardStreamEvent p (ex_first ex) (ex_fate ex) f s;
          (f, s) = (if go_on then forward_loop p (ex_events ex) f s else (f, s))
      in (fw_out f, s))"

section \<open>Probing\<close>

definition probe_backend :: "('m, 'h) router \<Rightarrow> ('m, 'h) backend \<Rightarrow> 'm rstate_scheme \<Rightarrow> 'm rstate_scheme" where
  "probe_backend p b s =
     (case be_list_models b of
        None \<Rightarrow> observe p (plain_event ''provider_probe_skipped'' ''probe'' (be_name b)) s
      | Some listModels \<Rightarrow>
          (let probedAt = rs_clock s;
               (r, s) = listModels s;
               dur = time_sub (rs_clock s) probedAt
           in case r of
                Inl e \<Rightarrow>
                  (let ((failures, unhealthyUntil), s) =
                         markProbeFailure p (be_name b) (err_text e) probedAt s
                   in observe p ((plain_event ''provider_probe_failed'' ''probe'' (be_name b))
                        \<lparr>ev_duration := dur, ev_failures := failures,
                         ev_unhealthy_until := unhealthyUntil, ev_error := err_text e\<rparr>) s)
              | Inr _ \<Rightarrow>
                  (let (recovered, s) = markProbeSuccess (be_name b) probedAt s;
                       s = observe p ((plain_event ''provider_probe_succeeded'' ''probe'' (be_name b))
                             \<lparr>ev_duration := dur\<rparr>) s
                   in if recovered
                      then observe p (plain_event ''provider_recovered'' ''probe'' (be_name b)) s
                      else s)))"

definition Probe :: "('m, 'h) router \<Rightarrow> 'm rstate_scheme \<Rightarrow> 'm rstate_scheme" where
  "Probe p s = fold (probe_backend p) (ro_backends p) s"

end
