(* ===== verification/Limiters.thy ===== *)
theory Limiters
  imports GovernanceStore RedisClient Calendar Router
begin

text \<open>
  The two rate limiters: \<open>internal/service/governance/mysql_limiter.go\<close>, which counts rows of the
  usage table, and \<open>redis_limiter.go\<close>, which counts in keys of one minute. The interface of a
  limiter is the locale \<open>rate_limiter\<close>; both limiters are interpretations of it, over the
  database and the Redis server that the gateway's world consists of.
\<close>

section \<open>The world of the gateway\<close>

text \<open>
  The database and the Redis server, and what the process itself keeps: the router's backends, events and
  clock, and the counter of requests. What the
  upstreams and the network between do is a function of how far they have come and of the time.
\<close>

record gw =
  gw_db :: db
  gw_redis :: redis
  gw_router :: rstate
  gw_requests :: int
  gw_network :: nat

definition idle_router :: rstate where
  "idle_router = \<lparr>rs_states = (\<lambda>_. zero_state), rs_log = [], rs_clock = 0\<rparr>"

definition on_db :: "(db \<Rightarrow> 'a \<times> db) \<Rightarrow> gw \<Rightarrow> 'a \<times> gw" where
  "on_db m w = (let (x, d) = m (gw_db w) in (x, w\<lparr>gw_db := d\<rparr>))"

definition on_redis :: "(redis \<Rightarrow> 'a \<times> redis) \<Rightarrow> gw \<Rightarrow> 'a \<times> gw" where
  "on_redis m w = (let (x, r) = m (gw_redis w) in (x, w\<lparr>gw_redis := r\<rparr>))"

lemma on_dbE:
  assumes "on_db m w = (x, w')"
  obtains d where "m (gw_db w) = (x, d)" and "w' = w\<lparr>gw_db := d\<rparr>"
  using assms by (auto simp: on_db_def split: prod.splits)

lemma on_redisE:
  assumes "on_redis m w = (x, w')"
  obtains r where "m (gw_redis w) = (x, r)" and "w' = w\<lparr>gw_redis := r\<rparr>"
  using assms by (auto simp: on_redis_def split: prod.splits)

section \<open>The limiter over MySQL\<close>

text \<open>The interface \<open>mysqlLimiterStore\<close>.\<close>

record 'w mysql_limiter_store =
  ls_CountRequestsSince :: "nat \<Rightarrow> time \<Rightarrow> 'w \<Rightarrow> int res \<times> 'w"
  ls_SumTotalTokensSince :: "nat \<Rightarrow> time \<Rightarrow> 'w \<Rightarrow> int res \<times> 'w"

definition admit_requests ::
    "'w mysql_limiter_store \<Rightarrow> principal \<Rightarrow> time \<Rightarrow> 'w \<Rightarrow> unit res \<times> 'w" where
  "admit_requests store p now w =
     (let t = principal_tenant p in
      if 0 < rpm_limit t
      then bindS (ls_CountRequestsSince store (tenant_id t) (now - minute)) (\<lambda>count w.
        if rpm_limit t \<le> count then (Inl ErrRateLimitExceeded, w) else (Inr (), w)) w
      else (Inr (), w))"

definition admit_tokens ::
    "'w mysql_limiter_store \<Rightarrow> principal \<Rightarrow> int \<Rightarrow> time \<Rightarrow> 'w \<Rightarrow> unit res \<times> 'w" where
  "admit_tokens store p promptTokens now w =
     (let t = principal_tenant p in
      if 0 < tpm_limit t
      then bindS (ls_SumTotalTokensSince store (tenant_id t) (now - minute)) (\<lambda>tokensUsedThisMinute w.
        if tpm_limit t < go_add tokensUsedThisMinute promptTokens
        then (Inl ErrTokenLimitExceeded, w) else (Inr (), w)) w
      else (Inr (), w))"

definition mysql_Admit ::
    "'w mysql_limiter_store \<Rightarrow> principal \<Rightarrow> int \<Rightarrow> time \<Rightarrow> 'w \<Rightarrow> unit res \<times> 'w" where
  "mysql_Admit store p promptTokens now =
     bindS (admit_requests store p now) (\<lambda>_. admit_tokens store p promptTokens now)"

definition mysql_RecordCompletionTokens :: "principal \<Rightarrow> int \<Rightarrow> time \<Rightarrow> 'w \<Rightarrow> unit res \<times> 'w" where
  "mysql_RecordCompletionTokens p n now w = (Inr (), w)"

definition NewMySQLLimiter :: "'w mysql_limiter_store \<Rightarrow> 'w limiter" where
  "NewMySQLLimiter store =
     \<lparr>lim_is_mysql = True, lim_Admit = mysql_Admit store,
      lim_RecordCompletionTokens = mysql_RecordCompletionTokens\<rparr>"

section \<open>The limiter over Redis\<close>

definition minuteCounterKey :: "string \<Rightarrow> nat \<Rightarrow> time \<Rightarrow> string" where
  "minuteCounterKey kind tid now =
     ''lag:'' @ kind @ '':'' @ itoa (int tid) @ '':'' @ format_minute now"

text \<open>The interface \<open>redisCounterClient\<close>.\<close>

record 'w redis_counter_client =
  rc_EvalIntArray :: "string \<Rightarrow> string list \<Rightarrow> string list \<Rightarrow> 'w \<Rightarrow> int list res \<times> 'w"
  rc_IncrBy :: "string \<Rightarrow> int \<Rightarrow> duration \<Rightarrow> 'w \<Rightarrow> int res \<times> 'w"

record 'w redis_limiter =
  rl_client :: "'w redis_counter_client"
  rl_fallback :: "'w limiter option"
  rl_ttl :: duration

definition admit_keys :: "principal \<Rightarrow> time \<Rightarrow> string list" where
  "admit_keys p now =
     [minuteCounterKey ''rpm'' (tenant_id (principal_tenant p)) now,
      minuteCounterKey ''tpm'' (tenant_id (principal_tenant p)) now]"

definition admit_args :: "duration \<Rightarrow> principal \<Rightarrow> int \<Rightarrow> string list" where
  "admit_args ttl p promptTokens =
     [itoa (trunc_div ttl second), itoa (rpm_limit (principal_tenant p)), itoa promptTokens,
      itoa (tpm_limit (principal_tenant p))]"

definition admit_error :: "err \<Rightarrow> err" where
  "admit_error e =
     (if contains (err_text e) ''RPM_EXCEEDED'' then ErrRateLimitExceeded
      else if contains (err_text e) ''TPM_EXCEEDED'' then ErrTokenLimitExceeded
      else ErrLimiterUnavailable)"

definition redis_Admit ::
    "'w redis_limiter \<Rightarrow> principal \<Rightarrow> int \<Rightarrow> time \<Rightarrow> 'w \<Rightarrow> unit res \<times> 'w" where
  "redis_Admit l p promptTokens now w =
     (if rpm_limit (principal_tenant p) \<le> 0 \<and> tpm_limit (principal_tenant p) \<le> 0
      then (Inr (), w)
      else case rc_EvalIntArray (rl_client l) admitScript (admit_keys p now)
                  (admit_args (rl_ttl l) p promptTokens) w of
        (Inl e, w) \<Rightarrow> (Inl (admit_error e), w)
      | (Inr _, w) \<Rightarrow> (Inr (), w))"

definition redis_RecordCompletionTokens ::
    "'w redis_limiter \<Rightarrow> principal \<Rightarrow> int \<Rightarrow> time \<Rightarrow> 'w \<Rightarrow> unit res \<times> 'w" where
  "redis_RecordCompletionTokens l p completionTokens now w =
     (if completionTokens \<le> 0 \<or> tpm_limit (principal_tenant p) \<le> 0 then (Inr (), w)
      else case rc_IncrBy (rl_client l)
                  (minuteCounterKey ''tpm'' (tenant_id (principal_tenant p)) now)
                  completionTokens (rl_ttl l) w of
        (Inl e, w) \<Rightarrow>
          (case rl_fallback l of
             Some fb \<Rightarrow> lim_RecordCompletionTokens fb p completionTokens now w
           | None \<Rightarrow> (Inl e, w))
      | (Inr _, w) \<Rightarrow> (Inr (), w))"

definition redis_limiter_of ::
    "'w redis_counter_client \<Rightarrow> 'w limiter option \<Rightarrow> 'w redis_limiter" where
  "redis_limiter_of client fallback =
     \<lparr>rl_client = client, rl_fallback = fallback, rl_ttl = 2 * minute\<rparr>"

definition NewRedisLimiter ::
    "'w redis_counter_client \<Rightarrow> 'w limiter option \<Rightarrow> 'w limiter" where
  "NewRedisLimiter client fallback =
     \<lparr>lim_is_mysql = False, lim_Admit = redis_Admit (redis_limiter_of client fallback),
      lim_RecordCompletionTokens = redis_RecordCompletionTokens (redis_limiter_of client fallback)\<rparr>"

section \<open>The interface\<close>

text \<open>
  What the governance service relies on: an admitted request was below the tenant's limits in the
  limiter's own window, and deciding it used up none of the tenant's budget. \<open>reqs\<close> and \<open>toks\<close>
  are the requests and tokens the limiter counts for a tenant at a time, \<open>used\<close> the tokens charged
  against the budget.
\<close>

locale rate_limiter =
  fixes lim :: "'w limiter"
    and reqs :: "nat \<Rightarrow> time \<Rightarrow> 'w \<Rightarrow> int"
    and toks :: "nat \<Rightarrow> time \<Rightarrow> 'w \<Rightarrow> int"
    and used :: "nat \<Rightarrow> 'w \<Rightarrow> int"
    and sound :: "principal \<Rightarrow> int \<Rightarrow> time \<Rightarrow> 'w \<Rightarrow> bool"
  assumes admit_rate: "\<And>p n now w u w'. lim_Admit lim p n now w = (Inr u, w') \<Longrightarrow>
      sound p n now w \<Longrightarrow> 0 < rpm_limit (principal_tenant p) \<Longrightarrow>
      reqs (tenant_id (principal_tenant p)) now w < rpm_limit (principal_tenant p)"
    and admit_tpm: "\<And>p n now w u w'. lim_Admit lim p n now w = (Inr u, w') \<Longrightarrow>
      sound p n now w \<Longrightarrow> 0 < tpm_limit (principal_tenant p) \<Longrightarrow>
      toks (tenant_id (principal_tenant p)) now w + n \<le> tpm_limit (principal_tenant p)"
    and admit_used: "\<And>p n now w x w' tid. lim_Admit lim p n now w = (x, w') \<Longrightarrow>
      used tid w' = used tid w"
begin

text \<open>A tenant with both limits is below both.\<close>

lemma admitted_within:
  assumes "lim_Admit lim p n now w = (Inr u, w')" and "sound p n now w"
  defines "t \<equiv> principal_tenant p"
  shows "(rpm_limit t \<le> 0 \<or> reqs (tenant_id t) now w < rpm_limit t) \<and>
         (tpm_limit t \<le> 0 \<or> toks (tenant_id t) now w + n \<le> tpm_limit t)"
  using admit_rate [OF assms(1,2)] admit_tpm [OF assms(1,2)] unfolding t_def
  by (meson not_less)

end

section \<open>The MySQL limiter on the gateway's database\<close>

definition mysql_limiter_db :: "gw mysql_limiter_store" where
  "mysql_limiter_db =
     \<lparr>ls_CountRequestsSince = (\<lambda>tid since. on_db (CountRequestsSince tid since)),
      ls_SumTotalTokensSince = (\<lambda>tid since. on_db (SumTotalTokensSince tid since))\<rparr>"

definition mysql_limiter :: "gw limiter" where
  "mysql_limiter = NewMySQLLimiter mysql_limiter_db"

definition same_gw_db :: "gw \<Rightarrow> gw \<Rightarrow> bool" where
  "same_gw_db w w' \<longleftrightarrow> same_data (gw_db w) (gw_db w')"

lemma on_db_read_only: "on_db m w = (x, w') \<Longrightarrow> read_only m \<Longrightarrow> same_gw_db w w'"
  by (auto simp: same_gw_db_def elim!: on_dbE dest: read_onlyD)

lemma same_gw_db_refl [simp]: "same_gw_db w w"
  by (simp add: same_gw_db_def)

lemma same_gw_db_trans [trans]: "same_gw_db a b \<Longrightarrow> same_gw_db b c \<Longrightarrow> same_gw_db a c"
  unfolding same_gw_db_def by (rule same_data_trans)

lemma admit_requests_db:
  assumes "admit_requests mysql_limiter_db p now w = (x, w')"
  shows "same_gw_db w w'"
    and "x = Inr u \<Longrightarrow> 0 < rpm_limit (principal_tenant p) \<Longrightarrow>
      requests_since (tenant_id (principal_tenant p)) (now - minute) (gw_db w)
        < rpm_limit (principal_tenant p)"
  using assms
  by (auto simp: admit_requests_def mysql_limiter_db_def bindS_def Let_def CountRequestsSince_def
      same_gw_db_def split: if_splits prod.splits sum.splits
      elim!: on_dbE dest: db_query_same db_query_Inr)

lemma admit_tokens_db:
  assumes "admit_tokens mysql_limiter_db p n now w = (x, w')"
  shows "same_gw_db w w'"
    and "x = Inr u \<Longrightarrow> 0 < tpm_limit (principal_tenant p) \<Longrightarrow>
      go_add (tokens_since (tenant_id (principal_tenant p)) (now - minute) (gw_db w)) n
        \<le> tpm_limit (principal_tenant p)"
  using assms
  by (auto simp: admit_tokens_def mysql_limiter_db_def bindS_def Let_def SumTotalTokensSince_def
      same_gw_db_def split: if_splits prod.splits sum.splits
      elim!: on_dbE dest: db_query_same db_query_Inr)

lemma mysql_Admit_same: "mysql_Admit mysql_limiter_db p n now w = (x, w') \<Longrightarrow> same_gw_db w w'"
  unfolding mysql_Admit_def bindS_def
  by (auto split: prod.splits sum.splits
      dest!: admit_requests_db(1) admit_tokens_db(1) intro: same_gw_db_trans)

lemma mysql_Admit_Inr:
  assumes "mysql_Admit mysql_limiter_db p n now w = (Inr u, w')"
  shows "0 < rpm_limit (principal_tenant p) \<Longrightarrow>
      requests_since (tenant_id (principal_tenant p)) (now - minute) (gw_db w)
        < rpm_limit (principal_tenant p)"
    and "0 < tpm_limit (principal_tenant p) \<Longrightarrow>
      go_add (tokens_since (tenant_id (principal_tenant p)) (now - minute) (gw_db w)) n
        \<le> tpm_limit (principal_tenant p)"
proof -
  obtain v w1 where req: "admit_requests mysql_limiter_db p now w = (Inr v, w1)"
    and tok: "admit_tokens mysql_limiter_db p n now w1 = (Inr u, w')"
    using assms unfolding mysql_Admit_def by (rule bindS_InrE)
  show "0 < rpm_limit (principal_tenant p) \<Longrightarrow>
      requests_since (tenant_id (principal_tenant p)) (now - minute) (gw_db w)
        < rpm_limit (principal_tenant p)"
    using admit_requests_db(2) [OF req refl] .
  have "same_data (gw_db w) (gw_db w1)"
    using admit_requests_db(1) [OF req] by (simp add: same_gw_db_def)
  then show "0 < tpm_limit (principal_tenant p) \<Longrightarrow>
      go_add (tokens_since (tenant_id (principal_tenant p)) (now - minute) (gw_db w)) n
        \<le> tpm_limit (principal_tenant p)"
    using admit_tokens_db(2) [OF tok refl] by (simp add: same_data_aggregates)
qed

definition db_requests :: "nat \<Rightarrow> time \<Rightarrow> gw \<Rightarrow> int" where
  "db_requests tid now w = requests_since tid (now - minute) (gw_db w)"

definition db_tokens :: "nat \<Rightarrow> time \<Rightarrow> gw \<Rightarrow> int" where
  "db_tokens tid now w = tokens_since tid (now - minute) (gw_db w)"

definition budget_used :: "nat \<Rightarrow> gw \<Rightarrow> int" where
  "budget_used tid w = attempt_tokens_used tid (gw_db w)"

definition db_sum_fits :: "principal \<Rightarrow> int \<Rightarrow> time \<Rightarrow> gw \<Rightarrow> bool" where
  "db_sum_fits p n now w \<longleftrightarrow>
     in_int64 (tokens_since (tenant_id (principal_tenant p)) (now - minute) (gw_db w) + n)"

lemma budget_used_same: "same_gw_db w w' \<Longrightarrow> budget_used tid w' = budget_used tid w"
  by (simp add: budget_used_def same_gw_db_def same_data_aggregates)

interpretation mysql_rate: rate_limiter mysql_limiter db_requests db_tokens budget_used db_sum_fits
proof
  fix p n now w u w'
  assume adm: "lim_Admit mysql_limiter p n now w = (Inr u, w')" and ok: "db_sum_fits p n now w"
  then have m: "mysql_Admit mysql_limiter_db p n now w = (Inr u, w')"
    by (simp add: mysql_limiter_def NewMySQLLimiter_def)
  show "db_requests (tenant_id (principal_tenant p)) now w < rpm_limit (principal_tenant p)"
    if "0 < rpm_limit (principal_tenant p)"
    using mysql_Admit_Inr(1) [OF m that] by (simp add: db_requests_def)
  show "db_tokens (tenant_id (principal_tenant p)) now w + n \<le> tpm_limit (principal_tenant p)"
    if "0 < tpm_limit (principal_tenant p)"
    using mysql_Admit_Inr(2) [OF m that] ok by (simp add: db_tokens_def db_sum_fits_def)
next
  fix p n now w x w' tid
  assume "lim_Admit mysql_limiter p n now w = (x, w')"
  then have "mysql_Admit mysql_limiter_db p n now w = (x, w')"
    by (simp add: mysql_limiter_def NewMySQLLimiter_def)
  then show "budget_used tid w' = budget_used tid w"
    by (intro budget_used_same mysql_Admit_same)
qed

end
