(* ===== verification/RedisLimits.thy ===== *)
theory RedisLimits
  imports Limiters
begin

text \<open>
  The Redis limiter run against the server: the counter keys are distinct for distinct tenants,
  kinds and minutes; an admission counts one request and its tokens or nothing, also when the
  connection fails half way; the counters never pass the tenant's limits.
\<close>

section \<open>The limiter on the gateway's Redis\<close>

definition redis_client_gw :: "redis_client \<Rightarrow> gw redis_counter_client" where
  "redis_client_gw c =
     \<lparr>rc_EvalIntArray = (\<lambda>script keys args. on_redis (EvalIntArray c redis_network script keys args)),
      rc_IncrBy = (\<lambda>key delta ttl. on_redis (IncrBy c redis_network key delta ttl))\<rparr>"

definition redis_gateway_limiter :: "redis_client \<Rightarrow> gw limiter" where
  "redis_gateway_limiter c = NewRedisLimiter (redis_client_gw c) (Some mysql_limiter)"

definition rpm_key :: "nat \<Rightarrow> time \<Rightarrow> string" where
  "rpm_key tid now = minuteCounterKey ''rpm'' tid now"

definition tpm_key :: "nat \<Rightarrow> time \<Rightarrow> string" where
  "tpm_key tid now = minuteCounterKey ''tpm'' tid now"

definition admit_command :: "principal \<Rightarrow> int \<Rightarrow> time \<Rightarrow> string list" where
  "admit_command p n now =
     [''EVAL'', admitScript, itoa 2] @ admit_keys p now @ admit_args (2 * minute) p n"

section \<open>Keys\<close>

lemma split_at_colon:
  "a @ CHR '':'' # b = c @ CHR '':'' # d \<Longrightarrow> CHR '':'' \<notin> set a \<Longrightarrow> CHR '':'' \<notin> set c \<Longrightarrow>
   a = c \<and> b = d"
proof (induction a arbitrary: c)
  case Nil
  then show ?case by (cases c) auto
next
  case (Cons x a)
  then show ?case by (cases c) auto
qed

lemma itoa_no_colon: "CHR '':'' \<notin> set (itoa i)"
  using in_itoa [of "CHR '':''" i] by (auto simp: is_digit_def)

lemma minuteCounterKey_eq_iff:
  assumes "CHR '':'' \<notin> set kind" and "CHR '':'' \<notin> set kind'"
  shows "minuteCounterKey kind tid now = minuteCounterKey kind' tid' now' \<longleftrightarrow>
    kind = kind' \<and> tid = tid' \<and> format_minute now = format_minute now'"
proof
  assume "minuteCounterKey kind tid now = minuteCounterKey kind' tid' now'"
  then have "kind @ CHR '':'' # (itoa (int tid) @ CHR '':'' # format_minute now) =
      kind' @ CHR '':'' # (itoa (int tid') @ CHR '':'' # format_minute now')"
    by (simp add: minuteCounterKey_def)
  then have k: "kind = kind'" and
    "itoa (int tid) @ CHR '':'' # format_minute now = itoa (int tid') @ CHR '':'' # format_minute now'"
    using split_at_colon assms by blast+
  then have "itoa (int tid) = itoa (int tid')" and "format_minute now = format_minute now'"
    using split_at_colon itoa_no_colon by blast+
  with k show "kind = kind' \<and> tid = tid' \<and> format_minute now = format_minute now'"
    using itoa_inj by fastforce
qed (simp add: minuteCounterKey_def)

lemma rpm_tpm_keys [simp]:
  "rpm_key tid now \<noteq> tpm_key tid' now'" "tpm_key tid now \<noteq> rpm_key tid' now'"
  by (simp_all add: rpm_key_def tpm_key_def minuteCounterKey_eq_iff)

section \<open>One evaluation of the script\<close>

lemma counter_set_counter:
  assumes "\<And>t. ex = Some t \<Longrightarrow> r_now r < t"
  shows "counter (set_counter k v ex r) k' = (if k' = k then v else counter r k')"
proof -
  have fresh: "\<not> (case ex of None \<Rightarrow> False | Some t \<Rightarrow> t \<le> r_now r)"
    using assms by (cases ex) auto
  have fields: "r_counters (set_counter k v ex r) = (r_counters r)(k \<mapsto> (v, ex))"
    "r_now (set_counter k v ex r) = r_now r"
    by (simp_all add: set_counter_def)
  have "live (set_counter k v ex r) k' = (if k' = k then Some (v, ex) else live r k')"
    unfolding live_def fields using fresh by simp
  then show ?thesis by (simp add: counter_def)
qed

text \<open>
  \<open>admission_counted\<close>: one request and its tokens are counted for the tenant's minute and no other
  counter moves.
\<close>

definition below_limits :: "principal \<Rightarrow> int \<Rightarrow> time \<Rightarrow> redis \<Rightarrow> bool" where
  "below_limits p n now r \<longleftrightarrow>
     (let t = principal_tenant p in
      (rpm_limit t \<le> 0 \<or> counter r (rpm_key (tenant_id t) now) < rpm_limit t) \<and>
      (tpm_limit t \<le> 0 \<or> counter r (tpm_key (tenant_id t) now) + n \<le> tpm_limit t))"

definition admission_counted :: "principal \<Rightarrow> int \<Rightarrow> time \<Rightarrow> redis \<Rightarrow> redis \<Rightarrow> bool" where
  "admission_counted p n now r r' \<longleftrightarrow>
     (\<forall>k. counter r' k = counter r k
        + (if k = rpm_key (tenant_id (principal_tenant p)) now then 1 else 0)
        + (if k = tpm_key (tenant_id (principal_tenant p)) now then n else 0))"

lemma eval_admit_run:
  fixes p :: principal
  defines "t \<equiv> principal_tenant p"
  shows "eval_admit (admit_keys p now) (admit_args (2 * minute) p n) r =
    (let rk = rpm_key (tenant_id t) now; tk = tpm_key (tenant_id t) now in
     if rpm_limit t > 0 \<and> counter r rk + 1 > rpm_limit t then (Failure ''RPM_EXCEEDED'', r)
     else if tpm_limit t > 0 \<and> counter r tk + n > tpm_limit t then (Failure ''TPM_EXCEEDED'', r)
     else (Numbers [counter r rk + 1, counter r tk + n],
           set_counter tk (counter r tk + n) (Some (r_now r + 120 * second))
             (set_counter rk (counter r rk + 1) (Some (r_now r + 120 * second)) r)))"
proof -
  have "trunc_div (2 * minute) second = 120"
    by (simp add: trunc_div_def minute_def second_def)
  then show ?thesis
    by (simp add: eval_admit_def admit_keys_def admit_args_def rpm_key_def tpm_key_def t_def Let_def)
qed

lemma redis_exec_eval_admit:
  "redis_exec (admit_command p n now) r =
     eval_admit (admit_keys p now) (admit_args (2 * minute) p n) r"
proof -
  have len: "length (admit_keys p now) = 2" by (simp add: admit_keys_def)
  show ?thesis by (simp add: redis_exec_def admit_command_def len)
qed

lemma second_pos: "0 < second"
  by (simp add: second_def)

lemma admit_accepted_iff:
  "below_limits p n now r \<longleftrightarrow>
     (\<exists>is. fst (redis_exec (admit_command p n now) r) = Numbers is)"
  by (auto simp: redis_exec_eval_admit eval_admit_run below_limits_def Let_def)

lemma admit_accepted_counts:
  assumes "below_limits p n now r"
  shows "admission_counted p n now r (snd (redis_exec (admit_command p n now) r))"
proof -
  let ?rk = "rpm_key (tenant_id (principal_tenant p)) now"
  let ?tk = "tpm_key (tenant_id (principal_tenant p)) now"
  let ?r1 = "set_counter ?rk (counter r ?rk + 1) (Some (r_now r + 120 * second)) r"
  have now: "r_now ?r1 = r_now r" by (simp add: set_counter_def)
  have "snd (redis_exec (admit_command p n now) r) =
      set_counter ?tk (counter r ?tk + n) (Some (r_now r + 120 * second)) ?r1"
    using assms by (auto simp: redis_exec_eval_admit eval_admit_run below_limits_def Let_def)
  moreover have "counter (set_counter ?tk (counter r ?tk + n) (Some (r_now r + 120 * second)) ?r1) k =
      (if k = ?tk then counter r ?tk + n else counter ?r1 k)" for k
    by (rule counter_set_counter) (use now second_pos in auto)
  moreover have "counter ?r1 k = (if k = ?rk then counter r ?rk + 1 else counter r k)" for k
    by (rule counter_set_counter) (use second_pos in auto)
  ultimately show ?thesis
    by (auto simp: admission_counted_def)
qed

lemma admit_rejected_same:
  assumes "\<not> below_limits p n now r"
  shows "snd (redis_exec (admit_command p n now) r) = r"
    and "fst (redis_exec (admit_command p n now) r) = Failure ''RPM_EXCEEDED'' \<or>
         fst (redis_exec (admit_command p n now) r) = Failure ''TPM_EXCEEDED''"
  using assms
  by (auto simp: redis_exec_eval_admit eval_admit_run below_limits_def Let_def split: if_splits)

section \<open>The limiter\<close>

text \<open>The sizes under which commands and replies travel and counters stay in 64 bits.\<close>

definition redis_fits :: "redis_client \<Rightarrow> principal \<Rightarrow> int \<Rightarrow> time \<Rightarrow> redis \<Rightarrow> bool" where
  "redis_fits c p n now r \<longleftrightarrow>
     client_fits c \<and> command_fits (admit_command p n now) \<and>
     in_int64 (counter r (rpm_key (tenant_id (principal_tenant p)) now) + 1) \<and>
     in_int64 (counter r (tpm_key (tenant_id (principal_tenant p)) now) + n)"

lemma admit_reply_fits:
  assumes "redis_fits c p n now r"
  shows "reply_fits (fst (redis_exec (admit_command p n now) r))"
  using assms
  by (auto simp: redis_exec_eval_admit eval_admit_run redis_fits_def Let_def max_alloc_def)

lemma int_items_ints [simp]: "int_items (map RInt is) = Inr is"
  by (induction "is") simp_all

text \<open>What \<open>EvalIntArray\<close> of the script gives, over every behaviour of the connection.\<close>

lemma eval_cases:
  assumes "EvalIntArray c redis_network admitScript (admit_keys p now) (admit_args (2 * minute) p n) r
      = (x, r')"
    and "redis_fits c p n now r"
  obtains (admitted) "is" where "x = Inr is" "below_limits p n now r" "admission_counted p n now r r'"
    | (rejected) "\<not> below_limits p n now r" "same_counters r r'"
        "x = Inl (NewErr ''RPM_EXCEEDED'') \<or> x = Inl (NewErr ''TPM_EXCEEDED'') \<or> x = Inl IoEOF"
    | (unknown) "x = Inl IoEOF" "below_limits p n now r" "admission_counted p n now r r'"
    | (refused) e where "x = Inl e" "same_counters r r'"
proof -
  let ?cmd = "admit_command p n now"
  have cmd: "[''EVAL'', admitScript, itoa (int (length (admit_keys p now)))] @ admit_keys p now @
      admit_args (2 * minute) p n = ?cmd"
    by (simp add: admit_command_def admit_keys_def)
  obtain v where v: "do_command c redis_network ?cmd r = (v, r')"
      and x: "x = (case v of Inl e \<Rightarrow> Inl e | Inr (RArr items) \<Rightarrow> int_items items
        | Inr value \<Rightarrow> Inl (NewErr (''unexpected eval response type '' @ resp_type value)))"
    using assms(1) unfolding EvalIntArray_def Let_def cmd bindS_def
    by (auto split: prod.splits sum.splits resp_value.splits)
  have counted: "admission_counted p n now r r'"
    if "executed ?cmd r r'" "below_limits p n now r"
    using admit_accepted_counts [OF that(2)] that(1)
    by (simp add: executed_def admission_counted_def same_counters_counter)
  have same: "same_counters r r'" if "executed ?cmd r r'" "\<not> below_limits p n now r"
    using that admit_rejected_same(1) [OF that(2)] by (simp add: executed_def)
  have fits: "client_fits c" "command_fits ?cmd" using assms(2) by (simp_all add: redis_fits_def)
  show thesis
    using v fits admit_reply_fits [OF assms(2)]
  proof (rule do_command_cases)
    assume ex: "executed ?cmd r r'" and a: "v = reply_value (fst (redis_exec ?cmd r))"
    show thesis
    proof (cases "below_limits p n now r")
      case True
      then obtain "is" where "fst (redis_exec ?cmd r) = Numbers is"
        using admit_accepted_iff by blast
      then have "x = Inr is" by (simp add: x a)
      then show thesis using True counted [OF ex True] by (rule admitted)
    next
      case False
      then show thesis
        using admit_rejected_same(2) [OF False] same [OF ex False]
        by (intro rejected) (auto simp: x a)
    qed
  next
    assume ex: "executed ?cmd r r'" and a: "v = Inl IoEOF"
    show thesis
    proof (cases "below_limits p n now r")
      case True
      then show thesis using counted [OF ex True] by (intro unknown) (simp_all add: x a)
    next
      case False
      then show thesis using same [OF ex False] by (intro rejected) (simp_all add: x a)
    qed
  next
    fix e assume "same_counters r r'" and "v = Inl e"
    then show thesis by (intro refused) (simp_all add: x)
  qed
qed

definition redis_admit_fits :: "redis_client \<Rightarrow> principal \<Rightarrow> int \<Rightarrow> time \<Rightarrow> gw \<Rightarrow> bool" where
  "redis_admit_fits c p n now w \<longleftrightarrow> redis_fits c p n now (gw_redis w)"

definition redis_requests :: "nat \<Rightarrow> time \<Rightarrow> gw \<Rightarrow> int" where
  "redis_requests tid now w = counter (gw_redis w) (rpm_key tid now)"

definition redis_tokens :: "nat \<Rightarrow> time \<Rightarrow> gw \<Rightarrow> int" where
  "redis_tokens tid now w = counter (gw_redis w) (tpm_key tid now)"

definition limited :: "principal \<Rightarrow> bool" where
  "limited p \<longleftrightarrow> 0 < rpm_limit (principal_tenant p) \<or> 0 < tpm_limit (principal_tenant p)"

lemma redis_Admit_eval:
  assumes "lim_Admit (redis_gateway_limiter c) p n now w = (x, w')" and "limited p"
  obtains y r' where
    "EvalIntArray c redis_network admitScript (admit_keys p now) (admit_args (2 * minute) p n)
       (gw_redis w) = (y, r')"
    and "x = (case y of Inl e \<Rightarrow> Inl (admit_error e) | Inr _ \<Rightarrow> Inr ())" and "w' = w\<lparr>gw_redis := r'\<rparr>"
proof -
  have "\<not> (rpm_limit (principal_tenant p) \<le> 0 \<and> tpm_limit (principal_tenant p) \<le> 0)"
    using assms(2) by (auto simp: limited_def)
  with assms(1) obtain y where
    "on_redis (EvalIntArray c redis_network admitScript (admit_keys p now)
       (admit_args (2 * minute) p n)) w = (y, w')"
    and "x = (case y of Inl e \<Rightarrow> Inl (admit_error e) | Inr _ \<Rightarrow> Inr ())"
    by (auto simp: redis_gateway_limiter_def NewRedisLimiter_def redis_limiter_of_def
        redis_Admit_def redis_client_gw_def split: prod.splits sum.splits)
  then show thesis using that by (auto elim!: on_redisE)
qed

lemma redis_Admit_unlimited:
  assumes "\<not> limited p"
  shows "lim_Admit (redis_gateway_limiter c) p n now w = (Inr (), w)"
proof -
  have "rpm_limit (principal_tenant p) \<le> 0 \<and> tpm_limit (principal_tenant p) \<le> 0"
    using assms by (simp add: limited_def)
  then show ?thesis
    by (simp add: redis_gateway_limiter_def NewRedisLimiter_def redis_limiter_of_def redis_Admit_def)
qed

interpretation redis_rate: rate_limiter "redis_gateway_limiter c" redis_requests redis_tokens
  budget_used "redis_admit_fits c" for c
proof
  fix p n now w u w'
  assume adm: "lim_Admit (redis_gateway_limiter c) p n now w = (Inr u, w')"
    and fits: "redis_admit_fits c p n now w"
  have within: "below_limits p n now (gw_redis w)" if lim: "limited p"
  proof -
    obtain y r' where
      y: "EvalIntArray c redis_network admitScript (admit_keys p now) (admit_args (2 * minute) p n)
        (gw_redis w) = (y, r')" and x: "Inr u = (case y of Inl e \<Rightarrow> Inl (admit_error e) | Inr _ \<Rightarrow> Inr ())"
      using adm lim by (rule redis_Admit_eval)
    show ?thesis
      using y fits unfolding redis_admit_fits_def
      by (rule eval_cases) (use x in auto)
  qed
  show "redis_requests (tenant_id (principal_tenant p)) now w < rpm_limit (principal_tenant p)"
    if "0 < rpm_limit (principal_tenant p)"
    using within that by (auto simp: redis_requests_def below_limits_def limited_def Let_def)
  show "redis_tokens (tenant_id (principal_tenant p)) now w + n \<le> tpm_limit (principal_tenant p)"
    if "0 < tpm_limit (principal_tenant p)"
    using within that by (auto simp: redis_tokens_def below_limits_def limited_def Let_def)
next
  fix p n now w x w' tid
  assume adm: "lim_Admit (redis_gateway_limiter c) p n now w = (x, w')"
  show "budget_used tid w' = budget_used tid w"
  proof (cases "limited p")
    case True
    with adm show ?thesis by (auto simp: budget_used_def elim: redis_Admit_eval)
  next
    case False
    with adm show ?thesis by (simp add: redis_Admit_unlimited)
  qed
qed

text \<open>
  Whatever happens to the connection, an admission leaves the tenant's counters of the minute
  within its limits, when they were.
\<close>

definition counters_within :: "tenant \<Rightarrow> time \<Rightarrow> gw \<Rightarrow> bool" where
  "counters_within t now w \<longleftrightarrow>
     (0 < rpm_limit t \<longrightarrow> redis_requests (tenant_id t) now w \<le> rpm_limit t) \<and>
     (0 < tpm_limit t \<longrightarrow> redis_tokens (tenant_id t) now w \<le> tpm_limit t)"

lemma redis_Admit_effect:
  assumes "lim_Admit (redis_gateway_limiter c) p n now w = (x, w')"
    and "redis_admit_fits c p n now w" and "limited p"
  obtains (counted) "below_limits p n now (gw_redis w)"
      "admission_counted p n now (gw_redis w) (gw_redis w')"
      "x = Inr () \<or> x = Inl ErrLimiterUnavailable"
    | (unchanged) e where "same_counters (gw_redis w) (gw_redis w')" "x = Inl e"
proof -
  obtain y r' where
    y: "EvalIntArray c redis_network admitScript (admit_keys p now) (admit_args (2 * minute) p n)
      (gw_redis w) = (y, r')"
    and x: "x = (case y of Inl e \<Rightarrow> Inl (admit_error e) | Inr _ \<Rightarrow> Inr ())"
    and w': "w' = w\<lparr>gw_redis := r'\<rparr>"
    using assms(1,3) by (rule redis_Admit_eval)
  have eof: "admit_error IoEOF = ErrLimiterUnavailable" by (simp add: admit_error_def has_prefix_def)
  show thesis
    using y assms(2) unfolding redis_admit_fits_def
    by (rule eval_cases) (use x w' eof counted unchanged in auto)
qed

lemma redis_Admit_keeps_within:
  assumes "lim_Admit (redis_gateway_limiter c) p n now w = (x, w')"
    and "redis_admit_fits c p n now w" and "counters_within t now' w"
    and "t = principal_tenant p \<or> tenant_id t \<noteq> tenant_id (principal_tenant p)"
  shows "counters_within t now' w'"
proof (cases "limited p")
  case False
  with assms show ?thesis by (simp add: redis_Admit_unlimited)
next
  case True
  from assms(1,2) True show ?thesis
  proof (rule redis_Admit_effect)
    assume "same_counters (gw_redis w) (gw_redis w')"
    with assms(3) show ?thesis
      by (simp add: counters_within_def redis_requests_def redis_tokens_def same_counters_counter)
  next
    assume below: "below_limits p n now (gw_redis w)"
      and counted: "admission_counted p n now (gw_redis w) (gw_redis w')"
    have keys: "rpm_key tid now' = rpm_key tid' now \<longleftrightarrow> tid = tid' \<and> format_minute now' = format_minute now"
        "tpm_key tid now' = tpm_key tid' now \<longleftrightarrow> tid = tid' \<and> format_minute now' = format_minute now"
        "rpm_key tid now' = tpm_key tid' now \<longleftrightarrow> False" "tpm_key tid now' = rpm_key tid' now \<longleftrightarrow> False"
      for tid tid' by (simp_all add: rpm_key_def tpm_key_def minuteCounterKey_eq_iff)
    show ?thesis
    proof (cases "format_minute now' = format_minute now \<and> t = principal_tenant p")
      case True
      then have "rpm_key (tenant_id t) now' = rpm_key (tenant_id t) now"
        and "tpm_key (tenant_id t) now' = tpm_key (tenant_id t) now"
        by (simp_all add: rpm_key_def tpm_key_def minuteCounterKey_def)
      with True below counted show ?thesis
        unfolding counters_within_def redis_requests_def redis_tokens_def admission_counted_def
          below_limits_def Let_def
        by auto
    next
      case False
      then have "tenant_id t \<noteq> tenant_id (principal_tenant p) \<or> format_minute now' \<noteq> format_minute now"
        using assms(4) by blast
      then have "counter (gw_redis w') (rpm_key (tenant_id t) now') =
            counter (gw_redis w) (rpm_key (tenant_id t) now')"
        and "counter (gw_redis w') (tpm_key (tenant_id t) now') =
            counter (gw_redis w) (tpm_key (tenant_id t) now')"
        using counted by (auto simp: admission_counted_def keys)
      with assms(3) show ?thesis
        by (simp add: counters_within_def redis_requests_def redis_tokens_def)
    qed
  qed
qed

end
