(* ===== verification/GovernanceService.thy ===== *)
theory GovernanceService
  imports RedisLimits ChatService
begin

text \<open>
  \<open>internal/service/governance/service.go\<close>: admission of a request, the tracker that follows it,
  and the attempts the tracker records for the provider adapters. The store and the limiter are
  parameters, as they are in the code. The locale \<open>usage_ledger\<close> states what the service needs of
  a store to keep a tenant within its token budget; the MySQL store is an interpretation of it,
  with its transactions and without.
\<close>

section \<open>The service and its tracker\<close>

text \<open>\<open>svc_now\<close> is the clock the service was built with, \<open>time.Now\<close> outside of tests.\<close>

record 'w governance_service =
  gs_store :: "'w usage_store"
  gs_limiter :: "'w limiter option"
  gs_now :: "'w \<Rightarrow> time"

record request_metadata =
  rm_request_id :: string
  rm_model :: string
  rm_stream :: bool
  rm_messages :: "cmessage list"

record 'w request_tracker =
  rt_store :: "'w usage_store"
  rt_limiter :: "'w limiter option"
  rt_principal :: principal
  rt_request_id :: string
  rt_record_id :: nat
  rt_latest_attempt_id :: nat
  rt_latest_attempt_tok :: int
  rt_model :: string
  rt_stream :: bool
  rt_stream_completion :: string

record 'w attempt_handle =
  ah_store :: "'w usage_store"
  ah_record_id :: nat
  ah_default_model :: string
  ah_prompt_tokens :: int

definition gov_estimatePromptTokens :: "cmessage list \<Rightarrow> int" where
  "gov_estimatePromptTokens messages =
     EstimatePromptTokens (map (\<lambda>m. \<lparr>msg_role = cm_role m, msg_content = cm_content m\<rparr>) messages)"

definition joinChoiceContent :: "cchoice list \<Rightarrow> string" where
  "joinChoiceContent choices = concat (map (\<lambda>c. cm_content (cc_message c)) choices)"

section \<open>Beginning a request\<close>

definition newRequestTracker ::
    "'w usage_store \<Rightarrow> 'w limiter option \<Rightarrow> principal \<Rightarrow> nat \<Rightarrow> request_metadata \<Rightarrow> 'w request_tracker" where
  "newRequestTracker store limiter p recordID metadata =
     \<lparr>rt_store = store, rt_limiter = limiter, rt_principal = p,
      rt_request_id = rm_request_id metadata, rt_record_id = recordID,
      rt_latest_attempt_id = 0, rt_latest_attempt_tok = 0,
      rt_model = rm_model metadata, rt_stream = rm_stream metadata, rt_stream_completion = []\<rparr>"

definition usesAtomicAdmission :: "'w limiter option \<Rightarrow> bool" where
  "usesAtomicAdmission limiter = (case limiter of None \<Rightarrow> False | Some l \<Rightarrow> lim_is_mysql l)"

definition beginRequestAtomic ::
    "'w governance_service \<Rightarrow> principal \<Rightarrow> request_metadata \<Rightarrow> int \<Rightarrow> time \<Rightarrow> 'w \<Rightarrow>
     'w request_tracker res \<times> 'w" where
  "beginRequestAtomic s p metadata estimatedPromptTokens createdAt =
     (case st_BeginRequestAtomic (gs_store s) of
        None \<Rightarrow> (\<lambda>w. (Inl (NewErr ''atomic request store unavailable''), w))
      | Some begin \<Rightarrow>
          bindS (begin \<lparr>abr_principal = p, abr_request_id = rm_request_id metadata,
                        abr_model = rm_model metadata, abr_stream = rm_stream metadata,
                        abr_prompt_tokens = estimatedPromptTokens, abr_created_at = createdAt\<rparr>)
            (\<lambda>recordID w.
              (Inr (newRequestTracker (gs_store s) (gs_limiter s) p recordID metadata), w)))"

text \<open>The budget check that \<open>BeginRequest\<close> and \<open>beginAttempt\<close> share.\<close>

definition check_budget :: "'w usage_store \<Rightarrow> tenant \<Rightarrow> int \<Rightarrow> 'w \<Rightarrow> unit res \<times> 'w" where
  "check_budget store t promptTokens w =
     (if 0 < token_budget t
      then bindS (st_SumTotalAttemptTokens store (tenant_id t)) (\<lambda>totalTokensUsed w.
        if token_budget t < go_add totalTokensUsed promptTokens
        then (Inl ErrBudgetExceeded, w) else (Inr (), w)) w
      else (Inr (), w))"

definition request_record :: "principal \<Rightarrow> request_metadata \<Rightarrow> int \<Rightarrow> time \<Rightarrow> usage_record" where
  "request_record p metadata estimatedPromptTokens createdAt =
     \<lparr>ur_request_id = rm_request_id metadata, ur_tenant_id = tenant_id (principal_tenant p),
      ur_api_key_id = principal_key_id p, ur_model = rm_model metadata,
      ur_stream = rm_stream metadata, ur_status = ''started'',
      ur_prompt_tokens = estimatedPromptTokens, ur_completion_tokens = 0,
      ur_total_tokens = estimatedPromptTokens, ur_created_at = createdAt\<rparr>"

definition admit_and_insert ::
    "'w governance_service \<Rightarrow> principal \<Rightarrow> request_metadata \<Rightarrow> int \<Rightarrow> time \<Rightarrow> 'w \<Rightarrow>
     'w request_tracker res \<times> 'w" where
  "admit_and_insert s p metadata estimatedPromptTokens createdAt w =
     (case (case gs_limiter s of
              None \<Rightarrow> (Inr (), w)
            | Some l \<Rightarrow> lim_Admit l p estimatedPromptTokens createdAt w) of
        (Inl e, w) \<Rightarrow>
          (if errors_is e ErrLimiterUnavailable
           then beginRequestAtomic s p metadata estimatedPromptTokens createdAt w
           else (Inl e, w))
      | (Inr _, w) \<Rightarrow>
          bindS (st_InsertUsageRecord (gs_store s)
                   (request_record p metadata estimatedPromptTokens createdAt))
            (\<lambda>recordID w.
              (Inr (newRequestTracker (gs_store s) (gs_limiter s) p recordID metadata), w)) w)"

definition BeginRequest ::
    "'w governance_service \<Rightarrow> principal option \<Rightarrow> request_metadata \<Rightarrow> 'w \<Rightarrow>
     'w request_tracker res \<times> 'w" where
  "BeginRequest s ctxPrincipal metadata w =
     (case ctxPrincipal of
        None \<Rightarrow> (Inl ErrPrincipalNotFound, w)
      | Some p \<Rightarrow>
          let estimatedPromptTokens = gov_estimatePromptTokens (rm_messages metadata);
              createdAt = gs_now s w
          in if usesAtomicAdmission (gs_limiter s)
             then beginRequestAtomic s p metadata estimatedPromptTokens createdAt w
             else bindS (check_budget (gs_store s) (principal_tenant p) estimatedPromptTokens)
                    (\<lambda>_. admit_and_insert s p metadata estimatedPromptTokens createdAt) w)"

section \<open>Attempts\<close>

definition attempt_record :: "atomic_begin_attempt \<Rightarrow> attempt_usage_record" where
  "attempt_record input =
     \<lparr>ur_request_id = abr_request_id input,
      ur_tenant_id = tenant_id (principal_tenant (abr_principal input)),
      ur_api_key_id = principal_key_id (abr_principal input), ur_model = abr_model input,
      ur_stream = abr_stream input, ur_status = ''started'',
      ur_prompt_tokens = abr_prompt_tokens input, ur_completion_tokens = 0,
      ur_total_tokens = abr_prompt_tokens input, ur_created_at = abr_created_at input,
      aur_backend = aba_backend input\<rparr>"

definition beginAttempt :: "'w usage_store \<Rightarrow> atomic_begin_attempt \<Rightarrow> 'w \<Rightarrow> nat res \<times> 'w" where
  "beginAttempt store input =
     (case st_BeginAttemptAtomic store of
        Some begin \<Rightarrow> begin input
      | None \<Rightarrow>
          bindS (check_budget store (principal_tenant (abr_principal input)) (abr_prompt_tokens input))
            (\<lambda>_. st_InsertAttemptUsageRecord store (attempt_record input)))"

definition attempt_input ::
    "'w request_tracker \<Rightarrow> attempt_metadata \<Rightarrow> string \<Rightarrow> time \<Rightarrow> atomic_begin_attempt" where
  "attempt_input t metadata ctxBackend now =
     (let createdAt = (if is_zero_time (meta_created_at metadata) then now
                       else meta_created_at metadata);
          model = trim_space (meta_model metadata);
          model = (if model = [] then rt_model t else model);
          backend = trim_space (meta_backend metadata);
          backend = (if backend = [] then ctxBackend else backend)
      in \<lparr>abr_principal = rt_principal t, abr_request_id = rt_request_id t, abr_model = model,
          abr_stream = meta_stream metadata, abr_prompt_tokens = meta_prompt_tokens metadata,
          abr_created_at = createdAt, aba_backend = backend\<rparr>)"

text \<open>
  The tracker is shared by the request's handler and the adapters that report attempts to it; the
  world of an attempt is the store's world and the tracker. \<open>now\<close> is \<open>time.Now\<close>.
\<close>

definition BeginAttempt ::
    "('w \<Rightarrow> time) \<Rightarrow> string \<Rightarrow> attempt_metadata \<Rightarrow> 'w \<times> 'w request_tracker \<Rightarrow>
     'w attempt_handle res \<times> 'w \<times> 'w request_tracker" where
  "BeginAttempt now ctxBackend metadata wt =
     (let (w, t) = wt; input = attempt_input t metadata ctxBackend (now w) in
      case beginAttempt (rt_store t) input w of
        (Inl e, w) \<Rightarrow> (Inl (AttemptAccountingError e), w, t)
      | (Inr recordID, w) \<Rightarrow>
          (let t' = (if meta_stream metadata
                     then t\<lparr>rt_latest_attempt_id := recordID,
                            rt_latest_attempt_tok := meta_prompt_tokens metadata\<rparr>
                     else t)
           in (Inr \<lparr>ah_store = rt_store t, ah_record_id = recordID,
                    ah_default_model = abr_model input,
                    ah_prompt_tokens = meta_prompt_tokens metadata\<rparr>, w, t')))"

definition attempt_update :: "'w attempt_handle \<Rightarrow> attempt_result \<Rightarrow> attempt_usage_update" where
  "attempt_update h result =
     (let promptTokens = (if ares_prompt_tokens result = 0 then ah_prompt_tokens h
                          else ares_prompt_tokens result);
          totalTokens = (if ares_total_tokens result = 0
                         then go_add promptTokens (ares_completion_tokens result)
                         else ares_total_tokens result);
          model = trim_space (ares_model result);
          model = (if model = [] then ah_default_model h else model)
      in \<lparr>au_id = ah_record_id h, au_model = model, au_status = ares_status result,
          au_prompt_tokens = promptTokens, au_completion_tokens = ares_completion_tokens result,
          au_total_tokens = totalTokens\<rparr>)"

definition Complete :: "'w attempt_handle \<Rightarrow> attempt_result \<Rightarrow> 'w \<Rightarrow> unit res \<times> 'w" where
  "Complete h result = st_UpdateAttemptUsageRecord (ah_store h) (attempt_update h result)"

text \<open>\<open>BindContext\<close> puts the tracker in the context as the recorder of attempts.\<close>

definition tracker_recorder ::
    "('w \<Rightarrow> time) \<Rightarrow> ('w \<times> 'w request_tracker, 'w attempt_handle) attempt_recorder" where
  "tracker_recorder now =
     \<lparr>begin_attempt = BeginAttempt now,
      complete_attempt = (\<lambda>h result (w, t). let (r, w) = Complete h result w in (r, w, t))\<rparr>"

definition BindContext ::
    "('w \<Rightarrow> time) \<Rightarrow> ('w \<times> 'w request_tracker, 'w attempt_handle) attempt_ctx \<Rightarrow>
     ('w \<times> 'w request_tracker, 'w attempt_handle) attempt_ctx" where
  "BindContext now ctx = WithAttemptRecorder (Some (tracker_recorder now)) ctx"

section \<open>Ending a request\<close>

definition Fail :: "'w request_tracker \<Rightarrow> 'w \<Rightarrow> unit res \<times> 'w" where
  "Fail t =
     bindS (st_UpdateUsageRecord (rt_store t)
              \<lparr>uu_id = rt_record_id t, uu_tenant_id = tenant_id (principal_tenant (rt_principal t)),
               uu_model = rt_model t, uu_status = ''failed'', uu_prompt_tokens = 0,
               uu_completion_tokens = 0, uu_total_tokens = 0\<rparr>)
       (\<lambda>_. if \<not> rt_stream t \<or> rt_latest_attempt_id t = 0 then (\<lambda>w. (Inr (), w))
            else
              let completionTokens = EstimateTextTokens (rt_stream_completion t) in
              st_UpdateAttemptUsageRecord (rt_store t)
                \<lparr>au_id = rt_latest_attempt_id t, au_model = rt_model t, au_status = ''failed'',
                 au_prompt_tokens = rt_latest_attempt_tok t,
                 au_completion_tokens = completionTokens,
                 au_total_tokens = go_add (rt_latest_attempt_tok t) completionTokens\<rparr>)"

definition record_completion ::
    "('w \<Rightarrow> time) \<Rightarrow> 'w request_tracker \<Rightarrow> int \<Rightarrow> 'w \<Rightarrow> unit res \<times> 'w" where
  "record_completion now t completionTokens w =
     (case rt_limiter t of
        None \<Rightarrow> (Inr (), w)
      | Some l \<Rightarrow>
          if 0 < completionTokens
          then lim_RecordCompletionTokens l (rt_principal t) completionTokens (now w) w
          else (Inr (), w))"

definition CompleteNonStream ::
    "('w \<Rightarrow> time) \<Rightarrow> 'w request_tracker \<Rightarrow> completion_request \<Rightarrow> completion_response \<Rightarrow>
     'w \<Rightarrow> unit res \<times> 'w" where
  "CompleteNonStream now t req resp =
     (let promptTokens = (if cu_prompt_tokens (cp_usage resp) = 0
                          then gov_estimatePromptTokens (cr_messages req)
                          else cu_prompt_tokens (cp_usage resp));
          estimated = cu_total_tokens (cp_usage resp) = 0;
          completionTokens = (if estimated then EstimateTextTokens (joinChoiceContent (cp_choices resp))
                              else cu_completion_tokens (cp_usage resp));
          totalTokens = (if estimated then go_add promptTokens completionTokens
                         else cu_total_tokens (cp_usage resp))
      in bindS (record_completion now t completionTokens)
           (\<lambda>_. st_UpdateUsageRecord (rt_store t)
              \<lparr>uu_id = rt_record_id t, uu_tenant_id = tenant_id (principal_tenant (rt_principal t)),
               uu_model = cp_model resp, uu_status = ''succeeded'', uu_prompt_tokens = promptTokens,
               uu_completion_tokens = completionTokens, uu_total_tokens = totalTokens\<rparr>))"

definition ObserveStreamChunk :: "completion_chunk \<Rightarrow> 'w request_tracker \<Rightarrow> 'w request_tracker" where
  "ObserveStreamChunk chunk t =
     (let t = (if ch_model chunk \<noteq> [] then t\<lparr>rt_model := ch_model chunk\<rparr> else t)
      in t\<lparr>rt_stream_completion := rt_stream_completion t @
             concat (map (\<lambda>c. delta_content (ck_delta c)) (ch_choices chunk))\<rparr>)"

definition CompleteStream ::
    "('w \<Rightarrow> time) \<Rightarrow> 'w request_tracker \<Rightarrow> completion_request \<Rightarrow> 'w \<Rightarrow> unit res \<times> 'w" where
  "CompleteStream now t req =
     (let promptTokens = gov_estimatePromptTokens (cr_messages req);
          completionTokens = EstimateTextTokens (rt_stream_completion t)
      in bindS (record_completion now t completionTokens) (\<lambda>_.
         bindS (st_UpdateUsageRecord (rt_store t)
                  \<lparr>uu_id = rt_record_id t,
                   uu_tenant_id = tenant_id (principal_tenant (rt_principal t)),
                   uu_model = rt_model t, uu_status = ''succeeded'', uu_prompt_tokens = promptTokens,
                   uu_completion_tokens = completionTokens,
                   uu_total_tokens = go_add promptTokens completionTokens\<rparr>) (\<lambda>_.
           if rt_latest_attempt_id t = 0 then (\<lambda>w. (Inr (), w))
           else st_UpdateAttemptUsageRecord (rt_store t)
                  \<lparr>au_id = rt_latest_attempt_id t, au_model = rt_model t, au_status = ''succeeded'',
                   au_prompt_tokens = promptTokens, au_completion_tokens = completionTokens,
                   au_total_tokens = go_add promptTokens completionTokens\<rparr>)))"

section \<open>The budget\<close>

text \<open>
  What a store owes the service: the sum it reads is the tenant's use of its budget, an inserted
  attempt adds its tokens to that use and to no other tenant's, and a store that admits attempts in
  one step has compared the use with the budget.
\<close>

locale usage_ledger =
  fixes st :: "'w usage_store"
    and used :: "nat \<Rightarrow> 'w \<Rightarrow> int"
  assumes sum_used: "\<And>tid w n w'. st_SumTotalAttemptTokens st tid w = (Inr n, w') \<Longrightarrow>
      n = used tid w \<and> (\<forall>t. used t w' = used t w)"
    and insert_used: "\<And>r w rid w' t. st_InsertAttemptUsageRecord st r w = (Inr rid, w') \<Longrightarrow>
      used t w' = used t w + (if ur_tenant_id r = t then ur_total_tokens r else 0)"
    and atomic_used: "\<And>begin input w rid w' t. st_BeginAttemptAtomic st = Some begin \<Longrightarrow>
      begin input w = (Inr rid, w') \<Longrightarrow>
      used t w' = used t w + (if tenant_id (principal_tenant (abr_principal input)) = t
                              then abr_prompt_tokens input else 0)"
    and atomic_budget: "\<And>begin input w rid w'. st_BeginAttemptAtomic st = Some begin \<Longrightarrow>
      begin input w = (Inr rid, w') \<Longrightarrow> 0 < token_budget (principal_tenant (abr_principal input)) \<Longrightarrow>
      go_add (used (tenant_id (principal_tenant (abr_principal input))) w) (abr_prompt_tokens input)
        \<le> token_budget (principal_tenant (abr_principal input))"
begin

lemma check_budget_Inr:
  assumes "check_budget st t n w = (Inr u, w')"
  shows "used tid w' = used tid w"
    and "0 < token_budget t \<Longrightarrow> go_add (used (tenant_id t) w) n \<le> token_budget t"
  using assms
  by (auto simp: check_budget_def split: if_splits elim!: bindS_InrE dest: sum_used)

lemma beginAttempt_charges:
  assumes "beginAttempt st input w = (Inr rid, w')"
  shows "used t w' = used t w + (if tenant_id (principal_tenant (abr_principal input)) = t
                                 then abr_prompt_tokens input else 0)"
proof (cases "st_BeginAttemptAtomic st")
  case (Some b)
  with assms show ?thesis using atomic_used [OF Some] by (simp add: beginAttempt_def)
next
  case None
  then obtain v w1 where
    b: "check_budget st (principal_tenant (abr_principal input)) (abr_prompt_tokens input) w = (Inr v, w1)"
    and i: "st_InsertAttemptUsageRecord st (attempt_record input) w1 = (Inr rid, w')"
    using assms unfolding beginAttempt_def by (auto elim: bindS_InrE)
  show ?thesis
    using insert_used [OF i, of t] check_budget_Inr(1) [OF b, of t] by (simp add: attempt_record_def)
qed

lemma beginAttempt_checked:
  assumes "beginAttempt st input w = (Inr rid, w')"
    and "0 < token_budget (principal_tenant (abr_principal input))"
  shows "go_add (used (tenant_id (principal_tenant (abr_principal input))) w) (abr_prompt_tokens input)
    \<le> token_budget (principal_tenant (abr_principal input))"
proof (cases "st_BeginAttemptAtomic st")
  case (Some b)
  with assms show ?thesis using atomic_budget [OF Some] by (simp add: beginAttempt_def)
next
  case None
  with assms show ?thesis
    unfolding beginAttempt_def by (auto elim!: bindS_InrE dest: check_budget_Inr(2))
qed

text \<open>An attempt that begins leaves the tenant within its budget.\<close>

lemma beginAttempt_within_budget:
  assumes "beginAttempt st input w = (Inr rid, w')"
  defines "t \<equiv> principal_tenant (abr_principal input)"
  assumes "0 < token_budget t" and "in_int64 (used (tenant_id t) w + abr_prompt_tokens input)"
  shows "used (tenant_id t) w' \<le> token_budget t"
  using beginAttempt_charges [OF assms(1), of "tenant_id t"] beginAttempt_checked [OF assms(1)] assms(3,4)
  unfolding t_def by simp

end

section \<open>The MySQL store\<close>

definition mysql_store :: "gw usage_store" where
  "mysql_store =
     \<lparr>st_SumTotalTokens = (\<lambda>tid. on_db (SumTotalTokens tid)),
      st_SumTotalAttemptTokens = (\<lambda>tid. on_db (SumTotalAttemptTokens tid)),
      st_InsertUsageRecord = (\<lambda>r. on_db (InsertUsageRecord r)),
      st_UpdateUsageRecord = (\<lambda>u. on_db (UpdateUsageRecord u)),
      st_InsertAttemptUsageRecord = (\<lambda>r. on_db (InsertAttemptUsageRecord r)),
      st_UpdateAttemptUsageRecord = (\<lambda>u. on_db (UpdateAttemptUsageRecord u)),
      st_BeginRequestAtomic = Some (\<lambda>i. on_db (BeginRequestAtomic i)),
      st_BeginAttemptAtomic = Some (\<lambda>i. on_db (BeginAttemptAtomic i))\<rparr>"

text \<open>The same statements without the two transactions, as the interface \<open>Store\<close> alone offers.\<close>

definition plain_mysql_store :: "gw usage_store" where
  "plain_mysql_store = mysql_store\<lparr>st_BeginRequestAtomic := None, st_BeginAttemptAtomic := None\<rparr>"

lemma sum_attempts_db:
  assumes "on_db (SumTotalAttemptTokens tid) w = (Inr n, w')"
  shows "n = budget_used tid w \<and> (\<forall>t. budget_used t w' = budget_used t w)"
proof -
  obtain d where d: "SumTotalAttemptTokens tid (gw_db w) = (Inr n, d)" and w': "w' = w\<lparr>gw_db := d\<rparr>"
    using assms by (rule on_dbE)
  have "n = attempt_tokens_used tid (gw_db w)"
    using d by (auto simp: SumTotalAttemptTokens_def dest: db_query_Inr)
  moreover have "same_data (gw_db w) d"
    using d by (simp add: SumTotalAttemptTokens_def db_query_same)
  ultimately show ?thesis by (simp add: budget_used_def w' same_data_aggregates)
qed

lemma insert_attempt_db:
  assumes "on_db (InsertAttemptUsageRecord r) w = (Inr rid, w')"
  shows "budget_used t w' = budget_used t w + (if ur_tenant_id r = t then ur_total_tokens r else 0)"
  using assms
  by (auto simp: budget_used_def elim!: on_dbE dest!: InsertAttemptUsageRecord_Inr
      simp: attempt_inserted_aggregates(1))

lemma begin_attempt_db:
  assumes "on_db (BeginAttemptAtomic input) w = (Inr rid, w')"
  shows "budget_used t w' = budget_used t w +
      (if tenant_id (principal_tenant (abr_principal input)) = t then abr_prompt_tokens input else 0)"
    and "0 < token_budget (principal_tenant (abr_principal input)) \<Longrightarrow>
      go_add (budget_used (tenant_id (principal_tenant (abr_principal input))) w) (abr_prompt_tokens input)
        \<le> token_budget (principal_tenant (abr_principal input))"
proof -
  obtain d where d: "BeginAttemptAtomic input (gw_db w) = (Inr rid, d)" and w': "w' = w\<lparr>gw_db := d\<rparr>"
    using assms by (rule on_dbE)
  show "budget_used t w' = budget_used t w +
      (if tenant_id (principal_tenant (abr_principal input)) = t then abr_prompt_tokens input else 0)"
    using attempt_inserted_aggregates(1) [OF BeginAttemptAtomic_Inr(1) [OF d]]
    by (simp add: budget_used_def w' begin_attempt_record_def)
  show "0 < token_budget (principal_tenant (abr_principal input)) \<Longrightarrow>
      go_add (budget_used (tenant_id (principal_tenant (abr_principal input))) w) (abr_prompt_tokens input)
        \<le> token_budget (principal_tenant (abr_principal input))"
    using BeginAttemptAtomic_Inr(2) [OF d] by (auto simp: budget_used_def within_budget_def)
qed

interpretation mysql_ledger: usage_ledger mysql_store budget_used
  by unfold_locales
    (auto simp: mysql_store_def sum_attempts_db insert_attempt_db begin_attempt_db
      dest: sum_attempts_db)

interpretation plain_ledger: usage_ledger plain_mysql_store budget_used
  by unfold_locales
    (auto simp: plain_mysql_store_def mysql_store_def insert_attempt_db dest: sum_attempts_db)

end
