(* ===== verification/Ledger.thy ===== *)
theory Ledger
  imports GovernanceService
begin

text \<open>
  The usage tables over the life of a gateway: row identifiers stay unique, completing an attempt
  replaces what it reserved by what it used, and no interleaving of admissions by any number of
  gateways, with any pattern of database failures, takes a tenant past its token budget.
\<close>

section \<open>Unique identifiers\<close>

definition wf_rows :: "'a usage_row_scheme list \<Rightarrow> nat \<Rightarrow> bool" where
  "wf_rows rows next_id \<longleftrightarrow> distinct (map u_id rows) \<and> (\<forall>r \<in> set rows. u_id r < next_id)"

definition wf_db :: "db \<Rightarrow> bool" where
  "wf_db d \<longleftrightarrow> wf_rows (request_usages d) (next_usage_id d) \<and>
               wf_rows (request_attempt_usages d) (next_attempt_id d)"

lemma wf_rows_append:
  "wf_rows rows n \<Longrightarrow> u_id r = n \<Longrightarrow> wf_rows (rows @ [r]) (Suc n)"
  by (auto simp: wf_rows_def less_Suc_eq)

lemma wf_rows_map:
  "(\<And>r. u_id (f r) = u_id r) \<Longrightarrow> wf_rows rows n \<Longrightarrow> wf_rows (map f rows) n"
  by (simp add: wf_rows_def comp_def)

lemma wf_rows_later: "wf_rows rows n \<Longrightarrow> n \<le> m \<Longrightarrow> wf_rows rows m"
  by (auto simp: wf_rows_def)

lemma wf_db_same: "same_data d d' \<Longrightarrow> wf_db d' = wf_db d"
  by (simp add: wf_db_def same_data_fields)

lemma update_row_ids [simp]:
  "u_id (update_usage_row u now r) = u_id r" "u_id (update_attempt_row v now a) = u_id a"
  "u_tenant_id (update_usage_row u now r) = u_tenant_id r"
  "u_tenant_id (update_attempt_row v now a) = u_tenant_id a"
  "u_created_at (update_usage_row u now r) = u_created_at r"
  "u_created_at (update_attempt_row v now a) = u_created_at a"
  by (simp_all add: update_usage_row_def update_attempt_row_def)

lemma wf_db_request_inserted: "request_inserted r rid d d' \<Longrightarrow> wf_db d \<Longrightarrow> wf_db d'"
  by (simp add: request_inserted_def wf_db_def wf_rows_append)

lemma wf_db_attempt_inserted: "attempt_inserted r rid d d' \<Longrightarrow> wf_db d \<Longrightarrow> wf_db d'"
  by (simp add: attempt_inserted_def wf_db_def wf_rows_append)

lemma wf_db_request_updated: "request_updated u d d' \<Longrightarrow> wf_db d \<Longrightarrow> wf_db d'"
  unfolding request_updated_def by (drule wf_db_same) (simp add: wf_db_def wf_rows_map)

lemma wf_db_attempt_updated: "attempt_updated u d d' \<Longrightarrow> wf_db d \<Longrightarrow> wf_db d'"
  unfolding attempt_updated_def by (drule wf_db_same) (simp add: wf_db_def wf_rows_map)

section \<open>What an update changes\<close>

definition attempt_row_at :: "nat \<Rightarrow> db \<Rightarrow> attempt_row option" where
  "attempt_row_at rid d = find (\<lambda>r. u_id r = rid) (request_attempt_usages d)"

definition request_row_at :: "nat \<Rightarrow> db \<Rightarrow> usage_row option" where
  "request_row_at rid d = find (\<lambda>r. u_id r = rid) (request_usages d)"

lemma find_map_keep:
  "(\<And>r. P (f r) = P r) \<Longrightarrow> find P (map f rows) = map_option f (find P rows)"
  by (induction rows) auto

lemma find_append_new:
  "(\<And>r. r \<in> set rows \<Longrightarrow> \<not> P r) \<Longrightarrow> P r \<Longrightarrow> find P (rows @ [r]) = Some r"
  by (induction rows) auto

lemma attempt_updated_row:
  assumes "attempt_updated u d d'"
  shows "attempt_row_at rid d' =
    map_option (update_attempt_row u (sql_current d)) (attempt_row_at rid d)"
proof -
  have "request_attempt_usages d' =
      map (update_attempt_row u (sql_current d)) (request_attempt_usages d)"
    using assms unfolding attempt_updated_def by (drule_tac same_data_fields(4)) simp
  then show ?thesis by (simp add: attempt_row_at_def find_map_keep)
qed

lemma request_updated_row:
  assumes "request_updated u d d'"
  shows "request_row_at rid d' =
    map_option (update_usage_row u (sql_current d)) (request_row_at rid d)"
proof -
  have "request_usages d' = map (update_usage_row u (sql_current d)) (request_usages d)"
    using assms unfolding request_updated_def by (drule_tac same_data_fields(3)) simp
  then show ?thesis by (simp add: request_row_at_def find_map_keep)
qed

lemma attempt_inserted_row:
  assumes "attempt_inserted r rid d d'" and "wf_db d"
  shows "attempt_row_at rid d' = Some (attempt_row_of rid (sql_current d) r)"
  using assms
  by (auto simp: attempt_row_at_def attempt_inserted_def wf_db_def wf_rows_def
      intro!: find_append_new)

lemma request_inserted_row:
  assumes "request_inserted r rid d d'" and "wf_db d"
  shows "request_row_at rid d' = Some (usage_row_of rid (sql_current d) r)"
  using assms
  by (auto simp: request_row_at_def request_inserted_def wf_db_def wf_rows_def
      intro!: find_append_new)

text \<open>Completing an attempt replaces its row's tokens in the tenant's use and nothing else.\<close>

lemma sum_where_update:
  assumes "distinct (map u_id rows)" and "find (\<lambda>r. u_id r = rid) rows = Some a"
    and "\<And>r. u_tenant_id (f r) = u_tenant_id r" and "\<And>r. u_id r \<noteq> rid \<Longrightarrow> f r = r"
  shows "sum_where (of_tenant tid) u_total_tokens (map f rows) =
    sum_where (of_tenant tid) u_total_tokens rows +
      (if u_tenant_id a = tid then u_total_tokens (f a) - u_total_tokens a else 0)"
  using assms(1,2)
proof (induction rows)
  case Nil
  then show ?case by simp
next
  case (Cons r rows)
  show ?case
  proof (cases "u_id r = rid")
    case True
    have "u_id x \<noteq> rid" if "x \<in> set rows" for x
    proof -
      have "u_id x \<in> u_id ` set rows" using that by (rule imageI)
      moreover have "rid \<notin> u_id ` set rows" using Cons.prems(1) True by simp
      ultimately show ?thesis by metis
    qed
    then have "map f rows = rows"
      using assms(4) by (intro map_idI) simp
    with True Cons.prems(2) show ?thesis by (simp add: of_tenant_def assms(3))
  next
    case False
    with Cons show ?thesis by (simp add: of_tenant_def assms(3,4))
  qed
qed

lemma attempt_updated_used:
  assumes "attempt_updated u d d'" and "wf_db d" and "attempt_row_at (au_id u) d = Some a"
  shows "attempt_tokens_used tid d' = attempt_tokens_used tid d +
    (if u_tenant_id a = tid then au_total_tokens u - u_total_tokens a else 0)"
proof -
  have rows: "request_attempt_usages d' =
      map (update_attempt_row u (sql_current d)) (request_attempt_usages d)"
    using assms(1) unfolding attempt_updated_def by (drule_tac same_data_fields(4)) simp
  have a: "u_id a = au_id u"
    using assms(3) by (auto simp: attempt_row_at_def find_Some_iff)
  have "sum_where (of_tenant tid) u_total_tokens
      (map (update_attempt_row u (sql_current d)) (request_attempt_usages d)) =
    sum_where (of_tenant tid) u_total_tokens (request_attempt_usages d) +
      (if u_tenant_id a = tid
       then u_total_tokens (update_attempt_row u (sql_current d) a) - u_total_tokens a else 0)"
    using assms(2,3)
    by (intro sum_where_update [where rid = "au_id u"])
      (auto simp: wf_db_def wf_rows_def attempt_row_at_def update_attempt_row_def)
  then show ?thesis by (simp add: attempt_tokens_used_def rows update_attempt_row_def a)
qed

section \<open>Any number of gateways\<close>

lemma same_tables_budget:
  "same_tables d d' \<Longrightarrow> attempt_tokens_used tid d' = attempt_tokens_used tid d"
  by (simp add: same_tables_def attempt_tokens_used_def)

text \<open>Requests never touch the attempts' table.\<close>

lemma InsertUsageRecord_attempts:
  assumes "InsertUsageRecord r d = (x, d')"
  shows "request_attempt_usages d' = request_attempt_usages d"
proof -
  obtain y d1 where y: "db_exec (insertUsageRecordStatement r) d = (y, d1)" by fastforce
  have "request_attempt_usages d1 = request_attempt_usages d"
  proof (cases y)
    case (Inl e)
    with y have "db_exec (insertUsageRecordStatement r) d = (Inl e, d1)" by simp
    then show ?thesis
      by (rule db_exec_Inl) (auto simp: insertUsageRecordStatement_def same_data_fields)
  next
    case (Inr rid)
    with y have "db_exec (insertUsageRecordStatement r) d = (Inr rid, d1)" by simp
    then show ?thesis
      by (rule db_exec_Inr) (auto simp: insertUsageRecordStatement_def same_data_fields)
  qed
  moreover have "same_data d1 d' \<or> d1 = d'"
    using assms y by (auto simp: InsertUsageRecord_def bindS_def LastInsertId_def
        split: sum.splits dest: db_query_same)
  ultimately show ?thesis by (auto simp: same_data_fields)
qed

lemma BeginRequestAtomic_attempts:
  assumes "BeginRequestAtomic input d = (x, d')"
  shows "request_attempt_usages d' = request_attempt_usages d"
proof (cases x)
  case (Inl e)
  with assms have "BeginRequestAtomic input d = (Inl e, d')" by simp
  then show ?thesis
    by (rule BeginRequestAtomic_Inl) (auto simp: same_tables_def request_inserted_def)
next
  case (Inr rid)
  with assms BeginRequestAtomic_Inr(1) show ?thesis by (auto simp: request_inserted_def)
qed

lemma budget_used_attempts:
  "request_attempt_usages (gw_db w') = request_attempt_usages (gw_db w) \<Longrightarrow>
   budget_used tid w' = budget_used tid w"
  by (simp add: budget_used_def attempt_tokens_used_def)

lemma beginRequestAtomic_used:
  assumes "beginRequestAtomic s p metadata n at w = (r, w')" and "gs_store s = mysql_store"
  shows "budget_used tid w' = budget_used tid w"
proof -
  obtain i y w1 where "on_db (BeginRequestAtomic i) w = (y, w1)" and "w' = w1"
    using assms unfolding beginRequestAtomic_def bindS_def
    by (auto simp: mysql_store_def split: prod.splits sum.splits)
  then show ?thesis
    by (auto elim!: on_dbE intro!: budget_used_attempts dest: BeginRequestAtomic_attempts)
qed

lemma check_budget_used:
  "check_budget mysql_store t n w = (r, w') \<Longrightarrow> budget_used tid w' = budget_used tid w"
  by (intro budget_used_same)
    (auto simp: check_budget_def bindS_def mysql_store_def split: prod.splits sum.splits if_splits
      dest!: on_db_read_only [OF _ read_only_queries(5)])

definition gateway_limiter :: "gw limiter option \<Rightarrow> bool" where
  "gateway_limiter l \<longleftrightarrow> l = None \<or> l = Some mysql_limiter \<or> (\<exists>c. l = Some (redis_gateway_limiter c))"

lemma gateway_limiter_used:
  assumes "gateway_limiter (Some l)" and "lim_Admit l p n now w = (x, w')"
  shows "budget_used tid w' = budget_used tid w"
  using assms mysql_rate.admit_used redis_rate.admit_used
  unfolding gateway_limiter_def by (metis option.distinct(1) option.inject)

lemma admit_and_insert_used:
  assumes "admit_and_insert s p metadata n at w = (r, w')" and "gs_store s = mysql_store"
    and "gateway_limiter (gs_limiter s)"
  shows "budget_used tid w' = budget_used tid w"
proof -
  obtain y w1 where y: "(case gs_limiter s of None \<Rightarrow> (Inr (), w) | Some l \<Rightarrow> lim_Admit l p n at w) =
      (y, w1)" by fastforce
  have one: "budget_used tid w1 = budget_used tid w"
    using y gateway_limiter_used assms(3) by (cases "gs_limiter s") auto
  show ?thesis
  proof (cases y)
    case (Inl e)
    with y assms(1) have "w' = w1 \<or> beginRequestAtomic s p metadata n at w1 = (r, w')"
      by (auto simp: admit_and_insert_def split: if_splits)
    then show ?thesis using beginRequestAtomic_used [OF _ assms(2)] one by auto
  next
    case (Inr u)
    with y assms(1,2) obtain z w2 where
      "on_db (InsertUsageRecord (request_record p metadata n at)) w1 = (z, w2)" and "w' = w2"
      by (auto simp: admit_and_insert_def bindS_def mysql_store_def split: prod.splits sum.splits)
    then have "budget_used tid w' = budget_used tid w1"
      by (auto elim!: on_dbE intro!: budget_used_attempts dest: InsertUsageRecord_attempts)
    with one show ?thesis by simp
  qed
qed

lemma BeginRequest_used:
  assumes "BeginRequest s ctxPrincipal metadata w = (r, w')" and "gs_store s = mysql_store"
    and "gateway_limiter (gs_limiter s)"
  shows "budget_used tid w' = budget_used tid w"
proof (cases ctxPrincipal)
  case None
  with assms show ?thesis by (simp add: BeginRequest_def)
next
  case (Some p)
  let ?n = "gov_estimatePromptTokens (rm_messages metadata)"
  show ?thesis
  proof (cases "usesAtomicAdmission (gs_limiter s)")
    case True
    with assms Some show ?thesis
      by (intro beginRequestAtomic_used) (auto simp: BeginRequest_def)
  next
    case False
    obtain y w1 where y: "check_budget mysql_store (principal_tenant p) ?n w = (y, w1)" by fastforce
    with False assms Some have "w' = w1 \<or> admit_and_insert s p metadata ?n (gs_now s w) w1 = (r, w')"
      by (auto simp: BeginRequest_def bindS_def Let_def split: sum.splits)
    then show ?thesis
      using check_budget_used [OF y] admit_and_insert_used [OF _ assms(2,3)] by auto
  qed
qed

text \<open>An attempt charges its tenant or nobody.\<close>

lemma beginAttempt_used:
  assumes "beginAttempt mysql_store input w = (r, w')"
  shows "(\<forall>tid. budget_used tid w' = budget_used tid w) \<or>
    ((\<forall>tid. budget_used tid w' = budget_used tid w +
        (if tenant_id (principal_tenant (abr_principal input)) = tid
         then abr_prompt_tokens input else 0)) \<and>
     within_budget (principal_tenant (abr_principal input)) (abr_prompt_tokens input) (gw_db w))"
proof -
  obtain d where d: "BeginAttemptAtomic input (gw_db w) = (r, d)" and w': "w' = w\<lparr>gw_db := d\<rparr>"
    using assms by (auto simp: beginAttempt_def mysql_store_def elim: on_dbE)
  have ins: ?thesis
    if "attempt_inserted (begin_attempt_record input) rid (gw_db w) d"
      and "within_budget (principal_tenant (abr_principal input)) (abr_prompt_tokens input) (gw_db w)"
    for rid
    using attempt_inserted_aggregates(1) [OF that(1)] that(2)
    by (simp add: budget_used_def w' begin_attempt_record_def)
  show ?thesis
  proof (cases r)
    case (Inl e)
    with d have "BeginAttemptAtomic input (gw_db w) = (Inl e, d)" by simp
    then show ?thesis
    proof (rule BeginAttemptAtomic_Inl)
      assume "same_tables (gw_db w) d"
      then show ?thesis by (simp add: budget_used_def w' same_tables_budget)
    qed (rule ins)
  next
    case (Inr rid)
    with d have "BeginAttemptAtomic input (gw_db w) = (Inr rid, d)" by simp
    then show ?thesis using ins BeginAttemptAtomic_Inr by blast
  qed
qed

text \<open>
  The operations that end an attempt or a request. They replace an estimate by what was used, so
  they may take a tenant over its budget; what they add is recorded.
\<close>

inductive settles :: "gw \<Rightarrow> gw \<Rightarrow> bool" where
  attempt_done: "settles w w'" if "Complete h result w = (r, w')"
| request_failed: "settles w w'" if "Fail t w = (r, w')"
| request_done: "settles w w'" if "CompleteNonStream now t req resp w = (r, w')"
| stream_done: "settles w w'" if "CompleteStream now t req w = (r, w')"

definition growth :: "nat \<Rightarrow> gw \<Rightarrow> gw \<Rightarrow> int" where
  "growth tid w w' = max 0 (budget_used tid w' - budget_used tid w)"

text \<open>
  A run of any number of gateways on one database: attempts and requests begin, with whatever outcome
  the database and Redis give them, attempts and requests end, and time, Redis and the failures to
  come change. The tenants are those of \<open>cfg\<close>, \<open>settled\<close> is what ending added to a tenant's use, and
  the sum an admission computes is one the machine can hold.
\<close>

inductive gov_run :: "(nat \<Rightarrow> tenant) \<Rightarrow> gw \<Rightarrow> (nat \<Rightarrow> int) \<Rightarrow> gw \<Rightarrow> bool" for cfg w where
  start: "gov_run cfg w (\<lambda>_. 0) w"
| attempt: "gov_run cfg w settled w2"
    if "gov_run cfg w settled w1" and "beginAttempt mysql_store input w1 = (r, w2)"
      and "cfg (tenant_id (principal_tenant (abr_principal input))) = principal_tenant (abr_principal input)"
      and "in_int64 (budget_used (tenant_id (principal_tenant (abr_principal input))) w1
        + abr_prompt_tokens input)"
| request: "gov_run cfg w settled w2"
    if "gov_run cfg w settled w1" and "BeginRequest s ctxPrincipal metadata w1 = (r, w2)"
      and "gs_store s = mysql_store" and "gateway_limiter (gs_limiter s)"
| settle: "gov_run cfg w (\<lambda>tid. settled tid + growth tid w1 w2) w2"
    if "gov_run cfg w settled w1" and "settles w1 w2"
| environment: "gov_run cfg w settled (w1\<lparr>gw_db := (gw_db w1)\<lparr>db_now := t, db_faults := fs\<rparr>, gw_redis := rd,
      gw_router := rt, gw_requests := k, gw_network := n\<rparr>)"
    if "gov_run cfg w settled w1"

inductive_cases gov_run_cases: "gov_run cfg w settled w'"

text \<open>An attempt that begins keeps its tenant within budget or leaves its use alone.\<close>

lemma attempt_keeps_budget:
  assumes "beginAttempt mysql_store input w = (r, w')"
    and "cfg (tenant_id (principal_tenant (abr_principal input))) = principal_tenant (abr_principal input)"
    and "in_int64 (budget_used (tenant_id (principal_tenant (abr_principal input))) w
      + abr_prompt_tokens input)"
    and "0 < token_budget (cfg tid)" and "tenant_id (cfg tid) = tid"
  shows "budget_used tid w' = budget_used tid w \<or> budget_used tid w' \<le> token_budget (cfg tid)"
proof (cases "tenant_id (principal_tenant (abr_principal input)) = tid")
  case False
  with beginAttempt_used [OF assms(1)] show ?thesis by auto
next
  case True
  with assms(2) have t: "principal_tenant (abr_principal input) = cfg tid" by simp
  from beginAttempt_used [OF assms(1)] show ?thesis
  proof
    assume "(\<forall>tid. budget_used tid w' = budget_used tid w +
        (if tenant_id (principal_tenant (abr_principal input)) = tid
         then abr_prompt_tokens input else 0)) \<and>
      within_budget (principal_tenant (abr_principal input)) (abr_prompt_tokens input) (gw_db w)"
    then show ?thesis
      using assms(3-5) by (auto simp: t within_budget_def budget_used_def)
  qed simp
qed

lemma gov_run_within:
  assumes "gov_run cfg w settled w'" and "0 < token_budget (cfg tid)" and "tenant_id (cfg tid) = tid"
    and "budget_used tid w \<le> token_budget (cfg tid)"
  shows "0 \<le> settled tid \<and> budget_used tid w' \<le> token_budget (cfg tid) + settled tid"
  using assms(1)
proof (induction rule: gov_run.induct)
  case start
  with assms(4) show ?case by simp
next
  case (attempt settled w1 input r w2)
  with attempt_keeps_budget [OF attempt.hyps(2-4) assms(2,3)] show ?case by auto
next
  case (request settled w1 s ctxPrincipal metadata r w2)
  with BeginRequest_used [OF request.hyps(2-4)] show ?case by simp
next
  case (settle settled w1 w2)
  then show ?case by (auto simp: growth_def)
next
  case (environment settled w1 t fs rd)
  then show ?case by (simp add: budget_used_def attempt_tokens_used_def)
qed

end
