(* ===== verification/AttemptBook.thy ===== *)
theory AttemptBook
  imports Ledger Adapter
begin

text \<open>
  The tracker of \<open>internal/service/governance\<close> as the recorder the adapters report to: the attempts
  open in its books are the rows of \<open>request_attempt_usages\<close> whose status is still \<open>started\<close>. The
  recorder on the MySQL store is an interpretation of \<open>attempt_book\<close>, so a request of an adapter that
  fails leaves no row in that status, unless the accounting itself failed.
\<close>

section \<open>Counters only grow\<close>

named_theorems grows_rules "introduction rules for calls that keep or raise the counters"

definition grows :: "(db \<Rightarrow> 'a \<times> db) \<Rightarrow> bool" where
  "grows m \<longleftrightarrow> (\<forall>d r d'. m d = (r, d') \<longrightarrow>
     next_usage_id d \<le> next_usage_id d' \<and> next_attempt_id d \<le> next_attempt_id d')"

lemma growsD:
  "grows m \<Longrightarrow> m d = (r, d') \<Longrightarrow>
     next_usage_id d \<le> next_usage_id d' \<and> next_attempt_id d \<le> next_attempt_id d'"
  by (simp add: grows_def)

lemma grows_read_only [grows_rules]: "read_only m \<Longrightarrow> grows m"
  by (auto simp: grows_def dest!: read_onlyD dest: same_data_fields)

lemma grows_exec [grows_rules]: "grows f \<Longrightarrow> grows (db_exec f)"
  unfolding grows_def
proof (intro allI impI)
  fix d r d'
  assume f: "\<forall>d r d'. f d = (r, d') \<longrightarrow>
      next_usage_id d \<le> next_usage_id d' \<and> next_attempt_id d \<le> next_attempt_id d'"
    and "db_exec f d = (r, d')"
  then consider "same_data d d'" | d0 x where "same_data d d0" "f d0 = (x, d')"
    by (cases r) (auto elim!: db_exec_Inl db_exec_Inr, metis prod.collapse)
  then show "next_usage_id d \<le> next_usage_id d' \<and> next_attempt_id d \<le> next_attempt_id d'"
  proof cases
    case 1
    then show ?thesis by (simp add: same_data_fields)
  next
    case 2
    with f have "next_usage_id d0 \<le> next_usage_id d' \<and> next_attempt_id d0 \<le> next_attempt_id d'"
      by blast
    with 2(1) show ?thesis by (simp add: same_data_fields)
  qed
qed

lemma grows_bindS [grows_rules]: "grows m \<Longrightarrow> (\<And>a. grows (f a)) \<Longrightarrow> grows (bindS m f)"
  unfolding grows_def bindS_def
  by (auto split: prod.splits sum.splits) (meson le_trans)+

lemma grows_inserts [grows_rules]:
  "grows (insertUsageRecordStatement r)" "grows (insertAttemptUsageRecordStatement a)"
  by (auto simp: grows_def insertUsageRecordStatement_def insertAttemptUsageRecordStatement_def)

lemma grows_LastInsertId [grows_rules]: "grows (LastInsertId rid)"
  by (intro grows_rules read_only_rules)

lemma grows_tx:
  assumes "grows body"
  shows "grows (db_tx body)"
proof -
  have "next_usage_id d \<le> next_usage_id d' \<and> next_attempt_id d \<le> next_attempt_id d'"
    if "db_tx body d = (r, d')" for d r d'
  proof -
    obtain q d0 where q: "db_query (\<lambda>_. ()) d = (q, d0)" by fastforce
    note s = same_data_fields [OF db_query_same [OF q]]
    obtain x d1 where b: "body d0 = (x, d1)" by fastforce
    obtain oc d2 where c: "db_call d1 = (oc, d2)" by fastforce
    have "d' \<in> {d0, rollback d0 d1, d2, rollback d0 d2}"
      using that q b c by (auto simp: db_tx_def split: sum.splits outcome.splits)
    then show ?thesis
      using s growsD [OF assms b] same_data_fields [OF db_call_same [OF c]]
      by (auto simp: rollback_def)
  qed
  then show ?thesis by (simp add: grows_def)
qed

lemma grows_BeginAttemptAtomic: "grows (BeginAttemptAtomic input)"
  unfolding BeginAttemptAtomic_def by (intro grows_tx grows_rules read_only_rules)

lemma wf_db_tables:
  "same_tables d d' \<Longrightarrow> next_usage_id d \<le> next_usage_id d' \<Longrightarrow> next_attempt_id d \<le> next_attempt_id d' \<Longrightarrow>
   wf_db d \<Longrightarrow> wf_db d'"
  by (auto simp: wf_db_def same_tables_def intro: wf_rows_later)

lemma BeginAttemptAtomic_wf:
  assumes "BeginAttemptAtomic input d = (r, d')" and "wf_db d"
  shows "wf_db d'"
proof (cases r)
  case (Inl e)
  with assms(1) have "BeginAttemptAtomic input d = (Inl e, d')" by simp
  then show ?thesis
    by (rule BeginAttemptAtomic_Inl)
      (use assms(2) growsD [OF grows_BeginAttemptAtomic assms(1)] in
        \<open>auto intro: wf_db_tables wf_db_attempt_inserted\<close>)
next
  case (Inr rid)
  with assms show ?thesis
    using BeginAttemptAtomic_Inr(1) wf_db_attempt_inserted by blast
qed

lemma UpdateAttemptUsageRecord_wf:
  "UpdateAttemptUsageRecord u d = (r, d') \<Longrightarrow> wf_db d \<Longrightarrow> wf_db d'"
  by (cases r) (auto dest!: UpdateAttemptUsageRecord_Inl UpdateAttemptUsageRecord_Inr
      intro: wf_db_attempt_updated simp: wf_db_same)

section \<open>The open attempts\<close>

definition open_rows :: "db \<Rightarrow> nat set" where
  "open_rows d = u_id ` {r \<in> set (request_attempt_usages d). u_status r = ''started''}"

definition open_ids :: "gw \<times> gw request_tracker \<Rightarrow> nat set" where
  "open_ids wt = open_rows (gw_db (fst wt))"

definition booked :: "gw \<times> gw request_tracker \<Rightarrow> bool" where
  "booked wt \<longleftrightarrow> wf_db (gw_db (fst wt)) \<and> rt_store (snd wt) = mysql_store"

lemma open_rows_inserted:
  assumes "attempt_inserted r rid d d'" and "wf_db d" and "ur_status r = ''started''"
  shows "rid \<notin> open_rows d" and "open_rows d' = insert rid (open_rows d)"
proof -
  show "rid \<notin> open_rows d"
    using assms(1,2) by (auto simp: open_rows_def attempt_inserted_def wf_db_def wf_rows_def)
  have rows: "request_attempt_usages d' =
      request_attempt_usages d @ [attempt_row_of rid (sql_current d) r]"
    using assms(1) by (simp add: attempt_inserted_def)
  show "open_rows d' = insert rid (open_rows d)"
    using assms(3) unfolding open_rows_def rows
    by (auto intro!: image_eqI [of rid u_id "attempt_row_of rid (sql_current d) r"])
qed

lemma open_rows_updated:
  assumes "attempt_updated u d d'" and "au_status u \<noteq> ''started''"
  shows "open_rows d' = open_rows d - {au_id u}"
proof -
  have rows: "request_attempt_usages d' =
      map (update_attempt_row u (sql_current d)) (request_attempt_usages d)"
    using assms(1) unfolding attempt_updated_def by (drule_tac same_data_fields(4)) simp
  have other: "update_attempt_row u now r = r" if "u_id r \<noteq> au_id u" for now r
    using that by (simp add: update_attempt_row_def)
  have own: "u_status (update_attempt_row u now r) = au_status u" if "u_id r = au_id u"
    for now and r :: attempt_row
    using that by (simp add: update_attempt_row_def)
  show ?thesis
  proof (intro equalityI subsetI)
    fix rid assume "rid \<in> open_rows d'"
    then obtain r where r: "r \<in> set (request_attempt_usages d)"
        "u_status (update_attempt_row u (sql_current d) r) = ''started''" "rid = u_id r"
      by (auto simp: open_rows_def rows)
    then have "u_id r \<noteq> au_id u" using own assms(2) by auto
    with r other show "rid \<in> open_rows d - {au_id u}" by (auto simp: open_rows_def)
  next
    fix rid assume "rid \<in> open_rows d - {au_id u}"
    then obtain r where r: "r \<in> set (request_attempt_usages d)" "u_status r = ''started''"
        "rid = u_id r" "u_id r \<noteq> au_id u"
      by (auto simp: open_rows_def)
    then have "update_attempt_row u (sql_current d) r = r" using other by simp
    with r show "rid \<in> open_rows d'" unfolding open_rows_def rows set_map by force
  qed
qed

section \<open>The tracker as a recorder\<close>

lemma BeginAttempt_cases:
  assumes "BeginAttempt now b m (w, t) = (r, w', t')" and "rt_store t = mysql_store"
  obtains (fails) e d where "r = Inl (AttemptAccountingError e)" "t' = t" "w' = w\<lparr>gw_db := d\<rparr>"
      "BeginAttemptAtomic (attempt_input t m b (now w)) (gw_db w) = (Inl e, d)"
    | (begins) h d where "r = Inr h" "rt_store t' = mysql_store" "w' = w\<lparr>gw_db := d\<rparr>"
      "BeginAttemptAtomic (attempt_input t m b (now w)) (gw_db w) = (Inr (ah_record_id h), d)"
      "ah_store h = mysql_store"
proof -
  let ?i = "attempt_input t m b (now w)"
  obtain x d where x: "BeginAttemptAtomic ?i (gw_db w) = (x, d)" by fastforce
  then have "beginAttempt mysql_store ?i w = (x, w\<lparr>gw_db := d\<rparr>)"
    by (simp add: beginAttempt_def mysql_store_def on_db_def)
  note r = assms(1) [unfolded BeginAttempt_def Let_def prod.case assms(2) this]
  show thesis
  proof (cases x)
    case (Inl e)
    with r x show thesis by (intro fails) auto
  next
    case (Inr rid)
    let ?h = "\<lparr>ah_store = mysql_store, ah_record_id = rid, ah_default_model = abr_model ?i,
      ah_prompt_tokens = meta_prompt_tokens m\<rparr>"
    from Inr r x assms(2) show thesis by (intro begins [of ?h]) (auto split: if_splits)
  qed
qed

lemma Complete_cases:
  assumes "Complete h a w = (r, w')" and "ah_store h = mysql_store"
  obtains d where "UpdateAttemptUsageRecord (attempt_update h a) (gw_db w) = (r, d)"
    "w' = w\<lparr>gw_db := d\<rparr>"
  using assms by (auto simp: Complete_def mysql_store_def elim: on_dbE)

lemma attempt_update_row [simp]:
  "au_id (attempt_update h a) = ah_record_id h" "au_status (attempt_update h a) = ares_status a"
  by (simp_all add: attempt_update_def Let_def)

lemma begin_attempt_status [simp]: "ur_status (begin_attempt_record i) = ''started''"
  by (simp add: begin_attempt_record_def)

lemma tracker_begins:
  assumes "booked wt" and "begin_attempt (tracker_recorder now) b m wt = (r, wt')"
  shows "booked wt'"
    and "r = Inl e \<Longrightarrow> IsAttemptAccountingError e"
    and "r = Inr h \<Longrightarrow> ah_store h = mysql_store \<and> ah_record_id h \<notin> open_ids wt \<and>
      open_ids wt' = insert (ah_record_id h) (open_ids wt)"
proof -
  obtain w t w' t' where wt: "wt = (w, t)" and wt': "wt' = (w', t')" by fastforce
  have b: "BeginAttempt now b m (w, t) = (r, w', t')" and st: "rt_store t = mysql_store"
    and wf: "wf_db (gw_db w)"
    using assms by (simp_all add: tracker_recorder_def booked_def wt wt')
  from b st have "booked wt' \<and> (\<forall>e. r = Inl e \<longrightarrow> IsAttemptAccountingError e) \<and>
    (\<forall>h. r = Inr h \<longrightarrow> ah_store h = mysql_store \<and> ah_record_id h \<notin> open_ids wt \<and>
      open_ids wt' = insert (ah_record_id h) (open_ids wt))"
  proof (cases rule: BeginAttempt_cases)
    case (fails e d)
    then show ?thesis
      using BeginAttemptAtomic_wf [OF fails(4) wf] st by (simp add: booked_def wt')
  next
    case (begins h d)
    then show ?thesis
      using BeginAttemptAtomic_wf [OF begins(4) wf]
        open_rows_inserted [OF BeginAttemptAtomic_Inr(1) [OF begins(4)] wf]
      by (simp add: booked_def open_ids_def wt wt')
  qed
  then show "booked wt'" "r = Inl e \<Longrightarrow> IsAttemptAccountingError e"
    "r = Inr h \<Longrightarrow> ah_store h = mysql_store \<and> ah_record_id h \<notin> open_ids wt \<and>
      open_ids wt' = insert (ah_record_id h) (open_ids wt)"
    by blast+
qed

lemma tracker_completes:
  assumes "booked wt" and "ah_store h = mysql_store"
    and "complete_attempt (tracker_recorder now) h a wt = (r, wt')"
  shows "booked wt'"
    and "r = Inr u \<Longrightarrow> ares_status a \<noteq> ''started'' \<Longrightarrow> open_ids wt' = open_ids wt - {ah_record_id h}"
proof -
  obtain w t w' where wt: "wt = (w, t)" and wt': "wt' = (w', t)"
    and c: "Complete h a w = (r, w')"
    using assms(3) by (cases wt) (auto simp: tracker_recorder_def split: prod.splits)
  obtain d where d: "UpdateAttemptUsageRecord (attempt_update h a) (gw_db w) = (r, d)"
    and w': "w' = w\<lparr>gw_db := d\<rparr>"
    using c assms(2) by (rule Complete_cases)
  show "booked wt'"
    using UpdateAttemptUsageRecord_wf [OF d] assms(1) by (simp add: booked_def wt wt' w')
  show "r = Inr u \<Longrightarrow> ares_status a \<noteq> ''started'' \<Longrightarrow> open_ids wt' = open_ids wt - {ah_record_id h}"
    using open_rows_updated [of "attempt_update h a" "gw_db w" d] UpdateAttemptUsageRecord_Inr d
    by (simp add: open_ids_def wt wt' w')
qed

interpretation tracker_book: attempt_book "tracker_recorder now" open_ids ah_record_id
    "\<lambda>h. ah_store h = mysql_store" booked for now
  by unfold_locales (auto dest: tracker_begins tracker_completes)

text \<open>An environment of the adapters that keeps out of the tables.\<close>

definition keeps_books :: "(gw \<times> gw request_tracker) upstream \<Rightarrow> bool" where
  "keeps_books env \<longleftrightarrow>
     (\<forall>dl rq w. booked w \<longrightarrow> booked (snd (env_do env dl rq w)) \<and>
        open_ids (snd (env_do env dl rq w)) = open_ids w) \<and>
     (\<forall>dl d w. booked w \<longrightarrow> booked (snd (env_wait env dl d w)) \<and>
        open_ids (snd (env_wait env dl d w)) = open_ids w)"

lemma keeps_books_quiet: "keeps_books env \<Longrightarrow> tracker_book.quiet env"
  by (simp add: keeps_books_def tracker_book.quiet_def)

end
