(* ===== verification/Admission.thy ===== *)
theory Admission
  imports AttemptBook
begin

text \<open>
  Admission as a decision: with a database that answers, the two transactions are functions of the
  tenant's limits and the aggregates of the tables. \<open>decide_request\<close> and \<open>decide_attempt\<close> are that
  specification; the transactions refine it.
\<close>

section \<open>A database that answers\<close>

definition answering :: "db \<Rightarrow> bool" where
  "answering d \<longleftrightarrow> db_faults d = []"

lemma db_call_answering [simp]: "answering d \<Longrightarrow> db_call d = (Done, d)"
  by (simp add: answering_def db_call_def)

lemma db_query_answering [simp]: "answering d \<Longrightarrow> db_query f d = (Inr (f d), d)"
  by (simp add: db_query_def)

lemma db_exec_answering [simp]: "answering d \<Longrightarrow> db_exec f d = (let (x, d') = f d in (Inr x, d'))"
  by (simp add: db_exec_def)

lemma rollback_self [simp]: "rollback d d = d"
  by (simp add: rollback_def)

lemma answering_inserted [simp]:
  "answering d \<Longrightarrow> answering (snd (insertUsageRecordStatement r d))"
  "answering d \<Longrightarrow> answering (snd (insertAttemptUsageRecordStatement a d))"
  by (simp_all add: answering_def insertUsageRecordStatement_def insertAttemptUsageRecordStatement_def)

lemma inserted_id [simp]:
  "fst (insertUsageRecordStatement r d) = next_usage_id d"
  "fst (insertAttemptUsageRecordStatement a d) = next_attempt_id d"
  by (simp_all add: insertUsageRecordStatement_def insertAttemptUsageRecordStatement_def)

section \<open>The decisions\<close>

definition tenant_exists :: "nat \<Rightarrow> db \<Rightarrow> bool" where
  "tenant_exists tid d \<longleftrightarrow> list_ex (\<lambda>t. t_id t = tid) (tenants d)"

definition decide_request :: "atomic_begin_request \<Rightarrow> db \<Rightarrow> err option" where
  "decide_request i d =
     (let t = principal_tenant (abr_principal i); start = abr_created_at i - minute in
      if \<not> tenant_exists (tenant_id t) d then Some SqlNoRows
      else if \<not> within_budget t (abr_prompt_tokens i) d then Some ErrBudgetExceeded
      else if \<not> within_rate t start d then Some ErrRateLimitExceeded
      else if \<not> within_tokens t start (abr_prompt_tokens i) d then Some ErrTokenLimitExceeded
      else None)"

definition decide_attempt :: "atomic_begin_attempt \<Rightarrow> db \<Rightarrow> err option" where
  "decide_attempt i d =
     (let t = principal_tenant (abr_principal i) in
      if \<not> tenant_exists (tenant_id t) d then Some SqlNoRows
      else if \<not> within_budget t (abr_prompt_tokens i) d then Some ErrBudgetExceeded
      else None)"

lemma lockTenantAdmission_answering:
  "answering d \<Longrightarrow> lockTenantAdmission tid d =
     (if tenant_exists tid d then Inr () else Inl SqlNoRows, d)"
proof (cases "find (\<lambda>t. t_id t = tid) (tenants d)")
  case None
  then have "\<not> tenant_exists tid d"
    by (auto simp: tenant_exists_def list_ex_iff find_None_iff)
  with None show "answering d \<Longrightarrow> ?thesis"
    by (simp add: lockTenantAdmission_def lockTenantForAdmission_def bindS_def)
next
  case (Some t)
  then have "tenant_exists tid d"
    by (auto simp: tenant_exists_def list_ex_iff find_Some_iff)
  with Some show "answering d \<Longrightarrow> ?thesis"
    by (simp add: lockTenantAdmission_def lockTenantForAdmission_def bindS_def)
qed

lemma enforceBudget_answering:
  "answering d \<Longrightarrow> enforceBudget t n d =
     (if within_budget t n d then Inr () else Inl ErrBudgetExceeded, d)"
  by (auto simp: enforceBudget_def within_budget_def sumTotalAttemptTokens_def bindS_def)

lemma enforceRateLimit_answering:
  "answering d \<Longrightarrow> enforceRateLimit t c n d =
     (if \<not> within_rate t (c - minute) d then Inl ErrRateLimitExceeded
      else if \<not> within_tokens t (c - minute) n d then Inl ErrTokenLimitExceeded else Inr (), d)"
  by (auto simp: enforceRateLimit_def check_rpm_def check_tpm_def within_rate_def within_tokens_def
      countRequestsSince_def sumTotalTokensSince_def bindS_def Let_def)

lemma admitRequest_answering:
  "answering d \<Longrightarrow> admitRequest i d =
     (case decide_request i d of None \<Rightarrow> Inr () | Some e \<Rightarrow> Inl e, d)"
  by (simp add: admitRequest_def decide_request_def lockTenantAdmission_answering
      enforceBudget_answering enforceRateLimit_answering bindS_def Let_def)

lemma admitAttempt_answering:
  "answering d \<Longrightarrow> admitAttempt i d =
     (case decide_attempt i d of None \<Rightarrow> Inr () | Some e \<Rightarrow> Inl e, d)"
  by (simp add: admitAttempt_def decide_attempt_def lockTenantAdmission_answering
      enforceBudget_answering bindS_def Let_def)

text \<open>The transactions refine the decisions.\<close>

lemma BeginRequestAtomic_decides:
  assumes "answering d"
  shows "BeginRequestAtomic i d =
    (case decide_request i d of
       Some e \<Rightarrow> (Inl e, d)
     | None \<Rightarrow> (Inr (next_usage_id d), snd (insertUsageRecordStatement (begin_request_record i) d)))"
proof (cases "decide_request i d")
  case None
  with assms show ?thesis
    by (simp add: BeginRequestAtomic_def db_tx_def bindS_def admitRequest_answering LastInsertId_def
        case_prod_beta)
next
  case (Some e)
  with assms show ?thesis
    by (simp add: BeginRequestAtomic_def db_tx_def bindS_def admitRequest_answering)
qed

lemma BeginAttemptAtomic_decides:
  assumes "answering d"
  shows "BeginAttemptAtomic i d =
    (case decide_attempt i d of
       Some e \<Rightarrow> (Inl e, d)
     | None \<Rightarrow> (Inr (next_attempt_id d), snd (insertAttemptUsageRecordStatement (begin_attempt_record i) d)))"
proof (cases "decide_attempt i d")
  case None
  with assms show ?thesis
    by (simp add: BeginAttemptAtomic_def db_tx_def bindS_def admitAttempt_answering LastInsertId_def
        case_prod_beta)
next
  case (Some e)
  with assms show ?thesis
    by (simp add: BeginAttemptAtomic_def db_tx_def bindS_def admitAttempt_answering)
qed

section \<open>A request through the service\<close>

definition request_input :: "'w governance_service \<Rightarrow> principal \<Rightarrow> request_metadata \<Rightarrow> 'w \<Rightarrow> atomic_begin_request" where
  "request_input s p m w =
     \<lparr>abr_principal = p, abr_request_id = rm_request_id m, abr_model = rm_model m,
      abr_stream = rm_stream m, abr_prompt_tokens = gov_estimatePromptTokens (rm_messages m),
      abr_created_at = gs_now s w\<rparr>"

lemma BeginRequest_atomic:
  assumes "gs_store s = mysql_store" and "gs_limiter s = Some mysql_limiter"
  shows "BeginRequest s (Some p) m w =
    (case BeginRequestAtomic (request_input s p m w) (gw_db w) of
       (Inl e, d) \<Rightarrow> (Inl e, w\<lparr>gw_db := d\<rparr>)
     | (Inr rid, d) \<Rightarrow> (Inr (newRequestTracker mysql_store (Some mysql_limiter) p rid m), w\<lparr>gw_db := d\<rparr>))"
  using assms
  by (simp add: BeginRequest_def usesAtomicAdmission_def mysql_limiter_def NewMySQLLimiter_def
      beginRequestAtomic_def mysql_store_def on_db_def bindS_def request_input_def Let_def case_prod_beta
      split: sum.splits)

lemma request_within_limits:
  assumes "request_inserted r rid d d'" and "ur_tenant_id r = tenant_id t"
    and "start \<le> sql_timestamp (ur_created_at r)"
    and "within_rate t start d" and "within_tokens t start (ur_total_tokens r) d"
    and "in_int64 (tokens_since (tenant_id t) start d + ur_total_tokens r)"
  shows "rpm_limit t \<le> 0 \<or> requests_since (tenant_id t) start d' \<le> rpm_limit t"
    and "tpm_limit t \<le> 0 \<or> tokens_since (tenant_id t) start d' \<le> tpm_limit t"
  using assms request_inserted_aggregates(1,2) [OF assms(1), of "tenant_id t" start]
  by (auto simp: within_rate_def within_tokens_def)

end
