(* ===== verification/Completion.thy ===== *)
theory Completion
  imports Admission
begin

text \<open>
  How the rows of an attempt and of a request end: what the tracker's updates leave in them, and what
  that does to the tenant's use of its budget.
\<close>

section \<open>Attempts\<close>

lemma attempt_begun:
  assumes "BeginAttempt now b m (w, t) = (Inr h, w1, t1)" and "rt_store t = mysql_store"
    and "wf_db (gw_db w)"
  obtains row where "attempt_row_at (ah_record_id h) (gw_db w1) = Some row"
    "u_tenant_id row = tenant_id (principal_tenant (rt_principal t))"
    "u_status row = ''started''" "u_total_tokens row = meta_prompt_tokens m"
    "\<forall>tid. budget_used tid w1 = budget_used tid w + (if u_tenant_id row = tid then u_total_tokens row else 0)"
    "ah_store h = mysql_store" "ah_prompt_tokens h = meta_prompt_tokens m" "wf_db (gw_db w1)"
proof -
  let ?i = "attempt_input t m b (now w)"
  obtain d where d: "BeginAttemptAtomic ?i (gw_db w) = (Inr (ah_record_id h), d)"
    and w1: "w1 = w\<lparr>gw_db := d\<rparr>" and st: "ah_store h = mysql_store"
    using assms(1,2) by (rule BeginAttempt_cases) auto
  have prompt: "ah_prompt_tokens h = meta_prompt_tokens m"
    using assms(1) by (auto simp: BeginAttempt_def Let_def split: prod.splits sum.splits)
  note ins = BeginAttemptAtomic_Inr(1) [OF d]
  have i: "ur_tenant_id (begin_attempt_record ?i) = tenant_id (principal_tenant (rt_principal t))"
      "ur_total_tokens (begin_attempt_record ?i) = meta_prompt_tokens m"
    by (simp_all add: begin_attempt_record_def attempt_input_def Let_def)
  show thesis
    using attempt_inserted_row [OF ins assms(3)] attempt_inserted_aggregates(1) [OF ins]
      wf_db_attempt_inserted [OF ins assms(3)] st prompt i
    by (intro that) (auto simp: w1 budget_used_def attempt_row_of_def usage_row_of_def
        usage_row.extend_def attempt_row.fields_def)
qed

text \<open>Completing replaces the tokens of the row, in the row and in the tenant's use.\<close>

lemma attempt_completed:
  assumes "Complete h a w = (Inr u, w')" and "ah_store h = mysql_store" and "wf_db (gw_db w)"
    and "attempt_row_at (ah_record_id h) (gw_db w) = Some row"
  obtains row' where "attempt_row_at (ah_record_id h) (gw_db w') = Some row'"
    "u_tenant_id row' = u_tenant_id row" "u_status row' = ares_status a"
    "u_total_tokens row' = au_total_tokens (attempt_update h a)"
    "\<forall>tid. budget_used tid w' = budget_used tid w +
      (if u_tenant_id row = tid then u_total_tokens row' - u_total_tokens row else 0)"
proof -
  obtain d where d: "UpdateAttemptUsageRecord (attempt_update h a) (gw_db w) = (Inr u, d)"
    and w': "w' = w\<lparr>gw_db := d\<rparr>"
    using assms(1,2) by (rule Complete_cases)
  note upd = UpdateAttemptUsageRecord_Inr [OF d]
  have "u_id row = ah_record_id h"
    using assms(4) by (auto simp: attempt_row_at_def find_Some_iff)
  then show thesis
    using attempt_updated_row [OF upd, of "ah_record_id h"] attempt_updated_used [OF upd assms(3)] assms(4)
    by (intro that [of "update_attempt_row (attempt_update h a) (sql_current (gw_db w)) row"])
      (auto simp: w' budget_used_def update_attempt_row_def)
qed

lemma attempt_total:
  "au_total_tokens (attempt_update h a) =
     (if ares_total_tokens a = 0
      then go_add (if ares_prompt_tokens a = 0 then ah_prompt_tokens h else ares_prompt_tokens a)
             (ares_completion_tokens a)
      else ares_total_tokens a)"
  by (simp add: attempt_update_def Let_def)

section \<open>Requests\<close>

lemma UpdateUsageRecord_gw:
  assumes "st_UpdateUsageRecord mysql_store u w = (Inr x, w')"
  shows "request_row_at rid (gw_db w') =
      map_option (update_usage_row u (sql_current (gw_db w))) (request_row_at rid (gw_db w))"
proof -
  obtain d where d: "UpdateUsageRecord u (gw_db w) = (Inr x, d)" and w': "w' = w\<lparr>gw_db := d\<rparr>"
    using assms by (auto simp: mysql_store_def elim: on_dbE)
  show ?thesis
    using request_updated_row [OF UpdateUsageRecord_Inr [OF d]] by (simp add: w')
qed

lemma UpdateAttemptUsageRecord_gw:
  assumes "st_UpdateAttemptUsageRecord mysql_store u w = (Inr x, w')"
  shows "request_row_at rid (gw_db w') = request_row_at rid (gw_db w)"
proof -
  obtain d where d: "UpdateAttemptUsageRecord u (gw_db w) = (Inr x, d)" and w': "w' = w\<lparr>gw_db := d\<rparr>"
    using assms by (auto simp: mysql_store_def elim: on_dbE)
  have "request_usages d = request_usages (gw_db w)"
    using UpdateAttemptUsageRecord_Inr [OF d] unfolding attempt_updated_def
    by (drule_tac same_data_fields(3)) simp
  then show ?thesis by (simp add: request_row_at_def w')
qed

text \<open>Reporting the tokens of a completion to a limiter of the gateway leaves the database alone.\<close>

lemma record_completion_db:
  assumes "record_completion now t n w = (r, w')" and "gateway_limiter (rt_limiter t)"
  shows "gw_db w' = gw_db w"
  using assms
  by (auto simp: record_completion_def gateway_limiter_def mysql_limiter_def NewMySQLLimiter_def
      mysql_RecordCompletionTokens_def redis_gateway_limiter_def NewRedisLimiter_def
      redis_RecordCompletionTokens_def redis_limiter_of_def redis_client_gw_def
      split: if_splits option.splits prod.splits sum.splits elim!: on_redisE)

definition response_tokens :: "completion_request \<Rightarrow> completion_response \<Rightarrow> int" where
  "response_tokens req resp =
     (if cu_total_tokens (cp_usage resp) \<noteq> 0 then cu_total_tokens (cp_usage resp)
      else go_add (if cu_prompt_tokens (cp_usage resp) = 0 then gov_estimatePromptTokens (cr_messages req)
                   else cu_prompt_tokens (cp_usage resp))
             (EstimateTextTokens (joinChoiceContent (cp_choices resp))))"

lemma request_row_id: "request_row_at rid d = Some row \<Longrightarrow> u_id row = rid"
  by (auto simp: request_row_at_def find_Some_iff)

lemma CompleteNonStream_row:
  assumes "CompleteNonStream now t req resp w = (Inr u, w')" and "rt_store t = mysql_store"
    and "gateway_limiter (rt_limiter t)" and "request_row_at (rt_record_id t) (gw_db w) = Some row"
  obtains row' where "request_row_at (rt_record_id t) (gw_db w') = Some row'"
    "u_status row' = ''succeeded''" "u_model row' = cp_model resp"
    "u_total_tokens row' = response_tokens req resp" "u_tenant_id row' = u_tenant_id row"
proof -
  obtain n v w1 x where rc: "record_completion now t n w = (Inr v, w1)"
    and up: "st_UpdateUsageRecord mysql_store x w1 = (Inr u, w')"
    and x: "uu_id x = rt_record_id t" "uu_status x = ''succeeded''" "uu_model x = cp_model resp"
      "uu_total_tokens x = response_tokens req resp"
    using assms(1,2)
    by (auto simp: CompleteNonStream_def Let_def response_tokens_def elim!: bindS_InrE split: if_splits)
  show thesis
    using UpdateUsageRecord_gw [OF up, of "rt_record_id t"] record_completion_db [OF rc assms(3)]
      assms(4) request_row_id [OF assms(4)] x
    by (intro that [of "update_usage_row x (sql_current (gw_db w1)) row"]) (auto simp: update_usage_row_def)
qed

lemma CompleteStream_row:
  assumes "CompleteStream now t req w = (Inr u, w')" and "rt_store t = mysql_store"
    and "gateway_limiter (rt_limiter t)" and "request_row_at (rt_record_id t) (gw_db w) = Some row"
  obtains row' where "request_row_at (rt_record_id t) (gw_db w') = Some row'"
    "u_status row' = ''succeeded''" "u_model row' = rt_model t"
    "u_total_tokens row' = go_add (gov_estimatePromptTokens (cr_messages req))
      (EstimateTextTokens (rt_stream_completion t))" "u_tenant_id row' = u_tenant_id row"
proof -
  let ?total = "go_add (gov_estimatePromptTokens (cr_messages req)) (EstimateTextTokens (rt_stream_completion t))"
  let ?x = "\<lparr>uu_id = rt_record_id t, uu_tenant_id = tenant_id (principal_tenant (rt_principal t)),
    uu_model = rt_model t, uu_status = ''succeeded'',
    uu_prompt_tokens = gov_estimatePromptTokens (cr_messages req),
    uu_completion_tokens = EstimateTextTokens (rt_stream_completion t), uu_total_tokens = ?total\<rparr>"
  obtain n v w1 y w2 where rc: "record_completion now t n w = (Inr v, w1)"
    and up: "st_UpdateUsageRecord mysql_store ?x w1 = (Inr y, w2)"
    and rest: "(if rt_latest_attempt_id t = 0 then (\<lambda>w. (Inr (), w))
      else st_UpdateAttemptUsageRecord mysql_store
        \<lparr>au_id = rt_latest_attempt_id t, au_model = rt_model t, au_status = ''succeeded'',
         au_prompt_tokens = gov_estimatePromptTokens (cr_messages req),
         au_completion_tokens = EstimateTextTokens (rt_stream_completion t),
         au_total_tokens = ?total\<rparr>) w2 = (Inr u, w')"
    using assms(1) unfolding CompleteStream_def Let_def assms(2) by (elim bindS_InrE) blast
  have "request_row_at (rt_record_id t) (gw_db w') = request_row_at (rt_record_id t) (gw_db w2)"
    using rest UpdateAttemptUsageRecord_gw by (simp split: if_splits)
  then show thesis
    using UpdateUsageRecord_gw [OF up, of "rt_record_id t"] record_completion_db [OF rc assms(3)]
      assms(4) request_row_id [OF assms(4)]
    by (intro that [of "update_usage_row ?x (sql_current (gw_db w1)) row"]) (auto simp: update_usage_row_def)
qed

lemma Fail_row:
  assumes "Fail t w = (Inr u, w')" and "rt_store t = mysql_store"
    and "request_row_at (rt_record_id t) (gw_db w) = Some row"
  obtains row' where "request_row_at (rt_record_id t) (gw_db w') = Some row'"
    "u_status row' = ''failed''" "u_total_tokens row' = 0" "u_tenant_id row' = u_tenant_id row"
proof -
  let ?x = "\<lparr>uu_id = rt_record_id t, uu_tenant_id = tenant_id (principal_tenant (rt_principal t)),
    uu_model = rt_model t, uu_status = ''failed'', uu_prompt_tokens = 0, uu_completion_tokens = 0,
    uu_total_tokens = 0\<rparr>"
  obtain y w2 where up: "st_UpdateUsageRecord mysql_store ?x w = (Inr y, w2)"
    and rest: "(if \<not> rt_stream t \<or> rt_latest_attempt_id t = 0 then (\<lambda>w. (Inr (), w))
      else st_UpdateAttemptUsageRecord mysql_store
        \<lparr>au_id = rt_latest_attempt_id t, au_model = rt_model t, au_status = ''failed'',
         au_prompt_tokens = rt_latest_attempt_tok t,
         au_completion_tokens = EstimateTextTokens (rt_stream_completion t),
         au_total_tokens = go_add (rt_latest_attempt_tok t)
           (EstimateTextTokens (rt_stream_completion t))\<rparr>) w2 = (Inr u, w')"
    using assms(1) unfolding Fail_def Let_def assms(2) by (elim bindS_InrE) blast
  have "request_row_at (rt_record_id t) (gw_db w') = request_row_at (rt_record_id t) (gw_db w2)"
    using rest UpdateAttemptUsageRecord_gw by (simp split: if_splits)
  then show thesis
    using UpdateUsageRecord_gw [OF up, of "rt_record_id t"] assms(3) request_row_id [OF assms(3)]
    by (intro that [of "update_usage_row ?x (sql_current (gw_db w)) row"]) (auto simp: update_usage_row_def)
qed

text \<open>A request admitted by the transaction is within its limits, and its row is in the table.\<close>

lemma BeginRequest_admits:
  assumes "BeginRequest s (Some p) m w = (Inr t, w')"
    and "gs_store s = mysql_store" and "gs_limiter s = Some mysql_limiter" and "wf_db (gw_db w)"
    and "in_int64 (db_tokens (tenant_id (principal_tenant p)) (gs_now s w) w
      + gov_estimatePromptTokens (rm_messages m))"
  shows "(rpm_limit (principal_tenant p) \<le> 0 \<or>
      db_requests (tenant_id (principal_tenant p)) (gs_now s w) w' \<le> rpm_limit (principal_tenant p)) \<and>
    (tpm_limit (principal_tenant p) \<le> 0 \<or>
      db_tokens (tenant_id (principal_tenant p)) (gs_now s w) w' \<le> tpm_limit (principal_tenant p)) \<and>
    (\<exists>row. request_row_at (rt_record_id t) (gw_db w') = Some row \<and> u_status row = ''started'' \<and>
      u_tenant_id row = tenant_id (principal_tenant p) \<and>
      u_total_tokens row = gov_estimatePromptTokens (rm_messages m))"
proof -
  let ?i = "request_input s p m w"
  obtain rid d where d: "BeginRequestAtomic ?i (gw_db w) = (Inr rid, d)"
    and t: "t = newRequestTracker mysql_store (Some mysql_limiter) p rid m" and w': "w' = w\<lparr>gw_db := d\<rparr>"
    using assms(1) by (auto simp: BeginRequest_atomic [OF assms(2,3)] split: prod.splits sum.splits)
  note adm = BeginRequestAtomic_Inr [OF d]
  have r: "ur_tenant_id (begin_request_record ?i) = tenant_id (principal_tenant p)"
      "ur_total_tokens (begin_request_record ?i) = gov_estimatePromptTokens (rm_messages m)"
      "ur_created_at (begin_request_record ?i) = gs_now s w"
      "ur_status (begin_request_record ?i) = ''started''"
    by (simp_all add: begin_request_record_def request_input_def)
  have i: "principal_tenant (abr_principal ?i) = principal_tenant p" "abr_created_at ?i = gs_now s w"
      "abr_prompt_tokens ?i = gov_estimatePromptTokens (rm_messages m)"
    by (simp_all add: request_input_def)
  have fits: "in_int64 (tokens_since (tenant_id (principal_tenant p)) (gs_now s w - minute) (gw_db w)
      + ur_total_tokens (begin_request_record ?i))"
    using assms(5) by (simp add: db_tokens_def r)
  have window: "gs_now s w - minute \<le> sql_timestamp (ur_created_at (begin_request_record ?i))"
    by (simp add: r sql_timestamp_in_window)
  note within = request_within_limits [OF adm(1) r(1) window adm(3,4) [unfolded i r(2) [symmetric]] fits]
  have "request_row_at rid d = Some (usage_row_of rid (sql_current (gw_db w)) (begin_request_record ?i))"
    using adm(1) assms(4) by (rule request_inserted_row)
  then show ?thesis
    using within by (auto simp: db_requests_def db_tokens_def w' t newRequestTracker_def r)
qed

end
