(* ===== verification/GovernanceProperties.thy ===== *)
theory GovernanceProperties
  imports Completion
begin

text \<open>
  The properties of the governance service over its MySQL store and of the two limiters, with a small
  tenant and database on which their hypotheses hold.
\<close>

section \<open>A tenant to try them on\<close>

definition demo_tenant :: tenant where
  "demo_tenant = \<lparr>tenant_id = 1, tenant_name = ''acme'', rpm_limit = 2, tpm_limit = 100, token_budget = 10\<rparr>"

definition demo_principal :: principal where
  "demo_principal = \<lparr>principal_tenant = demo_tenant, principal_key_id = 7, principal_key_prefix = ''lag-''\<rparr>"

definition demo_db :: db where
  "demo_db =
     \<lparr>tenants = [\<lparr>t_id = 1, t_name = ''acme'', t_enabled = True, t_rpm_limit = 2, t_tpm_limit = 100,
                  t_token_budget = 10\<rparr>],
      api_keys = [], request_usages = [], request_attempt_usages = [], route_rules = [],
      next_usage_id = 1, next_attempt_id = 1, next_tenant_id = 2, next_key_id = 1, db_schema = [],
      db_now = 0, db_faults = []\<rparr>"

definition demo_redis :: redis where
  "demo_redis = \<lparr>r_counters = (\<lambda>_. None), r_now = 0, r_faults = [], r_reply = []\<rparr>"

definition demo_gw :: gw where
  "demo_gw = \<lparr>gw_db = demo_db, gw_redis = demo_redis, gw_router = idle_router, gw_requests = 0, gw_network = 0\<rparr>"

definition demo_service :: "gw governance_service" where
  "demo_service = \<lparr>gs_store = mysql_store, gs_limiter = Some mysql_limiter, gs_now = (\<lambda>_. 0)\<rparr>"

definition demo_metadata :: request_metadata where
  "demo_metadata =
     \<lparr>rm_request_id = ''r1'', rm_model = ''m'', rm_stream = False,
      rm_messages = [\<lparr>cm_role = ''user'', cm_content = ''hi there''\<rparr>]\<rparr>"

definition demo_attempt :: atomic_begin_attempt where
  "demo_attempt =
     \<lparr>abr_principal = demo_principal, abr_request_id = ''r1'', abr_model = ''m'', abr_stream = False,
      abr_prompt_tokens = 3, abr_created_at = 0, aba_backend = ''b''\<rparr>"

lemmas demo_defs = demo_gw_def demo_db_def demo_redis_def demo_principal_def demo_tenant_def

lemma demo_parts [simp]:
  "gw_db demo_gw = demo_db" "gw_redis demo_gw = demo_redis"
  "next_usage_id demo_db = 1" "next_attempt_id demo_db = 1"
  "request_usages demo_db = []" "request_attempt_usages demo_db = []"
  "principal_tenant demo_principal = demo_tenant" "tenant_id demo_tenant = 1"
  "rpm_limit demo_tenant = 2" "tpm_limit demo_tenant = 100" "token_budget demo_tenant = 10"
  by (simp_all add: demo_defs)

lemma demo_answers [simp]: "answering demo_db"
  by (simp add: answering_def demo_db_def)

lemma demo_wf [simp]: "wf_db demo_db"
  by (simp add: wf_db_def wf_rows_def)

lemma demo_tenant_exists [simp]: "tenant_exists 1 demo_db"
  by (simp add: tenant_exists_def demo_db_def)

lemma demo_attempt_parts [simp]:
  "abr_principal demo_attempt = demo_principal" "abr_prompt_tokens demo_attempt = 3"
  by (simp_all add: demo_attempt_def)

lemma demo_in_int64: "in_int64 (budget_used 1 demo_gw + 3)"
  by (simp add: in_int64_def min_int_def max_int_def budget_used_def attempt_tokens_used_def)

lemma demo_attempt_run:
  "beginAttempt mysql_store demo_attempt demo_gw =
     (Inr 1, demo_gw\<lparr>gw_db := snd (insertAttemptUsageRecordStatement (begin_attempt_record demo_attempt) demo_db)\<rparr>)"
proof -
  have "decide_attempt demo_attempt demo_db = None"
    using demo_tenant_exists
    by (simp add: decide_attempt_def within_budget_def attempt_tokens_used_def go_add_def wrap64_def)
  then have "BeginAttemptAtomic demo_attempt (gw_db demo_gw) =
      (Inr 1, snd (insertAttemptUsageRecordStatement (begin_attempt_record demo_attempt) demo_db))"
    using BeginAttemptAtomic_decides [of demo_db demo_attempt] by simp
  then show ?thesis by (simp add: beginAttempt_def mysql_store_def on_db_def)
qed

lemma demo_prompt: "gov_estimatePromptTokens (rm_messages demo_metadata) = 3"
  by code_simp

lemma demo_decided:
  "decide_request (request_input demo_service demo_principal demo_metadata demo_gw) (gw_db demo_gw) = None"
  using demo_tenant_exists
  by (simp add: decide_request_def request_input_def demo_prompt within_budget_def
      within_rate_def within_tokens_def attempt_tokens_used_def requests_since_def
      tokens_since_def go_add_def wrap64_def)

lemma demo_service_parts [simp]:
  "gs_store demo_service = mysql_store" "gs_limiter demo_service = Some mysql_limiter"
  "gs_now demo_service w = 0"
  by (simp_all add: demo_service_def)

section \<open>The budget\<close>

text \<open>
  C3: Over any run of any number of gateways on one database, with any failures of the database and
  of Redis, a tenant's use never exceeds its budget by more than ending attempts and requests added
  to it, when it was within the budget at the start. Admission alone never exceeds it.
\<close>

theorem tenants_within_budget:
  assumes "gov_run cfg w settled w'"
    and "0 < token_budget (cfg tid)" and "tenant_id (cfg tid) = tid"
    and "budget_used tid w \<le> token_budget (cfg tid)"
  shows "0 \<le> settled tid \<and> budget_used tid w' \<le> token_budget (cfg tid) + settled tid"
  using assms by (rule gov_run_within)

theorem tenants_within_budget_witness:
  "budget_used 1 (demo_gw\<lparr>gw_db := snd (insertAttemptUsageRecordStatement
     (begin_attempt_record demo_attempt) demo_db)\<rparr>) \<le> 10"
proof -
  let ?w = "demo_gw\<lparr>gw_db := snd (insertAttemptUsageRecordStatement
     (begin_attempt_record demo_attempt) demo_db)\<rparr>"
  have "gov_run (\<lambda>_. demo_tenant) demo_gw (\<lambda>_. 0) ?w"
    by (rule gov_run.attempt [OF gov_run.start demo_attempt_run]) (use demo_in_int64 in simp_all)
  from tenants_within_budget [OF this, of 1] show ?thesis
    by (simp add: budget_used_def attempt_tokens_used_def)
qed

section \<open>Admission\<close>





section \<open>Completion\<close>

definition demo_attempt_metadata :: attempt_metadata where
  "demo_attempt_metadata =
     \<lparr>meta_backend = ''b'', meta_model = ''m'', meta_stream = False, meta_prompt_tokens = 3,
      meta_created_at = 0\<rparr>"

definition demo_tracker :: "gw request_tracker" where
  "demo_tracker = newRequestTracker mysql_store (Some mysql_limiter) demo_principal 1 demo_metadata"

lemma demo_tracker_parts [simp]:
  "rt_store demo_tracker = mysql_store" "rt_limiter demo_tracker = Some mysql_limiter"
  "rt_principal demo_tracker = demo_principal" "rt_record_id demo_tracker = 1"
  "rt_stream demo_tracker = False"
  by (simp_all add: demo_tracker_def newRequestTracker_def demo_metadata_def)

definition demo_begun :: gw where
  "demo_begun = demo_gw\<lparr>gw_db := snd (insertUsageRecordStatement
     (begin_request_record (request_input demo_service demo_principal demo_metadata demo_gw)) demo_db)\<rparr>"

lemma demo_begun_parts [simp]:
  "answering (gw_db demo_begun)" "\<exists>row. request_row_at 1 (gw_db demo_begun) = Some row"
  by (simp_all add: demo_begun_def request_row_at_def insertUsageRecordStatement_def usage_row_of_def
      answering_def, simp add: demo_db_def)

lemma answering_update [simp]:
  "answering (gw_db w) \<Longrightarrow> \<exists>w'. st_UpdateUsageRecord mysql_store u w = (Inr (), w')"
  "answering (gw_db w) \<Longrightarrow> \<exists>w'. st_UpdateAttemptUsageRecord mysql_store a w = (Inr (), w')"
  by (simp_all add: mysql_store_def on_db_def UpdateUsageRecord_def UpdateAttemptUsageRecord_def)

text \<open>
  C16: An attempt charges its estimated prompt tokens to the tenant's budget when it begins. Completing
  it replaces that charge in its row, and in the tenant's use, by the tokens that were reported, or
  estimated where none were, and sets its status; no other tenant's use changes.
\<close>

theorem attempt_is_settled:
  assumes "BeginAttempt now b m (w, t) = (Inr h, w1, t1)" and "rt_store t = mysql_store"
    and "wf_db (gw_db w)" and "Complete h a w1 = (Inr u, w2)"
  defines "spent \<equiv> if ares_total_tokens a = 0
      then go_add (if ares_prompt_tokens a = 0 then meta_prompt_tokens m else ares_prompt_tokens a)
             (ares_completion_tokens a)
      else ares_total_tokens a"
    and "owner \<equiv> tenant_id (principal_tenant (rt_principal t))"
  shows "(\<exists>row. attempt_row_at (ah_record_id h) (gw_db w2) = Some row \<and> u_status row = ares_status a \<and>
      u_total_tokens row = spent \<and> u_tenant_id row = owner) \<and>
    budget_used owner w1 = budget_used owner w + meta_prompt_tokens m \<and>
    budget_used owner w2 = budget_used owner w + spent \<and>
    (\<forall>tid. tid \<noteq> owner \<longrightarrow> budget_used tid w2 = budget_used tid w)"
proof -
  obtain row where row: "attempt_row_at (ah_record_id h) (gw_db w1) = Some row" "u_tenant_id row = owner"
      "u_total_tokens row = meta_prompt_tokens m"
    and used: "\<forall>tid. budget_used tid w1 = budget_used tid w +
      (if u_tenant_id row = tid then u_total_tokens row else 0)"
    and h: "ah_store h = mysql_store" "ah_prompt_tokens h = meta_prompt_tokens m"
    and wf: "wf_db (gw_db w1)"
    using attempt_begun [OF assms(1-3)] unfolding owner_def by metis
  obtain row' where "attempt_row_at (ah_record_id h) (gw_db w2) = Some row'"
      "u_tenant_id row' = u_tenant_id row" "u_status row' = ares_status a"
      "u_total_tokens row' = spent"
      "\<forall>tid. budget_used tid w2 = budget_used tid w1 +
        (if u_tenant_id row = tid then u_total_tokens row' - u_total_tokens row else 0)"
    using attempt_completed [OF assms(4) h(1) wf row(1)] unfolding attempt_total spent_def h(2) by metis
  with row used show ?thesis by auto
qed

lemma demo_attempt_begins:
  "\<exists>h w1 t1. BeginAttempt (\<lambda>_. 0) ''b'' demo_attempt_metadata (demo_gw, demo_tracker) = (Inr h, w1, t1) \<and>
     ah_store h = mysql_store \<and> answering (gw_db w1)"
proof -
  let ?i = "attempt_input demo_tracker demo_attempt_metadata ''b'' 0"
  have parts: "abr_principal ?i = demo_principal" "abr_prompt_tokens ?i = 3"
    by (simp_all add: attempt_input_def demo_attempt_metadata_def Let_def)
  have "decide_attempt ?i demo_db = None"
    using demo_tenant_exists
    by (simp add: decide_attempt_def parts within_budget_def attempt_tokens_used_def go_add_def wrap64_def)
  then have "BeginAttemptAtomic ?i demo_db =
      (Inr 1, snd (insertAttemptUsageRecordStatement (begin_attempt_record ?i) demo_db))"
    using BeginAttemptAtomic_decides [of demo_db ?i] by simp
  then show ?thesis
    by (simp add: BeginAttempt_def beginAttempt_def on_db_def mysql_store_def Let_def)
qed

theorem attempt_is_settled_witness:
  "\<exists>h w1 t1 w2. BeginAttempt (\<lambda>_. 0) ''b'' demo_attempt_metadata (demo_gw, demo_tracker) = (Inr h, w1, t1) \<and>
     Complete h \<lparr>ares_model = [], ares_status = ''succeeded'', ares_prompt_tokens = 0,
       ares_completion_tokens = 4, ares_total_tokens = 0\<rparr> w1 = (Inr (), w2) \<and> budget_used 1 w2 = 7"
proof -
  let ?a = "\<lparr>ares_model = [], ares_status = ''succeeded'', ares_prompt_tokens = 0,
    ares_completion_tokens = 4, ares_total_tokens = 0\<rparr>"
  obtain h w1 t1 where
    b: "BeginAttempt (\<lambda>_. 0) ''b'' demo_attempt_metadata (demo_gw, demo_tracker) = (Inr h, w1, t1)"
    and h: "ah_store h = mysql_store" "answering (gw_db w1)" using demo_attempt_begins by blast
  obtain w2 where c: "Complete h ?a w1 = (Inr (), w2)"
    using answering_update(2) [OF h(2)] h(1) by (metis Complete_def)
  have "budget_used 1 w2 = budget_used 1 demo_gw + 7"
    using attempt_is_settled [OF b _ _ c]
    by (simp add: demo_attempt_metadata_def go_add_def wrap64_def)
  moreover have "budget_used 1 demo_gw = 0" by (simp add: budget_used_def attempt_tokens_used_def)
  ultimately show ?thesis using b c by auto
qed

text \<open>
  A request that ends, with its row in the table, leaves it succeeded with the tokens the response
  reports, or the estimates where it reports none; or succeeded with the estimates of what was
  streamed; or failed with no tokens at all. Its tenant stays the same.
\<close>

theorem request_end_recorded:
  assumes "rt_store t = mysql_store" and "gateway_limiter (rt_limiter t)"
    and "request_row_at (rt_record_id t) (gw_db w) = Some row"
    and "CompleteNonStream now t req resp w = (Inr u, w') \<and> status = ''succeeded'' \<and>
        spent = response_tokens req resp \<or>
      CompleteStream now t req w = (Inr u, w') \<and> status = ''succeeded'' \<and>
        spent = go_add (gov_estimatePromptTokens (cr_messages req))
          (EstimateTextTokens (rt_stream_completion t)) \<or>
      Fail t w = (Inr u, w') \<and> status = ''failed'' \<and> spent = 0"
  shows "\<exists>row'. request_row_at (rt_record_id t) (gw_db w') = Some row' \<and> u_status row' = status \<and>
    u_total_tokens row' = spent \<and> u_tenant_id row' = u_tenant_id row"
  using assms(4)
proof (elim disjE conjE)
  assume "CompleteNonStream now t req resp w = (Inr u, w')" and s: "status = ''succeeded''"
      "spent = response_tokens req resp"
  from CompleteNonStream_row [OF this(1) assms(1-3)] s show ?thesis by metis
next
  assume "CompleteStream now t req w = (Inr u, w')" and s: "status = ''succeeded''"
      "spent = go_add (gov_estimatePromptTokens (cr_messages req))
        (EstimateTextTokens (rt_stream_completion t))"
  from CompleteStream_row [OF this(1) assms(1-3)] s show ?thesis by metis
next
  assume "Fail t w = (Inr u, w')" and s: "status = ''failed''" "spent = 0"
  from Fail_row [OF this(1) assms(1,3)] s show ?thesis by metis
qed

theorem request_end_recorded_witness:
  "\<exists>w' row. Fail demo_tracker demo_begun = (Inr (), w') \<and> request_row_at 1 (gw_db w') = Some row \<and>
     u_status row = ''failed'' \<and> u_total_tokens row = 0"
proof -
  obtain row where row: "request_row_at 1 (gw_db demo_begun) = Some row" using demo_begun_parts by blast
  obtain w' where "Fail demo_tracker demo_begun = (Inr (), w')"
    by (simp add: Fail_def bindS_def mysql_store_def on_db_def UpdateUsageRecord_def)
  with request_end_recorded [of demo_tracker demo_begun row _ _ _ "()" w' "''failed''" 0] row
  show ?thesis by (auto simp: gateway_limiter_def)
qed

section \<open>Redis\<close>

definition demo_client :: redis_client where
  "demo_client = \<lparr>cl_address = ''localhost:6379'', cl_password = [], cl_db = 0, cl_dial_timeout = 2 * second\<rparr>"

text \<open>
  C22: Whatever happens to the connection, asking the Redis limiter for admission either counts one
  request and its tokens in the tenant's keys of the minute and nothing else, and then admits or
  reports the limiter unavailable, or counts nothing and gives an error; and counters that were
  within a tenant's limits stay within them.
\<close>

theorem redis_admission_atomic:
  assumes "lim_Admit (redis_gateway_limiter c) p n now w = (x, w')"
    and "redis_admit_fits c p n now w" and "limited p"
  shows "(below_limits p n now (gw_redis w) \<and> admission_counted p n now (gw_redis w) (gw_redis w') \<and>
        (x = Inr () \<or> x = Inl ErrLimiterUnavailable) \<or>
      same_counters (gw_redis w) (gw_redis w') \<and> (\<exists>e. x = Inl e)) \<and>
    (counters_within (principal_tenant p) now' w \<longrightarrow> counters_within (principal_tenant p) now' w')"
proof -
  have "counters_within (principal_tenant p) now' w \<longrightarrow> counters_within (principal_tenant p) now' w'"
    using redis_Admit_keeps_within [OF assms(1,2)] by blast
  with redis_Admit_effect [OF assms(1-3)] show ?thesis by metis
qed

lemma demo_fits: "redis_admit_fits demo_client demo_principal 3 0 demo_gw"
proof -
  have "command_fits (admit_command demo_principal 3 0)"
    unfolding demo_principal_def demo_tenant_def by code_simp
  moreover have "client_fits demo_client" unfolding demo_client_def by code_simp
  moreover have "counter demo_redis k = 0" for k by (simp add: counter_def live_def demo_redis_def)
  ultimately show ?thesis
    by (simp add: redis_admit_fits_def redis_fits_def in_int64_def min_int_def max_int_def)
qed

theorem redis_admission_atomic_witness:
  "counters_within demo_tenant 0
     (snd (lim_Admit (redis_gateway_limiter demo_client) demo_principal 3 0 demo_gw))"
proof -
  have "counters_within demo_tenant 0 demo_gw"
    by (simp add: counters_within_def redis_requests_def redis_tokens_def counter_def live_def
        demo_redis_def)
  then show ?thesis
    using redis_admission_atomic [OF surjective_pairing demo_fits, of 0] by (simp add: limited_def)
qed

text \<open>
  The counters of different tenants, of requests and of tokens, and of different minutes are in
  different keys, for all times a four-digit year can show.
\<close>

theorem minute_keys_distinct:
  assumes "kind \<in> {''rpm'', ''tpm''}" and "kind' \<in> {''rpm'', ''tpm''}"
    and "0 \<le> minutes_of t" and "minutes_of t < calendar_end"
    and "0 \<le> minutes_of t'" and "minutes_of t' < calendar_end"
  shows "minuteCounterKey kind tid t = minuteCounterKey kind' tid' t' \<longleftrightarrow>
    kind = kind' \<and> tid = tid' \<and> minutes_of t = minutes_of t'"
proof -
  have "CHR '':'' \<notin> set kind" and "CHR '':'' \<notin> set kind'" using assms(1,2) by auto
  from minuteCounterKey_eq_iff [OF this] format_minute_eq_iff [OF assms(3-6)] show ?thesis by simp
qed

theorem minute_keys_distinct_witness:
  "minuteCounterKey ''rpm'' 1 0 \<noteq> minuteCounterKey ''rpm'' 1 (2 * minute)"
  using minute_keys_distinct [of "''rpm''" "''rpm''" 0 "2 * minute" 1 1]
  by (simp add: minutes_of_def minute_def calendar_end_def)

text \<open>
  C23: When the limiter cannot decide, the service decides in the database: the budget is checked
  first, then the transaction makes the full decision, so that no request is admitted unchecked and
  none is refused for the limiter's failure alone.
\<close>

theorem unavailable_limiter_falls_back:
  assumes "gs_store s = mysql_store" and "gs_limiter s = Some l" and "\<not> lim_is_mysql l"
    and "lim_Admit l p (gov_estimatePromptTokens (rm_messages m)) (gs_now s w) w = (Inl e, w1)"
    and "errors_is e ErrLimiterUnavailable" and "answering (gw_db w)" and "answering (gw_db w1)"
  shows "BeginRequest s (Some p) m w =
    (if \<not> within_budget (principal_tenant p) (gov_estimatePromptTokens (rm_messages m)) (gw_db w)
     then (Inl ErrBudgetExceeded, w)
     else case decide_request (request_input s p m w) (gw_db w1) of
       Some e \<Rightarrow> (Inl e, w1)
     | None \<Rightarrow>
         (Inr (newRequestTracker mysql_store (Some l) p (next_usage_id (gw_db w1)) m),
          w1\<lparr>gw_db := snd (insertUsageRecordStatement (begin_request_record (request_input s p m w))
                       (gw_db w1))\<rparr>))"
proof -
  have "check_budget mysql_store (principal_tenant p) n w =
      (if within_budget (principal_tenant p) n (gw_db w) then (Inr (), w) else (Inl ErrBudgetExceeded, w))"
    for n
    using assms(6)
    by (auto simp: check_budget_def mysql_store_def on_db_def bindS_def within_budget_def
        SumTotalAttemptTokens_def)
  moreover have "beginRequestAtomic s p m (gov_estimatePromptTokens (rm_messages m)) (gs_now s w) w1 =
      (case BeginRequestAtomic (request_input s p m w) (gw_db w1) of
         (Inl e, d) \<Rightarrow> (Inl e, w1\<lparr>gw_db := d\<rparr>)
       | (Inr rid, d) \<Rightarrow> (Inr (newRequestTracker mysql_store (Some l) p rid m), w1\<lparr>gw_db := d\<rparr>))"
    using assms(1,2)
    by (simp add: beginRequestAtomic_def mysql_store_def on_db_def bindS_def request_input_def
        case_prod_beta split: sum.splits)
  ultimately show ?thesis
    using assms(1-5) BeginRequestAtomic_decides [OF assms(7)]
    by (simp add: BeginRequest_def usesAtomicAdmission_def Let_def bindS_def admit_and_insert_def
        split: option.splits)
qed

definition demo_offline :: gw where
  "demo_offline = demo_gw\<lparr>gw_redis := demo_redis\<lparr>r_faults := [Failed (NetError ''connection refused'')]\<rparr>\<rparr>"

definition demo_redis_service :: "gw governance_service" where
  "demo_redis_service = demo_service\<lparr>gs_limiter := Some (redis_gateway_limiter demo_client)\<rparr>"

lemma demo_refused:
  "\<exists>w1. lim_Admit (redis_gateway_limiter demo_client) demo_principal n now demo_offline =
     (Inl ErrLimiterUnavailable, w1) \<and> gw_db w1 = demo_db"
  by (simp add: redis_gateway_limiter_def NewRedisLimiter_def redis_limiter_of_def redis_Admit_def
      redis_client_gw_def on_redis_def EvalIntArray_def bindS_def do_command_def dial_def redis_network_def
      next_fault_def demo_offline_def admit_error_def Let_def) code_simp

theorem unavailable_limiter_falls_back_witness:
  "\<exists>t w'. BeginRequest demo_redis_service (Some demo_principal) demo_metadata demo_offline = (Inr t, w')"
proof -
  obtain w1 where w1: "lim_Admit (redis_gateway_limiter demo_client) demo_principal
      (gov_estimatePromptTokens (rm_messages demo_metadata)) (gs_now demo_redis_service demo_offline)
      demo_offline = (Inl ErrLimiterUnavailable, w1)" and d: "gw_db w1 = demo_db"
    using demo_refused by blast
  have parts: "gs_store demo_redis_service = mysql_store" "gw_db demo_offline = demo_db"
      "gs_limiter demo_redis_service = Some (redis_gateway_limiter demo_client)"
      "\<not> lim_is_mysql (redis_gateway_limiter demo_client)"
      "request_input demo_redis_service demo_principal demo_metadata demo_offline =
        request_input demo_service demo_principal demo_metadata demo_gw"
    by (simp_all add: demo_redis_service_def demo_service_def demo_offline_def redis_gateway_limiter_def
        NewRedisLimiter_def request_input_def)
  have "within_budget demo_tenant 3 demo_db"
    by (simp add: within_budget_def attempt_tokens_used_def go_add_def wrap64_def)
  then show ?thesis
    using unavailable_limiter_falls_back [OF parts(1,3,4) w1] demo_decided by (simp add: parts d demo_prompt)
qed

end
