(* ===== verification/ProviderProperties.thy ===== *)
theory ProviderProperties
  imports Anthropic GovernanceProperties
begin

text \<open>
  The properties of the provider adapters and of the chat service above them, with an upstream that
  gives one answer, and one that never answers, on which their hypotheses hold.
\<close>

section \<open>Upstreams to try them on\<close>

definition demo_upstream :: "http_response res \<Rightarrow> 'w upstream" where
  "demo_upstream answer =
     \<lparr>env_do = (\<lambda>dl rq w. (answer, w)), env_ctx_err = (\<lambda>dl w. None), env_wait = (\<lambda>dl d w. (None, w)),
      env_offer = (\<lambda>w. (None, w)), env_now = (\<lambda>w. 0)\<rparr>"

definition counting_upstream :: "nat upstream" where
  "counting_upstream =
     \<lparr>env_do = (\<lambda>dl rq n. (Inl (NetError ''connection reset''), Suc n)), env_ctx_err = (\<lambda>dl n. None),
      env_wait = (\<lambda>dl d n. (None, n)), env_offer = (\<lambda>n. (None, n)), env_now = (\<lambda>n. 0)\<rparr>"

definition demo_adapter :: adapter where
  "demo_adapter =
     \<lparr>ad_base_url = ''http://h'', ad_api_key = [], ad_default_model = ''m'', ad_timeout = 0,
      ad_max_retries = 2, ad_retry_backoff = 1\<rparr>"

definition plain_ctx :: "('w, 'h) attempt_ctx" where
  "plain_ctx = \<lparr>ctx_recorder = None, ctx_backend = ''b''\<rparr>"

definition tracked_ctx :: "(gw \<times> gw request_tracker, gw attempt_handle) attempt_ctx" where
  "tracked_ctx = \<lparr>ctx_recorder = Some (tracker_recorder (\<lambda>_. 0)), ctx_backend = ''b''\<rparr>"

lemma demo_upstream_offers [simp]: "always_offers (demo_upstream answer)"
  by (simp add: always_offers_def demo_upstream_def)

section \<open>Requests\<close>

text \<open>
  C25: A call of an adapter sends its request at most once more than the retries it is configured
  with, whatever the upstream answers.
\<close>

theorem retries_are_bounded:
  assumes "counts_requests sent env ctx"
    and "doRequest a env message ctx dl m rq w = (r, w')"
  shows "sent w' \<le> sent w + nat (ad_max_retries a) + 1"
  using request_loop_sent [OF assms(1)] assms(2) by (simp add: doRequest_def)

lemma counting_counts: "counts_requests id counting_upstream plain_ctx"
  by (auto simp: counts_requests_def counting_upstream_def plain_ctx_def adapter_beginAttempt_def
      failAttempt_def finish_attempt_def split: option.splits)

theorem retries_are_bounded_witness:
  "snd (doRequest demo_adapter counting_upstream openai_error_message (plain_ctx :: (nat, unit) attempt_ctx)
     None None (openai_request demo_adapter ''GET'' [] [] []) 0) \<le> 3"
proof -
  let ?run = "doRequest demo_adapter counting_upstream openai_error_message
    (plain_ctx :: (nat, unit) attempt_ctx) None None (openai_request demo_adapter ''GET'' [] [] []) 0"
  have "id (snd ?run) \<le> id 0 + nat (ad_max_retries demo_adapter) + 1"
    by (rule retries_are_bounded [OF counting_counts surjective_pairing])
  moreover have "ad_max_retries demo_adapter = 2" by (simp add: demo_adapter_def)
  ultimately show ?thesis by simp
qed

text \<open>
  C17: A completion by any of the three adapters, recorded by the tracker in the database, leaves no
  attempt open that it opened: its rows are completed or failed, unless recording itself failed,
  which is the error returned.
\<close>

theorem completion_closes_attempts:
  assumes "r = fst (openai_CreateChatCompletion a env ctx req wt) \<and>
        wt' = snd (openai_CreateChatCompletion a env ctx req wt) \<or>
      r = fst (ollama_CreateChatCompletion a env ctx req wt) \<and>
        wt' = snd (ollama_CreateChatCompletion a env ctx req wt) \<or>
      r = fst (anthropic_CreateChatCompletion c env ctx req wt) \<and>
        wt' = snd (anthropic_CreateChatCompletion c env ctx req wt)"
    and "booked wt" and "keeps_books env" and "ctx_recorder ctx = Some (tracker_recorder now)"
  shows "(\<exists>e. r = Inl e \<and> IsAttemptAccountingError e) \<or> open_ids wt' = open_ids wt"
proof -
  note books = tracker_book.json_request_books [OF _ assms(2) keeps_books_quiet [OF assms(3)] assms(4)]
  from assms(1) show ?thesis
  proof (elim disjE conjE)
    assume r: "r = fst (openai_CreateChatCompletion a env ctx req wt)"
      and w: "wt' = snd (openai_CreateChatCompletion a env ctx req wt)"
    obtain x v where x: "openai_doJSONRequest a env ctx
        \<lparr>oaq_model = resolveModel a (req_model req), oaq_messages = req_messages req,
         oaq_stream = False\<rparr> False wt = (x, v)" by (metis surj_pair)
    from books [OF x [unfolded openai_doJSONRequest_def]] r w x show ?thesis
      by (cases x) (auto simp: openai_CreateChatCompletion_def openai_outcome_def)
  next
    assume r: "r = fst (ollama_CreateChatCompletion a env ctx req wt)"
      and w: "wt' = snd (ollama_CreateChatCompletion a env ctx req wt)"
    obtain x v where x: "ollama_doChatRequest a env ctx
        \<lparr>oaq_model = resolveModel a (req_model req), oaq_messages = req_messages req,
         oaq_stream = False\<rparr> wt = (x, v)" by (metis surj_pair)
    from books [OF x [unfolded ollama_doChatRequest_def]] r w x show ?thesis
      by (cases x) (auto simp: ollama_CreateChatCompletion_def ollama_outcome_def Let_def)
  next
    assume r: "r = fst (anthropic_CreateChatCompletion c env ctx req wt)"
      and w: "wt' = snd (anthropic_CreateChatCompletion c env ctx req wt)"
    obtain x v where x: "anthropic_doJSONRequest c env ctx (anthropic_payload c req False) wt = (x, v)"
      by (metis surj_pair)
    from books [OF x [unfolded anthropic_doJSONRequest_def]] r w x show ?thesis
      by (cases x) (auto simp: anthropic_CreateChatCompletion_def anthropic_outcome_def)
  qed
qed

lemma demo_booked: "booked (demo_gw, demo_tracker)"
  by (simp add: booked_def)

lemma demo_keeps_books: "keeps_books (demo_upstream answer)"
  by (simp add: keeps_books_def demo_upstream_def)

theorem completion_closes_attempts_witness:
  "(\<exists>e. fst (openai_CreateChatCompletion demo_adapter (demo_upstream (Inl (NetError ''refused''))) tracked_ctx
        \<lparr>req_model = [], req_messages = [], req_stream = False\<rparr> (demo_gw, demo_tracker)) = Inl e \<and>
      IsAttemptAccountingError e) \<or>
   open_ids (snd (openai_CreateChatCompletion demo_adapter (demo_upstream (Inl (NetError ''refused'')))
     tracked_ctx \<lparr>req_model = [], req_messages = [], req_stream = False\<rparr> (demo_gw, demo_tracker))) = {}"
proof -
  have "open_ids (demo_gw, demo_tracker) = {}" by (simp add: open_ids_def open_rows_def)
  then show ?thesis
    using completion_closes_attempts [OF disjI1 [OF conjI [OF refl refl]] demo_booked demo_keeps_books,
        of tracked_ctx "\<lambda>_. 0" demo_adapter "Inl (NetError ''refused'')"
        "\<lparr>req_model = [], req_messages = [], req_stream = False\<rparr>"]
    by (simp add: tracked_ctx_def)
qed

text \<open>
  A failed attempt is tried again only while the context lives and the error is a lost
  connection, a deadline or a status of 408, 429 or 500 and above; a failure to record an attempt
  ends the call with that error.
\<close>

theorem only_transient_errors_retried:
  assumes "adapter_beginAttempt ctx m w = (Inr handle, w1)"
    and "do_once env dl message rq w1 = (Inl e, w2)"
    and "failAttempt ctx handle (metadataModel m) w2 = (f, w3)"
    and "(\<exists>ce. f = Inl ce \<and> e' = ce) \<or>
      (\<exists>u. f = Inr u \<and> e' = e \<and> (env_ctx_err env dl w3 \<noteq> None \<or> errors_is e CtxCanceled \<or>
        \<not> is_retryable_error e \<and> \<not> errors_is e CtxDeadlineExceeded \<and> \<not> is_net_error e))"
  shows "doRequest a env message ctx dl m rq w = (Inl e', w3)"
  using assms(4)
proof (elim disjE exE conjE)
  fix ce assume f: "f = Inl ce" and e: "e' = ce"
  from request_loop_unrecorded [OF assms(1,2) assms(3) [unfolded f]] show ?thesis
    unfolding e doRequest_def .
next
  fix u assume f: "f = Inr u" and e: "e' = e" and "env_ctx_err env dl w3 \<noteq> None"
  with request_loop_stops [OF assms(1,2), of u w3] assms(3) show ?thesis
    by (simp add: doRequest_def shouldRetryRequest_def)
next
  fix u assume f: "f = Inr u" and e: "e' = e" and "errors_is e CtxCanceled"
  with request_loop_stops [OF assms(1,2), of u w3] assms(3) show ?thesis
    by (simp add: doRequest_def shouldRetryRequest_def)
next
  fix u assume f: "f = Inr u" and e: "e' = e" and "\<not> is_retryable_error e"
    and "\<not> errors_is e CtxDeadlineExceeded" and "\<not> is_net_error e"
  with request_loop_stops [OF assms(1,2), of u w3] assms(3) show ?thesis
    by (simp add: doRequest_def shouldRetryRequest_def)
qed

theorem only_transient_errors_retried_witness:
  "doRequest demo_adapter (demo_upstream (Inl (NewErr ''bad url''))) openai_error_message
     (plain_ctx :: (nat, unit) attempt_ctx) None None (openai_request demo_adapter ''GET'' [] [] []) 7 =
   (Inl (NewErr ''bad url''), 7)"
  by (rule only_transient_errors_retried [of _ _ _ None 7 _ _ _ _ "NewErr ''bad url''" 7 "Inr ()"])
    (simp_all add: adapter_beginAttempt_def plain_ctx_def do_once_def demo_upstream_def
      failAttempt_def finish_attempt_def errors_is.simps)

section \<open>Streams\<close>

text \<open>
  An OpenAI stream is delivered chunk by chunk, in order, with no error when it ends with its done
  marker; a stream that breaks off delivers the chunks that arrived and then one error.
\<close>

theorem openai_stream_delivery:
  assumes "always_offers env"
    and "list_all2 (\<lambda>d p. plain_data d \<and> d \<noteq> ''[DONE]'' \<and> openai_decodeStreamPayload d = Inr p) ds ps"
  shows "openai_stream_lines env ctx handle ending model
      (map data_line ds @ (''data: [DONE]'' @ [CHR 0x0A]) # lines) w =
      (map (\<lambda>p. ChunkEvent (openai_chunk p)) ps, w) \<and>
    fst (openai_stream_lines env ctx handle ending model (map data_line ds) w) =
      map (\<lambda>p. ChunkEvent (openai_chunk p)) ps @ [ErrEvent ending]"
  using openai_stream_done [OF assms] openai_stream_cut [OF assms] by blast

lemma demo_openai_data: "plain_data ''{}'' \<and> (\<exists>p. openai_decodeStreamPayload ''{}'' = Inr p)"
proof
  show "plain_data ''{}''" by code_simp
  have "(case openai_decodeStreamPayload ''{}'' of Inl _ \<Rightarrow> False | Inr _ \<Rightarrow> True)" by code_simp
  then show "\<exists>p. openai_decodeStreamPayload ''{}'' = Inr p" by (simp split: sum.splits)
qed

theorem openai_stream_delivery_witness:
  "\<exists>p. fst (openai_stream_lines (demo_upstream (Inl IoEOF)) (plain_ctx :: (nat, unit) attempt_ctx) None
      IoEOF ''m'' [data_line ''{}''] 0) = [ChunkEvent (openai_chunk p), ErrEvent IoEOF]"
proof -
  obtain p where "list_all2 (\<lambda>d p. plain_data d \<and> d \<noteq> ''[DONE]'' \<and> openai_decodeStreamPayload d = Inr p)
      [''{}''] [p]" using demo_openai_data by auto
  from conjunct2 [OF openai_stream_delivery [OF demo_upstream_offers this]]
  have "fst (openai_stream_lines (demo_upstream (Inl IoEOF)) (plain_ctx :: (nat, unit) attempt_ctx) None
      IoEOF ''m'' (map data_line [''{}'']) 0) = map (\<lambda>p. ChunkEvent (openai_chunk p)) [p] @ [ErrEvent IoEOF]" .
  then show ?thesis by (intro exI [of _ p]) (simp only: list.map append.simps)
qed

text \<open>
  An Ollama stream is delivered chunk by chunk up to the object that says it is done; lines after
  that object are not read, and an end of the body without it is treated as an end of the stream.
\<close>

theorem ollama_stream_delivery:
  assumes "always_offers env" and "list_all2 is_payload_line ls ps"
  shows "ollama_stream_lines env ctx handle None model ls w = (ollama_expected model ps, w)"
  using assms by (rule ollama_stream_expected)

theorem ollama_stream_delivery_witness:
  "ollama_stream_lines (demo_upstream (Inl IoEOF)) (plain_ctx :: (nat, unit) attempt_ctx) None None ''m''
     [''{}''] 0 = (ollama_expected ''m'' [ollama_response.make [] [] \<lparr>msg_role = [], msg_content = []\<rparr> False [] 0 0 []], 0)"
proof -
  have "list_all2 is_payload_line [''{}'']
      [ollama_response.make [] [] \<lparr>msg_role = [], msg_content = []\<rparr> False [] 0 0 []]"
    by code_simp
  from ollama_stream_delivery [OF demo_upstream_offers this] show ?thesis .
qed

text \<open>
  C26: An Anthropic stream translated to chunks carries exactly the text of its deltas, in order. When
  the message ends properly there is no error and some chunk has a finish reason; when it breaks off
  the error comes last.
\<close>

theorem anthropic_stream_translation:
  assumes "always_offers env" and "list_all flowing events"
    and "tail = [] \<or> (\<exists>ev rest. tail = ev # rest \<and> stopping ev)"
    and "anthropic_stream_events env ctx handle ending (events @ tail) st w = (out, w')"
  shows "(tail \<noteq> [] \<and> list_all chunk_event out \<and>
      concat (map event_text out) = concat (map payload_text events) \<and>
      (as_finish_emitted st \<or> concat (map event_finishes out) \<noteq> [])) \<or>
    (tail = [] \<and> (\<exists>evs. out = evs @ [ErrEvent ending] \<and> list_all chunk_event evs \<and>
      concat (map event_text evs) = concat (map payload_text events)))"
  using assms(3)
proof (elim disjE exE conjE)
  assume "tail = []"
  with anthropic_stream_broken [OF assms(1,2)] assms(4) show ?thesis by simp
next
  fix ev rest assume "tail = ev # rest" and "stopping ev"
  with anthropic_stream_complete [OF assms(1,2)] assms(4) show ?thesis by blast
qed

definition demo_delta :: sse_event where
  "demo_delta =
     \<lparr>sse_name = ''content_block_delta'',
      sse_data = ''{'' @ [CHR 0x22] @ ''delta'' @ [CHR 0x22] @ '':{'' @ [CHR 0x22] @ ''type'' @ [CHR 0x22] @
        '':'' @ [CHR 0x22] @ ''text_delta'' @ [CHR 0x22] @ '','' @ [CHR 0x22] @ ''text'' @ [CHR 0x22] @ '':'' @
        [CHR 0x22] @ ''hi'' @ [CHR 0x22] @ ''}}''\<rparr>"

definition demo_stop :: sse_event where
  "demo_stop = \<lparr>sse_name = ''message_stop'', sse_data = ''{}''\<rparr>"

definition demo_stream_state :: anthropic_stream where
  "demo_stream_state = \<lparr>as_created = 0, as_id = ''msg'', as_model = ''m'', as_pending_role = [],
     as_role_emitted = False, as_finish_emitted = False\<rparr>"

theorem anthropic_stream_translation_witness:
  "concat (map event_text (fst (anthropic_stream_events (demo_upstream (Inl IoEOF))
     (plain_ctx :: (nat, unit) attempt_ctx) None IoEOF ([demo_delta] @ [demo_stop]) demo_stream_state 0))) = ''hi''"
proof -
  obtain out w where run: "anthropic_stream_events (demo_upstream (Inl IoEOF))
      (plain_ctx :: (nat, unit) attempt_ctx) None IoEOF ([demo_delta] @ [demo_stop]) demo_stream_state 0 = (out, w)"
    by (metis surj_pair)
  have demo: "flowing demo_delta" "payload_text demo_delta = ''hi''" "stopping demo_stop"
    by code_simp+
  from anthropic_stream_translation [OF demo_upstream_offers _ _ run] demo
  have "concat (map event_text out) = ''hi''" by simp
  with run show ?thesis by (simp only: fst_conv)
qed

section \<open>The chat service\<close>

text \<open>
  What a client of a stream receives is a prefix of the translated provider events up to the first
  error; with a context that does not end it is all of them; and the count reported to the span is
  the number of chunks sent.
\<close>

theorem stream_forwarding:
  "fst (forward_events ctxErr events n tr w) =
     take (length (fst (forward_events ctxErr events n tr w))) (map toCompletionEvent (until_error events)) \<and>
   ((\<forall>w. fst (ctxErr w) = None) \<longrightarrow>
     fst (forward_events ctxErr events n tr w) = map toCompletionEvent (until_error events)) \<and>
   fst (snd (forward_events ctxErr events n tr w)) =
     n + length (filter (\<lambda>e. case e of CChunk c \<Rightarrow> True | CErr e \<Rightarrow> False)
           (fst (forward_events ctxErr events n tr w)))"
  by (intro conjI impI forward_events_prefix forward_events_live forward_events_count) simp

theorem stream_forwarding_witness:
  "fst (forward_events (\<lambda>w. (None, w)) [ErrEvent IoEOF, ErrEvent CtxCanceled] 0 None (0 :: nat)) =
     [CErr IoEOF]"
  using stream_forwarding [of "\<lambda>w. (None, w)" "[ErrEvent IoEOF, ErrEvent CtxCanceled]" 0 None "0 :: nat"]
  by simp

end
