(* ===== verification/AuthStore.thy ===== *)
theory AuthStore
  imports Admission
begin

text \<open>
  \<open>internal/store/mysql/auth_store.go\<close> and \<open>bootstrap.go\<close>: the lookup of an API key, the creation of
  the tables and the seed of a development tenant. MySQL compares texts under the collation of the
  column, which is a parameter \<open>coll\<close>: two texts are equal to the database when their weights are.
\<close>

section \<open>Looking up a key\<close>

definition key_record :: "tenant_row \<Rightarrow> api_key_row \<Rightarrow> api_key_record" where
  "key_record t k =
     \<lparr>rec_tenant = \<lparr>tenant_id = t_id t, tenant_name = t_name t, rpm_limit = t_rpm_limit t,
                   tpm_limit = t_tpm_limit t, token_budget = t_token_budget t\<rparr>,
      rec_key_enabled = k_enabled k, rec_tenant_enabled = t_enabled t, rec_key_id = k_id k,
      rec_key_hash = k_hash k, rec_key_prefix = k_prefix k\<rparr>"

text \<open>The join of the statement, and its first row.\<close>

definition key_rows :: "(string \<Rightarrow> string) \<Rightarrow> string \<Rightarrow> db \<Rightarrow> (tenant_row \<times> api_key_row) list" where
  "key_rows coll keyHash d =
     [(t, k). k \<leftarrow> api_keys d, t \<leftarrow> tenants d, t_id t = k_tenant_id k, coll (k_hash k) = coll keyHash]"

definition LookupAPIKey :: "(string \<Rightarrow> string) \<Rightarrow> string \<Rightarrow> db \<Rightarrow> api_key_record res \<times> db" where
  "LookupAPIKey coll keyHash d =
     (case db_query (key_rows coll keyHash) d of
        (Inl e, d) \<Rightarrow>
          (if errors_is e SqlNoRows then (Inl ErrAPIKeyNotFound, d) else (Inl e, d))
      | (Inr [], d) \<Rightarrow> (Inl ErrAPIKeyNotFound, d)
      | (Inr ((t, k) # _), d) \<Rightarrow> (Inr (key_record t k), d))"

section \<open>The schema\<close>

definition createTenantsTableSQL :: "string \<times> string list" where
  "createTenantsTableSQL =
     (''tenants'', [''id'', ''name'', ''enabled'', ''rpm_limit'', ''tpm_limit'', ''token_budget'',
                    ''created_at'', ''updated_at''])"

definition createAPIKeysTableSQL :: "string \<times> string list" where
  "createAPIKeysTableSQL =
     (''api_keys'', [''id'', ''tenant_id'', ''key_hash'', ''key_prefix'', ''enabled'', ''created_at'',
                     ''updated_at''])"

definition createRequestUsagesTableSQL :: "string \<times> string list" where
  "createRequestUsagesTableSQL =
     (''request_usages'', [''id'', ''request_id'', ''tenant_id'', ''api_key_id'', ''model'', ''stream'',
                           ''status'', ''prompt_tokens'', ''completion_tokens'', ''total_tokens'',
                           ''created_at'', ''updated_at''])"

definition createRequestAttemptUsagesTableSQL :: "string \<times> string list" where
  "createRequestAttemptUsagesTableSQL =
     (''request_attempt_usages'', [''id'', ''request_id'', ''tenant_id'', ''api_key_id'', ''backend'',
                                   ''model'', ''stream'', ''status'', ''prompt_tokens'',
                                   ''completion_tokens'', ''total_tokens'', ''created_at'',
                                   ''updated_at''])"

definition createRouteRulesTableSQL :: "string \<times> string list" where
  "createRouteRulesTableSQL =
     (''route_rules'', [''id'', ''backend_name'', ''model'', ''priority'', ''enabled'', ''created_at'',
                        ''updated_at''])"

definition has_table :: "string \<Rightarrow> db \<Rightarrow> bool" where
  "has_table name d \<longleftrightarrow> map_of (db_schema d) name \<noteq> None"

definition has_column :: "string \<Rightarrow> string \<Rightarrow> db \<Rightarrow> bool" where
  "has_column name col d \<longleftrightarrow> (case map_of (db_schema d) name of None \<Rightarrow> False | Some cs \<Rightarrow> col \<in> set cs)"

definition create_table :: "string \<times> string list \<Rightarrow> db \<Rightarrow> db" where
  "create_table def d = (if has_table (fst def) d then d else d\<lparr>db_schema := db_schema d @ [def]\<rparr>)"

fun exec_all :: "(db \<Rightarrow> db) list \<Rightarrow> db \<Rightarrow> unit res \<times> db" where
  "exec_all [] d = (Inr (), d)"
| "exec_all (s # ss) d = bindS (db_exec (\<lambda>d. ((), s d))) (\<lambda>_. exec_all ss) d"

text \<open>
  \<open>ALTER TABLE \<dots> ADD COLUMN \<dots> DEFAULT \<dots> AFTER\<close>: the column appears after another and every row has
  the default in it.
\<close>

fun insert_after :: "string \<Rightarrow> string \<Rightarrow> string list \<Rightarrow> string list" where
  "insert_after prev col [] = [col]"
| "insert_after prev col (c # cs) = (if c = prev then c # col # cs else c # insert_after prev col cs)"

definition add_tenant_column :: "string \<Rightarrow> string \<Rightarrow> (tenant_row \<Rightarrow> tenant_row) \<Rightarrow> db \<Rightarrow> db" where
  "add_tenant_column prev col fill d =
     d\<lparr>db_schema := map (\<lambda>(name, cs). (name, if name = ''tenants'' then insert_after prev col cs else cs))
                      (db_schema d),
       tenants := map fill (tenants d)\<rparr>"

definition ensureColumnExists :: "string \<Rightarrow> string \<Rightarrow> (db \<Rightarrow> db) \<Rightarrow> db \<Rightarrow> unit res \<times> db" where
  "ensureColumnExists name col alter =
     bindS (db_query (has_column name col)) (\<lambda>present.
       if present then (\<lambda>d. (Inr (), d)) else db_exec (\<lambda>d. ((), alter d)))"

definition EnsureSchema :: "db \<Rightarrow> unit res \<times> db" where
  "EnsureSchema =
     bindS (exec_all (map create_table
       [createTenantsTableSQL, createAPIKeysTableSQL, createRequestUsagesTableSQL,
        createRequestAttemptUsagesTableSQL, createRouteRulesTableSQL])) (\<lambda>_.
     bindS (ensureColumnExists ''tenants'' ''enabled''
              (add_tenant_column ''name'' ''enabled'' (\<lambda>t. t\<lparr>t_enabled := True\<rparr>))) (\<lambda>_.
     bindS (ensureColumnExists ''tenants'' ''rpm_limit''
              (add_tenant_column ''enabled'' ''rpm_limit'' (\<lambda>t. t\<lparr>t_rpm_limit := 60\<rparr>))) (\<lambda>_.
     bindS (ensureColumnExists ''tenants'' ''tpm_limit''
              (add_tenant_column ''rpm_limit'' ''tpm_limit'' (\<lambda>t. t\<lparr>t_tpm_limit := 4000\<rparr>))) (\<lambda>_.
     ensureColumnExists ''tenants'' ''token_budget''
              (add_tenant_column ''tpm_limit'' ''token_budget''
                (\<lambda>t. t\<lparr>t_token_budget := 1000000\<rparr>))))))"

section \<open>The development tenant\<close>

definition developmentTenantName :: string where
  "developmentTenantName = ''local-dev''"

definition developmentAPIKey :: string where
  "developmentAPIKey = ''lag-local-dev-key''"

definition errTenantNotFound :: err where
  "errTenantNotFound = NewErr ''tenant not found after seed''"

record development_seed =
  seed_tenant_name :: string
  seed_api_key :: string

definition bootstrap_hashAPIKey :: "string \<Rightarrow> string" where
  "bootstrap_hashAPIKey rawKey = sha256_hex rawKey"

definition apiKeyPrefix :: "string \<Rightarrow> string" where
  "apiKeyPrefix rawKey =
     (let prefix = trim_space rawKey in if 12 < length prefix then take 12 prefix else prefix)"

text \<open>
  The two statements with \<open>ON DUPLICATE KEY UPDATE\<close>: the row whose unique column has the value is
  updated, or a new row is inserted. InnoDB takes an identifier from the counter in either case.
\<close>

definition upsert_tenant :: "(string \<Rightarrow> string) \<Rightarrow> string \<Rightarrow> db \<Rightarrow> db" where
  "upsert_tenant coll name d =
     (let d' = d\<lparr>next_tenant_id := Suc (next_tenant_id d)\<rparr> in
      if list_ex (\<lambda>t. coll (t_name t) = coll name) (tenants d)
      then d'\<lparr>tenants := map (\<lambda>t. if coll (t_name t) = coll name
                 then t\<lparr>t_enabled := True, t_rpm_limit := 60, t_tpm_limit := 4000, t_token_budget := 1000000\<rparr>
                 else t) (tenants d)\<rparr>
      else d'\<lparr>tenants := tenants d @
                [\<lparr>t_id = next_tenant_id d, t_name = name, t_enabled = True, t_rpm_limit = 60,
                  t_tpm_limit = 4000, t_token_budget = 1000000\<rparr>]\<rparr>)"

definition upsert_key :: "(string \<Rightarrow> string) \<Rightarrow> nat \<Rightarrow> string \<Rightarrow> string \<Rightarrow> db \<Rightarrow> db" where
  "upsert_key coll tid keyHash keyPrefix d =
     (let d' = d\<lparr>next_key_id := Suc (next_key_id d)\<rparr> in
      if list_ex (\<lambda>k. coll (k_hash k) = coll keyHash) (api_keys d)
      then d'\<lparr>api_keys := map (\<lambda>k. if coll (k_hash k) = coll keyHash
                 then k\<lparr>k_tenant_id := tid, k_enabled := True\<rparr> else k) (api_keys d)\<rparr>
      else d'\<lparr>api_keys := api_keys d @
                [\<lparr>k_id = next_key_id d, k_tenant_id = tid, k_hash = keyHash, k_prefix = keyPrefix,
                  k_enabled = True\<rparr>]\<rparr>)"

definition select_tenant_id :: "(string \<Rightarrow> string) \<Rightarrow> string \<Rightarrow> db \<Rightarrow> nat option" where
  "select_tenant_id coll name d =
     map_option t_id (find (\<lambda>t. coll (t_name t) = coll name) (tenants d))"

definition seed_tenant_id :: "(string \<Rightarrow> string) \<Rightarrow> db \<Rightarrow> nat res \<times> db" where
  "seed_tenant_id coll d =
     (case db_query (select_tenant_id coll developmentTenantName) d of
        (Inl e, d) \<Rightarrow> (if errors_is e SqlNoRows then (Inl errTenantNotFound, d) else (Inl e, d))
      | (Inr None, d) \<Rightarrow> (Inl errTenantNotFound, d)
      | (Inr (Some tid), d) \<Rightarrow> (Inr tid, d))"

definition SeedDevelopmentData :: "(string \<Rightarrow> string) \<Rightarrow> db \<Rightarrow> development_seed res \<times> db" where
  "SeedDevelopmentData coll =
     bindS EnsureSchema (\<lambda>_.
     bindS (db_exec (\<lambda>d. ((), upsert_tenant coll developmentTenantName d))) (\<lambda>_.
     bindS (seed_tenant_id coll) (\<lambda>tid.
     bindS (db_exec (\<lambda>d. ((), upsert_key coll tid (bootstrap_hashAPIKey developmentAPIKey)
                              (apiKeyPrefix developmentAPIKey) d))) (\<lambda>_ d.
     (Inr \<lparr>seed_tenant_name = developmentTenantName, seed_api_key = developmentAPIKey\<rparr>, d)))))"

end
