(* ===== verification/RoutingStore.thy ===== *)
theory RoutingStore
  imports AuthStore Router
begin

text \<open>
  Where the router's rules come from: \<open>internal/store/mysql/routing_store.go\<close> keeps them in a table,
  \<open>internal/routingpolicy\<close> derives them from the configuration, \<open>cmd/routerulectl\<close> parses them from
  arguments, and \<open>applyRouteRules\<close> of \<open>cmd/gateway\<close> gives them to the backends.
\<close>

section \<open>The table\<close>

record route_rule_record =
  rrec_backend_name :: string
  rrec_model :: string
  rrec_priority :: int
  rrec_enabled :: bool

definition normalize_model :: "string \<Rightarrow> string" where
  "normalize_model model = trim_space (to_lower model)"

definition tableExists :: "string \<Rightarrow> db \<Rightarrow> bool res \<times> db" where
  "tableExists tableName = db_query (has_table tableName)"

text \<open>\<open>ORDER BY priority ASC, backend_name ASC, model ASC\<close>, under the collation \<open>coll\<close>.\<close>

definition rule_order :: "(string \<Rightarrow> string) \<Rightarrow> route_rule_row \<Rightarrow> int \<times> string \<times> string" where
  "rule_order coll r = (rr_priority r, coll (rr_backend_name r), coll (rr_model r))"

definition select_rules :: "(string \<Rightarrow> string) \<Rightarrow> db \<Rightarrow> route_rule_row list" where
  "select_rules coll d = sort_key (rule_order coll) (filter rr_enabled (route_rules d))"

definition scan_rule :: "route_rule_row \<Rightarrow> route_rule_record" where
  "scan_rule r =
     \<lparr>rrec_backend_name = trim_space (rr_backend_name r), rrec_model = normalize_model (rr_model r),
      rrec_priority = rr_priority r, rrec_enabled = rr_enabled r\<rparr>"

definition ListRouteRules :: "(string \<Rightarrow> string) \<Rightarrow> db \<Rightarrow> route_rule_record list res \<times> db" where
  "ListRouteRules coll =
     bindS (tableExists ''route_rules'') (\<lambda>exists.
       if \<not> exists then (\<lambda>d. (Inr [], d))
       else bindS (db_query (select_rules coll)) (\<lambda>rows d. (Inr (map scan_rule rows), d)))"

text \<open>
  An insert that the unique key on backend and model refuses is an error of the statement, and so is
  a value that its column cannot hold: \<open>priority\<close> is an \<open>INT\<close>, the names are \<open>VARCHAR(255)\<close>.
\<close>

definition duplicate_entry :: err where
  "duplicate_entry = NewErr ''Error 1062 (23000): Duplicate entry''"

definition column_overflow :: err where
  "column_overflow = NewErr ''Error 1264 (22003): Out of range value or data too long for column''"

definition fits_columns :: "route_rule_row \<Rightarrow> bool" where
  "fits_columns r \<longleftrightarrow>
     - (2 ^ 31) \<le> rr_priority r \<and> rr_priority r < 2 ^ 31 \<and>
     rune_count (rr_backend_name r) \<le> 255 \<and> rune_count (rr_model r) \<le> 255"

definition rule_row :: "route_rule_record \<Rightarrow> route_rule_row" where
  "rule_row r =
     \<lparr>rr_backend_name = trim_space (rrec_backend_name r), rr_model = normalize_model (rrec_model r),
      rr_priority = rrec_priority r, rr_enabled = True\<rparr>"

definition same_rule_key :: "(string \<Rightarrow> string) \<Rightarrow> route_rule_row \<Rightarrow> route_rule_row \<Rightarrow> bool" where
  "same_rule_key coll r q \<longleftrightarrow>
     coll (rr_backend_name r) = coll (rr_backend_name q) \<and> coll (rr_model r) = coll (rr_model q)"

definition insert_rule_statement ::
    "(string \<Rightarrow> string) \<Rightarrow> route_rule_row \<Rightarrow> db \<Rightarrow> unit res \<times> db" where
  "insert_rule_statement coll row d =
     (if \<not> fits_columns row then (Inl column_overflow, d)
      else if list_ex (same_rule_key coll row) (route_rules d) then (Inl duplicate_entry, d)
      else (Inr (), d\<lparr>route_rules := route_rules d @ [row]\<rparr>))"

fun insert_rules :: "(string \<Rightarrow> string) \<Rightarrow> route_rule_record list \<Rightarrow> db \<Rightarrow> unit res \<times> db" where
  "insert_rules coll [] d = (Inr (), d)"
| "insert_rules coll (r # rs) d =
     bindS (bindS (db_exec (insert_rule_statement coll (rule_row r))) (\<lambda>x d. (x, d)))
       (\<lambda>_. insert_rules coll rs) d"

definition ReplaceRouteRules :: "(string \<Rightarrow> string) \<Rightarrow> route_rule_record list \<Rightarrow> db \<Rightarrow> unit res \<times> db" where
  "ReplaceRouteRules coll rules =
     db_tx (bindS (db_exec (\<lambda>d. ((), d\<lparr>route_rules := []\<rparr>))) (\<lambda>_. insert_rules coll rules))"

section \<open>Rules from the configuration\<close>

record provider_endpoint_config =
  pe_type :: string
  pe_name :: string
  pe_base_url :: string
  pe_api_key :: string
  pe_model :: string
  pe_models :: "string list"
  pe_max_tokens :: int
  pe_priority :: int
  pe_timeout_seconds :: int
  pe_max_retries :: int
  pe_retry_backoff_milliseconds :: int

record provider_config =
  pc_backends :: "provider_endpoint_config list"
  pc_primary :: provider_endpoint_config
  pc_secondary :: provider_endpoint_config

definition backend_role :: "nat \<Rightarrow> string" where
  "backend_role index = ''backends['' @ itoa (int index) @ '']''"

definition configuredProviderEndpoints :: "provider_config \<Rightarrow> (string \<times> provider_endpoint_config) list" where
  "configuredProviderEndpoints cfg =
     (if 0 < length (pc_backends cfg)
      then map (\<lambda>(index, e). (backend_role index, e)) (enumerate 0 (pc_backends cfg))
      else [(''primary'', pc_primary cfg), (''secondary'', pc_secondary cfg)])"

definition resolveProviderName :: "string \<Rightarrow> provider_endpoint_config \<Rightarrow> string" where
  "resolveProviderName role cfg =
     (let name = trim_space (pe_name cfg) in
      if name \<noteq> [] then name
      else let providerType = to_lower (trim_space (pe_type cfg));
               providerType = (if providerType = [] then ''mock'' else providerType)
           in providerType @ ''-'' @ role)"

text \<open>The loop that \<open>normalizeRouteRuleModels\<close> and \<open>normalizeModels\<close> share.\<close>

fun normalize_loop :: "string set \<Rightarrow> string list \<Rightarrow> string list" where
  "normalize_loop seen [] = []"
| "normalize_loop seen (model # models) =
     (let trimmed = normalize_model model in
      if trimmed = [] then normalize_loop seen models
      else if trimmed \<in> seen then normalize_loop seen models
      else trimmed # normalize_loop (insert trimmed seen) models)"

definition normalizeRouteRuleModels :: "string list \<Rightarrow> string list" where
  "normalizeRouteRuleModels models = normalize_loop {} models"

definition endpoint_rules :: "string \<times> provider_endpoint_config \<Rightarrow> route_rule_record list" where
  "endpoint_rules rc =
     (let (role, cfg) = rc; name = resolveProviderName role cfg;
          models = normalizeRouteRuleModels (pe_models cfg);
          rule = (\<lambda>model. \<lparr>rrec_backend_name = name, rrec_model = model,
                           rrec_priority = pe_priority cfg, rrec_enabled = True\<rparr>)
      in if length models = 0 then [rule []] else map rule models)"

definition DesiredRouteRuleSeeds :: "provider_config \<Rightarrow> route_rule_record list" where
  "DesiredRouteRuleSeeds cfg = concat (map endpoint_rules (configuredProviderEndpoints cfg))"

section \<open>Rules from arguments\<close>

text \<open>
  \<open>%q\<close> of \<open>fmt\<close>: quotes, backslashes and control bytes are escaped. Bytes outside ASCII stand for
  printable runes, which stay as they are.
\<close>

definition go_quote_char :: "char \<Rightarrow> string" where
  "go_quote_char c =
     (if c = CHR 0x22 then [CHR 0x5C, CHR 0x22]
      else if c = CHR 0x5C then [CHR 0x5C, CHR 0x5C]
      else if c = CHR 0x07 then [CHR 0x5C, CHR ''a'']
      else if c = CHR 0x08 then [CHR 0x5C, CHR ''b'']
      else if c = CHR 0x0C then [CHR 0x5C, CHR ''f'']
      else if c = CHR 0x0A then [CHR 0x5C, CHR ''n'']
      else if c = CHR 0x0D then [CHR 0x5C, CHR ''r'']
      else if c = CHR 0x09 then [CHR 0x5C, CHR ''t'']
      else if c = CHR 0x0B then [CHR 0x5C, CHR ''v'']
      else let n = of_char c :: int in
        if n < 32 \<or> n = 127
        then [CHR 0x5C, CHR ''x'', ''0123456789abcdef'' ! nat (n div 16), ''0123456789abcdef'' ! nat (n mod 16)]
        else [c])"

definition go_quote :: "string \<Rightarrow> string" where
  "go_quote s = [CHR 0x22] @ concat (map go_quote_char s) @ [CHR 0x22]"

definition atoi_error :: "string \<Rightarrow> err" where
  "atoi_error s =
     NewErr (''strconv.Atoi: parsing '' @ go_quote s @ '': '' @
       (case parse_signed s of None \<Rightarrow> ''invalid syntax'' | Some _ \<Rightarrow> ''value out of range''))"

definition parseRuleSpec :: "string \<Rightarrow> route_rule_record res" where
  "parseRuleSpec spec =
     (case split_char CHR '','' spec of
        [backend, model, priority] \<Rightarrow>
          (let backendName = trim_space backend in
           if backendName = []
           then Inl (NewErr (''invalid rule '' @ go_quote spec @ '': backend_name is required''))
           else case atoi (trim_space priority) of
             None \<Rightarrow>
               Inl (WrapErr (''invalid rule '' @ go_quote spec @ '': parse priority'')
                      (atoi_error (trim_space priority)))
           | Some p \<Rightarrow>
               Inr \<lparr>rrec_backend_name = backendName, rrec_model = normalize_model model,
                    rrec_priority = p, rrec_enabled = True\<rparr>)
      | _ \<Rightarrow> Inl (NewErr (''invalid rule '' @ go_quote spec @
                 '': expected backend_name,model,priority'')))"

fun parse_rules :: "string list \<Rightarrow> route_rule_record list res" where
  "parse_rules [] = Inr []"
| "parse_rules (spec # specs) =
     (case parseRuleSpec spec of
        Inl e \<Rightarrow> Inl e
      | Inr rule \<Rightarrow> (case parse_rules specs of Inl e \<Rightarrow> Inl e | Inr rules \<Rightarrow> Inr (rule # rules)))"

text \<open>\<open>parseReplaceArgs\<close> after \<open>flag\<close> has collected the values of \<open>-rule\<close>.\<close>

definition parseReplaceArgs :: "string list \<Rightarrow> route_rule_record list res" where
  "parseReplaceArgs ruleSpecs =
     (if length ruleSpecs = 0 then Inl (NewErr ''at least one -rule is required'')
      else parse_rules ruleSpecs)"

section \<open>Rules for the backends\<close>

text \<open>The first loop of \<open>applyRouteRules\<close>: the rules and the smallest priority of every backend.\<close>

fun group_rules ::
    "route_rule_record list \<Rightarrow> (string \<Rightarrow> route_rule list option) \<times> (string \<Rightarrow> int option) \<Rightarrow>
     ((string \<Rightarrow> route_rule list option) \<times> (string \<Rightarrow> int option)) res" where
  "group_rules [] acc = Inr acc"
| "group_rules (r # rs) (byBackend, minPriority) =
     (let backendName = trim_space (rrec_backend_name r) in
      if backendName = [] then Inl (NewErr ''route rule backend_name is required'')
      else
        let rule = \<lparr>rule_model = normalize_model (rrec_model r), rule_priority = rrec_priority r\<rparr>;
            old = (case byBackend backendName of None \<Rightarrow> [] | Some l \<Rightarrow> l);
            lower = (case minPriority backendName of None \<Rightarrow> True | Some current \<Rightarrow> rrec_priority r < current)
        in group_rules rs
             (byBackend(backendName \<mapsto> old @ [rule]),
              if lower then minPriority(backendName \<mapsto> rrec_priority r) else minPriority))"

definition route_backend ::
    "(string \<Rightarrow> route_rule list option) \<Rightarrow> (string \<Rightarrow> int option) \<Rightarrow> ('m, 'h) backend \<Rightarrow>
     ('m, 'h) backend option" where
  "route_backend byBackend minPriority b =
     (case byBackend (be_name b) of
        None \<Rightarrow> None
      | Some rules \<Rightarrow>
          Some (b\<lparr>be_rules := rules, be_models := [],
                  be_priority := (case minPriority (be_name b) of None \<Rightarrow> 0 | Some p \<Rightarrow> p)\<rparr>))"

text \<open>
  Go ranges over the map of rules in no fixed order, so any backend that is not known may be the one
  an error names; here it is the one of the first rule.
\<close>

definition applyRouteRules ::
    "('m, 'h) backend list \<Rightarrow> route_rule_record list \<Rightarrow> (('m, 'h) backend list \<times> bool) res" where
  "applyRouteRules backends rules =
     (if length rules = 0 then Inr (backends, False)
      else case group_rules rules (\<lambda>_. None, \<lambda>_. None) of
        Inl e \<Rightarrow> Inl e
      | Inr (byBackend, minPriority) \<Rightarrow>
          (let filtered = List.map_filter (route_backend byBackend minPriority) backends;
               seen = be_name ` set filtered
           in case find (\<lambda>r. trim_space (rrec_backend_name r) \<notin> seen) rules of
                Some r \<Rightarrow> Inl (NewErr (''route rule references unknown backend '' @
                            go_quote (trim_space (rrec_backend_name r))))
              | None \<Rightarrow>
                  if length filtered = 0
                  then Inl (NewErr ''route rules configured but no routed backends remained'')
                  else Inr (filtered, True)))"

section \<open>Lemmas\<close>

text \<open>Normalizing a model again changes nothing.\<close>

lemma trim_front_set: "set (trim_front es s) \<subseteq> set s"
  using trim_front_suffix [of s es] by (metis set_append Un_upper2)

lemma trim_space_set: "set (trim_space s) \<subseteq> set s"
  using trim_front_set [of "map rev ws_runes" "rev (trim_left s)"] trim_front_set [of ws_runes s]
  by (auto simp: trim_space_def trim_right_def trim_left_def)

lemma to_lower_trim [simp]: "to_lower (trim_space (to_lower s)) = trim_space (to_lower s)"
proof -
  have "lower_char c = c" if "c \<in> set (trim_space (to_lower s))" for c
    using that trim_space_set [of "to_lower s"] by (auto simp: to_lower_def)
  then show ?thesis unfolding to_lower_def [of "trim_space (to_lower s)"] by (rule map_idI)
qed

lemma normalize_model_idem [simp]: "normalize_model (normalize_model m) = normalize_model m"
  by (simp add: normalize_model_def)

lemma scan_rule_row [simp]:
  "scan_rule (rule_row r) = r\<lparr>rrec_backend_name := trim_space (rrec_backend_name r),
     rrec_model := normalize_model (rrec_model r), rrec_enabled := True\<rparr>"
  by (simp add: scan_rule_def rule_row_def)

text \<open>The loop keeps the first of equal names: it removes duplicates from the back.\<close>

lemma normalize_loop_eq:
  "normalize_loop seen ms =
     filter (\<lambda>m. m \<notin> seen) (rev (remdups (rev (filter (\<lambda>m. m \<noteq> []) (map normalize_model ms)))))"
proof (induction ms arbitrary: seen)
  case Nil
  then show ?case by simp
next
  case (Cons m ms)
  let ?ns = "filter (\<lambda>m. m \<noteq> []) (map normalize_model ms)"
  have front: "rev (remdups (rev (x # xs))) = x # filter (\<lambda>y. y \<noteq> x) (rev (remdups (rev xs)))"
    for x :: string and xs
  proof (induction xs rule: rev_induct)
    case Nil
    then show ?case by simp
  next
    case (snoc y ys)
    then show ?case by (cases "y \<in> insert x (set ys)") auto
  qed
  show ?case
    unfolding normalize_loop.simps Let_def Cons.IH
    using front [of "normalize_model m" ?ns] by (auto intro: filter_cong)
qed

end
