(* ===== verification/RouterFacts.thy ===== *)
theory RouterFacts
  imports Router
begin

text \<open>
  What the router does: the ranking is the stable order of its comparison over the backends its
  rules admit, the candidates are the backends that are not cooling or all of them, a completion
  comes from the first candidate that answers, a committed stream is never moved to another
  backend, and the failure counts form a circuit breaker.
\<close>

section \<open>Ranking\<close>

text \<open>The priorities a list of rules gives: minima over the rules that match.\<close>

definition rule_key :: "route_rule \<Rightarrow> string" where
  "rule_key r = trim_space (to_lower (rule_model r))"

lemma rule_priorities_min:
  assumes "model \<noteq> []"
  shows "rule_priorities model rules (ex, gen) =
    (fold min (map rule_priority (filter (\<lambda>r. rule_key r = model) rules)) ex,
     fold min (map rule_priority (filter (\<lambda>r. rule_key r = []) rules)) gen)"
  using assms
  by (induction rules arbitrary: ex gen) (auto simp: rule_key_def Let_def min_def)

lemma rule_priorities_generic:
  "snd (rule_priorities model rules (ex, gen)) =
     fold min (map rule_priority (filter (\<lambda>r. rule_key r = []) rules)) gen"
  by (induction rules arbitrary: ex gen) (auto simp: rule_key_def Let_def min_def)

lemma fold_min_le: "fold min xs (m :: int) \<le> m"
proof (induction xs arbitrary: m)
  case Nil
  then show ?case by simp
next
  case (Cons x xs)
  have "fold min xs (min x m) \<le> min x m" by (rule Cons.IH)
  then show ?case by simp
qed

lemma fold_min_eq_bound: "fold min xs (m :: int) = m \<longleftrightarrow> (\<forall>x \<in> set xs. m \<le> x)"
proof (induction xs arbitrary: m)
  case Nil
  then show ?case by simp
next
  case (Cons x xs)
  show ?case
  proof (cases "m \<le> x")
    case True
    with Cons show ?thesis by (simp add: min_absorb2)
  next
    case False
    then have "fold min (x # xs) m = fold min xs x" by (simp add: min_absorb1)
    with False fold_min_le [of xs x] show ?thesis by auto
  qed
qed

text \<open>
  A backend with rules is applicable exactly when one of them is for the model, or for any model,
  and its priority is not the largest integer, which the code uses as ``none''.
\<close>

lemma applicable_rules_iff:
  assumes "\<forall>r \<in> set (be_rules b). rule_priority r \<le> max_int"
  shows "applicable model b \<longleftrightarrow> be_rules b = [] \<or>
    (\<exists>r \<in> set (be_rules b). (rule_key r = [] \<or> rule_key r = model) \<and> rule_priority r \<noteq> max_int)"
proof (cases "be_rules b = []")
  case True
  then show ?thesis by (simp add: applicable_def backendPreference_def)
next
  case False
  let ?e = "fold min (map rule_priority (filter (\<lambda>r. rule_key r = model) (be_rules b))) max_int"
  let ?g = "fold min (map rule_priority (filter (\<lambda>r. rule_key r = []) (be_rules b))) max_int"
  have e: "?e = max_int \<longleftrightarrow> (\<forall>r \<in> set (be_rules b). rule_key r = model \<longrightarrow> rule_priority r = max_int)"
    unfolding fold_min_eq_bound using assms by fastforce
  have g: "?g = max_int \<longleftrightarrow> (\<forall>r \<in> set (be_rules b). rule_key r = [] \<longrightarrow> rule_priority r = max_int)"
    unfolding fold_min_eq_bound using assms by fastforce
  obtain x where x: "rule_priorities model (be_rules b) (max_int, max_int) = (x, ?g)"
    using rule_priorities_generic by (metis prod.collapse)
  show ?thesis
  proof (cases "model = []")
    case True
    then show ?thesis
      using False g x
      by (auto simp: applicable_def backendPreference_def routeRulePreference_def no_priority_def)
  next
    case m: False
    then have "x = ?e" using x rule_priorities_min [OF m] by simp
    then show ?thesis
      using False e g x m
      by (auto simp: applicable_def backendPreference_def routeRulePreference_def no_priority_def)
  qed
qed

definition normal_model :: "string \<Rightarrow> string" where
  "normal_model model = trim_space (to_lower model)"

lemma sort_key_short: "length xs \<le> 1 \<Longrightarrow> sort_key f xs = xs"
  by (cases xs; cases "tl xs") simp_all

lemma rankBackends_sort:
  "rankBackends bs model =
     sort_key (backend_rank (normal_model model)) (filter (applicable (normal_model model)) bs)"
  by (simp add: rankBackends_def normal_model_def sort_key_short Let_def)

lemma rankBackends_set:
  "set (rankBackends bs model) = {b \<in> set bs. applicable (normal_model model) b}"
  by (auto simp: rankBackends_sort)

lemma rankBackends_mset:
  "mset (rankBackends bs model) = mset (filter (applicable (normal_model model)) bs)"
  by (simp add: rankBackends_sort)

lemma rankBackends_sorted:
  "sorted (map (backend_rank (normal_model model)) (rankBackends bs model))"
  by (simp add: rankBackends_sort)

lemma rankBackends_stable:
  "filter (\<lambda>b. backend_rank (normal_model model) b = k) (rankBackends bs model) =
     filter (\<lambda>b. backend_rank (normal_model model) b = k) (filter (applicable (normal_model model)) bs)"
  unfolding rankBackends_sort by (rule sort_key_filter_stable)

lemma rank_le_iff:
  "l \<le> (r :: rank) \<longleftrightarrow>
     rank_score r < rank_score l \<or>
     rank_score l = rank_score r \<and>
       (rank_priority l < rank_priority r \<or>
        rank_priority l = rank_priority r \<and> rank_backend l \<le> rank_backend r)"
  by (cases l; cases r) (auto simp: less_eq_rank_def less_rank_def rank_before_def)

section \<open>Candidates\<close>

lemma candidates_of_cases:
  assumes "candidates_of p model s = (cs, sk)"
  obtains (some) "cs = filter (\<lambda>b. \<not> cooling s (be_name b)) (rankBackends (ro_backends p) model)"
      "sk = filter (\<lambda>b. cooling s (be_name b)) (rankBackends (ro_backends p) model)" "cs \<noteq> []"
    | (all_cooling) "cs = rankBackends (ro_backends p) model" "sk = []"
      "\<forall>b \<in> set cs. cooling s (be_name b)"
proof (cases "filter (\<lambda>b. \<not> cooling s (be_name b)) (rankBackends (ro_backends p) model) = []")
  case True
  then have "filter (\<lambda>b. cooling s (be_name b)) (rankBackends (ro_backends p) model) =
      rankBackends (ro_backends p) model"
    by (simp add: filter_empty_conv filter_id_conv)
  with True assms all_cooling show thesis
    by (auto simp: candidates_of_def Let_def filter_empty_conv)
next
  case False
  with assms some show thesis by (auto simp: candidates_of_def Let_def)
qed

lemma candidates_of_set:
  assumes "candidates_of p model s = (cs, sk)"
  shows "set cs \<subseteq> {b \<in> set (ro_backends p). applicable (normal_model model) b}"
    and "cs = [] \<longleftrightarrow> (\<forall>b \<in> set (ro_backends p). \<not> applicable (normal_model model) b)"
proof -
  show "set cs \<subseteq> {b \<in> set (ro_backends p). applicable (normal_model model) b}"
    using assms by (cases rule: candidates_of_cases) (auto simp: rankBackends_set)
  have "cs = [] \<longleftrightarrow> rankBackends (ro_backends p) model = []"
    using assms by (cases rule: candidates_of_cases) auto
  also have "\<dots> \<longleftrightarrow> set (rankBackends (ro_backends p) model) = {}" by simp
  also have "\<dots> \<longleftrightarrow> (\<forall>b \<in> set (ro_backends p). \<not> applicable (normal_model model) b)"
    by (auto simp: rankBackends_set)
  finally show "cs = [] \<longleftrightarrow> (\<forall>b \<in> set (ro_backends p). \<not> applicable (normal_model model) b)" .
qed

lemma status_healthy:
  "map st_healthy (BackendStatuses p s) = map (\<lambda>b. \<not> cooling s (be_name b)) (ro_backends p)"
  by (simp add: BackendStatuses_def cooling_def Let_def)

lemma Ready_iff: "Ready p s \<longleftrightarrow> (\<exists>b \<in> set (ro_backends p). \<not> cooling s (be_name b))"
  by (auto simp: Ready_def BackendStatuses_def cooling_def Let_def list_ex_iff)

section \<open>Dispatching a completion\<close>

lemma observe_fields [simp]:
  "rs_states (observe p e s) = rs_states s" "rs_clock (observe p e s) = rs_clock s"
  by (simp_all add: observe_def)

lemma observeSkipped_fields [simp]:
  "rs_states (observeSkipped p op bs s) = rs_states s"
  "rs_clock (observeSkipped p op bs s) = rs_clock s"
proof -
  have "rs_states (fold (\<lambda>b. observe p (f b)) bs s) = rs_states s \<and>
        rs_clock (fold (\<lambda>b. observe p (f b)) bs s) = rs_clock s" for f
    by (induction bs arbitrary: s) simp_all
  then show "rs_states (observeSkipped p op bs s) = rs_states s"
    and "rs_clock (observeSkipped p op bs s) = rs_clock s"
    by (simp_all add: observeSkipped_def)
qed

lemma observe_success_fields [simp]:
  "rs_states (observe_success p op n a d r s) = rs_states s"
  "rs_clock (observe_success p op n a d r s) = rs_clock s"
  by (simp_all add: observe_success_def Let_def)

lemma fail_backend_states:
  "rs_states (fail_backend p typ op n a d e s) =
     (rs_states s)(n := count_failure p (rs_clock s) (rs_states s n))"
  "rs_clock (fail_backend p typ op n a d e s) = rs_clock s"
  by (simp_all add: fail_backend_def markFailure_def set_state_def Let_def)

text \<open>
  \<open>create_failed p ctx req attempt bs s s'\<close>: the backends \<open>bs\<close> were called one after the other from
  \<open>s\<close>, each gave an error that is not one of accounting and had its failure counted, and \<open>s'\<close> is
  the state after that.
\<close>

inductive create_failed ::
    "('m, 'h) router \<Rightarrow> ('m rstate_scheme, 'h) attempt_ctx \<Rightarrow> chat_completion_request \<Rightarrow> int \<Rightarrow>
     ('m, 'h) backend list \<Rightarrow> err \<Rightarrow> err \<Rightarrow> 'm rstate_scheme \<Rightarrow> 'm rstate_scheme \<Rightarrow> bool"
  for p ctx req where
  none: "create_failed p ctx req attempt [] e e s s"
| one: "create_failed p ctx req attempt (b # bs) e0 e' s s'"
    if "CreateChatCompletion (be_provider b) (WithAttemptBackend (be_name b) ctx) req s = (Inl e, s1)"
      and "\<not> IsAttemptAccountingError e"
      and "create_failed p ctx req (attempt + 1) bs e e'
        (fail_backend p ''provider_request_failed'' ''create'' (be_name b) attempt
          (time_sub (rs_clock s1) (rs_clock s)) e s1) s'"

inductive_cases create_failed_NilE: "create_failed p ctx req a [] e e' s s'"
inductive_cases create_failed_ConsE: "create_failed p ctx req a (b # bs) e e' s s'"

text \<open>The three ways the loop ends.\<close>

lemma create_loop_cases:
  assumes "create_loop p ctx req bs attempt e0 s = (r, s')"
  obtains (answered) pre b post e s1 resp s2 where "bs = pre @ b # post"
      "create_failed p ctx req attempt pre e0 e s s1"
      "CreateChatCompletion (be_provider b) (WithAttemptBackend (be_name b) ctx) req s1 = (Inr resp, s2)"
      "r = Inr resp" "rs_states s' = (rs_states s2)(be_name b :=
        zero_state\<lparr>bs_last_probe_at := bs_last_probe_at (rs_states s2 (be_name b))\<rparr>)"
    | (accounting) pre b post e s1 e' where "bs = pre @ b # post"
      "create_failed p ctx req attempt pre e0 e s s1"
      "CreateChatCompletion (be_provider b) (WithAttemptBackend (be_name b) ctx) req s1 = (Inl e', s')"
      "IsAttemptAccountingError e'" "r = Inl e'"
    | (exhausted) e where "create_failed p ctx req attempt bs e0 e s s'" "r = Inl e"
  using assms
proof (induction bs arbitrary: attempt e0 s thesis)
  case Nil
  then show ?case by (auto intro: create_failed.none)
next
  case (Cons b bs)
  obtain x s1 where x: "CreateChatCompletion (be_provider b) (WithAttemptBackend (be_name b) ctx) req s =
      (x, s1)" by fastforce
  show ?case
  proof (cases x)
    case (Inr resp)
    then have "r = Inr resp" and "rs_states s' = (rs_states s1)(be_name b :=
        zero_state\<lparr>bs_last_probe_at := bs_last_probe_at (rs_states s1 (be_name b))\<rparr>)"
      using Cons.prems(4) x by (auto simp: Let_def markSuccess_def set_state_def)
    then show ?thesis
      using Cons.prems(1) [of "[]" b bs] create_failed.none x Inr by fastforce
  next
    case (Inl e)
    show ?thesis
    proof (cases "IsAttemptAccountingError e")
      case True
      then show ?thesis
        using Cons.prems(2) [of "[]" b bs] create_failed.none Cons.prems(4) x Inl
        by (fastforce simp: Let_def)
    next
      case False
      let ?s2 = "fail_backend p ''provider_request_failed'' ''create'' (be_name b) attempt
        (time_sub (rs_clock s1) (rs_clock s)) e s1"
      have rest: "create_loop p ctx req bs (attempt + 1) e ?s2 = (r, s')"
        using Cons.prems(4) x Inl False by (simp add: Let_def)
      note step = create_failed.one [OF x [unfolded Inl] False]
      show ?thesis
      proof (rule Cons.IH [of "attempt + 1" e ?s2])
        fix pre b' post e' t1 resp t2
        assume "bs = pre @ b' # post" and f: "create_failed p ctx req (attempt + 1) pre e e' ?s2 t1"
          and "CreateChatCompletion (be_provider b') (WithAttemptBackend (be_name b') ctx) req t1 =
            (Inr resp, t2)" and "r = Inr resp"
          and "rs_states s' = (rs_states t2)(be_name b' :=
            zero_state\<lparr>bs_last_probe_at := bs_last_probe_at (rs_states t2 (be_name b'))\<rparr>)"
        then show thesis
          by (intro Cons.prems(1) [of "b # pre" b' post, OF _ step [OF f]]) simp_all
      next
        fix pre b' post e' t1 e''
        assume "bs = pre @ b' # post" and f: "create_failed p ctx req (attempt + 1) pre e e' ?s2 t1"
          and "CreateChatCompletion (be_provider b') (WithAttemptBackend (be_name b') ctx) req t1 =
            (Inl e'', s')" and "IsAttemptAccountingError e''" and "r = Inl e''"
        then show thesis
          by (intro Cons.prems(2) [of "b # pre" b' post, OF _ step [OF f]]) simp_all
      next
        fix e' assume f: "create_failed p ctx req (attempt + 1) bs e e' ?s2 s'" and "r = Inl e'"
        then show thesis by (intro Cons.prems(3) [OF step [OF f]])
      qed (rule rest)
    qed
  qed
qed

lemma create_failed_all:
  "create_failed p ctx req a bs e e' s s' \<Longrightarrow> b \<in> set bs \<Longrightarrow>
   \<exists>t e t'. CreateChatCompletion (be_provider b) (WithAttemptBackend (be_name b) ctx) req t = (Inl e, t')"
  by (induction rule: create_failed.induct) auto

text \<open>With at least one candidate, the error returned is a backend's.\<close>

lemma create_failed_last:
  "create_failed p ctx req a bs e e' s s' \<Longrightarrow> bs \<noteq> [] \<Longrightarrow> \<not> IsAttemptAccountingError e'"
proof (induction rule: create_failed.induct)
  case (one b s e s1 attempt bs e' s' e0)
  show ?case
  proof (cases bs)
    case Nil
    with one show ?thesis by (auto elim: create_failed_NilE)
  next
    case (Cons b' bs')
    with one show ?thesis by simp
  qed
qed simp

section \<open>The circuit breaker\<close>

definition breaker_ok :: "('m, 'h) router \<Rightarrow> backend_state \<Rightarrow> bool" where
  "breaker_ok p st \<longleftrightarrow> 0 \<le> bs_consecutive_failures st \<and>
     (bs_unhealthy_until st \<noteq> 0 \<longrightarrow> ro_failure_threshold p \<le> bs_consecutive_failures st)"

definition router_ok :: "('m, 'h) router \<Rightarrow> 'm rstate_scheme \<Rightarrow> bool" where
  "router_ok p s \<longleftrightarrow> (\<forall>n. breaker_ok p (rs_states s n))"

lemma router_New_positive:
  "0 < ro_failure_threshold (router_New bs cfg)" "0 < ro_cooldown (router_New bs cfg)"
  by (auto simp: router_New_def Let_def second_def)

lemma breaker_ok_zero: "breaker_ok p (zero_state\<lparr>bs_last_probe_at := t, bs_last_probe_error := m\<rparr>)"
  "breaker_ok p (zero_state\<lparr>bs_last_probe_at := t\<rparr>)"
  by (simp_all add: breaker_ok_def zero_state_def)

lemma count_failure_counts:
  assumes "0 \<le> bs_consecutive_failures st" and "bs_consecutive_failures st < max_int"
  shows "bs_consecutive_failures (count_failure p now st) = bs_consecutive_failures st + 1"
    and "bs_unhealthy_until (count_failure p now st) =
      (if ro_failure_threshold p \<le> bs_consecutive_failures st + 1 then now + ro_cooldown p
       else bs_unhealthy_until st)"
proof -
  have "in_int64 (bs_consecutive_failures st + 1)"
    using assms by (simp add: in_int64_def min_int_def)
  then show "bs_consecutive_failures (count_failure p now st) = bs_consecutive_failures st + 1"
    and "bs_unhealthy_until (count_failure p now st) =
      (if ro_failure_threshold p \<le> bs_consecutive_failures st + 1 then now + ro_cooldown p
       else bs_unhealthy_until st)"
    by (simp_all add: count_failure_def Let_def)
qed

lemma breaker_ok_count:
  assumes "breaker_ok p st" and "bs_consecutive_failures st < max_int"
  shows "breaker_ok p (count_failure p now st)"
  using assms count_failure_counts [of st p now] by (auto simp: breaker_ok_def)

text \<open>
  Everything that happens to the backends' states, by any number of requests and probes at once, in
  the order the mutex gives them, with the number of failures that were counted. What leaves the
  states alone (the observer, the clock, the rest of the world) is \<open>other\<close>.
\<close>

inductive breaker_run ::
    "('m, 'h) router \<Rightarrow> 'm rstate_scheme \<Rightarrow> nat \<Rightarrow> 'm rstate_scheme \<Rightarrow> bool" for p s where
  start: "breaker_run p s 0 s"
| success: "breaker_run p s k (snd (markSuccess name t))" if "breaker_run p s k t"
| failure: "breaker_run p s (Suc k) (snd (markFailure p name t))" if "breaker_run p s k t"
| probe_success: "breaker_run p s k (snd (markProbeSuccess name at t))" if "breaker_run p s k t"
| probe_failure: "breaker_run p s (Suc k) (snd (markProbeFailure p name m at t))" if "breaker_run p s k t"
| other: "breaker_run p s k t'" if "breaker_run p s k t" and "rs_states t' = rs_states t"

lemma breaker_run_trans:
  assumes "breaker_run p s k t" and "breaker_run p t l u"
  shows "breaker_run p s (k + l) u"
  using assms(2,1) by (induction rule: breaker_run.induct) (auto intro: breaker_run.intros)

lemma router_ok_set:
  "router_ok p s \<Longrightarrow> breaker_ok p st \<Longrightarrow> router_ok p (set_state name st s)"
  by (simp add: router_ok_def set_state_def)

lemma router_ok_at: "router_ok p s \<Longrightarrow> breaker_ok p (rs_states s name)"
  by (simp add: router_ok_def)

text \<open>The counts never exceed the number of failures of the run, so they do not overflow.\<close>

definition counts_within :: "nat \<Rightarrow> 'm rstate_scheme \<Rightarrow> bool" where
  "counts_within k s \<longleftrightarrow> (\<forall>n. bs_consecutive_failures (rs_states s n) \<le> int k)"

lemma counts_within_set:
  "counts_within k s \<Longrightarrow> bs_consecutive_failures st \<le> int k \<Longrightarrow> counts_within k (set_state name st s)"
  by (simp add: counts_within_def set_state_def)

lemma counts_within_mono:
  assumes "counts_within k s" and "k \<le> l"
  shows "counts_within l s"
proof -
  have "int k \<le> int l" using assms(2) by simp
  with assms(1) show ?thesis unfolding counts_within_def by (meson order_trans)
qed

lemma counted_failure_ok:
  assumes "router_ok p s" and "counts_within k s" and "int (Suc k) \<le> max_int"
    and "bs_consecutive_failures st = bs_consecutive_failures (rs_states s name)"
    and "bs_unhealthy_until st = bs_unhealthy_until (rs_states s name)"
  shows "router_ok p (set_state name (count_failure p now st) s) \<and>
    counts_within (Suc k) (set_state name (count_failure p now st) s)"
proof -
  have le: "bs_consecutive_failures st \<le> int k"
    using assms(2,4) by (simp add: counts_within_def)
  then have less: "bs_consecutive_failures st < max_int"
    using assms(3) by linarith
  have ok: "breaker_ok p st"
    using router_ok_at [OF assms(1), of name] assms(4,5) by (simp add: breaker_ok_def)
  have "counts_within (Suc k) s"
    using assms(2) by (rule counts_within_mono) simp
  moreover have "bs_consecutive_failures (count_failure p now st) \<le> int (Suc k)"
    using count_failure_counts(1) [of st p now] ok le less by (simp add: breaker_ok_def)
  ultimately show ?thesis
    using router_ok_set [OF assms(1) breaker_ok_count [OF ok less]] counts_within_set by blast
qed

lemma reset_ok:
  assumes "router_ok p s" and "counts_within k s" and "st = zero_state\<lparr>bs_last_probe_at := at\<rparr> \<or>
    st = zero_state\<lparr>bs_last_probe_at := at, bs_last_probe_error := m\<rparr>"
  shows "router_ok p (set_state name st s) \<and> counts_within k (set_state name st s)"
proof
  have "breaker_ok p st" and "bs_consecutive_failures st \<le> int k"
    using assms(3) by (auto simp: breaker_ok_def zero_state_def)
  then show "router_ok p (set_state name st s)" and "counts_within k (set_state name st s)"
    using router_ok_set [OF assms(1)] counts_within_set [OF assms(2)] by blast+
qed

lemma breaker_run_ok:
  assumes "breaker_run p s k s'" and "router_ok p s" and "counts_within 0 s" and "int k \<le> max_int"
  shows "router_ok p s' \<and> counts_within k s'"
  using assms(1,4)
proof (induction rule: breaker_run.induct)
  case start
  with assms(2,3) show ?case by simp
next
  case (success k t name)
  with reset_ok show ?case by (fastforce simp: markSuccess_def Let_def)
next
  case (failure k t name)
  then show ?case
    using counted_failure_ok [of p t k "rs_states t name" name] by (simp add: markFailure_def Let_def)
next
  case (probe_success k t name at)
  with reset_ok show ?case by (fastforce simp: markProbeSuccess_def Let_def)
next
  case (probe_failure k t name m at)
  then show ?case
    using counted_failure_ok [of p t k "(rs_states t name)\<lparr>bs_last_probe_at := at,
        bs_last_probe_error := m\<rparr>" name]
    by (simp add: markProbeFailure_def Let_def)
next
  case (other k t t')
  then show ?case by (simp add: router_ok_def counts_within_def)
qed

text \<open>Failures in a row, at the same time.\<close>

definition fail_times :: "('m, 'h) router \<Rightarrow> string \<Rightarrow> nat \<Rightarrow> 'm rstate_scheme \<Rightarrow> 'm rstate_scheme" where
  "fail_times p name k s = ((\<lambda>s. snd (markFailure p name s)) ^^ k) s"

lemma fail_times_Suc:
  "fail_times p name (Suc k) s = snd (markFailure p name (fail_times p name k s))"
  by (simp add: fail_times_def)

lemma fail_times_state:
  assumes "rs_states s name = zero_state" and "int k \<le> max_int" and "0 < ro_failure_threshold p"
  shows "bs_consecutive_failures (rs_states (fail_times p name k s) name) = int k \<and>
    bs_unhealthy_until (rs_states (fail_times p name k s) name) =
      (if ro_failure_threshold p \<le> int k then rs_clock s + ro_cooldown p else 0) \<and>
    rs_clock (fail_times p name k s) = rs_clock s"
  using assms(2)
proof (induction k)
  case 0
  with assms(1,3) show ?case by (simp add: fail_times_def zero_state_def)
next
  case (Suc k)
  let ?t = "fail_times p name k s"
  have IH: "bs_consecutive_failures (rs_states ?t name) = int k"
      "bs_unhealthy_until (rs_states ?t name) =
        (if ro_failure_threshold p \<le> int k then rs_clock s + ro_cooldown p else 0)"
      "rs_clock ?t = rs_clock s"
    using Suc by auto
  have c: "bs_consecutive_failures (count_failure p (rs_clock ?t) (rs_states ?t name)) = int k + 1"
      "bs_unhealthy_until (count_failure p (rs_clock ?t) (rs_states ?t name)) =
        (if ro_failure_threshold p \<le> int k + 1 then rs_clock s + ro_cooldown p
         else bs_unhealthy_until (rs_states ?t name))"
    using count_failure_counts [of "rs_states ?t name" p "rs_clock ?t"] IH Suc.prems by simp_all
  show ?case
    unfolding fail_times_Suc
    by (simp add: markFailure_def set_state_def Let_def c [unfolded IH(3)] IH)
qed

section \<open>Streams\<close>

lemma pass_time_fields [simp]:
  "rs_states (pass_time d s) = rs_states s" "rs_clock (pass_time d s) = rs_clock s + d"
  by (simp_all add: pass_time_def)

lemma await_first_chunk:
  "await_first timed sels s = (Inr (first, fate, rest), s') \<Longrightarrow> is_chunk first"
  by (induction timed sels s rule: await_first.induct) (auto split: if_splits)

lemma awaitFirst_chunk:
  "awaitFirstStreamEvent timeout sels s = (Inr (first, fate, rest), s') \<Longrightarrow> is_chunk first"
  by (auto simp: awaitFirstStreamEvent_def awaitStreamEvent_def dest: await_first_chunk
      split: if_splits)

lemma await_first_states:
  "await_first timed sels s = (r, s') \<Longrightarrow> rs_states s' = rs_states s"
  by (induction timed sels s rule: await_first.induct) (auto split: if_splits)

lemma stream_loop_first:
  "stream_loop p ctx req bs attempt e s = (Inr ex, s') \<Longrightarrow>
   is_chunk (ex_first ex) \<and> ex_backend ex \<in> be_name ` set bs"
proof (induction bs arbitrary: attempt e s)
  case Nil
  then show ?case by simp
next
  case (Cons b bs)
  then show ?case
    by (auto simp: Let_def dest: awaitFirst_chunk split: prod.splits sum.splits if_splits)
qed

text \<open>
  What a consumer sees of a committed stream: the events in order, until one is not delivered, an
  error has been delivered, the context ends or the backend closes the stream.
\<close>

fun delivered :: "selection list \<Rightarrow> stream_event list" where
  "delivered [] = []"
| "delivered (SWait d # sels) = delivered sels"
| "delivered (SDone e # sels) = []"
| "delivered (STimer # sels) = delivered sels"
| "delivered (SEvent event (Some e) # sels) = []"
| "delivered (SEvent (ErrEvent e) None # sels) = [ErrEvent e]"
| "delivered (SEvent (ChunkEvent c) None # sels) = ChunkEvent c # delivered sels"

text \<open>When the backend's error event is reached, if it is: the time that has passed by then.\<close>

fun interruption :: "selection list \<Rightarrow> duration option" where
  "interruption [] = None"
| "interruption (SWait d # sels) = map_option ((+) d) (interruption sels)"
| "interruption (SDone e # sels) = None"
| "interruption (STimer # sels) = interruption sels"
| "interruption (SEvent (ErrEvent e) fate # sels) = Some 0"
| "interruption (SEvent (ChunkEvent c) (Some e) # sels) = None"
| "interruption (SEvent (ChunkEvent c) None # sels) = interruption sels"

lemma forward_loop_delivers:
  "fw_out (fst (forward_loop p sels f s)) = fw_out f @ delivered sels"
proof (induction sels arbitrary: f s rule: delivered.induct)
  case (5 event e sels)
  then show ?case by (cases event) (auto simp: forwardStreamEvent_def Let_def)
next
  case (6 e sels)
  then show ?case by (simp add: forwardStreamEvent_def Let_def)
next
  case (7 c sels)
  then show ?case by (simp add: forwardStreamEvent_def)
qed simp_all

text \<open>The failure a stream counts: one, when its error event is reached.\<close>

definition interrupt_states ::
    "('m, 'h) router \<Rightarrow> string \<Rightarrow> duration option \<Rightarrow> 'm rstate_scheme \<Rightarrow> string \<Rightarrow> backend_state" where
  "interrupt_states p name at s =
     (case at of
        None \<Rightarrow> rs_states s
      | Some d \<Rightarrow> (rs_states s)(name := count_failure p (rs_clock s + d) (rs_states s name)))"

lemma interrupt_states_later:
  "interrupt_states p name (map_option ((+) d) at) s = interrupt_states p name at (pass_time d s)"
  unfolding interrupt_states_def pass_time_fields
  by (cases at) (simp_all add: add.assoc)

lemma forward_loop_states:
  "rs_states (snd (forward_loop p sels f s)) = interrupt_states p (fw_backend f) (interruption sels) s"
proof (induction sels arbitrary: f s rule: interruption.induct)
  case (2 d sels)
  then show ?case by (simp add: interrupt_states_later)
next
  case (5 e fate sels)
  then show ?case
    by (cases fate) (simp_all add: forwardStreamEvent_def Let_def fail_backend_states interrupt_states_def)
next
  case (7 c sels)
  then show ?case by (simp add: forwardStreamEvent_def)
qed (simp_all add: forwardStreamEvent_def Let_def interrupt_states_def)

lemma wrapStream_delivers:
  "fst (wrapStream p ex s) = delivered (SEvent (ex_first ex) (ex_fate ex) # ex_events ex)"
  using forward_loop_delivers [of p "SEvent (ex_first ex) (ex_fate ex) # ex_events ex"
      "\<lparr>fw_backend = ex_backend ex, fw_attempt = ex_attempt ex, fw_started_at = rs_clock s,
        fw_chunk_count = 0, fw_trace_err = None, fw_out = []\<rparr>" s]
  by (auto simp: wrapStream_def Let_def split: prod.splits if_splits)

lemma wrapStream_states:
  "rs_states (snd (wrapStream p ex s)) =
     interrupt_states p (ex_backend ex)
       (interruption (SEvent (ex_first ex) (ex_fate ex) # ex_events ex)) s"
  using forward_loop_states [of p "SEvent (ex_first ex) (ex_fate ex) # ex_events ex"
      "\<lparr>fw_backend = ex_backend ex, fw_attempt = ex_attempt ex, fw_started_at = rs_clock s,
        fw_chunk_count = 0, fw_trace_err = None, fw_out = []\<rparr>" s]
  by (auto simp: wrapStream_def Let_def split: prod.splits if_splits)

text \<open>
  Every operation of the router is made of a few steps: a mark of success or failure with the events
  that report it, events that report no mark, time that passes, and the calls of the backends. A
  relation on states that has these steps, for the backends with names in \<open>named\<close>, has the
  operations.
\<close>

definition calls_for ::
    "('m rstate_scheme, 'h) attempt_recorder option \<Rightarrow> ('m rstate_scheme \<Rightarrow> 'm rstate_scheme \<Rightarrow> bool) \<Rightarrow>
     ('m, 'h) backend \<Rightarrow> bool" where
  "calls_for recorder R b \<longleftrightarrow>
     (\<forall>ctx req s. ctx_recorder ctx = recorder \<longrightarrow> R s (snd (CreateChatCompletion (be_provider b) ctx req s))) \<and>
     (\<forall>ctx req s. ctx_recorder ctx = recorder \<longrightarrow> R s (snd (StreamChatCompletion (be_provider b) ctx req s)))"

definition lists_in :: "('m rstate_scheme \<Rightarrow> 'm rstate_scheme \<Rightarrow> bool) \<Rightarrow> ('m, 'h) backend \<Rightarrow> bool" where
  "lists_in R b \<longleftrightarrow> (\<forall>listModels s. be_list_models b = Some listModels \<longrightarrow> R s (snd (listModels s)))"

definition calls_in :: "('m rstate_scheme \<Rightarrow> 'm rstate_scheme \<Rightarrow> bool) \<Rightarrow> ('m, 'h) backend \<Rightarrow> bool" where
  "calls_in R b \<longleftrightarrow> (\<forall>recorder. calls_for recorder R b) \<and> lists_in R b"

lemma calls_inD:
  assumes "calls_in R b"
  shows "calls_for recorder R b" and "lists_in R b"
  using assms by (simp_all add: calls_in_def)

lemma calls_in_iff:
  "calls_in R b \<longleftrightarrow>
     (\<forall>ctx req s. R s (snd (CreateChatCompletion (be_provider b) ctx req s))) \<and>
     (\<forall>ctx req s. R s (snd (StreamChatCompletion (be_provider b) ctx req s))) \<and>
     (\<forall>listModels s. be_list_models b = Some listModels \<longrightarrow> R s (snd (listModels s)))"
  by (auto simp: calls_in_def calls_for_def lists_in_def)

lemma tried_recorder [simp]: "ctx_recorder (WithAttemptBackend n ctx) = ctx_recorder ctx"
  by (simp add: WithAttemptBackend_def)

lemma calls_forD:
  assumes "calls_for (ctx_recorder ctx) R b"
  shows "CreateChatCompletion (be_provider b) (WithAttemptBackend n ctx) req s = (r, t) \<Longrightarrow> R s t"
    and "StreamChatCompletion (be_provider b) (WithAttemptBackend n ctx) req s = (q, t) \<Longrightarrow> R s t"
  using assms unfolding calls_for_def by (metis snd_conv tried_recorder)+

lemma lists_inD: "lists_in R b \<Longrightarrow> be_list_models b = Some listModels \<Longrightarrow> listModels s = (ms, t) \<Longrightarrow> R s t"
  unfolding lists_in_def by (metis snd_conv)

definition probe_failed :: "('m, 'h) router \<Rightarrow> string \<Rightarrow> duration \<Rightarrow> string \<Rightarrow> int \<times> time \<Rightarrow> 'm rstate_scheme \<Rightarrow> 'm rstate_scheme" where
  "probe_failed p name dur msg mark s =
     observe p ((plain_event ''provider_probe_failed'' ''probe'' name)
       \<lparr>ev_duration := dur, ev_failures := fst mark, ev_unhealthy_until := snd mark, ev_error := msg\<rparr>) s"

definition probe_succeeded :: "('m, 'h) router \<Rightarrow> string \<Rightarrow> duration \<Rightarrow> bool \<Rightarrow> 'm rstate_scheme \<Rightarrow> 'm rstate_scheme" where
  "probe_succeeded p name dur recovered s =
     (let s = observe p ((plain_event ''provider_probe_succeeded'' ''probe'' name)\<lparr>ev_duration := dur\<rparr>) s
      in if recovered then observe p (plain_event ''provider_recovered'' ''probe'' name) s else s)"

locale router_relation =
  fixes p :: "('m, 'h) router"
    and R :: "'m rstate_scheme \<Rightarrow> 'm rstate_scheme \<Rightarrow> bool"
    and named :: "string \<Rightarrow> bool"
  assumes same: "R s s"
    and compose: "R s t \<Longrightarrow> R t u \<Longrightarrow> R s u"
    and wait: "R s (pass_time d s)"
    and skipping: "R s (observeSkipped p op bs s)"
    and failing: "named n \<Longrightarrow> typ = ''provider_request_failed'' \<or> typ = ''provider_stream_interrupted'' \<Longrightarrow>
      R s (fail_backend p typ op n a d e s)"
    and succeeding: "named n \<Longrightarrow> markSuccess n s = (recovered, t) \<Longrightarrow> R s (observe_success p op n a d recovered t)"
    and probe_skipping: "R s (observe p (plain_event ''provider_probe_skipped'' ''probe'' n) s)"
    and probe_failing: "named n \<Longrightarrow> markProbeFailure p n m at s = (mark, t) \<Longrightarrow> R s (probe_failed p n d m mark t)"
    and probe_succeeding: "named n \<Longrightarrow> markProbeSuccess n at s = (recovered, t) \<Longrightarrow>
      R s (probe_succeeded p n d recovered t)"
begin

lemma create_loop_in:
  assumes "\<forall>b \<in> set bs. calls_for (ctx_recorder ctx) R b \<and> named (be_name b)"
  shows "R s (snd (create_loop p ctx req bs attempt e s))"
  using assms
proof (induction bs arbitrary: attempt e s)
  case Nil
  then show ?case by (simp add: same)
next
  case (Cons b bs)
  obtain r t where c: "CreateChatCompletion (be_provider b) (WithAttemptBackend (be_name b) ctx) req s =
      (r, t)" by fastforce
  have b: "calls_for (ctx_recorder ctx) R b" "named (be_name b)" using Cons.prems by simp_all
  have st: "R s t" by (rule calls_forD(1) [OF b(1) c])
  show ?case
  proof (cases r)
    case (Inl err)
    have "R s (snd (create_loop p ctx req bs (attempt + 1) err
        (fail_backend p ''provider_request_failed'' ''create'' (be_name b) attempt d err t)))" for d
      by (rule compose [OF compose [OF st failing [OF b(2)]] Cons.IH]) (use Cons.prems in simp_all)
    then show ?thesis using c st Inl by (simp add: Let_def)
  next
    case (Inr resp)
    obtain recovered u where m: "markSuccess (be_name b) t = (recovered, u)" by fastforce
    show ?thesis using c Inr m compose [OF st succeeding [OF b(2) m]] by (simp add: Let_def)
  qed
qed

lemma await_first_in: "await_first timed sels s = (x, t) \<Longrightarrow> R s t"
  by (induction timed sels s arbitrary: x t rule: await_first.induct)
    (auto intro: same compose [OF wait] split: if_splits)

lemma stream_loop_in:
  assumes "\<forall>b \<in> set bs. calls_for (ctx_recorder ctx) R b \<and> named (be_name b)"
  shows "R s (snd (stream_loop p ctx req bs attempt e s))"
  using assms
proof (induction bs arbitrary: attempt e s)
  case Nil
  then show ?case by (simp add: same)
next
  case (Cons b bs)
  obtain r t where c: "StreamChatCompletion (be_provider b) (WithAttemptBackend (be_name b) ctx) req s =
      (r, t)" by fastforce
  have b: "calls_for (ctx_recorder ctx) R b" "named (be_name b)" using Cons.prems by simp_all
  have st: "R s t" by (rule calls_forD(2) [OF b(1) c])
  have failed: "R s (snd (stream_loop p ctx req bs (attempt + 1) err
      (fail_backend p ''provider_request_failed'' ''stream'' (be_name b) attempt d err u)))"
    if "R s u" for d err u
    by (rule compose [OF compose [OF that failing [OF b(2)]] Cons.IH]) (use Cons.prems in simp_all)
  show ?case
  proof (cases r)
    case (Inl err)
    then show ?thesis using c st failed [OF st] by (simp add: Let_def)
  next
    case (Inr sels)
    obtain x u where a: "awaitFirstStreamEvent (be_first_event_timeout b) sels t = (x, u)" by fastforce
    have "\<exists>timed. await_first timed sels t = (x, u)"
      using a by (auto simp: awaitFirstStreamEvent_def awaitStreamEvent_def split: if_splits)
    then have su: "R s u" using compose [OF st await_first_in] by blast
    show ?thesis
    proof (cases x)
      case (Inl err)
      then show ?thesis using c \<open>r = Inr sels\<close> a failed [OF su] by (simp add: Let_def)
    next
      case (Inr y)
      obtain ev fate rest where y: "y = (ev, fate, rest)" by (cases y)
      obtain recovered v where m: "markSuccess (be_name b) u = (recovered, v)" by fastforce
      show ?thesis
        using c \<open>r = Inr sels\<close> a Inr y m compose [OF su succeeding [OF b(2) m]] by (simp add: Let_def)
    qed
  qed
qed

lemma forwardStreamEvent_in:
  assumes "forwardStreamEvent p event fate f s = (go_on, f', t)" and "named (fw_backend f)"
  shows "R s t \<and> fw_backend f' = fw_backend f"
  using assms failing [of "fw_backend f" "''provider_stream_interrupted''"] same
  by (cases event) (auto simp: forwardStreamEvent_def Let_def split: option.splits if_splits)

lemma forward_loop_in: "named (fw_backend f) \<Longrightarrow> R s (snd (forward_loop p sels f s))"
proof (induction sels arbitrary: f s)
  case Nil
  then show ?case by (simp add: same)
next
  case (Cons sel sels)
  show ?case
  proof (cases sel)
    case (SEvent event fate)
    obtain go_on f' t where fw: "forwardStreamEvent p event fate f s = (go_on, f', t)"
      by (metis surj_pair)
    then have "R s t" and "named (fw_backend f')" using forwardStreamEvent_in Cons.prems by auto
    then show ?thesis using compose [OF _ Cons.IH] SEvent fw by simp
  qed (use Cons compose [OF wait Cons.IH] same in simp_all)
qed

lemma wrapStream_in:
  assumes "named (ex_backend ex)"
  shows "R s (snd (wrapStream p ex s))"
proof -
  let ?f = "\<lparr>fw_backend = ex_backend ex, fw_attempt = ex_attempt ex, fw_started_at = rs_clock s,
    fw_chunk_count = 0, fw_trace_err = None, fw_out = []\<rparr>"
  obtain go_on f t where fw: "forwardStreamEvent p (ex_first ex) (ex_fate ex) ?f s = (go_on, f, t)"
    by (metis surj_pair)
  then have t: "R s t" and n: "named (fw_backend f)" using forwardStreamEvent_in assms by auto
  have "R s (snd (forward_loop p (ex_events ex) f t))" by (rule compose [OF t forward_loop_in [OF n]])
  then show ?thesis using fw t by (auto simp: wrapStream_def Let_def split: prod.splits)
qed

lemma probe_backend_in:
  assumes "lists_in R b" and "named (be_name b)"
  shows "R s (probe_backend p b s)"
proof (cases "be_list_models b")
  case None
  then show ?thesis by (simp add: probe_backend_def probe_skipping)
next
  case (Some listModels)
  obtain r t where l: "listModels s = (r, t)" by fastforce
  have st: "R s t" by (rule lists_inD [OF assms(1) Some l])
  show ?thesis
  proof (cases r)
    case (Inl e)
    obtain mark u where m: "markProbeFailure p (be_name b) (err_text e) (rs_clock s) t = (mark, u)"
      by fastforce
    show ?thesis
      using Some l Inl m compose [OF st probe_failing [OF assms(2) m]]
      by (cases mark) (simp add: probe_backend_def probe_failed_def Let_def)
  next
    case (Inr ms)
    obtain recovered u where m: "markProbeSuccess (be_name b) (rs_clock s) t = (recovered, u)" by fastforce
    show ?thesis
      using Some l Inr m compose [OF st probe_succeeding [OF assms(2) m]]
      by (simp add: probe_backend_def probe_succeeded_def Let_def)
  qed
qed

lemma Probe_in:
  assumes "\<forall>b \<in> set bs. lists_in R b \<and> named (be_name b)"
  shows "R s (fold (probe_backend p) bs s)"
  using assms
proof (induction bs arbitrary: s)
  case Nil
  then show ?case by (simp add: same)
next
  case (Cons b bs)
  then show ?case using compose [OF probe_backend_in [of b s]] by simp
qed

lemma dispatch_in:
  assumes "\<forall>b \<in> set (ro_backends p). calls_for (ctx_recorder ctx) R b \<and> named (be_name b)"
  shows "R s (snd (router_CreateChatCompletion p ctx req s))"
    and "R s (snd (router_StreamChatCompletion p ctx req s))"
proof -
  obtain cs sk where c: "candidates_of p (req_model req) s = (cs, sk)" by fastforce
  then have cs: "\<forall>b \<in> set cs. calls_for (ctx_recorder ctx) R b \<and> named (be_name b)"
    using candidates_of_set(1) assms by blast
  show "R s (snd (router_CreateChatCompletion p ctx req s))"
    using compose [OF skipping create_loop_in [OF cs]] c by (simp add: router_CreateChatCompletion_def same)
  show "R s (snd (router_StreamChatCompletion p ctx req s))"
    using compose [OF skipping stream_loop_in [OF cs]] c by (simp add: router_StreamChatCompletion_def same)
qed

lemma operations_in:
  assumes "\<forall>b \<in> set (ro_backends p). calls_in R b \<and> named (be_name b)"
  shows "R s (snd (router_CreateChatCompletion p ctx req s))"
    and "R s (snd (router_StreamChatCompletion p ctx req s))"
    and "R s (Probe p s)"
  using assms dispatch_in [of ctx] Probe_in [of "ro_backends p"] by (auto simp: calls_in_def Probe_def)

end

text \<open>
  The operations are runs of the circuit breaker, when the calls of the backends are: a provider leaves
  the states alone, or lets other requests run meanwhile.
\<close>

definition runs :: "('m, 'h) router \<Rightarrow> 'm rstate_scheme \<Rightarrow> 'm rstate_scheme \<Rightarrow> bool" where
  "runs p s s' \<longleftrightarrow> (\<exists>k. breaker_run p s k s')"

definition backend_runs :: "('m, 'h) router \<Rightarrow> ('m, 'h) backend \<Rightarrow> bool" where
  "backend_runs p b \<longleftrightarrow> calls_in (runs p) b"

lemma runs_trans: "runs p s t \<Longrightarrow> runs p t u \<Longrightarrow> runs p s u"
  unfolding runs_def using breaker_run_trans by blast

lemma runs_same: "rs_states t = rs_states s \<Longrightarrow> runs p s t"
  unfolding runs_def using breaker_run.other [OF breaker_run.start] by blast

lemma runs_then_same: "runs p s t \<Longrightarrow> rs_states u = rs_states t \<Longrightarrow> runs p s u"
  unfolding runs_def using breaker_run.other by blast

lemma runs_steps:
  "runs p s (snd (markSuccess name s))" "runs p s (snd (markFailure p name s))"
  "runs p s (snd (markProbeSuccess name at s))" "runs p s (snd (markProbeFailure p name m at s))"
  unfolding runs_def using breaker_run.intros(2-5) [OF breaker_run.start] by blast+

interpretation breaker: router_relation p "runs p" "\<lambda>_. True" for p
proof unfold_locales
  show "runs p s (fail_backend p ty oper n a d e s)" for s ty oper n a d e
    by (rule runs_then_same [OF runs_steps(2) [of p s n]])
      (simp add: fail_backend_def markFailure_def Let_def)
  show "markSuccess n s = (recovered, t) \<Longrightarrow> runs p s (observe_success p oper n a d recovered t)"
    for n s recovered t oper a d
    using runs_then_same [OF runs_steps(1) [of p s n]] by simp
  show "markProbeFailure p n m tm s = (mark, t) \<Longrightarrow> runs p s (probe_failed p n d m mark t)"
    for n m tm s mark t d
    using runs_then_same [OF runs_steps(4) [of p s n m tm]] by (simp add: probe_failed_def)
  show "markProbeSuccess n tm s = (recovered, t) \<Longrightarrow> runs p s (probe_succeeded p n d recovered t)"
    for n tm s recovered t d
    using runs_then_same [OF runs_steps(3) [of p s n tm]] by (simp add: probe_succeeded_def Let_def)
qed (auto intro: runs_same runs_trans)

lemma delivered_error_last:
  "delivered sels = out @ e # rest \<Longrightarrow> \<not> is_chunk e \<Longrightarrow> rest = []"
proof (induction sels arbitrary: out rule: delivered.induct)
  case (7 c sels)
  then show ?case by (cases out) auto
next
  case (6 e' sels)
  then show ?case by (cases out) auto
qed auto

lemma delivered_prefix:
  "\<exists>k. delivered sels = take k (until_error (concat (map (\<lambda>x. case x of SEvent e _ \<Rightarrow> [e] | _ \<Rightarrow> []) sels)))"
proof (induction sels rule: delivered.induct)
  case (3 e sels) then show ?case by (intro exI [of _ 0]) simp
next
  case (5 event e sels) then show ?case by (intro exI [of _ 0]) simp
next
  case (6 e sels) then show ?case by (intro exI [of _ 1]) simp
next
  case (7 c sels)
  then obtain k where "delivered sels = take k (until_error
      (concat (map (\<lambda>x. case x of SEvent e _ \<Rightarrow> [e] | _ \<Rightarrow> []) sels)))" by blast
  then show ?case by (intro exI [of _ "Suc k"]) simp
qed simp_all

end
