(* ===== verification/AuthStoreFacts.thy ===== *)
theory AuthStoreFacts
  imports AuthStore
begin

text \<open>
  What authentication against the database and the bootstrap of the schema do: a principal comes from
  an enabled key row of an enabled tenant, the schema is complete after its creation and data survives
  it, and the key of the development seed authenticates as its tenant.
\<close>

section \<open>What a computation may change\<close>

definition along :: "(db \<Rightarrow> db \<Rightarrow> bool) \<Rightarrow> (db \<Rightarrow> 'a \<times> db) \<Rightarrow> bool" where
  "along R m \<longleftrightarrow> (\<forall>d r d'. m d = (r, d') \<longrightarrow> R d d')"

named_theorems along_rules "composition rules for relations that a computation stays within"

lemma alongD: "along R m \<Longrightarrow> m d = (r, d') \<Longrightarrow> R d d'"
  by (simp add: along_def)

definition data_preorder :: "(db \<Rightarrow> db \<Rightarrow> bool) \<Rightarrow> bool" where
  "data_preorder R \<longleftrightarrow> transp R \<and> (\<forall>d d'. same_data d d' \<longrightarrow> R d d')"

lemma along_return [along_rules]: "data_preorder R \<Longrightarrow> along R (\<lambda>d. (x, d))"
  by (simp add: along_def data_preorder_def)

lemma along_query [along_rules]: "data_preorder R \<Longrightarrow> along R (db_query f)"
  by (auto simp: along_def data_preorder_def dest: db_query_same)

lemma along_exec [along_rules]:
  assumes "data_preorder R" and "\<And>d. R d (snd (f d))"
  shows "along R (db_exec f)"
  unfolding along_def
proof (intro allI impI)
  fix d r d' assume e: "db_exec f d = (r, d')"
  have trans: "R a c" if "R a b" "R b c" for a b c
    using assms(1) that by (auto simp: data_preorder_def dest: transpD)
  have same: "R a b" if "same_data a b" for a b using assms(1) that by (simp add: data_preorder_def)
  show "R d d'"
  proof (cases r)
    case (Inl x)
    from e [unfolded Inl] show ?thesis
      by (rule db_exec_Inl) (use same trans assms(2) in blast)+
  next
    case (Inr x)
    from e [unfolded Inr] obtain d0 where "same_data d d0" and "f d0 = (x, d')" by (rule db_exec_Inr)
    with same trans assms(2) [of d0] show ?thesis by (metis snd_conv)
  qed
qed

lemma along_bindS [along_rules]:
  assumes "data_preorder R" and "along R m" and "\<And>a. along R (f a)"
  shows "along R (bindS m f)"
proof -
  have trans: "R a c" if "R a b" "R b c" for a b c
    using assms(1) that by (auto simp: data_preorder_def dest: transpD)
  show ?thesis
    unfolding along_def bindS_def
    by (auto split: prod.splits sum.splits intro: trans alongD [OF assms(2)] alongD [OF assms(3)])
qed

lemma along_exec_all [along_rules]:
  assumes "data_preorder R" and "\<And>s d. s \<in> set ss \<Longrightarrow> R d (s d)"
  shows "along R (exec_all ss)"
  using assms(2)
proof (induction ss)
  case Nil
  have "exec_all [] = (\<lambda>d. (Inr (), d))" by auto
  with along_return [OF assms(1)] show ?case by simp
next
  case (Cons s ss)
  have "exec_all (s # ss) = bindS (db_exec (\<lambda>d. ((), s d))) (\<lambda>_. exec_all ss)" by auto
  moreover have "along R (bindS (db_exec (\<lambda>d. ((), s d))) (\<lambda>_. exec_all ss))"
    by (intro along_rules assms(1)) (use Cons in auto)
  ultimately show ?case by simp
qed

lemma along_ensureColumn [along_rules]:
  assumes "data_preorder R" and "\<And>d. R d (alter d)"
  shows "along R (ensureColumnExists name col alter)"
proof -
  have "along R (if b then \<lambda>d. (Inr (), d) else db_exec (\<lambda>d. ((), alter d)))" for b
    using assms by (cases b) (auto intro!: along_rules)
  then show ?thesis unfolding ensureColumnExists_def by (intro along_rules assms(1)) blast
qed

section \<open>Authentication\<close>

lemma LookupAPIKey_Inr:
  assumes "LookupAPIKey coll h d = (Inr r, d')"
  obtains t k where "t \<in> set (tenants d)" "k \<in> set (api_keys d)" "t_id t = k_tenant_id k"
    "coll (k_hash k) = coll h" "r = key_record t k" "same_data d d'"
proof -
  obtain rows d1 where q: "db_query (key_rows coll h) d = (rows, d1)" by fastforce
  with assms obtain t k rest where "rows = Inr ((t, k) # rest)" "r = key_record t k" "d' = d1"
    by (auto simp: LookupAPIKey_def split: sum.splits list.splits if_splits)
  moreover from this(1) q have "(t, k) \<in> set (key_rows coll h d)"
    using db_query_Inr by (metis list.set_intros(1))
  ultimately show thesis
    using db_query_same [OF q] by (intro that [of t k]) (auto simp: key_rows_def split: if_splits)
qed

lemma LookupAPIKey_rows:
  assumes "answering d" and "\<And>t k. (t, k) \<in> set (key_rows coll h d) \<Longrightarrow> P (key_record t k)"
    and "key_rows coll h d \<noteq> []"
  shows "\<exists>r. LookupAPIKey coll h d = (Inr r, d) \<and> P r"
proof (cases "key_rows coll h d")
  case Nil
  with assms(3) show ?thesis by simp
next
  case (Cons tk rest)
  obtain t k where "tk = (t, k)" by fastforce
  with Cons assms(1,2) show ?thesis by (simp add: LookupAPIKey_def)
qed

lemma AuthenticateRequest_rows:
  assumes "AuthenticateRequest (LookupAPIKey coll) header d = (Inr pr, d')"
  shows "\<exists>key t k. bearerToken header = Inr key \<and> t \<in> set (tenants d) \<and> k \<in> set (api_keys d) \<and>
    t_id t = k_tenant_id k \<and> coll (k_hash k) = coll (hashAPIKey key) \<and> k_enabled k \<and> t_enabled t \<and>
    pr = \<lparr>principal_tenant = \<lparr>tenant_id = t_id t, tenant_name = t_name t, rpm_limit = t_rpm_limit t,
            tpm_limit = t_tpm_limit t, token_budget = t_token_budget t\<rparr>,
          principal_key_id = k_id k, principal_key_prefix = k_prefix k\<rparr> \<and> same_data d d'"
proof -
  obtain key r where key: "bearerToken header = Inr key"
    and l: "LookupAPIKey coll (hashAPIKey key) d = (Inr r, d')"
    and e: "rec_key_enabled r" "rec_tenant_enabled r"
    and pr: "pr = \<lparr>principal_tenant = rec_tenant r, principal_key_id = rec_key_id r,
      principal_key_prefix = rec_key_prefix r\<rparr>"
    using assms
    by (auto simp: AuthenticateRequest_def split: sum.splits prod.splits if_splits)
  from l obtain t k where "t \<in> set (tenants d)" "k \<in> set (api_keys d)" "t_id t = k_tenant_id k"
      "coll (k_hash k) = coll (hashAPIKey key)" "r = key_record t k" "same_data d d'"
    by (rule LookupAPIKey_Inr)
  with key e pr show ?thesis
    by (intro exI [of _ key] exI [of _ t] exI [of _ k]) (simp add: key_record_def)
qed

section \<open>The schema\<close>

definition schema_grows :: "db \<Rightarrow> db \<Rightarrow> bool" where
  "schema_grows d d' \<longleftrightarrow>
     (\<forall>name. has_table name d \<longrightarrow> has_table name d') \<and>
     (\<forall>name col. has_column name col d \<longrightarrow> has_column name col d') \<and>
     map t_id (tenants d') = map t_id (tenants d) \<and> next_tenant_id d' = next_tenant_id d \<and>
     api_keys d' = api_keys d \<and> request_usages d' = request_usages d \<and>
     request_attempt_usages d' = request_attempt_usages d \<and> route_rules d' = route_rules d"

lemma schema_grows_preorder: "data_preorder schema_grows"
  by (auto simp: data_preorder_def schema_grows_def has_table_def has_column_def same_data_fields
      intro!: transpI)

lemma insert_after_set [simp]: "set (insert_after p c cs) = insert c (set cs)"
  by (induction cs) auto

lemma map_of_update:
  "map_of (map (\<lambda>(n, v). (n, f n v)) xs) = (\<lambda>n. map_option (f n) (map_of xs n))"
  by (induction xs) auto

lemma create_table_grows: "schema_grows d (create_table def d)"
  by (auto simp: schema_grows_def create_table_def has_table_def has_column_def map_add_def
      split: option.splits)

lemma add_column_grows: "(\<And>t. t_id (fill t) = t_id t) \<Longrightarrow> schema_grows d (add_tenant_column p c fill d)"
  by (auto simp: schema_grows_def add_tenant_column_def has_table_def has_column_def map_of_update comp_def
      split: option.splits)

lemma ensureColumn_grows:
  "(\<And>t. t_id (fill t) = t_id t) \<Longrightarrow>
   along schema_grows (ensureColumnExists n c (add_tenant_column p c fill))"
  by (intro along_rules schema_grows_preorder add_column_grows)

lemma create_all_tables:
  assumes "exec_all (map create_table defs) d = (Inr u, d')" and "def \<in> set defs"
  shows "has_table (fst def) d'"
  using assms
proof (induction defs arbitrary: d)
  case Nil
  then show ?case by simp
next
  case (Cons x defs)
  obtain v d1 where x: "db_exec (\<lambda>d. ((), create_table x d)) d = (Inr v, d1)"
    and rest: "exec_all (map create_table defs) d1 = (Inr u, d')"
    using Cons.prems(1) by (auto elim: bindS_InrE)
  show ?case
  proof (cases "def = x")
    case True
    obtain d0 where "d1 = create_table x d0" using x by (auto elim: db_exec_Inr)
    then have "has_table (fst def) d1"
      using True by (auto simp: create_table_def has_table_def map_add_def split: option.splits)
    moreover have "along schema_grows (exec_all (map create_table defs))"
      by (intro along_rules schema_grows_preorder) (auto simp: create_table_grows)
    from this rest have "schema_grows d1 d'" by (rule alongD)
    ultimately show ?thesis by (simp add: schema_grows_def)
  next
    case False
    with Cons.IH [OF rest] Cons.prems(2) show ?thesis by simp
  qed
qed

lemma ensureColumn_adds:
  assumes "ensureColumnExists ''tenants'' c (add_tenant_column p c fill) d = (Inr u, d')"
    and "has_table ''tenants'' d"
  shows "has_column ''tenants'' c d'"
proof -
  obtain present d1 where q: "db_query (has_column ''tenants'' c) d = (Inr present, d1)"
    and rest: "(if present then (\<lambda>d. (Inr (), d))
      else db_exec (\<lambda>d. ((), add_tenant_column p c fill d))) d1 = (Inr u, d')"
    using assms(1) unfolding ensureColumnExists_def by (rule bindS_InrE)
  note same = same_data_fields [OF db_query_same [OF q]]
  show ?thesis
  proof (cases present)
    case True
    with rest have d1: "d1 = d'" by simp
    have "has_column ''tenants'' c d" using db_query_Inr [OF q] True by simp
    then show ?thesis using same(9) by (simp add: has_column_def d1)
  next
    case False
    with rest obtain d2 where d2: "same_data d1 d2" and "d' = add_tenant_column p c fill d2"
      by (auto elim: db_exec_Inr)
    moreover have "has_table ''tenants'' d2"
      using assms(2) by (simp add: has_table_def same same_data_fields [OF d2])
    ultimately show ?thesis
      by (auto simp: has_column_def add_tenant_column_def has_table_def map_of_update)
  qed
qed

lemma EnsureSchema_grows: "along schema_grows EnsureSchema"
  unfolding EnsureSchema_def
  by (intro along_rules schema_grows_preorder ensureColumn_grows) (auto simp: create_table_grows)

lemma EnsureSchema_complete:
  assumes "EnsureSchema d = (Inr u, d')"
  shows "\<forall>name \<in> {''tenants'', ''api_keys'', ''request_usages'', ''request_attempt_usages'', ''route_rules''}.
      has_table name d'"
    and "\<forall>col \<in> {''enabled'', ''rpm_limit'', ''tpm_limit'', ''token_budget''}. has_column ''tenants'' col d'"
proof -
  let ?c = "\<lambda>p c fill. ensureColumnExists ''tenants'' c (add_tenant_column p c fill)"
  obtain u1 d1 u2 d2 u3 d3 u4 d4 where
    t: "exec_all (map create_table [createTenantsTableSQL, createAPIKeysTableSQL,
        createRequestUsagesTableSQL, createRequestAttemptUsagesTableSQL, createRouteRulesTableSQL]) d =
      (Inr u1, d1)"
    and c1: "?c ''name'' ''enabled'' (\<lambda>t. t\<lparr>t_enabled := True\<rparr>) d1 = (Inr u2, d2)"
    and c2: "?c ''enabled'' ''rpm_limit'' (\<lambda>t. t\<lparr>t_rpm_limit := 60\<rparr>) d2 = (Inr u3, d3)"
    and c3: "?c ''rpm_limit'' ''tpm_limit'' (\<lambda>t. t\<lparr>t_tpm_limit := 4000\<rparr>) d3 = (Inr u4, d4)"
    and c4: "?c ''tpm_limit'' ''token_budget'' (\<lambda>t. t\<lparr>t_token_budget := 1000000\<rparr>) d4 = (Inr u, d')"
    using assms unfolding EnsureSchema_def by (elim bindS_InrE)
  have g: "schema_grows d1 d2" "schema_grows d2 d3" "schema_grows d3 d4" "schema_grows d4 d'"
    using alongD [OF ensureColumn_grows c1] alongD [OF ensureColumn_grows c2]
      alongD [OF ensureColumn_grows c3] alongD [OF ensureColumn_grows c4] by simp_all
  have "has_table (fst createTenantsTableSQL) d1" "has_table (fst createAPIKeysTableSQL) d1"
      "has_table (fst createRequestUsagesTableSQL) d1"
      "has_table (fst createRequestAttemptUsagesTableSQL) d1"
      "has_table (fst createRouteRulesTableSQL) d1"
    by (rule create_all_tables [OF t], simp)+
  then have tabs: "\<forall>name \<in> {''tenants'', ''api_keys'', ''request_usages'', ''request_attempt_usages'',
      ''route_rules''}. has_table name d1"
    by (simp add: createTenantsTableSQL_def createAPIKeysTableSQL_def createRequestUsagesTableSQL_def
        createRequestAttemptUsagesTableSQL_def createRouteRulesTableSQL_def)
  with g show "\<forall>name \<in> {''tenants'', ''api_keys'', ''request_usages'', ''request_attempt_usages'',
      ''route_rules''}. has_table name d'"
    by (simp add: schema_grows_def)
  have "has_column ''tenants'' ''enabled'' d2" "has_column ''tenants'' ''rpm_limit'' d3"
      "has_column ''tenants'' ''tpm_limit'' d4" "has_column ''tenants'' ''token_budget'' d'"
    using ensureColumn_adds [OF c1] ensureColumn_adds [OF c2] ensureColumn_adds [OF c3]
      ensureColumn_adds [OF c4] tabs g by (simp_all add: schema_grows_def)
  with g show "\<forall>col \<in> {''enabled'', ''rpm_limit'', ''tpm_limit'', ''token_budget''}.
      has_column ''tenants'' col d'"
    by (simp add: schema_grows_def)
qed

section \<open>The development seed\<close>

definition ids_ok :: "db \<Rightarrow> bool" where
  "ids_ok d \<longleftrightarrow> distinct (map t_id (tenants d)) \<and> (\<forall>t \<in> set (tenants d). t_id t < next_tenant_id d)"

lemma upsert_has:
  assumes "\<And>x. P x \<Longrightarrow> P (f x)" and "P new"
  shows "\<exists>y \<in> set (if list_ex P xs then map (\<lambda>x. if P x then f x else x) xs else xs @ [new]). P y"
proof (cases "list_ex P xs")
  case True
  then obtain x where "x \<in> set xs" "P x" by (auto simp: list_ex_iff)
  then have "f x \<in> set (map (\<lambda>x. if P x then f x else x) xs)" by force
  with True assms(1) \<open>P x\<close> show ?thesis by auto
next
  case False
  with assms(2) show ?thesis by simp
qed

lemma upsert_tenant_row:
  assumes "ids_ok d"
  shows "ids_ok (upsert_tenant coll name d)"
    and "\<exists>t \<in> set (tenants (upsert_tenant coll name d)). coll (t_name t) = coll name"
    and "\<forall>t \<in> set (tenants (upsert_tenant coll name d)). coll (t_name t) = coll name \<longrightarrow>
      t_enabled t \<and> t_rpm_limit t = 60 \<and> t_tpm_limit t = 4000 \<and> t_token_budget t = 1000000"
    and "api_keys (upsert_tenant coll name d) = api_keys d"
proof -
  have ids: "t_id \<circ> (\<lambda>t. if coll (t_name t) = coll name then t\<lparr>t_enabled := True, t_rpm_limit := 60,
      t_tpm_limit := 4000, t_token_budget := 1000000\<rparr> else t) = t_id"
    by auto
  show "ids_ok (upsert_tenant coll name d)"
  proof (cases "list_ex (\<lambda>t. coll (t_name t) = coll name) (tenants d)")
    case True
    then show ?thesis
      using assms by (auto simp: ids_ok_def upsert_tenant_def Let_def less_Suc_eq ids)
  next
    case False
    then show ?thesis using assms by (auto simp: ids_ok_def upsert_tenant_def Let_def less_Suc_eq)
  qed
  show "\<exists>t \<in> set (tenants (upsert_tenant coll name d)). coll (t_name t) = coll name"
    using upsert_has [of "\<lambda>t. coll (t_name t) = coll name" "\<lambda>t. t\<lparr>t_enabled := True,
        t_rpm_limit := 60, t_tpm_limit := 4000, t_token_budget := 1000000\<rparr>"
        "\<lparr>t_id = next_tenant_id d, t_name = name, t_enabled = True, t_rpm_limit = 60,
          t_tpm_limit = 4000, t_token_budget = 1000000\<rparr>" "tenants d"]
    by (simp add: upsert_tenant_def Let_def split: if_splits)
  show "\<forall>t \<in> set (tenants (upsert_tenant coll name d)). coll (t_name t) = coll name \<longrightarrow>
      t_enabled t \<and> t_rpm_limit t = 60 \<and> t_tpm_limit t = 4000 \<and> t_token_budget t = 1000000"
    by (auto simp: upsert_tenant_def Let_def list_ex_iff)
  show "api_keys (upsert_tenant coll name d) = api_keys d"
    by (simp add: upsert_tenant_def Let_def)
qed

lemma upsert_key_row:
  "k \<in> set (api_keys (upsert_key coll tid h p d)) \<Longrightarrow> coll (k_hash k) = coll h \<Longrightarrow>
     k_enabled k \<and> k_tenant_id k = tid"
  "tenants (upsert_key coll tid h p d) = tenants d"
  by (auto simp: upsert_key_def Let_def list_ex_iff split: if_splits)

lemma upsert_key_has: "\<exists>k \<in> set (api_keys (upsert_key coll tid h p d)). coll (k_hash k) = coll h"
  using upsert_has [of "\<lambda>k. coll (k_hash k) = coll h" "\<lambda>k. k\<lparr>k_tenant_id := tid, k_enabled := True\<rparr>"
      "\<lparr>k_id = next_key_id d, k_tenant_id = tid, k_hash = h, k_prefix = p, k_enabled = True\<rparr>" "api_keys d"]
  by (simp add: upsert_key_def Let_def split: if_splits)

lemma select_tenant_id_Some:
  assumes "select_tenant_id coll name d = Some tid"
  obtains t where "t \<in> set (tenants d)" "t_id t = tid" "coll (t_name t) = coll name"
  using assms by (auto simp: select_tenant_id_def find_Some_iff intro: that nth_mem)

text \<open>
  After seeding, the row of the development key belongs to the development tenant with its limits.
\<close>

lemma Seed_rows:
  assumes "SeedDevelopmentData coll d = (Inr seed, d')" and "ids_ok d"
  defines "h \<equiv> hashAPIKey developmentAPIKey"
  shows "seed_api_key seed = developmentAPIKey" and "key_rows coll h d' \<noteq> []"
    and "(t, k) \<in> set (key_rows coll h d') \<Longrightarrow> k_enabled k \<and> t_enabled t \<and> t_rpm_limit t = 60 \<and>
      t_tpm_limit t = 4000 \<and> t_token_budget t = 1000000 \<and> coll (t_name t) = coll developmentTenantName"
proof -
  obtain u d1 v d2 tid d3 x d4 where s: "EnsureSchema d = (Inr u, d1)"
    and t: "db_exec (\<lambda>d. ((), upsert_tenant coll developmentTenantName d)) d1 = (Inr v, d2)"
    and sel: "seed_tenant_id coll d2 = (Inr tid, d3)"
    and k: "db_exec (\<lambda>d. ((), upsert_key coll tid (bootstrap_hashAPIKey developmentAPIKey)
      (apiKeyPrefix developmentAPIKey) d)) d3 = (Inr x, d4)"
    and seed: "(Inr \<lparr>seed_tenant_name = developmentTenantName, seed_api_key = developmentAPIKey\<rparr>, d4) =
      (Inr seed, d')"
    using assms(1) unfolding SeedDevelopmentData_def by (elim bindS_InrE) blast
  have "ids_ok d1"
    using alongD [OF EnsureSchema_grows s] assms(2)
    by (simp add: schema_grows_def ids_ok_def) (metis image_iff list.set_map)
  moreover obtain e1 where e1: "same_data d1 e1" and d2: "d2 = upsert_tenant coll developmentTenantName e1"
    using t by (auto elim: db_exec_Inr)
  ultimately have "ids_ok e1" by (simp add: ids_ok_def same_data_fields [OF e1])
  note tenant = upsert_tenant_row [OF this, of coll developmentTenantName, folded d2]
  obtain y where q: "db_query (select_tenant_id coll developmentTenantName) d2 = (Inr (Some tid), y)"
      and y: "d3 = y"
    using sel by (auto simp: seed_tenant_id_def split: prod.splits sum.splits option.splits if_splits)
  obtain row where row: "row \<in> set (tenants d2)" "t_id row = tid"
      "coll (t_name row) = coll developmentTenantName"
    using db_query_Inr [OF q] by (metis select_tenant_id_Some)
  note same3 = same_data_fields [OF db_query_same [OF q]]
  obtain e3 where e3: "same_data d3 e3" and d4: "d4 = upsert_key coll tid h (apiKeyPrefix developmentAPIKey) e3"
    using k by (auto elim: db_exec_Inr simp: bootstrap_hashAPIKey_def h_def hashAPIKey_def)
  have d': "d' = d4" using seed by simp
  have tabs: "tenants d' = tenants d2"
    unfolding d' d4 upsert_key_row(2) same_data_fields(1) [OF e3] y same3(1) ..
  show "seed_api_key seed = developmentAPIKey" using seed by auto
  obtain kr where kr: "kr \<in> set (api_keys d')" "coll (k_hash kr) = coll h"
    unfolding d' d4 using upsert_key_has by blast
  then have "k_tenant_id kr = tid" unfolding d' d4 using upsert_key_row(1) by blast
  with kr row have "(row, kr) \<in> set (key_rows coll h d')"
    by (auto simp: key_rows_def tabs intro!: bexI [of _ kr] bexI [of _ row])
  then show "key_rows coll h d' \<noteq> []" by auto
  assume "(t, k) \<in> set (key_rows coll h d')"
  then have kt: "k \<in> set (api_keys d')" "coll (k_hash k) = coll h" "t \<in> set (tenants d2)"
      "t_id t = k_tenant_id k"
    by (auto simp: key_rows_def tabs split: if_splits)
  then have "k_enabled k" and "t_id t = tid" using upsert_key_row(1) unfolding d' d4 by auto
  moreover from this(2) row kt(3) tenant(1) have "t = row"
    by (auto simp: ids_ok_def distinct_map dest: inj_onD)
  ultimately show "k_enabled k \<and> t_enabled t \<and> t_rpm_limit t = 60 \<and> t_tpm_limit t = 4000 \<and>
      t_token_budget t = 1000000 \<and> coll (t_name t) = coll developmentTenantName"
    using tenant(3) row by blast
qed

lemma seed_header: "bearerToken (''Bearer '' @ developmentAPIKey) = Inr developmentAPIKey"
  unfolding developmentAPIKey_def by code_simp

end
