(* ===== verification/RoutingFacts.thy ===== *)
theory RoutingFacts
  imports RoutingStore RouterFacts AuthStoreFacts
begin

text \<open>
  What the routing rules do on their way from the configuration to the router: a replacement of the
  table is all or nothing and lists back normalized and in order, and the backends that result are
  considered for a model exactly when the table has a rule for it.
\<close>

section \<open>Replacing and listing\<close>

definition only_rules_change :: "db \<Rightarrow> db \<Rightarrow> bool" where
  "only_rules_change d d' \<longleftrightarrow> db_schema d' = db_schema d \<and> tenants d' = tenants d \<and>
     api_keys d' = api_keys d \<and> request_usages d' = request_usages d \<and>
     request_attempt_usages d' = request_attempt_usages d"

lemma only_rules_preorder: "data_preorder only_rules_change"
  by (auto simp: data_preorder_def only_rules_change_def same_data_fields intro!: transpI)

lemma insert_rule_only: "only_rules_change d (snd (insert_rule_statement coll row d))"
  by (simp add: insert_rule_statement_def only_rules_change_def)

lemma insert_rules_only: "along only_rules_change (insert_rules coll rs)"
proof (induction rs)
  case Nil
  have "insert_rules coll [] = (\<lambda>d. (Inr (), d))" by auto
  with along_return [OF only_rules_preorder] show ?case by simp
next
  case (Cons r rs)
  have "insert_rules coll (r # rs) =
      bindS (bindS (db_exec (insert_rule_statement coll (rule_row r))) (\<lambda>x d. (x, d)))
        (\<lambda>_. insert_rules coll rs)" by auto
  moreover have "along only_rules_change
      (bindS (bindS (db_exec (insert_rule_statement coll (rule_row r))) (\<lambda>x d. (x, d)))
        (\<lambda>_. insert_rules coll rs))"
    by (intro along_rules only_rules_preorder insert_rule_only Cons)
  ultimately show ?case by simp
qed

lemma insert_rules_Inr:
  assumes "insert_rules coll rs d = (Inr u, d')"
  shows "route_rules d' = route_rules d @ map rule_row rs"
  using assms
proof (induction rs arbitrary: d)
  case Nil
  then show ?case by simp
next
  case (Cons r rs)
  obtain x d1 where e: "bindS (db_exec (insert_rule_statement coll (rule_row r))) (\<lambda>x d. (x, d)) d =
      (Inr x, d1)" and rest: "insert_rules coll rs d1 = (Inr u, d')"
    using Cons.prems by (auto elim: bindS_InrE)
  obtain d0 where d0: "same_data d d0" and "insert_rule_statement coll (rule_row r) d0 = (Inr x, d1)"
    using e by (auto elim!: bindS_InrE db_exec_Inr)
  then have "route_rules d1 = route_rules d0 @ [rule_row r]"
    by (auto simp: insert_rule_statement_def split: if_splits)
  with Cons.IH [OF rest] show ?case by (simp add: same_data_fields [OF d0])
qed

lemma replace_body_Inr:
  assumes "bindS (db_exec (\<lambda>d. ((), d\<lparr>route_rules := []\<rparr>))) (\<lambda>_. insert_rules coll rules) d = (Inr u, d')"
  shows "route_rules d' = map rule_row rules" and "only_rules_change d d'"
proof -
  obtain v d1 where c: "db_exec (\<lambda>d. ((), d\<lparr>route_rules := []\<rparr>)) d = (Inr v, d1)"
    and i: "insert_rules coll rules d1 = (Inr u, d')"
    using assms by (rule bindS_InrE)
  have "route_rules d1 = []" using c by (auto elim: db_exec_Inr)
  with insert_rules_Inr [OF i] show "route_rules d' = map rule_row rules" by simp
  have "along only_rules_change (db_exec (\<lambda>d. ((), d\<lparr>route_rules := []\<rparr>)))"
    by (intro along_rules only_rules_preorder) (simp add: only_rules_change_def)
  then have "only_rules_change d d1" using c by (rule alongD)
  moreover have "only_rules_change d1 d'" using insert_rules_only i by (rule alongD)
  ultimately show "only_rules_change d d'" by (simp add: only_rules_change_def)
qed

lemma ReplaceRouteRules_Inr:
  assumes "ReplaceRouteRules coll rules d = (Inr u, d')"
  shows "route_rules d' = map rule_row rules" and "only_rules_change d d'"
proof -
  obtain d0 d1 where s: "same_data d d0" "same_data d1 d'"
    and b: "bindS (db_exec (\<lambda>d. ((), d\<lparr>route_rules := []\<rparr>))) (\<lambda>_. insert_rules coll rules) d0 = (Inr u, d1)"
    using assms unfolding ReplaceRouteRules_def by (rule db_tx_Inr)
  show "route_rules d' = map rule_row rules"
    using replace_body_Inr(1) [OF b] by (simp add: same_data_fields [OF s(2)])
  show "only_rules_change d d'"
    using replace_body_Inr(2) [OF b] same_data_fields [OF s(1)] same_data_fields [OF s(2)]
    by (simp add: only_rules_change_def)
qed

lemma ReplaceRouteRules_Inl:
  assumes "ReplaceRouteRules coll rules d = (Inl e, d')"
  shows "route_rules d' = route_rules d \<or> route_rules d' = map rule_row rules"
  using assms unfolding ReplaceRouteRules_def
proof (rule db_tx_Inl)
  assume "same_tables d d'"
  then show ?thesis by (simp add: same_tables_def)
next
  fix d0 x d1 assume "same_data d1 d'"
    and b: "bindS (db_exec (\<lambda>d. ((), d\<lparr>route_rules := []\<rparr>))) (\<lambda>_. insert_rules coll rules) d0 = (Inr x, d1)"
  with replace_body_Inr(1) [OF b] show ?thesis by (simp add: same_data_fields)
qed

lemma ListRouteRules_answering:
  assumes "answering d" and "has_table ''route_rules'' d"
  shows "ListRouteRules coll d = (Inr (map scan_rule (select_rules coll d)), d)"
  using assms by (simp add: ListRouteRules_def tableExists_def bindS_def)

section \<open>Grouping the rules\<close>

definition rules_of :: "string \<Rightarrow> route_rule_record list \<Rightarrow> route_rule list" where
  "rules_of name rules =
     map (\<lambda>r. \<lparr>rule_model = normalize_model (rrec_model r), rule_priority = rrec_priority r\<rparr>)
       (filter (\<lambda>r. trim_space (rrec_backend_name r) = name) rules)"

definition grouped ::
    "route_rule_record list \<Rightarrow> (string \<Rightarrow> route_rule list option) \<Rightarrow> (string \<Rightarrow> int option) \<Rightarrow> bool" where
  "grouped rules byBackend minPriority \<longleftrightarrow>
     (\<forall>name. byBackend name = (if rules_of name rules = [] then None else Some (rules_of name rules)) \<and>
             minPriority name = (if rules_of name rules = [] then None
                                 else Some (Min (rule_priority ` set (rules_of name rules)))))"

lemma rules_of_snoc:
  "rules_of name (done @ [r]) = rules_of name done @
     (if trim_space (rrec_backend_name r) = name
      then [\<lparr>rule_model = normalize_model (rrec_model r), rule_priority = rrec_priority r\<rparr>] else [])"
  by (simp add: rules_of_def)

lemma grouped_snoc:
  fixes r :: route_rule_record
  assumes "grouped done byBackend minPriority"
  defines "name \<equiv> trim_space (rrec_backend_name r)"
    and "rule \<equiv> \<lparr>rule_model = normalize_model (rrec_model r), rule_priority = rrec_priority r\<rparr>"
  shows "grouped (done @ [r])
    (byBackend(name \<mapsto> (case byBackend name of None \<Rightarrow> [] | Some l \<Rightarrow> l) @ [rule]))
    (if (case minPriority name of None \<Rightarrow> True | Some current \<Rightarrow> rrec_priority r < current)
     then minPriority(name \<mapsto> rrec_priority r) else minPriority)"
proof -
  have add: "rules_of n (done @ [r]) = rules_of n done @ (if n = name then [rule] else [])" for n
    by (simp add: rules_of_snoc name_def rule_def)
  have least: "Min (insert p S) = (if p < Min S then p else Min S)" if "finite S" "S \<noteq> {}" for p :: int and S
    unfolding Min_insert [OF that] min_def by (metis order_le_less)
  have p: "rule_priority rule = rrec_priority r" by (simp add: rule_def)
  show ?thesis
  proof (cases "rules_of name done = []")
    case True
    with assms(1) show ?thesis by (auto simp: grouped_def add p)
  next
    case False
    with assms(1) show ?thesis by (auto simp: grouped_def add p least simp del: Min_gr_iff)
  qed
qed

lemma group_rules_grouped:
  assumes "group_rules rs (byBackend, minPriority) = Inr (bb, mp)" and "grouped done byBackend minPriority"
  shows "grouped (done @ rs) bb mp"
  using assms
proof (induction rs arbitrary: "done" byBackend minPriority)
  case Nil
  then show ?case by simp
next
  case (Cons r rs)
  have "trim_space (rrec_backend_name r) \<noteq> []"
    using Cons.prems(1) by (auto simp: Let_def)
  with Cons.prems(1) have "group_rules rs
      (byBackend(trim_space (rrec_backend_name r) \<mapsto>
          (case byBackend (trim_space (rrec_backend_name r)) of None \<Rightarrow> [] | Some l \<Rightarrow> l) @
          [\<lparr>rule_model = normalize_model (rrec_model r), rule_priority = rrec_priority r\<rparr>]),
       if (case minPriority (trim_space (rrec_backend_name r)) of None \<Rightarrow> True
           | Some current \<Rightarrow> rrec_priority r < current)
       then minPriority(trim_space (rrec_backend_name r) \<mapsto> rrec_priority r) else minPriority) =
      Inr (bb, mp)"
    by (simp only: group_rules.simps Let_def if_False)
  from Cons.IH [OF this grouped_snoc [OF Cons.prems(2), of r]] show ?case by simp
qed

lemma group_rules_named:
  "group_rules rs acc = Inr x \<Longrightarrow> r \<in> set rs \<Longrightarrow> trim_space (rrec_backend_name r) \<noteq> []"
proof (induction rs arbitrary: acc)
  case Nil
  then show ?case by simp
next
  case (Cons q rs)
  obtain bb mp where "acc = (bb, mp)" by fastforce
  with Cons show ?case by (auto simp: Let_def simp del: fun_upd_apply split: if_splits)
qed

lemma rules_of_empty_iff:
  "rules_of name rules = [] \<longleftrightarrow> (\<forall>r \<in> set rules. trim_space (rrec_backend_name r) \<noteq> name)"
  by (auto simp: rules_of_def filter_empty_conv)

section \<open>The routed backends\<close>

definition routed :: "route_rule_record list \<Rightarrow> ('m, 'h) backend \<Rightarrow> ('m, 'h) backend" where
  "routed rules b =
     b\<lparr>be_rules := rules_of (be_name b) rules, be_models := [],
       be_priority := Min (rule_priority ` set (rules_of (be_name b) rules))\<rparr>"

lemma map_filter_routed:
  assumes "group_rules rules (\<lambda>_. None, \<lambda>_. None) = Inr (bb, mp)"
  shows "List.map_filter (route_backend bb mp) backends =
    map (routed rules) (filter (\<lambda>b. rules_of (be_name b) rules \<noteq> []) backends)"
proof -
  have "grouped [] (\<lambda>_. None) (\<lambda>_. None)" by (simp add: grouped_def rules_of_def)
  from group_rules_grouped [OF assms this] have gr: "grouped rules bb mp" by simp
  have "route_backend bb mp b = (if rules_of (be_name b) rules = [] then None else Some (routed rules b))"
    for b :: "('a, 'b) backend"
    using gr by (simp add: route_backend_def routed_def grouped_def)
  then show ?thesis by (induction backends) (simp_all add: List.map_filter_simps)
qed

lemma applyRouteRules_Inr:
  assumes "applyRouteRules backends rules = Inr (bs, on)"
  obtains (plain) "rules = []" "bs = backends" "\<not> on"
    | (rules) "rules \<noteq> []" "on" "bs \<noteq> []"
      "bs = map (routed rules) (filter (\<lambda>b. rules_of (be_name b) rules \<noteq> []) backends)"
      "\<forall>r \<in> set rules. \<exists>b \<in> set backends. be_name b = trim_space (rrec_backend_name r)"
proof (cases "rules = []")
  case True
  with assms plain show thesis by (auto simp: applyRouteRules_def)
next
  case False
  with assms obtain bb mp where g: "group_rules rules (\<lambda>_. None, \<lambda>_. None) = Inr (bb, mp)"
    by (auto simp: applyRouteRules_def split: sum.splits)
  have filtered: "List.map_filter (route_backend bb mp) backends =
      map (routed rules) (filter (\<lambda>b. rules_of (be_name b) rules \<noteq> []) backends)"
    using g by (rule map_filter_routed)
  let ?f = "map (routed rules) (filter (\<lambda>b. rules_of (be_name b) rules \<noteq> []) backends)"
  have res: "find (\<lambda>r. trim_space (rrec_backend_name r) \<notin> be_name ` set ?f) rules = None" "?f \<noteq> []"
      "bs = ?f" "on"
    using assms False g
    by (auto simp: applyRouteRules_def filtered Let_def split: option.splits if_splits)
  have "\<forall>r \<in> set rules. \<exists>b \<in> set backends. be_name b = trim_space (rrec_backend_name r)"
  proof
    fix r assume "r \<in> set rules"
    with res(1) have "trim_space (rrec_backend_name r) \<in> be_name ` set ?f"
      by (simp only: find_None_iff) blast
    then show "\<exists>b \<in> set backends. be_name b = trim_space (rrec_backend_name r)"
      by (auto simp: routed_def)
  qed
  with False res rules show thesis by blast
qed

lemma rules_of_keys:
  "(\<exists>x \<in> set (rules_of name rules). P (rule_model x) (rule_priority x)) \<longleftrightarrow>
     (\<exists>r \<in> set rules. trim_space (rrec_backend_name r) = name \<and>
        P (normalize_model (rrec_model r)) (rrec_priority r))"
  by (auto simp: rules_of_def)

text \<open>What the router considers for a model, in terms of the rules of the table.\<close>

lemma routed_applicable:
  assumes "\<forall>r \<in> set rules. rrec_priority r < max_int" and "rules_of (be_name b) rules \<noteq> []"
  shows "applicable (normal_model model) (routed rules b) \<longleftrightarrow>
    (\<exists>r \<in> set rules. trim_space (rrec_backend_name r) = be_name b \<and>
       (normalize_model (rrec_model r) = [] \<or> normalize_model (rrec_model r) = normal_model model))"
proof -
  have keys: "rule_key x = rule_model x" if "x \<in> set (rules_of (be_name b) rules)" for x
    using that by (auto simp: rule_key_def rules_of_def normalize_model_def)
  have pr: "rule_priority x < max_int" if "x \<in> set (rules_of (be_name b) rules)" for x
    using that assms(1) by (auto simp: rules_of_def)
  then have "\<forall>x \<in> set (be_rules (routed rules b)). rule_priority x \<le> max_int"
    by (auto simp: routed_def intro: less_imp_le)
  from applicable_rules_iff [OF this, of "normal_model model"] show ?thesis
    using keys pr assms(2)
      rules_of_keys [of "be_name b" rules "\<lambda>m p. (m = [] \<or> m = normal_model model) \<and> p \<noteq> max_int"] assms(1)
    by (auto simp: routed_def) (metis less_irrefl)+
qed

end
