(* ===== verification/RouterProperties.thy ===== *)
theory RouterProperties
  imports RouterFacts
begin

text \<open>
  The properties of the router, with a router of two backends, of which the preferred one always
  fails, on which their hypotheses hold.
\<close>

section \<open>A router to try them on\<close>

definition demo_response :: chat_completion_response where
  "demo_response =
     \<lparr>resp_id = ''c1'', resp_object = ''chat.completion'', resp_created = 0, resp_model = ''m'',
      resp_choices = [], resp_usage = \<lparr>prompt_tokens = 1, completion_tokens = 1, total_tokens = 2\<rparr>\<rparr>"

definition demo_chunk :: chat_completion_chunk where
  "demo_chunk = \<lparr>chunk_id = ''c1'', chunk_object = ''chat.completion.chunk'', chunk_created = 0,
                 chunk_model = ''m'', chunk_choices = []\<rparr>"

definition demo_request :: chat_completion_request where
  "demo_request = \<lparr>req_model = ''m'', req_messages = [], req_stream = False\<rparr>"

definition demo_ctx :: "(rstate, unit) attempt_ctx" where
  "demo_ctx = \<lparr>ctx_recorder = None, ctx_backend = []\<rparr>"

definition failing :: "(rstate, unit, selection list) chat_provider" where
  "failing = \<lparr>CreateChatCompletion = (\<lambda>ctx req s. (Inl (NewErr ''down''), s)),
              StreamChatCompletion = (\<lambda>ctx req s. (Inl (NewErr ''down''), s))\<rparr>"

definition answering_provider :: "(rstate, unit, selection list) chat_provider" where
  "answering_provider =
     \<lparr>CreateChatCompletion = (\<lambda>ctx req s. (Inr demo_response, s)),
      StreamChatCompletion = (\<lambda>ctx req s. (Inr [SEvent (ChunkEvent demo_chunk) None,
        SEvent (ErrEvent (NewErr ''cut'')) None], s))\<rparr>"

definition demo_backend ::
    "string \<Rightarrow> (rstate, unit, selection list) chat_provider \<Rightarrow> int \<Rightarrow> (unit, unit) backend" where
  "demo_backend name provider prio =
     \<lparr>be_name = name, be_provider = provider, be_list_models = Some (\<lambda>s. (Inr [], s)),
      be_priority = prio, be_models = [], be_rules = [], be_first_event_timeout = 0\<rparr>"

definition demo_router :: "(unit, unit) router" where
  "demo_router =
     \<lparr>ro_backends = [demo_backend ''a'' failing 1, demo_backend ''b'' answering_provider 2],
      ro_failure_threshold = 2, ro_cooldown = 30, ro_observer = True\<rparr>"

definition demo_state :: rstate where
  "demo_state = \<lparr>rs_states = (\<lambda>_. zero_state), rs_log = [], rs_clock = 5\<rparr>"

lemma demo_state_parts [simp]: "rs_states demo_state n = zero_state" "rs_clock demo_state = 5"
  by (simp_all add: demo_state_def)

lemma demo_router_parts [simp]:
  "ro_failure_threshold demo_router = 2" "ro_cooldown demo_router = 30"
  "ro_backends demo_router = [demo_backend ''a'' failing 1, demo_backend ''b'' answering_provider 2]"
  by (simp_all add: demo_router_def)

lemma demo_backend_parts [simp]:
  "be_name (demo_backend name provider prio) = name"
  "be_provider (demo_backend name provider prio) = provider"
  by (simp_all add: demo_backend_def)

lemma demo_applicable [simp]: "applicable model (demo_backend name provider prio)"
  by (simp add: demo_backend_def applicable_def backendPreference_def)

lemma demo_not_cooling [simp]: "\<not> cooling demo_state n"
  by (simp add: cooling_def go_defs zero_state_def)

section \<open>Choosing backends\<close>

text \<open>
  The ranking of the backends for a model is a permutation of those whose rules admit it, ordered
  by better match, then lower rule priority, then lower backend priority, and backends that these do
  not tell apart keep the order of the configuration.
\<close>

theorem ranking_is_stable_order:
  "mset (rankBackends bs model) = mset (filter (applicable (normal_model model)) bs) \<and>
   sorted (map (backend_rank (normal_model model)) (rankBackends bs model)) \<and>
   (\<forall>k. filter (\<lambda>b. backend_rank (normal_model model) b = k) (rankBackends bs model) =
        filter (\<lambda>b. backend_rank (normal_model model) b = k) (filter (applicable (normal_model model)) bs))"
  using rankBackends_mset rankBackends_sorted rankBackends_stable by blast

text \<open>
  A backend with routing rules is considered for a model exactly when one of its rules is for this
  model or for any model, compared without case and surrounding space, and has a priority below the
  largest integer; a backend without rules is always considered.
\<close>

theorem rules_admit_backend:
  assumes "\<forall>r \<in> set (be_rules b). rule_priority r \<le> max_int"
  shows "applicable model b \<longleftrightarrow> be_rules b = [] \<or>
    (\<exists>r \<in> set (be_rules b). (rule_key r = [] \<or> rule_key r = model) \<and> rule_priority r \<noteq> max_int)"
  using assms by (rule applicable_rules_iff)

theorem rules_admit_backend_witness:
  "\<not> applicable ''m'' (demo_backend ''a'' failing 1\<lparr>be_rules := [\<lparr>rule_model = '' N '', rule_priority = 1\<rparr>]\<rparr>)"
proof -
  have "rule_key \<lparr>rule_model = '' N '', rule_priority = 1\<rparr> = ''n''" by code_simp
  then show ?thesis
    using rules_admit_backend [of "demo_backend ''a'' failing 1
        \<lparr>be_rules := [\<lparr>rule_model = '' N '', rule_priority = 1\<rparr>]\<rparr>" "''m''"]
    by (simp add: max_int_def)
qed

section \<open>Completions\<close>

text \<open>
  C6: A completion tries the backends of the ranking that are not cooling down, or all of them when
  all are. It ends in one of four ways: no backend admits the model, and nothing changes; the first
  backend that answers gives the response, after those before it failed and had their failures
  counted, and is marked healthy; a backend reports that accounting failed, which ends the dispatch
  at once without counting a failure; or every backend failed and the last one's error is returned.
\<close>

theorem completion_dispatch:
  assumes "router_CreateChatCompletion p ctx req s = (r, s')"
    and "candidates_of p (req_model req) s = (cs, sk)"
  shows "cs = [] \<and> r = Inl (noCandidatesError (length (ro_backends p))) \<and> s' = s \<and>
      (\<forall>b \<in> set (ro_backends p). \<not> applicable (normal_model (req_model req)) b) \<or>
    (\<exists>pre b post e t resp t'. cs = pre @ b # post \<and>
      create_failed p ctx req 1 pre no_error e (observeSkipped p ''create'' sk s) t \<and>
      CreateChatCompletion (be_provider b) (WithAttemptBackend (be_name b) ctx) req t = (Inr resp, t') \<and>
      r = Inr resp \<and> rs_states s' = (rs_states t')(be_name b :=
        zero_state\<lparr>bs_last_probe_at := bs_last_probe_at (rs_states t' (be_name b))\<rparr>)) \<or>
    (\<exists>pre b post e t e'. cs = pre @ b # post \<and>
      create_failed p ctx req 1 pre no_error e (observeSkipped p ''create'' sk s) t \<and>
      CreateChatCompletion (be_provider b) (WithAttemptBackend (be_name b) ctx) req t = (Inl e', s') \<and>
      IsAttemptAccountingError e' \<and> r = Inl e') \<or>
    (\<exists>e. cs \<noteq> [] \<and> create_failed p ctx req 1 cs no_error e (observeSkipped p ''create'' sk s) s' \<and>
      r = Inl e \<and> \<not> IsAttemptAccountingError e)"
proof (cases "cs = []")
  case True
  with assms candidates_of_set(2) [OF assms(2)] show ?thesis
    by (simp add: router_CreateChatCompletion_def)
next
  case False
  then have "create_loop p ctx req cs 1 no_error (observeSkipped p ''create'' sk s) = (r, s')"
    using assms by (simp add: router_CreateChatCompletion_def)
  then show ?thesis
  proof (cases rule: create_loop_cases)
    case (exhausted e)
    with False create_failed_last [of p ctx req 1 cs no_error e] show ?thesis by blast
  qed blast+
qed

lemma demo_candidates:
  "candidates_of demo_router ''m'' demo_state =
     ([demo_backend ''a'' failing 1, demo_backend ''b'' answering_provider 2], [])"
proof -
  have "backend_rank ''m'' (demo_backend n pr k) = Rank 1 k k" for n pr k
    by (simp add: backend_rank_def backendPreference_def demo_backend_def)
  moreover have "trim_space (to_lower ''m'') = ''m''" by code_simp
  ultimately show ?thesis
    by (simp add: candidates_of_def rankBackends_def less_eq_rank_def less_rank_def rank_before_def Let_def
        sort_key_def insort_key.simps)
qed

lemma demo_provider_calls [simp]:
  "CreateChatCompletion failing ctx req s = (Inl (NewErr ''down''), s)"
  "CreateChatCompletion answering_provider ctx req s = (Inr demo_response, s)"
  "StreamChatCompletion failing ctx req s = (Inl (NewErr ''down''), s)"
  "StreamChatCompletion answering_provider ctx req s =
     (Inr [SEvent (ChunkEvent demo_chunk) None, SEvent (ErrEvent (NewErr ''cut'')) None], s)"
  by (simp_all add: failing_def answering_provider_def)

lemma demo_model [simp]: "req_model demo_request = ''m''"
  by (simp add: demo_request_def)

lemma demo_answered:
  "fst (router_CreateChatCompletion demo_router demo_ctx demo_request demo_state) = Inr demo_response"
  by (simp add: router_CreateChatCompletion_def demo_candidates Let_def split: prod.splits)

theorem completion_dispatch_witness:
  "\<exists>pre b post e t t'.
     [demo_backend ''a'' failing 1, demo_backend ''b'' answering_provider 2] = pre @ b # post \<and>
     create_failed demo_router demo_ctx demo_request 1 pre no_error e
       (observeSkipped demo_router ''create'' [] demo_state) t \<and>
     CreateChatCompletion (be_provider b) (WithAttemptBackend (be_name b) demo_ctx) demo_request t =
       (Inr demo_response, t')"
proof -
  obtain s' where "router_CreateChatCompletion demo_router demo_ctx demo_request demo_state =
      (Inr demo_response, s')"
    using demo_answered by (metis prod.collapse)
  from completion_dispatch [OF this] demo_candidates show ?thesis by fastforce
qed

text \<open>
  C7: A completion is answered whenever a backend that admits the model and is not cooling down (or
  all that admit it are) always answers, and no backend's accounting fails: the failures of the
  others do not keep the router from reaching it.
\<close>

theorem dispatch_reaches_answer:
  assumes "b \<in> set (ro_backends p)" and "applicable (normal_model (req_model req)) b"
    and "\<not> cooling s (be_name b) \<or>
      (\<forall>c \<in> set (ro_backends p). applicable (normal_model (req_model req)) c \<longrightarrow> cooling s (be_name c))"
    and "\<And>t. \<exists>resp t'. CreateChatCompletion (be_provider b) (WithAttemptBackend (be_name b) ctx) req t =
      (Inr resp, t')"
    and "\<And>c t e t'. c \<in> set (ro_backends p) \<Longrightarrow>
      CreateChatCompletion (be_provider c) (WithAttemptBackend (be_name c) ctx) req t = (Inl e, t') \<Longrightarrow>
      \<not> IsAttemptAccountingError e"
  shows "\<exists>resp s'. router_CreateChatCompletion p ctx req s = (Inr resp, s')"
proof -
  obtain cs sk where c: "candidates_of p (req_model req) s = (cs, sk)" by fastforce
  have "b \<in> set (rankBackends (ro_backends p) (req_model req))"
    using assms(1,2) by (simp add: rankBackends_set)
  then have b: "b \<in> set cs"
    using assms(3)
    by (cases rule: candidates_of_cases [OF c]) (auto simp: rankBackends_set filter_empty_conv)
  have sub: "set cs \<subseteq> set (ro_backends p)" using candidates_of_set(1) [OF c] by auto
  let ?t = "observeSkipped p ''create'' sk s"
  obtain r s' where run: "create_loop p ctx req cs 1 no_error ?t = (r, s')" by fastforce
  then have "\<exists>resp. r = Inr resp"
  proof (cases rule: create_loop_cases)
    case (exhausted e)
    obtain t e' t' where "CreateChatCompletion (be_provider b) (WithAttemptBackend (be_name b) ctx) req t =
        (Inl e', t')" using create_failed_all [OF exhausted(1) b] by blast
    with assms(4) [of t] show ?thesis by auto
  next
    case (accounting pre c post e s1 e')
    with assms(5) [of c s1 e' s'] sub show ?thesis by auto
  qed blast
  with run c b show ?thesis by (auto simp: router_CreateChatCompletion_def)
qed

theorem dispatch_reaches_answer_witness:
  "\<exists>resp s'. router_CreateChatCompletion demo_router demo_ctx demo_request demo_state = (Inr resp, s')"
  by (rule dispatch_reaches_answer [of "demo_backend ''b'' answering_provider 2"]) auto

section \<open>The circuit breaker\<close>

text \<open>
  C13: Over any interleaving of marks of success and failure by requests and probes, starting with
  nothing counted, a backend's count is between 0 and the number of failures of the run, and a
  backend that is closed for a time has reached the threshold.
\<close>

theorem circuit_breaker_invariant:
  assumes "breaker_run p s k s'" and "int k \<le> max_int" and "\<forall>n. rs_states s n = zero_state"
  shows "0 \<le> bs_consecutive_failures (rs_states s' n) \<and>
    bs_consecutive_failures (rs_states s' n) \<le> int k \<and>
    (is_zero_time (bs_unhealthy_until (rs_states s' n)) \<or>
     ro_failure_threshold p \<le> bs_consecutive_failures (rs_states s' n))"
proof -
  have "router_ok p s" "counts_within 0 s"
    using assms(3) by (simp_all add: router_ok_def counts_within_def breaker_ok_def zero_state_def)
  from breaker_run_ok [OF assms(1) this assms(2)] show ?thesis
    by (auto simp: router_ok_def counts_within_def breaker_ok_def is_zero_time_def)
qed

theorem circuit_breaker_invariant_witness:
  "bs_consecutive_failures (rs_states (snd (markFailure demo_router ''a'' demo_state)) ''a'') \<le> 1"
  using circuit_breaker_invariant [OF breaker_run.failure [OF breaker_run.start [of demo_router demo_state],
      of "''a''"], of "''a''"]
  by (simp add: max_int_def)



text \<open>
  C15: After k failures in a row a backend is cooling down exactly when k has reached the threshold,
  for exactly the cooldown from then on, and a success reopens it at once.
\<close>

theorem cooldown_schedule:
  assumes "rs_states s name = zero_state" and "int k \<le> max_int" and "0 \<le> rs_clock s"
    and "p = router_New bs cfg"
  shows "(cooling (pass_time d (fail_times p name k s)) name \<longleftrightarrow>
      ro_failure_threshold p \<le> int k \<and> d < ro_cooldown p) \<and>
    \<not> cooling (pass_time d (snd (markSuccess name (fail_times p name k s)))) name"
proof -
  note pos = router_New_positive [of bs cfg, folded assms(4)]
  note st = fail_times_state [OF assms(1,2) pos(1)]
  show ?thesis
    using st pos assms(3)
    by (auto simp: cooling_def go_defs markSuccess_def set_state_def zero_state_def Let_def)
qed

theorem cooldown_schedule_witness:
  "cooling (pass_time 29 (fail_times (router_New (ro_backends demo_router)
     \<lparr>rc_failure_threshold = 2, rc_cooldown = 30, rc_observer = False\<rparr>) ''a'' 2 demo_state)) ''a''"
  using cooldown_schedule [of demo_state "''a''" 2 _ "ro_backends demo_router"
      "\<lparr>rc_failure_threshold = 2, rc_cooldown = 30, rc_observer = False\<rparr>" 29, OF _ _ _ refl]
  by (simp add: max_int_def router_New_def)

text \<open>
  The router is ready exactly when some backend is not cooling down, and the status of every
  backend says so of it.
\<close>

theorem readiness_is_a_healthy_backend:
  "(Ready p s \<longleftrightarrow> (\<exists>b \<in> set (ro_backends p). \<not> cooling s (be_name b))) \<and>
   map st_healthy (BackendStatuses p s) = map (\<lambda>b. \<not> cooling s (be_name b)) (ro_backends p)"
  using Ready_iff status_healthy by blast

section \<open>Streams\<close>


lemma demo_streamed:
  "\<exists>s'. router_StreamChatCompletion demo_router demo_ctx demo_request demo_state =
     (Inr \<lparr>ex_first = ChunkEvent demo_chunk, ex_fate = None,
           ex_events = [SEvent (ErrEvent (NewErr ''cut'')) None], ex_backend = ''b'', ex_attempt = 2\<rparr>, s')"
  by (simp add: router_StreamChatCompletion_def demo_candidates awaitFirstStreamEvent_def
      awaitStreamEvent_def demo_backend_def Let_def split: prod.splits)


end
