(* ===== verification/TextFacts.thy ===== *)
theory TextFacts
  imports Texts
begin

text \<open>
  Trimming of texts whose first and last characters are visible ones. No rune of white space begins or
  ends with a visible character.
\<close>

definition visible :: "char \<Rightarrow> bool" where
  "visible c \<longleftrightarrow> 33 \<le> (of_char c :: int) \<and> (of_char c :: int) < 127"

lemma ws_invisible: "list_all (\<lambda>e. \<not> visible (hd e) \<and> \<not> visible (last e)) ws_runes"
  by code_simp

lemma strip_visible_front: "visible c \<Longrightarrow> strip_any ws_runes (c # s) = None"
  unfolding strip_any_None_iff
proof
  fix e assume "visible c" and "e \<in> set ws_runes"
  then show "strip_prefix e (c # s) = None"
    using ws_invisible ws_runes_nonempty [of e] by (cases e) (auto simp: list_all_iff)
qed

lemma strip_visible_back: "visible c \<Longrightarrow> strip_any (map rev ws_runes) (c # s) = None"
  unfolding strip_any_None_iff
proof
  fix f assume c: "visible c" and "f \<in> set (map rev ws_runes)"
  then obtain e where "e \<in> set ws_runes" and f: "f = rev e" by auto
  then have "e \<noteq> []" and "\<not> visible (last e)"
    using ws_invisible ws_runes_nonempty by (auto simp: list_all_iff)
  with c f show "strip_prefix f (c # s) = None" by (cases e rule: rev_cases) auto
qed

text \<open>White space after a visible character is trimmed, and nothing else.\<close>

lemma trim_space_ends:
  assumes "visible (hd s)" and "visible (last s)" and "s \<noteq> []"
  shows "trim_space s = s" and "trim_space (s @ [CHR 0x0A]) = s"
proof -
  obtain c u where s: "s = c # u" using assms(3) by (cases s) auto
  obtain v d where s': "s = v @ [d]" using assms(3) by (cases s rule: rev_cases) auto
  have c: "visible c" using assms(1) by (simp add: s)
  have d: "visible d" using assms(2) by (simp add: s')
  have front: "trim_left (s @ t) = s @ t" for t
    using strip_visible_front [OF c] by (simp add: trim_left_def s trim_front_id)
  have rear: "trim_right s = s"
    using strip_visible_back [OF d, of "rev v"] by (simp add: trim_right_def s' trim_front_id)
  show "trim_space s = s" using front [of "[]"] rear by (simp add: trim_space_def)
  have "strip_any (map rev ws_runes) (CHR 0x0A # rev s) = Some (rev s)" by (simp add: ws_runes_def)
  then have "trim_front (map rev ws_runes) (CHR 0x0A # rev s) = trim_front (map rev ws_runes) (rev s)"
    by (rule trim_front_Some) simp
  then have "trim_right (s @ [CHR 0x0A]) = trim_right s" by (simp add: trim_right_def)
  then show "trim_space (s @ [CHR 0x0A]) = s"
    using front [of "[CHR 0x0A]"] rear by (simp add: trim_space_def)
qed

lemma trim_visible:
  assumes "list_all visible s"
  shows "trim_space s = s"
proof (cases "s = []")
  case False
  with assms show ?thesis by (intro trim_space_ends(1)) (auto simp: list_all_iff)
qed simp

lemma digit_visible: "is_digit c \<Longrightarrow> visible c \<and> c \<noteq> CHR '',''"
proof
  assume d: "is_digit c"
  then show "visible c" by (simp add: is_digit_def visible_def)
  show "c \<noteq> CHR '',''" using d by (auto simp: is_digit_def)
qed

lemma itoa_visible: "list_all visible (itoa i) \<and> CHR '','' \<notin> set (itoa i)"
  using in_itoa [of _ i] digit_visible by (fastforce simp: list_all_iff visible_def)

lemma has_prefix_simps [simp]:
  "has_prefix s []" "\<not> has_prefix [] (d # p)" "has_prefix (c # s) (d # p) \<longleftrightarrow> c = d \<and> has_prefix s p"
  by (simp_all add: has_prefix_iff)

end
