(* ===== verification/StoreProperties.thy ===== *)
theory StoreProperties
  imports RoutingFacts RouterProperties TextFacts
begin

text \<open>
  The properties of what the gateway reads from its database before it serves: keys and tenants, the
  schema and its development seed, and the routing rules on their way from arguments, configuration
  and table to the backends of the router.
\<close>

section \<open>A database to try them on\<close>

definition empty_db :: db where
  "empty_db =
     \<lparr>tenants = [], api_keys = [], request_usages = [], request_attempt_usages = [], route_rules = [],
      next_usage_id = 1, next_attempt_id = 1, next_tenant_id = 1, next_key_id = 1, db_schema = [],
      db_now = 0, db_faults = []\<rparr>"

definition shop_tenant :: tenant_row where
  "shop_tenant = \<lparr>t_id = 1, t_name = ''shop'', t_enabled = True, t_rpm_limit = 60, t_tpm_limit = 4000,
                  t_token_budget = 1000000\<rparr>"

definition shop_key :: api_key_row where
  "shop_key = \<lparr>k_id = 1, k_tenant_id = 1, k_hash = hashAPIKey ''key'', k_prefix = ''key'', k_enabled = True\<rparr>"

definition shop_db :: db where
  "shop_db = empty_db\<lparr>tenants := [shop_tenant], api_keys := [shop_key],
     db_schema := [createRouteRulesTableSQL]\<rparr>"

definition shop_rule :: "string \<Rightarrow> string \<Rightarrow> int \<Rightarrow> route_rule_record" where
  "shop_rule b m p = \<lparr>rrec_backend_name = b, rrec_model = m, rrec_priority = p, rrec_enabled = True\<rparr>"

lemma empty_db_parts [simp]:
  "answering empty_db" "tenants empty_db = []" "api_keys empty_db = []" "db_schema empty_db = []"
  "ids_ok empty_db" "next_tenant_id empty_db = 1"
  by (simp_all add: empty_db_def answering_def ids_ok_def)

lemma shop_db_parts [simp]:
  "answering shop_db" "tenants shop_db = [shop_tenant]" "api_keys shop_db = [shop_key]"
  "has_table ''route_rules'' shop_db"
  by (simp_all add: shop_db_def empty_db_def answering_def has_table_def createRouteRulesTableSQL_def)

section \<open>Authentication\<close>

text \<open>
  Whatever the database does, a request is only ever given a principal when its header carries a
  bearer token whose hash is that of an enabled key row, joined to an enabled tenant row; the
  principal is that key's and that tenant's, and the lookup changes nothing.
\<close>

theorem principal_from_enabled_rows:
  assumes "AuthenticateRequest (LookupAPIKey coll) header d = (Inr pr, d')"
  shows "\<exists>key t k. bearerToken header = Inr key \<and> t \<in> set (tenants d) \<and> k \<in> set (api_keys d) \<and>
    t_id t = k_tenant_id k \<and> coll (k_hash k) = coll (hashAPIKey key) \<and> k_enabled k \<and> t_enabled t \<and>
    pr = \<lparr>principal_tenant = \<lparr>tenant_id = t_id t, tenant_name = t_name t, rpm_limit = t_rpm_limit t,
            tpm_limit = t_tpm_limit t, token_budget = t_token_budget t\<rparr>,
          principal_key_id = k_id k, principal_key_prefix = k_prefix k\<rparr> \<and> same_data d d'"
  using AuthenticateRequest_rows [OF assms] .

lemma shop_header: "bearerToken ''bearer   key '' = Inr ''key''"
  by code_simp

lemma shop_authenticates:
  "AuthenticateRequest (LookupAPIKey id) ''bearer   key '' shop_db =
     (Inr \<lparr>principal_tenant = \<lparr>tenant_id = 1, tenant_name = ''shop'', rpm_limit = 60, tpm_limit = 4000,
             token_budget = 1000000\<rparr>, principal_key_id = 1, principal_key_prefix = ''key''\<rparr>, shop_db)"
  by (simp add: AuthenticateRequest_def shop_header LookupAPIKey_def key_rows_def key_record_def)
     (simp add: shop_key_def shop_tenant_def)

theorem principal_from_enabled_rows_witness:
  "\<exists>key t k. bearerToken ''bearer   key '' = Inr key \<and> t \<in> set (tenants shop_db) \<and>
    k \<in> set (api_keys shop_db) \<and> k_enabled k \<and> t_enabled t \<and> k_hash k = hashAPIKey key"
  using principal_from_enabled_rows [OF shop_authenticates] by auto

text \<open>
  C27: With a database that answers, authentication is a decision on the rows: no header and no token
  are told apart from a wrong key, a token that no key row has is an invalid key, a row whose key or
  tenant is disabled is a disabled key, and otherwise the principal of the first row is returned.
\<close>

theorem authentication_decided:
  assumes "answering d"
  shows "AuthenticateRequest (LookupAPIKey coll) header d =
    ((if trim_space header = [] then Inl ErrMissingAPIKey
      else case bearerToken header of
        Inl _ \<Rightarrow> Inl ErrInvalidAPIKey
      | Inr key \<Rightarrow>
          (case key_rows coll (hashAPIKey key) d of
             [] \<Rightarrow> Inl ErrInvalidAPIKey
           | (t, k) # _ \<Rightarrow>
               if \<not> k_enabled k \<or> \<not> t_enabled t then Inl ErrDisabledAPIKey
               else Inr \<lparr>principal_tenant = \<lparr>tenant_id = t_id t, tenant_name = t_name t,
                           rpm_limit = t_rpm_limit t, tpm_limit = t_tpm_limit t,
                           token_budget = t_token_budget t\<rparr>,
                         principal_key_id = k_id k, principal_key_prefix = k_prefix k\<rparr>)), d)"
proof (cases "bearerToken header")
  case (Inl e)
  with bearerToken_errors [OF Inl] bearerToken_missing_iff [of header] show ?thesis
    by (auto simp: AuthenticateRequest_def)
next
  case (Inr key)
  have "trim_space header \<noteq> []" using Inr by (auto simp: bearerToken_def)
  with Inr assms show ?thesis
    by (auto simp: AuthenticateRequest_def LookupAPIKey_def key_record_def errors_is_refl
        split: list.splits)
qed

theorem authentication_decided_witness:
  "AuthenticateRequest (LookupAPIKey id) ''Basic key'' shop_db = (Inl ErrInvalidAPIKey, shop_db)"
proof -
  have "bearerToken ''Basic key'' = Inl ErrInvalidAPIKey" and "trim_space ''Basic key'' \<noteq> []"
    by code_simp+
  then show ?thesis using authentication_decided [of shop_db id "''Basic key''"] by simp
qed

section \<open>The schema and its seed\<close>

text \<open>
  Ensuring the schema never loses a table, a column or a row, even when it fails half way, and when
  it succeeds every table of the gateway exists and the tenants have all the columns it reads.
\<close>

theorem schema_is_ensured:
  "(case EnsureSchema d of
      (Inl e, d') \<Rightarrow> schema_grows d d'
    | (Inr u, d') \<Rightarrow> schema_grows d d' \<and>
        (\<forall>name \<in> set [''tenants'', ''api_keys'', ''request_usages'', ''request_attempt_usages'',
           ''route_rules'']. has_table name d') \<and>
        (\<forall>col \<in> set [''enabled'', ''rpm_limit'', ''tpm_limit'', ''token_budget''].
           has_column ''tenants'' col d'))"
proof -
  obtain r d' where e: "EnsureSchema d = (r, d')" by fastforce
  with alongD [OF EnsureSchema_grows e] EnsureSchema_complete [of d _ d'] show ?thesis
    by (auto split: sum.splits)
qed

lemma empty_schema: "fst (EnsureSchema empty_db) = Inr ()"
  by code_simp

theorem schema_is_ensured_witness:
  "has_column ''tenants'' ''token_budget'' (snd (EnsureSchema empty_db))"
proof -
  obtain d' where "EnsureSchema empty_db = (Inr (), d')"
    using empty_schema by (cases "EnsureSchema empty_db") auto
  with schema_is_ensured [of empty_db] show ?thesis by simp
qed

text \<open>
  After the development data has been seeded, over whatever was there, the key of the seed
  authenticates as the development tenant with the limits of the seed.
\<close>

theorem seeded_key_authenticates:
  assumes "SeedDevelopmentData coll d = (Inr seed, d')" and "ids_ok d" and "answering d'"
  shows "\<exists>pr. AuthenticateRequest (LookupAPIKey coll) (''Bearer '' @ seed_api_key seed) d' = (Inr pr, d') \<and>
    rpm_limit (principal_tenant pr) = 60 \<and> tpm_limit (principal_tenant pr) = 4000 \<and>
    token_budget (principal_tenant pr) = 1000000 \<and>
    coll (tenant_name (principal_tenant pr)) = coll developmentTenantName"
proof -
  note rows = Seed_rows [OF assms(1,2)]
  let ?P = "\<lambda>r. rec_key_enabled r \<and> rec_tenant_enabled r \<and> rpm_limit (rec_tenant r) = 60 \<and>
    tpm_limit (rec_tenant r) = 4000 \<and> token_budget (rec_tenant r) = 1000000 \<and>
    coll (tenant_name (rec_tenant r)) = coll developmentTenantName"
  have "?P (key_record t k)" if "(t, k) \<in> set (key_rows coll (hashAPIKey developmentAPIKey) d')" for t k
    using rows(3) [OF that] by (simp add: key_record_def)
  from LookupAPIKey_rows [OF assms(3), of coll "hashAPIKey developmentAPIKey" ?P, OF this rows(2)]
  show ?thesis
    using rows(1) seed_header by (auto simp: AuthenticateRequest_def)
qed

definition seeded_db :: db where
  "seeded_db = snd (EnsureSchema empty_db)"

lemma ensured_empty: "EnsureSchema empty_db = (Inr (), seeded_db)"
  using empty_schema by (cases "EnsureSchema empty_db") (simp add: seeded_db_def)

lemma seeded_parts: "db_faults seeded_db = []" "tenants seeded_db = []" "api_keys seeded_db = []"
  unfolding seeded_db_def by code_simp+

lemma seed_succeeds:
  "\<exists>d'. SeedDevelopmentData id empty_db =
     (Inr \<lparr>seed_tenant_name = developmentTenantName, seed_api_key = developmentAPIKey\<rparr>, d') \<and> answering d'"
proof -
  have a: "answering seeded_db" by (simp add: answering_def seeded_parts)
  let ?d = "upsert_tenant id developmentTenantName seeded_db"
  have b: "answering ?d" and t: "tenants ?d \<noteq> []" "t_name (hd (tenants ?d)) = developmentTenantName"
    by (simp_all add: upsert_tenant_def seeded_parts answering_def)
  then have "select_tenant_id id developmentTenantName ?d \<noteq> None"
    by (cases "tenants ?d") (simp_all add: select_tenant_id_def)
  then obtain tid where "seed_tenant_id id ?d = (Inr tid, ?d)"
    using b by (auto simp: seed_tenant_id_def)
  then show ?thesis
    using a b by (simp add: SeedDevelopmentData_def bindS_def ensured_empty)
      (simp add: answering_def upsert_key_def Let_def)
qed

theorem seeded_key_authenticates_witness:
  "\<exists>d' pr. AuthenticateRequest (LookupAPIKey id) (''Bearer '' @ developmentAPIKey) d' = (Inr pr, d') \<and>
     tenant_name (principal_tenant pr) = developmentTenantName"
  using seed_succeeds seeded_key_authenticates [of id empty_db] by fastforce

section \<open>The table of routing rules\<close>

lemma insert_rules_answering:
  assumes "answering d"
    and "distinct (map (\<lambda>r. (coll (rr_backend_name r), coll (rr_model r))) (route_rules d @ map rule_row rs))"
    and "list_all (\<lambda>r. fits_columns (rule_row r)) rs"
  shows "insert_rules coll rs d = (Inr (), d\<lparr>route_rules := route_rules d @ map rule_row rs\<rparr>)"
  using assms
proof (induction rs arbitrary: d)
  case Nil
  then show ?case by simp
next
  case (Cons r rs)
  have "\<not> list_ex (same_rule_key coll (rule_row r)) (route_rules d)"
    using Cons.prems(2) by (auto simp: list_ex_iff same_rule_key_def image_iff)
  then have "insert_rules coll (r # rs) d =
      insert_rules coll rs (d\<lparr>route_rules := route_rules d @ [rule_row r]\<rparr>)"
    using Cons.prems(1,3) by (simp add: bindS_def insert_rule_statement_def)
  also have "\<dots> = (Inr (), d\<lparr>route_rules := route_rules d @ map rule_row (r # rs)\<rparr>)"
    using Cons.prems by (subst Cons.IH) (simp_all add: answering_def)
  finally show ?case .
qed

lemma ReplaceRouteRules_answering:
  assumes "answering d"
    and "distinct (map (\<lambda>r. (coll (trim_space (rrec_backend_name r)), coll (normalize_model (rrec_model r)))) rules)"
    and "list_all (\<lambda>r. fits_columns (rule_row r)) rules"
  shows "ReplaceRouteRules coll rules d = (Inr (), d\<lparr>route_rules := map rule_row rules\<rparr>)"
proof -
  let ?d = "d\<lparr>route_rules := map rule_row rules\<rparr>"
  have a: "answering ?d" and a0: "answering (d\<lparr>route_rules := []\<rparr>)"
    using assms(1) by (simp_all add: answering_def)
  have "insert_rules coll rules (d\<lparr>route_rules := []\<rparr>) = (Inr (), ?d)"
    using assms(2,3) insert_rules_answering [OF a0, of coll rules] by (simp add: rule_row_def comp_def)
  then show ?thesis using assms(1) a by (simp add: ReplaceRouteRules_def db_tx_def bindS_def)
qed

text \<open>
  C28: Rules with distinct backends and models, to the database's eye, that fit the columns are stored and
  listed back: normalized, all enabled, in the order of priority, backend and model.
\<close>

theorem rules_round_trip:
  assumes "answering d" and "has_table ''route_rules'' d"
    and "distinct (map (\<lambda>r. (coll (trim_space (rrec_backend_name r)), coll (normalize_model (rrec_model r)))) rules)"
    and "list_all (\<lambda>r. fits_columns (rule_row r)) rules"
  shows "\<exists>d'. ReplaceRouteRules coll rules d = (Inr (), d') \<and>
    ListRouteRules coll d' = (Inr (map scan_rule (sort_key (rule_order coll) (map rule_row rules))), d') \<and>
    mset (map scan_rule (sort_key (rule_order coll) (map rule_row rules))) =
      mset (map (\<lambda>r. r\<lparr>rrec_backend_name := trim_space (rrec_backend_name r),
                      rrec_model := normalize_model (rrec_model r), rrec_enabled := True\<rparr>) rules)"
proof -
  let ?d = "d\<lparr>route_rules := map rule_row rules\<rparr>"
  have a: "answering ?d" using assms(1) by (simp add: answering_def)
  have "ReplaceRouteRules coll rules d = (Inr (), ?d)"
    using assms(1,3,4) by (rule ReplaceRouteRules_answering)
  moreover have "select_rules coll ?d = sort_key (rule_order coll) (map rule_row rules)"
    by (simp add: select_rules_def filter_map comp_def rule_row_def)
  then have "ListRouteRules coll ?d =
      (Inr (map scan_rule (sort_key (rule_order coll) (map rule_row rules))), ?d)"
    using ListRouteRules_answering [OF a] assms(2) by (simp add: has_table_def)
  moreover have "mset (map scan_rule (sort_key (rule_order coll) (map rule_row rules))) =
      mset (map (scan_rule \<circ> rule_row) rules)"
    by (simp add: multiset.map_comp)
  ultimately show ?thesis by (auto simp: comp_def)
qed

theorem rules_round_trip_witness:
  "\<exists>d'. ListRouteRules id d' =
     (Inr (map scan_rule (sort_key (rule_order id)
        (map rule_row [shop_rule ''b'' ''M '' 2, shop_rule '' a'' [] 1]))), d')"
proof -
  have "trim_space ''b'' \<noteq> trim_space '' a''" by code_simp
  then have "distinct (map (\<lambda>r. (id (trim_space (rrec_backend_name r)), id (normalize_model (rrec_model r))))
      [shop_rule ''b'' ''M '' 2, shop_rule '' a'' [] 1])"
    by (simp add: shop_rule_def)
  moreover have "list_all (\<lambda>r. fits_columns (rule_row r)) [shop_rule ''b'' ''M '' 2, shop_rule '' a'' [] 1]"
    by code_simp
  ultimately show ?thesis using rules_round_trip [OF shop_db_parts(1,4)] by blast
qed

text \<open>
  From the table to the request: when the rules have been applied to the backends, exactly the
  configured backends that a rule names are left, and the router considers one for a model exactly
  when the table has a rule of that backend for the model or for all models.
\<close>

theorem rules_route_requests:
  assumes "applyRouteRules backends rules = Inr (bs, on)" and "rules \<noteq> []"
    and "\<forall>r \<in> set rules. rrec_priority r < max_int"
  shows "on \<and> be_name ` set bs = (\<lambda>r. trim_space (rrec_backend_name r)) ` set rules \<and>
    be_name ` set (rankBackends bs model) =
      {name \<in> be_name ` set backends. \<exists>r \<in> set rules. trim_space (rrec_backend_name r) = name \<and>
         (normalize_model (rrec_model r) = [] \<or> normalize_model (rrec_model r) = normal_model model)}"
  using assms(1)
proof (cases rule: applyRouteRules_Inr)
  case plain
  with assms(2) show ?thesis by simp
next
  case rules
  have names: "be_name (routed rules b) = be_name b" for b :: "('a, 'b) backend"
    by (simp add: routed_def)
  have "trim_space (rrec_backend_name r) \<in> be_name ` set bs" if r: "r \<in> set rules" for r
  proof -
    from rules(5) r obtain b where "b \<in> set backends" and b: "be_name b = trim_space (rrec_backend_name r)"
      by blast
    then have "routed rules b \<in> set bs"
      using r by (auto simp: rules(4) rules_of_empty_iff intro!: imageI bexI [of _ r])
    then show ?thesis using b by (metis names imageI)
  qed
  then have "be_name ` set bs = (\<lambda>r. trim_space (rrec_backend_name r)) ` set rules"
    by (auto simp: rules(4) names rules_of_empty_iff) (metis image_eqI)
  moreover have "applicable (normal_model model) (routed rules b) \<longleftrightarrow>
      (\<exists>r \<in> set rules. trim_space (rrec_backend_name r) = be_name b \<and>
       (normalize_model (rrec_model r) = [] \<or> normalize_model (rrec_model r) = normal_model model))"
    if "rules_of (be_name b) rules \<noteq> []" for b :: "('a, 'b) backend"
    using routed_applicable [OF assms(3) that] .
  then have "be_name ` set (rankBackends bs model) =
      {name \<in> be_name ` set backends. \<exists>r \<in> set rules. trim_space (rrec_backend_name r) = name \<and>
         (normalize_model (rrec_model r) = [] \<or> normalize_model (rrec_model r) = normal_model model)}"
    (is "_ = ?R")
  proof -
    let ?ok = "\<lambda>b. rules_of (be_name b) rules \<noteq> [] \<and> applicable (normal_model model) (routed rules b)"
    assume iff: "\<And>b :: ('a, 'b) backend. rules_of (be_name b) rules \<noteq> [] \<Longrightarrow>
      applicable (normal_model model) (routed rules b) \<longleftrightarrow>
      (\<exists>r \<in> set rules. trim_space (rrec_backend_name r) = be_name b \<and>
       (normalize_model (rrec_model r) = [] \<or> normalize_model (rrec_model r) = normal_model model))"
    have "set (rankBackends bs model) = routed rules ` {b \<in> set backends. ?ok b}"
      by (auto simp: rankBackends_set rules(4))
    then have "be_name ` set (rankBackends bs model) = be_name ` {b \<in> set backends. ?ok b}"
      by (simp add: image_image names)
    also have "{b \<in> set backends. ?ok b} = {b \<in> set backends. be_name b \<in> ?R}"
      using iff by (auto simp: rules_of_empty_iff)
    also have "be_name ` \<dots> = ?R" by auto
    finally show ?thesis .
  qed
  ultimately show ?thesis using rules(2) by blast
qed

definition demo_backends :: "(unit, unit) backend list" where
  "demo_backends = [demo_backend ''a'' failing 1, demo_backend ''b'' answering_provider 2]"

lemma demo_rules_apply:
  "\<exists>bs. applyRouteRules demo_backends [shop_rule ''b'' ''m'' 3] = Inr (bs, True)"
proof -
  have "trim_space ''b'' = ''b''" by code_simp
  then show ?thesis
    by (simp add: applyRouteRules_def demo_backends_def shop_rule_def route_backend_def
        List.map_filter_simps Let_def)
qed

theorem rules_route_requests_witness:
  "\<exists>bs. applyRouteRules demo_backends [shop_rule ''b'' ''m'' 3] = Inr (bs, True) \<and>
     be_name ` set bs = {''b''} \<and> be_name ` set (rankBackends bs ''x'') = {}"
proof -
  obtain bs where bs: "applyRouteRules demo_backends [shop_rule ''b'' ''m'' 3] = Inr (bs, True)"
    using demo_rules_apply by blast
  have "trim_space ''b'' = ''b''" and "normalize_model ''m'' \<noteq> []" and
      "normalize_model ''m'' \<noteq> normal_model ''x''"
    by code_simp+
  with rules_route_requests [OF bs, of "''x''"] bs show ?thesis by (simp add: shop_rule_def max_int_def)
qed

section \<open>Rules from the configuration and from arguments\<close>

text \<open>
  The models of a backend's configuration become lower case and trimmed, empty ones are dropped and
  of equal ones the first is kept; in particular normalizing again changes nothing.
\<close>

theorem model_names_normalized:
  "normalizeRouteRuleModels models =
     rev (remdups (rev (filter (\<lambda>m. m \<noteq> []) (map normalize_model models)))) \<and>
   distinct (normalizeRouteRuleModels models) \<and>
   normalizeRouteRuleModels (normalizeRouteRuleModels models) = normalizeRouteRuleModels models"
proof -
  let ?n = "normalizeRouteRuleModels"
  have eq: "?n ms = rev (remdups (rev (filter (\<lambda>m. m \<noteq> []) (map normalize_model ms))))" for ms
    by (simp add: normalizeRouteRuleModels_def normalize_loop_eq)
  then have "distinct (?n models)" by simp
  moreover have "normalize_model m = m \<and> m \<noteq> []" if "m \<in> set (?n models)" for m
    using that by (auto simp: eq)
  then have "filter (\<lambda>m. m \<noteq> []) (map normalize_model (?n models)) = ?n models"
    by (simp add: map_idI filter_id_conv)
  ultimately show ?thesis by (simp add: eq [of "?n models"] eq [of models, symmetric] distinct_remdups_id)
qed

text \<open>
  A rule written as an argument, its three parts separated by commas, parses back to the rule when
  its backend has visible characters only, its model is normal and its priority is a machine integer.
\<close>

theorem rule_spec_round_trip:
  assumes "list_all visible backend" and "backend \<noteq> []" and "CHR '','' \<notin> set backend"
    and "normalize_model model = model" and "CHR '','' \<notin> set model" and "in_int64 prio"
  shows "parseRuleSpec (backend @ '','' @ model @ '','' @ itoa prio) =
    Inr \<lparr>rrec_backend_name = backend, rrec_model = model, rrec_priority = prio, rrec_enabled = True\<rparr>"
proof -
  have "split_char CHR '','' (backend @ CHR '','' # model @ CHR '','' # itoa prio) = [backend, model, itoa prio]"
    using assms(3,5) itoa_visible by (simp add: split_char_append split_char_absent)
  moreover have "trim_space backend = backend" and "trim_space (itoa prio) = itoa prio"
    using assms(1) itoa_visible by (simp_all add: trim_visible)
  ultimately show ?thesis
    using assms(2,4,6) by (simp add: parseRuleSpec_def atoi_itoa)
qed

theorem rule_spec_round_trip_witness:
  "parseRuleSpec (''b-1'' @ '','' @ ''gpt'' @ '','' @ itoa (- 7)) = Inr (shop_rule ''b-1'' ''gpt'' (- 7))"
proof -
  have "list_all visible ''b-1''" and "normalize_model ''gpt'' = ''gpt''" by code_simp+
  then show ?thesis
    using rule_spec_round_trip [of "''b-1''" "''gpt''" "- 7"]
    by (simp add: shop_rule_def in_int64_def min_int_def max_int_def)
qed

end
