(* ===== verification/UsageService.thy ===== *)
theory UsageService
  imports Admission
begin

text \<open>
  The two services that only read: \<open>internal/service/usage\<close>, which reports a tenant's use of its
  limits, and \<open>internal/service/models\<close>, which merges the models of the provider backends.
\<close>

section \<open>Usage\<close>

definition defaultRecentLimit :: int where
  "defaultRecentLimit = 20"

definition maxRecentLimit :: int where
  "maxRecentLimit = 100"

record 'w usage_reader =
  us_CountRequestsSince :: "nat \<Rightarrow> time \<Rightarrow> 'w \<Rightarrow> int res \<times> 'w"
  us_SumTotalTokensSince :: "nat \<Rightarrow> time \<Rightarrow> 'w \<Rightarrow> int res \<times> 'w"
  us_SumTotalTokens :: "nat \<Rightarrow> 'w \<Rightarrow> int res \<times> 'w"
  us_SumTotalAttemptTokensSince :: "nat \<Rightarrow> time \<Rightarrow> 'w \<Rightarrow> int res \<times> 'w"
  us_SumTotalAttemptTokens :: "nat \<Rightarrow> 'w \<Rightarrow> int res \<times> 'w"
  us_ListRecentUsageRecords :: "nat \<Rightarrow> int \<Rightarrow> 'w \<Rightarrow> recent_usage_record list res \<times> 'w"

record usage_summary =
  sum_window_seconds :: int
  sum_requests_last_minute :: int
  sum_tokens_last_minute :: int
  sum_total_tokens_used :: int
  sum_logical_tokens_last_minute :: int
  sum_logical_total_tokens_used :: int
  sum_rpm_limit :: int
  sum_tpm_limit :: int
  sum_token_budget :: int
  sum_remaining_token_budget :: int

text \<open>The structs \<open>UsageRecord\<close> and \<open>RecentUsageRecord\<close> have the same fields, which are copied.\<close>

record usage_response =
  uresp_object :: string
  uresp_tenant_id :: nat
  uresp_tenant_name :: string
  uresp_summary :: usage_summary
  uresp_data :: "recent_usage_record list"

definition normalizeLimit :: "int \<Rightarrow> int res" where
  "normalizeLimit limit =
     (if limit = 0 then Inr defaultRecentLimit
      else if limit < 0 then Inl UsageInvalidLimit
      else if maxRecentLimit < limit then Inr maxRecentLimit
      else Inr limit)"

definition remaining_budget :: "tenant \<Rightarrow> int \<Rightarrow> int" where
  "remaining_budget t totalTokensUsed =
     (if 0 < token_budget t then
        (let remainingBudget = wrap64 (token_budget t - totalTokensUsed)
         in if remainingBudget < 0 then 0 else remainingBudget)
      else 0)"

definition GetTenantUsage ::
    "'w usage_reader \<Rightarrow> ('w \<Rightarrow> time) \<Rightarrow> principal option \<Rightarrow> int \<Rightarrow> 'w \<Rightarrow> usage_response res \<times> 'w" where
  "GetTenantUsage st now ctxPrincipal limit w =
     (case ctxPrincipal of
        None \<Rightarrow> (Inl UsagePrincipalNotFound, w)
      | Some p \<Rightarrow>
        (case normalizeLimit limit of
           Inl e \<Rightarrow> (Inl e, w)
         | Inr normalizedLimit \<Rightarrow>
             (let t = principal_tenant p; windowStart = now w - minute in
              bindS (us_CountRequestsSince st (tenant_id t) windowStart) (\<lambda>requestsLastMinute.
              bindS (us_SumTotalTokensSince st (tenant_id t) windowStart) (\<lambda>logicalTokensLastMinute.
              bindS (us_SumTotalAttemptTokensSince st (tenant_id t) windowStart) (\<lambda>tokensLastMinute.
              bindS (us_SumTotalTokens st (tenant_id t)) (\<lambda>logicalTotalTokensUsed.
              bindS (us_SumTotalAttemptTokens st (tenant_id t)) (\<lambda>totalTokensUsed.
              bindS (us_ListRecentUsageRecords st (tenant_id t) normalizedLimit) (\<lambda>recent w.
                (Inr \<lparr>uresp_object = ''usage'', uresp_tenant_id = tenant_id t,
                      uresp_tenant_name = tenant_name t,
                      uresp_summary =
                        \<lparr>sum_window_seconds = 60, sum_requests_last_minute = requestsLastMinute,
                         sum_tokens_last_minute = tokensLastMinute,
                         sum_total_tokens_used = totalTokensUsed,
                         sum_logical_tokens_last_minute = logicalTokensLastMinute,
                         sum_logical_total_tokens_used = logicalTotalTokensUsed,
                         sum_rpm_limit = rpm_limit t, sum_tpm_limit = tpm_limit t,
                         sum_token_budget = token_budget t,
                         sum_remaining_token_budget = remaining_budget t totalTokensUsed\<rparr>,
                      uresp_data = recent\<rparr>, w))))))) w)))"

text \<open>The MySQL store as the store of this service.\<close>

definition mysql_usage_reader :: "gw usage_reader" where
  "mysql_usage_reader =
     \<lparr>us_CountRequestsSince = (\<lambda>tid since. on_db (CountRequestsSince tid since)),
      us_SumTotalTokensSince = (\<lambda>tid since. on_db (SumTotalTokensSince tid since)),
      us_SumTotalTokens = (\<lambda>tid. on_db (SumTotalTokens tid)),
      us_SumTotalAttemptTokensSince = (\<lambda>tid since. on_db (SumTotalAttemptTokensSince tid since)),
      us_SumTotalAttemptTokens = (\<lambda>tid. on_db (SumTotalAttemptTokens tid)),
      us_ListRecentUsageRecords = (\<lambda>tid limit. on_db (ListRecentUsageRecords tid limit))\<rparr>"

lemma normalizeLimit_bounds: "normalizeLimit limit = Inr n \<Longrightarrow> 1 \<le> n \<and> n \<le> 100"
  by (auto simp: normalizeLimit_def defaultRecentLimit_def maxRecentLimit_def split: if_splits)

lemma normalizeLimit_Inr_iff: "(\<exists>n. normalizeLimit limit = Inr n) \<longleftrightarrow> 0 \<le> limit"
  by (auto simp: normalizeLimit_def)

lemma on_db_answering:
  "answering (gw_db w) \<Longrightarrow> on_db (db_query f) w = (Inr (f (gw_db w)), w)"
  by (simp add: on_db_def)

text \<open>
  With a database that answers, the report is a function of the tables, and nothing is changed.
\<close>

lemma GetTenantUsage_answering:
  fixes p :: principal and now :: "gw \<Rightarrow> time"
  assumes "answering (gw_db w)" and "normalizeLimit limit = Inr n"
  defines "t \<equiv> principal_tenant p" and "start \<equiv> now w - minute"
  shows "GetTenantUsage mysql_usage_reader now (Some p) limit w =
    (Inr \<lparr>uresp_object = ''usage'', uresp_tenant_id = tenant_id t, uresp_tenant_name = tenant_name t,
          uresp_summary =
            \<lparr>sum_window_seconds = 60,
             sum_requests_last_minute = requests_since (tenant_id t) start (gw_db w),
             sum_tokens_last_minute = attempt_tokens_since (tenant_id t) start (gw_db w),
             sum_total_tokens_used = attempt_tokens_used (tenant_id t) (gw_db w),
             sum_logical_tokens_last_minute = tokens_since (tenant_id t) start (gw_db w),
             sum_logical_total_tokens_used = tokens_used (tenant_id t) (gw_db w),
             sum_rpm_limit = rpm_limit t, sum_tpm_limit = tpm_limit t, sum_token_budget = token_budget t,
             sum_remaining_token_budget =
               remaining_budget t (attempt_tokens_used (tenant_id t) (gw_db w))\<rparr>,
          uresp_data = map recent_of_row (recent_rows (tenant_id t) n (gw_db w))\<rparr>, w)"
proof -
  have list: "on_db (ListRecentUsageRecords tid n) w = (Inr (map recent_of_row (recent_rows tid n (gw_db w))), w)"
    for tid using assms(1) by (simp add: on_db_def ListRecentUsageRecords_def bindS_def)
  show ?thesis
    using assms(1,2) list
    by (simp add: GetTenantUsage_def mysql_usage_reader_def CountRequestsSince_def
        SumTotalTokensSince_def SumTotalTokens_def SumTotalAttemptTokensSince_def
        SumTotalAttemptTokens_def on_db_answering bindS_def Let_def t_def start_def)
qed

text \<open>The budget that remains is what an attempt may still take.\<close>

lemma remaining_budget_admits:
  assumes "0 < token_budget t" and "0 < n" and "0 \<le> attempt_tokens_used (tenant_id t) d"
    and "in_int64 (token_budget t)" and "in_int64 (attempt_tokens_used (tenant_id t) d + n)"
  shows "within_budget t n d \<longleftrightarrow> n \<le> remaining_budget t (attempt_tokens_used (tenant_id t) d)"
proof -
  have "in_int64 (token_budget t - attempt_tokens_used (tenant_id t) d)"
    using assms by (simp add: in_int64_def min_int_def max_int_def)
  with assms show ?thesis by (auto simp: within_budget_def remaining_budget_def Let_def)
qed

section \<open>Models\<close>

type_synonym 'w model_source = "'w \<Rightarrow> provider_model list res \<times> 'w"

record models_response =
  mresp_object :: string
  mresp_data :: "provider_model list"

text \<open>A \<open>nil\<close> source is left out.\<close>

definition models_NewService :: "'w model_source option list \<Rightarrow> 'w model_source list" where
  "models_NewService sources = List.map_filter id sources"

text \<open>The map \<open>merged\<close> and the errors after the models of one source, and of all of them.\<close>

definition merge_model ::
    "provider_model \<Rightarrow> (string \<Rightarrow> provider_model option) \<Rightarrow> string \<Rightarrow> provider_model option" where
  "merge_model model merged =
     (if model_id model = [] then merged
      else let model = (if model_object model = [] then model\<lparr>model_object := ''model''\<rparr> else model)
           in merged(model_id model \<mapsto> model))"

fun merge_sources ::
    "'w model_source list \<Rightarrow> (string \<Rightarrow> provider_model option) \<Rightarrow> string list \<Rightarrow> err list \<Rightarrow> 'w \<Rightarrow>
     ((string \<Rightarrow> provider_model option) \<times> string list \<times> err list) \<times> 'w" where
  "merge_sources [] merged ids errs w = ((merged, ids, errs), w)"
| "merge_sources (source # sources) merged ids errs w =
     (case source w of
        (Inl e, w) \<Rightarrow> merge_sources sources merged ids (errs @ [e]) w
      | (Inr models, w) \<Rightarrow>
          merge_sources sources (fold merge_model models merged)
            (ids @ filter (\<lambda>i. i \<noteq> []) (map model_id models)) errs w)"

text \<open>
  Go ranges over the map in no fixed order and sorts what it finds: since the keys are distinct, the
  result is the list of the values in the order of the keys. \<open>ids\<close> lists the keys of the map.
\<close>

definition models_ListModels :: "'w model_source list \<Rightarrow> 'w \<Rightarrow> models_response res \<times> 'w" where
  "models_ListModels sources w =
     (let ((merged, ids, errs), w) = merge_sources sources (\<lambda>_. None) [] [] w;
          data = List.map_filter merged (sort (remdups ids))
      in if length data = 0 \<and> 0 < length errs then (Inl (JoinErr errs), w)
         else (Inr \<lparr>mresp_object = ''list'', mresp_data = data\<rparr>, w))"

section \<open>What merging gives\<close>

text \<open>The models of the sources that answered, in order, and the errors of the others.\<close>

fun answers_of :: "'w model_source list \<Rightarrow> 'w \<Rightarrow> provider_model list \<times> err list \<times> 'w" where
  "answers_of [] w = ([], [], w)"
| "answers_of (source # sources) w =
     (case source w of
        (Inl e, w) \<Rightarrow> (let (ms, es, w) = answers_of sources w in (ms, e # es, w))
      | (Inr models, w) \<Rightarrow> (let (ms, es, w) = answers_of sources w in (models @ ms, es, w)))"

definition labelled :: "provider_model \<Rightarrow> provider_model" where
  "labelled m = (if model_object m = [] then m\<lparr>model_object := ''model''\<rparr> else m)"

definition named_ids :: "provider_model list \<Rightarrow> string list" where
  "named_ids ms = filter (\<lambda>i. i \<noteq> []) (map model_id ms)"

lemma labelled_id [simp]: "model_id (labelled m) = model_id m"
  by (simp add: labelled_def)

lemma fold_merge:
  "fold merge_model ms f i =
     (case find (\<lambda>m. model_id m = i \<and> i \<noteq> []) (rev ms) of None \<Rightarrow> f i | Some m \<Rightarrow> Some (labelled m))"
  by (induction ms rule: rev_induct) (auto simp: merge_model_def labelled_def Let_def)

lemma merge_sources_answers:
  "merge_sources sources f ids errs w =
     (let (ms, es, w') = answers_of sources w in ((fold merge_model ms f, ids @ named_ids ms, errs @ es), w'))"
  by (induction sources arbitrary: f ids errs w)
    (auto simp: named_ids_def split: sum.splits prod.splits)

text \<open>The list of the service: the last model of every name, in the order of the names.\<close>

lemma models_ListModels_eq:
  assumes "answers_of sources w = (ms, es, w')"
  defines "data \<equiv> map (\<lambda>i. labelled (the (find (\<lambda>m. model_id m = i) (rev ms)))) (sort (remdups (named_ids ms)))"
  shows "models_ListModels sources w =
    (if named_ids ms = [] \<and> es \<noteq> [] then Inl (JoinErr es)
     else Inr \<lparr>mresp_object = ''list'', mresp_data = data\<rparr>, w')"
proof -
  have "fold merge_model ms (\<lambda>_. None) i = Some (labelled (the (find (\<lambda>m. model_id m = i) (rev ms))))"
    if "i \<in> set (named_ids ms)" for i
  proof -
    have "i \<noteq> []" and "\<exists>m \<in> set ms. model_id m = i" using that by (auto simp: named_ids_def)
    then have "find (\<lambda>m. model_id m = i) (rev ms) \<noteq> None" by (auto simp: find_None_iff)
    with \<open>i \<noteq> []\<close> show ?thesis by (auto simp: fold_merge)
  qed
  then have "List.map_filter (fold merge_model ms (\<lambda>_. None)) is =
      map (\<lambda>i. labelled (the (find (\<lambda>m. model_id m = i) (rev ms)))) is"
    if "set is \<subseteq> set (named_ids ms)" for "is"
    using that by (induction "is") (simp_all add: List.map_filter_simps)
  then have "List.map_filter (fold merge_model ms (\<lambda>_. None)) (sort (remdups (named_ids ms))) = data"
    by (simp add: data_def)
  moreover have "data = [] \<longleftrightarrow> named_ids ms = []" by (simp add: data_def) (metis length_0_conv length_sort remdups_eq_nil_iff)
  ultimately show ?thesis
    by (auto simp: models_ListModels_def merge_sources_answers assms(1) Let_def)
qed

end
