(* ===== verification/Http.thy ===== *)
theory Http
  imports Json Calendar Completion UsageService Router "HOL-Library.AList"
begin

text \<open>
  What the handlers of \<open>internal/api\<close> see of \<open>net/http\<close>: a request with a body that may be limited in
  size, and a response writer; and the JSON forms of the values they read and write. A write to the
  client can fail: \<open>rw_faults\<close> scripts the outcomes of the writes to come.
\<close>

section \<open>Requests\<close>

text \<open>
  \<open>hq_request_id\<close> is the header \<open>X-Request-Id\<close> and \<open>hq_id\<close> the identifier that the middleware keeps in
  the request's context, empty before it; \<open>hq_trace_id\<close> is the identifier that the tracing package made,
  \<open>hq_limit\<close> the query parameter \<open>limit\<close>, empty when there is none.
\<close>

record http_request =
  hq_request_id :: string
  hq_id :: string
  hq_trace_id :: string
  hq_method :: string
  hq_path :: string
  hq_authorization :: string
  hq_limit :: string
  hq_body :: string
  hq_body_limit :: "int option"

text \<open>
  The scanner that \<open>json.Decoder\<close> runs over what it has read decides whether more is needed. Only its
  verdict on a cut body matters here: \<open>json_pending s\<close> when \<open>s\<close> has neither a mistake nor an end.
\<close>

datatype scan_state =
    ScanValue | ScanValueOrEmpty | ScanKey | ScanKeyOrEmpty | ScanAfterValue | ScanEnded
  | ScanString | ScanEscape | ScanHex nat | ScanMinus | ScanInt | ScanZero | ScanDot | ScanFraction
  | ScanExp | ScanExpSign | ScanExpDigits | ScanWord string

datatype scan_level = InKey | InObject | InArray

definition scan_begin :: "char \<Rightarrow> scan_level list \<Rightarrow> (scan_state \<times> scan_level list) option" where
  "scan_begin c levels =
     (if is_ws c then Some (ScanValue, levels)
      else if c = CHR 0x7B then Some (ScanKeyOrEmpty, InKey # levels)
      else if c = CHR ''['' then Some (ScanValueOrEmpty, InArray # levels)
      else if c = CHR 0x22 then Some (ScanString, levels)
      else if c = CHR ''-'' then Some (ScanMinus, levels)
      else if c = CHR ''0'' then Some (ScanZero, levels)
      else if is_digit c then Some (ScanInt, levels)
      else if c = CHR ''t'' then Some (ScanWord ''rue'', levels)
      else if c = CHR ''f'' then Some (ScanWord ''alse'', levels)
      else if c = CHR ''n'' then Some (ScanWord ''ull'', levels)
      else None)"

definition scan_pop :: "scan_level list \<Rightarrow> (scan_state \<times> scan_level list) option" where
  "scan_pop levels =
     (case levels of [] \<Rightarrow> None
      | _ # outer \<Rightarrow> Some (if outer = [] then ScanEnded else ScanAfterValue, outer))"

definition scan_after :: "char \<Rightarrow> scan_level list \<Rightarrow> (scan_state \<times> scan_level list) option" where
  "scan_after c levels =
     (case levels of
        [] \<Rightarrow> Some (ScanEnded, [])
      | level # outer \<Rightarrow>
          if is_ws c then Some (ScanAfterValue, levels)
          else case level of
            InKey \<Rightarrow> if c = CHR '':'' then Some (ScanValue, InObject # outer) else None
          | InObject \<Rightarrow> if c = CHR '','' then Some (ScanKey, InKey # outer)
                        else if c = CHR 0x7D then scan_pop levels else None
          | InArray \<Rightarrow> if c = CHR '','' then Some (ScanValue, levels)
                       else if c = CHR '']'' then scan_pop levels else None)"

definition scan_key :: "char \<Rightarrow> scan_state \<Rightarrow> scan_level list \<Rightarrow> (scan_state \<times> scan_level list) option" where
  "scan_key c st levels =
     (if is_ws c then Some (st, levels) else if c = CHR 0x22 then Some (ScanString, levels) else None)"

definition scan_step :: "char \<Rightarrow> scan_state \<Rightarrow> scan_level list \<Rightarrow> (scan_state \<times> scan_level list) option" where
  "scan_step c st levels =
     (case st of
        ScanValue \<Rightarrow> scan_begin c levels
      | ScanValueOrEmpty \<Rightarrow>
          if is_ws c then Some (ScanValueOrEmpty, levels)
          else if c = CHR '']'' then scan_pop levels else scan_begin c levels
      | ScanKey \<Rightarrow> scan_key c ScanKey levels
      | ScanKeyOrEmpty \<Rightarrow> if c = CHR 0x7D then scan_pop levels else scan_key c ScanKeyOrEmpty levels
      | ScanAfterValue \<Rightarrow> scan_after c levels
      | ScanEnded \<Rightarrow> Some (ScanEnded, levels)
      | ScanString \<Rightarrow>
          if c = CHR 0x22 then Some (ScanAfterValue, levels)
          else if c = CHR 0x5C then Some (ScanEscape, levels)
          else if (of_char c :: nat) < 32 then None else Some (ScanString, levels)
      | ScanEscape \<Rightarrow>
          if c = CHR ''u'' then Some (ScanHex 4, levels)
          else if simple_escape c \<noteq> None then Some (ScanString, levels) else None
      | ScanHex n \<Rightarrow>
          if hex_val c = None then None
          else Some (if n \<le> 1 then ScanString else ScanHex (n - 1), levels)
      | ScanMinus \<Rightarrow> if c = CHR ''0'' then Some (ScanZero, levels)
                     else if is_digit c then Some (ScanInt, levels) else None
      | ScanInt \<Rightarrow> if is_digit c then Some (ScanInt, levels)
                   else if c = CHR ''.'' then Some (ScanDot, levels)
                   else if c = CHR ''e'' \<or> c = CHR ''E'' then Some (ScanExp, levels) else scan_after c levels
      | ScanZero \<Rightarrow> if c = CHR ''.'' then Some (ScanDot, levels)
                    else if c = CHR ''e'' \<or> c = CHR ''E'' then Some (ScanExp, levels) else scan_after c levels
      | ScanDot \<Rightarrow> if is_digit c then Some (ScanFraction, levels) else None
      | ScanFraction \<Rightarrow> if is_digit c then Some (ScanFraction, levels)
                        else if c = CHR ''e'' \<or> c = CHR ''E'' then Some (ScanExp, levels) else scan_after c levels
      | ScanExp \<Rightarrow> if c = CHR ''+'' \<or> c = CHR ''-'' then Some (ScanExpSign, levels)
                   else if is_digit c then Some (ScanExpDigits, levels) else None
      | ScanExpSign \<Rightarrow> if is_digit c then Some (ScanExpDigits, levels) else None
      | ScanExpDigits \<Rightarrow> if is_digit c then Some (ScanExpDigits, levels) else scan_after c levels
      | ScanWord rest \<Rightarrow>
          (case rest of [] \<Rightarrow> scan_after c levels
           | d # ds \<Rightarrow> if c = d then Some (if ds = [] then ScanAfterValue else ScanWord ds, levels) else None))"

fun scan_text :: "string \<Rightarrow> scan_state \<Rightarrow> scan_level list \<Rightarrow> scan_state option" where
  "scan_text [] st levels = Some st"
| "scan_text (c # s) st levels =
     (case scan_step c st levels of None \<Rightarrow> None | Some (st, levels) \<Rightarrow> scan_text s st levels)"

definition json_pending :: "string \<Rightarrow> bool" where
  "json_pending s \<longleftrightarrow> (case scan_text s ScanValue [] of None \<Rightarrow> False | Some st \<Rightarrow> st \<noteq> ScanEnded)"

text \<open>
  \<open>http.MaxBytesReader\<close> gives the bytes up to the limit and then its error, which the decoder returns
  when the bytes do not hold a whole value.
\<close>

definition read_body :: "http_request \<Rightarrow> json res" where
  "read_body r =
     (case hq_body_limit r of
        None \<Rightarrow> decode_stream (hq_body r)
      | Some m \<Rightarrow>
          if int (length (hq_body r)) \<le> m then decode_stream (hq_body r)
          else if json_pending (take (nat m) (hq_body r)) then Inl MaxBytesError
          else decode_stream (take (nat m) (hq_body r)))"

section \<open>Responses\<close>

record response_writer =
  rw_header :: "(string \<times> string) list"
  rw_status :: "int option"
  rw_sent :: "(string \<times> string) list"
  rw_body :: string
  rw_flusher :: bool
  rw_wrapped :: "int option"
  rw_faults :: "err option list"

definition new_writer :: "bool \<Rightarrow> err option list \<Rightarrow> response_writer" where
  "new_writer flusher faults =
     \<lparr>rw_header = [], rw_status = None, rw_sent = [], rw_body = [], rw_flusher = flusher,
      rw_wrapped = None, rw_faults = faults\<rparr>"

definition set_header :: "string \<Rightarrow> string \<Rightarrow> response_writer \<Rightarrow> response_writer" where
  "set_header k v rw = rw\<lparr>rw_header := AList.update k v (rw_header rw)\<rparr>"

text \<open>
  The first status counts, and with it the header as it stands. \<open>rw_wrapped\<close> is the status that the
  wrappers of \<open>third_party/chi/middleware\<close> keep, which is the one of the last call.
\<close>

definition send_header :: "int \<Rightarrow> response_writer \<Rightarrow> response_writer" where
  "send_header status rw =
     (if rw_status rw = None then rw\<lparr>rw_status := Some status, rw_sent := rw_header rw\<rparr> else rw)"

definition WriteHeader :: "int \<Rightarrow> response_writer \<Rightarrow> response_writer" where
  "WriteHeader statusCode rw =
     send_header statusCode (rw\<lparr>rw_wrapped := map_option (\<lambda>_. statusCode) (rw_wrapped rw)\<rparr>)"

text \<open>
  \<open>NewWrapResponseWriter\<close>: the wrapper starts with the status 200 and can always be flushed, which does
  nothing when the writer inside cannot. The wrappers of one request are made before anything is
  written, so one status stands for all of them.
\<close>

definition NewWrapResponseWriter :: "response_writer \<Rightarrow> response_writer" where
  "NewWrapResponseWriter rw = rw\<lparr>rw_wrapped := Some 200, rw_flusher := True\<rparr>"

text \<open>A write that fails is taken to have sent nothing.\<close>

definition write_bytes :: "string \<Rightarrow> response_writer \<Rightarrow> unit res \<times> response_writer" where
  "write_bytes s rw =
     (let rw = send_header 200 rw in
      case rw_faults rw of
        [] \<Rightarrow> (Inr (), rw\<lparr>rw_body := rw_body rw @ s\<rparr>)
      | None # fs \<Rightarrow> (Inr (), rw\<lparr>rw_body := rw_body rw @ s, rw_faults := fs\<rparr>)
      | Some e # fs \<Rightarrow> (Inl e, rw\<lparr>rw_faults := fs\<rparr>))"

text \<open>\<open>http.Error\<close>: a line of plain text.\<close>

definition http_Error :: "string \<Rightarrow> int \<Rightarrow> response_writer \<Rightarrow> response_writer" where
  "http_Error message code rw =
     snd (write_bytes (message @ [CHR 0x0A])
            (WriteHeader code (set_header ''X-Content-Type-Options'' ''nosniff''
               (set_header ''Content-Type'' ''text/plain; charset=utf-8'' rw))))"

definition writeJSON :: "int \<Rightarrow> json \<Rightarrow> response_writer \<Rightarrow> response_writer" where
  "writeJSON status v rw =
     snd (write_bytes (encode v @ [CHR 0x0A])
            (WriteHeader status (set_header ''Content-Type'' ''application/json'' rw)))"

definition error_json :: "string \<Rightarrow> json" where
  "error_json message = JObj [(''error'', JStr message)]"

definition WriteErrorJSON :: "int \<Rightarrow> string \<Rightarrow> response_writer \<Rightarrow> response_writer" where
  "WriteErrorJSON status message = writeJSON status (error_json message)"

lemma writeJSON_status [simp]:
  "rw_status (writeJSON st v rw) = (case rw_status rw of None \<Rightarrow> Some st | Some s \<Rightarrow> Some s)"
  by (auto simp: writeJSON_def write_bytes_def WriteHeader_def send_header_def set_header_def Let_def
      split: list.splits option.splits)

lemma writeJSON_wrapped [simp]:
  "rw_wrapped (writeJSON st v rw) = map_option (\<lambda>_. st) (rw_wrapped rw)"
  by (auto simp: writeJSON_def write_bytes_def WriteHeader_def send_header_def set_header_def Let_def
      split: list.splits option.splits)

section \<open>JSON forms\<close>

definition dec_cmessage :: "(string \<times> json) list \<Rightarrow> cmessage res" where
  "dec_cmessage ms =
     and_then (string_field ''role'' ms) (\<lambda>r.
     and_then (string_field ''content'' ms) (\<lambda>c. Inr \<lparr>cm_role = r, cm_content = c\<rparr>))"

definition dec_completion_request :: "(string \<times> json) list \<Rightarrow> completion_request res" where
  "dec_completion_request ms =
     and_then (string_field ''model'' ms) (\<lambda>m.
     and_then (list_field ''messages'' dec_cmessage ms) (\<lambda>msgs.
     and_then (bool_field ''stream'' ms) (\<lambda>s.
       Inr \<lparr>cr_model = m, cr_messages = msgs, cr_stream = s\<rparr>)))"

definition cmessage_json :: "cmessage \<Rightarrow> json" where
  "cmessage_json m = JObj [(''role'', JStr (cm_role m)), (''content'', JStr (cm_content m))]"

definition cchoice_json :: "cchoice \<Rightarrow> json" where
  "cchoice_json c =
     JObj [(''index'', num (cc_index c)), (''message'', cmessage_json (cc_message c)),
           (''finish_reason'', JStr (cc_finish_reason c))]"

definition cusage_json :: "cusage \<Rightarrow> json" where
  "cusage_json u =
     JObj [(''prompt_tokens'', num (cu_prompt_tokens u)),
           (''completion_tokens'', num (cu_completion_tokens u)),
           (''total_tokens'', num (cu_total_tokens u))]"

definition completion_response_json :: "completion_response \<Rightarrow> json" where
  "completion_response_json r =
     JObj [(''id'', JStr (cp_id r)), (''object'', JStr (cp_object r)), (''created'', num (cp_created r)),
           (''model'', JStr (cp_model r)), (''choices'', JArr (map cchoice_json (cp_choices r))),
           (''usage'', cusage_json (cp_usage r))]"

text \<open>\<open>omitempty\<close> leaves out an empty text.\<close>

definition omit_empty :: "string \<Rightarrow> string \<Rightarrow> (string \<times> json) list" where
  "omit_empty name t = (if t = [] then [] else [(name, JStr t)])"

definition chunk_choice_json :: "chunk_choice \<Rightarrow> json" where
  "chunk_choice_json c =
     JObj [(''index'', num (ck_index c)),
           (''delta'', JObj (omit_empty ''role'' (delta_role (ck_delta c)) @
                             omit_empty ''content'' (delta_content (ck_delta c)))),
           (''finish_reason'', JStr (ck_finish_reason c))]"

definition completion_chunk_json :: "completion_chunk \<Rightarrow> json" where
  "completion_chunk_json c =
     JObj [(''id'', JStr (ch_id c)), (''object'', JStr (ch_object c)), (''created'', num (ch_created c)),
           (''model'', JStr (ch_model c)), (''choices'', JArr (map chunk_choice_json (ch_choices c)))]"

definition provider_model_json :: "provider_model \<Rightarrow> json" where
  "provider_model_json m =
     JObj [(''id'', JStr (model_id m)), (''object'', JStr (model_object m)),
           (''created'', num (model_created m)), (''owned_by'', JStr (model_owned_by m))]"

definition models_response_json :: "models_response \<Rightarrow> json" where
  "models_response_json r =
     JObj [(''object'', JStr (mresp_object r)), (''data'', JArr (map provider_model_json (mresp_data r)))]"

text \<open>
  A time is written in the layout \<open>RFC3339Nano\<close>: the fraction of the second has no trailing zeros and
  is left out when it is zero. Times are taken to be in UTC, and of the years 1 to 9999.
\<close>

fun digits_fixed :: "nat \<Rightarrow> int \<Rightarrow> string" where
  "digits_fixed 0 n = []"
| "digits_fixed (Suc k) n = digits_fixed k (n div 10) @ [digit_char (n mod 10)]"

definition format_fraction :: "int \<Rightarrow> string" where
  "format_fraction nanos =
     (let ds = trim_right_char CHR ''0'' (digits_fixed 9 nanos) in if ds = [] then [] else CHR ''.'' # ds)"

definition format_time :: "time \<Rightarrow> string" where
  "format_time t =
     (let secs = t div second; d = secs div 86400; tod = secs mod 86400; (y, m, md) = civil_date d
      in pad4 y @ ''-'' @ pad2 m @ ''-'' @ pad2 md @ ''T'' @ pad2 (tod div 3600) @ '':'' @
         pad2 (tod div 60 mod 60) @ '':'' @ pad2 (tod mod 60) @ format_fraction (t mod second) @ ''Z'')"

definition usage_record_json :: "recent_usage_record \<Rightarrow> json" where
  "usage_record_json r =
     JObj [(''request_id'', JStr (rec_request_id r)), (''api_key_id'', num (int (rec_api_key_id r))),
           (''model'', JStr (rec_model r)), (''stream'', JBool (rec_stream r)),
           (''status'', JStr (rec_status r)), (''prompt_tokens'', num (rec_prompt_tokens r)),
           (''completion_tokens'', num (rec_completion_tokens r)),
           (''total_tokens'', num (rec_total_tokens r)),
           (''created_at'', JStr (format_time (rec_created_at r))),
           (''updated_at'', JStr (format_time (rec_updated_at r)))]"

definition usage_summary_json :: "usage_summary \<Rightarrow> json" where
  "usage_summary_json s =
     JObj [(''window_seconds'', num (sum_window_seconds s)),
           (''requests_last_minute'', num (sum_requests_last_minute s)),
           (''tokens_last_minute'', num (sum_tokens_last_minute s)),
           (''total_tokens_used'', num (sum_total_tokens_used s)),
           (''logical_tokens_last_minute'', num (sum_logical_tokens_last_minute s)),
           (''logical_total_tokens_used'', num (sum_logical_total_tokens_used s)),
           (''rpm_limit'', num (sum_rpm_limit s)), (''tpm_limit'', num (sum_tpm_limit s)),
           (''token_budget'', num (sum_token_budget s)),
           (''remaining_token_budget'', num (sum_remaining_token_budget s))]"

definition usage_response_json :: "usage_response \<Rightarrow> json" where
  "usage_response_json r =
     JObj [(''object'', JStr (uresp_object r)),
           (''tenant'', JObj [(''id'', num (int (uresp_tenant_id r))), (''name'', JStr (uresp_tenant_name r))]),
           (''summary'', usage_summary_json (uresp_summary r)),
           (''data'', JArr (map usage_record_json (uresp_data r)))]"

definition rule_json :: "route_rule \<Rightarrow> json" where
  "rule_json r = JObj (omit_empty ''model'' (rule_model r) @ [(''priority'', num (rule_priority r))])"

text \<open>The two times are structs, which \<open>omitempty\<close> never leaves out.\<close>

definition provider_status_json :: "backend_status \<Rightarrow> json" where
  "provider_status_json s =
     JObj ([(''name'', JStr (st_name s)), (''priority'', num (st_priority s))] @
           (if st_models s = [] then [] else [(''models'', JArr (map JStr (st_models s)))]) @
           (if st_rules s = [] then [] else [(''route_rules'', JArr (map rule_json (st_rules s)))]) @
           [(''healthy'', JBool (st_healthy s)), (''consecutive_failures'', num (st_failures s)),
            (''unhealthy_until'', JStr (format_time (st_unhealthy_until s))),
            (''last_probe_at'', JStr (format_time (st_last_probe_at s)))] @
           omit_empty ''last_probe_error'' (st_last_probe_error s))"

end
