(* ===== verification/Chi.thy ===== *)
theory Chi
  imports Http
begin

text \<open>
  \<open>third_party/chi\<close>, the router the repository builds with: an exact match of method and path, the
  middleware around the handler of a match only. A handler changes the world of the services, the
  response writer and the record of the metrics calls.
\<close>

section \<open>The state of a request\<close>

datatype metric =
    MetricHTTP string string int duration
  | MetricReadyzFailure
  | MetricRejection string
  | MetricStreamRequest duration
  | MetricStreamChunk

record 'w http_state =
  hx_world :: 'w
  hx_writer :: response_writer
  hx_metrics :: "metric list"

definition on_writer :: "(response_writer \<Rightarrow> response_writer) \<Rightarrow> 'w http_state \<Rightarrow> 'w http_state" where
  "on_writer f s = s\<lparr>hx_writer := f (hx_writer s)\<rparr>"

definition in_world :: "('w \<Rightarrow> 'a \<times> 'w) \<Rightarrow> 'w http_state \<Rightarrow> 'a \<times> 'w http_state" where
  "in_world m s = (let (x, w) = m (hx_world s) in (x, s\<lparr>hx_world := w\<rparr>))"

definition record_metric :: "bool \<Rightarrow> metric \<Rightarrow> 'w http_state \<Rightarrow> 'w http_state" where
  "record_metric present m s = (if present then s\<lparr>hx_metrics := hx_metrics s @ [m]\<rparr> else s)"

definition hx_status :: "'w http_state \<Rightarrow> int option" where
  "hx_status s = rw_status (hx_writer s)"

type_synonym 'w http_handler = "http_request \<Rightarrow> principal option \<Rightarrow> 'w http_state \<Rightarrow> 'w http_state"

type_synonym 'w middleware = "'w http_handler \<Rightarrow> 'w http_handler"

section \<open>The router\<close>

record 'w chi_route =
  rt_method :: string
  rt_pattern :: string
  rt_handler :: "'w http_handler"

record 'w chi_router =
  chi_middlewares :: "'w middleware list"
  chi_routes :: "'w chi_route list"

definition chi_NewRouter :: "'w chi_router" where
  "chi_NewRouter = \<lparr>chi_middlewares = [], chi_routes = []\<rparr>"

definition chi_Use :: "'w middleware list \<Rightarrow> 'w chi_router \<Rightarrow> 'w chi_router" where
  "chi_Use ms r = r\<lparr>chi_middlewares := chi_middlewares r @ ms\<rparr>"

definition chi_handle :: "string \<Rightarrow> string \<Rightarrow> 'w http_handler \<Rightarrow> 'w chi_router \<Rightarrow> 'w chi_router" where
  "chi_handle meth pattern h r =
     r\<lparr>chi_routes := chi_routes r @ [\<lparr>rt_method = meth, rt_pattern = pattern, rt_handler = h\<rparr>]\<rparr>"

definition chi_Get :: "string \<Rightarrow> 'w http_handler \<Rightarrow> 'w chi_router \<Rightarrow> 'w chi_router" where
  "chi_Get = chi_handle ''GET''"

definition chi_Post :: "string \<Rightarrow> 'w http_handler \<Rightarrow> 'w chi_router \<Rightarrow> 'w chi_router" where
  "chi_Post = chi_handle ''POST''"

definition wrap_all :: "'w middleware list \<Rightarrow> 'w middleware" where
  "wrap_all ms h = foldr (\<lambda>m h. m h) ms h"

text \<open>The loop over the routes.\<close>

fun serve_routes :: "'w middleware list \<Rightarrow> 'w chi_route list \<Rightarrow> bool \<Rightarrow> 'w http_handler" where
  "serve_routes ms [] pathMatched req p s =
     (if pathMatched then on_writer (http_Error ''Method Not Allowed'' 405) s
      else on_writer (http_Error ''404 page not found'' 404) s)"
| "serve_routes ms (route # routes) pathMatched req p s =
     (if rt_pattern route \<noteq> hq_path req then serve_routes ms routes pathMatched req p s
      else if rt_method route \<noteq> hq_method req then serve_routes ms routes True req p s
      else wrap_all ms (rt_handler route) req p s)"

definition chi_ServeHTTP :: "'w chi_router \<Rightarrow> 'w http_handler" where
  "chi_ServeHTTP r = serve_routes (chi_middlewares r) (chi_routes r) False"

section \<open>Its middleware\<close>

text \<open>
  An identifier is made from the clock and the process's counter when the request brings none.
  \<open>nextCount\<close> is the atomic increment of the counter.
\<close>

definition RequestID :: "('w \<Rightarrow> time) \<Rightarrow> ('w \<Rightarrow> int \<times> 'w) \<Rightarrow> 'w middleware" where
  "RequestID now nextCount next r p s =
     (let (requestID, s) =
        (if hq_request_id r = [] then
           (let t = now (hx_world s); (n, s) = in_world nextCount s in (itoa t @ ''-'' @ itoa n, s))
         else (hq_request_id r, s))
      in next (r\<lparr>hq_id := requestID\<rparr>) p s)"

definition RealIP :: "'w middleware" where
  "RealIP next = next"

text \<open>No step of the handlers panics in the model, so there is nothing to recover from.\<close>

definition Recoverer :: "'w middleware" where
  "Recoverer next r p s = next r p s"

text \<open>
  The routes of a request in one go: a match is the first route of the path and method, and without
  one the answer tells whether the path is known.
\<close>

lemma serve_routes_find:
  "serve_routes ms rts known r p s =
     (case find (\<lambda>rt. rt_pattern rt = hq_path r \<and> rt_method rt = hq_method r) rts of
        Some rt \<Rightarrow> wrap_all ms (rt_handler rt) r p s
      | None \<Rightarrow>
          if known \<or> list_ex (\<lambda>rt. rt_pattern rt = hq_path r) rts
          then on_writer (http_Error ''Method Not Allowed'' 405) s
          else on_writer (http_Error ''404 page not found'' 404) s)"
  by (induction rts arbitrary: known) auto

end
