(* ===== verification/Api.thy ===== *)
theory Api
  imports Chi
begin

text \<open>
  \<open>internal/api\<close>: the middleware and the handlers. The events of a stream are computed before the
  handler consumes them, as the chat service delivers them; \<open>now\<close> is \<open>time.Now\<close>.
\<close>

section \<open>Errors\<close>

definition internalServerErrorMessage :: string where
  "internalServerErrorMessage = ''internal server error''"

definition writeAuthError :: "err \<Rightarrow> 'w http_state \<Rightarrow> 'w http_state" where
  "writeAuthError e s =
     (let s = on_writer (set_header ''WWW-Authenticate'' ''Bearer'') s in
      if errors_is e ErrMissingAPIKey then on_writer (WriteErrorJSON 401 ''missing api key'') s
      else if errors_is e ErrInvalidAPIKey then on_writer (WriteErrorJSON 401 ''invalid api key'') s
      else if errors_is e ErrDisabledAPIKey then on_writer (WriteErrorJSON 401 ''disabled api key'') s
      else on_writer (WriteErrorJSON 500 ''internal server error'') s)"

definition writeServiceError :: "err \<Rightarrow> 'w http_state \<Rightarrow> 'w http_state" where
  "writeServiceError e =
     (if errors_is e ErrInvalidRequest then on_writer (writeJSON 400 (error_json (err_text e)))
      else on_writer (writeJSON 500 (error_json internalServerErrorMessage)))"

definition recordGovernanceRejection :: "bool \<Rightarrow> string \<Rightarrow> 'w http_state \<Rightarrow> 'w http_state" where
  "recordGovernanceRejection metrics reason = record_metric metrics (MetricRejection reason)"

definition writeGovernanceErrorWithMetrics :: "bool \<Rightarrow> err \<Rightarrow> 'w http_state \<Rightarrow> 'w http_state" where
  "writeGovernanceErrorWithMetrics metrics e s =
     (if errors_is e ErrRateLimitExceeded then
        on_writer (writeJSON 429 (error_json ''rate limit exceeded''))
          (recordGovernanceRejection metrics ''rate_limit_exceeded'' s)
      else if errors_is e ErrTokenLimitExceeded then
        on_writer (writeJSON 429 (error_json ''token rate limit exceeded''))
          (recordGovernanceRejection metrics ''token_limit_exceeded'' s)
      else if errors_is e ErrBudgetExceeded then
        on_writer (writeJSON 403 (error_json ''budget exceeded''))
          (recordGovernanceRejection metrics ''budget_exceeded'' s)
      else on_writer (writeJSON 500 (error_json internalServerErrorMessage)) s)"

definition isGovernanceError :: "err \<Rightarrow> bool" where
  "isGovernanceError e \<longleftrightarrow>
     errors_is e ErrRateLimitExceeded \<or> errors_is e ErrTokenLimitExceeded \<or> errors_is e ErrBudgetExceeded"

text \<open>What both kinds of completion answer to an error of the chat service.\<close>

definition write_completion_error :: "bool \<Rightarrow> err \<Rightarrow> 'w http_state \<Rightarrow> 'w http_state" where
  "write_completion_error metrics e =
     (if isGovernanceError e then writeGovernanceErrorWithMetrics metrics e else writeServiceError e)"

section \<open>Chat completions\<close>

text \<open>
  The chat service works on the world and the tracker of the request, which \<open>BindContext\<close> makes the
  recorder of its attempts. \<open>hd_ctx_err\<close> is the error of the request's context.
\<close>

record 'w chat_handler =
  hd_service :: "('w \<times> 'w request_tracker, 'w attempt_handle) chat_service"
  hd_governance :: "'w governance_service"
  hd_metrics :: bool
  hd_now :: "'w \<Rightarrow> time"
  hd_ctx_err :: "'w \<times> 'w request_tracker \<Rightarrow> err option \<times> 'w \<times> 'w request_tracker"

definition plain_attempt_ctx :: "('w, 'h) attempt_ctx" where
  "plain_attempt_ctx = \<lparr>ctx_recorder = None, ctx_backend = []\<rparr>"

definition decodeCompletionRequest ::
    "http_request \<Rightarrow> 'w http_state \<Rightarrow> completion_request res \<times> 'w http_state" where
  "decodeCompletionRequest r s =
     (case and_then (read_body r) (decode_struct dec_completion_request) of
        Inl e \<Rightarrow>
          (Inl e,
           if is_max_bytes_error e then on_writer (writeJSON 413 (error_json ''request body too large'')) s
           else on_writer (writeJSON 400 (error_json ''invalid request body'')) s)
      | Inr req \<Rightarrow> (Inr req, s))"

definition beginTrackedRequest ::
    "'w chat_handler \<Rightarrow> http_request \<Rightarrow> principal option \<Rightarrow> completion_request \<Rightarrow> 'w \<Rightarrow>
     'w request_tracker res \<times> 'w" where
  "beginTrackedRequest h r ctxPrincipal req =
     BeginRequest (hd_governance h) ctxPrincipal
       \<lparr>rm_request_id = hq_id r, rm_model = cr_model req, rm_stream = cr_stream req,
        rm_messages = cr_messages req\<rparr>"

text \<open>A call of the chat service on behalf of a tracker.\<close>

definition with_tracker ::
    "('w \<times> 'w request_tracker \<Rightarrow> 'a res \<times> 'w \<times> 'w request_tracker) \<Rightarrow> 'w request_tracker \<Rightarrow>
     'w http_state \<Rightarrow> ('a res \<times> 'w request_tracker) \<times> 'w http_state" where
  "with_tracker m t s =
     (let (x, w, t) = m (hx_world s, t) in ((x, t), s\<lparr>hx_world := w\<rparr>))"

definition fail_tracker :: "'w request_tracker \<Rightarrow> 'w http_state \<Rightarrow> 'w http_state" where
  "fail_tracker t s = snd (in_world (Fail t) s)"

definition handleNonStreamCompletion ::
    "'w chat_handler \<Rightarrow> completion_request \<Rightarrow> 'w request_tracker \<Rightarrow> 'w http_state \<Rightarrow> 'w http_state" where
  "handleNonStreamCompletion h req tracker s =
     (case with_tracker (CreateCompletion (hd_service h) (BindContext (hd_now h) plain_attempt_ctx) req)
             tracker s of
        ((Inl e, t), s) \<Rightarrow> write_completion_error (hd_metrics h) e (fail_tracker t s)
      | ((Inr resp, t), s) \<Rightarrow>
          (case in_world (CompleteNonStream (hd_now h) t req resp) s of
             (Inl e, s) \<Rightarrow> writeGovernanceErrorWithMetrics (hd_metrics h) e s
           | (Inr _, s) \<Rightarrow> on_writer (writeJSON 200 (completion_response_json resp)) s))"

definition stream_headers :: "response_writer \<Rightarrow> response_writer" where
  "stream_headers rw =
     WriteHeader 200 (set_header ''Connection'' ''keep-alive''
       (set_header ''Cache-Control'' ''no-cache'' (set_header ''Content-Type'' ''text/event-stream'' rw)))"

definition sse_frame :: "completion_chunk \<Rightarrow> string" where
  "sse_frame chunk =
     ''data: '' @ encode (completion_chunk_json chunk) @ [CHR 0x0A, CHR 0x0A]"

definition sse_done :: string where
  "sse_done = ''data: [DONE]'' @ [CHR 0x0A, CHR 0x0A]"

definition try_write :: "string \<Rightarrow> 'w http_state \<Rightarrow> unit res \<times> 'w http_state" where
  "try_write text s =
     (let (x, rw) = write_bytes text (hx_writer s) in (x, s\<lparr>hx_writer := rw\<rparr>))"

text \<open>
  The loop over the events. \<open>headersWritten\<close> is also the negation of \<open>firstChunkWritten\<close>'s test: the
  two change together, before and after the write of the first chunk. \<open>None\<close> is an early return.
  The encoding of a chunk cannot fail: it has texts and numbers only.
\<close>

fun stream_chunks ::
    "'w chat_handler \<Rightarrow> time \<Rightarrow> completion_event list \<Rightarrow> bool \<Rightarrow> 'w request_tracker \<Rightarrow> 'w http_state \<Rightarrow>
     (bool \<times> 'w request_tracker) option \<times> 'w http_state" where
  "stream_chunks h startedAt [] headersWritten t s = (Some (headersWritten, t), s)"
| "stream_chunks h startedAt (CErr e # events) headersWritten t s =
     (let s = fail_tracker t s in
      (None, if \<not> headersWritten then write_completion_error (hd_metrics h) e s else s))"
| "stream_chunks h startedAt (CChunk chunk # events) headersWritten t s =
     (let s = (if \<not> headersWritten then on_writer stream_headers s else s);
          t = ObserveStreamChunk chunk t
      in case try_write (sse_frame chunk) s of
           (Inl e, s) \<Rightarrow> (None, fail_tracker t s)
         | (Inr _, s) \<Rightarrow>
             (let s = (if \<not> headersWritten
                       then record_metric (hd_metrics h)
                              (MetricStreamRequest (hd_now h (hx_world s) - startedAt)) s
                       else s);
                  s = record_metric (hd_metrics h) MetricStreamChunk s
              in stream_chunks h startedAt events True t s))"

definition streamCompletion ::
    "'w chat_handler \<Rightarrow> completion_request \<Rightarrow> 'w request_tracker \<Rightarrow> 'w http_state \<Rightarrow> 'w http_state" where
  "streamCompletion h req tracker s =
     (let startedAt = hd_now h (hx_world s) in
      if \<not> rw_flusher (hx_writer s)
      then on_writer (writeJSON 500 (error_json ''streaming unsupported'')) (fail_tracker tracker s)
      else case with_tracker (StreamCompletion (hd_service h) (hd_ctx_err h)
                  (BindContext (hd_now h) plain_attempt_ctx) req) tracker s of
        ((Inl e, t), s) \<Rightarrow> write_completion_error (hd_metrics h) e (fail_tracker t s)
      | ((Inr events, t), s) \<Rightarrow>
          (case stream_chunks h startedAt events False t s of
             (None, s) \<Rightarrow> s
           | (Some (headersWritten, t), s) \<Rightarrow>
               if \<not> headersWritten
               then on_writer (writeJSON 500 (error_json internalServerErrorMessage)) (fail_tracker t s)
               else (case try_write sse_done s of
                       (Inl e, s) \<Rightarrow> fail_tracker t s
                     | (Inr _, s) \<Rightarrow> snd (in_world (CompleteStream (hd_now h) t req) s))))"

definition handler_CreateCompletion ::
    "'w chat_handler \<Rightarrow> http_request \<Rightarrow> principal option \<Rightarrow> 'w http_state \<Rightarrow> 'w http_state" where
  "handler_CreateCompletion h r ctxPrincipal s =
     (case decodeCompletionRequest r s of
        (Inl e, s) \<Rightarrow> s
      | (Inr req, s) \<Rightarrow>
          (case in_world (beginTrackedRequest h r ctxPrincipal req) s of
             (Inl e, s) \<Rightarrow> writeGovernanceErrorWithMetrics (hd_metrics h) e s
           | (Inr tracker, s) \<Rightarrow>
               if cr_stream req then streamCompletion h req tracker s
               else handleNonStreamCompletion h req tracker s))"

section \<open>Models, usage and health\<close>

definition models_List :: "'w model_source list \<Rightarrow> http_request \<Rightarrow> principal option \<Rightarrow> 'w http_state \<Rightarrow> 'w http_state" where
  "models_List sources r ctxPrincipal s =
     (case in_world (models_ListModels sources) s of
        (Inl e, s) \<Rightarrow> on_writer (writeJSON 500 (error_json ''internal server error'')) s
      | (Inr resp, s) \<Rightarrow> on_writer (writeJSON 200 (models_response_json resp)) s)"

definition usageLimitFromRequest :: "http_request \<Rightarrow> int res" where
  "usageLimitFromRequest r =
     (if hq_limit r = [] then Inr 0
      else case atoi (hq_limit r) of
        None \<Rightarrow> Inl (NewErr ''strconv.Atoi'')
      | Some limit \<Rightarrow> if limit \<le> 0 then Inl UsageInvalidLimit else Inr limit)"

definition GetUsage ::
    "'w usage_reader \<Rightarrow> ('w \<Rightarrow> time) \<Rightarrow> http_request \<Rightarrow> principal option \<Rightarrow> 'w http_state \<Rightarrow> 'w http_state" where
  "GetUsage st now r ctxPrincipal s =
     (case usageLimitFromRequest r of
        Inl e \<Rightarrow> on_writer (writeJSON 400 (error_json ''invalid limit'')) s
      | Inr limit \<Rightarrow>
          (case in_world (GetTenantUsage st now ctxPrincipal limit) s of
             (Inl e, s) \<Rightarrow>
               if errors_is e UsageInvalidLimit
               then on_writer (writeJSON 400 (error_json ''invalid limit'')) s
               else on_writer (writeJSON 500 (error_json ''internal server error'')) s
           | (Inr resp, s) \<Rightarrow> on_writer (writeJSON 200 (usage_response_json resp)) s))"

text \<open>\<open>ProviderHealthReader\<close>; \<open>encoding/json\<close> writes the keys of a map in order.\<close>

record 'w health_reader =
  hr_Ready :: "'w \<Rightarrow> bool"
  hr_BackendStatuses :: "'w \<Rightarrow> backend_status list"

definition status_json :: "string \<Rightarrow> json" where
  "status_json t = JObj [(''status'', JStr t)]"

definition Healthz :: "'w http_state \<Rightarrow> 'w http_state" where
  "Healthz = on_writer (writeJSON 200 (status_json ''ok''))"

definition Readyz :: "'w health_reader option \<Rightarrow> 'w http_state \<Rightarrow> 'w http_state" where
  "Readyz providers s =
     (if (case providers of None \<Rightarrow> False | Some p \<Rightarrow> \<not> hr_Ready p (hx_world s))
      then on_writer (writeJSON 503 (status_json ''not ready'')) s
      else on_writer (writeJSON 200 (status_json ''ready'')) s)"

definition Providers :: "'w health_reader option \<Rightarrow> 'w http_state \<Rightarrow> 'w http_state" where
  "Providers providers s =
     (case providers of
        None \<Rightarrow> on_writer (writeJSON 200 (JObj [(''providers'', JArr []), (''ready'', JBool True)])) s
      | Some p \<Rightarrow>
          on_writer (writeJSON 200
            (JObj [(''providers'', JArr (map provider_status_json (hr_BackendStatuses p (hx_world s)))),
                   (''ready'', JBool (hr_Ready p (hx_world s)))])) s)"

text \<open>\<open>providerHealthAdapter\<close> of \<open>cmd/gateway\<close>: the router as the reader, its statuses field by field.\<close>

definition toHandlerRouteRules :: "route_rule list \<Rightarrow> route_rule list" where
  "toHandlerRouteRules rules =
     (if length rules = 0 then []
      else map (\<lambda>r. \<lparr>rule_model = rule_model r, rule_priority = rule_priority r\<rparr>) rules)"

definition adapter_status :: "backend_status \<Rightarrow> backend_status" where
  "adapter_status st =
     \<lparr>st_name = st_name st, st_priority = st_priority st, st_models = st_models st,
      st_rules = toHandlerRouteRules (st_rules st), st_healthy = st_healthy st,
      st_failures = st_failures st, st_unhealthy_until = st_unhealthy_until st,
      st_last_probe_at = st_last_probe_at st, st_last_probe_error = st_last_probe_error st\<rparr>"

definition providerHealthAdapter ::
    "('m, 'h) router \<Rightarrow> ('w \<Rightarrow> 'm rstate_scheme) \<Rightarrow> 'w health_reader" where
  "providerHealthAdapter p states =
     \<lparr>hr_Ready = (\<lambda>w. Ready p (states w)),
      hr_BackendStatuses = (\<lambda>w. map adapter_status (BackendStatuses p (states w)))\<rparr>"

section \<open>The middleware and the routes\<close>

definition limitRequestBody :: "int \<Rightarrow> 'w http_handler \<Rightarrow> 'w http_handler" where
  "limitRequestBody maxBytes next =
     (if maxBytes \<le> 0 then next else (\<lambda>r. next (r\<lparr>hq_body_limit := Some maxBytes\<rparr>)))"

definition requireAPIKey ::
    "'w api_key_finder \<Rightarrow> 'w http_handler \<Rightarrow> 'w http_handler" where
  "requireAPIKey finder next r ctxPrincipal s =
     (case in_world (AuthenticateRequest finder (hq_authorization r)) s of
        (Inl e, s) \<Rightarrow> writeAuthError e s
      | (Inr pr, s) \<Rightarrow> next r (Some pr) s)"

text \<open>\<open>chainHandler\<close>: the first middleware is the outermost; a \<open>nil\<close> one is skipped.\<close>

definition chainHandler ::
    "'w http_handler \<Rightarrow> ('w http_handler \<Rightarrow> 'w http_handler) option list \<Rightarrow> 'w http_handler" where
  "chainHandler handler middlewares =
     foldr (\<lambda>m h. case m of None \<Rightarrow> h | Some f \<Rightarrow> f h) middlewares handler"

definition requestIDHeader :: "'w http_handler \<Rightarrow> 'w http_handler" where
  "requestIDHeader next r p s =
     next r p (if hq_id r \<noteq> [] then on_writer (set_header ''X-Request-Id'' (hq_id r)) s else s)"

text \<open>The wrapper of the writer is made here first; the spans are left to the tracing package.\<close>

definition requestTracing :: "'w http_handler \<Rightarrow> 'w http_handler" where
  "requestTracing next r p s =
     (let s = on_writer NewWrapResponseWriter s in
      next r p (if hq_trace_id r \<noteq> [] then on_writer (set_header ''X-Trace-Id'' (hq_trace_id r)) s else s))"

text \<open>The wrapper's \<open>Status()\<close>.\<close>

definition written_status :: "'w http_state \<Rightarrow> int" where
  "written_status s = (case rw_wrapped (hx_writer s) of None \<Rightarrow> 0 | Some st \<Rightarrow> st)"

definition requestMetrics :: "bool \<Rightarrow> ('w \<Rightarrow> time) \<Rightarrow> 'w http_handler \<Rightarrow> 'w http_handler" where
  "requestMetrics present now next r p s =
     (let startedAt = now (hx_world s);
          s = next r p (on_writer NewWrapResponseWriter s)
      in if \<not> present then s
         else
           let s = record_metric True (MetricHTTP (hq_method r) (hq_path r) (written_status s)
                     (now (hx_world s) - startedAt)) s
           in if hq_path r = ''/readyz'' \<and> written_status s \<noteq> 200
              then record_metric True MetricReadyzFailure s else s)"

text \<open>The logger wraps the writer too; the line it logs is output only.\<close>

definition requestLogger :: "'w http_handler \<Rightarrow> 'w http_handler" where
  "requestLogger next r p s = next r p (on_writer NewWrapResponseWriter s)"

record 'w router_dependencies =
  rd_chat :: "'w chat_handler"
  rd_models :: "'w model_source list"
  rd_usage :: "'w usage_reader"
  rd_finder :: "'w api_key_finder"
  rd_providers :: "'w health_reader option"
  rd_metrics_handler :: "'w http_handler option"
  rd_metrics :: bool
  rd_max_body :: int
  rd_now :: "'w \<Rightarrow> time"
  rd_count :: "'w \<Rightarrow> int \<times> 'w"

text \<open>The routes, and the router with its middleware.\<close>

definition add_routes :: "'w router_dependencies \<Rightarrow> 'w chi_router \<Rightarrow> 'w chi_router" where
  "add_routes deps r =
     (let r = chi_Get ''/healthz'' (\<lambda>_ _. Healthz) r;
          r = chi_Get ''/readyz'' (\<lambda>_ _. Readyz (rd_providers deps)) r;
          r = chi_Get ''/debug/providers'' (\<lambda>_ _. Providers (rd_providers deps)) r;
          r = (case rd_metrics_handler deps of None \<Rightarrow> r | Some h \<Rightarrow> chi_Get ''/metrics'' h r);
          r = chi_Get ''/v1/models'' (requireAPIKey (rd_finder deps) (models_List (rd_models deps))) r;
          r = chi_Get ''/v1/usage'' (requireAPIKey (rd_finder deps) (GetUsage (rd_usage deps) (rd_now deps))) r
      in chi_Post ''/v1/chat/completions''
           (chainHandler (requireAPIKey (rd_finder deps) (handler_CreateCompletion (rd_chat deps)))
              [Some (limitRequestBody (rd_max_body deps))]) r)"

definition NewRouter :: "'w router_dependencies \<Rightarrow> 'w http_handler" where
  "NewRouter deps =
     (let r = chi_NewRouter;
          r = chi_Use [RequestID (rd_now deps) (rd_count deps)] r;
          r = chi_Use [RealIP] r;
          r = chi_Use [Recoverer] r;
          r = chi_Use [requestIDHeader] r;
          r = chi_Use [requestTracing] r;
          r = chi_Use [requestMetrics (rd_metrics deps) (rd_now deps)] r;
          r = chi_Use [requestLogger] r
      in chi_ServeHTTP (add_routes deps r))"

end
