(* ===== verification/ApiFacts.thy ===== *)
theory ApiFacts
  imports Api AuthStoreFacts
begin

text \<open>
  What the handlers do with the writer and the world: an error is answered with a status of 400 or more
  and leaves the world alone, and a completion that is answered with 200 went through every step.
\<close>

section \<open>The pieces of the state\<close>

lemma on_writer_fields [simp]:
  "hx_world (on_writer f s) = hx_world s" "hx_writer (on_writer f s) = f (hx_writer s)"
  "hx_metrics (on_writer f s) = hx_metrics s"
  by (simp_all add: on_writer_def)

lemma record_metric_fields [simp]:
  "hx_world (record_metric b m s) = hx_world s" "hx_writer (record_metric b m s) = hx_writer s"
  by (simp_all add: record_metric_def)

lemma in_world_eq: "in_world m s = (x, s') \<longleftrightarrow> m (hx_world s) = (x, hx_world s') \<and> s' = s\<lparr>hx_world := hx_world s'\<rparr>"
  by (cases "m (hx_world s)") (auto simp: in_world_def)

lemma in_worldE:
  assumes "in_world m s = (x, s')"
  obtains w where "m (hx_world s) = (x, w)" and "s' = s\<lparr>hx_world := w\<rparr>"
  using assms by (cases "m (hx_world s)") (auto simp: in_world_def)

lemma with_trackerE:
  assumes "with_tracker m t s = ((x, t'), s')"
  obtains w where "m (hx_world s, t) = (x, w, t')" and "s' = s\<lparr>hx_world := w\<rparr>"
  using assms by (cases "m (hx_world s, t)") (auto simp: with_tracker_def)

lemma fail_tracker_fields [simp]:
  "hx_writer (fail_tracker t s) = hx_writer s" "hx_metrics (fail_tracker t s) = hx_metrics s"
  "hx_world (fail_tracker t s) = snd (Fail t (hx_world s))"
  by (simp_all add: fail_tracker_def in_world_def split: prod.splits)

lemma set_header_status [simp]: "rw_status (set_header k v rw) = rw_status rw"
  by (simp add: set_header_def)

lemma hx_status_simps [simp]:
  "hx_status (s\<lparr>hx_world := w\<rparr>) = hx_status s"
  "hx_status (fail_tracker t s) = hx_status s"
  "hx_status (record_metric b m s) = hx_status s"
  "hx_status (on_writer (set_header k hv) s) = hx_status s"
  "hx_status (on_writer (writeJSON st v) s) = (case hx_status s of None \<Rightarrow> Some st | Some c \<Rightarrow> Some c)"
  "hx_status (on_writer (WriteErrorJSON st msg) s) = (case hx_status s of None \<Rightarrow> Some st | Some c \<Rightarrow> Some c)"
  by (simp_all add: hx_status_def WriteErrorJSON_def)

section \<open>Answers to errors\<close>

definition refused :: "'w http_state \<Rightarrow> 'w http_state \<Rightarrow> bool" where
  "refused s s' \<longleftrightarrow> hx_world s' = hx_world s \<and>
     (hx_status s = None \<longrightarrow> (\<exists>st \<ge> 400. hx_status s' = Some st))"

lemma write_errors_refuse [simp]:
  "refused s (writeAuthError e s)" "refused s (writeServiceError e s)"
  "refused s (writeGovernanceErrorWithMetrics m e s)" "refused s (write_completion_error m e s)"
  by (auto simp: refused_def writeAuthError_def writeServiceError_def Let_def
      writeGovernanceErrorWithMetrics_def write_completion_error_def recordGovernanceRejection_def)

lemma writeAuthError_status:
  assumes "hx_status s = None"
  shows "hx_status (writeAuthError e s) =
    Some (if errors_is e ErrMissingAPIKey \<or> errors_is e ErrInvalidAPIKey \<or> errors_is e ErrDisabledAPIKey
          then 401 else 500)"
  using assms by (simp add: writeAuthError_def Let_def)

lemma decode_error:
  assumes "decodeCompletionRequest r s = (Inl e, s')"
  shows "hx_world s' = hx_world s" and "hx_status s = None \<Longrightarrow> hx_status s' = Some 413 \<or> hx_status s' = Some 400"
  using assms by (auto simp: decodeCompletionRequest_def split: sum.splits if_splits)

lemma decode_ok: "decodeCompletionRequest r s = (Inr req, s') \<Longrightarrow> s' = s"
  by (auto simp: decodeCompletionRequest_def split: sum.splits)

section \<open>A completion\<close>

lemma nonstream_cases:
  assumes "handleNonStreamCompletion h req t s = s'"
  defines "run \<equiv> CreateCompletion (hd_service h) (BindContext (hd_now h) plain_attempt_ctx) req (hx_world s, t)"
  obtains (failed) e w t' where "run = (Inl e, w, t')" "hx_world s' = snd (Fail t' w)"
      "hx_status s = None \<longrightarrow> (\<exists>st \<ge> 400. hx_status s' = Some st)"
  | (unrecorded) resp w t' e w' where "run = (Inr resp, w, t')"
      "CompleteNonStream (hd_now h) t' req resp w = (Inl e, w')" "hx_world s' = w'"
      "hx_status s = None \<longrightarrow> (\<exists>st \<ge> 400. hx_status s' = Some st)"
  | (answered) resp w t' w' where "run = (Inr resp, w, t')"
      "CompleteNonStream (hd_now h) t' req resp w = (Inr (), w')" "hx_world s' = w'"
      "hx_writer s' = writeJSON 200 (completion_response_json resp) (hx_writer s)"
proof -
  obtain x t' s1 where x: "with_tracker (CreateCompletion (hd_service h)
      (BindContext (hd_now h) plain_attempt_ctx) req) t s = ((x, t'), s1)" by (metis surj_pair)
  then obtain w where w: "run = (x, w, t')" and s1: "s1 = s\<lparr>hx_world := w\<rparr>"
    unfolding run_def by (rule with_trackerE)
  show thesis
  proof (cases x)
    case (Inl e)
    have s': "s' = write_completion_error (hd_metrics h) e (fail_tracker t' s1)"
      using assms(1) x Inl by (simp add: handleNonStreamCompletion_def)
    have "refused (fail_tracker t' s1) s'" unfolding s' by simp
    then show thesis using w Inl by (intro failed [of e w t']) (auto simp: refused_def s1)
  next
    case (Inr resp)
    obtain y s2 where y: "in_world (CompleteNonStream (hd_now h) t' req resp) s1 = (y, s2)" by fastforce
    then obtain w' where w': "CompleteNonStream (hd_now h) t' req resp w = (y, w')"
      and s2: "s2 = s1\<lparr>hx_world := w'\<rparr>" by (rule in_worldE) (simp add: s1)
    show thesis
    proof (cases y)
      case (Inl e)
      have s': "s' = writeGovernanceErrorWithMetrics (hd_metrics h) e s2"
        using assms(1) x y Inr Inl by (simp add: handleNonStreamCompletion_def)
      have "refused s2 s'" unfolding s' by simp
      then show thesis using w w' Inr Inl
        by (intro unrecorded [of resp w t' e w']) (auto simp: refused_def s1 s2)
    next
      case (Inr u)
      have s': "s' = on_writer (writeJSON 200 (completion_response_json resp)) s2"
        using assms(1) x y \<open>x = Inr resp\<close> Inr by (simp add: handleNonStreamCompletion_def)
      show thesis using w w' \<open>x = Inr resp\<close> Inr s' by (intro answered) (auto simp: s1 s2)
    qed
  qed
qed

lemma handler_cases:
  assumes "handler_CreateCompletion h r p s = s'"
  obtains (undecoded) "hx_world s' = hx_world s" "hx_status s = None \<longrightarrow> (\<exists>st \<ge> 400. hx_status s' = Some st)"
  | (rejected) req e where "and_then (read_body r) (decode_struct dec_completion_request) = Inr req"
      "beginTrackedRequest h r p req (hx_world s) = (Inl e, hx_world s')"
      "hx_status s = None \<longrightarrow> (\<exists>st \<ge> 400. hx_status s' = Some st)"
  | (tracked) req t w where "and_then (read_body r) (decode_struct dec_completion_request) = Inr req"
      "beginTrackedRequest h r p req (hx_world s) = (Inr t, w)"
      "s' = (if cr_stream req then streamCompletion h req t (s\<lparr>hx_world := w\<rparr>)
             else handleNonStreamCompletion h req t (s\<lparr>hx_world := w\<rparr>))"
proof (cases "and_then (read_body r) (decode_struct dec_completion_request)")
  case (Inl e)
  then obtain s1 where "decodeCompletionRequest r s = (Inl e, s1)" by (simp add: decodeCompletionRequest_def)
  with decode_error [OF this] assms show thesis
    by (intro undecoded) (auto simp: handler_CreateCompletion_def)
next
  case (Inr req)
  then have d: "decodeCompletionRequest r s = (Inr req, s)" by (simp add: decodeCompletionRequest_def)
  obtain x s1 where x: "in_world (beginTrackedRequest h r p req) s = (x, s1)" by fastforce
  then obtain w where w: "beginTrackedRequest h r p req (hx_world s) = (x, w)" and s1: "s1 = s\<lparr>hx_world := w\<rparr>"
    by (rule in_worldE)
  show thesis
  proof (cases x)
    case (Inl e)
    have s': "s' = writeGovernanceErrorWithMetrics (hd_metrics h) e s1"
      using assms d x Inl by (simp add: handler_CreateCompletion_def)
    have "refused s1 s'" unfolding s' by simp
    then show thesis using Inr w Inl by (intro rejected [of req e]) (auto simp: refused_def s1)
  next
    case (Inr t)
    show thesis
      using assms d x w Inr s1 by (intro tracked [OF \<open>_ = Inr req\<close>]) (auto simp: handler_CreateCompletion_def)
  qed
qed

section \<open>A stream\<close>

text \<open>The chunks before the first error, and whether there is one.\<close>

fun sent_chunks :: "completion_event list \<Rightarrow> completion_chunk list" where
  "sent_chunks [] = []"
| "sent_chunks (CErr e # events) = []"
| "sent_chunks (CChunk c # events) = c # sent_chunks events"

fun breaks_off :: "completion_event list \<Rightarrow> bool" where
  "breaks_off [] \<longleftrightarrow> False"
| "breaks_off (CErr e # events) \<longleftrightarrow> True"
| "breaks_off (CChunk c # events) \<longleftrightarrow> breaks_off events"

definition observed :: "completion_chunk list \<Rightarrow> 'w request_tracker \<Rightarrow> 'w request_tracker" where
  "observed cs t = fold ObserveStreamChunk cs t"

definition frames :: "completion_chunk list \<Rightarrow> string" where
  "frames cs = concat (map sse_frame cs)"

lemma observed_simps [simp]:
  "observed [] t = t" "observed (c # cs) t = observed cs (ObserveStreamChunk c t)"
  by (simp_all add: observed_def)

lemma frames_simps [simp]: "frames [] = []" "frames (c # cs) = sse_frame c @ frames cs"
  by (simp_all add: frames_def)

lemma observed_fields [simp]:
  "rt_store (observed cs t) = rt_store t" "rt_limiter (observed cs t) = rt_limiter t"
  "rt_record_id (observed cs t) = rt_record_id t" "rt_latest_attempt_id (observed cs t) = rt_latest_attempt_id t"
proof -
  have "rt_store (observed cs t) = rt_store t \<and> rt_limiter (observed cs t) = rt_limiter t \<and>
      rt_record_id (observed cs t) = rt_record_id t \<and> rt_latest_attempt_id (observed cs t) = rt_latest_attempt_id t"
    by (induction cs arbitrary: t) (simp_all add: ObserveStreamChunk_def Let_def)
  then show "rt_store (observed cs t) = rt_store t" "rt_limiter (observed cs t) = rt_limiter t"
    "rt_record_id (observed cs t) = rt_record_id t" "rt_latest_attempt_id (observed cs t) = rt_latest_attempt_id t"
    by blast+
qed

lemma observed_text:
  "rt_stream_completion (observed cs t) =
     rt_stream_completion t @ concat (map (\<lambda>c. concat (map (\<lambda>k. delta_content (ck_delta k)) (ch_choices c))) cs)"
  by (induction cs arbitrary: t) (simp_all add: ObserveStreamChunk_def Let_def)

lemma try_write_cases:
  assumes "try_write x s = (r, s')"
  shows "hx_world s' = hx_world s" and "hx_metrics s' = hx_metrics s"
    and "rw_body (hx_writer s') = rw_body (hx_writer s) @ (if r = Inr () then x else [])"
    and "hx_status s' = (if hx_status s = None then Some 200 else hx_status s)"
    and "rw_faults (hx_writer s) = [] \<Longrightarrow> r = Inr () \<and> rw_faults (hx_writer s') = []"
proof -
  have "hx_world s' = hx_world s \<and> hx_metrics s' = hx_metrics s \<and>
      rw_body (hx_writer s') = rw_body (hx_writer s) @ (if r = Inr () then x else []) \<and>
      hx_status s' = (if hx_status s = None then Some 200 else hx_status s) \<and>
      (rw_faults (hx_writer s) = [] \<longrightarrow> r = Inr () \<and> rw_faults (hx_writer s') = [])"
    using assms
    by (cases "rw_status (hx_writer s)")
      (auto simp: try_write_def write_bytes_def send_header_def hx_status_def Let_def
        split: list.splits option.splits)
  then show "hx_world s' = hx_world s" and "hx_metrics s' = hx_metrics s"
    and "rw_body (hx_writer s') = rw_body (hx_writer s) @ (if r = Inr () then x else [])"
    and "hx_status s' = (if hx_status s = None then Some 200 else hx_status s)"
    and "rw_faults (hx_writer s) = [] \<Longrightarrow> r = Inr () \<and> rw_faults (hx_writer s') = []"
    by blast+
qed

lemma stream_headers_fields [simp]:
  "rw_body (stream_headers rw) = rw_body rw" "rw_faults (stream_headers rw) = rw_faults rw"
  "rw_status (stream_headers rw) = (if rw_status rw = None then Some 200 else rw_status rw)"
  by (simp_all add: stream_headers_def WriteHeader_def send_header_def set_header_def)

text \<open>
  The loop writes the frames of a first part of the chunks. It goes through all of them only when no
  error follows, and otherwise records the failure of what it has observed.
\<close>

definition streamed ::
    "bool \<Rightarrow> completion_event list \<Rightarrow> 'w request_tracker \<Rightarrow> 'w http_state \<Rightarrow>
     (bool \<times> 'w request_tracker) option \<Rightarrow> 'w http_state \<Rightarrow> bool" where
  "streamed hw events t s r s' \<longleftrightarrow>
     (let body = rw_body (hx_writer s); cs = sent_chunks events in
      case r of
        Some (hw', t') \<Rightarrow> \<not> breaks_off events \<and> hw' = (hw \<or> cs \<noteq> []) \<and> t' = observed cs t \<and>
          rw_body (hx_writer s') = body @ frames cs \<and> hx_world s' = hx_world s \<and>
          hx_status s' = (if hw' then Some 200 else None) \<and>
          (rw_faults (hx_writer s) = [] \<longrightarrow> rw_faults (hx_writer s') = [])
      | None \<Rightarrow> \<exists>k j. hx_world s' = snd (Fail (observed (take j cs) t) (hx_world s)) \<and>
          (if hw \<or> cs \<noteq> []
           then hx_status s' = Some 200 \<and> rw_body (hx_writer s') = body @ frames (take k cs) \<and>
                (rw_faults (hx_writer s) = [] \<longrightarrow> breaks_off events \<and> take j cs = cs \<and> take k cs = cs)
           else \<exists>st \<ge> 400. hx_status s' = Some st))"

lemma streamed_NoneE:
  assumes "streamed hw events t s None s'"
  obtains k j where "hx_world s' = snd (Fail (observed (take j (sent_chunks events)) t) (hx_world s))"
    "hw \<or> sent_chunks events \<noteq> [] \<Longrightarrow> hx_status s' = Some 200 \<and>
       rw_body (hx_writer s') = rw_body (hx_writer s) @ frames (take k (sent_chunks events)) \<and>
       (rw_faults (hx_writer s) = [] \<longrightarrow> breaks_off events \<and>
          take j (sent_chunks events) = sent_chunks events \<and> take k (sent_chunks events) = sent_chunks events)"
    "\<not> (hw \<or> sent_chunks events \<noteq> []) \<Longrightarrow> \<exists>st \<ge> 400. hx_status s' = Some st"
proof -
  from assms obtain k j where
    "hx_world s' = snd (Fail (observed (take j (sent_chunks events)) t) (hx_world s))"
    "if hw \<or> sent_chunks events \<noteq> []
     then hx_status s' = Some 200 \<and>
       rw_body (hx_writer s') = rw_body (hx_writer s) @ frames (take k (sent_chunks events)) \<and>
       (rw_faults (hx_writer s) = [] \<longrightarrow> breaks_off events \<and>
          take j (sent_chunks events) = sent_chunks events \<and> take k (sent_chunks events) = sent_chunks events)
     else \<exists>st \<ge> 400. hx_status s' = Some st"
    unfolding streamed_def Let_def option.case by blast
  then show thesis by (intro that [of j k]) presburger+
qed

lemma streamed_Cons:
  assumes "streamed True events (ObserveStreamChunk c t) s1 r s'"
    and "hx_world s1 = hx_world s" and "rw_body (hx_writer s1) = rw_body (hx_writer s) @ sse_frame c"
    and "rw_faults (hx_writer s) = [] \<longrightarrow> rw_faults (hx_writer s1) = []"
  shows "streamed hw (CChunk c # events) t s r s'"
proof (cases r)
  case None
  with assms(1) obtain k j where
    "hx_world s' = snd (Fail (observed (take j (sent_chunks events)) (ObserveStreamChunk c t)) (hx_world s1))"
    "hx_status s' = Some 200"
    "rw_body (hx_writer s') = rw_body (hx_writer s1) @ frames (take k (sent_chunks events))"
    "rw_faults (hx_writer s1) = [] \<longrightarrow> breaks_off events \<and> take j (sent_chunks events) = sent_chunks events \<and>
      take k (sent_chunks events) = sent_chunks events"
    by (auto simp: streamed_def Let_def)
  with assms(2-4) show ?thesis
    unfolding streamed_def Let_def None option.case
    by - (rule exI [of _ "Suc k"], rule exI [of _ "Suc j"], auto)
next
  case (Some x)
  with assms show ?thesis by (cases x) (auto simp: streamed_def Let_def)
qed

lemma stream_chunks_result:
  assumes "stream_chunks h startedAt events hw t s = (r, s')"
    and "hx_status s = (if hw then Some 200 else None)"
  shows "streamed hw events t s r s'"
  using assms
proof (induction events arbitrary: hw t s r s')
  case Nil
  then show ?case by (auto simp: streamed_def)
next
  case (Cons ev events)
  show ?case
  proof (cases ev)
    case (CErr e)
    have "refused (fail_tracker t s) (write_completion_error (hd_metrics h) e (fail_tracker t s))" by simp
    with Cons.prems CErr show ?thesis by (auto simp: streamed_def Let_def refused_def split: if_splits)
  next
    case (CChunk chunk)
    let ?s = "if \<not> hw then on_writer stream_headers s else s"
    let ?t = "ObserveStreamChunk chunk t"
    have s: "hx_status ?s = Some 200" "hx_world ?s = hx_world s"
        "rw_body (hx_writer ?s) = rw_body (hx_writer s)" "rw_faults (hx_writer ?s) = rw_faults (hx_writer s)"
      using Cons.prems(2) by (auto simp: hx_status_def)
    obtain x s1 where x: "try_write (sse_frame chunk) ?s = (x, s1)" by fastforce
    note w = try_write_cases [OF x]
    show ?thesis
    proof (cases x)
      case (Inl e)
      then have "r = None" and s': "s' = fail_tracker ?t s1"
        using Cons.prems(1) x CChunk by (simp_all add: Let_def)
      then show ?thesis
        using w s Inl unfolding streamed_def Let_def \<open>r = None\<close> option.case CChunk
          by - (rule exI [of _ 0], rule exI [of _ "Suc 0"], auto)
    next
      case (Inr u)
      let ?s1 = "record_metric (hd_metrics h) MetricStreamChunk
        (if \<not> hw then record_metric (hd_metrics h) (MetricStreamRequest (hd_now h (hx_world s1) - startedAt)) s1
         else s1)"
      have run: "stream_chunks h startedAt events True ?t ?s1 = (r, s')"
        using Cons.prems(1) x Inr CChunk by (simp add: Let_def)
      have s1: "hx_status ?s1 = Some 200" "hx_world ?s1 = hx_world s"
          "rw_body (hx_writer ?s1) = rw_body (hx_writer s) @ sse_frame chunk"
          "rw_faults (hx_writer s) = [] \<longrightarrow> rw_faults (hx_writer ?s1) = []"
        using w s Inr by auto
      have "streamed True events ?t ?s1 r s'" by (rule Cons.IH [OF run]) (use s1 in simp)
      then show ?thesis unfolding CChunk by (rule streamed_Cons) (use s1 in auto)
    qed
  qed
qed

text \<open>
  A stream ends in one of three ways: whole and followed by the marker, cut off after a status of 200,
  or refused before anything was sent; the request is completed in the first case and failed in the
  others.
\<close>

lemma stream_cases:
  assumes "streamCompletion h req t s = s'" and "rw_flusher (hx_writer s)"
    and "StreamCompletion (hd_service h) (hd_ctx_err h) (BindContext (hd_now h) plain_attempt_ctx) req
      (hx_world s, t) = (Inr events, w, t')"
    and "hx_status s = None"
  obtains (whole) "\<not> breaks_off events" "sent_chunks events \<noteq> []" "hx_status s' = Some 200"
      "rw_body (hx_writer s') = rw_body (hx_writer s) @ frames (sent_chunks events) @ sse_done"
      "hx_world s' = snd (CompleteStream (hd_now h) (observed (sent_chunks events) t') req w)"
  | (cut) k j where "hx_status s' = Some 200"
      "rw_body (hx_writer s') = rw_body (hx_writer s) @ frames (take k (sent_chunks events))"
      "hx_world s' = snd (Fail (observed (take j (sent_chunks events)) t') w)"
      "rw_faults (hx_writer s) = [] \<longrightarrow> breaks_off events \<and> take j (sent_chunks events) = sent_chunks events \<and>
        take k (sent_chunks events) = sent_chunks events"
  | (refusal) st where "sent_chunks events = []" "st \<ge> 400" "hx_status s' = Some st"
      "hx_world s' = snd (Fail t' w)"
proof -
  let ?s = "s\<lparr>hx_world := w\<rparr>"
  have wt: "with_tracker (StreamCompletion (hd_service h) (hd_ctx_err h)
      (BindContext (hd_now h) plain_attempt_ctx) req) t s = ((Inr events, t'), ?s)"
    using assms(3) by (simp add: with_tracker_def)
  obtain r s1 where run: "stream_chunks h (hd_now h (hx_world s)) events False t' ?s = (r, s1)" by fastforce
  have st: "streamed False events t' ?s r s1"
    using run by (rule stream_chunks_result) (simp add: assms(4))
  show thesis
  proof (cases r)
    case None
    then have s': "s' = s1" using assms(1,2) wt run by (simp add: streamCompletion_def Let_def)
    from st [unfolded None] show thesis
    proof (cases rule: streamed_NoneE)
      case (1 k j)
      show thesis
      proof (cases "sent_chunks events = []")
        case True
        with 1 s' show thesis by (auto intro: refusal)
      next
        case False
        then show thesis by (intro cut [of k j]) (use 1 s' in auto)
      qed
    qed
  next
    case (Some x)
    obtain hw t2 where x: "x = (hw, t2)" by fastforce
    with st Some have f: "\<not> breaks_off events" "hw = (sent_chunks events \<noteq> [])" "t2 = observed (sent_chunks events) t'"
        "rw_body (hx_writer s1) = rw_body (hx_writer s) @ frames (sent_chunks events)" "hx_world s1 = w"
        "hx_status s1 = (if hw then Some 200 else None)"
        "rw_faults (hx_writer s) = [] \<longrightarrow> rw_faults (hx_writer s1) = []"
      by (auto simp: streamed_def Let_def)
    show thesis
    proof (cases hw)
      case False
      have "s' = on_writer (writeJSON 500 (error_json internalServerErrorMessage)) (fail_tracker t2 s1)"
        using assms(1,2) wt run Some x False by (simp add: streamCompletion_def Let_def)
      then show thesis using f False by (intro refusal [of 500]) auto
    next
      case True
      obtain y s2 where y: "try_write sse_done s1 = (y, s2)" by fastforce
      note w = try_write_cases [OF y]
      show thesis
      proof (cases y)
        case (Inl e)
        have s': "s' = fail_tracker t2 s2"
          using assms(1,2) wt run Some x True y Inl by (simp add: streamCompletion_def Let_def)
        have nf: "rw_faults (hx_writer s) \<noteq> []" using w(5) f Inl by auto
        show thesis
          by (rule cut [of "length (sent_chunks events)" "length (sent_chunks events)"])
            (use s' f w Inl True nf in auto)
      next
        case (Inr u)
        have s': "s' = snd (in_world (CompleteStream (hd_now h) t2 req) s2)"
          using assms(1,2) wt run Some x True y Inr by (simp add: streamCompletion_def Let_def)
        obtain z s3 where z: "in_world (CompleteStream (hd_now h) t2 req) s2 = (z, s3)" by fastforce
        then obtain w' where w': "CompleteStream (hd_now h) t2 req w = (z, w')" and s3: "s3 = s2\<lparr>hx_world := w'\<rparr>"
          using w f by (elim in_worldE) auto
        show thesis
          by (rule whole) (use s' z w' s3 f w Inr True in auto)
      qed
    qed
  qed
qed

section \<open>A database that answers\<close>

lemma answering_usage_update:
  assumes "answering (gw_db w)"
  obtains w' where "st_UpdateUsageRecord mysql_store u w = (Inr (), w')" and "answering (gw_db w')"
proof -
  have "\<exists>w'. st_UpdateUsageRecord mysql_store u w = (Inr (), w') \<and> answering (gw_db w')"
    using assms by (simp add: mysql_store_def on_db_def UpdateUsageRecord_def) (simp add: answering_def)
  with that show thesis by blast
qed

lemma answering_attempt_update:
  assumes "answering (gw_db w)"
  obtains w' where "st_UpdateAttemptUsageRecord mysql_store u w = (Inr (), w')"
proof -
  have "\<exists>w'. st_UpdateAttemptUsageRecord mysql_store u w = (Inr (), w')"
    using assms by (simp add: mysql_store_def on_db_def UpdateAttemptUsageRecord_def)
  with that show thesis by blast
qed

lemma record_completion_Inr:
  assumes "gateway_limiter (rt_limiter t)"
  obtains w' where "record_completion now t n w = (Inr (), w')" and "gw_db w' = gw_db w"
proof -
  have "fst (record_completion now t n w) = Inr ()"
    using assms
    by (auto simp: record_completion_def gateway_limiter_def mysql_limiter_def NewMySQLLimiter_def
        mysql_RecordCompletionTokens_def redis_gateway_limiter_def NewRedisLimiter_def
        redis_RecordCompletionTokens_def redis_limiter_of_def split: option.splits prod.splits sum.splits)
  then obtain w' where "record_completion now t n w = (Inr (), w')"
    by (cases "record_completion now t n w") auto
  with record_completion_db [OF this assms] show thesis by (intro that)
qed

lemma Fail_answering:
  assumes "answering (gw_db w)" and "rt_store t = mysql_store"
  obtains w' where "Fail t w = (Inr (), w')"
proof -
  obtain w1 where u: "st_UpdateUsageRecord mysql_store
      \<lparr>uu_id = rt_record_id t, uu_tenant_id = tenant_id (principal_tenant (rt_principal t)),
       uu_model = rt_model t, uu_status = ''failed'', uu_prompt_tokens = 0,
       uu_completion_tokens = 0, uu_total_tokens = 0\<rparr> w = (Inr (), w1)" and a: "answering (gw_db w1)"
    using assms(1) by (rule answering_usage_update)
  have "\<exists>w'. st_UpdateAttemptUsageRecord mysql_store a w1 = (Inr (), w')" for a
    using a by (metis answering_attempt_update)
  then have "\<exists>w'. Fail t w = (Inr (), w')"
    using u assms(2) by (auto simp: Fail_def Let_def bindS_def)
  with that show thesis by blast
qed

lemma CompleteNonStream_answering:
  assumes "answering (gw_db w)" and "rt_store t = mysql_store" and "gateway_limiter (rt_limiter t)"
  obtains w' where "CompleteNonStream now t req resp w = (Inr (), w')"
proof -
  have "\<exists>w'. bindS (record_completion now t n) (\<lambda>_. st_UpdateUsageRecord mysql_store u) w = (Inr (), w')" for n u
  proof -
    obtain w1 where rc: "record_completion now t n w = (Inr (), w1)" "gw_db w1 = gw_db w"
      using assms(3) by (rule record_completion_Inr)
    have "answering (gw_db w1)" using rc(2) assms(1) by simp
    then obtain w2 where "st_UpdateUsageRecord mysql_store u w1 = (Inr (), w2)" by (rule answering_usage_update)
    with rc show ?thesis by (simp add: bindS_def)
  qed
  with assms(2) that show thesis unfolding CompleteNonStream_def Let_def by metis
qed

lemma CompleteStream_answering:
  assumes "answering (gw_db w)" and "rt_store t = mysql_store" and "gateway_limiter (rt_limiter t)"
  obtains w' where "CompleteStream now t req w = (Inr (), w')"
proof -
  have "\<exists>w'. bindS (record_completion now t n) (\<lambda>_. bindS (st_UpdateUsageRecord mysql_store u) (\<lambda>_.
      if rt_latest_attempt_id t = 0 then (\<lambda>w. (Inr (), w)) else st_UpdateAttemptUsageRecord mysql_store a)) w =
      (Inr (), w')" for n u a
  proof -
    obtain w1 where rc: "record_completion now t n w = (Inr (), w1)" "gw_db w1 = gw_db w"
      using assms(3) by (rule record_completion_Inr)
    have "answering (gw_db w1)" using rc(2) assms(1) by simp
    then obtain w2 where u: "st_UpdateUsageRecord mysql_store u w1 = (Inr (), w2)" and "answering (gw_db w2)"
      by (rule answering_usage_update)
    then obtain w3 where "st_UpdateAttemptUsageRecord mysql_store a w2 = (Inr (), w3)"
      by (elim answering_attempt_update)
    with rc u show ?thesis by (simp add: bindS_def)
  qed
  with assms(2) that show thesis unfolding CompleteStream_def Let_def by metis
qed

section \<open>The way through the router\<close>

lemma AuthenticateRequest_on_db:
  "AuthenticateRequest (\<lambda>h. on_db (f h)) header w = on_db (AuthenticateRequest f header) w"
  by (auto simp: AuthenticateRequest_def on_db_def split: sum.splits prod.splits)

definition limited_request :: "'w router_dependencies \<Rightarrow> http_request \<Rightarrow> http_request" where
  "limited_request deps r =
     (if rd_max_body deps \<le> 0 then r else r\<lparr>hq_body_limit := Some (rd_max_body deps)\<rparr>)"

lemma limited_request_fields [simp]:
  "hq_authorization (limited_request deps r) = hq_authorization r" "hq_id (limited_request deps r) = hq_id r"
  by (simp_all add: limited_request_def)

lemma read_limited: "read_body (limited_request deps (r\<lparr>hq_id := rid\<rparr>)) = read_body (limited_request deps r)"
  by (simp add: read_body_def limited_request_def split: option.split)

text \<open>The routes as they are registered.\<close>

definition route_of :: "string \<Rightarrow> string \<Rightarrow> 'w http_handler \<Rightarrow> 'w chi_route" where
  "route_of meth pattern h = \<lparr>rt_method = meth, rt_pattern = pattern, rt_handler = h\<rparr>"

lemma route_of_fields [simp]:
  "rt_method (route_of m p h) = m" "rt_pattern (route_of m p h) = p" "rt_handler (route_of m p h) = h"
  by (simp_all add: route_of_def)

lemma add_routes_routes:
  "chi_routes (add_routes deps r) = chi_routes r @
     [route_of ''GET'' ''/healthz'' (\<lambda>_ _. Healthz),
      route_of ''GET'' ''/readyz'' (\<lambda>_ _. Readyz (rd_providers deps)),
      route_of ''GET'' ''/debug/providers'' (\<lambda>_ _. Providers (rd_providers deps))] @
     (case rd_metrics_handler deps of None \<Rightarrow> [] | Some h \<Rightarrow> [route_of ''GET'' ''/metrics'' h]) @
     [route_of ''GET'' ''/v1/models'' (requireAPIKey (rd_finder deps) (models_List (rd_models deps))),
      route_of ''GET'' ''/v1/usage'' (requireAPIKey (rd_finder deps) (GetUsage (rd_usage deps) (rd_now deps))),
      route_of ''POST'' ''/v1/chat/completions''
        (chainHandler (requireAPIKey (rd_finder deps) (handler_CreateCompletion (rd_chat deps)))
          [Some (limitRequestBody (rd_max_body deps))])]"
  by (simp add: add_routes_def Let_def chi_Get_def chi_Post_def chi_handle_def route_of_def split: option.split)

lemma add_routes_middlewares [simp]: "chi_middlewares (add_routes deps r) = chi_middlewares r"
  by (simp add: add_routes_def Let_def chi_Get_def chi_Post_def chi_handle_def split: option.split)

definition matching :: "http_request \<Rightarrow> 'w router_dependencies \<Rightarrow> 'w chi_route option" where
  "matching r deps = find (\<lambda>rt. rt_pattern rt = hq_path r \<and> rt_method rt = hq_method r)
     (chi_routes (add_routes deps chi_NewRouter))"

lemma matching_simps:
  "hq_method r = ''POST'' \<Longrightarrow> hq_path r = ''/v1/chat/completions'' \<Longrightarrow> \<exists>rt. matching r deps = Some rt \<and>
     rt_handler rt = chainHandler (requireAPIKey (rd_finder deps) (handler_CreateCompletion (rd_chat deps)))
       [Some (limitRequestBody (rd_max_body deps))]"
  "hq_method r = ''GET'' \<Longrightarrow> hq_path r = ''/v1/models'' \<Longrightarrow> \<exists>rt. matching r deps = Some rt \<and>
     rt_handler rt = requireAPIKey (rd_finder deps) (models_List (rd_models deps))"
  "hq_method r = ''GET'' \<Longrightarrow> hq_path r = ''/v1/usage'' \<Longrightarrow> \<exists>rt. matching r deps = Some rt \<and>
     rt_handler rt = requireAPIKey (rd_finder deps) (GetUsage (rd_usage deps) (rd_now deps))"
  by (simp_all add: matching_def add_routes_routes chi_NewRouter_def split: option.split)

text \<open>The world that the identifier of a request leaves, and the router around the handler of a match.\<close>

definition identified :: "'w router_dependencies \<Rightarrow> http_request \<Rightarrow> 'w \<Rightarrow> 'w" where
  "identified deps r w = (if hq_request_id r = [] then snd (rd_count deps w) else w)"

lemma NewRouter_route:
  assumes "matching r deps = Some rt"
  obtains rid s0 where "hx_world s0 = identified deps r (hx_world s)" "hx_status s0 = hx_status s"
    "rw_body (hx_writer s0) = rw_body (hx_writer s)" "rw_flusher (hx_writer s0)"
    "rw_faults (hx_writer s0) = rw_faults (hx_writer s)"
    "hx_world (NewRouter deps r p s) = hx_world (rt_handler rt (r\<lparr>hq_id := rid\<rparr>) p s0)"
    "hx_writer (NewRouter deps r p s) = hx_writer (rt_handler rt (r\<lparr>hq_id := rid\<rparr>) p s0)"
    "hq_request_id r \<noteq> [] \<Longrightarrow> rid = hq_request_id r"
proof -
  define rid where "rid = (if hq_request_id r = []
    then itoa (rd_now deps (hx_world s)) @ ''-'' @ itoa (fst (rd_count deps (hx_world s))) else hq_request_id r)"
  let ?r = "r\<lparr>hq_id := rid\<rparr>"
  define s1 where "s1 = s\<lparr>hx_world := identified deps r (hx_world s)\<rparr>"
  define s2 where "s2 = (if rid \<noteq> [] then on_writer (set_header ''X-Request-Id'' rid) s1 else s1)"
  define s3 where "s3 = (let s = on_writer NewWrapResponseWriter s2 in
    if hq_trace_id r \<noteq> [] then on_writer (set_header ''X-Trace-Id'' (hq_trace_id r)) s else s)"
  define s0 where "s0 = on_writer NewWrapResponseWriter (on_writer NewWrapResponseWriter s3)"
  have id: "RequestID (rd_now deps) (rd_count deps) next r p s = next ?r p s1" for "next"
    by (cases "rd_count deps (hx_world s)")
      (simp add: RequestID_def rid_def s1_def identified_def in_world_def)
  have "NewRouter deps r p s = requestMetrics (rd_metrics deps) (rd_now deps) (requestLogger (rt_handler rt)) ?r p s3"
    using assms
    by (simp add: NewRouter_def Let_def chi_ServeHTTP_def serve_routes_find matching_def chi_Use_def
        chi_NewRouter_def add_routes_routes wrap_all_def id RealIP_def Recoverer_def requestIDHeader_def
        requestTracing_def s2_def s3_def split: option.splits)
  then show thesis
    by (intro that [of s0 rid])
      (auto simp: requestMetrics_def requestLogger_def Let_def s0_def s1_def s2_def s3_def rid_def hx_status_def
        set_header_def NewWrapResponseWriter_def)
qed

lemma chat_handler_chain:
  "chainHandler (requireAPIKey finder (handler_CreateCompletion h)) [Some (limitRequestBody (rd_max_body deps))] r =
    requireAPIKey finder (handler_CreateCompletion h) (limited_request deps r)"
  by (auto simp: chainHandler_def limitRequestBody_def limited_request_def)

end
