(* ===== verification/MockProvider.thy ===== *)
theory MockProvider
  imports ProviderTypes Calendar
begin

text \<open>
  \<open>internal/provider/mock/chat.go\<close>: the provider the gateway runs with when no upstream is configured.
  It answers with a fixed text, whole or in parts, or fails every call.
\<close>

record mock_config =
  mk_response_text :: string
  mk_stream_parts :: "string list"
  mk_fail_create :: bool
  mk_fail_stream :: bool
  mk_model :: string

definition mock_NewWithConfig :: "mock_config \<Rightarrow> mock_config" where
  "mock_NewWithConfig cfg =
     cfg\<lparr>mk_response_text :=
           (if mk_response_text cfg = [] then ''This is a mock response from LLM Access Gateway.''
            else mk_response_text cfg),
         mk_stream_parts :=
           (if mk_stream_parts cfg = []
            then [''This is '', ''a mock response '', ''from LLM Access Gateway.'']
            else mk_stream_parts cfg)\<rparr>"

definition mock_New :: mock_config where
  "mock_New = mock_NewWithConfig
     \<lparr>mk_response_text = [], mk_stream_parts = [], mk_fail_create = False, mk_fail_stream = False,
      mk_model = []\<rparr>"

definition mock_CreateChatCompletion ::
    "mock_config \<Rightarrow> time \<Rightarrow> chat_completion_request \<Rightarrow> chat_completion_response res" where
  "mock_CreateChatCompletion p now req =
     (if mk_fail_create p then Inl (MockCreateFailed)
      else Inr \<lparr>resp_id = ''chatcmpl-mock'', resp_object = ''chat.completion'',
                resp_created = unix_seconds now, resp_model = req_model req,
                resp_choices =
                  [\<lparr>choice_index = 0,
                    choice_message = \<lparr>msg_role = ''assistant'', msg_content = mk_response_text p\<rparr>,
                    choice_finish_reason = ''stop''\<rparr>],
                resp_usage = \<lparr>prompt_tokens = 0, completion_tokens = 0, total_tokens = 0\<rparr>\<rparr>)"

definition mock_chunk :: "time \<Rightarrow> chat_completion_request \<Rightarrow> int \<Rightarrow> string \<Rightarrow> string \<Rightarrow> stream_event" where
  "mock_chunk now req idx txt finish =
     ChunkEvent \<lparr>chunk_id = ''chatcmpl-mock'', chunk_object = ''chat.completion.chunk'',
                 chunk_created = unix_seconds now, chunk_model = req_model req,
                 chunk_choices =
                   [\<lparr>choice_index = idx,
                     choice_message = \<lparr>msg_role = ''assistant'', msg_content = txt\<rparr>,
                     choice_finish_reason = finish\<rparr>]\<rparr>"

definition mock_StreamChatCompletion ::
    "mock_config \<Rightarrow> time \<Rightarrow> chat_completion_request \<Rightarrow> stream_event list res" where
  "mock_StreamChatCompletion p now req =
     (if mk_fail_stream p then Inl (MockStreamFailed)
      else Inr (map (\<lambda>(idx, part). mock_chunk now req (int idx) part [])
                    (enumerate 0 (mk_stream_parts p))
                @ [mock_chunk now req 0 [] ''stop'']))"

definition mock_ListModels :: "mock_config \<Rightarrow> time \<Rightarrow> provider_model list res" where
  "mock_ListModels p now =
     Inr [\<lparr>model_id = (if mk_model p = [] then ''gpt-4o-mini'' else mk_model p),
           model_object = ''model'', model_created = unix_seconds now,
           model_owned_by = ''llm-access-gateway-mock''\<rparr>]"

lemma mock_parts:
  "concat (map (\<lambda>ev. case ev of ChunkEvent c \<Rightarrow> concat (map (\<lambda>ch. msg_content (choice_message ch))
      (chunk_choices c)) | ErrEvent _ \<Rightarrow> [])
    (map (\<lambda>(idx, part). mock_chunk now req (int idx) part []) (enumerate n parts))) = concat parts"
  by (induction parts arbitrary: n) (simp_all add: mock_chunk_def)

end
