(* ===== verification/ApiProperties.thy ===== *)
theory ApiProperties
  imports ApiFacts MockProvider StoreProperties
begin

text \<open>
  The properties of the HTTP interface: who is served, what a served completion implies about limits,
  and how the row of a request ends for what its client was answered. At the end a gateway with the
  mock provider, on which their hypotheses hold.
\<close>

section \<open>Providers and the row of the request\<close>

text \<open>
  What the handlers need of a provider that reports its attempts to the tracker: it leaves the rows of
  requests and the identity of the tracker alone. Attempts have rows of their own.
\<close>

definition same_request :: "gw request_tracker \<Rightarrow> gw request_tracker \<Rightarrow> bool" where
  "same_request t t' \<longleftrightarrow>
     rt_store t' = rt_store t \<and> rt_limiter t' = rt_limiter t \<and> rt_record_id t' = rt_record_id t"

definition row_safe :: "gw \<times> gw request_tracker \<Rightarrow> gw \<times> gw request_tracker \<Rightarrow> bool" where
  "row_safe wt wt' \<longleftrightarrow> same_request (snd wt) (snd wt') \<and>
     request_usages (gw_db (fst wt')) = request_usages (gw_db (fst wt)) \<and>
     (answering (gw_db (fst wt)) \<longrightarrow> answering (gw_db (fst wt')))"

definition keeps_request ::
    "(gw \<Rightarrow> time) \<Rightarrow> (gw \<times> gw request_tracker, gw attempt_handle, stream_event list) chat_provider \<Rightarrow> bool" where
  "keeps_request now prov \<longleftrightarrow>
     (\<forall>ctx req wt. ctx_recorder ctx = Some (tracker_recorder now) \<and> rt_store (snd wt) = mysql_store \<longrightarrow>
        row_safe wt (snd (CreateChatCompletion prov ctx req wt)) \<and>
        row_safe wt (snd (StreamChatCompletion prov ctx req wt)))"

lemma keeps_requestD:
  assumes "keeps_request now prov" and "ctx_recorder ctx = Some (tracker_recorder now)"
    and "rt_store (snd wt) = mysql_store"
  shows "CreateChatCompletion prov ctx req wt = (r, wt') \<Longrightarrow> row_safe wt wt'"
    and "StreamChatCompletion prov ctx req wt = (sr, wt') \<Longrightarrow> row_safe wt wt'"
  using assms unfolding keeps_request_def by (metis snd_conv)+

lemma row_safe_refl: "row_safe wt wt"
  by (simp add: row_safe_def same_request_def)

lemma bound_recorder [simp]: "ctx_recorder (BindContext now ctx) = Some (tracker_recorder now)"
  by (simp add: BindContext_def WithAttemptRecorder_def)

lemma same_request_refl [simp]: "same_request t t"
  by (simp add: same_request_def)

lemma CreateCompletion_keeps:
  assumes "keeps_request now (svc_provider sv)" and "rt_store (snd wt) = mysql_store"
    and "CreateCompletion sv (BindContext now plain_attempt_ctx) req wt = (r, wt')"
  shows "row_safe wt wt'"
  using assms(3) keeps_requestD(1) [OF assms(1) bound_recorder assms(2)] row_safe_refl
  by (auto simp: CreateCompletion_def split: sum.splits prod.splits)

text \<open>Reading the context's error is taken to change nothing.\<close>

definition reads_only :: "('a \<Rightarrow> 'b \<times> 'a) \<Rightarrow> bool" where
  "reads_only m \<longleftrightarrow> (\<forall>w. snd (m w) = w)"

lemma forward_events_reads:
  assumes "reads_only ctxErr"
  shows "snd (snd (snd (forward_events ctxErr events n tr w))) = w"
proof (induction events arbitrary: n tr)
  case Nil
  then show ?case by simp
next
  case (Cons ev events)
  have "snd (handleProviderStreamEvent ctxErr ev w) = w"
  proof -
    have "ctxErr w = (fst (ctxErr w), w)" using assms by (metis prod.collapse reads_only_def)
    then show ?thesis
      by (cases "fst (ctxErr w)"; cases ev) (simp_all add: handleProviderStreamEvent_def)
  qed
  with Cons.IH show ?case by (auto simp: Let_def split: prod.splits) (metis snd_conv)+
qed

lemma StreamCompletion_keeps:
  assumes "keeps_request now (svc_provider sv)" and "rt_store (snd wt) = mysql_store" and "reads_only ctxErr"
    and "StreamCompletion sv ctxErr (BindContext now plain_attempt_ctx) req wt = (r, wt')"
  shows "row_safe wt wt'"
proof (cases "prepareProviderRequest sv req")
  case (Inl e)
  with assms(4) row_safe_refl show ?thesis by (simp add: StreamCompletion_def)
next
  case (Inr preq)
  obtain x wt1 where x: "StreamChatCompletion (svc_provider sv) (BindContext now plain_attempt_ctx) preq wt =
      (x, wt1)" by (metis surj_pair)
  have "wt' = wt1"
  proof (cases x)
    case (Inl e)
    with assms(4) Inr x show ?thesis by (simp add: StreamCompletion_def)
  next
    case (Inr cs)
    with assms(4) \<open>prepareProviderRequest sv req = Inr preq\<close> x show ?thesis
      using forward_events_reads [OF assms(3), of cs 0 None wt1]
      by (auto simp: StreamCompletion_def split: prod.splits)
  qed
  with keeps_requestD(2) [OF assms(1) bound_recorder assms(2) x] show ?thesis by simp
qed

lemma request_row_same:
  "request_usages d' = request_usages d \<Longrightarrow> request_row_at rid d' = request_row_at rid d"
  by (simp add: request_row_at_def)

section \<open>Authentication\<close>


section \<open>A completion and its row\<close>



section \<open>From the request to its answer\<close>

lemma completion_reached:
  assumes "hq_method r = ''POST''" and "hq_path r = ''/v1/chat/completions''" and "hx_status s = None"
    and "hx_status (NewRouter deps r p s) = Some 200"
  obtains pr req tracker rid w1 w2 where
      "AuthenticateRequest (rd_finder deps) (hq_authorization r) (identified deps r (hx_world s)) = (Inr pr, w1)"
    and "and_then (read_body (limited_request deps r)) (decode_struct dec_completion_request) = Inr req"
    and "beginTrackedRequest (rd_chat deps) (r\<lparr>hq_id := rid\<rparr>) (Some pr) req w1 = (Inr tracker, w2)"
proof -
  obtain rt where rt: "matching r deps = Some rt"
    and h: "rt_handler rt = chainHandler (requireAPIKey (rd_finder deps) (handler_CreateCompletion (rd_chat deps)))
       [Some (limitRequestBody (rd_max_body deps))]"
    using matching_simps(1) [OF assms(1,2), of deps] by blast
  obtain rid s0 where s0: "hx_world s0 = identified deps r (hx_world s)" "hx_status s0 = hx_status s"
    and wr: "hx_writer (NewRouter deps r p s) = hx_writer (rt_handler rt (r\<lparr>hq_id := rid\<rparr>) p s0)"
    using rt by (rule NewRouter_route)
  let ?r = "limited_request deps (r\<lparr>hq_id := rid\<rparr>)" and ?h = "rd_chat deps"
  have ok: "hx_status (requireAPIKey (rd_finder deps) (handler_CreateCompletion ?h) ?r p s0) = Some 200"
    using assms(4) wr by (simp add: hx_status_def h chat_handler_chain)
  obtain x s1 where x: "in_world (AuthenticateRequest (rd_finder deps) (hq_authorization r)) s0 = (x, s1)"
    by fastforce
  then obtain w1 where w1: "AuthenticateRequest (rd_finder deps) (hq_authorization r)
      (identified deps r (hx_world s)) = (x, w1)" and s1: "s1 = s0\<lparr>hx_world := w1\<rparr>"
    using s0(1) by (elim in_worldE) auto
  obtain pr where pr: "x = Inr pr"
    using ok x writeAuthError_status [of s1] s1 s0(2) assms(3)
    by (cases x) (auto simp: requireAPIKey_def split: if_splits)
  have "handler_CreateCompletion ?h ?r (Some pr) s1 =
      requireAPIKey (rd_finder deps) (handler_CreateCompletion ?h) ?r p s0"
    using x pr by (simp add: requireAPIKey_def)
  then show thesis
  proof (cases rule: handler_cases)
    case (tracked req tracker w2)
    then show thesis
      using that [OF w1 [unfolded pr], of req rid tracker w2] s1
      by (simp add: beginTrackedRequest_def read_limited)
  qed (use ok s1 s0(2) assms(3) in auto)
qed


section \<open>A gateway to try them on\<close>

definition mock_chat_provider :: "mock_config \<Rightarrow> ('w \<Rightarrow> time) \<Rightarrow> ('w, 'h, stream_event list) chat_provider" where
  "mock_chat_provider p now =
     \<lparr>CreateChatCompletion = (\<lambda>ctx req w. (mock_CreateChatCompletion p (now w) req, w)),
      StreamChatCompletion = (\<lambda>ctx req w. (mock_StreamChatCompletion p (now w) req, w))\<rparr>"

lemma mock_keeps_request: "keeps_request now (mock_chat_provider p clock)"
  by (simp add: keeps_request_def mock_chat_provider_def row_safe_refl)

definition shop_gw :: gw where
  "shop_gw =
     \<lparr>gw_db = shop_db, gw_redis = \<lparr>r_counters = (\<lambda>_. None), r_now = 0, r_faults = [], r_reply = []\<rparr>,
      gw_router = idle_router, gw_requests = 0, gw_network = 0\<rparr>"

definition shop_handler :: "gw chat_handler" where
  "shop_handler =
     \<lparr>hd_service = \<lparr>svc_default_model = ''m'', svc_provider = mock_chat_provider mock_New (\<lambda>_. 0)\<rparr>,
      hd_governance = \<lparr>gs_store = mysql_store, gs_limiter = Some mysql_limiter, gs_now = (\<lambda>_. 0)\<rparr>,
      hd_metrics = True, hd_now = (\<lambda>_. 0), hd_ctx_err = (\<lambda>w. (None, w))\<rparr>"

definition shop_deps :: "gw router_dependencies" where
  "shop_deps =
     \<lparr>rd_chat = shop_handler, rd_models = [], rd_usage = mysql_usage_reader,
      rd_finder = (\<lambda>h. on_db (LookupAPIKey id h)), rd_providers = None, rd_metrics_handler = None,
      rd_metrics = True, rd_max_body = 100, rd_now = (\<lambda>_. 0), rd_count = (\<lambda>w. (1, w))\<rparr>"

definition shop_body :: string where
  "shop_body = [CHR 0x7B, CHR 0x22] @ ''messages'' @ [CHR 0x22, CHR '':'', CHR ''['', CHR 0x7B, CHR 0x22] @ ''role'' @
     [CHR 0x22, CHR '':'', CHR 0x22, CHR ''u'', CHR 0x22, CHR 0x7D, CHR '']'', CHR 0x7D]"

definition shop_request :: "string \<Rightarrow> http_request" where
  "shop_request header =
     \<lparr>hq_request_id = ''r1'', hq_id = [], hq_trace_id = [], hq_method = ''POST'', hq_path = ''/v1/chat/completions'',
      hq_authorization = header, hq_limit = [], hq_body = shop_body, hq_body_limit = None\<rparr>"

definition shop_state :: "gw http_state" where
  "shop_state = \<lparr>hx_world = shop_gw, hx_writer = new_writer True [], hx_metrics = []\<rparr>"

lemma shop_state_parts [simp]:
  "hx_world shop_state = shop_gw" "hx_status shop_state = None" "gw_db shop_gw = shop_db"
  "rw_flusher (hx_writer shop_state) = True" "rw_body (hx_writer shop_state) = []"
  "rw_faults (hx_writer shop_state) = []"
  by (simp_all add: shop_state_def shop_gw_def hx_status_def new_writer_def)

lemma shop_handler_parts [simp]:
  "svc_provider (hd_service shop_handler) = mock_chat_provider mock_New (\<lambda>_. 0)"
  "hd_governance shop_handler = \<lparr>gs_store = mysql_store, gs_limiter = Some mysql_limiter, gs_now = (\<lambda>_. 0)\<rparr>"
  "rd_chat shop_deps = shop_handler" "hd_now shop_handler = (\<lambda>_. 0)"
  "rd_finder shop_deps = (\<lambda>h. on_db (LookupAPIKey id h))" "rd_count shop_deps = (\<lambda>w. (1, w))"
  "svc_default_model (hd_service shop_handler) = ''m''" "hd_ctx_err shop_handler = (\<lambda>w. (None, w))"
  by (simp_all add: shop_handler_def shop_deps_def)

lemma shop_request_parts [simp]:
  "hq_method (shop_request h) = ''POST''" "hq_path (shop_request h) = ''/v1/chat/completions''"
  "hq_authorization (shop_request h) = h" "hq_request_id (shop_request h) = ''r1''"
  by (simp_all add: shop_request_def)

definition shop_completion_request :: completion_request where
  "shop_completion_request = \<lparr>cr_model = [], cr_messages = [\<lparr>cm_role = ''u'', cm_content = []\<rparr>], cr_stream = False\<rparr>"

lemma identified_shop [simp]: "identified shop_deps r w = w"
  by (simp add: identified_def)

lemma shop_decodes:
  "and_then (read_body (limited_request shop_deps (shop_request ''bearer   key ''\<lparr>hq_id := rid\<rparr>))) (decode_struct dec_completion_request) =
     Inr shop_completion_request"
  unfolding limited_request_def shop_deps_def shop_completion_request_def by code_simp


text \<open>The tracker that the gateway makes for the request, and the database with its row.\<close>

definition shop_principal :: principal where
  "shop_principal = \<lparr>principal_tenant = \<lparr>tenant_id = 1, tenant_name = ''shop'', rpm_limit = 60, tpm_limit = 4000,
     token_budget = 1000000\<rparr>, principal_key_id = 1, principal_key_prefix = ''key''\<rparr>"

definition shop_metadata :: request_metadata where
  "shop_metadata = \<lparr>rm_request_id = ''r1'', rm_model = [], rm_stream = False,
     rm_messages = [\<lparr>cm_role = ''u'', cm_content = []\<rparr>]\<rparr>"

definition shop_tracker :: "gw request_tracker" where
  "shop_tracker = newRequestTracker mysql_store (Some mysql_limiter) shop_principal 1 shop_metadata"

definition shop_begun :: gw where
  "shop_begun = shop_gw\<lparr>gw_db := snd (insertUsageRecordStatement (begin_request_record
     (request_input (hd_governance shop_handler) shop_principal shop_metadata shop_gw)) shop_db)\<rparr>"

lemma shop_prompt: "gov_estimatePromptTokens (rm_messages shop_metadata) = 1"
  by code_simp

lemma shop_admits:
  "decide_request (request_input (hd_governance shop_handler) shop_principal shop_metadata shop_gw) shop_db = None"
  using shop_prompt
  by (simp add: decide_request_def request_input_def shop_principal_def tenant_exists_def Let_def
      within_budget_def within_rate_def within_tokens_def go_add_def wrap64_def attempt_tokens_used_def
      requests_since_def tokens_since_def)
    (simp add: shop_db_def empty_db_def shop_tenant_def)

lemma shop_begins: "beginTrackedRequest shop_handler r (Some shop_principal) shop_completion_request shop_gw =
    (Inr shop_tracker, shop_begun)" if "hq_id r = ''r1''"
proof -
  have m: "\<lparr>rm_request_id = hq_id r, rm_model = cr_model shop_completion_request,
      rm_stream = cr_stream shop_completion_request, rm_messages = cr_messages shop_completion_request\<rparr> = shop_metadata"
    using that by (simp add: shop_metadata_def shop_completion_request_def)
  have next_id: "next_usage_id shop_db = 1" by (simp add: shop_db_def empty_db_def)
  show ?thesis
    unfolding beginTrackedRequest_def m
    using shop_admits next_id
    by (simp add: BeginRequest_atomic BeginRequestAtomic_decides shop_tracker_def shop_begun_def shop_gw_def)
qed

lemma shop_db_tables [simp]: "request_usages shop_db = []" "next_usage_id shop_db = 1"
  by (simp_all add: shop_db_def empty_db_def)

lemma shop_begun_parts [simp]:
  "answering (gw_db shop_begun)" "rt_store shop_tracker = mysql_store" "gateway_limiter (rt_limiter shop_tracker)"
  "rt_record_id shop_tracker = 1" "\<exists>row. request_row_at 1 (gw_db shop_begun) = Some row"
  by (simp_all add: shop_begun_def shop_tracker_def newRequestTracker_def gateway_limiter_def request_row_at_def
      insertUsageRecordStatement_def usage_row_of_def answering_def)
    (simp add: shop_db_def empty_db_def)

lemma shop_completes:
  "\<exists>resp. CreateCompletion (hd_service shop_handler) (BindContext (hd_now shop_handler) plain_attempt_ctx)
     shop_completion_request (w, t) = (Inr resp, w, t)"
  by (simp add: CreateCompletion_def prepareProviderRequest_def shop_completion_request_def mock_chat_provider_def
      mock_CreateChatCompletion_def mock_New_def mock_NewWithConfig_def)


lemma shop_streams:
  "\<exists>events. StreamCompletion (hd_service shop_handler) (hd_ctx_err shop_handler)
     (BindContext (hd_now shop_handler) plain_attempt_ctx) shop_completion_request (w, t) = (Inr events, w, t) \<and>
     sent_chunks events \<noteq> [] \<and> \<not> breaks_off events"
  by (simp add: StreamCompletion_def prepareProviderRequest_def shop_completion_request_def mock_chat_provider_def
      mock_StreamChatCompletion_def mock_New_def mock_NewWithConfig_def mock_chunk_def enumerate_eq_zip
      handleProviderStreamEvent_def)


lemma shop_served:
  "hx_status (NewRouter shop_deps (shop_request ''bearer   key '') None shop_state) = Some 200"
proof -
  let ?q = "shop_request ''bearer   key ''"
  obtain rt where rt: "matching ?q shop_deps = Some rt"
    and h: "rt_handler rt = chainHandler (requireAPIKey (rd_finder shop_deps) (handler_CreateCompletion (rd_chat shop_deps)))
       [Some (limitRequestBody (rd_max_body shop_deps))]"
    using matching_simps(1) [of ?q shop_deps] by auto
  obtain rid s0 where s0: "hx_world s0 = shop_gw" "hx_status s0 = None"
    and wr: "hx_writer (NewRouter shop_deps ?q None shop_state) =
      hx_writer (rt_handler rt (?q\<lparr>hq_id := rid\<rparr>) None s0)" and rid: "rid = ''r1''"
    using rt by (rule NewRouter_route [of _ _ _ shop_state None]) simp_all
  let ?r = "?q\<lparr>hq_id := rid\<rparr>"
  have "AuthenticateRequest (rd_finder shop_deps) ''bearer   key '' shop_gw = (Inr shop_principal, shop_gw)"
    using shop_authenticates by (simp add: AuthenticateRequest_on_db on_db_def shop_principal_def)
  moreover have same: "s0\<lparr>hx_world := shop_gw\<rparr> = s0" using s0(1) by (cases s0) simp
  ultimately have auth: "rt_handler rt ?r None s0 =
      handler_CreateCompletion shop_handler (limited_request shop_deps ?r) (Some shop_principal) s0"
    using s0(1) by (simp add: h chat_handler_chain requireAPIKey_def in_world_def) (simp only: same)
  have dec: "decodeCompletionRequest (limited_request shop_deps ?r) s0 = (Inr shop_completion_request, s0)"
    by (simp add: decodeCompletionRequest_def shop_decodes)
  have beg: "in_world (beginTrackedRequest shop_handler (limited_request shop_deps ?r) (Some shop_principal)
      shop_completion_request) s0 = (Inr shop_tracker, s0\<lparr>hx_world := shop_begun\<rparr>)"
    using s0 rid shop_begins [of "limited_request shop_deps ?r"] by (simp add: in_world_def)
  let ?s = "s0\<lparr>hx_world := shop_begun\<rparr>"
  have run: "rt_handler rt ?r None s0 =
      handleNonStreamCompletion shop_handler shop_completion_request shop_tracker ?s"
    using dec beg by (simp add: auth handler_CreateCompletion_def shop_completion_request_def)
  obtain resp where resp: "CreateCompletion (hd_service shop_handler) (BindContext (hd_now shop_handler)
      plain_attempt_ctx) shop_completion_request (shop_begun, shop_tracker) = (Inr resp, shop_begun, shop_tracker)"
    using shop_completes [of shop_begun shop_tracker] by auto
  obtain w' where "CompleteNonStream (hd_now shop_handler) shop_tracker shop_completion_request resp shop_begun =
      (Inr (), w')"
    using shop_begun_parts(1-3) by (rule CompleteNonStream_answering)
  with resp have "hx_status (handleNonStreamCompletion shop_handler shop_completion_request shop_tracker ?s) = Some 200"
    using s0(2) by (simp add: handleNonStreamCompletion_def with_tracker_def in_world_def)
  with wr run show ?thesis by (simp add: hx_status_def)
qed


end
