(* ===== verification/JsonFacts.thy ===== *)
theory JsonFacts
  imports Json TextFacts
begin

text \<open>
  Facts about the JSON model: the parser's fuel never decides a result, and a value that is encoded is
  parsed back. The texts of a value must be well-formed UTF-8, since others are replaced when written.
\<close>

section \<open>Fuel\<close>

lemma skip_ws_length: "length (skip_ws s) \<le> length s"
  by (simp add: skip_ws_def length_dropWhile_le)

lemma scan_string_shorter: "scan_string s = Some (raw, r) \<Longrightarrow> length r < length s"
  by (induction s arbitrary: raw r rule: scan_string.induct) (fastforce split: if_splits)+

lemma parse_string_shorter: "parse_string s = Some (t, r) \<Longrightarrow> length r < length s"
  by (auto simp: parse_string_def dest: scan_string_shorter split: option.splits)

lemma take_digits_length: "take_digits s = (ds, r) \<Longrightarrow> length ds + length r = length s"
  unfolding take_digits_def by (metis Pair_inject length_append takeWhile_dropWhile_id)

lemma scan_int_part_shorter: "scan_int_part s = Some (i, r) \<Longrightarrow> length r < length s"
  using take_digits_length [of s]
  by (cases "take_digits s")
    (auto simp: scan_int_part_def Let_def neq_Nil_conv split: if_splits)

lemma scan_fraction_le: "scan_fraction s = Some (f, r) \<Longrightarrow> length r \<le> length s"
  using take_digits_length [of "tl s"]
  by (cases "take_digits (tl s)"; cases s) (auto simp: scan_fraction_def split: if_splits)

lemma scan_exponent_le: "scan_exponent s = Some (e, r) \<Longrightarrow> length r \<le> length s"
proof (cases s)
  case (Cons c u)
  assume scan: "scan_exponent s = Some (e, r)"
  define u' where "u' = (if has_prefix u ''+'' \<or> has_prefix u ''-'' then tl u else u)"
  have "length u' \<le> length u" by (simp add: u'_def)
  moreover obtain ds v where t: "take_digits u' = (ds, v)" by (metis surj_pair)
  ultimately have "length v \<le> length u" using take_digits_length [OF t] by linarith
  moreover have "r = s \<or> r = v"
    using scan t by (auto simp: scan_exponent_def u'_def Cons split: if_splits)
  ultimately show ?thesis using Cons by auto
qed (simp add: scan_exponent_def)

lemma parse_number_shorter: "parse_number s = Some (v, r) \<Longrightarrow> length r < length s"
proof -
  assume p: "parse_number s = Some (v, r)"
  define s1 where "s1 = (if has_prefix s ''-'' then tl s else s)"
  obtain i s2 f s3 e where "scan_int_part s1 = Some (i, s2)" "scan_fraction s2 = Some (f, s3)"
      "scan_exponent s3 = Some (e, r)"
    using p by (auto simp: parse_number_def s1_def Let_def split: if_splits option.splits)
  then have "length r < length s1"
    using scan_int_part_shorter scan_fraction_le scan_exponent_le by fastforce
  also have "length s1 \<le> length s" by (simp add: s1_def)
  finally show ?thesis .
qed

text \<open>A value, a list of items and a list of members each take at least one byte.\<close>

lemma has_prefix_hd: "has_prefix s [c] \<longleftrightarrow> s \<noteq> [] \<and> hd s = c"
  by (cases s) auto

lemma tl_skip_ws_length: "s \<noteq> [] \<Longrightarrow> length (tl (skip_ws (tl s))) < length s"
  using skip_ws_length [of "tl s"] by (cases s) auto

lemma parse_shorter:
  "parse_value n s = Some (v, r) \<Longrightarrow> length r < length s"
  "parse_items n s = Some (vs, r) \<Longrightarrow> length r < length s"
  "parse_members n s = Some (ms, r) \<Longrightarrow> length r < length s"
proof (induction n s and n s and n s arbitrary: v r and vs r and ms r
    rule: parse_value_parse_items_parse_members.induct)
  case (2 n s)
  define t where "t = skip_ws s"
  have len: "length t \<le> length s" by (simp add: t_def skip_ws_length)
  have "length r < length t"
    using 2 tl_skip_ws_length [of t] parse_string_shorter [of "tl t"] parse_number_shorter [of t]
    unfolding parse_value.simps t_def [symmetric] Let_def
    by (cases t) (fastforce simp: has_prefix_hd split: if_splits)+
  with len show ?case by simp
next
  case (4 n s)
  obtain w u where v: "parse_value n s = Some (w, u)" using "4.prems" by (auto split: option.splits)
  have "length (skip_ws u) < length s" using "4.IH"(1) [OF v] skip_ws_length [of u] by linarith
  then show ?case
    using "4.prems" "4.IH"(2) [OF v] v
    by (cases "skip_ws u") (fastforce simp: Let_def split: if_splits)+
next
  case (6 n s)
  define t where "t = skip_ws s"
  obtain k u where k: "has_prefix t [CHR 0x22]" "parse_string (tl t) = Some (k, u)"
    using "6.prems" by (auto simp: Let_def t_def split: if_splits option.splits)
  define u' where "u' = skip_ws u"
  have c: "has_prefix u' '':''" using "6.prems" k by (auto simp: Let_def t_def u'_def split: if_splits)
  obtain v x where v: "parse_value n (tl u') = Some (v, x)"
    using "6.prems" k c by (auto simp: Let_def t_def u'_def split: if_splits option.splits)
  have "length t \<le> length s" "length u < length (tl t)" "length u' \<le> length u" "length x < length (tl u')"
    using "6.IH"(1) [OF t_def _ k(2) _ u'_def _ v] k c parse_string_shorter [OF k(2)]
    by (simp_all add: t_def u'_def skip_ws_length)
  then have x: "length (skip_ws x) < length s" using skip_ws_length [of x] by simp
  show ?case
    using "6.prems" k c v "6.IH"(2) x
    by (cases "skip_ws x") (fastforce simp: Let_def t_def u'_def split: if_splits)+
qed simp_all

text \<open>Twice the length suffices: the parser's result does not depend on more fuel.\<close>

lemma parse_fuel:
  "2 * length s + 1 \<le> n \<Longrightarrow> 2 * length s + 1 \<le> m \<Longrightarrow> parse_value n s = parse_value m s"
  "2 * length s + 2 \<le> n \<Longrightarrow> 2 * length s + 2 \<le> m \<Longrightarrow> parse_items n s = parse_items m s"
  "2 * length s + 2 \<le> n \<Longrightarrow> 2 * length s + 2 \<le> m \<Longrightarrow> parse_members n s = parse_members m s"
proof (induction n s and n s and n s arbitrary: m and m and m
    rule: parse_value_parse_items_parse_members.induct)
  case (2 n s)
  obtain m' where m: "m = Suc m'" using "2.prems" by (cases m) auto
  define t where "t = skip_ws s"
  have "length t \<le> length s" by (simp add: t_def skip_ws_length)
  then have fuel: "t \<noteq> [] \<Longrightarrow> 2 * length (tl t) + 2 \<le> n \<and> 2 * length (tl t) + 2 \<le> m'"
    using "2.prems" m by (cases t) auto
  have items: "parse_items n (tl t) = parse_items m' (tl t)"
    if "t \<noteq> []" "hd t = CHR ''[''" "\<not> has_prefix (skip_ws (tl t)) '']''"
    using "2.IH"(1) [OF t_def] fuel that by simp
  have members: "parse_members n (tl t) = parse_members m' (tl t)"
    if "t \<noteq> []" "hd t = CHR 0x7B" "\<not> has_prefix (skip_ws (tl t)) [CHR 0x7D]"
    using "2.IH"(2) [OF t_def] fuel that by simp
  show ?case
    unfolding m parse_value.simps t_def [symmetric] Let_def
    using items members by (intro if_cong refl arg_cong [where f = "map_option _"]) blast+
next
  case (4 n s)
  obtain m' where m: "m = Suc m'" using "4.prems" by (cases m) auto
  have same: "parse_value n s = parse_value m' s" by (rule "4.IH"(1)) (use "4.prems" m in simp_all)
  have "parse_items n (tl (skip_ws u)) = parse_items m' (tl (skip_ws u))"
    if v: "parse_value n s = Some (w, u)" and p: "has_prefix (skip_ws u) '',''" "\<not> has_prefix (skip_ws u) '']''" for w u
  proof -
    have "length (tl (skip_ws u)) + 2 \<le> length s"
      using parse_shorter(1) [OF v] skip_ws_length [of u] p by (cases "skip_ws u") auto
    then show ?thesis
      by (intro "4.IH"(2) [OF v refl refl]) (use p "4.prems" m in simp_all)
  qed
  then show ?case by (auto simp: m same [symmetric] Let_def split: option.splits)
next
  case (6 n s)
  obtain m' where m: "m = Suc m'" using "6.prems" by (cases m) auto
  define t where "t = skip_ws s"
  have step: "parse_value n (tl u') = parse_value m' (tl u') \<and>
      (\<forall>v x. parse_value n (tl u') = Some (v, x) \<longrightarrow> has_prefix (skip_ws x) '','' \<longrightarrow>
         parse_members n (tl (skip_ws x)) = parse_members m' (tl (skip_ws x)))"
    if p: "has_prefix t [CHR 0x22]" "parse_string (tl t) = Some (k, u)" "u' = skip_ws u" "has_prefix u' '':''"
    for k u u'
  proof -
    have "length t \<le> length s" "length u < length (tl t)" "length u' \<le> length u"
      using p parse_string_shorter [OF p(2)] by (simp_all add: t_def skip_ws_length)
    moreover have "u' \<noteq> []" using p(4) by auto
    then have "length (tl u') + 1 = length u'" by simp
    ultimately have len: "length (tl u') + 2 < length s" by simp
    have same: "parse_value n (tl u') = parse_value m' (tl u')"
      by (rule "6.IH"(1) [OF t_def _ p(2) _ p(3)]) (use p len "6.prems" m in simp_all)
    have "parse_members n (tl (skip_ws x)) = parse_members m' (tl (skip_ws x))"
      if v: "parse_value n (tl u') = Some (v, x)" and c: "has_prefix (skip_ws x) '',''" for v x
    proof -
      have "length (tl (skip_ws x)) + 2 \<le> length s"
        using parse_shorter(1) [OF v] skip_ws_length [of x] c len by (cases "skip_ws x") auto
      moreover have "\<not> has_prefix (skip_ws x) [CHR 0x7D]" using c by (auto simp: has_prefix_hd)
      ultimately show ?thesis
        by (intro "6.IH"(2) [OF t_def _ p(2) _ p(3) _ v]) (use p c "6.prems" m in simp_all)
    qed
    with same show ?thesis by blast
  qed
  show ?case
    using step by (auto simp: m t_def [symmetric] Let_def split: option.splits)
qed simp_all

section \<open>Texts\<close>

text \<open>Well-formed UTF-8, as the encoder's and the decoder's loops test it.\<close>

function valid_utf8 :: "string \<Rightarrow> bool" where
  "valid_utf8 [] \<longleftrightarrow> True"
| "valid_utf8 (c # s) \<longleftrightarrow>
     (if (of_char c :: nat) < 128 then valid_utf8 s
      else rune_width (c # s) \<noteq> 1 \<and> valid_utf8 (drop (rune_width (c # s)) (c # s)))"
  by pat_completeness auto
termination
  by (relation "measure length") (auto simp: rune_width_pos)

declare valid_utf8.simps(2) [simp del] escape.simps(2) [simp del] unescape.simps(2) [simp del]

lemma valid_utf8_ascii: "list_all (\<lambda>c. (of_char c :: nat) < 128) s \<Longrightarrow> valid_utf8 s"
  by (induction s) (simp_all add: valid_utf8.simps)

text \<open>A rune of several bytes is recognized by these bytes alone.\<close>

lemma rune_width_take:
  assumes "rune_width s \<noteq> 1"
  shows "rune_width (take (rune_width s) s @ t) = rune_width s"
    and "list_all (\<lambda>c. 128 \<le> (of_char c :: nat)) (take (rune_width s) s)"
    and "rune_width s \<le> length s"
proof -
  consider (two) a b u where "s = a # b # u" "rune_width s = 2" "byte_in 0xC2 0xDF a" "cont_byte b"
    | (three) a b c u where "s = a # b # c # u" "rune_width s = 3" "\<not> byte_in 0xC2 0xDF a" "byte_in 0xE0 0xEF a"
        "cont_byte b" "cont_byte c" "of_char a = (0xE0::nat) \<longrightarrow> byte_in 0xA0 0xBF b"
        "of_char a = (0xED::nat) \<longrightarrow> byte_in 0x80 0x9F b"
    | (four) a b c d u where "s = a # b # c # d # u" "rune_width s = 4" "\<not> byte_in 0xC2 0xDF a"
        "\<not> byte_in 0xE0 0xEF a" "byte_in 0xF0 0xF4 a" "cont_byte b" "cont_byte c" "cont_byte d"
        "of_char a = (0xF0::nat) \<longrightarrow> byte_in 0x90 0xBF b" "of_char a = (0xF4::nat) \<longrightarrow> byte_in 0x80 0x8F b"
  proof -
    obtain a b u where s: "s = a # b # u"
      using assms by (auto simp: rune_width_def split: list.splits)
    show thesis
    proof (cases "byte_in 0xC2 0xDF a \<and> cont_byte b")
      case True
      with s show thesis by (intro two) (auto simp: rune_width_def split: list.split)
    next
      case not_two: False
      obtain c v where u: "u = c # v" using assms s not_two by (cases u) (auto simp: rune_width_def)
      show thesis
      proof (cases "byte_in 0xE0 0xEF a \<and> cont_byte b \<and> cont_byte c \<and>
          (of_char a = (0xE0::nat) \<longrightarrow> byte_in 0xA0 0xBF b) \<and> (of_char a = (0xED::nat) \<longrightarrow> byte_in 0x80 0x9F b)")
        case True
        with s u not_two show thesis by (intro three) (auto simp: rune_width_def split: list.split)
      next
        case not_three: False
        obtain d w where v: "v = d # w" using assms s u not_two not_three by (cases v) (auto simp: rune_width_def)
        have "byte_in 0xF0 0xF4 a \<and> cont_byte b \<and> cont_byte c \<and> cont_byte d \<and>
            (of_char a = (0xF0::nat) \<longrightarrow> byte_in 0x90 0xBF b) \<and> (of_char a = (0xF4::nat) \<longrightarrow> byte_in 0x80 0x8F b)"
          using assms not_two not_three unfolding s u v rune_width_def list.case by (simp only: if_False refl not_True_eq_False split: if_splits)
        with s u v not_two not_three show thesis
          by (intro four) (auto simp: rune_width_def byte_in_def)
      qed
    qed
  qed
  then have "rune_width (take (rune_width s) s @ t) = rune_width s \<and>
      list_all (\<lambda>c. 128 \<le> (of_char c :: nat)) (take (rune_width s) s) \<and> rune_width s \<le> length s"
  proof cases
    case two
    then show ?thesis by (auto simp: rune_width_def byte_in_def cont_byte_def split: list.split)
  next
    case three
    then show ?thesis by (auto simp: rune_width_def byte_in_def cont_byte_def split: list.split)
  next
    case four
    then show ?thesis by (auto simp: rune_width_def byte_in_def cont_byte_def split: list.split)
  qed
  then show "rune_width (take (rune_width s) s @ t) = rune_width s"
    and "list_all (\<lambda>c. 128 \<le> (of_char c :: nat)) (take (rune_width s) s)"
    and "rune_width s \<le> length s" by blast+
qed

lemma hex_val_digit: "0 \<le> n \<Longrightarrow> n < 16 \<Longrightarrow> hex_val (hex_digit n) = Some n"
  by (auto simp: hex_val_def hex_digit_def Let_def)

lemma unescape_plain:
  "c \<noteq> CHR 0x5C \<Longrightarrow> (of_char c :: nat) < 128 \<Longrightarrow> unescape (c # t) = map_option (Cons c) (unescape t)"
  by (simp add: unescape.simps(2))

lemma unescape_simple:
  "e \<noteq> CHR ''u'' \<Longrightarrow> simple_escape e = Some r \<Longrightarrow>
   unescape (CHR 0x5C # e # t) = map_option ((@) r) (unescape t)"
  by (simp add: unescape.simps(2))

lemma unescape_unicode:
  "unicode_escape u = Some (r, t) \<Longrightarrow> unescape (CHR 0x5C # CHR ''u'' # u) = map_option ((@) r) (unescape t)"
  using unicode_escape_shorter [of u r t] by (simp add: unescape.simps(2))

lemma unicode_escape_byte:
  assumes "0 \<le> n" and "n < 128"
  shows "unicode_escape (''00'' @ [hex_digit (n div 16), hex_digit (n mod 16)] @ t) = Some ([byte n], t)"
  using assms hex_val_digit [of "n div 16"] hex_val_digit [of "n mod 16"]
  by (simp add: unicode_escape_def hex_val_def [of "CHR ''0''"] encode_rune_def Let_def)

lemma byte_of_char: "byte (of_char c) = c"
  by (simp add: byte_def)

lemma escape_char_cases:
  obtains (named) e where "escape_char c = [CHR 0x5C, e]" and "e \<noteq> CHR ''u''" and "simple_escape e = Some [c]"
  | (unicode) "escape_char c = CHR 0x5C # ''u00'' @ [hex_digit (of_char c div 16), hex_digit (of_char c mod 16)]"
  | (plain) "escape_char c = [c]" and "c \<noteq> CHR 0x22" and "c \<noteq> CHR 0x5C" and "32 \<le> (of_char c :: nat)"
proof -
  define names where "names = [CHR 0x22, CHR 0x5C, CHR 0x08, CHR 0x0C, CHR 0x0A, CHR 0x0D, CHR 0x09]"
  consider "c \<in> set names"
    | "c \<notin> set names" "(of_char c :: nat) < 32 \<or> c = CHR ''<'' \<or> c = CHR ''>'' \<or> c = CHR ''&''"
    | "c \<notin> set names" "\<not> ((of_char c :: nat) < 32 \<or> c = CHR ''<'' \<or> c = CHR ''>'' \<or> c = CHR ''&'')"
    by blast
  then show thesis
  proof cases
    case 1
    then have "\<exists>e. escape_char c = [CHR 0x5C, e] \<and> e \<noteq> CHR ''u'' \<and> simple_escape e = Some [c]"
      by (auto simp: names_def escape_char_def simple_escape_def)
    then show thesis using named by blast
  next
    case 2
    then have "escape_char c =
        CHR 0x5C # ''u00'' @ [hex_digit (of_char c div 16), hex_digit (of_char c mod 16)]"
      unfolding names_def escape_char_def
      by (simp only: list.set insert_iff empty_iff if_False if_True de_Morgan_disj simp_thms)
    then show thesis by (rule unicode)
  next
    case 3
    then have "escape_char c = [c]" "c \<noteq> CHR 0x22" "c \<noteq> CHR 0x5C"
      by (simp_all add: names_def escape_char_def)
    with 3 show thesis by (intro plain) simp_all
  qed
qed

lemma unescape_escape_char:
  assumes "(of_char c :: nat) < 128"
  shows "unescape (escape_char c @ t) = map_option (Cons c) (unescape t)"
proof (cases c rule: escape_char_cases)
  case (named e)
  from unescape_simple [OF named(2,3), of t] show ?thesis
    by (cases "unescape t") (simp_all add: named(1))
next
  case unicode
  have "(of_char c :: int) = int (of_char c)" by (simp only: of_nat_of_char)
  then have "0 \<le> (of_char c :: int)" "(of_char c :: int) < 128" using assms by linarith+
  from unescape_unicode [OF unicode_escape_byte [OF this, of t]] show ?thesis
    by (cases "unescape t") (simp_all add: byte_of_char unicode)
next
  case plain
  then show ?thesis using assms by (simp add: unescape_plain)
qed

text \<open>A rune of several bytes is written as it is, or as an escape that stands for it.\<close>

lemma unescape_rune:
  assumes "rune_width (c # s) \<noteq> 1"
  defines "r \<equiv> take (rune_width (c # s)) (c # s)"
  shows "unescape (r @ t) = map_option ((@) r) (unescape t)"
proof -
  define w where "w = rune_width (c # s)"
  have w: "w \<noteq> 1" "rune_width (r @ t) = w" "length r = w"
    using assms rune_width_take(1) [of "c # s" t] rune_width_take(3) [of "c # s"]
    by (simp_all add: w_def)
  moreover obtain r' where r: "r = c # r'"
    using rune_width_pos [of "c # s"] unfolding r_def by (cases "rune_width (c # s)") auto
  moreover have "128 \<le> (of_char c :: nat)"
    using rune_width_take(2) [OF assms(1)] r by (simp add: r_def)
  moreover have "c \<noteq> CHR 0x5C" using calculation by auto
  moreover have "take w (c # r' @ t) = r" "drop w (c # r' @ t) = t"
    using w(3) r by auto
  ultimately show ?thesis by (simp add: unescape.simps(2))
qed

lemma unescape_u2028:
  "unescape (CHR 0x5C # ''u2028'' @ t) = map_option ((@) [CHR 0xE2, CHR 0x80, CHR 0xA8]) (unescape t)"
  "unescape (CHR 0x5C # ''u2029'' @ t) = map_option ((@) [CHR 0xE2, CHR 0x80, CHR 0xA9]) (unescape t)"
proof -
  have "unicode_escape (''2028'' @ t) = Some ([CHR 0xE2, CHR 0x80, CHR 0xA8], t)"
    and "unicode_escape (''2029'' @ t) = Some ([CHR 0xE2, CHR 0x80, CHR 0xA9], t)"
    by (simp_all add: unicode_escape_def hex_val_def encode_rune_def byte_def Let_def char_of_def)
  from this [THEN unescape_unicode]
  show "unescape (CHR 0x5C # ''u2028'' @ t) = map_option ((@) [CHR 0xE2, CHR 0x80, CHR 0xA8]) (unescape t)"
    and "unescape (CHR 0x5C # ''u2029'' @ t) = map_option ((@) [CHR 0xE2, CHR 0x80, CHR 0xA9]) (unescape t)"
    by simp_all
qed

lemma has_prefix_rune3:
  assumes "has_prefix (c # s) [CHR 0xE2, CHR 0x80, d]" and "rune_width (c # s) \<noteq> 1"
  shows "take (rune_width (c # s)) (c # s) = [CHR 0xE2, CHR 0x80, d]"
proof -
  obtain u where s: "c = CHR 0xE2" "s = CHR 0x80 # d # u" using assms(1) by (cases s; cases "tl s") auto
  with assms(2) have "rune_width (c # s) = 3"
    by (auto simp: rune_width_def byte_in_def split: list.splits if_splits)
  with s show ?thesis by simp
qed

lemma unescape_escape: "valid_utf8 s \<Longrightarrow> unescape (escape s) = Some s"
proof (induction s rule: escape.induct)
  case (2 c s)
  show ?case
  proof (cases "(of_char c :: nat) < 128")
    case True
    with 2 show ?thesis by (simp add: escape.simps(2) valid_utf8.simps(2) unescape_escape_char)
  next
    case False
    define w where "w = rune_width (c # s)"
    define r where "r = take w (c # s)"
    have w: "w \<noteq> 1" and v: "valid_utf8 (drop w (c # s))"
      using 2 False by (simp_all add: valid_utf8.simps(2) w_def)
    have split: "r @ drop w (c # s) = c # s" by (simp add: r_def)
    have IH: "unescape (escape (drop w (c # s))) = Some (drop w (c # s))"
      using 2 False w v unfolding w_def by blast
    have "\<exists>p. escape (c # s) = p @ escape (drop w (c # s)) \<and>
        (\<forall>t. unescape (p @ t) = map_option ((@) r) (unescape t))"
    proof -
      consider (a8) "has_prefix (c # s) [CHR 0xE2, CHR 0x80, CHR 0xA8]"
        | (a9) "has_prefix (c # s) [CHR 0xE2, CHR 0x80, CHR 0xA9]"
            "\<not> has_prefix (c # s) [CHR 0xE2, CHR 0x80, CHR 0xA8]"
        | (plain) "\<not> has_prefix (c # s) [CHR 0xE2, CHR 0x80, CHR 0xA8]"
            "\<not> has_prefix (c # s) [CHR 0xE2, CHR 0x80, CHR 0xA9]" by blast
      then show ?thesis
      proof cases
        case a8
        then have "r = [CHR 0xE2, CHR 0x80, CHR 0xA8]" using has_prefix_rune3 [OF a8] w by (simp add: r_def w_def)
        with a8 False w show ?thesis
          by (intro exI [of _ "CHR 0x5C # ''u2028''"]) (use unescape_u2028 in \<open>simp add: escape.simps(2) w_def\<close>)
      next
        case a9
        then have "r = [CHR 0xE2, CHR 0x80, CHR 0xA9]" using has_prefix_rune3 [OF a9(1)] w by (simp add: r_def w_def)
        with a9 False w show ?thesis
          by (intro exI [of _ "CHR 0x5C # ''u2029''"]) (use unescape_u2028 in \<open>simp add: escape.simps(2) w_def\<close>)
      next
        case plain
        have "escape (c # s) = r @ escape (drop w (c # s))"
          using plain False w unfolding escape.simps(2) w_def r_def by (simp only: if_False if_True)
        then show ?thesis using unescape_rune [of c s] w unfolding r_def w_def by blast
      qed
    qed
    with IH split show ?thesis by auto
  qed
qed simp

text \<open>An escaped text is scanned whole: it has no quote that is not escaped, and no control byte.\<close>

definition scanned :: "string \<Rightarrow> bool" where
  "scanned p \<longleftrightarrow> (\<forall>s. scan_string (p @ s) = map_option (\<lambda>(r, t). (p @ r, t)) (scan_string s))"

lemma scanned_Nil: "scanned []"
  by (simp add: scanned_def option.map_ident case_prod_unfold)

lemma scanned_append: "scanned p \<Longrightarrow> scanned q \<Longrightarrow> scanned (p @ q)"
  by (simp add: scanned_def option.map_comp comp_def case_prod_unfold)

lemma scanned_escape: "scanned [CHR 0x5C, d]"
  by (simp add: scanned_def)

lemma scanned_plain:
  assumes "c \<noteq> CHR 0x22" and "c \<noteq> CHR 0x5C" and "32 \<le> (of_char c :: nat)"
  shows "scanned [c]"
  unfolding scanned_def
proof
  fix s show "scan_string ([c] @ s) = map_option (\<lambda>(r, t). ([c] @ r, t)) (scan_string s)"
    using assms by (cases s) simp_all
qed

lemma scanned_plains:
  "list_all (\<lambda>c. c \<noteq> CHR 0x22 \<and> c \<noteq> CHR 0x5C \<and> 32 \<le> (of_char c :: nat)) p \<Longrightarrow> scanned p"
proof (induction p)
  case (Cons c p)
  then show ?case using scanned_append [OF scanned_plain, of c p] by simp
qed (rule scanned_Nil)

lemma hex_digit_plain: "0 \<le> n \<Longrightarrow> n < 16 \<Longrightarrow>
  hex_digit n \<noteq> CHR 0x22 \<and> hex_digit n \<noteq> CHR 0x5C \<and> 32 \<le> (of_char (hex_digit n) :: nat)"
proof -
  assume n: "0 \<le> n" "n < 16"
  then have "(of_char (hex_digit n) :: int) \<in> {48..57} \<union> {97..102}"
    by (auto simp: hex_digit_def)
  moreover have "(of_char (hex_digit n) :: int) = int (of_char (hex_digit n))" by (simp only: of_nat_of_char)
  ultimately show ?thesis by auto
qed

lemma scanned_escape_char:
  assumes "(of_char c :: nat) < 128"
  shows "scanned (escape_char c)"
proof (cases c rule: escape_char_cases)
  case unicode
  have "(of_char c :: int) = int (of_char c)" by (simp only: of_nat_of_char)
  then have "scanned (''00'' @ [hex_digit (of_char c div 16), hex_digit (of_char c mod 16)])"
    using hex_digit_plain [of "of_char c div 16"] hex_digit_plain [of "of_char c mod 16"] assms
    by (intro scanned_plains) simp
  from scanned_append [OF scanned_escape [of "CHR ''u''"] this] show ?thesis by (simp add: unicode)
qed (simp_all add: scanned_escape scanned_plain)

lemma scanned_escaped: "scanned (escape s)"
proof (induction s rule: escape.induct)
  case (2 c s)
  show ?case
  proof (cases "(of_char c :: nat) < 128")
    case True
    with 2 show ?thesis by (simp add: escape.simps(2) scanned_append scanned_escape_char)
  next
    case False
    define w where "w = rune_width (c # s)"
    have rest: "scanned (escape (drop w (c # s)))" if "w \<noteq> 1"
      using 2 False that unfolding w_def by blast
    have rune: "scanned (take w (c # s))" if "w \<noteq> 1"
      using rune_width_take(2) [of "c # s"] that unfolding w_def
      by (intro scanned_plains) (auto simp: list_all_iff)
    have unicode: "scanned ([CHR 0x5C, CHR ''u''] @ h @ p)"
      if "list_all (\<lambda>c. c \<noteq> CHR 0x22 \<and> c \<noteq> CHR 0x5C \<and> 32 \<le> (of_char c :: nat)) h" "scanned p" for h p
      by (intro scanned_append scanned_escape scanned_plains that)
    show ?thesis
      using False 2 rest rune unicode [of "''fffd''"] unicode [of "''2028''"] unicode [of "''2029''"]
      by (auto simp: escape.simps(2) w_def [symmetric] intro: scanned_append)
  qed
qed (simp add: scanned_Nil)

lemma parse_string_quoted:
  assumes "valid_utf8 s"
  shows "parse_string (escape s @ CHR 0x22 # r) = Some (s, r)"
proof -
  have "scan_string (CHR 0x22 # r) = Some ([], r)" by (cases r) simp_all
  then have "scan_string (escape s @ CHR 0x22 # r) = Some (escape s, r)"
    using scanned_escaped [of s] by (simp add: scanned_def)
  then show ?thesis by (simp add: parse_string_def unescape_escape [OF assms])
qed

section \<open>Numbers\<close>

text \<open>What may follow a value: nothing that would lengthen a number.\<close>

definition ends_value :: "string \<Rightarrow> bool" where
  "ends_value r \<longleftrightarrow> (case r of [] \<Rightarrow> True | c # _ \<Rightarrow> \<not> is_digit c \<and> c \<notin> {CHR ''.'', CHR ''e'', CHR ''E''})"

lemma digits_of_zero_head: "0 \<le> n \<Longrightarrow> hd (digits_of n) = CHR ''0'' \<Longrightarrow> n = 0"
proof (induction n rule: digits_of.induct)
  case (1 n)
  show ?case
  proof (cases "n < 10")
    case True
    then have "digit_val (digit_char n) = 0"
      using 1 by (simp add: digits_of.simps [of n] digit_val_def)
    then show ?thesis using True 1 by (simp del: digit_val_def)
  next
    case False
    then have "hd (digits_of (n div 10)) = CHR ''0''"
      using 1 by (simp add: digits_of.simps [of n] hd_append)
    then have "n div 10 = 0" using 1 False by simp
    then show ?thesis using 1 False by linarith
  qed
qed

lemma take_digits_of: "0 \<le> n \<Longrightarrow> ends_value r \<Longrightarrow> take_digits (digits_of n @ r) = (digits_of n, r)"
proof -
  assume n: "0 \<le> n" and r: "ends_value r"
  have "takeWhile is_digit r = [] \<and> dropWhile is_digit r = r"
    using r by (cases r) (auto simp: ends_value_def)
  then show ?thesis
    using digits_of_all [OF n] unfolding take_digits_def
    by (simp add: takeWhile_append2 dropWhile_append2 list_all_iff)
qed

lemma scan_int_part_digits:
  assumes "0 \<le> n" and "ends_value r"
  shows "scan_int_part (digits_of n @ r) = Some (digits_of n, r)"
proof (cases "hd (digits_of n) = CHR ''0''")
  case True
  then have "digits_of n = ''0''"
    using digits_of_zero_head [OF assms(1)] by (simp add: digits_of.simps [of 0] digit_char_def)
  then show ?thesis
    using take_digits_of [OF assms] by (simp add: scan_int_part_def)
next
  case False
  then show ?thesis by (simp add: scan_int_part_def take_digits_of [OF assms])
qed

lemma parse_number_itoa:
  assumes "ends_value r"
  shows "parse_number (itoa i @ r) = Some (num i, r)"
proof -
  have rest: "scan_fraction r = Some ([], r)" "scan_exponent r = Some ([], r)"
    using assms by (cases r; simp add: ends_value_def scan_fraction_def scan_exponent_def)+
  have head: "\<not> has_prefix (digits_of n @ r) ''-''" if "0 \<le> n" for n
    using digits_of_head [OF that] by (cases "digits_of n") auto
  show ?thesis
  proof (cases "i < 0")
    case True
    then show ?thesis
      using scan_int_part_digits [of "- i" r] assms rest by (simp add: parse_number_def itoa_def num_def)
  next
    case False
    then show ?thesis
      using scan_int_part_digits [of i r] assms rest head [of i]
      by (simp add: parse_number_def itoa_def num_def)
  qed
qed

section \<open>Encoding and parsing\<close>

text \<open>The values that are written as they are: well-formed texts, and numbers as \<open>num\<close> writes them.\<close>

fun wf_json :: "json \<Rightarrow> bool" where
  "wf_json (JNum lit) \<longleftrightarrow> (case parse_signed lit of None \<Rightarrow> False | Some i \<Rightarrow> lit = itoa i)"
| "wf_json (JStr s) \<longleftrightarrow> valid_utf8 s"
| "wf_json (JArr vs) \<longleftrightarrow> list_all wf_json vs"
| "wf_json (JObj ms) \<longleftrightarrow> list_all (\<lambda>(k, v). valid_utf8 k \<and> wf_json v) ms"
| "wf_json _ \<longleftrightarrow> True"

lemma wf_num [simp]: "wf_json (num i)"
  by (simp add: num_def)

lemma wf_numE: "wf_json (JNum lit) \<Longrightarrow> \<exists>i. JNum lit = num i"
  by (auto simp: num_def split: option.splits)

lemma itoa_head: "\<exists>c t. itoa i = c # t \<and> (c = CHR ''-'' \<or> is_digit c)"
  using in_itoa [of _ i] by (cases "itoa i") (auto simp: itoa_def split: if_splits)

text \<open>A value begins with a byte that is no white space and closes nothing.\<close>

definition value_head :: "string \<Rightarrow> bool" where
  "value_head s \<longleftrightarrow> (case s of [] \<Rightarrow> False | c # _ \<Rightarrow> \<not> is_ws c \<and> c \<noteq> CHR '']'' \<and> c \<noteq> CHR 0x7D)"

lemma encode_head: "wf_json v \<Longrightarrow> value_head (encode v @ r)"
proof (cases v)
  case (JNum lit)
  assume "wf_json v"
  then obtain i where "encode v = itoa i" using wf_numE [of lit] by (auto simp: JNum num_def)
  then show ?thesis using itoa_head [of i] by (auto simp: value_head_def is_ws_def is_digit_def)
qed (auto simp: value_head_def is_ws_def quoted_def)

lemma value_head_skip: "value_head s \<Longrightarrow> skip_ws s = s"
  by (auto simp: value_head_def skip_ws_def split: list.splits)

lemma value_head_opens: "value_head s \<Longrightarrow> \<not> has_prefix s '']'' \<and> \<not> has_prefix s [CHR 0x7D] \<and> s \<noteq> []"
  by (auto simp: value_head_def split: list.splits)

definition parses :: "json \<Rightarrow> bool" where
  "parses v \<longleftrightarrow> (\<forall>r. ends_value r \<longrightarrow> (\<exists>k. \<forall>n \<ge> k. parse_value n (encode v @ r) = Some (v, r)))"

lemma parsesD:
  "parses v \<Longrightarrow> ends_value r \<Longrightarrow> \<exists>k. \<forall>n \<ge> k. parse_value n (encode v @ r) = Some (v, r)"
  by (simp add: parses_def)

lemma join_Cons: "join sep (w # ws) = w @ (if ws = [] then [] else sep @ join sep ws)"
  by (cases ws) simp_all

lemma parse_items_encode:
  assumes "vs \<noteq> []" and "\<forall>v \<in> set vs. parses v"
  shows "\<exists>k. \<forall>n \<ge> k. parse_items n (join '','' (map encode vs) @ CHR '']'' # r) = Some (vs, r)"
  using assms
proof (induction vs)
  case (Cons v vs)
  show ?case
  proof (cases "vs = []")
    case True
    have "ends_value (CHR '']'' # r)" by (simp add: ends_value_def is_digit_def)
    then obtain k where k: "\<And>n. k \<le> n \<Longrightarrow> parse_value n (encode v @ CHR '']'' # r) = Some (v, CHR '']'' # r)"
      using Cons.prems parsesD [of v] by auto blast
    have "parse_items n (join '','' (map encode (v # vs)) @ CHR '']'' # r) = Some (v # vs, r)"
      if "Suc k \<le> n" for n
      using that k [of "n - 1"] True by (cases n) (simp_all add: skip_ws_def is_ws_def)
    then show ?thesis by blast
  next
    case False
    let ?rest = "join '','' (map encode vs) @ CHR '']'' # r"
    have "ends_value (CHR '','' # ?rest)" by (simp add: ends_value_def is_digit_def)
    then obtain k where k: "\<And>n. k \<le> n \<Longrightarrow> parse_value n (encode v @ CHR '','' # ?rest) = Some (v, CHR '','' # ?rest)"
      using Cons.prems parsesD [of v] by auto blast
    obtain k' where k': "\<And>n. k' \<le> n \<Longrightarrow> parse_items n ?rest = Some (vs, r)"
      using Cons False by auto
    have "parse_items n (join '','' (map encode (v # vs)) @ CHR '']'' # r) = Some (v # vs, r)"
      if "Suc (max k k') \<le> n" for n
      using that k [of "n - 1"] k' [of "n - 1"] False
      by (cases n) (simp_all add: join_Cons skip_ws_def is_ws_def)
    then show ?thesis by blast
  qed
qed simp

lemma parse_members_encode:
  assumes "ms \<noteq> []" and "\<forall>(k, v) \<in> set ms. valid_utf8 k \<and> parses v"
  shows "\<exists>k. \<forall>n \<ge> k. parse_members n
    (join '','' (map (\<lambda>(k, v). quoted k @ '':'' @ encode v) ms) @ CHR 0x7D # r) = Some (ms, r)"
  using assms
proof (induction ms)
  case (Cons m ms)
  obtain key v where m: "m = (key, v)" by (metis surj_pair)
  have key: "valid_utf8 key" and v: "parses v" using Cons.prems by (auto simp: m)
  let ?rest = "join '','' (map (\<lambda>(k, v). quoted k @ '':'' @ encode v) ms) @ CHR 0x7D # r"
  define tail where "tail = (if ms = [] then CHR 0x7D # r else CHR '','' # ?rest)"
  have shape: "join '','' (map (\<lambda>(k, v). quoted k @ '':'' @ encode v) (m # ms)) @ CHR 0x7D # r =
      CHR 0x22 # escape key @ CHR 0x22 # CHR '':'' # encode v @ tail"
    by (simp add: m tail_def join_Cons quoted_def)
  have "ends_value tail" by (simp add: tail_def ends_value_def is_digit_def)
  then obtain k where k: "\<And>n. k \<le> n \<Longrightarrow> parse_value n (encode v @ tail) = Some (v, tail)"
    using parsesD [OF v] by blast
  obtain k' where k': "\<And>n. k' \<le> n \<Longrightarrow> ms \<noteq> [] \<Longrightarrow> parse_members n ?rest = Some (ms, r)"
    using Cons by (cases "ms = []") auto
  have "parse_members n (CHR 0x22 # escape key @ CHR 0x22 # CHR '':'' # encode v @ tail) = Some (m # ms, r)"
    if "Suc (max k k') \<le> n" for n
    using that k [of "n - 1"] k' [of "n - 1"] parse_string_quoted [OF key]
    by (cases n) (auto simp: skip_ws_def is_ws_def m tail_def Let_def)
  then show ?case unfolding shape by blast
qed simp

lemma parse_value_at:
  "value_head (c # t) \<Longrightarrow> parse_value (Suc n) (c # t) =
     (if c = CHR 0x22 then map_option (\<lambda>(t, r). (JStr t, r)) (parse_string t)
      else if c = CHR ''['' then
        (if has_prefix (skip_ws t) '']'' then Some (JArr [], tl (skip_ws t))
         else map_option (\<lambda>(vs, r). (JArr vs, r)) (parse_items n t))
      else if c = CHR 0x7B then
        (if has_prefix (skip_ws t) [CHR 0x7D] then Some (JObj [], tl (skip_ws t))
         else map_option (\<lambda>(ms, r). (JObj ms, r)) (parse_members n t))
      else if has_prefix (c # t) ''true'' then Some (JBool True, drop 4 (c # t))
      else if has_prefix (c # t) ''false'' then Some (JBool False, drop 5 (c # t))
      else if has_prefix (c # t) ''null'' then Some (JNull, drop 4 (c # t))
      else parse_number (c # t))"
  by (simp add: value_head_skip Let_def)

lemma parsesI:
  assumes "\<And>r n. ends_value r \<Longrightarrow> parse_value (Suc n) (encode v @ r) = Some (v, r)"
  shows "parses v"
  unfolding parses_def
proof (intro allI impI)
  fix r assume "ends_value r"
  with assms have "parse_value n (encode v @ r) = Some (v, r)" if "1 \<le> n" for n
    using that by (cases n) auto
  then show "\<exists>k. \<forall>n \<ge> k. parse_value n (encode v @ r) = Some (v, r)" by blast
qed

lemma parses_encode: "wf_json v \<Longrightarrow> parses v"
proof (induction v rule: wf_json.induct)
  case (1 lit)
  then obtain i where v: "JNum lit = num i" using wf_numE by blast
  show ?case
  proof (rule parsesI)
    fix r n assume r: "ends_value r"
    obtain c t where i: "itoa i = c # t" and c: "c = CHR ''-'' \<or> is_digit c" using itoa_head by blast
    have "value_head (c # t @ r)" using c by (auto simp: value_head_def is_ws_def is_digit_def)
    moreover have "c \<noteq> CHR 0x22" "c \<noteq> CHR ''[''" "c \<noteq> CHR 0x7B" "c \<noteq> CHR ''t''" "c \<noteq> CHR ''f''" "c \<noteq> CHR ''n''"
      using c by (auto simp: is_digit_def)
    ultimately have "parse_value (Suc n) (c # t @ r) = parse_number (c # t @ r)"
      by (subst parse_value_at) simp_all
    also have "\<dots> = Some (num i, r)" using parse_number_itoa [OF r, of i] by (simp add: i)
    finally show "parse_value (Suc n) (encode (JNum lit) @ r) = Some (JNum lit, r)"
      unfolding v by (simp add: num_def i)
  qed
next
  case (2 s)
  show ?case
  proof (rule parsesI)
    fix r n
    have "value_head (CHR 0x22 # escape s @ CHR 0x22 # r)" by (simp add: value_head_def is_ws_def)
    from parse_value_at [OF this, of n] parse_string_quoted [of s r] 2
    show "parse_value (Suc n) (encode (JStr s) @ r) = Some (JStr s, r)" by (simp add: quoted_def)
  qed
next
  case (3 vs)
  have each: "\<forall>v \<in> set vs. parses v" using 3 by (auto simp: list_all_iff)
  show ?case
  proof (cases "vs = []")
    case True
    show ?thesis by (rule parsesI) (simp add: True parse_value_at value_head_def is_ws_def skip_ws_def)
  next
    case False
    show ?thesis unfolding parses_def
    proof (intro allI impI)
      fix r
      let ?t = "join '','' (map encode vs) @ CHR '']'' # r"
      obtain k where k: "\<And>n. k \<le> n \<Longrightarrow> parse_items n ?t = Some (vs, r)"
        using parse_items_encode [OF False each] by blast
      obtain w ws where vs: "vs = w # ws" using False by (cases vs) auto
      have "value_head ?t" using 3 encode_head [of w] by (auto simp: vs join_Cons)
      then have t: "\<not> has_prefix (skip_ws ?t) '']''" by (simp only: value_head_skip value_head_opens not_False_eq_True)
      have "parse_value n (encode (JArr vs) @ r) = Some (JArr vs, r)" if "Suc k \<le> n" for n
        using that k [of "n - 1"] t parse_value_at [of "CHR ''[''" ?t "n - 1"]
        by (cases n) (simp_all add: value_head_def is_ws_def)
      then show "\<exists>k. \<forall>n \<ge> k. parse_value n (encode (JArr vs) @ r) = Some (JArr vs, r)" by blast
    qed
  qed
next
  case (4 ms)
  have each: "\<forall>(k, v) \<in> set ms. valid_utf8 k \<and> parses v" using 4 by (auto simp: list_all_iff)
  show ?case
  proof (cases "ms = []")
    case True
    show ?thesis by (rule parsesI) (simp add: True parse_value_at value_head_def is_ws_def skip_ws_def)
  next
    case False
    show ?thesis unfolding parses_def
    proof (intro allI impI)
      fix r
      let ?t = "join '','' (map (\<lambda>(k, v). quoted k @ '':'' @ encode v) ms) @ CHR 0x7D # r"
      obtain k where k: "\<And>n. k \<le> n \<Longrightarrow> parse_members n ?t = Some (ms, r)"
        using parse_members_encode [OF False each] by blast
      obtain m ms' where ms: "ms = m # ms'" using False by (cases ms) auto
      have "hd ?t = CHR 0x22" "?t \<noteq> []" by (simp_all add: ms join_Cons quoted_def case_prod_beta)
      then have t: "\<not> has_prefix (skip_ws ?t) [CHR 0x7D]"
        by (cases ?t) (simp_all add: skip_ws_def is_ws_def)
      have "parse_value n (encode (JObj ms) @ r) = Some (JObj ms, r)" if "Suc k \<le> n" for n
        using that k [of "n - 1"] t parse_value_at [of "CHR 0x7B" ?t "n - 1"]
        by (cases n) (simp_all add: value_head_def is_ws_def)
      then show "\<exists>k. \<forall>n \<ge> k. parse_value n (encode (JObj ms) @ r) = Some (JObj ms, r)" by blast
    qed
  qed
next
  case "5_1"
  show ?case by (rule parsesI) (simp add: skip_ws_def is_ws_def)
next
  case "5_2"
  show ?case by (rule parsesI) (simp add: skip_ws_def is_ws_def)
qed

text \<open>What is encoded is decoded to the same value.\<close>

lemma parse_encoded:
  assumes "wf_json v" and "2 * length (encode v @ r) + 1 \<le> n" and "ends_value r"
  shows "parse_value n (encode v @ r) = Some (v, r)"
proof -
  obtain k where k: "\<And>n. k \<le> n \<Longrightarrow> parse_value n (encode v @ r) = Some (v, r)"
    using parsesD [OF parses_encode [OF assms(1)] assms(3)] by blast
  have "parse_value n (encode v @ r) = parse_value (max k n) (encode v @ r)"
    using assms(2) by (intro parse_fuel(1)) simp_all
  also have "\<dots> = Some (v, r)" by (rule k) simp
  finally show ?thesis .
qed

lemma unmarshal_encode: "wf_json v \<Longrightarrow> unmarshal (encode v) = Inr v"
  using parse_encoded [of v "[]" "2 * length (encode v) + 2"]
  by (simp add: unmarshal_def ends_value_def skip_ws_def)

lemma decode_stream_encode:
  assumes "wf_json v" and "ends_value r"
  shows "decode_stream (encode v @ r) = Inr v"
proof -
  have "parse_value (2 * length (encode v @ r) + 2) (encode v @ r) = Some (v, r)"
    using assms by (intro parse_encoded) simp_all
  moreover have "skip_ws (encode v @ r) \<noteq> []"
    using encode_head [OF assms(1), of r] by (simp only: value_head_skip value_head_opens not_False_eq_True)
  ultimately show ?thesis by (simp only: decode_stream_def if_False option.case prod.case)
qed

text \<open>An encoded value is on one line.\<close>

lemma hex_digit_no_newline: "0 \<le> n \<Longrightarrow> n < 16 \<Longrightarrow> hex_digit n \<noteq> CHR 0x0A"
  using hex_digit_plain [of n] by auto

lemma escape_char_no_newline:
  assumes "(of_char c :: nat) < 128"
  shows "CHR 0x0A \<notin> set (escape_char c)"
proof (cases c rule: escape_char_cases)
  case (named e)
  then have "e \<noteq> CHR 0x0A" by (auto simp: simple_escape_def)
  with named show ?thesis by simp
next
  case unicode
  have "(of_char c :: int) = int (of_char c)" by (simp only: of_nat_of_char)
  then have "0 \<le> (of_char c div 16 :: int)" "(of_char c div 16 :: int) < 16" using assms by simp_all
  then show ?thesis
    using hex_digit_no_newline [of "of_char c div 16"] hex_digit_no_newline [of "of_char c mod 16"]
    by (auto simp: unicode)
qed auto

lemma escape_no_newline: "CHR 0x0A \<notin> set (escape s)"
proof (induction s rule: escape.induct)
  case (2 c s)
  have "CHR 0x0A \<notin> set (take (rune_width (c # s)) (c # s))" if "rune_width (c # s) \<noteq> 1"
    using rune_width_take(2) [OF that] by (auto simp: list_all_iff)
  with 2 show ?case by (auto simp: escape.simps(2) escape_char_no_newline)
qed simp

lemma join_set: "set (join sep ws) \<subseteq> set sep \<union> (\<Union>w \<in> set ws. set w)"
  by (induction sep ws rule: join.induct) auto

lemma encode_no_newline: "wf_json v \<Longrightarrow> CHR 0x0A \<notin> set (encode v)"
proof (induction v rule: wf_json.induct)
  case (1 lit)
  then obtain i where "lit = itoa i" using wf_numE [of lit] by (auto simp: num_def)
  then show ?case using in_itoa [of "CHR 0x0A" i] by (auto simp: is_digit_def)
next
  case (2 s)
  then show ?case by (simp add: quoted_def escape_no_newline)
next
  case (3 vs)
  then show ?case using join_set [of "'',''" "map encode vs"] by (fastforce simp: list_all_iff)
next
  case (4 ms)
  then have "CHR 0x0A \<notin> set (quoted k @ '':'' @ encode v)" if "(k, v) \<in> set ms" for k v
    using that by (fastforce simp: list_all_iff quoted_def escape_no_newline)
  then show ?case
    using join_set [of "'',''" "map (\<lambda>(k, v). quoted k @ '':'' @ encode v) ms"] by fastforce
qed simp_all

end
