(* ===== verification/ChainFacts.thy ===== *)
theory ChainFacts
  imports ApiFacts OpenAI JsonFacts
begin

text \<open>
  The two JSON sides of the gateway against each other: what its OpenAI adapter sends is read by its
  own handler, and what its handler answers is read by the adapter, as when one gateway is the upstream
  of another.
\<close>

lemma ascii_valid [simp]: "(of_char c :: nat) < 128 \<Longrightarrow> valid_utf8 (c # s) \<longleftrightarrow> valid_utf8 s"
  by (simp add: valid_utf8.simps)

lemma field_values_simps [simp]:
  "field_values name [] = []"
  "field_values name ((k, v) # ms) =
     (if equal_fold k name then v # field_values name ms else field_values name ms)"
  by (simp_all add: field_values_def)

section \<open>Requests\<close>

definition valid_message :: "chat_message \<Rightarrow> bool" where
  "valid_message m \<longleftrightarrow> valid_utf8 (msg_role m) \<and> valid_utf8 (msg_content m)"

definition from_provider_message :: "chat_message \<Rightarrow> cmessage" where
  "from_provider_message m = \<lparr>cm_role = msg_role m, cm_content = msg_content m\<rparr>"

lemma wf_request_json:
  assumes "valid_utf8 (oaq_model q)" and "list_all valid_message (oaq_messages q)"
  shows "wf_json (oa_request_json q)"
  using assms
  by (auto simp: oa_request_json_def message_json_def valid_message_def list_all_iff)

lemma dec_cmessage_json: "dec_cmessage [(''role'', JStr r), (''content'', JStr c)] = Inr \<lparr>cm_role = r, cm_content = c\<rparr>"
  by (simp add: dec_cmessage_def string_field_def read_field_def equal_fold_def lower_char_def)

lemma decode_items_map:
  assumes "\<And>x. x \<in> set xs \<Longrightarrow> \<exists>ms. f x = JObj ms \<and> dec ms = Inr (g x)"
  shows "decode_items name dec (map f xs) = Inr (map g xs)"
  using assms by (induction xs) force+

lemma decode_request_json:
  "decode_struct dec_completion_request (oa_request_json q) =
     Inr \<lparr>cr_model = oaq_model q, cr_messages = map from_provider_message (oaq_messages q),
          cr_stream = oaq_stream q\<rparr>"
proof -
  have "decode_items ''messages'' dec_cmessage (map message_json (oaq_messages q)) =
      Inr (map from_provider_message (oaq_messages q))"
    by (rule decode_items_map) (simp add: message_json_def dec_cmessage_json from_provider_message_def)
  then show ?thesis
    by (simp add: oa_request_json_def decode_struct_def dec_completion_request_def string_field_def
        list_field_def bool_field_def read_field_def equal_fold_def lower_char_def)
qed

lemma handler_reads_request:
  assumes "valid_utf8 (oaq_model q)" and "list_all valid_message (oaq_messages q)"
  shows "and_then (decode_stream (encode (oa_request_json q))) (decode_struct dec_completion_request) =
    Inr \<lparr>cr_model = oaq_model q, cr_messages = map from_provider_message (oaq_messages q),
         cr_stream = oaq_stream q\<rparr>"
  using decode_stream_encode [OF wf_request_json [OF assms], of "[]"] decode_request_json
  by (simp add: ends_value_def)

section \<open>Answers\<close>

text \<open>A number of an answer is read as a machine integer.\<close>

definition valid_choice :: "chat_choice \<Rightarrow> bool" where
  "valid_choice c \<longleftrightarrow> in_int64 (choice_index c) \<and> valid_message (choice_message c) \<and>
     valid_utf8 (choice_finish_reason c)"

definition valid_usage :: "usage \<Rightarrow> bool" where
  "valid_usage u \<longleftrightarrow> in_int64 (prompt_tokens u) \<and> in_int64 (completion_tokens u) \<and> in_int64 (total_tokens u)"

definition valid_response :: "chat_completion_response \<Rightarrow> bool" where
  "valid_response r \<longleftrightarrow> valid_utf8 (resp_id r) \<and> valid_utf8 (resp_object r) \<and> in_int64 (resp_created r) \<and>
     valid_utf8 (resp_model r) \<and> list_all valid_choice (resp_choices r) \<and> valid_usage (resp_usage r)"

text \<open>The answer of the chat service for a response of its provider, as \<open>CreateCompletion\<close> builds it.\<close>

definition service_response :: "chat_completion_response \<Rightarrow> completion_response" where
  "service_response r =
     \<lparr>cp_id = resp_id r, cp_object = resp_object r, cp_created = resp_created r,
      cp_model = resp_model r, cp_choices = toChoices (resp_choices r),
      cp_usage = \<lparr>cu_prompt_tokens = prompt_tokens (resp_usage r),
                  cu_completion_tokens = completion_tokens (resp_usage r),
                  cu_total_tokens = total_tokens (resp_usage r)\<rparr>\<rparr>"

lemma CreateCompletion_response:
  "CreateCompletion s ctx req w = (Inr resp, w') \<Longrightarrow> \<exists>r. resp = service_response r"
  by (auto simp: CreateCompletion_def service_response_def split: sum.splits prod.splits)

lemma int_field_num [simp]:
  "in_int64 i \<Longrightarrow> (case num i of JNum lit \<Rightarrow> (case int_of_literal lit of None \<Rightarrow> Inl e | Some j \<Rightarrow> Inr j) | _ \<Rightarrow> Inl e)
     = Inr i"
  by (simp add: num_def int_of_literal_def atoi_itoa)

lemma assign_num [simp]: "assign_all f (num i # vs) x = (case f (num i) x of Inl e \<Rightarrow> Inl e | Inr y \<Rightarrow> assign_all f vs y)"
  by (simp add: num_def)

lemma wf_response_json: "valid_response r \<Longrightarrow> wf_json (completion_response_json (service_response r))"
  by (auto simp: valid_response_def completion_response_json_def service_response_def toChoices_def
      cchoice_json_def cmessage_json_def cusage_json_def valid_choice_def valid_message_def list_all_iff)

lemmas decoding = decode_struct_def string_field_def int_field_def list_field_def struct_field_def
  pointer_field_def read_field_def equal_fold_def lower_char_def

lemma dec_usage_json:
  "valid_usage u \<Longrightarrow> cusage_json \<lparr>cu_prompt_tokens = prompt_tokens u, cu_completion_tokens = completion_tokens u,
      cu_total_tokens = total_tokens u\<rparr> = JObj ms \<Longrightarrow> dec_usage ms = Inr u"
  by (auto simp: cusage_json_def dec_usage_def decoding valid_usage_def)

definition read_choice :: "chat_choice \<Rightarrow> oa_choice" where
  "read_choice c = \<lparr>oac_index = choice_index c, oac_message = choice_message c, oac_delta = empty_message,
     oac_finish_reason = choice_finish_reason c\<rparr>"

lemma dec_choice_json:
  "valid_choice c \<Longrightarrow> dec_oa_choice [(''index'', num (choice_index c)),
      (''message'', JObj [(''role'', JStr (msg_role (choice_message c))), (''content'', JStr (msg_content (choice_message c)))]),
      (''finish_reason'', JStr (choice_finish_reason c))] = Inr (read_choice c)"
  by (simp add: dec_oa_choice_def dec_message_def decoding valid_choice_def read_choice_def)

lemma decode_response_json:
  assumes "valid_response r"
  shows "decode_struct dec_oa_response (completion_response_json (service_response r)) =
    Inr \<lparr>oar_id = resp_id r, oar_object = resp_object r, oar_created = resp_created r,
         oar_model = resp_model r, oar_choices = map read_choice (resp_choices r),
         oar_usage = resp_usage r, oar_error = None\<rparr>"
proof -
  have "decode_items ''choices'' dec_oa_choice (map cchoice_json (toChoices (resp_choices r))) =
      Inr (map read_choice (resp_choices r))"
    unfolding toChoices_def list.map_comp
    by (rule decode_items_map)
      (use assms dec_choice_json in \<open>simp add: valid_response_def list_all_iff cchoice_json_def cmessage_json_def\<close>)
  moreover have "\<exists>ms. cusage_json (cp_usage (service_response r)) = JObj ms \<and> dec_usage ms = Inr (resp_usage r)"
    using assms dec_usage_json [of "resp_usage r"]
    by (simp add: service_response_def valid_response_def cusage_json_def)
  ultimately show ?thesis
    using assms
    by (auto simp: completion_response_json_def dec_oa_response_def decoding valid_response_def
        service_response_def)
qed

lemma adapter_reads_response:
  assumes "valid_response r" and "hs_body resp = encode (completion_response_json (service_response r)) @ [CHR 0x0A]"
  shows "decode_body dec_oa_response resp =
    Inr \<lparr>oar_id = resp_id r, oar_object = resp_object r, oar_created = resp_created r,
         oar_model = resp_model r, oar_choices = map read_choice (resp_choices r),
         oar_usage = resp_usage r, oar_error = None\<rparr>"
  using decode_stream_encode [OF wf_response_json [OF assms(1)], of "[CHR 0x0A]"] decode_response_json [OF assms(1)]
  by (simp add: decode_body_def assms(2) ends_value_def is_digit_def)

lemma choices_read_back: "toProviderChoices (map read_choice cs) = cs"
  by (induction cs) (simp_all add: toProviderChoices_def read_choice_def)

section \<open>Streams\<close>

definition valid_chunk :: "chat_completion_chunk \<Rightarrow> bool" where
  "valid_chunk c \<longleftrightarrow> valid_utf8 (chunk_id c) \<and> valid_utf8 (chunk_object c) \<and> in_int64 (chunk_created c) \<and>
     valid_utf8 (chunk_model c) \<and> list_all valid_choice (chunk_choices c)"

definition chunk_text :: "chat_completion_chunk \<Rightarrow> string" where
  "chunk_text c = encode (completion_chunk_json (toCompletionChunk c))"

definition read_delta :: "chat_choice \<Rightarrow> oa_choice" where
  "read_delta c = \<lparr>oac_index = choice_index c, oac_message = empty_message, oac_delta = choice_message c,
     oac_finish_reason = choice_finish_reason c\<rparr>"

definition read_chunk :: "chat_completion_chunk \<Rightarrow> oa_response" where
  "read_chunk c = \<lparr>oar_id = chunk_id c, oar_object = chunk_object c, oar_created = chunk_created c,
     oar_model = chunk_model c, oar_choices = map read_delta (chunk_choices c), oar_usage = zero_usage,
     oar_error = None\<rparr>"

lemma toChunkChoices_map:
  "toChunkChoices cs = map (\<lambda>c. \<lparr>ck_index = choice_index c,
     ck_delta = \<lparr>delta_role = msg_role (choice_message c), delta_content = msg_content (choice_message c)\<rparr>,
     ck_finish_reason = choice_finish_reason c\<rparr>) cs"
  by (auto simp: toChunkChoices_def Let_def)

lemma wf_chunk_json: "valid_chunk c \<Longrightarrow> wf_json (completion_chunk_json (toCompletionChunk c))"
  by (auto simp: valid_chunk_def completion_chunk_json_def toCompletionChunk_def toChunkChoices_map
      chunk_choice_json_def omit_empty_def valid_choice_def valid_message_def list_all_iff)

lemma dec_delta_json:
  "valid_choice c \<Longrightarrow> dec_oa_choice [(''index'', num (choice_index c)),
      (''delta'', JObj (omit_empty ''role'' (msg_role (choice_message c)) @
                        omit_empty ''content'' (msg_content (choice_message c)))),
      (''finish_reason'', JStr (choice_finish_reason c))] = Inr (read_delta c)"
  by (cases "choice_message c")
    (simp add: dec_oa_choice_def dec_message_def decoding valid_choice_def read_delta_def omit_empty_def)

lemma decode_chunk_json:
  assumes "valid_chunk c"
  shows "decode_struct dec_oa_response (completion_chunk_json (toCompletionChunk c)) = Inr (read_chunk c)"
proof -
  have "decode_items ''choices'' dec_oa_choice (map chunk_choice_json (toChunkChoices (chunk_choices c))) =
      Inr (map read_delta (chunk_choices c))"
    unfolding toChunkChoices_map list.map_comp
    by (rule decode_items_map)
      (use assms dec_delta_json in \<open>simp add: valid_chunk_def list_all_iff chunk_choice_json_def\<close>)
  then show ?thesis
    using assms
    by (simp add: completion_chunk_json_def dec_oa_response_def decoding valid_chunk_def
        toCompletionChunk_def read_chunk_def)
qed

lemma chunk_payload:
  assumes "valid_chunk c"
  shows "openai_decodeStreamPayload (chunk_text c) = Inr (read_chunk c)"
  using unmarshal_encode [OF wf_chunk_json [OF assms]] decode_chunk_json [OF assms]
  by (simp add: openai_decodeStreamPayload_def chunk_text_def read_chunk_def error_message_def)

lemma chunk_read_back: "openai_chunk (read_chunk c) = c"
proof -
  have "toProviderStreamChoices (map read_delta cs) = cs" for cs
    by (induction cs) (simp_all add: toProviderStreamChoices_def read_delta_def empty_message_def)
  then show ?thesis by (simp add: openai_chunk_def read_chunk_def)
qed

text \<open>An encoded value is a line of its own: it has no newline.\<close>

lemma chunk_line:
  assumes "valid_chunk c"
  shows "plain_data (chunk_text c)" and "chunk_text c \<noteq> ''[DONE]''" and "CHR 0x0A \<notin> set (chunk_text c)"
proof -
  obtain u where u: "chunk_text c = CHR 0x7B # u @ [CHR 0x7D]"
    by (simp add: chunk_text_def completion_chunk_json_def)
  have "data_line (chunk_text c) = (''data: '' @ chunk_text c) @ [CHR 0x0A]" by (simp add: data_line_def)
  then have "trim_space (data_line (chunk_text c)) = ''data: '' @ chunk_text c"
    by (simp only:) (rule trim_space_ends(2), simp_all add: u visible_def)
  moreover have "trim_space (chunk_text c) = chunk_text c"
    by (rule trim_space_ends(1)) (simp_all add: u visible_def)
  ultimately show "plain_data (chunk_text c)" by (simp add: plain_data_def u)
  show "chunk_text c \<noteq> ''[DONE]''" by (simp add: u)
  show "CHR 0x0A \<notin> set (chunk_text c)"
    unfolding chunk_text_def by (rule encode_no_newline) (rule wf_chunk_json [OF assms])
qed

lemma blank_line: "openai_consumeLine env ctx handle model [CHR 0x0A] w = (False, True, [], model, w)"
proof -
  have "trim_space [CHR 0x0A] = []" by code_simp
  then show ?thesis by (simp add: openai_consumeLine_def)
qed

lemma complete_lines_blank:
  "CHR 0x0A \<notin> set l \<Longrightarrow>
   complete_lines (l @ CHR 0x0A # CHR 0x0A # r) = (l @ [CHR 0x0A]) # [CHR 0x0A] # complete_lines r"
  by (simp add: complete_lines_append)

lemma frames_lines:
  assumes "\<forall>c \<in> set cs. CHR 0x0A \<notin> set (chunk_text c)"
  shows "complete_lines (frames (map toCompletionChunk cs) @ sse_done) =
    concat (map (\<lambda>c. [data_line (chunk_text c), [CHR 0x0A]]) cs) @ [''data: [DONE]'' @ [CHR 0x0A], [CHR 0x0A]]"
  using assms
proof (induction cs)
  case Nil
  then show ?case by (simp add: frames_def sse_done_def)
next
  case (Cons c cs)
  let ?r = "frames (map toCompletionChunk cs) @ sse_done"
  have "frames (map toCompletionChunk (c # cs)) @ sse_done = (''data: '' @ chunk_text c) @ CHR 0x0A # CHR 0x0A # ?r"
    by (simp add: frames_def sse_frame_def chunk_text_def)
  moreover have "CHR 0x0A \<notin> set (''data: '' @ chunk_text c)" using Cons.prems by simp
  note complete_lines_blank [OF this, of ?r]
  ultimately have "complete_lines (frames (map toCompletionChunk (c # cs)) @ sse_done) =
      data_line (chunk_text c) # [CHR 0x0A] # complete_lines ?r"
    unfolding data_line_def append_assoc by (simp only:)
  moreover have "complete_lines ?r = concat (map (\<lambda>c. [data_line (chunk_text c), [CHR 0x0A]]) cs) @
      [''data: [DONE]'' @ [CHR 0x0A], [CHR 0x0A]]"
    using Cons by simp
  ultimately show ?case by (simp only: list.map concat.simps append.simps)
qed

lemma lines_delivered:
  assumes "always_offers env" and "list_all valid_chunk cs"
  shows "openai_stream_lines env ctx handle ending model
      (concat (map (\<lambda>c. [data_line (chunk_text c), [CHR 0x0A]]) cs) @ (''data: [DONE]'' @ [CHR 0x0A]) # lines) w =
    (map ChunkEvent cs, w)"
  using assms(2)
proof (induction cs arbitrary: model)
  case Nil
  then show ?case by (simp add: consumeLine_done [simplified])
next
  case (Cons c cs)
  then show ?case
    using consumeLine_chunk [OF chunk_line(1) [of c] chunk_line(2) [of c] chunk_payload [of c] assms(1), of ctx handle model w]
    by (simp add: blank_line [simplified] chunk_read_back)
qed

end
