(* ===== verification/StoreTyping.thy ===== *)
theory StoreTyping
  imports AttemptBook
begin

text \<open>
  The type of the governance tables: identifiers are distinct and below the counters that the database
  gives the next ones from, and the state of a row is one of the three that the gateway writes. Every
  statement and transaction of the store keeps it, failures of the driver at any point included.
\<close>

definition usage_status :: "string \<Rightarrow> bool" where
  "usage_status s \<longleftrightarrow> s \<in> {''started'', ''succeeded'', ''failed''}"

definition typed_db :: "db \<Rightarrow> bool" where
  "typed_db d \<longleftrightarrow> wf_db d \<and> (\<forall>r \<in> set (request_usages d). usage_status (u_status r)) \<and>
     (\<forall>r \<in> set (request_attempt_usages d). usage_status (u_status r))"

text \<open>The operations of the store, with any outcome.\<close>

inductive store_step :: "db \<Rightarrow> db \<Rightarrow> bool" where
  begin_request: "store_step d d'" if "BeginRequestAtomic i d = (x, d')"
| begin_attempt: "store_step d d'" if "BeginAttemptAtomic j d = (x, d')"
| insert_request: "store_step d d'" if "InsertUsageRecord r d = (x, d')" and "usage_status (ur_status r)"
| insert_attempt: "store_step d d'" if "InsertAttemptUsageRecord a d = (x, d')" and "usage_status (ur_status a)"
| update_request: "store_step d d'" if "UpdateUsageRecord u d = (y, d')" and "usage_status (uu_status u)"
| update_attempt: "store_step d d'" if "UpdateAttemptUsageRecord v d = (y, d')" and "usage_status (au_status v)"

inductive_cases store_step_cases: "store_step d d'"

section \<open>What an operation does to the tables\<close>

lemma typed_same: "same_data d d' \<Longrightarrow> typed_db d \<Longrightarrow> typed_db d'"
  by (simp add: typed_db_def wf_db_same same_data_fields)

lemma typed_request_inserted:
  "request_inserted r rid d d' \<Longrightarrow> usage_status (ur_status r) \<Longrightarrow> typed_db d \<Longrightarrow> typed_db d'"
  unfolding typed_db_def using wf_db_request_inserted
  by (auto simp: request_inserted_def usage_row_of_def)

lemma typed_attempt_inserted:
  "attempt_inserted r rid d d' \<Longrightarrow> usage_status (ur_status r) \<Longrightarrow> typed_db d \<Longrightarrow> typed_db d'"
  unfolding typed_db_def using wf_db_attempt_inserted
  by (auto simp: attempt_inserted_def attempt_row_of_def usage_row_of_def usage_row.extend_def)

lemma typed_request_updated:
  "request_updated u d d' \<Longrightarrow> usage_status (uu_status u) \<Longrightarrow> typed_db d \<Longrightarrow> typed_db d'"
  unfolding typed_db_def using wf_db_request_updated
  by (auto simp: request_updated_def update_usage_row_def same_data_fields)

lemma typed_attempt_updated:
  "attempt_updated u d d' \<Longrightarrow> usage_status (au_status u) \<Longrightarrow> typed_db d \<Longrightarrow> typed_db d'"
  unfolding typed_db_def using wf_db_attempt_updated
  by (auto simp: attempt_updated_def update_attempt_row_def same_data_fields)

lemma typed_rolled_back:
  "same_tables d d' \<Longrightarrow> next_usage_id d \<le> next_usage_id d' \<Longrightarrow> next_attempt_id d \<le> next_attempt_id d' \<Longrightarrow>
   typed_db d \<Longrightarrow> typed_db d'"
  unfolding typed_db_def using wf_db_tables by (auto simp: same_tables_def)

text \<open>An insertion that fails may still have inserted its row: the identifier was lost on the way.\<close>

lemma insertion_effect:
  assumes "bindS (db_exec st) LastInsertId d = (x, d')"
  obtains (none) "same_data d d'"
  | (inserted) d0 rid d1 where "same_data d d0" and "st d0 = (rid, d1)" and "same_data d1 d'"
proof -
  obtain y d1 where y: "db_exec st d = (y, d1)" by fastforce
  show thesis
  proof (cases y)
    case (Inl e)
    with assms y have "d' = d1" by simp
    from y Inl have "db_exec st d = (Inl e, d1)" by simp
    then show thesis
    proof (rule db_exec_Inl)
      assume "same_data d d1"
      with \<open>d' = d1\<close> show thesis by (intro none) simp
    next
      fix d0 assume "same_data d d0" and "d1 = snd (st d0)"
      with \<open>d' = d1\<close> show thesis by (intro inserted [of d0 "fst (st d0)" d1]) simp_all
    qed
  next
    case (Inr rid)
    with assms y have "same_data d1 d'" by (auto simp: LastInsertId_def dest: db_query_same)
    moreover from y Inr have "db_exec st d = (Inr rid, d1)" by simp
    then obtain d0 where "same_data d d0" "st d0 = (rid, d1)" by (rule db_exec_Inr)
    ultimately show thesis by (intro inserted)
  qed
qed

lemma InsertUsageRecord_effect:
  "InsertUsageRecord r d = (x, d') \<Longrightarrow> same_data d d' \<or> (\<exists>rid. request_inserted r rid d d')"
  unfolding InsertUsageRecord_def
  by (erule insertion_effect)
    (use request_inserted_same insertUsageRecordStatement_inserts in blast)+

lemma InsertAttemptUsageRecord_effect:
  "InsertAttemptUsageRecord r d = (x, d') \<Longrightarrow> same_data d d' \<or> (\<exists>rid. attempt_inserted r rid d d')"
  unfolding InsertAttemptUsageRecord_def
  by (erule insertion_effect)
    (use attempt_inserted_same insertAttemptUsageRecordStatement_inserts in blast)+

lemma grows_BeginRequestAtomic: "grows (BeginRequestAtomic input)"
  unfolding BeginRequestAtomic_def by (intro grows_tx grows_rules read_only_rules)

lemma BeginRequestAtomic_effect:
  assumes "BeginRequestAtomic i d = (x, d')"
  shows "same_tables d d' \<or> (\<exists>rid. request_inserted (begin_request_record i) rid d d')"
  using assms by (cases x) (auto elim: BeginRequestAtomic_Inl dest: BeginRequestAtomic_Inr(1))

lemma BeginAttemptAtomic_effect:
  assumes "BeginAttemptAtomic i d = (x, d')"
  shows "same_tables d d' \<or> (\<exists>rid. attempt_inserted (begin_attempt_record i) rid d d')"
  using assms by (cases x) (auto elim: BeginAttemptAtomic_Inl dest: BeginAttemptAtomic_Inr(1))

lemma begin_request_status [simp]: "ur_status (begin_request_record i) = ''started''"
  by (simp add: begin_request_record_def)

lemma started_status [simp]: "usage_status ''started''"
  by (simp add: usage_status_def)

section \<open>Every operation keeps the type\<close>

lemma store_step_typed: "store_step d d' \<Longrightarrow> typed_db d \<Longrightarrow> typed_db d'"
proof (induction rule: store_step.induct)
  case (begin_request i d x d')
  from BeginRequestAtomic_effect [OF begin_request(1)] show ?case
    using growsD [OF grows_BeginRequestAtomic begin_request(1)] begin_request(2)
    by (elim disjE exE) (simp_all add: typed_rolled_back typed_request_inserted)
next
  case (begin_attempt j d x d')
  from BeginAttemptAtomic_effect [OF begin_attempt(1)] show ?case
    using growsD [OF grows_BeginAttemptAtomic begin_attempt(1)] begin_attempt(2)
    by (elim disjE exE) (simp_all add: typed_rolled_back typed_attempt_inserted)
next
  case (insert_request r d x d')
  then show ?case using InsertUsageRecord_effect typed_same typed_request_inserted by blast
next
  case (insert_attempt a d x d')
  then show ?case using InsertAttemptUsageRecord_effect typed_same typed_attempt_inserted by blast
next
  case (update_request u d y d')
  then show ?case
    using UpdateUsageRecord_Inl UpdateUsageRecord_Inr typed_same typed_request_updated
    by (cases y) blast+
next
  case (update_attempt v d y d')
  then show ?case
    using UpdateAttemptUsageRecord_Inl UpdateAttemptUsageRecord_Inr typed_same typed_attempt_updated
    by (cases y) blast+
qed

lemma store_run_typed: "store_step\<^sup>*\<^sup>* d d' \<Longrightarrow> typed_db d \<Longrightarrow> typed_db d'"
  by (induction rule: rtranclp_induct) (auto dest: store_step_typed)

end
