(* ===== verification/ServiceProperties.thy ===== *)
theory ServiceProperties
  imports ChainFacts StoreTyping GovernanceProperties ProviderProperties
begin

text \<open>
  The properties of the services that read, of the tables over any sequence of operations, and of the
  three wire formats: the Redis protocol, the JSON answers and the event streams, read back by the
  gateway's own readers.
\<close>

section \<open>Usage\<close>

lemma BeginAttempt_admitted_iff:
  assumes "answering (gw_db w)" and "tenant_exists (tenant_id (principal_tenant (abr_principal i))) (gw_db w)"
  shows "(\<exists>rid. fst (beginAttempt mysql_store i w) = Inr rid) \<longleftrightarrow>
    within_budget (principal_tenant (abr_principal i)) (abr_prompt_tokens i) (gw_db w)"
  using assms
  by (simp add: beginAttempt_def mysql_store_def on_db_def BeginAttemptAtomic_decides decide_attempt_def Let_def)



section \<open>Models\<close>

lemma find_rev_last:
  assumes "find P (rev xs) = Some x"
  shows "\<exists>a b. xs = a @ x # b \<and> P x \<and> (\<forall>y \<in> set b. \<not> P y)"
  using assms
proof (induction xs rule: rev_induct)
  case (snoc y ys)
  show ?case
  proof (cases "P y")
    case True
    with snoc.prems show ?thesis by (intro exI [of _ ys] exI [of _ "[]"]) auto
  next
    case False
    with snoc obtain a b where "ys = a @ x # b" "P x" "\<forall>y \<in> set b. \<not> P y" by auto
    with False show ?thesis by (intro exI [of _ a] exI [of _ "b @ [y]"]) auto
  qed
qed simp

text \<open>
  The models service lists each named model of the sources that answered once, in the strict order
  of the names, each as the last source that has it describes it; it fails, with all errors joined,
  exactly when some source failed and no model was named.
\<close>

theorem models_merged:
  assumes "answers_of sources w = (ms, es, w')"
  shows "case models_ListModels sources w of
      (Inl e, w'') \<Rightarrow> w'' = w' \<and> e = JoinErr es \<and> es \<noteq> [] \<and> (\<forall>m \<in> set ms. model_id m = [])
    | (Inr r, w'') \<Rightarrow> w'' = w' \<and> (es = [] \<or> (\<exists>m \<in> set ms. model_id m \<noteq> [])) \<and>
        sorted (map model_id (mresp_data r)) \<and> distinct (map model_id (mresp_data r)) \<and>
        set (map model_id (mresp_data r)) = model_id ` {m \<in> set ms. model_id m \<noteq> []} \<and>
        (\<forall>m \<in> set (mresp_data r). \<exists>a x b. ms = a @ x # b \<and> m = labelled x \<and>
           (\<forall>y \<in> set b. model_id y \<noteq> model_id x))"
proof (cases "named_ids ms = [] \<and> es \<noteq> []")
  case True
  then show ?thesis
    using models_ListModels_eq [OF assms] by (auto simp: named_ids_def filter_empty_conv)
next
  case False
  let ?pick = "\<lambda>i. labelled (the (find (\<lambda>m. model_id m = i) (rev ms)))"
  have pick: "model_id (?pick i) = i \<and> (\<exists>a x b. ms = a @ x # b \<and> ?pick i = labelled x \<and>
      (\<forall>y \<in> set b. model_id y \<noteq> model_id x))" if "i \<in> set (named_ids ms)" for i
  proof -
    from that have "find (\<lambda>m. model_id m = i) (rev ms) \<noteq> None" by (auto simp: named_ids_def find_None_iff)
    then obtain x where x: "find (\<lambda>m. model_id m = i) (rev ms) = Some x" by blast
    from find_rev_last [OF this] show ?thesis by (auto simp: x)
  qed
  have ids: "map model_id (map ?pick (sort (remdups (named_ids ms)))) = sort (remdups (named_ids ms))"
    using pick unfolding map_map by (intro map_idI) simp
  have named: "set (named_ids ms) = model_id ` {m \<in> set ms. model_id m \<noteq> []}" by (auto simp: named_ids_def)
  show ?thesis
    using models_ListModels_eq [OF assms] False ids pick named
    by (auto simp: named_ids_def filter_empty_conv simp del: list.map_comp map_map)
qed

definition shop_model :: "string \<Rightarrow> string \<Rightarrow> provider_model" where
  "shop_model i owner = \<lparr>model_id = i, model_object = [], model_created = 0, model_owned_by = owner\<rparr>"

theorem models_merged_witness:
  "\<exists>r. fst (models_ListModels [\<lambda>w. (Inr [shop_model ''b'' ''x'', shop_model ''a'' ''x''], w),
      \<lambda>w. (Inl IoEOF, w), \<lambda>w. (Inr [shop_model ''b'' ''y''], w)] ()) = Inr r \<and>
    set (map model_id (mresp_data r)) = {''a'', ''b''}"
proof -
  let ?sources = "[\<lambda>w. (Inr [shop_model ''b'' ''x'', shop_model ''a'' ''x''], w),
      \<lambda>w. (Inl IoEOF, w), \<lambda>w. (Inr [shop_model ''b'' ''y''], w)]"
  have a: "answers_of ?sources () = ([shop_model ''b'' ''x'', shop_model ''a'' ''x'', shop_model ''b'' ''y''], [IoEOF], ())"
    by simp
  have "model_id ` {m \<in> set [shop_model ''b'' ''x'', shop_model ''a'' ''x'', shop_model ''b'' ''y'']. model_id m \<noteq> []} =
      set (map model_id (filter (\<lambda>m. model_id m \<noteq> [])
        [shop_model ''b'' ''x'', shop_model ''a'' ''x'', shop_model ''b'' ''y'']))" by auto
  also have "\<dots> = {''a'', ''b''}" by (simp add: shop_model_def insert_commute)
  finally have ids: "model_id ` {m \<in> set [shop_model ''b'' ''x'', shop_model ''a'' ''x'', shop_model ''b'' ''y'']. model_id m \<noteq> []} =
      {''a'', ''b''}" .
  obtain x where x: "models_ListModels ?sources () = x" by blast
  from models_merged [OF a] ids show ?thesis
    unfolding x by (cases x; cases "fst x") auto
qed

section \<open>The tables\<close>



section \<open>The Redis protocol\<close>

text \<open>
  C24: Commands that the client writes are read back by its own reader, and so are the replies of a
  server, with nothing of what follows taken.
\<close>

theorem redis_wire_round_trip:
  assumes "list_all bulk_fits command" and "16 * int (length command) \<le> max_alloc" and "reply_fits rp"
  shows "readRESP (writeCommand command @ r) = (Inr (RArr (map RStr command)), r) \<and>
    readRESP (encode_reply rp @ r) = (reply_value rp, r)"
  using readRESP_command [OF assms(1,2)] readRESP_reply [OF assms(3)] by blast

theorem redis_wire_round_trip_witness:
  "readRESP (writeCommand [''GET'', ''k''] @ ''rest'') = (Inr (RArr [RStr ''GET'', RStr ''k'']), ''rest'')"
  using redis_wire_round_trip [of "[''GET'', ''k'']" "Numbers [1]" "''rest''"]
  by (simp add: bulk_fits_def max_alloc_def in_int64_def min_int_def max_int_def)

text \<open>
  The reader ends on every text: recursion of depth twice its length and one more is enough, more
  changes nothing, and what is left is not longer than the text.
\<close>

theorem redis_reader_terminates:
  assumes "2 * length s + 1 \<le> fuel"
  shows "read_resp fuel s = Some (readRESP s) \<and> length (snd (readRESP s)) \<le> length s"
  using read_more_fuel(1) [OF readRESP_read assms] read_shorter(1) [of _ s "fst (readRESP s)" "snd (readRESP s)"]
    readRESP_read [of s] by auto

theorem redis_reader_terminates_witness:
  "read_resp 7 ''*9'' = Some (readRESP ''*9'')"
  using redis_reader_terminates [of "''*9''" 7] by simp

section \<open>One gateway behind another\<close>

text \<open>
  C19: The event stream that the handler writes for the chunks of its provider is read by the gateway's
  own OpenAI adapter as exactly these chunks, when their texts are well-formed UTF-8 and their numbers
  machine integers.
\<close>

theorem stream_read_back:
  assumes "always_offers env" and "list_all valid_chunk cs"
  shows "openai_stream_lines env ctx handle ending model
      (complete_lines (frames (map toCompletionChunk cs) @ sse_done)) w = (map ChunkEvent cs, w)"
proof -
  have "\<forall>c \<in> set cs. CHR 0x0A \<notin> set (chunk_text c)"
    using assms(2) chunk_line(3) by (auto simp: list_all_iff)
  from frames_lines [OF this] lines_delivered [OF assms, of ctx handle ending model "[[CHR 0x0A]]" w]
  show ?thesis by simp
qed

definition shop_chunk :: chat_completion_chunk where
  "shop_chunk =
     \<lparr>chunk_id = ''c1'', chunk_object = ''chat.completion.chunk'', chunk_created = 7, chunk_model = ''m'',
      chunk_choices = [\<lparr>choice_index = 0, choice_message = \<lparr>msg_role = [], msg_content = ''a <b>''\<rparr>,
                        choice_finish_reason = []\<rparr>]\<rparr>"

lemma shop_chunk_valid: "valid_chunk shop_chunk"
  by code_simp

theorem stream_read_back_witness:
  "fst (openai_stream_lines (demo_upstream (Inl IoEOF)) (plain_ctx :: (nat, unit) attempt_ctx) None IoEOF ''m''
     (complete_lines (frames [toCompletionChunk shop_chunk] @ sse_done)) 0) = [ChunkEvent shop_chunk]"
  using stream_read_back [of "demo_upstream (Inl IoEOF)" "[shop_chunk]" "plain_ctx :: (nat, unit) attempt_ctx"
      None IoEOF "''m''" 0] shop_chunk_valid
  by simp

text \<open>
  An upstream that is such a gateway: it decodes the body of a request and answers with what its handler
  writes for the response that \<open>f\<close>, its provider, has for the decoded request.
\<close>

definition upstream_gateway :: "(completion_request \<Rightarrow> chat_completion_response) \<Rightarrow> 'w upstream \<Rightarrow> bool" where
  "upstream_gateway f env \<longleftrightarrow>
     (\<forall>dl rq w creq. and_then (decode_stream (hr_body rq)) (decode_struct dec_completion_request) = Inr creq \<longrightarrow>
        env_do env dl rq w =
          (Inr \<lparr>hs_status = 200,
                hs_body = rw_body (writeJSON 200 (completion_response_json (service_response (f creq)))
                            (new_writer False [])),
                hs_body_err = None\<rparr>, w))"

lemma written_body: "rw_body (writeJSON st v (new_writer fl [])) = encode v @ [CHR 0x0A]"
  by (simp add: writeJSON_def write_bytes_def WriteHeader_def send_header_def set_header_def new_writer_def Let_def)

text \<open>
  C18: A completion by the OpenAI adapter whose upstream is such a gateway returns what that gateway's
  provider answers to the same model and messages: neither the request nor the response is changed on
  the way, when their texts are well-formed UTF-8 and the numbers machine integers.
\<close>

theorem completion_read_back:
  assumes "upstream_gateway f env" and "ctx_recorder ctx = None"
    and "valid_utf8 (resolveModel a (req_model req))" and "list_all valid_message (req_messages req)"
    and "r = f \<lparr>cr_model = resolveModel a (req_model req),
                cr_messages = map from_provider_message (req_messages req), cr_stream = False\<rparr>"
    and "valid_response r"
  shows "openai_CreateChatCompletion a env ctx req w = (Inr r, w)"
proof -
  let ?q = "\<lparr>oaq_model = resolveModel a (req_model req), oaq_messages = req_messages req, oaq_stream = False\<rparr>"
  let ?rq = "openai_request a ''POST'' (openai_endpointURL a) (encode (oa_request_json ?q)) []"
  let ?resp = "\<lparr>hs_status = 200, hs_body = encode (completion_response_json (service_response r)) @ [CHR 0x0A],
    hs_body_err = None\<rparr>"
  have body: "hr_body ?rq = encode (oa_request_json ?q)" by (simp add: openai_request_def)
  have "and_then (decode_stream (hr_body ?rq)) (decode_struct dec_completion_request) =
      Inr \<lparr>cr_model = resolveModel a (req_model req),
           cr_messages = map from_provider_message (req_messages req), cr_stream = False\<rparr>"
    unfolding body using handler_reads_request [of ?q] assms(3,4) by simp
  with assms(1) have "env_do env dl ?rq w = (Inr ?resp, w)" for dl
    unfolding upstream_gateway_def by (simp add: assms(5) written_body)
  then have once: "do_once env dl m ?rq w = (Inr ?resp, w)" for dl m by (simp add: do_once_def)
  have do: "doRequest a env m ctx dl (Some md) ?rq w = (Inr (?resp, None), w)" for m dl md
    using once assms(2)
    by (simp add: doRequest_def request_loop.simps [of a env m ctx] adapter_beginAttempt_def)
  have dec: "decode_body dec_oa_response ?resp =
      Inr \<lparr>oar_id = resp_id r, oar_object = resp_object r, oar_created = resp_created r,
           oar_model = resp_model r, oar_choices = map read_choice (resp_choices r),
           oar_usage = resp_usage r, oar_error = None\<rparr>"
    using adapter_reads_response [OF assms(6), of ?resp] by simp
  show ?thesis
    using do dec assms(2)
    by (simp add: openai_CreateChatCompletion_def openai_doJSONRequest_def json_request_def
        finish_attempt_def choices_read_back)
qed

definition shop_response :: chat_completion_response where
  "shop_response =
     \<lparr>resp_id = ''r1'', resp_object = ''chat.completion'', resp_created = 7, resp_model = ''m'',
      resp_choices = [\<lparr>choice_index = 0, choice_message = \<lparr>msg_role = ''assistant'', msg_content = ''hi''\<rparr>,
                       choice_finish_reason = ''stop''\<rparr>],
      resp_usage = \<lparr>prompt_tokens = 1, completion_tokens = 1, total_tokens = 2\<rparr>\<rparr>"

definition shop_gateway :: "nat upstream" where
  "shop_gateway = (demo_upstream (Inr
     \<lparr>hs_status = 200, hs_body = encode (completion_response_json (service_response shop_response)) @ [CHR 0x0A],
      hs_body_err = None\<rparr>))"

theorem completion_read_back_witness:
  "openai_CreateChatCompletion demo_adapter shop_gateway (plain_ctx :: (nat, unit) attempt_ctx)
     \<lparr>req_model = ''m'', req_messages = [\<lparr>msg_role = ''user'', msg_content = ''hello''\<rparr>], req_stream = False\<rparr> 0 =
   (Inr shop_response, 0)"
proof (rule completion_read_back [where f = "\<lambda>_. shop_response"])
  show "upstream_gateway (\<lambda>_. shop_response) shop_gateway"
    by (simp add: upstream_gateway_def shop_gateway_def demo_upstream_def written_body)
  show "valid_utf8 (resolveModel demo_adapter (req_model
      \<lparr>req_model = ''m'', req_messages = [\<lparr>msg_role = ''user'', msg_content = ''hello''\<rparr>], req_stream = False\<rparr>))"
    by code_simp
  show "valid_response shop_response" by code_simp
qed (simp_all add: plain_ctx_def valid_message_def)

end
