(* ===== verification/Flags.thy ===== *)
theory Flags
  imports RoutingStore
begin

text \<open>
  The \<open>flag\<close> package of the standard library as the commands under \<open>cmd\<close> use it: a set of named flags over a
  record of options, the loop of \<open>Parse\<close>, and the values of the types that they declare.
\<close>

section \<open>Integers with a base prefix\<close>

text \<open>
  \<open>strconv.ParseInt(s, 0, 64)\<close>. \<open>underscoreOK\<close> remembers the kind of the last character: a digit, an
  underscore or something else.
\<close>

definition alnum_val :: "char \<Rightarrow> int option" where
  "alnum_val c =
     (let n = of_char (lower_char c) :: int in
      if 48 \<le> n \<and> n \<le> 57 then Some (n - 48) else if 97 \<le> n \<and> n \<le> 122 then Some (n - 87) else None)"

definition base_prefix :: "string \<Rightarrow> (int \<times> string) option" where
  "base_prefix s =
     (case s of
        a # b # rest \<Rightarrow>
          (if a \<noteq> CHR ''0'' then None
           else if lower_char b = CHR ''b'' then Some (2, rest)
           else if lower_char b = CHR ''o'' then Some (8, rest)
           else if lower_char b = CHR ''x'' then Some (16, rest)
           else None)
      | _ \<Rightarrow> None)"

datatype last_seen = SeenDigit | SeenUnderscore | SeenOther | SeenNothing

fun underscores_separate :: "bool \<Rightarrow> last_seen \<Rightarrow> string \<Rightarrow> bool" where
  "underscores_separate hex i [] = (i \<noteq> SeenUnderscore)"
| "underscores_separate hex i (c # s) =
     (if is_digit c \<or> hex \<and> (case alnum_val c of None \<Rightarrow> False | Some v \<Rightarrow> v < 16) then underscores_separate hex SeenDigit s
      else if c = CHR ''_'' then i = SeenDigit \<and> underscores_separate hex SeenUnderscore s
      else i \<noteq> SeenUnderscore \<and> underscores_separate hex SeenOther s)"

definition underscoreOK :: "string \<Rightarrow> bool" where
  "underscoreOK s =
     (case base_prefix s of
        Some (base, rest) \<Rightarrow> underscores_separate (base = 16) SeenDigit rest
      | None \<Rightarrow> underscores_separate False SeenNothing s)"

datatype int_error = ParseError | RangeError

definition max_uint :: int where
  "max_uint = 18446744073709551615"

fun based_digits :: "int \<Rightarrow> int \<Rightarrow> string \<Rightarrow> int_error + int" where
  "based_digits base n [] = Inr n"
| "based_digits base n (c # s) =
     (if c = CHR ''_'' then based_digits base n s
      else case alnum_val c of
        None \<Rightarrow> Inl ParseError
      | Some d \<Rightarrow>
          if base \<le> d then Inl ParseError
          else if max_uint < base * n + d then Inl RangeError
          else based_digits base (base * n + d) s)"

definition parse_unsigned0 :: "string \<Rightarrow> int_error + int" where
  "parse_unsigned0 s =
     (let r = (case base_prefix s of
                 Some (base, rest) \<Rightarrow> if rest = [] then Inl ParseError else based_digits base 0 rest
               | None \<Rightarrow>
                   if s = [] then Inl ParseError
                   else if hd s = CHR ''0'' then based_digits 8 0 (tl s) else based_digits 10 0 s)
      in case r of
        Inl e \<Rightarrow> Inl e
      | Inr n \<Rightarrow> if CHR ''_'' \<in> set s \<and> \<not> underscoreOK s then Inl ParseError else Inr n)"

definition parse_int0 :: "string \<Rightarrow> int_error + int" where
  "parse_int0 s =
     (let (neg, u) = (case s of [] \<Rightarrow> (False, [])
            | c # r \<Rightarrow> if c = CHR ''-'' then (True, r) else if c = CHR ''+'' then (False, r) else (False, s))
      in case parse_unsigned0 u of
        Inl e \<Rightarrow> Inl e
      | Inr n \<Rightarrow> (let v = (if neg then - n else n) in if in_int64 v then Inr v else Inl RangeError))"

section \<open>Flags\<close>

datatype 's flag = BoolFlag "bool \<Rightarrow> 's \<Rightarrow> 's" | ValueFlag "string \<Rightarrow> 's \<Rightarrow> string + 's"

type_synonym 's flag_set = "(string \<times> 's flag) list"

definition StringVar :: "(string \<Rightarrow> 's \<Rightarrow> 's) \<Rightarrow> 's flag" where
  "StringVar f = ValueFlag (\<lambda>v st. Inr (f v st))"

definition IntVar :: "(int \<Rightarrow> 's \<Rightarrow> 's) \<Rightarrow> 's flag" where
  "IntVar f = ValueFlag (\<lambda>v st.
     case parse_int0 v of
       Inr n \<Rightarrow> Inr (f n st)
     | Inl ParseError \<Rightarrow> Inl ''parse error''
     | Inl RangeError \<Rightarrow> Inl ''value out of range'')"

definition parse_bool :: "string \<Rightarrow> bool option" where
  "parse_bool s =
     (if s \<in> {''1'', ''t'', ''T'', ''TRUE'', ''true'', ''True''} then Some True
      else if s \<in> {''0'', ''f'', ''F'', ''FALSE'', ''false'', ''False''} then Some False
      else None)"

definition flag_help :: err where
  "flag_help = NewErr ''flag: help requested''"

fun split_assign :: "string \<Rightarrow> string \<times> string option" where
  "split_assign [] = ([], None)"
| "split_assign (c # s) =
     (if c = CHR ''='' then ([], Some s) else let (name, value) = split_assign s in (c # name, value))"

definition set_value :: "('s \<Rightarrow> string + 's) \<Rightarrow> string \<Rightarrow> string \<Rightarrow> 's \<Rightarrow> 's res" where
  "set_value f name value st =
     (case f st of
        Inl e \<Rightarrow> Inl (NewErr (''invalid value '' @ go_quote value @ '' for flag -'' @ name @ '': '' @ e))
      | Inr st \<Rightarrow> Inr st)"

text \<open>
  \<open>parseOne\<close> until it stops: the arguments that are left and the options. What \<open>Parse\<close> writes to its output
  when it fails is the error and the usage.
\<close>

fun flag_Parse :: "'s flag_set \<Rightarrow> string list \<Rightarrow> 's \<Rightarrow> (string list \<times> 's) res" where
  "flag_Parse flags [] st = Inr ([], st)"
| "flag_Parse flags (s # args) st =
     (if length s < 2 \<or> hd s \<noteq> CHR ''-'' then Inr (s # args, st)
      else if s = ''--'' then Inr (args, st)
      else
        let flag = (if s ! 1 = CHR ''-'' then drop 2 s else drop 1 s) in
        if flag = [] \<or> hd flag = CHR ''-'' \<or> hd flag = CHR ''=''
        then Inl (NewErr (''bad flag syntax: '' @ s))
        else
          let (name, value) = split_assign flag in
          case map_of flags name of
            None \<Rightarrow>
              if name = ''help'' \<or> name = ''h'' then Inl flag_help
              else Inl (NewErr (''flag provided but not defined: -'' @ name))
          | Some (BoolFlag f) \<Rightarrow>
              (case value of
                 None \<Rightarrow> flag_Parse flags args (f True st)
               | Some v \<Rightarrow>
                   (case parse_bool v of
                      None \<Rightarrow> Inl (NewErr (''invalid boolean value '' @ go_quote v @ '' for -'' @ name @ '': parse error''))
                    | Some b \<Rightarrow> flag_Parse flags args (f b st)))
          | Some (ValueFlag f) \<Rightarrow>
              (case value of
                 Some v \<Rightarrow>
                   (case set_value (f v) name v st of
                      Inl e \<Rightarrow> Inl e
                    | Inr st \<Rightarrow> flag_Parse flags args st)
               | None \<Rightarrow>
                   (case args of
                      [] \<Rightarrow> Inl (NewErr (''flag needs an argument: -'' @ name))
                    | v # rest \<Rightarrow>
                        (case set_value (f v) name v st of
                           Inl e \<Rightarrow> Inl e
                         | Inr st \<Rightarrow> flag_Parse flags rest st))))"

section \<open>Lemmas\<close>

text \<open>An integer as Go prints it is read back.\<close>

lemma is_digit_nat: "is_digit c \<longleftrightarrow> 48 \<le> (of_char c :: nat) \<and> (of_char c :: nat) \<le> 57"
proof -
  have "(of_char c :: int) = int (of_char c :: nat)" by (metis of_nat_of_char)
  then show ?thesis unfolding is_digit_def by linarith
qed

lemma lower_char_digit: "is_digit c \<Longrightarrow> lower_char c = c"
  by (simp add: is_digit_nat lower_char_def Let_def)

lemma alnum_val_digit: "is_digit c \<Longrightarrow> alnum_val c = Some (digit_val c)"
  by (simp add: alnum_val_def lower_char_digit Let_def) (simp add: is_digit_def digit_val_def)

lemma digit_val_bounds: "is_digit c \<Longrightarrow> 0 \<le> digit_val c \<and> digit_val c < 10"
  by (simp add: is_digit_def digit_val_def)

lemma digits_not_underscore: "is_digit c \<Longrightarrow> c \<noteq> CHR ''_''"
  by (auto simp: is_digit_def)

lemma digits_grow:
  "list_all is_digit s \<Longrightarrow> 0 \<le> n \<Longrightarrow> n \<le> foldl (\<lambda>n c. 10 * n + digit_val c) n s"
proof (induction s arbitrary: n)
  case (Cons c s)
  then have "0 \<le> 10 * n + digit_val c" "n \<le> 10 * n + digit_val c" using digit_val_bounds [of c] by simp_all
  then show ?case using Cons.IH [of "10 * n + digit_val c"] Cons.prems(1) by simp
qed simp

lemma based_digits_decimal:
  "list_all is_digit s \<Longrightarrow> 0 \<le> n \<Longrightarrow> foldl (\<lambda>n c. 10 * n + digit_val c) n s \<le> max_uint \<Longrightarrow>
   based_digits 10 n s = Inr (foldl (\<lambda>n c. 10 * n + digit_val c) n s)"
proof (induction s arbitrary: n)
  case (Cons c s)
  let ?n = "10 * n + digit_val c"
  have c: "is_digit c" "list_all is_digit s" using Cons.prems(1) by simp_all
  have n: "0 \<le> ?n" using digit_val_bounds [OF c(1)] Cons.prems(2) by simp
  then have "?n \<le> max_uint" using digits_grow [OF c(2) n] Cons.prems(3) by simp
  with Cons.IH [OF c(2) n] Cons.prems(3) show ?case
    using digit_val_bounds [OF c(1)] digits_not_underscore [OF c(1)] by (simp add: alnum_val_digit [OF c(1)])
qed simp

lemma digits_of_leading:
  "0 < n \<Longrightarrow> \<exists>c r. digits_of n = c # r \<and> c \<noteq> CHR ''0''"
proof (induction n rule: digits_of.induct)
  case (1 n)
  show ?case
  proof (cases "n < 10")
    case True
    have "digit_char n \<noteq> CHR ''0''"
    proof
      assume "digit_char n = CHR ''0''"
      then have "(of_char (digit_char n) :: int) = 48" by simp
      with 1(2) True of_char_digit [of n] show False by simp
    qed
    with True show ?thesis by (simp add: digits_of.simps [of n])
  next
    case False
    then have "0 < n div 10" by (simp add: pos_imp_zdiv_pos_iff)
    with 1(1) False obtain c r where "digits_of (n div 10) = c # r" "c \<noteq> CHR ''0''" by blast
    then show ?thesis using False by (simp add: digits_of.simps [of n])
  qed
qed

lemma parse_unsigned0_digits:
  assumes "0 \<le> n" and "n \<le> max_uint"
  shows "parse_unsigned0 (digits_of n) = Inr n"
proof (cases "n = 0")
  case True
  have "parse_unsigned0 (digits_of 0) = Inr 0" by code_simp
  with True show ?thesis by simp
next
  case False
  with assms(1) obtain c r where cr: "digits_of n = c # r" "c \<noteq> CHR ''0''"
    using digits_of_leading [of n] by auto
  have all: "list_all is_digit (digits_of n)" using assms(1) by (rule digits_of_all)
  have "based_digits 10 0 (digits_of n) = Inr (digits_val (digits_of n))"
    unfolding digits_val_def
    by (rule based_digits_decimal [OF all])
      (use digits_val_digits_of [OF assms(1)] assms(2) in \<open>simp_all add: digits_val_def\<close>)
  moreover have "base_prefix (digits_of n) = None" using cr by (simp add: base_prefix_def split: list.split)
  moreover have "CHR ''_'' \<notin> set (digits_of n)"
    using all digits_not_underscore by (auto simp: list_all_iff)
  ultimately show ?thesis
    using cr digits_val_digits_of [OF assms(1)]
    by (simp add: parse_unsigned0_def Let_def del: based_digits.simps digits_val_digits_of)
qed

lemma parse_int0_itoa:
  assumes "in_int64 n"
  shows "parse_int0 (itoa n) = Inr n"
proof -
  have b: "\<bar>n\<bar> \<le> max_uint"
    using assms by (auto simp: in_int64_def max_uint_def min_int_def max_int_def abs_le_iff)
  show ?thesis
  proof (cases "n < 0")
    case True
    then show ?thesis using b assms parse_unsigned0_digits [of "- n"] by (simp add: parse_int0_def itoa_def)
  next
    case False
    then obtain c r where "digits_of n = c # r" "c \<noteq> CHR ''-''" "c \<noteq> CHR ''+''"
      using digits_of_head [of n] digits_of_nonempty [of n] by (cases "digits_of n") auto
    with False b assms parse_unsigned0_digits [of n] show ?thesis by (simp add: parse_int0_def itoa_def)
  qed
qed

text \<open>A flag given as \<open>-name=value\<close> or as \<open>-name value\<close> sets its option, and parsing goes on behind it.\<close>

lemma split_assign_name: "CHR ''='' \<notin> set name \<Longrightarrow> split_assign (name @ CHR ''='' # v) = (name, Some v)"
  by (induction name) auto

lemma split_assign_bare: "CHR ''='' \<notin> set name \<Longrightarrow> split_assign name = (name, None)"
  by (induction name) auto

definition flag_named :: "string \<Rightarrow> bool" where
  "flag_named name \<longleftrightarrow> name \<noteq> [] \<and> CHR ''='' \<notin> set name \<and> hd name \<noteq> CHR ''-''"

lemma flag_Parse_value:
  assumes "flag_named name" and "map_of flags name = Some (ValueFlag f)" and "f v st = Inr st'"
  shows "flag_Parse flags ((CHR ''-'' # name @ CHR ''='' # v) # args) st = flag_Parse flags args st'"
    and "flag_Parse flags ((CHR ''-'' # name) # v # args) st = flag_Parse flags args st'"
proof -
  obtain c r where name: "name = c # r" "c \<noteq> CHR ''-''" "c \<noteq> CHR ''=''"
    using assms(1) by (cases name) (auto simp: flag_named_def)
  have eq: "CHR ''='' \<notin> set name" using assms(1) by (simp add: flag_named_def)
  show "flag_Parse flags ((CHR ''-'' # name @ CHR ''='' # v) # args) st = flag_Parse flags args st'"
    using name assms(2,3) split_assign_name [OF eq, of v] by (simp add: set_value_def)
  show "flag_Parse flags ((CHR ''-'' # name) # v # args) st = flag_Parse flags args st'"
    using name assms(2,3) split_assign_bare [OF eq] by (simp add: set_value_def)
qed

end
