(* ===== verification/Config.thy ===== *)
theory Config
  imports RoutingStore Json
begin

text \<open>
  \<open>internal/config/config.go\<close> and the configuration reader the repository builds it with,
  \<open>third_party/viper\<close>: defaults, a file in a subset of YAML, overrides from the environment, and the
  struct they are decoded into through JSON.

  The values of Go's \<open>any\<close> are those of JSON, with an association list of distinct keys for a map. A
  number in a JSON list is a \<open>float64\<close> in between, which prints an integer up to \<open>2 ^ 53\<close> as it is; for
  other literals the model keeps the text. Letter case is that of ASCII.
\<close>

type_synonym object = "(string \<times> json) list"

section \<open>Maps of maps\<close>

fun assign_parts :: "object \<Rightarrow> string list \<Rightarrow> json \<Rightarrow> object" where
  "assign_parts values [] v = values"
| "assign_parts values [part] v = AList.update part v values"
| "assign_parts values (part # next_part # parts) v =
     (let current = (case map_of values part of Some (JObj ms) \<Rightarrow> ms | _ \<Rightarrow> [])
      in AList.update part (JObj (assign_parts current (next_part # parts) v)) values)"

definition assignNestedValue :: "object \<Rightarrow> string \<Rightarrow> json \<Rightarrow> object" where
  "assignNestedValue values path v = assign_parts values (split_char CHR ''.'' path) v"

text \<open>Both maps survive only where they meet; anything else in \<open>src\<close> replaces what \<open>dst\<close> has.\<close>

function deepMerge :: "object \<Rightarrow> object \<Rightarrow> object" where
  "deepMerge dst [] = dst"
| "deepMerge dst ((key, v) # src) =
     (let merged = (case v of
          JObj s \<Rightarrow> (case map_of dst key of Some (JObj d) \<Rightarrow> JObj (deepMerge d s) | _ \<Rightarrow> v)
        | _ \<Rightarrow> v)
      in deepMerge (AList.update key merged dst) src)"
  by pat_completeness auto
termination
  by (relation "measure (\<lambda>(d, s). size_list (size_prod (\<lambda>_. 0) size) s)") auto

section \<open>Scalars\<close>

definition trim_quotes :: "string \<Rightarrow> string" where
  "trim_quotes s = rev (dropWhile (\<lambda>c. c = CHR 0x22) (rev (dropWhile (\<lambda>c. c = CHR 0x22) s)))"

definition json_list :: "string \<Rightarrow> json option" where
  "json_list s =
     (if has_prefix s ''['' \<and> has_prefix (rev s) '']''
      then case unmarshal s of Inr v \<Rightarrow> Some v | Inl _ \<Rightarrow> None
      else None)"

definition parseScalar :: "string \<Rightarrow> json" where
  "parseScalar v =
     (let unquoted = trim_quotes v in
      case json_list unquoted of
        Some parsed \<Rightarrow> parsed
      | None \<Rightarrow>
          (case atoi unquoted of
             Some intValue \<Rightarrow> num intValue
           | None \<Rightarrow>
               (if to_lower unquoted = ''true'' then JBool True
                else if to_lower unquoted = ''false'' then JBool False
                else JStr unquoted)))"

definition parseOverrideValue :: "string \<Rightarrow> json \<Rightarrow> json" where
  "parseOverrideValue v existing =
     (case existing of
        JArr _ \<Rightarrow>
          (let trimmed = trim_space v in
           if trimmed = [] then JArr []
           else case json_list trimmed of
             Some parsed \<Rightarrow> parsed
           | None \<Rightarrow> JArr (map JStr (filter (\<lambda>item. item \<noteq> []) (map trim_space (split_char CHR '','' trimmed)))))
      | _ \<Rightarrow> parseScalar v)"

section \<open>The file\<close>

definition countLeadingSpaces :: "string \<Rightarrow> nat" where
  "countLeadingSpaces line = length (takeWhile (\<lambda>c. c = CHR '' '') line)"

definition line_error :: "string \<Rightarrow> string \<Rightarrow> err" where
  "line_error what rawLine = NewErr (what @ '': '' @ go_quote rawLine)"

text \<open>
  The stack of maps is the path of the keys that lead to its top: a map on the stack is always the one
  that its path leads to, since a key is only assigned in the map on top, and what was above is dropped
  first.
\<close>

fun parse_lines :: "string list \<Rightarrow> string list \<Rightarrow> object \<Rightarrow> object res" where
  "parse_lines [] path root = Inr root"
| "parse_lines (rawLine # rest) path root =
     (let line = rev (dropWhile (\<lambda>c. c = CHR '' '' \<or> c = CHR 0x09) (rev rawLine));
          trimmed = trim_space line
      in if trimmed = [] \<or> has_prefix trimmed ''#'' then parse_lines rest path root
      else
        let indent = countLeadingSpaces line;
            level = indent div 2
        in if indent mod 2 \<noteq> 0 then Inl (line_error ''invalid indentation'' rawLine)
        else if length path < level then Inl (line_error ''invalid nesting'' rawLine)
        else
          let path = take level path in
          case split_n2 CHR '':'' trimmed of
            [k, v] \<Rightarrow>
              (let key = trim_space k; v = trim_space v in
               if v = [] then parse_lines rest (path @ [key]) (assign_parts root (path @ [key]) (JObj []))
               else parse_lines rest path (assign_parts root (path @ [key]) (parseScalar v)))
          | _ \<Rightarrow> Inl (line_error ''invalid line'' rawLine))"

definition parseSimpleYAML :: "string \<Rightarrow> object res" where
  "parseSimpleYAML content = parse_lines (split_char (CHR 0x0A) content) [] []"

section \<open>The environment\<close>

definition upper_char :: "char \<Rightarrow> char" where
  "upper_char c = (let n = of_char c :: nat in if 97 \<le> n \<and> n \<le> 122 then char_of (n - 32) else c)"

definition env_key :: "string \<Rightarrow> char \<Rightarrow> string \<Rightarrow> string \<Rightarrow> string" where
  "env_key envPrefix from_char to_text path =
     (let k = map upper_char (replace_char from_char to_text path)
      in if envPrefix \<noteq> [] then envPrefix @ ''_'' @ k else k)"

function applyEnvOverrides :: "(string \<Rightarrow> string option) \<Rightarrow> (string \<Rightarrow> string) \<Rightarrow> string \<Rightarrow> object \<Rightarrow> object" where
  "applyEnvOverrides env envKey prefix [] = []"
| "applyEnvOverrides env envKey prefix ((key, v) # values) =
     (let path = (if prefix \<noteq> [] then prefix @ ''.'' @ key else key);
          nested = (case v of JObj ms \<Rightarrow> JObj (applyEnvOverrides env envKey path ms) | _ \<Rightarrow> v);
          overridden = (case env (envKey path) of Some envValue \<Rightarrow> parseOverrideValue envValue v | None \<Rightarrow> nested)
      in (key, overridden) # applyEnvOverrides env envKey prefix values)"
  by pat_completeness auto
termination
  by (relation "measure (\<lambda>(e, k, p, s). size_list (size_prod (\<lambda>_. 0) size) s)") auto

section \<open>The reader\<close>

text \<open>
  \<open>readFile\<close> gives \<open>None\<close> for a file that does not exist. \<open>filepath.Join\<close> also shortens the path,
  which names the same file.
\<close>

record viper =
  vi_config_name :: string
  vi_config_type :: string
  vi_config_paths :: "string list"
  vi_env_prefix :: string
  vi_env_replacer :: "(char \<times> string) option"
  vi_auto_env :: bool
  vi_defaults :: object
  vi_values :: object

definition viper_New :: viper where
  "viper_New =
     \<lparr>vi_config_name = [], vi_config_type = [], vi_config_paths = [], vi_env_prefix = [],
      vi_env_replacer = None, vi_auto_env = False, vi_defaults = [], vi_values = []\<rparr>"

definition SetDefault :: "string \<times> json \<Rightarrow> viper \<Rightarrow> viper" where
  "SetDefault kv v = v\<lparr>vi_defaults := assignNestedValue (vi_defaults v) (fst kv) (snd kv)\<rparr>"

fun read_paths :: "(string \<Rightarrow> string res option) \<Rightarrow> string \<Rightarrow> string list \<Rightarrow> object option res" where
  "read_paths readFile filename [] = Inr None"
| "read_paths readFile filename (configPath # paths) =
     (case readFile (configPath @ ''/'' @ filename) of
        None \<Rightarrow> read_paths readFile filename paths
      | Some (Inl e) \<Rightarrow> Inl e
      | Some (Inr data) \<Rightarrow>
          (case parseSimpleYAML data of Inl e \<Rightarrow> Inl e | Inr values \<Rightarrow> Inr (Some values)))"

text \<open>\<open>Inr None\<close> stands for \<open>ConfigFileNotFoundError\<close>, which leaves the reader as it is.\<close>

definition ReadInConfig :: "(string \<Rightarrow> string res option) \<Rightarrow> viper \<Rightarrow> viper option res" where
  "ReadInConfig readFile v =
     (let filename = (if vi_config_type v \<noteq> [] then vi_config_name v @ ''.'' @ vi_config_type v
                      else vi_config_name v)
      in case read_paths readFile filename (vi_config_paths v) of
           Inl e \<Rightarrow> Inl e
         | Inr None \<Rightarrow> Inr None
         | Inr (Some values) \<Rightarrow> Inr (Some (v\<lparr>vi_values := values\<rparr>)))"

definition override_key :: "viper \<Rightarrow> string \<Rightarrow> string" where
  "override_key v = (\<lambda>path. case vi_env_replacer v of
     Some (c, r) \<Rightarrow> env_key (vi_env_prefix v) c r path
   | None \<Rightarrow> env_key (vi_env_prefix v) (CHR ''.'') ''.'' path)"

definition merged_values :: "(string \<Rightarrow> string option) \<Rightarrow> viper \<Rightarrow> object" where
  "merged_values env v =
     (let merged = deepMerge (vi_defaults v) (vi_values v)
      in if vi_auto_env v then applyEnvOverrides env (override_key v) [] merged else merged)"

text \<open>\<open>json.Marshal\<close> writes the members of a map in the order of their keys.\<close>

fun sort_members :: "json \<Rightarrow> json" where
  "sort_members (JObj ms) = JObj (sort_key fst (map (\<lambda>(k, v). (k, sort_members v)) ms))"
| "sort_members (JArr vs) = JArr (map sort_members vs)"
| "sort_members v = v"

definition viper_Unmarshal ::
    "(string \<Rightarrow> string option) \<Rightarrow> viper \<Rightarrow> (object \<Rightarrow> 'a res) \<Rightarrow> 'a res" where
  "viper_Unmarshal env v dec =
     and_then (unmarshal (encode (sort_members (JObj (merged_values env v))))) (decode_struct dec)"

section \<open>The configuration\<close>

record server_config =
  sc_address :: string
  sc_read_header_timeout_seconds :: int
  sc_read_timeout_seconds :: int
  sc_write_timeout_seconds :: int
  sc_idle_timeout_seconds :: int
  sc_max_request_body_bytes :: int

record redis_settings =
  rs_address :: string
  rs_password :: string
  rs_db :: int

record gateway_config =
  gc_default_model :: string
  gc_provider_failure_threshold :: int
  gc_provider_cooldown_seconds :: int
  gc_provider_probe_interval_seconds :: int
  gc_primary_mock_fail_create :: bool
  gc_primary_mock_fail_stream :: bool

record observability_config =
  ob_service_name :: string
  ob_otlp_traces_endpoint :: string
  ob_otlp_traces_insecure :: bool
  ob_otlp_export_timeout_seconds :: int

record config =
  cf_server :: server_config
  cf_log_level :: string
  cf_mysql_dsn :: string
  cf_redis :: redis_settings
  cf_gateway :: gateway_config
  cf_provider :: provider_config
  cf_observability :: observability_config

text \<open>The fields by their JSON names.\<close>

fun decode_strings :: "string \<Rightarrow> json list \<Rightarrow> string list res" where
  "decode_strings name [] = Inr []"
| "decode_strings name (v # vs) =
     and_then (case v of JStr s \<Rightarrow> Inr s | JNull \<Rightarrow> Inr [] | _ \<Rightarrow> Inl (type_error name)) (\<lambda>s.
     and_then (decode_strings name vs) (\<lambda>ss. Inr (s # ss)))"

definition strings_field :: "string \<Rightarrow> object \<Rightarrow> string list res" where
  "strings_field name =
     read_field name (\<lambda>v _. case v of JArr vs \<Rightarrow> decode_strings name vs | _ \<Rightarrow> Inl (type_error name)) []"

definition dec_server_config :: "object \<Rightarrow> server_config res" where
  "dec_server_config ms =
     and_then (string_field ''address'' ms) (\<lambda>a.
     and_then (int_field ''read_header_timeout_seconds'' ms) (\<lambda>b.
     and_then (int_field ''read_timeout_seconds'' ms) (\<lambda>c.
     and_then (int_field ''write_timeout_seconds'' ms) (\<lambda>d.
     and_then (int_field ''idle_timeout_seconds'' ms) (\<lambda>e.
     and_then (int_field ''max_request_body_bytes'' ms) (\<lambda>f.
       Inr \<lparr>sc_address = a, sc_read_header_timeout_seconds = b, sc_read_timeout_seconds = c,
            sc_write_timeout_seconds = d, sc_idle_timeout_seconds = e, sc_max_request_body_bytes = f\<rparr>))))))"

definition dec_redis_settings :: "object \<Rightarrow> redis_settings res" where
  "dec_redis_settings ms =
     and_then (string_field ''address'' ms) (\<lambda>a.
     and_then (string_field ''password'' ms) (\<lambda>b.
     and_then (int_field ''db'' ms) (\<lambda>c. Inr \<lparr>rs_address = a, rs_password = b, rs_db = c\<rparr>)))"

definition dec_gateway_config :: "object \<Rightarrow> gateway_config res" where
  "dec_gateway_config ms =
     and_then (string_field ''default_model'' ms) (\<lambda>a.
     and_then (int_field ''provider_failure_threshold'' ms) (\<lambda>b.
     and_then (int_field ''provider_cooldown_seconds'' ms) (\<lambda>c.
     and_then (int_field ''provider_probe_interval_seconds'' ms) (\<lambda>d.
     and_then (bool_field ''primary_mock_fail_create'' ms) (\<lambda>e.
     and_then (bool_field ''primary_mock_fail_stream'' ms) (\<lambda>f.
       Inr \<lparr>gc_default_model = a, gc_provider_failure_threshold = b, gc_provider_cooldown_seconds = c,
            gc_provider_probe_interval_seconds = d, gc_primary_mock_fail_create = e,
            gc_primary_mock_fail_stream = f\<rparr>))))))"

definition dec_endpoint :: "object \<Rightarrow> provider_endpoint_config res" where
  "dec_endpoint ms =
     and_then (string_field ''type'' ms) (\<lambda>a.
     and_then (string_field ''name'' ms) (\<lambda>b.
     and_then (string_field ''base_url'' ms) (\<lambda>c.
     and_then (string_field ''api_key'' ms) (\<lambda>d.
     and_then (string_field ''model'' ms) (\<lambda>e.
     and_then (strings_field ''models'' ms) (\<lambda>f.
     and_then (int_field ''max_tokens'' ms) (\<lambda>g.
     and_then (int_field ''priority'' ms) (\<lambda>h.
     and_then (int_field ''timeout_seconds'' ms) (\<lambda>i.
     and_then (int_field ''max_retries'' ms) (\<lambda>j.
     and_then (int_field ''retry_backoff_milliseconds'' ms) (\<lambda>k.
       Inr \<lparr>pe_type = a, pe_name = b, pe_base_url = c, pe_api_key = d, pe_model = e, pe_models = f,
            pe_max_tokens = g, pe_priority = h, pe_timeout_seconds = i, pe_max_retries = j,
            pe_retry_backoff_milliseconds = k\<rparr>)))))))))))"

definition zero_endpoint :: provider_endpoint_config where
  "zero_endpoint =
     \<lparr>pe_type = [], pe_name = [], pe_base_url = [], pe_api_key = [], pe_model = [], pe_models = [],
      pe_max_tokens = 0, pe_priority = 0, pe_timeout_seconds = 0, pe_max_retries = 0,
      pe_retry_backoff_milliseconds = 0\<rparr>"

definition dec_provider_config :: "object \<Rightarrow> provider_config res" where
  "dec_provider_config ms =
     and_then (list_field ''backends'' dec_endpoint ms) (\<lambda>a.
     and_then (struct_field ''primary'' dec_endpoint zero_endpoint ms) (\<lambda>b.
     and_then (struct_field ''secondary'' dec_endpoint zero_endpoint ms) (\<lambda>c.
       Inr \<lparr>pc_backends = a, pc_primary = b, pc_secondary = c\<rparr>)))"

definition dec_observability_config :: "object \<Rightarrow> observability_config res" where
  "dec_observability_config ms =
     and_then (string_field ''service_name'' ms) (\<lambda>a.
     and_then (string_field ''otlp_traces_endpoint'' ms) (\<lambda>b.
     and_then (bool_field ''otlp_traces_insecure'' ms) (\<lambda>c.
     and_then (int_field ''otlp_export_timeout_seconds'' ms) (\<lambda>d.
       Inr \<lparr>ob_service_name = a, ob_otlp_traces_endpoint = b, ob_otlp_traces_insecure = c,
            ob_otlp_export_timeout_seconds = d\<rparr>))))"

definition dec_config :: "object \<Rightarrow> config res" where
  "dec_config ms =
     and_then (struct_field ''server'' dec_server_config
       \<lparr>sc_address = [], sc_read_header_timeout_seconds = 0, sc_read_timeout_seconds = 0,
        sc_write_timeout_seconds = 0, sc_idle_timeout_seconds = 0, sc_max_request_body_bytes = 0\<rparr> ms) (\<lambda>a.
     and_then (struct_field ''log'' (string_field ''level'') [] ms) (\<lambda>b.
     and_then (struct_field ''mysql'' (string_field ''dsn'') [] ms) (\<lambda>c.
     and_then (struct_field ''redis'' dec_redis_settings \<lparr>rs_address = [], rs_password = [], rs_db = 0\<rparr> ms) (\<lambda>d.
     and_then (struct_field ''gateway'' dec_gateway_config
       \<lparr>gc_default_model = [], gc_provider_failure_threshold = 0, gc_provider_cooldown_seconds = 0,
        gc_provider_probe_interval_seconds = 0, gc_primary_mock_fail_create = False,
        gc_primary_mock_fail_stream = False\<rparr> ms) (\<lambda>e.
     and_then (struct_field ''provider'' dec_provider_config
       \<lparr>pc_backends = [], pc_primary = zero_endpoint, pc_secondary = zero_endpoint\<rparr> ms) (\<lambda>f.
     and_then (struct_field ''observability'' dec_observability_config
       \<lparr>ob_service_name = [], ob_otlp_traces_endpoint = [], ob_otlp_traces_insecure = False,
        ob_otlp_export_timeout_seconds = 0\<rparr> ms) (\<lambda>g.
       Inr \<lparr>cf_server = a, cf_log_level = b, cf_mysql_dsn = c, cf_redis = d, cf_gateway = e,
            cf_provider = f, cf_observability = g\<rparr>)))))))"

definition default_values :: "(string \<times> json) list" where
  "default_values =
     [(''server.address'', JStr '':8080''),
      (''server.read_header_timeout_seconds'', num 5),
      (''server.read_timeout_seconds'', num 15),
      (''server.write_timeout_seconds'', num 60),
      (''server.idle_timeout_seconds'', num 60),
      (''server.max_request_body_bytes'', num 1048576),
      (''log.level'', JStr ''info''),
      (''mysql.dsn'', JStr []),
      (''redis.address'', JStr []),
      (''redis.password'', JStr []),
      (''redis.db'', num 0),
      (''gateway.default_model'', JStr ''gpt-4o-mini''),
      (''gateway.provider_failure_threshold'', num 1),
      (''gateway.provider_cooldown_seconds'', num 30),
      (''gateway.provider_probe_interval_seconds'', num 30),
      (''gateway.primary_mock_fail_create'', JBool False),
      (''gateway.primary_mock_fail_stream'', JBool False),
      (''provider.primary.type'', JStr ''mock''),
      (''provider.primary.name'', JStr ''primary''),
      (''provider.primary.base_url'', JStr []),
      (''provider.primary.api_key'', JStr []),
      (''provider.primary.model'', JStr []),
      (''provider.primary.models'', JArr []),
      (''provider.primary.max_tokens'', num 1024),
      (''provider.primary.priority'', num 100),
      (''provider.primary.timeout_seconds'', num 15),
      (''provider.primary.max_retries'', num 1),
      (''provider.primary.retry_backoff_milliseconds'', num 200),
      (''provider.secondary.type'', JStr ''mock''),
      (''provider.secondary.name'', JStr ''secondary''),
      (''provider.secondary.base_url'', JStr []),
      (''provider.secondary.api_key'', JStr []),
      (''provider.secondary.model'', JStr []),
      (''provider.secondary.models'', JArr []),
      (''provider.secondary.max_tokens'', num 1024),
      (''provider.secondary.priority'', num 200),
      (''provider.secondary.timeout_seconds'', num 15),
      (''provider.secondary.max_retries'', num 1),
      (''provider.secondary.retry_backoff_milliseconds'', num 200),
      (''observability.service_name'', JStr ''llm-access-gateway''),
      (''observability.otlp_traces_endpoint'', JStr []),
      (''observability.otlp_traces_insecure'', JBool False),
      (''observability.otlp_export_timeout_seconds'', num 5)]"

definition setDefaults :: "viper \<Rightarrow> viper" where
  "setDefaults v = fold SetDefault default_values v"

definition config_reader :: viper where
  "config_reader = setDefaults (viper_New
     \<lparr>vi_config_name := ''config'', vi_config_type := ''yaml'', vi_config_paths := [''configs''],
      vi_env_prefix := ''APP'', vi_env_replacer := Some (CHR ''.'', ''_''), vi_auto_env := True\<rparr>)"

definition Load :: "(string \<Rightarrow> string res option) \<Rightarrow> (string \<Rightarrow> string option) \<Rightarrow> config res" where
  "Load readFile env =
     (case ReadInConfig readFile config_reader of
        Inl e \<Rightarrow> Inl e
      | Inr None \<Rightarrow> viper_Unmarshal env config_reader dec_config
      | Inr (Some v) \<Rightarrow> viper_Unmarshal env v dec_config)"

end
