(* ===== verification/Commands.thy ===== *)
theory Commands
  imports Flags Config
begin

text \<open>
  The two commands that write the database the gateway reads: \<open>cmd/devinit/main.go\<close>, which seeds a tenant
  with its key, limits and routing rules, and \<open>cmd/routerulectl/main.go\<close>, which lists and replaces the
  routing rules. A command gives its result, what it has printed and the database; \<open>main\<close> prints the error
  and exits with 1 when the result is one. \<open>sqlOpen\<close> is the driver's check of the data source name.
\<close>

type_synonym command = "db \<Rightarrow> (unit res \<times> string) \<times> db"

definition failed_command :: "err \<Rightarrow> command" where
  "failed_command e d = ((Inl e, []), d)"

text \<open>A step of a command whose error is wrapped with \<open>what\<close>.\<close>

definition command_step :: "string \<Rightarrow> (db \<Rightarrow> 'a res \<times> db) \<Rightarrow> ('a \<Rightarrow> command) \<Rightarrow> command" where
  "command_step what m f d =
     (case m d of (Inl e, d) \<Rightarrow> failed_command (WrapErr what e) d | (Inr x, d) \<Rightarrow> f x d)"

definition command_print :: "string \<Rightarrow> command \<Rightarrow> command" where
  "command_print out m d = (let ((r, rest), d) = m d in ((r, out @ rest), d))"

definition line_break :: string where
  "line_break = [CHR 0x0A]"

section \<open>devinit\<close>

record seed_limits =
  sl_rpm_limit :: int
  sl_tpm_limit :: int
  sl_token_budget :: int

definition defaultRPMSeedLimit :: int where "defaultRPMSeedLimit = 60"
definition defaultTPMSeedLimit :: int where "defaultTPMSeedLimit = 4000"
definition defaultTokenSeedBudget :: int where "defaultTokenSeedBudget = 1000000"

definition devinit_flags :: "seed_limits flag_set" where
  "devinit_flags =
     [(''rpm-limit'', IntVar (\<lambda>n l. l\<lparr>sl_rpm_limit := n\<rparr>)),
      (''tpm-limit'', IntVar (\<lambda>n l. l\<lparr>sl_tpm_limit := n\<rparr>)),
      (''token-budget'', IntVar (\<lambda>n l. l\<lparr>sl_token_budget := n\<rparr>))]"

definition devinit_parseFlags :: "string list \<Rightarrow> seed_limits res" where
  "devinit_parseFlags args =
     (case flag_Parse devinit_flags args
             \<lparr>sl_rpm_limit = defaultRPMSeedLimit, sl_tpm_limit = defaultTPMSeedLimit,
              sl_token_budget = defaultTokenSeedBudget\<rparr> of
        Inl e \<Rightarrow> Inl e
      | Inr (_, limits) \<Rightarrow>
          if sl_rpm_limit limits < 0 then Inl (NewErr ''-rpm-limit must be >= 0'')
          else if sl_tpm_limit limits < 0 then Inl (NewErr ''-tpm-limit must be >= 0'')
          else if sl_token_budget limits < 0 then Inl (NewErr ''-token-budget must be >= 0'')
          else Inr limits)"

definition limit_tenant :: "(string \<Rightarrow> string) \<Rightarrow> string \<Rightarrow> seed_limits \<Rightarrow> tenant_row \<Rightarrow> tenant_row" where
  "limit_tenant coll tenantName limits t =
     (if coll (t_name t) = coll tenantName
      then t\<lparr>t_rpm_limit := sl_rpm_limit limits, t_tpm_limit := sl_tpm_limit limits,
             t_token_budget := sl_token_budget limits\<rparr>
      else t)"

definition updateDevelopmentTenantLimits ::
    "(string \<Rightarrow> string) \<Rightarrow> string \<Rightarrow> seed_limits \<Rightarrow> db \<Rightarrow> unit res \<times> db" where
  "updateDevelopmentTenantLimits coll tenantName limits =
     db_exec (\<lambda>d. ((), d\<lparr>tenants := map (limit_tenant coll tenantName limits) (tenants d)\<rparr>))"

definition devinit_printed :: "development_seed \<Rightarrow> seed_limits \<Rightarrow> nat \<Rightarrow> string" where
  "devinit_printed seed limits ruleCount =
     concat (map (\<lambda>l. l @ line_break)
       [''development auth seed ready'', ''tenant='' @ seed_tenant_name seed, ''api_key='' @ seed_api_key seed,
        ''rpm_limit='' @ itoa (sl_rpm_limit limits), ''tpm_limit='' @ itoa (sl_tpm_limit limits),
        ''token_budget='' @ itoa (sl_token_budget limits), ''route_rules='' @ itoa (int ruleCount)])"

definition devinit_main ::
    "(string \<Rightarrow> string) \<Rightarrow> (string \<Rightarrow> unit res) \<Rightarrow> config res \<Rightarrow> string list \<Rightarrow> command" where
  "devinit_main coll sqlOpen loaded args =
     (case devinit_parseFlags args of
        Inl e \<Rightarrow> failed_command (WrapErr ''parse flags'' e)
      | Inr limits \<Rightarrow>
          (case loaded of
             Inl e \<Rightarrow> failed_command (WrapErr ''load config'' e)
           | Inr cfg \<Rightarrow>
               if cf_mysql_dsn cfg = [] then failed_command (NewErr ''APP_MYSQL_DSN is required'')
               else case sqlOpen (cf_mysql_dsn cfg) of
                 Inl e \<Rightarrow> failed_command (WrapErr ''open mysql'' e)
               | Inr _ \<Rightarrow>
                   command_step ''seed development data'' (SeedDevelopmentData coll) (\<lambda>seed.
                   command_step ''update tenant limits''
                     (updateDevelopmentTenantLimits coll (seed_tenant_name seed) limits) (\<lambda>_.
                   let routeRules = DesiredRouteRuleSeeds (cf_provider cfg) in
                   command_step ''replace route rules'' (ReplaceRouteRules coll routeRules) (\<lambda>_ d.
                   ((Inr (), devinit_printed seed limits (length routeRules)), d))))))"

section \<open>routerulectl\<close>

definition print_rule :: "route_rule_record \<Rightarrow> string" where
  "print_rule r =
     ''backend='' @ rrec_backend_name r @ '' model='' @ rrec_model r @ '' priority='' @ itoa (rrec_priority r) @
     '' enabled='' @ (if rrec_enabled r then ''true'' else ''false'') @ line_break"

definition listRouteRules :: "(string \<Rightarrow> string) \<Rightarrow> command" where
  "listRouteRules coll =
     command_step ''list route rules'' (ListRouteRules coll) (\<lambda>rules d.
       ((Inr (), if length rules = 0 then ''route rules: empty'' @ line_break
                 else concat (map print_rule rules)), d))"

text \<open>\<open>multiValueFlag\<close>: every \<open>-rule\<close> adds a value.\<close>

definition replace_flags :: "string list flag_set" where
  "replace_flags = [(''rule'', StringVar (\<lambda>v values. values @ [v]))]"

definition routerulectl_parseReplaceArgs :: "string list \<Rightarrow> route_rule_record list res" where
  "routerulectl_parseReplaceArgs args =
     (case flag_Parse replace_flags args [] of
        Inl e \<Rightarrow> Inl (WrapErr ''parse replace flags'' e)
      | Inr (_, ruleSpecs) \<Rightarrow> parseReplaceArgs ruleSpecs)"

definition routerulectl_run ::
    "(string \<Rightarrow> string) \<Rightarrow> (string \<Rightarrow> unit res) \<Rightarrow> config res \<Rightarrow> string list \<Rightarrow> command" where
  "routerulectl_run coll sqlOpen loaded args =
     (case args of
        [] \<Rightarrow> failed_command (NewErr ''usage: routerulectl <list|replace|sync-from-config>'')
      | subcommand # rest \<Rightarrow>
          (case loaded of
             Inl e \<Rightarrow> failed_command (WrapErr ''load config'' e)
           | Inr cfg \<Rightarrow>
               if cf_mysql_dsn cfg = [] then failed_command (NewErr ''APP_MYSQL_DSN is required'')
               else case sqlOpen (cf_mysql_dsn cfg) of
                 Inl e \<Rightarrow> failed_command (WrapErr ''open mysql'' e)
               | Inr _ \<Rightarrow>
                   command_step ''ensure schema'' EnsureSchema (\<lambda>_.
                   if subcommand = ''list'' then listRouteRules coll
                   else if subcommand = ''replace''
                   then
                     (case routerulectl_parseReplaceArgs rest of
                        Inl e \<Rightarrow> failed_command e
                      | Inr rules \<Rightarrow>
                          command_step ''replace route rules'' (ReplaceRouteRules coll rules) (\<lambda>_.
                          command_print (''route rules replaced count='' @ itoa (int (length rules)) @ line_break)
                            (listRouteRules coll)))
                   else if subcommand = ''sync-from-config''
                   then
                     let rules = DesiredRouteRuleSeeds (cf_provider cfg) in
                     command_step ''sync route rules from config'' (ReplaceRouteRules coll rules) (\<lambda>_.
                     command_print (''route rules synced from config count='' @ itoa (int (length rules)) @ line_break)
                       (listRouteRules coll))
                   else failed_command (NewErr (''unknown subcommand '' @ go_quote subcommand)))))"

end
