(* ===== verification/ConfigFacts.thy ===== *)
theory ConfigFacts
  imports Config JsonFacts
begin

text \<open>
  What a setting is after defaults, file and environment are put together: a path is looked up in the
  merged maps by its parts.
\<close>

section \<open>Looking up a path\<close>

fun lookup_path :: "object \<Rightarrow> string list \<Rightarrow> json option" where
  "lookup_path values [] = None"
| "lookup_path values [part] = map_of values part"
| "lookup_path values (part # next_part # parts) =
     (case map_of values part of Some (JObj ms) \<Rightarrow> lookup_path ms (next_part # parts) | _ \<Rightarrow> None)"

definition is_object :: "json \<Rightarrow> bool" where
  "is_object v \<longleftrightarrow> (\<exists>ms. v = JObj ms)"

lemma is_object_simps [simp]:
  "is_object (JObj ms)" "\<not> is_object (JStr s)" "\<not> is_object (JNum lit)" "\<not> is_object (JBool b)"
  "\<not> is_object (JArr vs)" "\<not> is_object JNull"
  by (simp_all add: is_object_def)

lemma non_object_case [simp]: "\<not> is_object v \<Longrightarrow> (case v of JObj ms \<Rightarrow> f ms | _ \<Rightarrow> y) = y"
  by (cases v) simp_all

text \<open>The map leads along the path: what it has on the way is a map, and what it has at the end is none.\<close>

fun leads_along :: "object \<Rightarrow> string list \<Rightarrow> bool" where
  "leads_along values [] \<longleftrightarrow> True"
| "leads_along values [part] \<longleftrightarrow> (\<forall>v. map_of values part = Some v \<longrightarrow> \<not> is_object v)"
| "leads_along values (part # next_part # parts) \<longleftrightarrow>
     (case map_of values part of
        None \<Rightarrow> True
      | Some (JObj ms) \<Rightarrow> leads_along ms (next_part # parts)
      | Some _ \<Rightarrow> False)"

fun distinct_keys :: "json \<Rightarrow> bool" where
  "distinct_keys (JObj ms) \<longleftrightarrow> distinct (map fst ms) \<and> list_all (\<lambda>(k, v). distinct_keys v) ms"
| "distinct_keys _ \<longleftrightarrow> True"

lemma distinct_keys_member: "distinct_keys (JObj ms) \<Longrightarrow> map_of ms k = Some v \<Longrightarrow> distinct_keys v"
  by (auto simp: list_all_iff dest!: map_of_SomeD)

section \<open>Merging\<close>

definition merged_member :: "object \<Rightarrow> string \<Rightarrow> json \<Rightarrow> json" where
  "merged_member dst key v =
     (case v of JObj s \<Rightarrow> (case map_of dst key of Some (JObj d) \<Rightarrow> JObj (deepMerge d s) | _ \<Rightarrow> v) | _ \<Rightarrow> v)"

lemma deepMerge_Cons: "deepMerge dst ((k, v) # src) = deepMerge (AList.update k (merged_member dst k v) dst) src"
  by (simp add: merged_member_def)

lemma map_of_deepMerge:
  "distinct (map fst src) \<Longrightarrow> map_of (deepMerge dst src) k =
     (case map_of src k of None \<Rightarrow> map_of dst k | Some v \<Rightarrow> Some (merged_member dst k v))"
proof (induction src arbitrary: dst)
  case Nil
  then show ?case by simp
next
  case (Cons kv src)
  obtain key v where kv: "kv = (key, v)" by fastforce
  have none: "map_of src key = None" using Cons.prems kv by (simp add: map_of_eq_None_iff)
  have "merged_member (AList.update key x dst) k w = merged_member dst k w" if "k \<noteq> key" for w x
    using that by (cases w) (simp_all add: merged_member_def update_conv')
  then show ?case
    using Cons none kv by (simp add: deepMerge_Cons update_conv' del: deepMerge.simps split: option.split)
qed

lemma lookup_deepMerge:
  assumes "distinct_keys (JObj src)" and "leads_along src p" and "lookup_path dst p = Some v"
  shows "lookup_path (deepMerge dst src) p = Some (case lookup_path src p of Some w \<Rightarrow> w | None \<Rightarrow> v)"
  using assms
proof (induction src p arbitrary: dst rule: lookup_path.induct)
  case (2 src part)
  then show ?case by (auto simp: map_of_deepMerge merged_member_def split: option.split)
next
  case (3 src part next_part parts)
  from 3(4) obtain d where d: "map_of dst part = Some (JObj d)" "lookup_path d (next_part # parts) = Some v"
    by (auto split: option.splits json.splits)
  show ?case
  proof (cases "map_of src part")
    case None
    then show ?thesis using 3(2,4) d by (simp add: map_of_deepMerge)
  next
    case (Some w)
    with 3(3) obtain s where s: "w = JObj s" "leads_along s (next_part # parts)"
      by (auto split: json.splits)
    have "distinct_keys (JObj s)" using distinct_keys_member [OF 3(2) Some] s(1) by simp
    from 3(1) [OF Some s(1) this s(2) d(2)] show ?thesis
      using 3(2) Some s(1) d(1) by (simp add: map_of_deepMerge merged_member_def)
  qed
qed simp

section \<open>The environment\<close>

definition sub_path :: "string \<Rightarrow> string \<Rightarrow> string" where
  "sub_path prefix key = (if prefix \<noteq> [] then prefix @ ''.'' @ key else key)"

lemma map_of_applyEnv:
  "map_of (applyEnvOverrides env ek pre m) k =
     map_option (\<lambda>v. case env (ek (sub_path pre k)) of
         Some e \<Rightarrow> parseOverrideValue e v
       | None \<Rightarrow> (case v of JObj ms \<Rightarrow> JObj (applyEnvOverrides env ek (sub_path pre k) ms) | _ \<Rightarrow> v)) (map_of m k)"
  by (induction m) (auto simp: sub_path_def Let_def split: option.splits json.splits)

lemma applyEnv_none: "applyEnvOverrides (\<lambda>_. None) ek pre m = m"
proof (induction "\<lambda>_ :: string. None :: string option" ek pre m rule: applyEnvOverrides.induct)
  case (2 ek pre key v m)
  then show ?case by (cases v) simp_all
qed simp

fun unset_above :: "(string \<Rightarrow> string option) \<Rightarrow> (string \<Rightarrow> string) \<Rightarrow> string \<Rightarrow> string list \<Rightarrow> bool" where
  "unset_above env ek pre [] \<longleftrightarrow> True"
| "unset_above env ek pre [part] \<longleftrightarrow> True"
| "unset_above env ek pre (part # next_part # parts) \<longleftrightarrow>
     env (ek (sub_path pre part)) = None \<and> unset_above env ek (sub_path pre part) (next_part # parts)"

fun path_below :: "string \<Rightarrow> string list \<Rightarrow> string" where
  "path_below pre [] = pre"
| "path_below pre (part # parts) = path_below (sub_path pre part) parts"

lemma path_below_join: "\<forall>k \<in> set p. k \<noteq> [] \<Longrightarrow> p \<noteq> [] \<Longrightarrow> path_below pre p = sub_path pre (join ''.'' p)"
proof (induction p arbitrary: pre rule: induct_list012)
  case (3 a b p)
  then show ?case by (simp add: sub_path_def)
qed simp_all

lemma lookup_applyEnv:
  assumes "lookup_path m p = Some v" and "\<not> is_object v" and "unset_above env ek pre p"
  shows "lookup_path (applyEnvOverrides env ek pre m) p =
    Some (case env (ek (path_below pre p)) of Some e \<Rightarrow> parseOverrideValue e v | None \<Rightarrow> v)"
  using assms
proof (induction m p arbitrary: pre rule: lookup_path.induct)
  case (2 m part)
  then show ?case by (auto simp: map_of_applyEnv split: option.split)
next
  case (3 m part next_part parts)
  then show ?case by (auto simp: map_of_applyEnv split: option.splits json.splits)
qed simp

section \<open>What the reader keeps\<close>

lemma update_members: "x \<in> set (AList.update k v m) \<Longrightarrow> x = (k, v) \<or> x \<in> set m"
  by (induction m) (auto split: if_splits)

lemma distinct_keys_update:
  "distinct_keys (JObj m) \<Longrightarrow> distinct_keys v \<Longrightarrow> distinct_keys (JObj (AList.update k v m))"
  by (auto simp: distinct_update list_all_iff dest!: update_members)

lemma distinct_keys_assign:
  "distinct_keys (JObj m) \<Longrightarrow> distinct_keys v \<Longrightarrow> distinct_keys (JObj (assign_parts m p v))"
proof (induction m p v rule: assign_parts.induct)
  case (2 m part v)
  then show ?case using distinct_keys_update by simp
next
  case (3 m part next_part parts v)
  let ?c = "case map_of m part of Some (JObj ms) \<Rightarrow> ms | _ \<Rightarrow> []"
  have "distinct_keys (JObj ?c)"
    using distinct_keys_member [OF 3(2)] by (auto split: option.split json.split simp del: distinct_keys.simps(1)) simp_all
  then have "distinct_keys (JObj (assign_parts ?c (next_part # parts) v))" using 3(1,3) by blast
  then show ?case using distinct_keys_update [OF 3(2)] by (simp add: Let_def del: distinct_keys.simps)
qed simp

lemma parse_list_value: "parse_value n (CHR ''['' # s) = Some (v, r) \<Longrightarrow> \<exists>vs. v = JArr vs"
  by (cases n) (auto simp: skip_ws_def is_ws_def has_prefix_def Let_def split: if_splits option.splits)

lemma json_list_arr: "json_list s = Some v \<Longrightarrow> \<exists>vs. v = JArr vs"
proof -
  assume v: "json_list s = Some v"
  then obtain t where s: "s = CHR ''['' # t" and u: "unmarshal s = Inr v"
    by (auto simp: json_list_def has_prefix_iff split: if_splits sum.splits)
  from u obtain r where "parse_value (2 * length s + 2) s = Some (v, r)"
    by (auto simp: unmarshal_def simp del: parse_value.simps split: option.splits if_splits)
  then show "\<exists>vs. v = JArr vs" unfolding s by (rule parse_list_value)
qed

lemma distinct_keys_scalar: "distinct_keys (parseScalar s)"
  by (auto simp: parseScalar_def Let_def num_def dest: json_list_arr split: option.split)

lemma distinct_keys_lines:
  "parse_lines ls path m = Inr m' \<Longrightarrow> distinct_keys (JObj m) \<Longrightarrow> distinct_keys (JObj m')"
proof (induction ls arbitrary: path m)
  case (Cons l ls)
  have "distinct_keys (JObj (assign_parts m p (JObj [])))" "distinct_keys (JObj (assign_parts m p (parseScalar x)))"
    for p x using distinct_keys_assign [OF Cons.prems(2)] distinct_keys_scalar by simp_all
  with Cons show ?case
    by (auto simp: Let_def simp del: distinct_keys.simps split: if_splits list.splits)
qed simp

lemma distinct_keys_yaml: "parseSimpleYAML content = Inr m \<Longrightarrow> distinct_keys (JObj m)"
  unfolding parseSimpleYAML_def by (erule distinct_keys_lines) simp

lemma read_paths_distinct: "read_paths readFile filename paths = Inr (Some m) \<Longrightarrow> distinct_keys (JObj m)"
  by (induction paths)
    (auto simp del: distinct_keys.simps dest!: distinct_keys_yaml split: option.splits sum.splits)

section \<open>The reader of the gateway\<close>

lemma setDefaults_parts [simp]:
  "vi_config_name (setDefaults v) = vi_config_name v" "vi_config_type (setDefaults v) = vi_config_type v"
  "vi_config_paths (setDefaults v) = vi_config_paths v" "vi_env_prefix (setDefaults v) = vi_env_prefix v"
  "vi_env_replacer (setDefaults v) = vi_env_replacer v" "vi_auto_env (setDefaults v) = vi_auto_env v"
  "vi_values (setDefaults v) = vi_values v"
  "vi_defaults (setDefaults v) = fold (\<lambda>(k, d) m. assignNestedValue m k d) default_values (vi_defaults v)"
proof -
  have "fold SetDefault kvs v = v\<lparr>vi_defaults := fold (\<lambda>(k, d) m. assignNestedValue m k d) kvs (vi_defaults v)\<rparr>"
    for kvs by (induction kvs arbitrary: v) (auto simp: SetDefault_def)
  then show "vi_config_name (setDefaults v) = vi_config_name v" "vi_config_type (setDefaults v) = vi_config_type v"
    "vi_config_paths (setDefaults v) = vi_config_paths v" "vi_env_prefix (setDefaults v) = vi_env_prefix v"
    "vi_env_replacer (setDefaults v) = vi_env_replacer v" "vi_auto_env (setDefaults v) = vi_auto_env v"
    "vi_values (setDefaults v) = vi_values v"
    "vi_defaults (setDefaults v) = fold (\<lambda>(k, d) m. assignNestedValue m k d) default_values (vi_defaults v)"
    by (simp_all add: setDefaults_def)
qed

lemma config_reader_parts [simp]:
  "vi_env_prefix config_reader = ''APP''" "vi_env_replacer config_reader = Some (CHR ''.'', ''_'')"
  "vi_auto_env config_reader" "vi_values config_reader = []" "vi_config_paths config_reader = [''configs'']"
  "vi_config_name config_reader = ''config''" "vi_config_type config_reader = ''yaml''"
  by (simp_all add: config_reader_def viper_New_def)

definition app_env :: "string \<Rightarrow> string" where
  "app_env = env_key ''APP'' (CHR ''.'') ''_''"

lemma override_key_reader [simp]: "override_key (config_reader\<lparr>vi_values := m\<rparr>) = app_env"
  "override_key config_reader = app_env"
  by (auto simp: override_key_def app_env_def)

lemma ReadInConfig_reader:
  assumes "ReadInConfig readFile config_reader = Inr r"
  obtains m where "(case r of None \<Rightarrow> config_reader | Some v \<Rightarrow> v) = config_reader\<lparr>vi_values := m\<rparr>"
    and "distinct_keys (JObj m)"
proof -
  have none: "config_reader\<lparr>vi_values := []\<rparr> = config_reader" by (simp add: viper.defs)
  from assms obtain x where x: "read_paths readFile ''config.yaml'' [''configs''] = Inr x"
    and r: "r = map_option (\<lambda>m. config_reader\<lparr>vi_values := m\<rparr>) x"
    by (auto simp: ReadInConfig_def Let_def simp del: read_paths.simps split: sum.splits option.splits)
  show thesis
  proof (cases x)
    case None
    then show thesis using r none by (intro that [of "[]"]) simp_all
  next
    case (Some m)
    have "distinct_keys (JObj m)" using x unfolding Some by (rule read_paths_distinct)
    then show thesis using r Some by (intro that [of m]) simp_all
  qed
qed

lemma leads_to_leaf: "leads_along m p \<Longrightarrow> lookup_path m p = Some v \<Longrightarrow> \<not> is_object v"
  by (induction m p rule: leads_along.induct) (auto split: option.splits json.splits)

text \<open>The defaults as a map of maps.\<close>

definition default_object :: object where
  "default_object =
     [(''server'', JObj [(''address'', JStr '':8080''), (''read_header_timeout_seconds'', num 5),
        (''read_timeout_seconds'', num 15), (''write_timeout_seconds'', num 60),
        (''idle_timeout_seconds'', num 60), (''max_request_body_bytes'', num 1048576)]),
      (''log'', JObj [(''level'', JStr ''info'')]), (''mysql'', JObj [(''dsn'', JStr [])]),
      (''redis'', JObj [(''address'', JStr []), (''password'', JStr []), (''db'', num 0)]),
      (''gateway'', JObj [(''default_model'', JStr ''gpt-4o-mini''), (''provider_failure_threshold'', num 1),
        (''provider_cooldown_seconds'', num 30), (''provider_probe_interval_seconds'', num 30),
        (''primary_mock_fail_create'', JBool False), (''primary_mock_fail_stream'', JBool False)]),
      (''provider'', JObj
        [(''primary'', JObj [(''type'', JStr ''mock''), (''name'', JStr ''primary''), (''base_url'', JStr []),
           (''api_key'', JStr []), (''model'', JStr []), (''models'', JArr []), (''max_tokens'', num 1024),
           (''priority'', num 100), (''timeout_seconds'', num 15), (''max_retries'', num 1),
           (''retry_backoff_milliseconds'', num 200)]),
         (''secondary'', JObj [(''type'', JStr ''mock''), (''name'', JStr ''secondary''), (''base_url'', JStr []),
           (''api_key'', JStr []), (''model'', JStr []), (''models'', JArr []), (''max_tokens'', num 1024),
           (''priority'', num 200), (''timeout_seconds'', num 15), (''max_retries'', num 1),
           (''retry_backoff_milliseconds'', num 200)])]),
      (''observability'', JObj [(''service_name'', JStr ''llm-access-gateway''),
         (''otlp_traces_endpoint'', JStr []), (''otlp_traces_insecure'', JBool False),
         (''otlp_export_timeout_seconds'', num 5)])]"

lemma reader_defaults: "vi_defaults config_reader = default_object"
proof -
  have "fold (\<lambda>(k, v) m. assignNestedValue m k v) default_values [] = default_object"
    unfolding default_values_def default_object_def num_def by code_simp
  then show ?thesis by (simp add: config_reader_def viper_New_def)
qed

definition default_endpoint :: "string \<Rightarrow> int \<Rightarrow> provider_endpoint_config" where
  "default_endpoint name prio =
     \<lparr>pe_type = ''mock'', pe_name = name, pe_base_url = [], pe_api_key = [], pe_model = [], pe_models = [],
      pe_max_tokens = 1024, pe_priority = prio, pe_timeout_seconds = 15, pe_max_retries = 1,
      pe_retry_backoff_milliseconds = 200\<rparr>"

definition default_config :: config where
  "default_config =
     \<lparr>cf_server = \<lparr>sc_address = '':8080'', sc_read_header_timeout_seconds = 5, sc_read_timeout_seconds = 15,
        sc_write_timeout_seconds = 60, sc_idle_timeout_seconds = 60, sc_max_request_body_bytes = 1048576\<rparr>,
      cf_log_level = ''info'', cf_mysql_dsn = [], cf_redis = \<lparr>rs_address = [], rs_password = [], rs_db = 0\<rparr>,
      cf_gateway = \<lparr>gc_default_model = ''gpt-4o-mini'', gc_provider_failure_threshold = 1,
        gc_provider_cooldown_seconds = 30, gc_provider_probe_interval_seconds = 30,
        gc_primary_mock_fail_create = False, gc_primary_mock_fail_stream = False\<rparr>,
      cf_provider = \<lparr>pc_backends = [], pc_primary = default_endpoint ''primary'' 100,
        pc_secondary = default_endpoint ''secondary'' 200\<rparr>,
      cf_observability = \<lparr>ob_service_name = ''llm-access-gateway'', ob_otlp_traces_endpoint = [],
        ob_otlp_traces_insecure = False, ob_otlp_export_timeout_seconds = 5\<rparr>\<rparr>"

text \<open>Names of lower-case letters are the same under folding only when they are equal.\<close>

definition plain_key :: "string \<Rightarrow> bool" where
  "plain_key s \<longleftrightarrow> list_all (\<lambda>c. c = CHR ''_'' \<or> (97 \<le> (of_char c :: nat) \<and> (of_char c :: nat) \<le> 122)) s"

lemma fold_plain: "plain_key s \<Longrightarrow> fold_key s = s"
  by (induction s rule: fold_key.induct) (auto simp: plain_key_def lower_char_def)

lemma equal_fold_plain: "plain_key a \<Longrightarrow> plain_key b \<Longrightarrow> equal_fold a b = (a = b)"
  by (simp add: equal_fold_def fold_plain)

lemma plain_names:
  "plain_key ''address''" "plain_key ''read_header_timeout_seconds''"
  "plain_key ''read_timeout_seconds''" "plain_key ''write_timeout_seconds''"
  "plain_key ''idle_timeout_seconds''" "plain_key ''max_request_body_bytes''" "plain_key ''level''"
  "plain_key ''dsn''" "plain_key ''password''" "plain_key ''db''" "plain_key ''default_model''"
  "plain_key ''provider_failure_threshold''" "plain_key ''provider_cooldown_seconds''"
  "plain_key ''provider_probe_interval_seconds''" "plain_key ''primary_mock_fail_create''"
  "plain_key ''primary_mock_fail_stream''" "plain_key ''type''" "plain_key ''name''"
  "plain_key ''base_url''" "plain_key ''api_key''" "plain_key ''model''" "plain_key ''models''"
  "plain_key ''max_tokens''" "plain_key ''priority''" "plain_key ''timeout_seconds''"
  "plain_key ''max_retries''" "plain_key ''retry_backoff_milliseconds''" "plain_key ''service_name''"
  "plain_key ''otlp_traces_endpoint''" "plain_key ''otlp_traces_insecure''"
  "plain_key ''otlp_export_timeout_seconds''" "plain_key ''server''" "plain_key ''log''"
  "plain_key ''mysql''" "plain_key ''redis''" "plain_key ''gateway''" "plain_key ''provider''"
  "plain_key ''observability''" "plain_key ''primary''" "plain_key ''secondary''"
  "plain_key ''backends''"
  unfolding plain_key_def by simp_all

lemma field_values_plain:
  "list_all plain_key (map fst ms) \<Longrightarrow> plain_key name \<Longrightarrow>
   field_values name ms = map snd (filter (\<lambda>(k, _). k = name) ms)"
  by (induction ms) (auto simp: field_values_def equal_fold_plain)

lemmas decode_plain = read_field_def field_values_plain plain_names string_field_def int_field_def bool_field_def
  strings_field_def list_field_def struct_field_def num_def

definition sorted_endpoint :: "string \<Rightarrow> int \<Rightarrow> object" where
  "sorted_endpoint name prio =
     [(''api_key'', JStr []), (''base_url'', JStr []), (''max_retries'', num 1), (''max_tokens'', num 1024),
      (''model'', JStr []), (''models'', JArr []), (''name'', JStr name), (''priority'', num prio),
      (''retry_backoff_milliseconds'', num 200), (''timeout_seconds'', num 15), (''type'', JStr ''mock'')]"

definition sorted_defaults :: object where
  "sorted_defaults =
     [(''gateway'', JObj [(''default_model'', JStr ''gpt-4o-mini''),
        (''primary_mock_fail_create'', JBool False), (''primary_mock_fail_stream'', JBool False),
        (''provider_cooldown_seconds'', num 30), (''provider_failure_threshold'', num 1),
        (''provider_probe_interval_seconds'', num 30)]),
      (''log'', JObj [(''level'', JStr ''info'')]), (''mysql'', JObj [(''dsn'', JStr [])]),
      (''observability'', JObj [(''otlp_export_timeout_seconds'', num 5), (''otlp_traces_endpoint'', JStr []),
         (''otlp_traces_insecure'', JBool False), (''service_name'', JStr ''llm-access-gateway'')]),
      (''provider'', JObj [(''primary'', JObj (sorted_endpoint ''primary'' 100)),
         (''secondary'', JObj (sorted_endpoint ''secondary'' 200))]),
      (''redis'', JObj [(''address'', JStr []), (''db'', num 0), (''password'', JStr [])]),
      (''server'', JObj [(''address'', JStr '':8080''), (''idle_timeout_seconds'', num 60),
        (''max_request_body_bytes'', num 1048576), (''read_header_timeout_seconds'', num 5),
        (''read_timeout_seconds'', num 15), (''write_timeout_seconds'', num 60)])]"

lemma default_sorted: "sort_members (JObj default_object) = JObj sorted_defaults"
  unfolding default_object_def sorted_defaults_def sorted_endpoint_def num_def by code_simp

lemma small_literals [simp]:
  "int_of_literal (itoa 0) = Some 0" "int_of_literal (itoa 1) = Some 1" "int_of_literal (itoa 5) = Some 5"
  "int_of_literal (itoa 15) = Some 15" "int_of_literal (itoa 30) = Some 30" "int_of_literal (itoa 60) = Some 60"
  "int_of_literal (itoa 100) = Some 100" "int_of_literal (itoa 200) = Some 200"
  "int_of_literal (itoa 1024) = Some 1024" "int_of_literal (itoa 1048576) = Some 1048576"
  by (simp_all add: int_of_literal_def atoi_itoa in_int64_def max_int_def min_int_def)

lemma default_endpoint_decodes:
  "prio = 100 \<or> prio = 200 \<Longrightarrow> dec_endpoint (sorted_endpoint name prio) = Inr (default_endpoint name prio)"
  by (auto simp: dec_endpoint_def sorted_endpoint_def default_endpoint_def decode_plain)

lemma default_decodes: "decode_struct dec_config (JObj sorted_defaults) = Inr default_config"
  by (simp add: decode_struct_def dec_config_def sorted_defaults_def default_config_def decode_plain
      dec_server_config_def dec_redis_settings_def dec_gateway_config_def dec_provider_config_def
      dec_observability_config_def default_endpoint_decodes)

lemma default_wf: "wf_json (JObj sorted_defaults)"
  unfolding sorted_defaults_def sorted_endpoint_def num_def by code_simp

lemma Load_defaults: "Load (\<lambda>_. None) (\<lambda>_. None) = Inr default_config"
proof -
  have "merged_values (\<lambda>_. None) config_reader = default_object"
    by (simp add: merged_values_def reader_defaults applyEnv_none)
  then show ?thesis
    by (simp add: Load_def ReadInConfig_def viper_Unmarshal_def unmarshal_encode [OF default_wf] default_sorted default_decodes
        del: sort_members.simps encode.simps)
qed

text \<open>A text of digits becomes a number, which is no password.\<close>

lemma numeric_password_rejected:
  "dec_redis_settings [(''address'', JStr a), (''password'', parseOverrideValue ''12345'' (JStr [])), (''db'', d)] =
     Inl (type_error ''password'')"
proof -
  have "parseOverrideValue ''12345'' (JStr []) = num 12345" unfolding num_def by code_simp
  moreover have "equal_fold ''address'' ''address''" "\<not> equal_fold ''password'' ''address''"
    "\<not> equal_fold ''db'' ''address''" "\<not> equal_fold ''address'' ''password''"
    "equal_fold ''password'' ''password''" "\<not> equal_fold ''db'' ''password''"
    by code_simp+
  ultimately show ?thesis
    by (simp add: dec_redis_settings_def string_field_def read_field_def field_values_def num_def)
qed

end
