(* ===== verification/CommandProperties.thy ===== *)
theory CommandProperties
  imports Commands ConfigFacts StoreProperties
begin

text \<open>
  The properties of the commands that prepare the database: what is in it when \<open>devinit\<close> has succeeded, and
  that \<open>routerulectl\<close> leaves the old routing rules or the new ones.
\<close>

section \<open>Steps of a command\<close>

lemma command_step_result:
  assumes "command_step what m f d = ((r, out), d')"
  obtains (failed) e where "m d = (Inl e, d')" "r = Inl (WrapErr what e)" "out = []"
    | (goes_on) x d1 where "m d = (Inr x, d1)" "f x d1 = ((r, out), d')"
  using assms by (auto simp: command_step_def failed_command_def split: prod.splits sum.splits)

lemma command_step_Inr:
  assumes "command_step what m f d = ((Inr u, out), d')"
  obtains x d1 where "m d = (Inr x, d1)" "f x d1 = ((Inr u, out), d')"
  using assms by (rule command_step_result) auto

section \<open>devinit\<close>

lemma limit_tenant_fields [simp]:
  "t_id (limit_tenant coll n l t) = t_id t" "t_name (limit_tenant coll n l t) = t_name t"
  "t_enabled (limit_tenant coll n l t) = t_enabled t"
  by (simp_all add: limit_tenant_def)

lemma key_rows_limited:
  assumes "api_keys d' = api_keys d" and "tenants d' = map (limit_tenant coll n l) (tenants d)"
  shows "key_rows coll h d' = map (\<lambda>(t, k). (limit_tenant coll n l t, k)) (key_rows coll h d)"
  using assms
  by (auto simp: key_rows_def map_concat comp_def intro!: arg_cong [where f = concat] map_cong)

lemma devinit_steps:
  assumes "devinit_main coll sqlOpen loaded args d = ((Inr u, out), d')"
  obtains limits cfg seed d1 v d2 w where "devinit_parseFlags args = Inr limits" "loaded = Inr cfg"
    "SeedDevelopmentData coll d = (Inr seed, d1)"
    "updateDevelopmentTenantLimits coll (seed_tenant_name seed) limits d1 = (Inr v, d2)"
    "ReplaceRouteRules coll (DesiredRouteRuleSeeds (cf_provider cfg)) d2 = (Inr w, d')"
    "out = devinit_printed seed limits (length (DesiredRouteRuleSeeds (cf_provider cfg)))"
  using assms
  by (auto simp: devinit_main_def failed_command_def Let_def split: sum.splits if_splits elim!: command_step_Inr)

lemma updateDevelopmentTenantLimits_rows:
  assumes "updateDevelopmentTenantLimits coll n l d = (Inr u, d')"
  shows "api_keys d' = api_keys d" and "tenants d' = map (limit_tenant coll n l) (tenants d)"
proof -
  obtain e where e: "same_data d e" and d': "d' = e\<lparr>tenants := map (limit_tenant coll n l) (tenants e)\<rparr>"
    using assms unfolding updateDevelopmentTenantLimits_def by (auto elim: db_exec_Inr)
  show "api_keys d' = api_keys d" and "tenants d' = map (limit_tenant coll n l) (tenants d)"
    by (simp_all add: d' same_data_fields [OF e])
qed

text \<open>
  C30: When \<open>devinit\<close> has succeeded, over whatever the database held before, the key it has printed
  authenticates as the development tenant with exactly the limits of the command line, the defaults where a
  flag was not given, and the routing rules are those of the configuration.
\<close>

theorem devinit_prepares_gateway:
  assumes "devinit_main coll sqlOpen loaded args d = ((Inr (), out), d')" and "ids_ok d" and "answering d'"
  shows "\<exists>limits cfg seed pr. devinit_parseFlags args = Inr limits \<and> loaded = Inr cfg \<and>
    out = devinit_printed seed limits (length (DesiredRouteRuleSeeds (cf_provider cfg))) \<and>
    AuthenticateRequest (LookupAPIKey coll) (''Bearer '' @ seed_api_key seed) d' = (Inr pr, d') \<and>
    coll (tenant_name (principal_tenant pr)) = coll (seed_tenant_name seed) \<and>
    rpm_limit (principal_tenant pr) = sl_rpm_limit limits \<and> 0 \<le> sl_rpm_limit limits \<and>
    tpm_limit (principal_tenant pr) = sl_tpm_limit limits \<and> 0 \<le> sl_tpm_limit limits \<and>
    token_budget (principal_tenant pr) = sl_token_budget limits \<and> 0 \<le> sl_token_budget limits \<and>
    route_rules d' = map rule_row (DesiredRouteRuleSeeds (cf_provider cfg))"
proof -
  obtain limits cfg seed d1 v d2 w where flags: "devinit_parseFlags args = Inr limits" and cfg: "loaded = Inr cfg"
    and seeded: "SeedDevelopmentData coll d = (Inr seed, d1)"
    and lim: "updateDevelopmentTenantLimits coll (seed_tenant_name seed) limits d1 = (Inr v, d2)"
    and rep: "ReplaceRouteRules coll (DesiredRouteRuleSeeds (cf_provider cfg)) d2 = (Inr w, d')"
    and out: "out = devinit_printed seed limits (length (DesiredRouteRuleSeeds (cf_provider cfg)))"
    using assms(1) by (rule devinit_steps)
  let ?h = "hashAPIKey developmentAPIKey"
  note rows = Seed_rows [OF seeded assms(2)]
  have name: "seed_tenant_name seed = developmentTenantName"
    using seeded by (auto simp: SeedDevelopmentData_def elim!: bindS_InrE)
  have same: "tenants d' = tenants d2" "api_keys d' = api_keys d2"
    using ReplaceRouteRules_Inr(2) [OF rep] by (simp_all add: only_rules_change_def)
  have keys: "key_rows coll ?h d' =
      map (\<lambda>(t, k). (limit_tenant coll (seed_tenant_name seed) limits t, k)) (key_rows coll ?h d1)"
    using updateDevelopmentTenantLimits_rows [OF lim] same by (intro key_rows_limited) simp_all
  let ?P = "\<lambda>r. rec_key_enabled r \<and> rec_tenant_enabled r \<and> rpm_limit (rec_tenant r) = sl_rpm_limit limits \<and>
    tpm_limit (rec_tenant r) = sl_tpm_limit limits \<and> token_budget (rec_tenant r) = sl_token_budget limits \<and>
    coll (tenant_name (rec_tenant r)) = coll developmentTenantName"
  have "?P (key_record t k)" if "(t, k) \<in> set (key_rows coll ?h d')" for t k
  proof -
    obtain t0 where "(t0, k) \<in> set (key_rows coll ?h d1)"
      and "t = limit_tenant coll developmentTenantName limits t0"
      using \<open>(t, k) \<in> set (key_rows coll ?h d')\<close> by (auto simp: keys name)
    then show ?thesis using rows(3) [of t0 k] by (simp add: key_record_def limit_tenant_def)
  qed
  moreover have "key_rows coll ?h d' \<noteq> []" using rows(2) by (simp add: keys)
  ultimately obtain r where "LookupAPIKey coll ?h d' = (Inr r, d')" "?P r"
    using LookupAPIKey_rows [OF assms(3), of coll ?h ?P] by blast
  moreover have "0 \<le> sl_rpm_limit limits" "0 \<le> sl_tpm_limit limits" "0 \<le> sl_token_budget limits"
    using flags by (auto simp: devinit_parseFlags_def split: sum.splits if_splits)
  ultimately show ?thesis
    using flags cfg out rows(1) name seed_header ReplaceRouteRules_Inr(1) [OF rep]
    by (auto simp: AuthenticateRequest_def)
qed

definition devinit_config :: config where
  "devinit_config = default_config\<lparr>cf_mysql_dsn := ''dsn''\<rparr>"

lemma devinit_runs:
  "\<exists>out d'. devinit_main id (\<lambda>_. Inr ()) (Inr devinit_config) [''-rpm-limit=5'', ''--tpm-limit'', ''0x10''] empty_db =
     ((Inr (), out), d') \<and> answering d'"
proof -
  let ?limits = "\<lparr>sl_rpm_limit = 5, sl_tpm_limit = 16, sl_token_budget = 1000000\<rparr>"
  let ?rules = "DesiredRouteRuleSeeds (cf_provider devinit_config)"
  have flags: "devinit_parseFlags [''-rpm-limit=5'', ''--tpm-limit'', ''0x10''] = Inr ?limits"
    by code_simp
  obtain d1 where d1: "SeedDevelopmentData id empty_db =
      (Inr \<lparr>seed_tenant_name = developmentTenantName, seed_api_key = developmentAPIKey\<rparr>, d1)" "answering d1"
    using seed_succeeds by blast
  let ?d2 = "d1\<lparr>tenants := map (limit_tenant id developmentTenantName ?limits) (tenants d1)\<rparr>"
  have d2: "updateDevelopmentTenantLimits id developmentTenantName ?limits d1 = (Inr (), ?d2)" "answering ?d2"
    using d1(2) by (simp_all add: updateDevelopmentTenantLimits_def) (simp add: answering_def)
  have rules: "distinct (map (\<lambda>r. (id (trim_space (rrec_backend_name r)), id (normalize_model (rrec_model r)))) ?rules)"
      "list_all (\<lambda>r. fits_columns (rule_row r)) ?rules"
    by code_simp+
  have "ReplaceRouteRules id ?rules ?d2 = (Inr (), ?d2\<lparr>route_rules := map rule_row ?rules\<rparr>)"
    using d2(2) rules by (rule ReplaceRouteRules_answering)
  moreover have "answering (?d2\<lparr>route_rules := map rule_row ?rules\<rparr>)" using d1(2) by (simp add: answering_def)
  moreover have "cf_mysql_dsn devinit_config \<noteq> []" by (simp add: devinit_config_def)
  ultimately show ?thesis
    using flags d1 d2(1) by (simp add: devinit_main_def command_step_def Let_def)
qed

theorem devinit_prepares_gateway_witness:
  "\<exists>d' (seed :: development_seed) pr. AuthenticateRequest (LookupAPIKey id) (''Bearer '' @ seed_api_key seed) d' = (Inr pr, d') \<and>
     0 \<le> rpm_limit (principal_tenant pr)"
proof -
  obtain out d' where "devinit_main id (\<lambda>_. Inr ()) (Inr devinit_config) [''-rpm-limit=5'', ''--tpm-limit'', ''0x10'']
      empty_db = ((Inr (), out), d')" "answering d'"
    using devinit_runs by blast
  from devinit_prepares_gateway [OF this(1) empty_db_parts(5) this(2)] obtain limits :: seed_limits and seed :: development_seed and pr where
      auth: "AuthenticateRequest (LookupAPIKey id) (''Bearer '' @ seed_api_key seed) d' = (Inr pr, d')"
    and "rpm_limit (principal_tenant pr) = sl_rpm_limit limits" "0 \<le> sl_rpm_limit limits"
    by auto
  then have "0 \<le> rpm_limit (principal_tenant pr)" by simp
  with auth show ?thesis by blast
qed

section \<open>routerulectl\<close>

text \<open>The rules that the arguments ask to be put in the table.\<close>

definition requested_rules :: "config res \<Rightarrow> string list \<Rightarrow> route_rule_record list option" where
  "requested_rules loaded args =
     (case (args, loaded) of
        (subcommand # rest, Inr cfg) \<Rightarrow>
          (if subcommand = ''replace''
           then (case routerulectl_parseReplaceArgs rest of Inl e \<Rightarrow> None | Inr rules \<Rightarrow> Some rules)
           else if subcommand = ''sync-from-config'' then Some (DesiredRouteRuleSeeds (cf_provider cfg))
           else None)
      | _ \<Rightarrow> None)"

definition other_tables_kept :: "db \<Rightarrow> db \<Rightarrow> bool" where
  "other_tables_kept d d' \<longleftrightarrow> api_keys d' = api_keys d \<and> request_usages d' = request_usages d \<and>
     request_attempt_usages d' = request_attempt_usages d \<and> map t_id (tenants d') = map t_id (tenants d)"

lemma other_tables_refl [simp]: "other_tables_kept d d"
  by (simp add: other_tables_kept_def)

lemma other_tables_trans: "other_tables_kept d e \<Longrightarrow> other_tables_kept e f \<Longrightarrow> other_tables_kept d f"
  by (simp add: other_tables_kept_def)

lemma other_tables_same: "same_data d d' \<Longrightarrow> other_tables_kept d d' \<and> route_rules d' = route_rules d"
  by (simp add: other_tables_kept_def same_data_fields)

lemma EnsureSchema_others:
  "EnsureSchema d = (r, d') \<Longrightarrow> other_tables_kept d d' \<and> route_rules d' = route_rules d"
  using alongD [OF EnsureSchema_grows] by (simp add: schema_grows_def other_tables_kept_def)

lemma ListRouteRules_others:
  assumes "ListRouteRules coll d = (r, d')"
  shows "other_tables_kept d d' \<and> route_rules d' = route_rules d"
proof -
  have "data_preorder (\<lambda>d d'. same_data d d')"
    by (auto simp: data_preorder_def transp_def dest: same_data_trans)
  then have "along same_data (ListRouteRules coll)"
    unfolding ListRouteRules_def tableExists_def by (intro along_rules) (auto intro: along_rules)
  from alongD [OF this assms] show ?thesis by (rule other_tables_same)
qed

lemma ReplaceRouteRules_others:
  assumes "ReplaceRouteRules coll rules d = (r, d')"
  shows "other_tables_kept d d'"
proof (cases r)
  case (Inr u)
  with assms ReplaceRouteRules_Inr(2) show ?thesis by (auto simp: only_rules_change_def other_tables_kept_def)
next
  case (Inl e)
  with assms have "ReplaceRouteRules coll rules d = (Inl e, d')" by simp
  then show ?thesis
    unfolding ReplaceRouteRules_def
  proof (rule db_tx_Inl)
    assume "same_tables d d'"
    then show ?thesis by (simp add: same_tables_def other_tables_kept_def)
  next
    fix d0 x d1 assume s: "same_data d d0" "same_data d1 d'"
      and b: "bindS (db_exec (\<lambda>d. ((), d\<lparr>route_rules := []\<rparr>))) (\<lambda>_. insert_rules coll rules) d0 = (Inr x, d1)"
    from replace_body_Inr(2) [OF b] show ?thesis
      by (simp add: only_rules_change_def other_tables_kept_def same_data_fields [OF s(1)] same_data_fields [OF s(2)])
  qed
qed

text \<open>What a command does to the rules, given those it was asked for.\<close>

definition replaces :: "route_rule_record list option \<Rightarrow> command \<Rightarrow> bool" where
  "replaces wanted m \<longleftrightarrow> (\<forall>d r out d'. m d = ((r, out), d') \<longrightarrow> other_tables_kept d d' \<and>
     (route_rules d' = route_rules d \<or> (\<exists>rules. wanted = Some rules \<and> route_rules d' = map rule_row rules)) \<and>
     (\<forall>rules. r = Inr () \<and> wanted = Some rules \<longrightarrow> route_rules d' = map rule_row rules))"

lemma replaces_failed: "replaces wanted (failed_command e)"
  by (simp add: replaces_def failed_command_def)

lemma listRouteRules_keeps:
  assumes "listRouteRules coll d = ((r, out), d')"
  shows "other_tables_kept d d' \<and> route_rules d' = route_rules d"
  using assms unfolding listRouteRules_def
  by (rule command_step_result) (use ListRouteRules_others in blast)+

lemma replaces_list: "replaces None (listRouteRules coll)"
  unfolding replaces_def using listRouteRules_keeps by blast

lemma replaces_replace:
  "replaces (Some rules) (command_step what (ReplaceRouteRules coll rules) (\<lambda>_. command_print out (listRouteRules coll)))"
  unfolding replaces_def
proof (intro allI impI)
  fix d r out' d'
  assume "command_step what (ReplaceRouteRules coll rules) (\<lambda>_. command_print out (listRouteRules coll)) d = ((r, out'), d')"
  then show "other_tables_kept d d' \<and>
     (route_rules d' = route_rules d \<or> (\<exists>rules'. Some rules = Some rules' \<and> route_rules d' = map rule_row rules')) \<and>
     (\<forall>rules'. r = Inr () \<and> Some rules = Some rules' \<longrightarrow> route_rules d' = map rule_row rules')"
  proof (rule command_step_result)
    fix e assume "ReplaceRouteRules coll rules d = (Inl e, d')" "r = Inl (WrapErr what e)"
    then show ?thesis using ReplaceRouteRules_others [of coll rules d] ReplaceRouteRules_Inl [of coll rules d] by simp
  next
    fix x d1 assume r: "ReplaceRouteRules coll rules d = (Inr x, d1)"
      and "command_print out (listRouteRules coll) d1 = ((r, out'), d')"
    then obtain out'' where "listRouteRules coll d1 = ((r, out''), d')"
      by (auto simp: command_print_def split: prod.splits)
    from listRouteRules_keeps [OF this] ReplaceRouteRules_others [OF r] ReplaceRouteRules_Inr(1) [OF r]
    show ?thesis using other_tables_trans by auto
  qed
qed

lemma replaces_ensured:
  assumes "replaces wanted m"
  shows "replaces wanted (command_step what EnsureSchema (\<lambda>_. m))"
  unfolding replaces_def
proof (intro allI impI)
  fix d r out d'
  assume "command_step what EnsureSchema (\<lambda>_. m) d = ((r, out), d')"
  then show "other_tables_kept d d' \<and>
     (route_rules d' = route_rules d \<or> (\<exists>rules. wanted = Some rules \<and> route_rules d' = map rule_row rules)) \<and>
     (\<forall>rules. r = Inr () \<and> wanted = Some rules \<longrightarrow> route_rules d' = map rule_row rules)"
  proof (rule command_step_result)
    fix e assume "EnsureSchema d = (Inl e, d')" "r = Inl (WrapErr what e)"
    then show ?thesis using EnsureSchema_others [of d] by simp
  next
    fix x d1 assume e: "EnsureSchema d = (Inr x, d1)" and "m d1 = ((r, out), d')"
    with assms have "other_tables_kept d1 d' \<and>
      (route_rules d' = route_rules d1 \<or> (\<exists>rules. wanted = Some rules \<and> route_rules d' = map rule_row rules)) \<and>
      (\<forall>rules. r = Inr () \<and> wanted = Some rules \<longrightarrow> route_rules d' = map rule_row rules)"
      unfolding replaces_def by blast
    with EnsureSchema_others [OF e] show ?thesis using other_tables_trans by metis
  qed
qed


end
