(* ===== verification/Metrics.thy ===== *)
theory Metrics
  imports Chi
begin

text \<open>
  \<open>internal/obs/metrics/registry.go\<close>: counters in 64-bit words, keyed by the labels they are printed
  with, and the last status of every provider backend. A Go map is an association list with one entry
  for a key. The mutex makes every operation one step.
\<close>

section \<open>State\<close>

record duration_sample =
  ds_count :: u64
  ds_sum_ms :: u64

record provider_status =
  ps_healthy :: bool
  ps_failures :: int
  ps_unhealthy_until :: time

record registry =
  rg_http_requests :: "(string \<times> u64) list"
  rg_http_durations :: "(string \<times> duration_sample) list"
  rg_provider_events :: "(string \<times> u64) list"
  rg_provider_durations :: "(string \<times> duration_sample) list"
  rg_probe_results :: "(string \<times> u64) list"
  rg_rejections :: "(string \<times> u64) list"
  rg_readyz_failures :: u64
  rg_stream_requests :: u64
  rg_stream_chunks :: u64
  rg_ttft_count :: u64
  rg_ttft_sum :: u64
  rg_statuses :: "(string \<times> provider_status) list"

definition NewRegistry :: registry where
  "NewRegistry =
     \<lparr>rg_http_requests = [], rg_http_durations = [], rg_provider_events = [], rg_provider_durations = [],
      rg_probe_results = [], rg_rejections = [], rg_readyz_failures = 0, rg_stream_requests = 0,
      rg_stream_chunks = 0, rg_ttft_count = 0, rg_ttft_sum = 0, rg_statuses = []\<rparr>"

text \<open>A key that is not in a map reads as the zero value.\<close>

definition counter_of :: "(string \<times> u64) list \<Rightarrow> string \<Rightarrow> u64" where
  "counter_of m k = (case map_of m k of None \<Rightarrow> 0 | Some n \<Rightarrow> n)"

definition sample_of :: "(string \<times> duration_sample) list \<Rightarrow> string \<Rightarrow> duration_sample" where
  "sample_of m k = (case map_of m k of None \<Rightarrow> \<lparr>ds_count = 0, ds_sum_ms = 0\<rparr> | Some d \<Rightarrow> d)"

definition status_of :: "(string \<times> provider_status) list \<Rightarrow> string \<Rightarrow> provider_status" where
  "status_of m k =
     (case map_of m k of None \<Rightarrow> \<lparr>ps_healthy = False, ps_failures = 0, ps_unhealthy_until = 0\<rparr> | Some st \<Rightarrow> st)"

definition increment :: "string \<Rightarrow> (string \<times> u64) list \<Rightarrow> (string \<times> u64) list" where
  "increment k m = AList.update k (counter_of m k + 1) m"

definition add_sample :: "string \<Rightarrow> duration \<Rightarrow> (string \<times> duration_sample) list \<Rightarrow> (string \<times> duration_sample) list" where
  "add_sample k d m =
     (let sample = sample_of m k
      in AList.update k (sample\<lparr>ds_count := ds_count sample + 1,
           ds_sum_ms := ds_sum_ms sample + word_of_int (milliseconds d)\<rparr>) m)"

text \<open>A label, with the quotes of its value escaped.\<close>

definition sanitize :: "string \<Rightarrow> string" where
  "sanitize v = replace_char (CHR 0x22) [CHR 0x5C, CHR 0x22] v"

definition lbl :: "string \<Rightarrow> string \<Rightarrow> string" where
  "lbl k v = k @ [CHR ''='', CHR 0x22] @ v @ [CHR 0x22]"

section \<open>Recording\<close>

definition SyncProviderStatuses :: "backend_status list \<Rightarrow> registry \<Rightarrow> registry" where
  "SyncProviderStatuses sts r =
     r\<lparr>rg_statuses := fold (\<lambda>st. AList.update (st_name st)
         \<lparr>ps_healthy = st_healthy st, ps_failures = st_failures st,
          ps_unhealthy_until = st_unhealthy_until st\<rparr>) sts (rg_statuses r)\<rparr>"

definition http_key :: "string \<Rightarrow> string \<Rightarrow> int \<Rightarrow> string" where
  "http_key meth path status =
     lbl ''method'' (sanitize meth) @ '','' @ lbl ''path'' (sanitize path) @ '','' @ lbl ''status'' (itoa status)"

definition RecordHTTPRequest :: "string \<Rightarrow> string \<Rightarrow> int \<Rightarrow> duration \<Rightarrow> registry \<Rightarrow> registry" where
  "RecordHTTPRequest meth path status d r =
     (let key = http_key meth path status
      in r\<lparr>rg_http_requests := increment key (rg_http_requests r),
           rg_http_durations := add_sample key d (rg_http_durations r)\<rparr>)"

definition RecordReadyzFailure :: "registry \<Rightarrow> registry" where
  "RecordReadyzFailure r = r\<lparr>rg_readyz_failures := rg_readyz_failures r + 1\<rparr>"

definition RecordGovernanceRejection :: "string \<Rightarrow> registry \<Rightarrow> registry" where
  "RecordGovernanceRejection reason r =
     r\<lparr>rg_rejections := increment (sanitize reason) (rg_rejections r)\<rparr>"

definition RecordStreamRequest :: "duration \<Rightarrow> registry \<Rightarrow> registry" where
  "RecordStreamRequest ttft r =
     r\<lparr>rg_stream_requests := rg_stream_requests r + 1, rg_ttft_count := rg_ttft_count r + 1,
       rg_ttft_sum := rg_ttft_sum r + word_of_int (milliseconds ttft)\<rparr>"

definition RecordStreamChunk :: "registry \<Rightarrow> registry" where
  "RecordStreamChunk r = r\<lparr>rg_stream_chunks := rg_stream_chunks r + 1\<rparr>"

definition recordsProviderDuration :: "string \<Rightarrow> bool" where
  "recordsProviderDuration eventType \<longleftrightarrow>
     eventType \<in> set [''provider_request_succeeded'', ''provider_request_failed'',
       ''provider_stream_interrupted'', ''provider_probe_succeeded'', ''provider_probe_failed'']"

definition updateProviderStatus :: "event \<Rightarrow> registry \<Rightarrow> registry" where
  "updateProviderStatus event r =
     (if ev_backend event = [] then r
      else
        let status = status_of (rg_statuses r) (ev_backend event) in
        if ev_type event \<in> set [''provider_request_succeeded'', ''provider_probe_succeeded'', ''provider_recovered'']
        then r\<lparr>rg_statuses := AList.update (ev_backend event)
               (status\<lparr>ps_healthy := True, ps_failures := 0, ps_unhealthy_until := 0\<rparr>) (rg_statuses r)\<rparr>
        else if ev_type event \<in> set [''provider_request_failed'', ''provider_stream_interrupted'', ''provider_probe_failed'']
        then r\<lparr>rg_statuses := AList.update (ev_backend event)
               (status\<lparr>ps_failures := ev_failures event, ps_unhealthy_until := ev_unhealthy_until event,
                 ps_healthy := is_zero_time (ev_unhealthy_until event)\<rparr>) (rg_statuses r)\<rparr>
        else r)"

definition event_key :: "event \<Rightarrow> string" where
  "event_key event =
     lbl ''type'' (sanitize (ev_type event)) @ '','' @ lbl ''operation'' (sanitize (ev_operation event)) @
     '','' @ lbl ''backend'' (sanitize (ev_backend event))"

definition record_duration :: "event \<Rightarrow> registry \<Rightarrow> registry" where
  "record_duration event r =
     (if 0 < ev_duration event \<and> recordsProviderDuration (ev_type event)
      then
        let result = (if contains (ev_type event) ''failed'' \<or> contains (ev_type event) ''interrupted''
                      then ''error'' else ''success'');
            key = lbl ''operation'' (sanitize (ev_operation event)) @ '','' @
                  lbl ''backend'' (sanitize (ev_backend event)) @ '','' @ lbl ''result'' result
        in r\<lparr>rg_provider_durations := add_sample key (ev_duration event) (rg_provider_durations r)\<rparr>
      else r)"

definition record_probe :: "event \<Rightarrow> registry \<Rightarrow> registry" where
  "record_probe event r =
     (if ev_operation event = ''probe''
      then
        let result = (if ev_type event = ''provider_probe_failed'' then ''error'' else ''success'')
        in if ev_type event = ''provider_probe_succeeded'' \<or> ev_type event = ''provider_probe_failed''
           then r\<lparr>rg_probe_results := increment (lbl ''backend'' (sanitize (ev_backend event)) @ '','' @
                    lbl ''result'' result) (rg_probe_results r)\<rparr>
           else r
      else r)"

definition OnEvent :: "event \<Rightarrow> registry \<Rightarrow> registry" where
  "OnEvent event r =
     (let r = r\<lparr>rg_provider_events := increment (event_key event) (rg_provider_events r)\<rparr>;
          r = updateProviderStatus event r;
          r = record_duration event r
      in record_probe event r)"

text \<open>What the handlers and the middleware report, as the calls they are.\<close>

fun apply_metric :: "metric \<Rightarrow> registry \<Rightarrow> registry" where
  "apply_metric (MetricHTTP meth path status d) = RecordHTTPRequest meth path status d"
| "apply_metric MetricReadyzFailure = RecordReadyzFailure"
| "apply_metric (MetricRejection reason) = RecordGovernanceRejection reason"
| "apply_metric (MetricStreamRequest ttft) = RecordStreamRequest ttft"
| "apply_metric MetricStreamChunk = RecordStreamChunk"

section \<open>The text of the metrics\<close>

definition sortedKeys :: "(string \<times> 'v) list \<Rightarrow> string list" where
  "sortedKeys m = sort (map fst m)"

definition text_line :: "string \<Rightarrow> string" where
  "text_line s = s @ [CHR 0x0A]"

definition utoa :: "u64 \<Rightarrow> string" where
  "utoa n = itoa (uint n)"

definition help_lines :: "string \<Rightarrow> string \<Rightarrow> string \<Rightarrow> string" where
  "help_lines name help kind = text_line (''# HELP '' @ name @ '' '' @ help) @ text_line (''# TYPE '' @ name @ '' '' @ kind)"

definition labelled :: "string \<Rightarrow> string \<Rightarrow> u64 \<Rightarrow> string" where
  "labelled name key n = text_line (name @ [CHR 0x7B] @ key @ [CHR 0x7D, CHR '' ''] @ utoa n)"

definition writeCounter :: "string \<Rightarrow> string \<Rightarrow> (string \<times> u64) list \<Rightarrow> string" where
  "writeCounter name help values =
     help_lines name help ''counter'' @
     concat (map (\<lambda>key. labelled name key (counter_of values key)) (sortedKeys values))"

definition writeDurationSamples ::
    "string \<Rightarrow> string \<Rightarrow> string \<Rightarrow> string \<Rightarrow> (string \<times> duration_sample) list \<Rightarrow> string" where
  "writeDurationSamples sumMetric sumHelp countMetric countHelp values =
     help_lines sumMetric sumHelp ''counter'' @
     concat (map (\<lambda>key. labelled sumMetric key (ds_sum_ms (sample_of values key))) (sortedKeys values)) @
     help_lines countMetric countHelp ''counter'' @
     concat (map (\<lambda>key. labelled countMetric key (ds_count (sample_of values key))) (sortedKeys values))"

definition writeGauge :: "string \<Rightarrow> string \<Rightarrow> u64 \<Rightarrow> string" where
  "writeGauge name labels n =
     text_line (name @ (if labels \<noteq> [] then [CHR 0x7B] @ labels @ [CHR 0x7D] else []) @ '' '' @ utoa n)"

definition boolToGauge :: "bool \<Rightarrow> u64" where
  "boolToGauge b = (if b then 1 else 0)"

definition isProviderHealthy :: "provider_status \<Rightarrow> time \<Rightarrow> bool" where
  "isProviderHealthy status now =
     (if time_after (ps_unhealthy_until status) now then False
      else if \<not> is_zero_time (ps_unhealthy_until status) \<and> \<not> time_after (ps_unhealthy_until status) now then True
      else ps_healthy status)"

definition cooldown_remaining :: "provider_status \<Rightarrow> time \<Rightarrow> int" where
  "cooldown_remaining status now =
     (if time_after (ps_unhealthy_until status) now
      then milliseconds (time_sub (ps_unhealthy_until status) now) else 0)"

definition provider_ready :: "registry \<Rightarrow> time \<Rightarrow> bool" where
  "provider_ready r now \<longleftrightarrow>
     rg_statuses r = [] \<or>
     0 < length (filter (\<lambda>key. isProviderHealthy (status_of (rg_statuses r) key) now) (sortedKeys (rg_statuses r)))"

definition writeProviderStatusMetrics :: "registry \<Rightarrow> time \<Rightarrow> string" where
  "writeProviderStatusMetrics r now =
     (let keys = sortedKeys (rg_statuses r);
          gauges = (\<lambda>name value. concat (map (\<lambda>key.
            writeGauge name (lbl ''backend'' (sanitize key)) (value (status_of (rg_statuses r) key))) keys))
      in help_lines ''lag_provider_backend_healthy''
           ''Current provider backend health status (1=healthy, 0=unhealthy).'' ''gauge'' @
         gauges ''lag_provider_backend_healthy'' (\<lambda>st. boolToGauge (isProviderHealthy st now)) @
         help_lines ''lag_provider_backend_consecutive_failures''
           ''Current consecutive failure count by backend.'' ''gauge'' @
         gauges ''lag_provider_backend_consecutive_failures'' (\<lambda>st. word_of_int (ps_failures st)) @
         help_lines ''lag_provider_backend_cooldown_remaining_milliseconds''
           ''Remaining cooldown time before a backend is re-eligible.'' ''gauge'' @
         gauges ''lag_provider_backend_cooldown_remaining_milliseconds''
           (\<lambda>st. word_of_int (cooldown_remaining st now)) @
         help_lines ''lag_provider_ready'' ''Current provider readiness derived from backend health.'' ''gauge'' @
         text_line (if provider_ready r now then ''lag_provider_ready 1'' else ''lag_provider_ready 0''))"

definition plain_counter :: "string \<Rightarrow> string \<Rightarrow> u64 \<Rightarrow> string" where
  "plain_counter name help n = help_lines name help ''counter'' @ text_line (name @ '' '' @ utoa n)"

definition writeGovernanceMetrics :: "(string \<times> u64) list \<Rightarrow> u64 \<Rightarrow> string" where
  "writeGovernanceMetrics rejections readyzFailures =
     help_lines ''lag_governance_rejections_total'' ''Total governance rejections by reason.'' ''counter'' @
     concat (map (\<lambda>key. labelled ''lag_governance_rejections_total'' (lbl ''reason'' key) (counter_of rejections key))
       (sortedKeys rejections)) @
     plain_counter ''lag_readyz_failures_total'' ''Total /readyz abnormal responses.'' readyzFailures"

definition writeStreamMetrics :: "u64 \<Rightarrow> u64 \<Rightarrow> u64 \<Rightarrow> u64 \<Rightarrow> string" where
  "writeStreamMetrics requests chunkTotal ttftSum ttftCount =
     plain_counter ''lag_stream_requests_total''
       ''Total streamed responses that emitted at least one chunk.'' requests @
     plain_counter ''lag_stream_chunks_total'' ''Total SSE data chunks emitted before [DONE].'' chunkTotal @
     plain_counter ''lag_stream_ttft_milliseconds_sum''
       ''Aggregate TTFT in milliseconds for streamed responses.'' ttftSum @
     plain_counter ''lag_stream_ttft_milliseconds_count''
       ''Count of streamed responses with TTFT recorded.'' ttftCount"

definition writeMetrics :: "registry \<Rightarrow> time \<Rightarrow> string" where
  "writeMetrics r now =
     writeCounter ''lag_http_requests_total'' ''Total HTTP requests handled by the gateway.'' (rg_http_requests r) @
     writeDurationSamples ''lag_http_request_duration_milliseconds_sum''
       ''Aggregate HTTP request duration in milliseconds.'' ''lag_http_request_duration_milliseconds_count''
       ''Count of HTTP requests with latency recorded.'' (rg_http_durations r) @
     writeCounter ''lag_provider_events_total'' ''Total provider routing events.'' (rg_provider_events r) @
     writeDurationSamples ''lag_provider_operation_duration_milliseconds_sum''
       ''Aggregate provider operation duration in milliseconds.'' ''lag_provider_operation_duration_milliseconds_count''
       ''Count of provider operations with latency recorded.'' (rg_provider_durations r) @
     writeCounter ''lag_provider_probe_results_total'' ''Total provider probe results by backend and result.''
       (rg_probe_results r) @
     writeProviderStatusMetrics r now @
     writeGovernanceMetrics (rg_rejections r) (rg_readyz_failures r) @
     writeStreamMetrics (rg_stream_requests r) (rg_stream_chunks r) (rg_ttft_sum r) (rg_ttft_count r)"

definition metrics_ServeHTTP :: "time \<Rightarrow> registry \<Rightarrow> response_writer \<Rightarrow> response_writer" where
  "metrics_ServeHTTP now r rw =
     snd (write_bytes (writeMetrics r now) (set_header ''Content-Type'' ''text/plain; version=0.0.4'' rw))"

end
