(* ===== verification/Gateway.thy ===== *)
theory Gateway
  imports Config Metrics MockProvider OpenAI Ollama Anthropic RedisLimits
begin

text \<open>
  \<open>cmd/gateway/main.go\<close>: the gateway's parts put together from its configuration. Opening the database,
  the HTTP server and its shutdown are left out. The upstreams are reached over an environment that is a
  parameter, and \<open>see\<close> tells what the router's \<open>select\<close> makes of the events of a stream: when they
  arrive and whether the client takes them.
\<close>

section \<open>The backends\<close>

text \<open>A backend's provider: one of the adapters, with the router's state as its world.\<close>

definition seen_stream ::
    "(stream_event list \<Rightarrow> 'w \<Rightarrow> selection list) \<Rightarrow> stream_event list res \<times> 'w \<Rightarrow> selection list res \<times> 'w" where
  "seen_stream see r = (case r of (Inl e, w) \<Rightarrow> (Inl e, w) | (Inr evs, w) \<Rightarrow> (Inr (see evs w), w))"

definition mock_backend_provider ::
    "(stream_event list \<Rightarrow> 'w \<Rightarrow> selection list) \<Rightarrow> ('w \<Rightarrow> time) \<Rightarrow> mock_config \<Rightarrow>
     ('w, 'h, selection list) chat_provider" where
  "mock_backend_provider see now cfg =
     \<lparr>CreateChatCompletion = (\<lambda>ctx req w. (mock_CreateChatCompletion cfg (now w) req, w)),
      StreamChatCompletion = (\<lambda>ctx req w. seen_stream see (mock_StreamChatCompletion cfg (now w) req, w))\<rparr>"

definition openai_backend_provider ::
    "(stream_event list \<Rightarrow> 'w \<Rightarrow> selection list) \<Rightarrow> 'w upstream \<Rightarrow> adapter \<Rightarrow>
     ('w, 'h, selection list) chat_provider" where
  "openai_backend_provider see env a =
     \<lparr>CreateChatCompletion = openai_CreateChatCompletion a env,
      StreamChatCompletion = (\<lambda>ctx req w. seen_stream see (openai_StreamChatCompletion a env ctx req w))\<rparr>"

definition anthropic_backend_provider ::
    "(stream_event list \<Rightarrow> 'w \<Rightarrow> selection list) \<Rightarrow> 'w upstream \<Rightarrow> anthropic_config \<Rightarrow>
     ('w, 'h, selection list) chat_provider" where
  "anthropic_backend_provider see env a =
     \<lparr>CreateChatCompletion = anthropic_CreateChatCompletion a env,
      StreamChatCompletion = (\<lambda>ctx req w. seen_stream see (anthropic_StreamChatCompletion a env ctx req w))\<rparr>"

definition ollama_backend_provider ::
    "(stream_event list \<Rightarrow> 'w \<Rightarrow> selection list) \<Rightarrow> 'w upstream \<Rightarrow> adapter \<Rightarrow>
     ('w, 'h, selection list) chat_provider" where
  "ollama_backend_provider see env a =
     \<lparr>CreateChatCompletion = ollama_CreateChatCompletion a env,
      StreamChatCompletion = (\<lambda>ctx req w. seen_stream see (ollama_StreamChatCompletion a env ctx req w))\<rparr>"

definition unrecorded_ctx :: "('w, unit) attempt_ctx" where
  "unrecorded_ctx = \<lparr>ctx_recorder = None, ctx_backend = []\<rparr>"

definition normalizeModels :: "string list \<Rightarrow> string list" where
  "normalizeModels models = (if length models = 0 then [] else normalize_loop {} models)"

definition endpoint_adapter :: "provider_endpoint_config \<Rightarrow> string \<Rightarrow> adapter" where
  "endpoint_adapter cfg model =
     \<lparr>ad_base_url = pe_base_url cfg, ad_api_key = pe_api_key cfg, ad_default_model = model,
      ad_timeout = go_mul (pe_timeout_seconds cfg) second, ad_max_retries = pe_max_retries cfg,
      ad_retry_backoff = go_mul (pe_retry_backoff_milliseconds cfg) millisecond\<rparr>"

definition buildProviderBackend ::
    "(stream_event list \<Rightarrow> 'm rstate_scheme \<Rightarrow> selection list) \<Rightarrow> 'm rstate_scheme upstream \<Rightarrow> string \<Rightarrow>
     provider_endpoint_config \<Rightarrow> string \<Rightarrow> mock_config \<Rightarrow> ('m, 'h) backend res" where
  "buildProviderBackend see env role cfg defaultModel mockCfg =
     (let providerType = to_lower (trim_space (pe_type cfg));
          providerType = (if providerType = [] then ''mock'' else providerType);
          name = trim_space (pe_name cfg);
          name = (if name = [] then providerType @ ''-'' @ role else name);
          model = trim_space (pe_model cfg);
          model = (if model = [] then defaultModel else model);
          models = normalizeModels (pe_models cfg);
          base_url_error = Inl (NewErr (role @ '' provider base_url is required for type '' @ providerType));
          remote = (\<lambda>provider listModels.
            \<lparr>be_name = name, be_provider = provider, be_list_models = Some listModels,
             be_priority = pe_priority cfg, be_models = models, be_rules = [],
             be_first_event_timeout = go_mul (pe_timeout_seconds cfg) second\<rparr>)
      in if providerType = ''mock''
         then
           let p = mock_NewWithConfig (mockCfg\<lparr>mk_model := model\<rparr>)
           in Inr \<lparr>be_name = name, be_provider = mock_backend_provider see rs_clock p,
                  be_list_models = Some (\<lambda>s. (mock_ListModels p (rs_clock s), s)),
                  be_priority = pe_priority cfg, be_models = models, be_rules = [],
                  be_first_event_timeout = 0\<rparr>
         else if providerType = ''openai''
         then
           if trim_space (pe_base_url cfg) = [] then base_url_error
           else let a = openai_New (endpoint_adapter cfg model)
                in Inr (remote (openai_backend_provider see env a) (openai_ListModels a env unrecorded_ctx))
         else if providerType = ''anthropic''
         then
           if trim_space (pe_base_url cfg) = [] then base_url_error
           else let a = anthropic_New (adapter.extend (endpoint_adapter cfg model)
                          \<lparr>ac_api_version = [], ac_max_tokens = pe_max_tokens cfg\<rparr>)
                in Inr (remote (anthropic_backend_provider see env a) (anthropic_ListModels a env unrecorded_ctx))
         else if providerType = ''ollama''
         then
           if trim_space (pe_base_url cfg) = [] then base_url_error
           else let a = ollama_New (endpoint_adapter cfg model)
                in Inr (remote (ollama_backend_provider see env a) (ollama_ListModels a env unrecorded_ctx))
         else Inl (NewErr (role @ '' provider type '' @ go_quote (pe_type cfg) @ '' is not supported'')))"

definition plain_mock :: mock_config where
  "plain_mock = \<lparr>mk_response_text = [], mk_stream_parts = [], mk_fail_create = False, mk_fail_stream = False,
                 mk_model = []\<rparr>"

fun build_endpoints ::
    "(string \<Rightarrow> provider_endpoint_config \<Rightarrow> ('m, 'h) backend res) \<Rightarrow> (string \<times> provider_endpoint_config) list \<Rightarrow>
     ('m, 'h) backend list res" where
  "build_endpoints build [] = Inr []"
| "build_endpoints build ((role, cfg) # rest) =
     (case build role cfg of
        Inl e \<Rightarrow> Inl e
      | Inr b \<Rightarrow> (case build_endpoints build rest of Inl e \<Rightarrow> Inl e | Inr bs \<Rightarrow> Inr (b # bs)))"

definition buildConfiguredProviderBackends ::
    "(stream_event list \<Rightarrow> 'm rstate_scheme \<Rightarrow> selection list) \<Rightarrow> 'm rstate_scheme upstream \<Rightarrow>
     provider_endpoint_config list \<Rightarrow> string \<Rightarrow> ('m, 'h) backend list res" where
  "buildConfiguredProviderBackends see env cfgs defaultModel =
     (case build_endpoints (\<lambda>role cfg. buildProviderBackend see env role cfg defaultModel plain_mock)
             (map (\<lambda>(index, cfg). (backend_role index, cfg)) (enumerate 0 cfgs)) of
        Inl e \<Rightarrow> Inl e
      | Inr backends \<Rightarrow>
          if length backends = 0 then Inl (NewErr ''at least one provider backend is required'')
          else Inr backends)"

definition buildProviderBackends ::
    "(stream_event list \<Rightarrow> 'm rstate_scheme \<Rightarrow> selection list) \<Rightarrow> 'm rstate_scheme upstream \<Rightarrow> config \<Rightarrow>
     ('m, 'h) backend list res" where
  "buildProviderBackends see env cfg =
     (let defaultModel = gc_default_model (cf_gateway cfg); pc = cf_provider cfg in
      if 0 < length (pc_backends pc)
      then buildConfiguredProviderBackends see env (pc_backends pc) defaultModel
      else
        case buildProviderBackend see env ''primary'' (pc_primary pc) defaultModel
               (plain_mock\<lparr>mk_fail_create := gc_primary_mock_fail_create (cf_gateway cfg),
                           mk_fail_stream := gc_primary_mock_fail_stream (cf_gateway cfg)\<rparr>) of
          Inl e \<Rightarrow> Inl e
        | Inr primary \<Rightarrow>
            (case buildProviderBackend see env ''secondary'' (pc_secondary pc) defaultModel plain_mock of
               Inl e \<Rightarrow> Inl e
             | Inr secondary \<Rightarrow> Inr [primary, secondary]))"

text \<open>Every provider can list its models.\<close>

definition collectModelSources :: "('m, 'h) backend list \<Rightarrow> 'm rstate_scheme model_source list" where
  "collectModelSources backends = List.map_filter be_list_models backends"

section \<open>The limiter\<close>

text \<open>
  The MySQL limiter, or the Redis limiter over it when an address is configured and the server answers a
  \<open>PING\<close> at the start.
\<close>

definition gateway_redis_client :: "redis_settings \<Rightarrow> redis_client" where
  "gateway_redis_client rs =
     NewClient \<lparr>cfg_address = rs_address rs, cfg_password = rs_password rs, cfg_db = rs_db rs,
                cfg_dial_timeout = 0\<rparr>"

definition buildLimiter :: "config \<Rightarrow> gw \<Rightarrow> gw limiter \<times> gw" where
  "buildLimiter cfg w =
     (if rs_address (cf_redis cfg) = [] then (mysql_limiter, w)
      else
        let redisClient = gateway_redis_client (cf_redis cfg) in
        case on_redis (Ping redisClient redis_network) w of
          (Inl e, w) \<Rightarrow> (mysql_limiter, w)
        | (Inr _, w) \<Rightarrow> (NewRedisLimiter (redis_client_gw redisClient) (Some mysql_limiter), w))"

section \<open>The provider\<close>

definition mustLoadProviderBackends ::
    "(stream_event list \<Rightarrow> 'm rstate_scheme \<Rightarrow> selection list) \<Rightarrow> 'm rstate_scheme upstream \<Rightarrow>
     (string \<Rightarrow> string) \<Rightarrow> config \<Rightarrow> db \<Rightarrow> ('m, 'h) backend list res \<times> db" where
  "mustLoadProviderBackends see env coll cfg d =
     (case buildProviderBackends see env cfg of
        Inl e \<Rightarrow> (Inl e, d)
      | Inr backends \<Rightarrow>
          (case ListRouteRules coll d of
             (Inl e, d) \<Rightarrow> (Inl e, d)
           | (Inr routeRules, d) \<Rightarrow>
               (case applyRouteRules backends routeRules of
                  Inl e \<Rightarrow> (Inl e, d)
                | Inr (backends, routeRulesEnabled) \<Rightarrow> (Inr backends, d))))"

definition gateway_router :: "config \<Rightarrow> ('m, 'h) backend list \<Rightarrow> ('m, 'h) router" where
  "gateway_router cfg backends =
     router_New backends
       \<lparr>rc_failure_threshold = gc_provider_failure_threshold (cf_gateway cfg),
        rc_cooldown = go_mul (gc_provider_cooldown_seconds (cf_gateway cfg)) second, rc_observer = True\<rparr>"

text \<open>The router is the provider of the chat service.\<close>

definition router_provider ::
    "('m, 'h) router \<Rightarrow> ('m rstate_scheme, 'h, stream_event list) chat_provider" where
  "router_provider p =
     \<lparr>CreateChatCompletion = router_CreateChatCompletion p,
      StreamChatCompletion = (\<lambda>ctx req s.
        case router_StreamChatCompletion p ctx req s of
          (Inl e, s) \<Rightarrow> (Inl e, s)
        | (Inr execution, s) \<Rightarrow> (let (events, s) = wrapStream p execution s in (Inr events, s)))\<rparr>"

definition gateway_chat_service :: "config \<Rightarrow> ('m, 'h) router \<Rightarrow> ('m rstate_scheme, 'h) chat_service" where
  "gateway_chat_service cfg p =
     \<lparr>svc_default_model = gc_default_model (cf_gateway cfg), svc_provider = router_provider p\<rparr>"

text \<open>
  \<open>multiProviderObserver\<close>: the logger's line is output only, and the registry hears every event that the
  router reports. \<open>NewRouter\<close> first copies the router's statuses into the registry.
\<close>

definition multiProviderObserver_OnEvent :: "(event \<Rightarrow> 'r \<Rightarrow> 'r) option list \<Rightarrow> event \<Rightarrow> 'r \<Rightarrow> 'r" where
  "multiProviderObserver_OnEvent observers event r =
     fold (\<lambda>obs r. case obs of None \<Rightarrow> r | Some f \<Rightarrow> f event r) observers r"

definition served_registry :: "('m, 'h) router \<Rightarrow> 'm rstate_scheme \<Rightarrow> registry" where
  "served_registry p s = SyncProviderStatuses (BackendStatuses p s) NewRegistry"

text \<open>\<open>startProviderProbeLoop\<close>: a probe at once, and one at every tick until the context ends.\<close>

definition startProviderProbeLoop :: "('m, 'h) router \<Rightarrow> duration \<Rightarrow> duration list \<Rightarrow> 'm rstate_scheme \<Rightarrow> 'm rstate_scheme" where
  "startProviderProbeLoop p interval waits s =
     (if interval \<le> 0 then s
      else fold (\<lambda>d s. Probe p (pass_time d s)) waits (Probe p s))"

end
