(* ===== verification/Process.thy ===== *)
theory Process
  imports Gateway Api
begin

text \<open>
  The gateway process of \<open>cmd/gateway/main.go\<close>: the services of \<open>mustBuildGatewayApp\<close> and the handler of
  \<open>newGatewayServer\<close>, on one world. The router works on its part of the world and, through the recorder
  in the context, on the database; \<open>live\<close> is that world with the router's part in front, as the router's
  definitions take it, and with the tracker of the request that is served.
\<close>

section \<open>The world of the router\<close>

record live = rstate +
  lv_db :: db
  lv_redis :: redis
  lv_requests :: int
  lv_network :: nat
  lv_tracker :: "gw request_tracker"

type_synonym rest = "unit live_ext"

definition enter_router :: "gw \<times> gw request_tracker \<Rightarrow> live" where
  "enter_router wt = (let (w, t) = wt in
     \<lparr>rs_states = rs_states (gw_router w), rs_log = rs_log (gw_router w), rs_clock = rs_clock (gw_router w),
      lv_db = gw_db w, lv_redis = gw_redis w, lv_requests = gw_requests w, lv_network = gw_network w,
      lv_tracker = t\<rparr>)"

definition leave_router :: "live \<Rightarrow> gw \<times> gw request_tracker" where
  "leave_router s =
     (\<lparr>gw_db = lv_db s, gw_redis = lv_redis s,
       gw_router = \<lparr>rs_states = rs_states s, rs_log = rs_log s, rs_clock = rs_clock s\<rparr>,
       gw_requests = lv_requests s, gw_network = lv_network s\<rparr>, lv_tracker s)"

definition at_router :: "(live \<Rightarrow> 'a \<times> live) \<Rightarrow> gw \<times> gw request_tracker \<Rightarrow> 'a \<times> gw \<times> gw request_tracker" where
  "at_router m wt = (let (x, s) = m (enter_router wt) in (x, leave_router s))"

definition at_gateway :: "(gw \<times> gw request_tracker \<Rightarrow> 'a \<times> gw \<times> gw request_tracker) \<Rightarrow> live \<Rightarrow> 'a \<times> live" where
  "at_gateway m s = (let (x, wt) = m (leave_router s) in (x, enter_router wt))"

text \<open>The recorder of a request's context as the backends see it.\<close>

definition router_recorder ::
    "(gw \<times> gw request_tracker, 'h) attempt_recorder \<Rightarrow> (live, 'h) attempt_recorder" where
  "router_recorder rec =
     \<lparr>begin_attempt = (\<lambda>b m. at_gateway (begin_attempt rec b m)),
      complete_attempt = (\<lambda>h result. at_gateway (complete_attempt rec h result))\<rparr>"

definition router_ctx :: "(gw \<times> gw request_tracker, 'h) attempt_ctx \<Rightarrow> (live, 'h) attempt_ctx" where
  "router_ctx ctx =
     \<lparr>ctx_recorder = map_option router_recorder (ctx_recorder ctx), ctx_backend = ctx_backend ctx\<rparr>"

text \<open>
  The upstreams have a state of their own: a call moves it and takes time, and touches nothing else.
\<close>

definition at_upstream :: "(nat \<times> time \<Rightarrow> 'a \<times> nat \<times> time) \<Rightarrow> live \<Rightarrow> 'a \<times> live" where
  "at_upstream m s =
     (let (x, n, t) = m (lv_network s, rs_clock s) in (x, s\<lparr>lv_network := n, rs_clock := t\<rparr>))"

definition upstream_of :: "(nat \<times> time) upstream \<Rightarrow> live upstream" where
  "upstream_of net =
     \<lparr>env_do = (\<lambda>dl rq. at_upstream (env_do net dl rq)),
      env_ctx_err = (\<lambda>dl s. env_ctx_err net dl (lv_network s, rs_clock s)),
      env_wait = (\<lambda>dl d. at_upstream (env_wait net dl d)),
      env_offer = at_upstream (env_offer net),
      env_now = rs_clock\<rparr>"

section \<open>The services\<close>

definition process_now :: "gw \<Rightarrow> time" where
  "process_now w = rs_clock (gw_router w)"

text \<open>The tracker of the world outside of any completion, which nothing asks.\<close>

definition no_tracker :: "gw request_tracker" where
  "no_tracker = newRequestTracker mysql_store None
     \<lparr>principal_tenant = \<lparr>tenant_id = 0, tenant_name = [], rpm_limit = 0, tpm_limit = 0, token_budget = 0\<rparr>,
      principal_key_id = 0, principal_key_prefix = []\<rparr> 0
     \<lparr>rm_request_id = [], rm_model = [], rm_stream = False, rm_messages = []\<rparr>"

definition process_chat_service ::
    "(live, gw attempt_handle) chat_service \<Rightarrow> (gw \<times> gw request_tracker, gw attempt_handle) chat_service" where
  "process_chat_service sv =
     \<lparr>svc_default_model = svc_default_model sv,
      svc_provider =
        \<lparr>CreateChatCompletion = (\<lambda>ctx req.
           at_router (CreateChatCompletion (svc_provider sv) (router_ctx ctx) req)),
         StreamChatCompletion = (\<lambda>ctx req.
           at_router (StreamChatCompletion (svc_provider sv) (router_ctx ctx) req))\<rparr>\<rparr>"

definition process_model_source :: "live model_source \<Rightarrow> gw model_source" where
  "process_model_source source w = (let (x, w, t) = at_router source (w, no_tracker) in (x, w))"

text \<open>\<open>gatewayApp\<close>; the registry is what it has heard, see \<open>registry_at\<close>.\<close>

record gateway_app =
  ga_auth :: "gw api_key_finder"
  ga_governance :: "gw governance_service"
  ga_usage :: "gw usage_reader"
  ga_chat :: "(gw \<times> gw request_tracker, gw attempt_handle) chat_service"
  ga_models :: "gw model_source list"
  ga_provider :: "(rest, gw attempt_handle) router"

definition gateway_app_of ::
    "(string \<Rightarrow> string) \<Rightarrow> config \<Rightarrow> gw limiter \<Rightarrow> (rest, gw attempt_handle) backend list \<Rightarrow> gateway_app" where
  "gateway_app_of coll cfg limiter backends =
     (let chatProvider = gateway_router cfg backends in
      \<lparr>ga_auth = (\<lambda>h. on_db (LookupAPIKey coll h)),
       ga_governance = \<lparr>gs_store = mysql_store, gs_limiter = Some limiter, gs_now = process_now\<rparr>,
       ga_usage = mysql_usage_reader,
       ga_chat = process_chat_service (gateway_chat_service cfg chatProvider),
       ga_models = map process_model_source (collectModelSources backends),
       ga_provider = chatProvider\<rparr>)"

definition mustBuildGatewayApp ::
    "(stream_event list \<Rightarrow> live \<Rightarrow> selection list) \<Rightarrow> (nat \<times> time) upstream \<Rightarrow> (string \<Rightarrow> string) \<Rightarrow>
     config \<Rightarrow> gw \<Rightarrow> gateway_app res \<times> gw" where
  "mustBuildGatewayApp see net coll cfg w =
     (let (limiter, w) = buildLimiter cfg w in
      case on_db (mustLoadProviderBackends see (upstream_of net) coll cfg) w of
        (Inl e, w) \<Rightarrow> (Inl e, w)
      | (Inr backends, w) \<Rightarrow> (Inr (gateway_app_of coll cfg limiter backends), w))"

text \<open>
  The registry at a state of the server: it was given the statuses when the server was made, heard the
  router's events since, and was called by the middleware and the handlers. The calls of the two kinds
  write different maps, so their order does not matter.
\<close>

definition registry_at :: "(rest, 'h) router \<Rightarrow> gw \<Rightarrow> gw http_state \<Rightarrow> registry" where
  "registry_at p start s =
     fold apply_metric (hx_metrics s)
       (fold (multiProviderObserver_OnEvent [None, Some OnEvent]) (rs_log (gw_router (hx_world s)))
         (served_registry p (enter_router (start, no_tracker))))"

definition process_count :: "gw \<Rightarrow> int \<times> gw" where
  "process_count w = (gw_requests w + 1, w\<lparr>gw_requests := gw_requests w + 1\<rparr>)"

text \<open>
  \<open>newGatewayServer\<close>: the handler of the server. \<open>ctxErr\<close> is the error of a request's context; \<open>start\<close> is
  the world when the server is made, before the router has told anything.
\<close>

definition newGatewayServer ::
    "(gw \<times> gw request_tracker \<Rightarrow> err option \<times> gw \<times> gw request_tracker) \<Rightarrow> config \<Rightarrow> gateway_app \<Rightarrow> gw \<Rightarrow>
     gw router_dependencies" where
  "newGatewayServer ctxErr cfg app start =
     \<lparr>rd_chat = \<lparr>hd_service = ga_chat app, hd_governance = ga_governance app, hd_metrics = True,
                 hd_now = process_now, hd_ctx_err = ctxErr\<rparr>,
      rd_models = ga_models app, rd_usage = ga_usage app, rd_finder = ga_auth app,
      rd_providers = Some (providerHealthAdapter (ga_provider app) (\<lambda>w. enter_router (w, no_tracker))),
      rd_metrics_handler = Some (\<lambda>r ctxPrincipal s.
        on_writer (metrics_ServeHTTP (process_now (hx_world s)) (registry_at (ga_provider app) start s)) s),
      rd_metrics = True, rd_max_body = sc_max_request_body_bytes (cf_server cfg),
      rd_now = process_now, rd_count = process_count\<rparr>"

end
