(* ===== verification/CallRelation.thy ===== *)
theory CallRelation
  imports OpenAI Ollama Anthropic
begin

text \<open>
  What the three adapters do to their world: they send requests, wait, offer events and report to the
  recorder, and nothing else. A relation on worlds that has these steps has every call of an adapter.
\<close>

locale call_steps =
  fixes R :: "'w \<Rightarrow> 'w \<Rightarrow> bool"
    and given :: "'w \<Rightarrow> 'h \<Rightarrow> bool"
    and env :: "'w upstream"
    and recorder :: "('w, 'h) attempt_recorder option"
  assumes same: "R w w"
    and compose: "R w v \<Longrightarrow> R v u \<Longrightarrow> R w u"
    and keeping: "R w v \<Longrightarrow> given w h \<Longrightarrow> given v h"
    and sending: "R w (snd (env_do env dl rq w))"
    and waiting: "R w (snd (env_wait env dl d w))"
    and offering: "R w (snd (env_offer env w))"
    and beginning: "recorder = Some rec \<Longrightarrow> begin_attempt rec b m w = (r, v) \<Longrightarrow>
      R w v \<and> (\<forall>h. r = Inr h \<longrightarrow> given v h)"
    and completing: "recorder = Some rec \<Longrightarrow> given w h \<Longrightarrow> complete_attempt rec h res w = (q, v) \<Longrightarrow> R w v"
begin

definition handed :: "'w \<Rightarrow> 'h option \<Rightarrow> bool" where
  "handed w handle \<longleftrightarrow> (\<forall>h. handle = Some h \<longrightarrow> given w h)"

lemma handed_in: "handed w handle \<Longrightarrow> R w v \<Longrightarrow> handed v handle"
  using keeping by (auto simp: handed_def)

lemma step_in:
  "env_do env dl rq w = (x, w') \<Longrightarrow> R w w'"
  "env_wait env dl d w = (y, w') \<Longrightarrow> R w w'"
  "env_offer env w = (z, w') \<Longrightarrow> R w w'"
  using sending [of w dl rq] waiting [of w dl d] offering [of w] by simp_all

lemma begin_in:
  assumes "ctx_recorder ctx = recorder" and "adapter_beginAttempt ctx m w = (r, w')"
  shows "R w w' \<and> (\<forall>handle. r = Inr handle \<longrightarrow> handed w' handle)"
proof (cases "m = None \<or> recorder = None")
  case True
  with assms have "w' = w" "r = Inr None" by (auto simp: adapter_beginAttempt_def split: option.splits)
  then show ?thesis by (simp add: same handed_def)
next
  case False
  then obtain md rec where "m = Some md" "recorder = Some rec" by auto
  with assms beginning [of rec "ctx_backend ctx" md w] show ?thesis
    by (auto simp: adapter_beginAttempt_def handed_def split: prod.splits sum.splits)
qed

lemma finish_in:
  assumes "ctx_recorder ctx = recorder" and "handed w handle" and "finish_attempt ctx handle result w = (r, w')"
  shows "R w w'"
  using assms completing [of _ w _ result]
  by (auto simp: finish_attempt_def handed_def Let_def same split: option.splits prod.splits)

lemma fail_in:
  "ctx_recorder ctx = recorder \<Longrightarrow> handed w handle \<Longrightarrow> failAttempt ctx handle model w = (r, w') \<Longrightarrow> R w w'"
  unfolding failAttempt_def by (rule finish_in)

lemma do_once_in: "do_once env dl message rq w = (r, w') \<Longrightarrow> R w w'"
  by (auto simp: do_once_def split: prod.splits sum.splits if_splits dest: step_in(1))

definition served :: "'w \<Rightarrow> (http_response \<times> 'h option) res \<times> 'w \<Rightarrow> bool" where
  "served w x \<longleftrightarrow> R w (snd x) \<and> (\<forall>resp handle. fst x = Inr (resp, handle) \<longrightarrow> handed (snd x) handle)"

lemma served_after: "R w v \<Longrightarrow> served v x \<Longrightarrow> served w x"
  using compose by (auto simp: served_def)

lemma request_turn_in:
  assumes "ctx_recorder ctx = recorder"
    and "\<And>left' w1. left = Suc left' \<Longrightarrow> served w1 (request_loop a env message ctx dl m rq left' (attempt + 1) w1)"
  shows "served w (request_loop a env message ctx dl m rq left attempt w)"
proof -
  note loop = request_loop.simps [of a env message ctx dl m rq left attempt w]
  obtain b w1 where b: "adapter_beginAttempt ctx m w = (b, w1)" by fastforce
  note b1 = begin_in [OF assms(1) b]
  have "served w1 (request_loop a env message ctx dl m rq left attempt w)"
  proof (cases b)
    case (Inl e)
    then show ?thesis using b by (simp add: loop served_def same)
  next
    case (Inr handle)
    obtain d w2 where d: "do_once env dl message rq w1 = (d, w2)" by fastforce
    have d2: "R w1 w2" using do_once_in [OF d] .
    then have h2: "handed w2 handle" using b1 Inr handed_in by blast
    show ?thesis
    proof (cases d)
      case (Inr resp)
      then show ?thesis using b \<open>b = Inr handle\<close> d d2 h2 by (simp add: loop served_def)
    next
      case (Inl e)
      obtain f w3 where f: "failAttempt ctx handle (metadataModel m) w2 = (f, w3)" by fastforce
      have f3: "R w1 w3" using compose [OF d2 fail_in [OF assms(1) h2 f]] .
      obtain c w4 where c: "env_wait env dl (retry_delay a attempt) w3 = (c, w4)" by fastforce
      have "R w1 w4" using compose [OF f3 step_in(2) [OF c]] .
      then show ?thesis
        using b \<open>b = Inr handle\<close> d Inl f f3 c served_after assms(2)
        by (auto simp: loop served_def split: sum.splits nat.splits option.splits)
    qed
  qed
  with b1 show ?thesis by (rule served_after [OF conjunct1])
qed

lemma request_loop_in:
  assumes "ctx_recorder ctx = recorder"
  shows "served w (request_loop a env message ctx dl m rq left attempt w)"
proof (induction left arbitrary: attempt w)
  case 0
  show ?case by (rule request_turn_in [OF assms]) simp
next
  case (Suc left)
  show ?case by (rule request_turn_in [OF assms]) (use Suc.IH in simp)
qed

lemma doRequest_in:
  assumes "ctx_recorder ctx = recorder" and "doRequest a env message ctx dl m rq w = (r, w')"
  shows "R w w' \<and> (\<forall>resp handle. r = Inr (resp, handle) \<longrightarrow> handed w' handle)"
proof -
  have "served w (r, w')" using request_loop_in [OF assms(1)] assms(2) by (metis doRequest_def)
  then show ?thesis by (simp add: served_def)
qed

lemma json_request_in:
  assumes "ctx_recorder ctx = recorder"
    and "json_request a env message ctx dl metadata rq dec judge outcome w = (r, w')"
  shows "R w w'"
  using assms(2)
  by (auto simp: json_request_def split: prod.splits sum.splits
      dest!: doRequest_in [OF assms(1)] finish_in [OF assms(1), rotated] fail_in [OF assms(1), rotated]
      intro: compose)

lemma publishStreamError_in: "publishStreamError env e w = (evs, w') \<Longrightarrow> R w w'"
  by (auto simp: publishStreamError_def split: prod.splits option.splits dest: step_in(3))

lemma publishFailure_in:
  assumes "ctx_recorder ctx = recorder" and "handed w handle"
    and "publishFailure env ctx handle model e w = (evs, w')"
  shows "R w w'"
  using assms(3)
  by (auto simp: publishFailure_def split: prod.splits dest!: fail_in [OF assms(1,2)] publishStreamError_in
      intro: compose)

section \<open>OpenAI\<close>

lemma openai_publishChunk_in:
  assumes "ctx_recorder ctx = recorder" and "handed w handle" and "openai_publishChunk env ctx handle model p w = (ok, evs, w')"
  shows "R w w'"
  using assms(3)
  by (auto simp: openai_publishChunk_def Let_def split: prod.splits option.splits
      dest!: step_in(3) dest: publishFailure_in [OF assms(1) handed_in [OF assms(2)]] intro: compose)

lemma openai_consumeLine_in:
  assumes "ctx_recorder ctx = recorder" and "handed w handle"
    and "openai_consumeLine env ctx handle model line w = (dn, ok, evs, model', w')"
  shows "R w w'"
  using assms(3)
  by (auto simp: openai_consumeLine_def Let_def same split: prod.splits sum.splits if_splits
      dest!: openai_publishChunk_in [OF assms(1,2)] publishFailure_in [OF assms(1,2)])

lemma openai_stream_lines_in:
  assumes "ctx_recorder ctx = recorder" and "handed w handle"
    and "openai_stream_lines env ctx handle ending model ls w = (evs, w')"
  shows "R w w'"
  using assms(2,3)
proof (induction ls arbitrary: model w evs)
  case Nil
  then show ?case by (auto dest: publishFailure_in [OF assms(1)])
next
  case (Cons l ls)
  then show ?case
    by (auto split: prod.splits if_splits dest!: openai_consumeLine_in [OF assms(1), rotated])
      (metis compose handed_in)+
qed

lemma openai_calls_in:
  assumes "ctx_recorder ctx = recorder"
  shows "R w (snd (openai_CreateChatCompletion a env ctx req w))"
    and "R w (snd (openai_StreamChatCompletion a env ctx req w))"
    and "R w (snd (openai_ListModels a env ctx w))"
  unfolding openai_CreateChatCompletion_def openai_doJSONRequest_def openai_StreamChatCompletion_def
    openai_openStream_def openai_ListModels_def
  by (auto split: prod.splits sum.splits dest!: json_request_in [OF assms] doRequest_in [OF assms]
      openai_stream_lines_in [OF assms] intro: compose)

section \<open>Ollama\<close>

lemma ollama_publishChunk_in:
  assumes "ctx_recorder ctx = recorder" and "handed w handle" and "ollama_publishChunk env ctx handle p model w = (ok, evs, w')"
  shows "R w w'"
  using assms(3)
  by (auto simp: ollama_publishChunk_def Let_def split: prod.splits option.splits
      dest!: step_in(3) dest: publishFailure_in [OF assms(1) handed_in [OF assms(2)]] intro: compose)

lemma ollama_consumeLine_in:
  assumes "ctx_recorder ctx = recorder" and "handed w handle" and "ollama_consumeLine env ctx handle model line w = (dn, ok, evs, w')"
  shows "R w w'"
  using assms(3)
  by (auto simp: ollama_consumeLine_def Let_def same split: prod.splits sum.splits if_splits
      dest!: ollama_publishChunk_in [OF assms(1,2)] publishFailure_in [OF assms(1,2)])

lemma ollama_stream_lines_in:
  assumes "ctx_recorder ctx = recorder" and "handed w handle" and "ollama_stream_lines env ctx handle scanErr model ls w = (evs, w')"
  shows "R w w'"
  using assms(2,3)
  by (induction ls arbitrary: w evs)
    (auto simp: same split: prod.splits if_splits option.splits
      dest!: ollama_consumeLine_in [OF assms(1), rotated] publishFailure_in [OF assms(1), rotated]
      intro: compose handed_in)

lemma ollama_calls_in:
  assumes "ctx_recorder ctx = recorder"
  shows "R w (snd (ollama_CreateChatCompletion a env ctx req w))"
    and "R w (snd (ollama_StreamChatCompletion a env ctx req w))"
    and "R w (snd (ollama_ListModels a env ctx w))"
  unfolding ollama_CreateChatCompletion_def ollama_doChatRequest_def ollama_StreamChatCompletion_def
    ollama_openStream_def ollama_doRequest_def ollama_ListModels_def
  by (auto simp: Let_def split: prod.splits sum.splits dest!: json_request_in [OF assms] doRequest_in [OF assms]
      ollama_stream_lines_in [OF assms] intro: compose)

section \<open>Anthropic\<close>

lemma publishStreamChunk_in: "publishStreamChunk env st m f w = (ok, evs, w') \<Longrightarrow> R w w'"
  by (auto simp: publishStreamChunk_def Let_def split: prod.splits option.splits
      dest!: step_in(3) publishStreamError_in intro: compose)

lemma consumeEvent_in:
  assumes "ctx_recorder ctx = recorder" and "handed w handle" and "consumeEvent env ctx handle ev st w = (dn, ok, evs, st', w')"
  shows "R w w'"
  using assms(3)
  by (auto simp: consumeEvent_def publishContentDelta_def publishMessageDelta_def publishMessageStop_def Let_def
      same split: prod.splits sum.splits if_splits
      dest!: publishStreamChunk_in publishFailure_in [OF assms(1,2)])

lemma anthropic_stream_events_in:
  assumes "ctx_recorder ctx = recorder" and "handed w handle"
    and "anthropic_stream_events env ctx handle ending events st w = (evs, w')"
  shows "R w w'"
  using assms(2,3)
proof (induction events arbitrary: st w evs)
  case Nil
  then show ?case by (auto dest: publishFailure_in [OF assms(1)])
next
  case (Cons ev events)
  then show ?case
    by (auto split: prod.splits if_splits dest!: consumeEvent_in [OF assms(1), rotated])
      (metis compose handed_in)+
qed

lemma anthropic_calls_in:
  assumes "ctx_recorder ctx = recorder"
  shows "R w (snd (anthropic_CreateChatCompletion a env ctx req w))"
    and "R w (snd (anthropic_StreamChatCompletion a env ctx req w))"
    and "R w (snd (anthropic_ListModels a env ctx w))"
  unfolding anthropic_CreateChatCompletion_def anthropic_doJSONRequest_def anthropic_StreamChatCompletion_def
    anthropic_openStream_def anthropic_doRequest_def anthropic_ListModels_def
  by (auto simp: Let_def split: prod.splits sum.splits dest!: json_request_in [OF assms] doRequest_in [OF assms]
      anthropic_stream_events_in [OF assms] intro: compose)

end

end
