(* ===== verification/GatewayFacts.thy ===== *)
theory GatewayFacts
  imports Gateway RoutingFacts TextFacts
begin

text \<open>
  The backends built from the configuration and the routing rules seeded from it: both name the
  backends in the same way, so the seeded rules can be applied, and the ranking under them is the ranking
  without them, less the backends that do not name the model.
\<close>

section \<open>What is built\<close>

definition built :: "string \<times> provider_endpoint_config \<Rightarrow> ('m, 'h) backend \<Rightarrow> bool" where
  "built rc b \<longleftrightarrow> be_name b = resolveProviderName (fst rc) (snd rc) \<and> trim_space (be_name b) = be_name b \<and>
     be_name b \<noteq> [] \<and> be_priority b = pe_priority (snd rc) \<and>
     be_models b = normalizeRouteRuleModels (pe_models (snd rc)) \<and> be_rules b = []"

definition good_role :: "string \<Rightarrow> bool" where
  "good_role role \<longleftrightarrow> role \<noteq> [] \<and> visible (last role)"

lemma type_name_trimmed:
  assumes "good_role role" and "providerType \<in> {''mock'', ''openai'', ''anthropic'', ''ollama''}"
  shows "trim_space (providerType @ ''-'' @ role) = providerType @ ''-'' @ role"
  using assms by (intro trim_space_ends(1)) (auto simp: good_role_def visible_def)

lemma normalizeModels_eq [simp]: "normalizeModels models = normalizeRouteRuleModels models"
  by (simp add: normalizeModels_def normalizeRouteRuleModels_def)

lemma buildProviderBackend_built:
  assumes "buildProviderBackend see env role cfg defaultModel mockCfg = Inr b" and "good_role role"
  shows "built (role, cfg) b"
proof -
  let ?t = "if to_lower (trim_space (pe_type cfg)) = [] then ''mock'' else to_lower (trim_space (pe_type cfg))"
  have t: "?t \<in> {''mock'', ''openai'', ''anthropic'', ''ollama''}"
    and f: "be_name b = resolveProviderName role cfg" "be_priority b = pe_priority cfg"
      "be_models b = normalizeRouteRuleModels (pe_models cfg)" "be_rules b = []"
    using assms(1) by (auto simp: buildProviderBackend_def resolveProviderName_def Let_def split: if_splits)
  have "be_name b = (if trim_space (pe_name cfg) \<noteq> [] then trim_space (pe_name cfg) else ?t @ ''-'' @ role)"
    by (simp add: f resolveProviderName_def Let_def)
  then have "trim_space (be_name b) = be_name b \<and> be_name b \<noteq> []"
    using type_name_trimmed [OF assms(2) t] by (auto simp: trim_space_idem)
  then show ?thesis by (simp add: built_def f)
qed

lemma good_roles: "good_role ''primary''" "good_role ''secondary''" "good_role (backend_role i)"
  by (simp_all add: good_role_def backend_role_def visible_def)

lemma build_endpoints_built:
  assumes "build_endpoints build rcs = Inr bs"
    and "\<And>role cfg b. (role, cfg) \<in> set rcs \<Longrightarrow> build role cfg = Inr b \<Longrightarrow> built (role, cfg) b"
  shows "list_all2 built rcs bs"
  using assms
  by (induction rcs arbitrary: bs) (auto split: sum.splits)

lemma buildProviderBackends_built:
  assumes "buildProviderBackends see env cfg = Inr bs"
  shows "list_all2 built (configuredProviderEndpoints (cf_provider cfg)) bs"
proof (cases "0 < length (pc_backends (cf_provider cfg))")
  case True
  let ?rcs = "map (\<lambda>(index, e). (backend_role index, e)) (enumerate 0 (pc_backends (cf_provider cfg)))"
  have "build_endpoints (\<lambda>role e. buildProviderBackend see env role e (gc_default_model (cf_gateway cfg)) plain_mock)
      ?rcs = Inr bs"
    using assms True
    by (auto simp: buildProviderBackends_def buildConfiguredProviderBackends_def Let_def split: sum.splits if_splits)
  then have "list_all2 built ?rcs bs"
    by (rule build_endpoints_built) (auto intro: buildProviderBackend_built good_roles)
  then show ?thesis using True by (simp add: configuredProviderEndpoints_def)
next
  case False
  with assms show ?thesis
    using buildProviderBackend_built good_roles
    by (auto simp: buildProviderBackends_def configuredProviderEndpoints_def Let_def split: sum.splits if_splits)
      blast+
qed

lemma built_nonempty:
  assumes "buildProviderBackends see env cfg = Inr bs"
  shows "bs \<noteq> []"
proof -
  have "length bs = length (configuredProviderEndpoints (cf_provider cfg))"
    using buildProviderBackends_built [OF assms] by (simp add: list_all2_lengthD)
  then show ?thesis by (auto simp: configuredProviderEndpoints_def split: if_splits)
qed

section \<open>Applying rules for known backends\<close>

lemma group_rules_succeeds:
  "\<forall>r \<in> set rs. trim_space (rrec_backend_name r) \<noteq> [] \<Longrightarrow> \<exists>x. group_rules rs acc = Inr x"
  by (induction rs arbitrary: acc) (auto simp: Let_def)

lemma applyRouteRules_known:
  fixes bs :: "('m, 'h) backend list"
  assumes "rules \<noteq> []"
    and "\<forall>r \<in> set rules. trim_space (rrec_backend_name r) \<noteq> [] \<and>
      (\<exists>b \<in> set bs. be_name b = trim_space (rrec_backend_name r))"
  shows "applyRouteRules bs rules =
    Inr (map (routed rules) (filter (\<lambda>b. rules_of (be_name b) rules \<noteq> []) bs), True)"
proof -
  let ?f = "map (routed rules) (filter (\<lambda>b. rules_of (be_name b) rules \<noteq> []) bs)"
  obtain bb mp where g: "group_rules rules (\<lambda>_. None, \<lambda>_. None) = Inr (bb, mp)"
    using group_rules_succeeds [of rules] assms(2) by (metis prod.collapse)
  have filtered: "List.map_filter (route_backend bb mp) bs = ?f"
    using g by (rule map_filter_routed)
  have "trim_space (rrec_backend_name r) \<in> be_name ` set ?f" if r: "r \<in> set rules" for r
  proof -
    from assms(2) r obtain b where "b \<in> set bs" and b: "be_name b = trim_space (rrec_backend_name r)" by blast
    then have "b \<in> {x \<in> set bs. rules_of (be_name x) rules \<noteq> []}" using r by (auto simp: rules_of_empty_iff)
    then have "routed rules b \<in> set ?f" by auto
    moreover have "be_name (routed rules b) = trim_space (rrec_backend_name r)" using b by (simp add: routed_def)
    ultimately show ?thesis by (metis imageI)
  qed
  then have "find (\<lambda>r. trim_space (rrec_backend_name r) \<notin> be_name ` set ?f) rules = None" "?f \<noteq> []"
    using assms(1) by (auto simp: find_None_iff simp del: set_map) (metis list.set_intros(1) neq_Nil_conv)
  then show ?thesis
    using assms(1) g by (simp add: applyRouteRules_def filtered Let_def)
qed

section \<open>The seeded rules\<close>

text \<open>The rules a backend of the configuration gets.\<close>

definition own_rules :: "('m, 'h) backend \<Rightarrow> route_rule list" where
  "own_rules b =
     (if be_models b = [] then [\<lparr>rule_model = [], rule_priority = be_priority b\<rparr>]
      else map (\<lambda>m. \<lparr>rule_model = m, rule_priority = be_priority b\<rparr>) (be_models b))"

lemma normalized_models: "m \<in> set (normalizeRouteRuleModels ms) \<Longrightarrow> normalize_model m = m \<and> m \<noteq> []"
  by (auto simp: normalizeRouteRuleModels_def normalize_loop_eq)

lemma rules_of_concat: "rules_of n (concat rss) = concat (map (rules_of n) rss)"
  by (induction rss) (simp_all add: rules_of_def)

lemma normalize_empty [simp]: "normalize_model [] = []"
  by (simp add: normalize_model_def)

lemma endpoint_rules_of:
  assumes "built rc b"
  shows "rules_of n (endpoint_rules rc) = (if be_name b = n then own_rules b else [])"
proof -
  have "map (\<lambda>m. \<lparr>rule_model = normalize_model m, rule_priority = p\<rparr>) (be_models b) =
      map (\<lambda>m. \<lparr>rule_model = m, rule_priority = p\<rparr>) (be_models b)" for p
    using assms normalized_models by (auto simp: built_def)
  then show ?thesis
    using assms
    by (auto simp: built_def endpoint_rules_def own_rules_def rules_of_def Let_def comp_def split: prod.splits)
qed

lemma seeds_rules_of:
  assumes "list_all2 built rcs bs" and "distinct (map be_name bs)" and "b \<in> set bs"
  shows "rules_of (be_name b) (concat (map endpoint_rules rcs)) = own_rules b"
  using assms
proof (induction rule: list_all2_induct)
  case (Cons rc rcs c bs)
  have none: "rules_of n (concat (map endpoint_rules rcs)) = []" if "n \<notin> be_name ` set bs" for n
    using Cons.hyps(2) that
    by (induction rule: list_all2_induct) (auto simp: rules_of_def endpoint_rules_of [unfolded rules_of_def])
  have eq: "rules_of n (concat (map endpoint_rules (rc # rcs))) =
      (if be_name c = n then own_rules c else []) @ rules_of n (concat (map endpoint_rules rcs))" for n
    using endpoint_rules_of [OF Cons.hyps(1)] by (simp add: rules_of_def)
  show ?case
  proof (cases "b = c")
    case True
    have "be_name c \<notin> be_name ` set bs" using Cons.prems(1) by simp
    then show ?thesis using True eq [of "be_name b"] none by simp
  next
    case False
    then have "b \<in> set bs" and "be_name c \<noteq> be_name b" using Cons.prems by auto
    then show ?thesis using eq [of "be_name b"] Cons.IH Cons.prems(1) by simp
  qed
qed simp

lemma own_rules_nonempty [simp]: "own_rules b \<noteq> []"
  by (simp add: own_rules_def)

lemma own_rules_priorities: "rule_priority ` set (own_rules b) = {be_priority b}"
  by (cases "be_models b") (auto simp: own_rules_def)

lemma rule_priorities_same:
  "\<forall>m \<in> set ms. normalize_model m = m \<and> m \<noteq> [] \<Longrightarrow>
   rule_priorities model (map (\<lambda>m. \<lparr>rule_model = m, rule_priority = p\<rparr>) ms) (ex, gen) =
     (if model \<in> set ms \<and> p < ex then p else ex, gen)"
  by (induction ms arbitrary: ex) (auto simp: normalize_model_def Let_def)

text \<open>What the rules make of a preference: a backend that does not name the model is not considered.\<close>

lemma own_rules_preference:
  assumes "built rc b" and "model \<noteq> []" and "be_priority b < max_int"
    and "fold_key model = model" and "\<forall>m \<in> set (be_models b). fold_key m = m"
  shows "routeRulePreference (own_rules b) model =
    (if 0 < fst (backendPreference b model) then backendPreference b model else (0, 0, False))"
proof -
  have ms: "\<forall>m \<in> set (be_models b). normalize_model m = m \<and> m \<noteq> []"
    using assms(1) normalized_models by (auto simp: built_def)
  have "trim_space m = m" if "normalize_model m = m" for m
    using that trim_space_idem [of "to_lower m"] by (simp add: normalize_model_def)
  then have "list_ex (\<lambda>c. equal_fold (trim_space c) model) (be_models b) \<longleftrightarrow> model \<in> set (be_models b)"
    using ms assms(4,5) by (auto simp: list_ex_iff equal_fold_def)
  moreover have "trim_space (to_lower []) = []" by simp
  ultimately show ?thesis
    using assms(1-3) rule_priorities_same [OF ms, of model "be_priority b" no_priority no_priority]
    by (auto simp: built_def own_rules_def routeRulePreference_def backendPreference_def no_priority_def
        max_int_def Let_def)
qed

lemma sort_key_map: "sort_key f (map g xs) = map g (sort_key (\<lambda>x. f (g x)) xs)"
proof (induction xs)
  case (Cons x xs)
  have "insort_key f (g x) (map g ys) = map g (insort_key (\<lambda>x. f (g x)) x ys)" for ys
    by (induction ys) simp_all
  then show ?case using Cons.IH by simp
qed simp

lemma sort_key_agree: "(\<And>x. x \<in> set xs \<Longrightarrow> f x = g x) \<Longrightarrow> sort_key f xs = sort_key g xs"
proof (induction xs)
  case (Cons x xs)
  have "insort_key f x ys = insort_key g x ys" if "set ys \<subseteq> set xs" for ys
    using that Cons.prems by (induction ys) auto
  then show ?case using Cons by simp
qed simp

text \<open>The ranking of the routed backends.\<close>

lemma routed_ranking:
  assumes "list_all2 built rcs bs" and "distinct (map be_name bs)"
    and "normal_model model \<noteq> []" and "fold_key (normal_model model) = normal_model model"
    and "\<forall>b \<in> set bs. be_priority b < max_int \<and> (\<forall>m \<in> set (be_models b). fold_key m = m)"
  defines "rules \<equiv> concat (map endpoint_rules rcs)"
  shows "rankBackends (map (routed rules) bs) model =
    map (routed rules) (filter (\<lambda>b. 0 < fst (backendPreference b (normal_model model))) (rankBackends bs model))"
proof -
  let ?m = "normal_model model" and ?P = "\<lambda>b. 0 < fst (backendPreference b (normal_model model))"
  have b: "backendPreference (routed rules b) ?m = (if ?P b then backendPreference b ?m else (0, 0, False))"
    "be_priority (routed rules b) = be_priority b" "applicable ?m b" if mem: "b \<in> set bs" for b
  proof -
    obtain rc where rc: "built rc b" using assms(1) mem by (metis list_all2_conv_all_nth in_set_conv_nth)
    have own: "rules_of (be_name b) rules = own_rules b"
      using seeds_rules_of [OF assms(1,2) mem] by (simp add: rules_def)
    then have "backendPreference (routed rules b) ?m = routeRulePreference (own_rules b) ?m"
      by (simp add: backendPreference_def routed_def)
    then show "backendPreference (routed rules b) ?m = (if ?P b then backendPreference b ?m else (0, 0, False))"
      using own_rules_preference [OF rc assms(3) _ assms(4)] assms(5) mem
      by simp
    show "be_priority (routed rules b) = be_priority b" using own by (simp add: routed_def own_rules_priorities)
    show "applicable ?m b" using rc by (simp add: applicable_def backendPreference_def built_def)
  qed
  have app: "applicable ?m (routed rules b) \<longleftrightarrow> ?P b" if "b \<in> set bs" for b
    using b [OF that] by (auto simp: applicable_def split: if_splits)
  have rank: "backend_rank ?m (routed rules b) = backend_rank ?m b" if "b \<in> set bs" "?P b" for b
    using b [OF that(1)] that(2) by (simp add: backend_rank_def)
  have "rankBackends (map (routed rules) bs) model =
      map (routed rules) (sort_key (backend_rank ?m) (filter ?P bs))"
    using app rank
    by (simp add: rankBackends_sort filter_map comp_def sort_key_map cong: filter_cong)
      (rule arg_cong [of _ _ "map _"], rule sort_key_agree, auto)
  moreover have "filter ?P (rankBackends bs model) = sort_key (backend_rank ?m) (filter ?P bs)"
    using b(3) by (simp add: rankBackends_sort filter_sort filter_True)
  ultimately show ?thesis by simp
qed

end
