(* ===== verification/RowFacts.thy ===== *)
theory RowFacts
  imports ApiProperties
begin

text \<open>
  The table of requests over one request of the chat handler, with a database that answers: admission
  adds at most one row, its end changes that row alone, and no row is left as started.
\<close>

section \<open>Admission\<close>

definition admitted_by :: "gw request_tracker res \<Rightarrow> gw \<Rightarrow> gw \<Rightarrow> bool" where
  "admitted_by x w w' \<longleftrightarrow> answering (gw_db w') \<and>
     (case x of
        Inl e \<Rightarrow> request_usages (gw_db w') = request_usages (gw_db w)
      | Inr t \<Rightarrow> rt_store t = mysql_store \<and> gateway_limiter (rt_limiter t) \<and>
          rt_record_id t = next_usage_id (gw_db w) \<and>
          (\<exists>row. request_usages (gw_db w') = request_usages (gw_db w) @ [row] \<and> u_id row = rt_record_id t))"

lemma admitted_by_db: "gw_db w1 = gw_db w \<Longrightarrow> admitted_by x w1 w' = admitted_by x w w'"
  by (cases x) (simp_all add: admitted_by_def)

lemma Admit_answering:
  assumes "gateway_limiter (Some l)" and "answering (gw_db w)" and "lim_Admit l p n now w = (x, w')"
  shows "gw_db w' = gw_db w"
proof -
  have "gw_db w' = gw_db w" if "mysql_Admit mysql_limiter_db p n now w = (x, w')"
    using that assms(2)
    by (auto simp: mysql_Admit_def admit_requests_def admit_tokens_def mysql_limiter_db_def bindS_def Let_def
        CountRequestsSince_def SumTotalTokensSince_def on_db_def split: if_splits)
  moreover have "gw_db w' = gw_db w" if "redis_Admit (redis_limiter_of (redis_client_gw c) f) p n now w = (x, w')" for c f
    using that
    by (auto simp: redis_Admit_def redis_limiter_of_def redis_client_gw_def split: if_splits prod.splits sum.splits
        elim!: on_redisE)
  ultimately show ?thesis
    using assms(1,3)
    by (auto simp: gateway_limiter_def mysql_limiter_def NewMySQLLimiter_def redis_gateway_limiter_def NewRedisLimiter_def)
qed

lemma check_budget_answering:
  "answering (gw_db w) \<Longrightarrow> check_budget mysql_store t n w = (x, w') \<Longrightarrow> gw_db w' = gw_db w"
  by (auto simp: check_budget_def mysql_store_def on_db_def bindS_def SumTotalAttemptTokens_def split: if_splits)

lemma inserted_row:
  "request_usages (snd (insertUsageRecordStatement r d)) =
     request_usages d @ [usage_row_of (next_usage_id d) (sql_current d) r]"
  "u_id (usage_row_of rid now r) = rid"
  by (simp_all add: insertUsageRecordStatement_def usage_row_of_def)

lemma InsertUsageRecord_answering:
  assumes "answering (gw_db w)"
  shows "st_InsertUsageRecord mysql_store r w =
    (Inr (next_usage_id (gw_db w)), w\<lparr>gw_db := snd (insertUsageRecordStatement r (gw_db w))\<rparr>)"
proof -
  obtain d where d: "insertUsageRecordStatement r (gw_db w) = (next_usage_id (gw_db w), d)" and "answering d"
    using answering_inserted(1) [OF assms, of r] by (simp add: insertUsageRecordStatement_def)
  then show ?thesis
    using assms by (simp add: mysql_store_def on_db_def InsertUsageRecord_def LastInsertId_def bindS_def)
qed

lemma beginRequestAtomic_admits:
  assumes "beginRequestAtomic s p m n at w = (x, w')" and "gs_store s = mysql_store"
    and "gateway_limiter (gs_limiter s)" and "answering (gw_db w)"
  shows "admitted_by x w w'"
  using assms BeginRequestAtomic_decides [OF assms(4)]
  by (auto simp: beginRequestAtomic_def mysql_store_def on_db_def bindS_def newRequestTracker_def admitted_by_def
      inserted_row split: option.splits)

lemma admit_and_insert_admits:
  assumes "admit_and_insert s p m n at w = (x, w')" and "gs_store s = mysql_store"
    and "gateway_limiter (gs_limiter s)" and "answering (gw_db w)"
  shows "admitted_by x w w'"
proof -
  obtain y w1 where y: "(case gs_limiter s of None \<Rightarrow> (Inr (), w) | Some l \<Rightarrow> lim_Admit l p n at w) = (y, w1)"
    by fastforce
  have d: "gw_db w1 = gw_db w"
    using y Admit_answering assms(3,4) by (cases "gs_limiter s") auto
  then have an: "answering (gw_db w1)" using assms(4) by simp
  have "admitted_by x w1 w'"
  proof (cases y)
    case (Inl e)
    with y assms(1) have "x = Inl e \<and> w' = w1 \<or> beginRequestAtomic s p m n at w1 = (x, w')"
      by (auto simp: admit_and_insert_def split: if_splits)
    then show ?thesis
      using beginRequestAtomic_admits [OF _ assms(2,3) an] an by (auto simp: admitted_by_def)
  next
    case (Inr u)
    with y assms(1) have "bindS (st_InsertUsageRecord (gs_store s) (request_record p m n at)) (\<lambda>rid w.
        (Inr (newRequestTracker (gs_store s) (gs_limiter s) p rid m), w)) w1 = (x, w')"
      by (simp add: admit_and_insert_def)
    then show ?thesis
      using InsertUsageRecord_answering [OF an] assms(2,3) an
      by (auto simp: bindS_def newRequestTracker_def admitted_by_def inserted_row)
  qed
  then show ?thesis by (simp only: admitted_by_db [OF d])
qed

lemma BeginRequest_adds_row:
  assumes "BeginRequest s ctxPrincipal m w = (x, w')" and "gs_store s = mysql_store"
    and "gateway_limiter (gs_limiter s)" and "answering (gw_db w)"
  shows "admitted_by x w w'"
proof (cases ctxPrincipal)
  case None
  with assms show ?thesis by (auto simp: BeginRequest_def admitted_by_def)
next
  case (Some p)
  let ?n = "gov_estimatePromptTokens (rm_messages m)"
  show ?thesis
  proof (cases "usesAtomicAdmission (gs_limiter s)")
    case True
    with assms Some show ?thesis
      by (intro beginRequestAtomic_admits) (auto simp: BeginRequest_def)
  next
    case False
    obtain y w1 where y: "check_budget mysql_store (principal_tenant p) ?n w = (y, w1)" by fastforce
    then have d: "gw_db w1 = gw_db w" using check_budget_answering assms(4) by blast
    then have an: "answering (gw_db w1)" using assms(4) by simp
    from False y assms Some have "(\<exists>e. x = Inl e) \<and> w' = w1 \<or> admit_and_insert s p m ?n (gs_now s w) w1 = (x, w')"
      by (auto simp: BeginRequest_def bindS_def Let_def split: sum.splits)
    then have "admitted_by x w1 w'"
      using admit_and_insert_admits [OF _ assms(2,3) an] an by (auto simp: admitted_by_def)
    then show ?thesis by (simp only: admitted_by_db [OF d])
  qed
qed

section \<open>The end of a request\<close>

text \<open>The row \<open>rid\<close> gets the status \<open>st\<close>, with no tokens if it failed; the other rows stay.\<close>

definition ended :: "string \<Rightarrow> nat \<Rightarrow> gw \<Rightarrow> gw \<Rightarrow> bool" where
  "ended st rid w w' \<longleftrightarrow>
     (\<exists>f. request_usages (gw_db w') = map f (request_usages (gw_db w)) \<and> (\<forall>r. u_id r \<noteq> rid \<longrightarrow> f r = r) \<and>
        (\<forall>r. u_id r = rid \<longrightarrow> u_status (f r) = st \<and> (st = ''failed'' \<longrightarrow> u_total_tokens (f r) = 0)))"

definition usage_updated :: "usage_update \<Rightarrow> gw \<Rightarrow> gw \<Rightarrow> bool" where
  "usage_updated u w w' \<longleftrightarrow>
     (\<exists>now. request_usages (gw_db w') = map (update_usage_row u now) (request_usages (gw_db w)))"

lemma usage_updated_ends:
  "usage_updated u w w' \<Longrightarrow> uu_status u = ''failed'' \<longrightarrow> uu_total_tokens u = 0 \<Longrightarrow>
   ended (uu_status u) (uu_id u) w w'"
  unfolding usage_updated_def ended_def
  by (elim exE) (rule exI, erule conjI, simp add: update_usage_row_def)

lemma st_UpdateUsageRecord_updates:
  assumes "st_UpdateUsageRecord mysql_store u w = (Inr x, w')"
  shows "usage_updated u w w'"
proof -
  obtain d where d: "UpdateUsageRecord u (gw_db w) = (Inr x, d)" and w': "w' = w\<lparr>gw_db := d\<rparr>"
    using assms by (auto simp: mysql_store_def elim: on_dbE)
  from UpdateUsageRecord_Inr [OF d] show ?thesis
    unfolding usage_updated_def w' request_updated_def by (drule_tac same_data_fields(3)) auto
qed

lemma attempt_update_keeps:
  assumes "st_UpdateAttemptUsageRecord mysql_store a w = (Inr x, w')"
  shows "request_usages (gw_db w') = request_usages (gw_db w)"
proof -
  obtain d where d: "UpdateAttemptUsageRecord a (gw_db w) = (Inr x, d)" and w': "w' = w\<lparr>gw_db := d\<rparr>"
    using assms by (auto simp: mysql_store_def elim: on_dbE)
  from UpdateAttemptUsageRecord_Inr [OF d] show ?thesis
    unfolding attempt_updated_def w' by (drule_tac same_data_fields(3)) auto
qed

lemma usage_updated_after:
  "request_usages (gw_db w1) = request_usages (gw_db w) \<Longrightarrow> usage_updated u w1 w2 \<Longrightarrow>
   request_usages (gw_db w') = request_usages (gw_db w2) \<Longrightarrow> usage_updated u w w'"
  by (simp add: usage_updated_def)

lemma Fail_updates:
  assumes "Fail t w = (Inr x, w')" and "rt_store t = mysql_store"
  obtains u where "usage_updated u w w'" "uu_id u = rt_record_id t" "uu_status u = ''failed''" "uu_total_tokens u = 0"
proof -
  let ?x = "\<lparr>uu_id = rt_record_id t, uu_tenant_id = tenant_id (principal_tenant (rt_principal t)),
    uu_model = rt_model t, uu_status = ''failed'', uu_prompt_tokens = 0, uu_completion_tokens = 0,
    uu_total_tokens = 0\<rparr>"
  obtain y w2 a where up: "st_UpdateUsageRecord mysql_store ?x w = (Inr y, w2)"
    and rest: "(if \<not> rt_stream t \<or> rt_latest_attempt_id t = 0 then (\<lambda>w. (Inr (), w))
      else st_UpdateAttemptUsageRecord mysql_store a) w2 = (Inr x, w')"
    using assms(1) unfolding Fail_def Let_def assms(2) by (elim bindS_InrE) blast
  have "request_usages (gw_db w') = request_usages (gw_db w2)"
    using rest attempt_update_keeps by (simp split: if_splits)
  then show thesis
    using usage_updated_after [OF refl st_UpdateUsageRecord_updates [OF up]] by (intro that [of ?x]) simp_all
qed

lemma CompleteNonStream_updates:
  assumes "CompleteNonStream now t req resp w = (Inr x, w')" and "rt_store t = mysql_store"
    and "gateway_limiter (rt_limiter t)"
  obtains u where "usage_updated u w w'" "uu_id u = rt_record_id t" "uu_status u = ''succeeded''"
proof -
  obtain n v w1 u where rc: "record_completion now t n w = (Inr v, w1)"
    and up: "st_UpdateUsageRecord mysql_store u w1 = (Inr x, w')"
    and u: "uu_id u = rt_record_id t" "uu_status u = ''succeeded''"
    using assms(1,2) by (auto simp: CompleteNonStream_def Let_def elim!: bindS_InrE split: if_splits)
  have "request_usages (gw_db w1) = request_usages (gw_db w)" by (simp add: record_completion_db [OF rc assms(3)])
  from usage_updated_after [OF this st_UpdateUsageRecord_updates [OF up] refl] u show thesis by (rule that)
qed

lemma CompleteStream_updates:
  assumes "CompleteStream now t req w = (Inr x, w')" and "rt_store t = mysql_store"
    and "gateway_limiter (rt_limiter t)"
  obtains u where "usage_updated u w w'" "uu_id u = rt_record_id t" "uu_status u = ''succeeded''"
proof -
  let ?total = "go_add (gov_estimatePromptTokens (cr_messages req)) (EstimateTextTokens (rt_stream_completion t))"
  let ?x = "\<lparr>uu_id = rt_record_id t, uu_tenant_id = tenant_id (principal_tenant (rt_principal t)),
    uu_model = rt_model t, uu_status = ''succeeded'',
    uu_prompt_tokens = gov_estimatePromptTokens (cr_messages req),
    uu_completion_tokens = EstimateTextTokens (rt_stream_completion t), uu_total_tokens = ?total\<rparr>"
  obtain n v w1 y w2 a where rc: "record_completion now t n w = (Inr v, w1)"
    and up: "st_UpdateUsageRecord mysql_store ?x w1 = (Inr y, w2)"
    and rest: "(if rt_latest_attempt_id t = 0 then (\<lambda>w. (Inr (), w))
      else st_UpdateAttemptUsageRecord mysql_store a) w2 = (Inr x, w')"
    using assms(1) unfolding CompleteStream_def Let_def assms(2) by (elim bindS_InrE) blast
  have "request_usages (gw_db w1) = request_usages (gw_db w)" by (simp add: record_completion_db [OF rc assms(3)])
  moreover have "request_usages (gw_db w') = request_usages (gw_db w2)"
    using rest attempt_update_keeps by (simp split: if_splits)
  ultimately have "usage_updated ?x w w'"
    using usage_updated_after [OF _ st_UpdateUsageRecord_updates [OF up]] by blast
  then show thesis by (rule that) simp_all
qed

lemma Fail_ends:
  assumes "answering (gw_db w)" and "rt_store t = mysql_store"
  shows "ended ''failed'' (rt_record_id t) w (snd (Fail t w))"
proof -
  obtain w' where f: "Fail t w = (Inr (), w')" using assms by (rule Fail_answering)
  then obtain u where "usage_updated u w w'" "uu_id u = rt_record_id t" "uu_status u = ''failed''" "uu_total_tokens u = 0"
    using assms(2) by (rule Fail_updates)
  with f show ?thesis using usage_updated_ends [of u w w'] by simp
qed

lemma CompleteNonStream_ends:
  assumes "answering (gw_db w)" and "rt_store t = mysql_store" and "gateway_limiter (rt_limiter t)"
  shows "\<exists>w'. CompleteNonStream now t req resp w = (Inr (), w') \<and> ended ''succeeded'' (rt_record_id t) w w'"
proof -
  obtain w' where f: "CompleteNonStream now t req resp w = (Inr (), w')"
    using assms by (rule CompleteNonStream_answering)
  then obtain u where "usage_updated u w w'" "uu_id u = rt_record_id t" "uu_status u = ''succeeded''"
    using assms(2,3) by (rule CompleteNonStream_updates)
  with f show ?thesis using usage_updated_ends [of u w w'] by auto
qed

lemma CompleteStream_ends:
  assumes "answering (gw_db w)" and "rt_store t = mysql_store" and "gateway_limiter (rt_limiter t)"
  shows "ended ''succeeded'' (rt_record_id t) w (snd (CompleteStream now t req w))"
proof -
  obtain w' where f: "CompleteStream now t req w = (Inr (), w')" using assms by (rule CompleteStream_answering)
  then obtain u where "usage_updated u w w'" "uu_id u = rt_record_id t" "uu_status u = ''succeeded''"
    using assms(2,3) by (rule CompleteStream_updates)
  with f show ?thesis using usage_updated_ends [of u w w'] by auto
qed

section \<open>The handlers\<close>

lemma ended_after:
  "request_usages (gw_db w1) = request_usages (gw_db w) \<Longrightarrow> ended st rid w1 w2 \<Longrightarrow> ended st rid w w2"
  by (simp add: ended_def)

text \<open>What a handler is given: a provider that keeps the rows, a tracker of the gateway, a database that answers.\<close>

definition tracked :: "gw chat_handler \<Rightarrow> gw request_tracker \<Rightarrow> gw \<Rightarrow> bool" where
  "tracked h t w \<longleftrightarrow> keeps_request (hd_now h) (svc_provider (hd_service h)) \<and> reads_only (hd_ctx_err h) \<and>
     rt_store t = mysql_store \<and> gateway_limiter (rt_limiter t) \<and> answering (gw_db w)"

lemma tracked_on:
  assumes "tracked h t w" and "row_safe (w, t) (w', t')"
  shows "tracked h t' w'" and "rt_record_id t' = rt_record_id t"
    and "request_usages (gw_db w') = request_usages (gw_db w)"
  using assms by (simp_all add: tracked_def row_safe_def same_request_def)

lemma tracked_fails:
  assumes "tracked h t' w'" and "rt_record_id t' = rid"
  shows "ended ''failed'' rid w' (snd (Fail t' w'))"
  using Fail_ends [of w' t'] assms by (simp add: tracked_def)

definition handled :: "bool \<Rightarrow> nat \<Rightarrow> gw http_state \<Rightarrow> gw http_state \<Rightarrow> bool" where
  "handled strict rid s s' \<longleftrightarrow> (\<exists>st. ended st rid (hx_world s) (hx_world s') \<and>
     (st = ''succeeded'' \<or> st = ''failed'' \<and> \<not> (strict \<and> hx_status s = None \<and> hx_status s' = Some 200)))"

lemma handled_failed:
  assumes "ended ''failed'' rid (hx_world s) (hx_world s')"
    and "strict \<Longrightarrow> hx_status s = None \<Longrightarrow> \<exists>st \<ge> 400. hx_status s' = Some st"
  shows "handled strict rid s s'"
  unfolding handled_def using assms by (intro exI [of _ "''failed''"]) auto

lemma handled_succeeded: "ended ''succeeded'' rid (hx_world s) (hx_world s') \<Longrightarrow> handled strict rid s s'"
  unfolding handled_def by blast

lemma nonstream_handled:
  assumes "tracked h t (hx_world s)"
  shows "handled True (rt_record_id t) s (handleNonStreamCompletion h req t s)"
proof -
  define s' where "s' = handleNonStreamCompletion h req t s"
  have safe: "row_safe (hx_world s, t) (w, t')"
    if "CreateCompletion (hd_service h) (BindContext (hd_now h) plain_attempt_ctx) req (hx_world s, t) = (x, w, t')"
    for x w t'
    using _ _ that by (rule CreateCompletion_keeps) (use assms in \<open>simp_all add: tracked_def\<close>)
  have run: "handleNonStreamCompletion h req t s = s'" by (simp add: s'_def)
  then have "handled True (rt_record_id t) s s'"
  proof (cases rule: nonstream_cases)
    case (failed e w t')
    note k = tracked_on [OF assms safe [OF failed(1)]]
    show ?thesis
      using ended_after [OF k(3) tracked_fails [OF k(1,2)]] failed(2,3) by (intro handled_failed) simp_all
  next
    case (unrecorded resp w t' e w')
    note k = tracked_on [OF assms safe [OF unrecorded(1)]]
    show ?thesis
      using CompleteNonStream_ends [of w t' "hd_now h" req resp] k(1) unrecorded(2) by (auto simp: tracked_def)
  next
    case (answered resp w t' w')
    note k = tracked_on [OF assms safe [OF answered(1)]]
    have "ended ''succeeded'' (rt_record_id t) w w'"
      using CompleteNonStream_ends [of w t' "hd_now h" req resp] k(1,2) answered(2) by (auto simp: tracked_def)
    then show ?thesis using ended_after [OF k(3)] answered(3) by (intro handled_succeeded) simp
  qed
  then show ?thesis by (simp add: s'_def)
qed

lemma observed_same: "same_request t (observed xs t)"
  by (simp add: same_request_def)

lemma stream_handled:
  assumes "tracked h t (hx_world s)" and "rw_flusher (hx_writer s)" and "hx_status s = None"
  shows "handled False (rt_record_id t) s (streamCompletion h req t s)"
proof -
  obtain x w t' where x: "StreamCompletion (hd_service h) (hd_ctx_err h) (BindContext (hd_now h) plain_attempt_ctx) req
      (hx_world s, t) = (x, w, t')" by (metis surj_pair)
  have "row_safe (hx_world s, t) (w, t')"
    using _ _ _ x by (rule StreamCompletion_keeps) (use assms(1) in \<open>simp_all add: tracked_def\<close>)
  note k = tracked_on [OF assms(1) this]
  have obs: "tracked h (observed xs t') w" "rt_record_id (observed xs t') = rt_record_id t" for xs
    using k(1,2) by (simp_all add: tracked_def)
  have fails: "handled False (rt_record_id t) s s'" if "hx_world s' = snd (Fail (observed xs t') w)" for xs s'
    using ended_after [OF k(3) tracked_fails [OF obs]] that by (intro handled_failed) simp_all
  show ?thesis
  proof (cases x)
    case (Inl e)
    let ?s = "fail_tracker t' (s\<lparr>hx_world := w\<rparr>)"
    have "refused ?s (write_completion_error (hd_metrics h) e ?s)" by simp
    then have "hx_world (streamCompletion h req t s) = snd (Fail t' w)"
      using x Inl assms(2)
      by (simp add: streamCompletion_def with_tracker_def fail_tracker_def in_world_def refused_def split: prod.splits)
    then show ?thesis using fails [of _ "[]"] by simp
  next
    case (Inr events)
    have "handled False (rt_record_id t) s s'" if "streamCompletion h req t s = s'" for s'
      using that assms(2) x [unfolded Inr] assms(3)
    proof (cases rule: stream_cases)
      case whole
      have "ended ''succeeded'' (rt_record_id t) w (hx_world s')"
        using CompleteStream_ends [of w "observed (sent_chunks events) t'"] obs [of "sent_chunks events"] whole(5)
        by (simp add: tracked_def)
      then show ?thesis using ended_after [OF k(3)] by (intro handled_succeeded)
    next
      case (cut i j)
      then show ?thesis using fails by blast
    next
      case (refusal st)
      then show ?thesis using fails [of _ "[]"] by simp
    qed
    then show ?thesis by blast
  qed
qed

text \<open>At most one row is added, and none is left as started.\<close>

definition settled_rows :: "bool \<Rightarrow> gw http_state \<Rightarrow> gw http_state \<Rightarrow> bool" where
  "settled_rows strict s s' \<longleftrightarrow> (\<exists>tail.
     request_usages (gw_db (hx_world s')) = request_usages (gw_db (hx_world s)) @ tail \<and> length tail \<le> 1 \<and>
     (\<forall>row \<in> set tail. u_status row = ''succeeded'' \<or> u_status row = ''failed'' \<and> u_total_tokens row = 0) \<and>
     (hx_status s' = Some 200 \<longrightarrow> tail \<noteq> [] \<and> (strict \<longrightarrow> u_status (last tail) = ''succeeded'')))"

lemma settled_none:
  "request_usages (gw_db (hx_world s')) = request_usages (gw_db (hx_world s)) \<Longrightarrow>
   \<exists>st \<ge> 400. hx_status s' = Some st \<Longrightarrow> settled_rows strict s s'"
  unfolding settled_rows_def by (intro exI [of _ "[]"]) auto

lemma ended_appended:
  assumes "ended st rid w w'" and "request_usages (gw_db w) = rows @ [row]" and "u_id row = rid"
    and "\<forall>r \<in> set rows. u_id r \<noteq> rid"
  obtains row' where "request_usages (gw_db w') = rows @ [row']" and "u_status row' = st"
    and "st = ''failed'' \<longrightarrow> u_total_tokens row' = 0"
proof -
  obtain f where f: "request_usages (gw_db w') = map f (request_usages (gw_db w))" "\<forall>r. u_id r \<noteq> rid \<longrightarrow> f r = r"
      "\<forall>r. u_id r = rid \<longrightarrow> u_status (f r) = st \<and> (st = ''failed'' \<longrightarrow> u_total_tokens (f r) = 0)"
    using assms(1) by (auto simp: ended_def)
  have "map f rows = rows" using f(2) assms(4) by (intro map_idI) simp
  with f assms(2,3) show thesis by (intro that [of "f row"]) simp_all
qed

lemma handled_settles:
  assumes "handled strict rid s1 s'" and "request_usages (gw_db (hx_world s1)) = request_usages (gw_db (hx_world s)) @ [row]"
    and "u_id row = rid" and "\<forall>r \<in> set (request_usages (gw_db (hx_world s))). u_id r \<noteq> rid" and "hx_status s1 = None"
  shows "settled_rows strict s s'"
proof -
  obtain st where e: "ended st rid (hx_world s1) (hx_world s')"
    and st: "st = ''succeeded'' \<or> st = ''failed'' \<and> \<not> (strict \<and> hx_status s' = Some 200)"
    using assms(1,5) by (auto simp: handled_def)
  obtain row' where "request_usages (gw_db (hx_world s')) = request_usages (gw_db (hx_world s)) @ [row']"
      "u_status row' = st" "st = ''failed'' \<longrightarrow> u_total_tokens row' = 0"
    using e assms(2-4) by (rule ended_appended)
  with st show ?thesis unfolding settled_rows_def by (intro exI [of _ "[row']"]) auto
qed

text \<open>A chat handler over the MySQL store, with one of the gateway's limiters.\<close>

definition gateway_handler :: "gw chat_handler \<Rightarrow> bool" where
  "gateway_handler h \<longleftrightarrow> keeps_request (hd_now h) (svc_provider (hd_service h)) \<and> reads_only (hd_ctx_err h) \<and>
     gs_store (hd_governance h) = mysql_store \<and> gateway_limiter (gs_limiter (hd_governance h))"

lemma handler_settles:
  assumes "gateway_handler h" and "answering (gw_db (hx_world s))" and "wf_db (gw_db (hx_world s))"
    and "rw_flusher (hx_writer s)" and "hx_status s = None"
    and "handler_CreateCompletion h r p s = s'"
    and "strict \<longrightarrow> (\<forall>req. and_then (read_body r) (decode_struct dec_completion_request) = Inr req \<longrightarrow> \<not> cr_stream req)"
  shows "settled_rows strict s s'"
  using assms(6)
proof (cases rule: handler_cases)
  case undecoded
  with assms(5) show ?thesis by (intro settled_none) auto
next
  case (rejected req e)
  have "admitted_by (Inl e) (hx_world s) (hx_world s')"
    using rejected(2) assms(1,2) unfolding beginTrackedRequest_def
    by (elim BeginRequest_adds_row) (simp_all add: gateway_handler_def)
  with rejected(3) assms(5) show ?thesis by (intro settled_none) (auto simp: admitted_by_def)
next
  case (tracked req t w)
  have adm: "admitted_by (Inr t) (hx_world s) w"
    using tracked(2) assms(1,2) unfolding beginTrackedRequest_def
    by (elim BeginRequest_adds_row) (simp_all add: gateway_handler_def)
  then obtain row where row: "request_usages (gw_db w) = request_usages (gw_db (hx_world s)) @ [row]"
      "u_id row = rt_record_id t"
    by (auto simp: admitted_by_def)
  have new: "\<forall>r \<in> set (request_usages (gw_db (hx_world s))). u_id r \<noteq> rt_record_id t"
    using adm assms(3) by (auto simp: admitted_by_def wf_db_def wf_rows_def)
  let ?s = "s\<lparr>hx_world := w\<rparr>"
  have t: "tracked h t (hx_world ?s)"
    using adm assms(1) by (simp add: tracked_def admitted_by_def gateway_handler_def)
  have st: "hx_status ?s = None" using assms(5) by (simp add: hx_status_def)
  have loose: "settled_rows strict s s'" if "settled_rows True s s' \<or> settled_rows False s s' \<and> \<not> strict"
    using that by (auto simp: settled_rows_def)
  show ?thesis
  proof (cases "cr_stream req")
    case True
    with assms(7) tracked(1) have "\<not> strict" by blast
    moreover have "handled False (rt_record_id t) ?s s'"
      using stream_handled [OF t _ st, of req] assms(4) tracked(3) True by simp
    ultimately show ?thesis
      using handled_settles [OF _ _ row(2) new st] row(1) loose by simp
  next
    case False
    have "handled True (rt_record_id t) ?s s'"
      using nonstream_handled [OF t, of req] tracked(3) False by simp
    then show ?thesis
      using handled_settles [OF _ _ row(2) new st] row(1) loose by simp
  qed
qed

section \<open>From the request to its row\<close>

lemma LookupAPIKey_answering: "answering d \<Longrightarrow> LookupAPIKey coll h d = (x, d') \<Longrightarrow> d' = d"
  by (auto simp: LookupAPIKey_def split: list.splits)

lemma AuthenticateRequest_answering:
  "answering (gw_db w) \<Longrightarrow> AuthenticateRequest (\<lambda>h. on_db (LookupAPIKey coll h)) header w = (x, w') \<Longrightarrow>
   gw_db w' = gw_db w"
  by (auto simp: AuthenticateRequest_def split: sum.splits prod.splits if_splits
      elim!: on_dbE dest: LookupAPIKey_answering)

lemma chat_route:
  assumes "hq_method r = ''POST''" and "hq_path r = ''/v1/chat/completions''"
  obtains rid s0 where "hx_world s0 = identified deps r (hx_world s)" "hx_status s0 = hx_status s"
    "rw_flusher (hx_writer s0)" "hq_request_id r \<noteq> [] \<Longrightarrow> rid = hq_request_id r"
    "\<And>x w. AuthenticateRequest (rd_finder deps) (hq_authorization r) (hx_world s0) = (x, w) \<Longrightarrow>
      let s1 = s0\<lparr>hx_world := w\<rparr>;
          s' = (case x of Inl e \<Rightarrow> writeAuthError e s1
                | Inr pr \<Rightarrow> handler_CreateCompletion (rd_chat deps) (limited_request deps (r\<lparr>hq_id := rid\<rparr>)) (Some pr) s1)
      in hx_world (NewRouter deps r p s) = hx_world s' \<and> hx_writer (NewRouter deps r p s) = hx_writer s'"
proof -
  let ?h = "handler_CreateCompletion (rd_chat deps)"
  obtain rt where rt: "matching r deps = Some rt"
    and h: "rt_handler rt = chainHandler (requireAPIKey (rd_finder deps) ?h) [Some (limitRequestBody (rd_max_body deps))]"
    using matching_simps(1) [OF assms, of deps] by blast
  obtain rid s0 where s0: "hx_world s0 = identified deps r (hx_world s)" "hx_status s0 = hx_status s"
      "rw_flusher (hx_writer s0)" "hq_request_id r \<noteq> [] \<Longrightarrow> rid = hq_request_id r"
    and out: "hx_world (NewRouter deps r p s) = hx_world (rt_handler rt (r\<lparr>hq_id := rid\<rparr>) p s0)"
      "hx_writer (NewRouter deps r p s) = hx_writer (rt_handler rt (r\<lparr>hq_id := rid\<rparr>) p s0)"
    using rt by (rule NewRouter_route) blast
  from s0 show thesis
    by (rule that)
      (auto simp: out h chat_handler_chain requireAPIKey_def in_world_def Let_def split: sum.split)
qed

lemma chat_request_settles:
  assumes "gateway_handler (rd_chat deps)" and "rd_finder deps = (\<lambda>h. on_db (LookupAPIKey coll h))"
    and "\<forall>w. gw_db (snd (rd_count deps w)) = gw_db w"
    and "hq_method r = ''POST''" and "hq_path r = ''/v1/chat/completions''" and "hx_status s = None"
    and "answering (gw_db (hx_world s))" and "wf_db (gw_db (hx_world s))"
    and "strict \<longrightarrow> (\<forall>req. and_then (read_body (limited_request deps r)) (decode_struct dec_completion_request) = Inr req \<longrightarrow>
      \<not> cr_stream req)"
  shows "settled_rows strict s (NewRouter deps r p s)"
proof -
  obtain rid s0 where s0: "hx_world s0 = identified deps r (hx_world s)" "hx_status s0 = hx_status s"
      "rw_flusher (hx_writer s0)"
    and out: "\<And>x w. AuthenticateRequest (rd_finder deps) (hq_authorization r) (hx_world s0) = (x, w) \<Longrightarrow>
      let s1 = s0\<lparr>hx_world := w\<rparr>;
          s' = (case x of Inl e \<Rightarrow> writeAuthError e s1
                | Inr pr \<Rightarrow> handler_CreateCompletion (rd_chat deps) (limited_request deps (r\<lparr>hq_id := rid\<rparr>)) (Some pr) s1)
      in hx_world (NewRouter deps r p s) = hx_world s' \<and> hx_writer (NewRouter deps r p s) = hx_writer s'"
    using assms(4,5) by (rule chat_route) blast
  have db: "gw_db (hx_world s0) = gw_db (hx_world s)" using s0(1) assms(3) by (simp add: identified_def)
  obtain x w1 where x: "AuthenticateRequest (rd_finder deps) (hq_authorization r) (hx_world s0) = (x, w1)"
    by fastforce
  let ?s1 = "s0\<lparr>hx_world := w1\<rparr>"
  have d1: "gw_db w1 = gw_db (hx_world s)"
    using AuthenticateRequest_answering [of "hx_world s0" coll] x assms(2,7) db by simp
  have st1: "hx_status ?s1 = None" using s0(2) assms(6) by (simp add: hx_status_def)
  let ?s' = "case x of Inl e \<Rightarrow> writeAuthError e ?s1
    | Inr pr \<Rightarrow> handler_CreateCompletion (rd_chat deps) (limited_request deps (r\<lparr>hq_id := rid\<rparr>)) (Some pr) ?s1"
  have "settled_rows strict ?s1 ?s'"
  proof (cases x)
    case (Inl e)
    have "refused ?s1 (writeAuthError e ?s1)" by simp
    then show ?thesis using st1 Inl by (intro settled_none) (simp_all add: refused_def)
  next
    case (Inr pr)
    have "settled_rows strict ?s1
        (handler_CreateCompletion (rd_chat deps) (limited_request deps (r\<lparr>hq_id := rid\<rparr>)) (Some pr) ?s1)"
      using assms(1) _ _ _ st1 refl
      by (rule handler_settles) (use d1 assms(7-9) s0(3) in \<open>simp_all add: read_limited\<close>)
    with Inr show ?thesis by simp
  qed
  then show ?thesis using out [OF x] by (simp add: settled_rows_def d1 hx_status_def Let_def)
qed

end
