(* ===== verification/ProcessFacts.thy ===== *)
theory ProcessFacts
  imports Process CallRelation GatewayFacts RowFacts
begin

text \<open>
  The gateway process keeps the row of a request while its provider works on it: whatever backends are
  configured, they send requests, wait and report attempts to the tracker, and the router marks and tells;
  none of it touches the rows of requests. With this the handlers of the process settle the row that
  admission inserted.
\<close>

section \<open>The two views of the world\<close>

lemma leave_enter [simp]: "leave_router (enter_router wt) = wt"
  by (cases wt) (simp add: leave_router_def enter_router_def)

lemma enter_leave [simp]: "enter_router (leave_router s) = s"
  by (simp add: leave_router_def enter_router_def)

lemma leave_router_parts [simp]:
  "gw_db (fst (leave_router s)) = lv_db s" "snd (leave_router s) = lv_tracker s"
  by (simp_all add: leave_router_def)

lemma enter_router_parts [simp]:
  "lv_db (enter_router (w, t)) = gw_db w" "lv_tracker (enter_router (w, t)) = t"
  "rs_states (enter_router (w, t)) = rs_states (gw_router w)" "rs_clock (enter_router (w, t)) = rs_clock (gw_router w)"
  by (simp_all add: enter_router_def)

section \<open>What keeps the row of the request\<close>

definition keeps_row :: "live \<Rightarrow> live \<Rightarrow> bool" where
  "keeps_row s s' \<longleftrightarrow> same_request (lv_tracker s) (lv_tracker s') \<and>
     (rt_store (lv_tracker s) = mysql_store \<longrightarrow>
        request_usages (lv_db s') = request_usages (lv_db s) \<and> (answering (lv_db s) \<longrightarrow> answering (lv_db s')))"

definition of_store :: "live \<Rightarrow> gw attempt_handle \<Rightarrow> bool" where
  "of_store s h \<longleftrightarrow> (rt_store (lv_tracker s) = mysql_store \<longrightarrow> ah_store h = mysql_store)"

lemma keeps_row_refl: "keeps_row s s"
  by (simp add: keeps_row_def)

lemma keeps_row_trans: "keeps_row s t \<Longrightarrow> keeps_row t u \<Longrightarrow> keeps_row s u"
  by (auto simp: keeps_row_def same_request_def)

lemma keeps_row_elsewhere: "lv_db s' = lv_db s \<Longrightarrow> lv_tracker s' = lv_tracker s \<Longrightarrow> keeps_row s s'"
  by (simp add: keeps_row_def)

lemma of_store_keeps: "keeps_row s s' \<Longrightarrow> of_store s h \<Longrightarrow> of_store s' h"
  by (auto simp: keeps_row_def of_store_def same_request_def)

lemma router_elsewhere [simp]:
  "lv_db (observe p e s) = lv_db s" "lv_tracker (observe p e s) = lv_tracker s"
  "lv_db (set_state n st s) = lv_db s" "lv_tracker (set_state n st s) = lv_tracker s"
  "lv_db (pass_time d s) = lv_db s" "lv_tracker (pass_time d s) = lv_tracker s"
  by (simp_all add: observe_def set_state_def pass_time_def)

lemma skipped_elsewhere [simp]:
  "lv_db (observeSkipped p op bs s) = lv_db s" "lv_tracker (observeSkipped p op bs s) = lv_tracker s"
proof -
  have "lv_db (fold (\<lambda>b. observe p (f b)) bs s) = lv_db s \<and>
      lv_tracker (fold (\<lambda>b. observe p (f b)) bs s) = lv_tracker s" for f
    by (induction bs arbitrary: s) simp_all
  then show "lv_db (observeSkipped p op bs s) = lv_db s"
    and "lv_tracker (observeSkipped p op bs s) = lv_tracker s"
    by (simp_all add: observeSkipped_def)
qed

interpretation row_kept: router_relation p keeps_row "\<lambda>_. True" for p :: "(rest, gw attempt_handle) router"
proof unfold_locales
  show "keeps_row s u" if "keeps_row s t" "keeps_row t u" for s t u
    using that by (rule keeps_row_trans)
qed (auto intro!: keeps_row_elsewhere simp: fail_backend_def observe_success_def markSuccess_def markFailure_def
    markProbeSuccess_def markProbeFailure_def probe_failed_def probe_succeeded_def Let_def keeps_row_refl
    split: prod.splits)

section \<open>The tracker\<close>

lemma BeginAttempt_same: "BeginAttempt now b m (w, t) = (r, w', t') \<Longrightarrow> same_request t t'"
  by (auto simp: BeginAttempt_def Let_def same_request_def split: prod.splits sum.splits if_splits)

lemma BeginAttempt_handle: "BeginAttempt now b m (w, t) = (Inr h, w', t') \<Longrightarrow> ah_store h = rt_store t"
  by (auto simp: BeginAttempt_def Let_def split: prod.splits sum.splits if_splits)

lemma BeginAttemptAtomic_keeps:
  assumes "BeginAttemptAtomic i d = (r, d')"
  shows "request_usages d' = request_usages d" and "answering d \<Longrightarrow> answering d'"
proof -
  show "request_usages d' = request_usages d"
  proof (cases r)
    case (Inl e)
    with assms have "BeginAttemptAtomic i d = (Inl e, d')" by simp
    then show ?thesis
      by (rule BeginAttemptAtomic_Inl) (simp_all add: same_tables_def attempt_inserted_def)
  next
    case (Inr rid)
    with assms BeginAttemptAtomic_Inr(1) show ?thesis by (auto simp: attempt_inserted_def)
  qed
  show "answering d \<Longrightarrow> answering d'"
    using assms BeginAttemptAtomic_decides [of d i] by (auto split: option.splits)
qed

lemma UpdateAttemptUsageRecord_keeps:
  assumes "UpdateAttemptUsageRecord u d = (r, d')"
  shows "request_usages d' = request_usages d" and "answering d \<Longrightarrow> answering d'"
proof -
  show "request_usages d' = request_usages d"
  proof (cases r)
    case (Inl e)
    with assms UpdateAttemptUsageRecord_Inl [of u d e d'] show ?thesis
      by (auto simp: attempt_updated_def dest: same_data_fields(3))
  next
    case (Inr x)
    with assms UpdateAttemptUsageRecord_Inr [of u d x d'] show ?thesis
      by (auto simp: attempt_updated_def dest: same_data_fields(3))
  qed
  show "answering d \<Longrightarrow> answering d'"
    using assms by (auto simp: UpdateAttemptUsageRecord_def answering_def db_exec_def db_call_def)
qed

definition process_recorder :: "(gw \<Rightarrow> time) \<Rightarrow> (live, gw attempt_handle) attempt_recorder" where
  "process_recorder now = router_recorder (tracker_recorder now)"

lemma process_begins:
  assumes "begin_attempt (process_recorder now) b m s = (r, s')"
  shows "keeps_row s s' \<and> (\<forall>h. r = Inr h \<longrightarrow> of_store s' h)"
proof -
  obtain w t where s: "leave_router s = (w, t)" by fastforce
  obtain w' t' where b: "BeginAttempt now b m (w, t) = (r, w', t')" and s': "s' = enter_router (w', t')"
    using assms s
    by (auto simp: process_recorder_def router_recorder_def at_gateway_def tracker_recorder_def split: prod.splits)
  have parts: "lv_db s = gw_db w" "lv_tracker s = t"
    using leave_router_parts [of s] s by simp_all
  note same = BeginAttempt_same [OF b]
  have "request_usages (gw_db w') = request_usages (gw_db w) \<and> (answering (gw_db w) \<longrightarrow> answering (gw_db w'))"
    if "rt_store t = mysql_store"
    using b that
  proof (cases rule: BeginAttempt_cases)
    case (fails e d)
    then show ?thesis using BeginAttemptAtomic_keeps [OF fails(4)] by simp
  next
    case (begins h d)
    then show ?thesis using BeginAttemptAtomic_keeps [OF begins(4)] by simp
  qed
  then show ?thesis
    using same b BeginAttempt_handle [of now b m w t _ w' t']
    by (auto simp: keeps_row_def of_store_def s' parts same_request_def)
qed

lemma process_completes:
  assumes "of_store s h" and "complete_attempt (process_recorder now) h a s = (r, s')"
  shows "keeps_row s s'"
proof -
  obtain w t where s: "leave_router s = (w, t)" by fastforce
  obtain w' where c: "Complete h a w = (r, w')" and s': "s' = enter_router (w', t)"
    using assms(2) s
    by (auto simp: process_recorder_def router_recorder_def at_gateway_def tracker_recorder_def split: prod.splits)
  have parts: "lv_db s = gw_db w" "lv_tracker s = t"
    using leave_router_parts [of s] s by simp_all
  have "request_usages (gw_db w') = request_usages (gw_db w) \<and> (answering (gw_db w) \<longrightarrow> answering (gw_db w'))"
    if "rt_store t = mysql_store"
  proof -
    have "ah_store h = mysql_store" using assms(1) that by (simp add: of_store_def parts)
    with c obtain d where d: "UpdateAttemptUsageRecord (attempt_update h a) (gw_db w) = (r, d)"
      and w': "w' = w\<lparr>gw_db := d\<rparr>" by (rule Complete_cases)
    show ?thesis using UpdateAttemptUsageRecord_keeps [OF d] by (simp add: w')
  qed
  then show ?thesis by (simp add: keeps_row_def s' parts)
qed

section \<open>The backends\<close>

lemma at_upstream_elsewhere: "keeps_row s (snd (at_upstream m s))"
  by (rule keeps_row_elsewhere) (simp_all add: at_upstream_def split: prod.split)

interpretation backend_calls: call_steps keeps_row of_store "upstream_of net" "Some (process_recorder now)" for net now
proof unfold_locales
  show "keeps_row w v \<and> (\<forall>h. r = Inr h \<longrightarrow> of_store v h)"
    if "Some (process_recorder now) = Some rec" "begin_attempt rec b m w = (r, v)" for rec b m w r v
    using that process_begins [of now b m w r v] by simp
  show "keeps_row w v"
    if "Some (process_recorder now) = Some rec" "of_store w h" "complete_attempt rec h res w = (q, v)"
    for rec w h res q v
    using that process_completes [of w h now res q v] by simp
qed (auto simp: upstream_of_def keeps_row_refl at_upstream_elsewhere intro: keeps_row_trans of_store_keeps)

lemma seen_stream_world [simp]: "snd (seen_stream see r) = snd r"
  by (cases r) (auto simp: seen_stream_def split: sum.splits)

lemma buildProviderBackend_calls:
  assumes "buildProviderBackend see (upstream_of net) role cfg defaultModel mockCfg = Inr b"
  shows "calls_for (Some (process_recorder now)) keeps_row b"
proof -
  have mock: "calls_for (Some (process_recorder now)) keeps_row b'"
    if "be_provider b' = mock_backend_provider see rs_clock p" for b' :: "(rest, gw attempt_handle) backend" and p
    by (simp add: calls_for_def that mock_backend_provider_def keeps_row_refl)
  have remote: "calls_for (Some (process_recorder now)) keeps_row b'"
    if "be_provider b' = openai_backend_provider see (upstream_of net) a1 \<or>
      be_provider b' = anthropic_backend_provider see (upstream_of net) a2 \<or>
      be_provider b' = ollama_backend_provider see (upstream_of net) a1"
    for b' :: "(rest, gw attempt_handle) backend" and a1 a2
    using that
    by (auto simp: calls_for_def openai_backend_provider_def anthropic_backend_provider_def
        ollama_backend_provider_def backend_calls.openai_calls_in backend_calls.anthropic_calls_in
        backend_calls.ollama_calls_in)
  show ?thesis
    using assms unfolding buildProviderBackend_def Let_def
    by (auto split: if_splits intro: mock remote)
qed

lemma build_endpoints_all:
  "build_endpoints build rcs = Inr bs \<Longrightarrow> b \<in> set bs \<Longrightarrow> \<exists>role cfg. build role cfg = Inr b"
proof (induction rcs arbitrary: bs)
  case (Cons rc rcs)
  obtain role cfg where rc: "rc = (role, cfg)" by (cases rc)
  with Cons.prems obtain b' bs' where b: "build role cfg = Inr b'" "build_endpoints build rcs = Inr bs'" "bs = b' # bs'"
    by (auto split: sum.splits)
  show ?case
  proof (cases "b = b'")
    case True
    with b(1) show ?thesis by blast
  next
    case False
    with Cons.prems(2) b(3) Cons.IH [OF b(2)] show ?thesis by simp
  qed
qed simp

lemma buildProviderBackends_calls:
  assumes "buildProviderBackends see (upstream_of net) cfg = Inr bs" and "b \<in> set bs"
  shows "calls_for (Some (process_recorder now)) keeps_row b"
proof -
  have "\<exists>role e m mock. buildProviderBackend see (upstream_of net) role e m mock = Inr b"
    using assms build_endpoints_all
    by (auto simp: buildProviderBackends_def buildConfiguredProviderBackends_def Let_def
        split: if_splits sum.splits) blast+
  with buildProviderBackend_calls show ?thesis by blast
qed

lemma applyRouteRules_providers:
  assumes "applyRouteRules bs rules = Inr (bs', on)" and "b' \<in> set bs'"
  obtains b where "b \<in> set bs" and "be_provider b' = be_provider b"
proof -
  have "\<exists>b \<in> set bs. be_provider b' = be_provider b"
  proof (cases "rules = []")
    case True
    with assms show ?thesis by (auto simp: applyRouteRules_def)
  next
    case False
    then obtain bb mp where g: "group_rules rules (\<lambda>_. None, \<lambda>_. None) = Inr (bb, mp)"
      using assms(1) by (auto simp: applyRouteRules_def split: sum.splits)
    with assms False have "b' \<in> routed rules ` set bs"
      by (auto simp: applyRouteRules_def map_filter_routed [OF g] Let_def split: if_splits option.splits)
    then show ?thesis by (auto simp: routed_def)
  qed
  with that show thesis by blast
qed

section \<open>The services of the process\<close>

lemma mustLoadProviderBackends_calls:
  assumes "mustLoadProviderBackends see (upstream_of net) coll cfg d = (Inr bs, d')" and "b \<in> set bs"
  shows "calls_for (Some (process_recorder now)) keeps_row b"
proof -
  obtain bs0 rules on where bs0: "buildProviderBackends see (upstream_of net) cfg = Inr bs0"
    and "applyRouteRules bs0 rules = Inr (bs, on)"
    using assms(1) by (auto simp: mustLoadProviderBackends_def split: sum.splits prod.splits)
  with assms(2) obtain b0 where b0: "b0 \<in> set bs0" "be_provider b = be_provider b0"
    by (elim applyRouteRules_providers)
  from buildProviderBackends_calls [OF bs0 b0(1), of now] b0(2) show ?thesis by (simp add: calls_for_def)
qed

lemma router_ctx_recorder:
  "ctx_recorder ctx = Some (tracker_recorder now) \<Longrightarrow> ctx_recorder (router_ctx ctx) = Some (process_recorder now)"
  by (simp add: router_ctx_def process_recorder_def)

lemma at_router_safe:
  assumes "keeps_row (enter_router wt) (snd (m (enter_router wt)))" and "rt_store (snd wt) = mysql_store"
  shows "row_safe wt (snd (at_router m wt))"
  using assms
  by (cases wt; cases "m (enter_router wt)") (simp add: at_router_def keeps_row_def row_safe_def)

lemma process_chat_service_keeps:
  assumes "\<forall>b \<in> set bs. calls_for (Some (process_recorder now)) keeps_row b"
  shows "keeps_request now (svc_provider (process_chat_service (gateway_chat_service cfg (gateway_router cfg bs))))"
proof -
  let ?p = "gateway_router cfg bs"
  have calls: "keeps_row s (snd (router_CreateChatCompletion ?p ctx req s))"
      "keeps_row s (snd (router_StreamChatCompletion ?p ctx req s))"
    if "ctx_recorder ctx = Some (process_recorder now)" for ctx req s
    using row_kept.dispatch_in [of ?p ctx s req] that assms
    by (simp_all add: gateway_router_def router_New_def Let_def)
  have stream: "keeps_row s (snd (StreamChatCompletion (router_provider ?p) ctx req s))"
    if "ctx_recorder ctx = Some (process_recorder now)" for ctx req s
  proof -
    obtain x t where x: "router_StreamChatCompletion ?p ctx req s = (x, t)" by fastforce
    with calls(2) [OF that, of s req] have t: "keeps_row s t" by simp
    show ?thesis
    proof (cases x)
      case (Inl e)
      with x t show ?thesis by (simp add: router_provider_def)
    next
      case (Inr ex)
      with x keeps_row_trans [OF t row_kept.wrapStream_in [where ex = ex and p = ?p and s = t]] show ?thesis
        by (cases "wrapStream ?p ex t") (simp add: router_provider_def)
    qed
  qed
  have create: "keeps_row s (snd (CreateChatCompletion (router_provider ?p) ctx req s))"
    if "ctx_recorder ctx = Some (process_recorder now)" for ctx req s
    using calls(1) [OF that] by (simp add: router_provider_def)
  show ?thesis
    unfolding keeps_request_def
    by (auto simp: process_chat_service_def gateway_chat_service_def create stream router_ctx_recorder
        intro!: at_router_safe)
qed

lemma buildLimiter_gateway: "buildLimiter cfg w = (l, w') \<Longrightarrow> gateway_limiter (Some l)"
  by (auto simp: buildLimiter_def gateway_limiter_def redis_gateway_limiter_def Let_def
      split: if_splits prod.splits sum.splits)

lemma mustBuildGatewayApp_parts:
  assumes "mustBuildGatewayApp see net coll cfg w = (Inr app, w')"
  obtains l w1 bs d where "buildLimiter cfg w = (l, w1)"
    "mustLoadProviderBackends see (upstream_of net) coll cfg (gw_db w1) = (Inr bs, d)"
    "app = \<lparr>ga_auth = (\<lambda>h. on_db (LookupAPIKey coll h)),
        ga_governance = \<lparr>gs_store = mysql_store, gs_limiter = Some l, gs_now = process_now\<rparr>,
        ga_usage = mysql_usage_reader,
        ga_chat = process_chat_service (gateway_chat_service cfg (gateway_router cfg bs)),
        ga_models = map process_model_source (collectModelSources bs), ga_provider = gateway_router cfg bs\<rparr>"
  using assms by (auto simp: mustBuildGatewayApp_def gateway_app_of_def Let_def split: prod.splits sum.splits elim!: on_dbE)

lemma process_handler:
  fixes start :: gw
  assumes "mustBuildGatewayApp see net coll cfg w = (Inr app, w')" and "reads_only ctxErr"
  defines "deps \<equiv> newGatewayServer ctxErr cfg app start"
  shows "gateway_handler (rd_chat deps)" and "rd_finder deps = (\<lambda>h. on_db (LookupAPIKey coll h))"
    and "\<forall>v. gw_db (snd (rd_count deps v)) = gw_db v"
proof -
  from assms(1) obtain l w1 bs d where l: "buildLimiter cfg w = (l, w1)"
    and "mustLoadProviderBackends see (upstream_of net) coll cfg (gw_db w1) = (Inr bs, d)"
    and app: "app = \<lparr>ga_auth = (\<lambda>h. on_db (LookupAPIKey coll h)),
        ga_governance = \<lparr>gs_store = mysql_store, gs_limiter = Some l, gs_now = process_now\<rparr>,
        ga_usage = mysql_usage_reader,
        ga_chat = process_chat_service (gateway_chat_service cfg (gateway_router cfg bs)),
        ga_models = map process_model_source (collectModelSources bs), ga_provider = gateway_router cfg bs\<rparr>"
    by (rule mustBuildGatewayApp_parts)
  then have "\<forall>b \<in> set bs. calls_for (Some (process_recorder process_now)) keeps_row b"
    using mustLoadProviderBackends_calls by blast
  then have "keeps_request process_now (svc_provider (ga_chat app))"
    by (simp add: app process_chat_service_keeps)
  then show "gateway_handler (rd_chat deps)"
    using assms(2) buildLimiter_gateway [OF l] by (simp add: gateway_handler_def deps_def newGatewayServer_def app)
  show "rd_finder deps = (\<lambda>h. on_db (LookupAPIKey coll h))" by (simp add: deps_def newGatewayServer_def app)
  show "\<forall>v. gw_db (snd (rd_count deps v)) = gw_db v" by (simp add: deps_def newGatewayServer_def process_count_def)
qed

section \<open>A process without routing rules\<close>

lemma ListRouteRules_none:
  assumes "ListRouteRules coll d = (Inr rules, d')" and "route_rules d = []"
  shows "rules = []"
proof (rule ccontr)
  assume "rules \<noteq> []"
  with assms(1) obtain ex d1 rows d2 where t: "tableExists ''route_rules'' d = (Inr ex, d1)"
    and q: "db_query (select_rules coll) d1 = (Inr rows, d2)" and rules: "rules = map scan_rule rows"
    by (auto simp: ListRouteRules_def bindS_def split: prod.splits sum.splits if_splits)
  have "route_rules d1 = route_rules d"
    using t db_query_same unfolding tableExists_def by (metis same_data_fields(5))
  then have "rows = []" using q assms(2) by (auto simp: select_rules_def dest: db_query_Inr)
  with rules \<open>rules \<noteq> []\<close> show False by simp
qed

lemma loaded_without_rules:
  assumes "mustLoadProviderBackends see env coll cfg d = (Inr bs, d')" and "route_rules d = []"
  shows "buildProviderBackends see env cfg = Inr bs"
proof -
  obtain bs0 rules on d1 where b: "buildProviderBackends see env cfg = Inr bs0"
    and l: "ListRouteRules coll d = (Inr rules, d1)" and a: "applyRouteRules bs0 rules = Inr (bs, on)"
    using assms(1) by (auto simp: mustLoadProviderBackends_def split: sum.splits prod.splits)
  from ListRouteRules_none [OF l assms(2)] a b show ?thesis by (simp add: applyRouteRules_def)
qed

lemma CreateCompletion_process:
  "CreateCompletion (process_chat_service sv) ctx req wt = at_router (CreateCompletion sv (router_ctx ctx) req) wt"
  by (auto simp: CreateCompletion_def process_chat_service_def prepareProviderRequest_def at_router_def
      split: prod.splits sum.splits)

end
