(* ===== verification/MetricsFacts.thy ===== *)
theory MetricsFacts
  imports Metrics RouterProperties
begin

text \<open>
  The registry as an observer of the router: the events that a mark of success or failure reports carry
  the state they leave, so the statuses in the registry are those of the router; and the counters as
  the numbers of the calls that increment them.
\<close>

section \<open>Statuses\<close>

lemma status_of_update [simp]:
  "status_of (AList.update k st m) n = (if n = k then st else status_of m n)"
  by (simp add: status_of_def update_conv')

definition heard :: "registry \<Rightarrow> event list \<Rightarrow> registry" where
  "heard r0 evs = fold OnEvent evs r0"

lemma heard_simps [simp]: "heard r0 [] = r0" "heard r0 (evs @ [e]) = OnEvent e (heard r0 evs)"
  by (simp_all add: heard_def)

lemma record_statuses [simp]:
  "rg_statuses (record_probe e r) = rg_statuses r" "rg_statuses (record_duration e r) = rg_statuses r"
  by (simp_all add: record_probe_def record_duration_def Let_def)

definition success_types :: "string set" where
  "success_types = {''provider_request_succeeded'', ''provider_probe_succeeded'', ''provider_recovered''}"

definition failure_types :: "string set" where
  "failure_types = {''provider_request_failed'', ''provider_stream_interrupted'', ''provider_probe_failed''}"

lemma OnEvent_statuses:
  "rg_statuses (OnEvent e r) =
     (if ev_backend e = [] then rg_statuses r
      else if ev_type e \<in> success_types
      then AList.update (ev_backend e) ((status_of (rg_statuses r) (ev_backend e))
             \<lparr>ps_healthy := True, ps_failures := 0, ps_unhealthy_until := 0\<rparr>) (rg_statuses r)
      else if ev_type e \<in> failure_types
      then AList.update (ev_backend e) ((status_of (rg_statuses r) (ev_backend e))
             \<lparr>ps_failures := ev_failures e, ps_unhealthy_until := ev_unhealthy_until e,
              ps_healthy := is_zero_time (ev_unhealthy_until e)\<rparr>) (rg_statuses r)
      else rg_statuses r)"
proof -
  have "ev_type e \<in> set [''provider_request_succeeded'', ''provider_probe_succeeded'', ''provider_recovered''] \<longleftrightarrow>
      ev_type e \<in> success_types"
    "ev_type e \<in> set [''provider_request_failed'', ''provider_stream_interrupted'', ''provider_probe_failed''] \<longleftrightarrow>
      ev_type e \<in> failure_types"
    by (simp_all only: success_types_def failure_types_def list.set)
  then show ?thesis
    by (simp only: OnEvent_def updateProviderStatus_def Let_def record_statuses if_distrib [of rg_statuses]
        ) simp
qed

lemma types_disjoint: "ty \<in> failure_types \<Longrightarrow> ty \<notin> success_types"
  by (auto simp: success_types_def failure_types_def)

text \<open>The registry shows a backend the way its state is.\<close>

definition shown :: "registry \<Rightarrow> string \<Rightarrow> backend_state \<Rightarrow> bool" where
  "shown r n st \<longleftrightarrow> (let ps = status_of (rg_statuses r) n in
     ps_failures ps = bs_consecutive_failures st \<and> ps_unhealthy_until ps = bs_unhealthy_until st \<and>
     (is_zero_time (bs_unhealthy_until st) \<longrightarrow> ps_healthy ps))"

definition mirrored :: "registry \<Rightarrow> string set \<Rightarrow> 'm rstate_scheme \<Rightarrow> bool" where
  "mirrored r0 N s \<longleftrightarrow> (let r = heard r0 (rs_log s) in
     fst ` set (rg_statuses r) = N \<and> (\<forall>n \<in> N. shown r n (rs_states s n)))"

definition keeps_mirror :: "registry \<Rightarrow> string set \<Rightarrow> 'm rstate_scheme \<Rightarrow> 'm rstate_scheme \<Rightarrow> bool" where
  "keeps_mirror r0 N s t \<longleftrightarrow> (mirrored r0 N s \<longrightarrow> mirrored r0 N t)"

lemma keeps_mirrorI: "(mirrored r0 N s \<Longrightarrow> mirrored r0 N t) \<Longrightarrow> keeps_mirror r0 N s t"
  by (simp add: keeps_mirror_def)

lemma keeps_mirror_quiet: "rs_states t = rs_states s \<Longrightarrow> rs_log t = rs_log s \<Longrightarrow> keeps_mirror r0 N s t"
  by (simp add: keeps_mirror_def mirrored_def)

text \<open>An event either reports the state a backend is left in, or leaves the statuses alone.\<close>

definition reports :: "event \<Rightarrow> backend_state \<Rightarrow> bool" where
  "reports e st \<longleftrightarrow>
     (ev_type e \<in> success_types \<and>
        bs_consecutive_failures st = 0 \<and> bs_unhealthy_until st = 0) \<or>
     (ev_type e \<in> failure_types \<and>
        ev_failures e = bs_consecutive_failures st \<and> ev_unhealthy_until e = bs_unhealthy_until st)"

lemma mirrored_report:
  assumes "mirrored r0 N s" and "n \<in> N" and "n \<noteq> []"
    and "ev_backend e = n" and "reports e (rs_states t n)"
    and "rs_log t = rs_log s @ [e]" and "\<forall>m. m \<noteq> n \<longrightarrow> rs_states t m = rs_states s m"
  shows "mirrored r0 N t"
proof -
  let ?r = "heard r0 (rs_log s)" and ?r' = "heard r0 (rs_log t)"
  have keys: "fst ` set (rg_statuses ?r) = N" and sh: "\<And>m. m \<in> N \<Longrightarrow> shown ?r m (rs_states s m)"
    using assms(1) by (simp_all add: mirrored_def Let_def)
  from assms(5) obtain st where st: "rg_statuses ?r' = AList.update n st (rg_statuses ?r)"
      and "ps_failures st = bs_consecutive_failures (rs_states t n)"
      "ps_unhealthy_until st = bs_unhealthy_until (rs_states t n)"
      "is_zero_time (bs_unhealthy_until (rs_states t n)) \<Longrightarrow> ps_healthy st"
    unfolding reports_def using assms(3,4,6)
    by (elim disjE conjE) (auto simp: OnEvent_statuses types_disjoint)
  then have "shown ?r' m (rs_states t m)" if "m \<in> N" for m
    using that sh [OF that] assms(7) by (auto simp: shown_def Let_def)
  moreover have "fst ` set (rg_statuses ?r') = N"
    using keys assms(2) by (auto simp: st dom_update)
  ultimately show ?thesis by (simp add: mirrored_def Let_def)
qed

lemma mirrored_other:
  assumes "mirrored r0 N s" and "ev_type e \<notin> success_types \<union> failure_types"
    and "rs_log t = rs_log s @ [e]" and "rs_states t = rs_states s"
  shows "mirrored r0 N t"
proof -
  have "rg_statuses (heard r0 (rs_log t)) = rg_statuses (heard r0 (rs_log s))"
    using assms(2,3) by (simp add: OnEvent_statuses)
  with assms(1,4) show ?thesis by (simp add: mirrored_def shown_def Let_def)
qed

lemma observe_log: "rs_log (observe p e s) = (if ro_observer p then rs_log s @ [e] else rs_log s)"
  by (simp add: observe_def)

lemma set_state_fields [simp]:
  "rs_states (set_state n st s) = (rs_states s)(n := st)" "rs_log (set_state n st s) = rs_log s"
  by (simp_all add: set_state_def)

lemma plain_event_fields [simp]:
  "ev_type (plain_event ty oper n) = ty" "ev_backend (plain_event ty oper n) = n"
  by (simp_all add: plain_event_def)

section \<open>The router's operations\<close>

lemma mirrored_observe_other:
  assumes "ev_type e \<notin> success_types \<union> failure_types"
  shows "keeps_mirror r0 N s (observe p e s)"
proof (cases "ro_observer p")
  case True
  show ?thesis
    by (rule keeps_mirrorI, rule mirrored_other) (use assms True in \<open>simp_all add: observe_log\<close>)
qed (simp add: observe_def keeps_mirror_quiet)

lemma keeps_mirror_trans: "keeps_mirror r0 N s t \<Longrightarrow> keeps_mirror r0 N t u \<Longrightarrow> keeps_mirror r0 N s u"
  by (simp add: keeps_mirror_def)

lemma mirrored_marked:
  assumes "ro_observer p" and "n \<in> N" "n \<noteq> []" and "ev_backend e = n" and "reports e st"
  shows "keeps_mirror r0 N s (observe p e (set_state n st s))"
  by (rule keeps_mirrorI, rule mirrored_report [OF _ assms(2,3,4)]) (use assms in \<open>auto simp: observe_log\<close>)

lemma mirrored_repeated:
  assumes "ro_observer p" and "n \<in> N" "n \<noteq> []" and "ev_backend e = n" and "reports e (rs_states s n)"
  shows "keeps_mirror r0 N s (observe p e s)"
  by (rule keeps_mirrorI, rule mirrored_report [OF _ assms(2,3,4)]) (use assms in \<open>auto simp: observe_log\<close>)

lemma mirror_skipping: "keeps_mirror r0 N s (observeSkipped p oper bs s)"
proof -
  have "keeps_mirror r0 N s (fold (\<lambda>b. observe p (plain_event ''provider_skipped_unhealthy'' oper (be_name b))) bs s)"
  proof (induction bs arbitrary: s)
    case Nil
    then show ?case by (simp add: keeps_mirror_quiet)
  next
    case (Cons b bs)
    have "keeps_mirror r0 N s (observe p (plain_event ''provider_skipped_unhealthy'' oper (be_name b)) s)"
      by (rule mirrored_observe_other) (simp add: success_types_def failure_types_def)
    then show ?case using keeps_mirror_trans Cons.IH by (simp only: fold_simps) blast
  qed
  then show ?thesis by (simp add: observeSkipped_def)
qed

lemma mirror_failing:
  assumes "ro_observer p" and "n \<in> N" "n \<noteq> []"
    and "ty = ''provider_request_failed'' \<or> ty = ''provider_stream_interrupted''"
  shows "keeps_mirror r0 N s (fail_backend p ty oper n a d e s)"
  unfolding fail_backend_def markFailure_def Let_def prod.case
  by (rule mirrored_marked [OF assms(1-3)]) (use assms(4) in \<open>auto simp: reports_def failure_types_def\<close>)

lemma mirror_succeeding:
  assumes "ro_observer p" and "n \<in> N" "n \<noteq> []" and "markSuccess n s = (recovered, t)"
  shows "keeps_mirror r0 N s (observe_success p oper n a d recovered t)"
proof -
  let ?st = "zero_state\<lparr>bs_last_probe_at := bs_last_probe_at (rs_states s n)\<rparr>"
  let ?e = "\<lambda>ty. (plain_event ty oper n)\<lparr>ev_attempt := a\<rparr>"
  let ?t1 = "observe p ((?e ''provider_request_succeeded'')\<lparr>ev_duration := d\<rparr>) t"
  let ?t2 = "if 1 < a then observe p ((?e ''provider_fallback_succeeded'')\<lparr>ev_duration := d\<rparr>) ?t1 else ?t1"
  have t: "t = set_state n ?st s" using assms(4) by (auto simp: markSuccess_def Let_def)
  have "keeps_mirror r0 N s ?t1"
    unfolding t by (rule mirrored_marked [OF assms(1-3)])
      (simp_all add: reports_def success_types_def zero_state_def plain_event_def)
  moreover have "keeps_mirror r0 N ?t1 ?t2"
    using mirrored_observe_other [of "(?e ''provider_fallback_succeeded'')\<lparr>ev_duration := d\<rparr>" r0 N ?t1 p]
    by (simp add: keeps_mirror_quiet success_types_def failure_types_def plain_event_def)
  moreover have "rs_states ?t2 n = ?st" by (simp add: t)
  then have "keeps_mirror r0 N ?t2 (observe p (?e ''provider_recovered'') ?t2)"
    by (intro mirrored_repeated [OF assms(1-3)])
      (simp_all add: reports_def success_types_def zero_state_def plain_event_def)
  ultimately show ?thesis
    unfolding observe_success_def Let_def
    using keeps_mirror_trans by (cases recovered) (simp_all only: if_True if_False, blast+)
qed

lemma mirror_probe_failing:
  assumes "ro_observer p" and "n \<in> N" "n \<noteq> []" and "markProbeFailure p n m tm s = (mark, t)"
  shows "keeps_mirror r0 N s (probe_failed p n d m mark t)"
proof -
  have "\<exists>st. t = set_state n st s \<and> mark = (bs_consecutive_failures st, bs_unhealthy_until st)"
    using assms(4) by (auto simp: markProbeFailure_def Let_def)
  then show ?thesis
    unfolding probe_failed_def
    by (elim exE conjE, hypsubst, intro mirrored_marked [OF assms(1-3)])
      (simp_all add: reports_def failure_types_def plain_event_def)
qed

lemma mirror_probe_succeeding:
  assumes "ro_observer p" and "n \<in> N" "n \<noteq> []" and "markProbeSuccess n tm s = (recovered, t)"
  shows "keeps_mirror r0 N s (probe_succeeded p n d recovered t)"
proof -
  let ?st = "zero_state\<lparr>bs_last_probe_at := tm, bs_last_probe_error := []\<rparr>"
  let ?t1 = "observe p ((plain_event ''provider_probe_succeeded'' ''probe'' n)\<lparr>ev_duration := d\<rparr>) t"
  have t: "t = set_state n ?st s" using assms(4) by (auto simp: markProbeSuccess_def Let_def)
  have "keeps_mirror r0 N s ?t1"
    unfolding t by (rule mirrored_marked [OF assms(1-3)])
      (simp_all add: reports_def success_types_def zero_state_def plain_event_def)
  moreover have "rs_states ?t1 n = ?st" by (simp add: t)
  then have "keeps_mirror r0 N ?t1 (observe p (plain_event ''provider_recovered'' ''probe'' n) ?t1)"
    by (intro mirrored_repeated [OF assms(1-3)])
      (simp_all add: reports_def success_types_def zero_state_def plain_event_def)
  ultimately show ?thesis
    unfolding probe_succeeded_def Let_def
    using keeps_mirror_trans by (cases recovered) (simp_all only: if_True if_False, blast+)
qed

interpretation mirror: router_relation "p\<lparr>ro_observer := True\<rparr>" "keeps_mirror r0 N" "\<lambda>n. n \<in> N \<and> n \<noteq> []"
  for p r0 N
proof unfold_locales
  let ?p = "p\<lparr>ro_observer := True\<rparr>"
  show "keeps_mirror r0 N s (observe ?p (plain_event ''provider_probe_skipped'' ''probe'' n) s)" for s n
    by (rule mirrored_observe_other) (simp add: success_types_def failure_types_def)
  show "keeps_mirror r0 N s t \<Longrightarrow> keeps_mirror r0 N t u \<Longrightarrow> keeps_mirror r0 N s u" for s t u
    by (rule keeps_mirror_trans)
  show "keeps_mirror r0 N s (observeSkipped ?p oper bs s)" for s oper bs by (rule mirror_skipping)
qed (simp_all add: keeps_mirror_quiet mirror_failing mirror_succeeding mirror_probe_failing
    mirror_probe_succeeding pass_time_def)

end
