(* ===== verification/GatewayProperties.thy ===== *)
theory GatewayProperties
  imports GatewayFacts MetricsFacts ConfigFacts
begin

text \<open>
  The properties of the gateway's parts together: the metrics registry against the router it observes,
  the configuration, and the backends built from it against the routing rules derived from it.
\<close>

section \<open>The registry and the router\<close>

definition leaves_router :: "'m rstate_scheme \<Rightarrow> 'm rstate_scheme \<Rightarrow> bool" where
  "leaves_router s t \<longleftrightarrow> rs_states t = rs_states s \<and> rs_log t = rs_log s"

text \<open>The router's operations one after the other, with anything in between that leaves it alone.\<close>

inductive router_steps :: "('m, 'h) router \<Rightarrow> 'm rstate_scheme \<Rightarrow> 'm rstate_scheme \<Rightarrow> bool" for p s where
  start: "router_steps p s s"
| complete: "router_steps p s (snd (router_CreateChatCompletion p ctx req t))" if "router_steps p s t"
| stream: "router_steps p s (snd (router_StreamChatCompletion p ctx req t))" if "router_steps p s t"
| forward: "router_steps p s (snd (wrapStream p ex t))" if "router_steps p s t"
    and "ex_backend ex \<in> be_name ` set (ro_backends p)"
| probe: "router_steps p s (Probe p t)" if "router_steps p s t"
| elsewhere: "router_steps p s u" if "router_steps p s t" and "leaves_router t u"

definition shown_status :: "backend_state \<Rightarrow> time \<Rightarrow> provider_status" where
  "shown_status st now =
     \<lparr>ps_healthy = is_zero_time (bs_unhealthy_until st) \<or> \<not> time_after (bs_unhealthy_until st) now,
      ps_failures = bs_consecutive_failures st, ps_unhealthy_until = bs_unhealthy_until st\<rparr>"

lemma synced_statuses:
  "rg_statuses (served_registry p s) =
     fold (\<lambda>n. AList.update n (shown_status (rs_states s n) (rs_clock s))) (map be_name (ro_backends p)) []"
proof -
  have "fold (\<lambda>st. AList.update (st_name st) \<lparr>ps_healthy = st_healthy st, ps_failures = st_failures st,
        ps_unhealthy_until = st_unhealthy_until st\<rparr>) (map f bs) m =
      fold (\<lambda>n. AList.update n (shown_status (rs_states s n) (rs_clock s))) (map be_name bs) m"
    if "\<And>b. st_name (f b) = be_name b \<and> \<lparr>ps_healthy = st_healthy (f b), ps_failures = st_failures (f b),
        ps_unhealthy_until = st_unhealthy_until (f b)\<rparr> = shown_status (rs_states s (be_name b)) (rs_clock s)"
    for f and bs :: "('a, 'b) backend list" and m
    using that by (induction bs arbitrary: m) simp_all
  note updates = this
  show ?thesis
    unfolding served_registry_def SyncProviderStatuses_def NewRegistry_def BackendStatuses_def registry.simps Let_def
    by (rule updates) (simp add: shown_status_def)
qed

lemma updated_statuses:
  "status_of (fold (\<lambda>n. AList.update n (g n)) ns m) k = (if k \<in> set ns then g k else status_of m k)"
  "fst ` set (fold (\<lambda>n. AList.update n (g n)) ns m) = set ns \<union> fst ` set m"
  by (induction ns arbitrary: m) (auto simp: dom_update)

lemma synced_mirrored:
  assumes "rs_log s = []"
  shows "mirrored (served_registry p s) (be_name ` set (ro_backends p)) s"
  using assms
  by (auto simp: mirrored_def synced_statuses updated_statuses shown_def shown_status_def Let_def)

lemma calls_leave_router:
  assumes "calls_in leaves_router b"
  shows "calls_in (keeps_mirror r0 N) b"
  using assms keeps_mirror_quiet unfolding calls_in_iff leaves_router_def by blast

lemma router_steps_mirrored:
  assumes "router_steps p s0 s" and "ro_observer p" and "N = be_name ` set (ro_backends p)"
    and "\<forall>b \<in> set (ro_backends p). be_name b \<noteq> [] \<and> calls_in leaves_router b"
    and "mirrored r0 N s0"
  shows "mirrored r0 N s"
proof -
  have p: "p\<lparr>ro_observer := True\<rparr> = p" using assms(2) by (cases p) simp
  have bs: "\<forall>b \<in> set (ro_backends p). calls_in (keeps_mirror r0 N) b \<and> (be_name b \<in> N \<and> be_name b \<noteq> [])"
    using assms(3,4) calls_leave_router by blast
  note steps = mirror.operations_in [of p r0 N, unfolded p, OF bs]
  have fwd: "keeps_mirror r0 N t (snd (wrapStream p ex t))" if "ex_backend ex \<in> N" for t ex
    using mirror.wrapStream_in [of ex N r0 t p, unfolded p] that assms(3,4) by auto
  show ?thesis
    using assms(1)
  proof induction
    case start
    then show ?case by (rule assms(5))
  next
    case (complete t ctx req)
    then show ?case using steps(1) by (simp add: keeps_mirror_def)
  next
    case (stream t ctx req)
    then show ?case using steps(2) by (simp add: keeps_mirror_def)
  next
    case (forward t ex)
    then show ?case using fwd assms(3) by (simp add: keeps_mirror_def)
  next
    case (probe t)
    then show ?case using steps(3) by (simp add: keeps_mirror_def)
  next
    case (elsewhere t u)
    then show ?case using keeps_mirror_quiet [of u t r0 N] by (simp add: keeps_mirror_def leaves_router_def)
  qed
qed

lemma shown_healthy:
  "shown r n st \<Longrightarrow> 0 \<le> now \<Longrightarrow> isProviderHealthy (status_of (rg_statuses r) n) now \<longleftrightarrow>
     is_zero_time (bs_unhealthy_until st) \<or> \<not> time_after (bs_unhealthy_until st) now"
  by (auto simp: shown_def Let_def isProviderHealthy_def go_defs)

text \<open>
  C31: Over any sequence of completions, streams, forwarded streams and probes, the registry that was
  given the router's statuses and heard its events shows every backend's failures, end of cooldown and
  health as the router has them, and its readiness is the router's.
\<close>

theorem registry_agrees_with_router:
  assumes "router_steps p s0 s" and "ro_observer p" and "rs_log s0 = []" and "0 \<le> rs_clock s"
    and "\<forall>b \<in> set (ro_backends p). be_name b \<noteq> [] \<and> calls_in leaves_router b"
  defines "r \<equiv> heard (served_registry p s0) (rs_log s)"
  shows "(\<forall>st \<in> set (BackendStatuses p s). let ps = status_of (rg_statuses r) (st_name st) in
      ps_failures ps = st_failures st \<and> ps_unhealthy_until ps = st_unhealthy_until st \<and>
      isProviderHealthy ps (rs_clock s) = st_healthy st) \<and>
    provider_ready r (rs_clock s) = (ro_backends p = [] \<or> Ready p s)"
proof -
  let ?N = "be_name ` set (ro_backends p)"
  have "mirrored (served_registry p s0) ?N s"
    using router_steps_mirrored [OF assms(1,2) refl assms(5) synced_mirrored [OF assms(3)]] .
  then have keys: "fst ` set (rg_statuses r) = ?N" and sh: "\<And>n. n \<in> ?N \<Longrightarrow> shown r n (rs_states s n)"
    by (auto simp: mirrored_def r_def Let_def)
  have healthy: "isProviderHealthy (status_of (rg_statuses r) (be_name b)) (rs_clock s) \<longleftrightarrow>
      \<not> cooling s (be_name b)" if "b \<in> set (ro_backends p)" for b
    using shown_healthy [OF sh assms(4)] that by (simp add: cooling_def)
  have "provider_ready r (rs_clock s) \<longleftrightarrow> rg_statuses r = [] \<or>
      (\<exists>n \<in> ?N. isProviderHealthy (status_of (rg_statuses r) n) (rs_clock s))"
    by (auto simp: provider_ready_def sortedKeys_def keys [symmetric] filter_empty_conv)
  moreover have "rg_statuses r = [] \<longleftrightarrow> ro_backends p = []"
    using keys by (metis image_is_empty set_empty)
  ultimately have "provider_ready r (rs_clock s) = (ro_backends p = [] \<or> Ready p s)"
    using healthy by (auto simp: Ready_iff)
  moreover have "shown r (be_name b) (rs_states s (be_name b))" if "b \<in> set (ro_backends p)" for b
    using sh that by simp
  ultimately show ?thesis
    using healthy by (auto simp: BackendStatuses_def Let_def shown_def cooling_def)
qed

lemma demo_calls: "b \<in> set (ro_backends demo_router) \<Longrightarrow> be_name b \<noteq> [] \<and> calls_in leaves_router b"
  by (auto simp: calls_in_iff leaves_router_def demo_backend_def failing_def answering_provider_def)

lemma demo_observed: "ro_observer demo_router" "rs_log demo_state = []"
  by (simp_all add: demo_router_def demo_state_def)

theorem registry_agrees_with_router_witness:
  "let s = snd (router_CreateChatCompletion demo_router demo_ctx demo_request demo_state);
       r = heard (served_registry demo_router demo_state) (rs_log s)
   in provider_ready r (rs_clock s) = Ready demo_router s"
proof -
  let ?s = "snd (router_CreateChatCompletion demo_router demo_ctx demo_request demo_state)"
  have steps: "router_steps demo_router demo_state ?s" by (rule router_steps.intros)+
  have "rs_clock ?s = 5"
    by (simp add: router_CreateChatCompletion_def demo_candidates markSuccess_def set_state_def
        fail_backend_states Let_def)
  show ?thesis
    using registry_agrees_with_router [OF steps _ _ _ ballI [OF demo_calls]] \<open>rs_clock ?s = 5\<close>
    by (simp add: demo_observed Let_def)
qed

section \<open>The configuration\<close>

text \<open>
  C32: A setting is what its environment variable says, read by the kind of the value it overrides, else
  what the file says, else its default; as long as the file has maps where the defaults have them and no
  variable replaces a whole section.
\<close>

theorem setting_precedence:
  assumes "ReadInConfig readFile config_reader = Inr r"
    and "lookup_path (vi_defaults config_reader) p = Some d" and "\<not> is_object d" and "\<forall>k \<in> set p. k \<noteq> []"
    and "leads_along (vi_values (case r of None \<Rightarrow> config_reader | Some v \<Rightarrow> v)) p"
    and "unset_above env app_env [] p"
  defines "v \<equiv> case r of None \<Rightarrow> config_reader | Some v \<Rightarrow> v"
  defines "b \<equiv> case lookup_path (vi_values v) p of Some w \<Rightarrow> w | None \<Rightarrow> d"
  shows "lookup_path (merged_values env v) p =
    Some (case env (app_env (join ''.'' p)) of Some e \<Rightarrow> parseOverrideValue e b | None \<Rightarrow> b)"
proof -
  obtain m where v: "v = config_reader\<lparr>vi_values := m\<rparr>" and m: "distinct_keys (JObj m)"
    unfolding v_def using assms(1) by (rule ReadInConfig_reader)
  have along: "leads_along m p" using assms(5) unfolding v_def [symmetric] v by simp
  have merged: "lookup_path (deepMerge (vi_defaults config_reader) m) p = Some b"
    using lookup_deepMerge [OF m along assms(2)] by (simp add: b_def v)
  have "\<not> is_object b"
    using assms(3) leads_to_leaf [OF along] by (auto simp: b_def v split: option.split)
  moreover have "p \<noteq> []" using assms(2) by auto
  then have "path_below [] p = join ''.'' p" using path_below_join [OF assms(4)] by (simp add: sub_path_def)
  ultimately show ?thesis
    using lookup_applyEnv [OF merged _ assms(6)] by (simp add: merged_values_def v)
qed

theorem setting_precedence_witness:
  "lookup_path (merged_values (\<lambda>k. if k = ''APP_REDIS_DB'' then Some ''3'' else None) config_reader) [''redis'', ''db''] =
     Some (num 3)"
proof -
  let ?env = "\<lambda>k. if k = ''APP_REDIS_DB'' then Some ''3'' else None"
  have r: "ReadInConfig (\<lambda>_. None) config_reader = Inr None" by (simp add: ReadInConfig_def)
  have d: "lookup_path (vi_defaults config_reader) [''redis'', ''db''] = Some (num 0)"
    by (simp add: reader_defaults default_object_def)
  have env: "app_env ''redis'' = ''APP_REDIS''" "app_env (join ''.'' [''redis'', ''db'']) = ''APP_REDIS_DB''"
    "parseOverrideValue ''3'' (num 0) = num 3"
    unfolding app_env_def num_def by code_simp+
  show ?thesis
    using setting_precedence [OF r d, of ?env] env by (simp add: num_def sub_path_def)
qed

section \<open>The default backends\<close>

definition default_mock_backend ::
    "(stream_event list \<Rightarrow> 'm rstate_scheme \<Rightarrow> selection list) \<Rightarrow> string \<Rightarrow> int \<Rightarrow> mock_config \<Rightarrow> ('m, 'h) backend" where
  "default_mock_backend see name prio mockCfg =
     \<lparr>be_name = name, be_provider = mock_backend_provider see rs_clock (mock_NewWithConfig mockCfg),
      be_list_models = Some (\<lambda>s. (mock_ListModels (mock_NewWithConfig mockCfg) (rs_clock s), s)),
      be_priority = prio, be_models = [], be_rules = [], be_first_event_timeout = 0\<rparr>"

lemma default_mock_fields [simp]:
  "be_name (default_mock_backend see name prio mockCfg) = name"
  "be_priority (default_mock_backend see name prio mockCfg) = prio"
  "backendPreference (default_mock_backend see name prio mockCfg) model = (1, prio, True)"
  "be_models (default_mock_backend see name prio mockCfg) = []"
  "CreateChatCompletion (be_provider (default_mock_backend see name prio mockCfg)) ctx req s =
     (mock_CreateChatCompletion (mock_NewWithConfig mockCfg) (rs_clock s) req, s)"
  by (simp_all add: default_mock_backend_def backendPreference_def mock_backend_provider_def)

lemma default_endpoint_builds:
  assumes "name \<noteq> []" and "trim_space name = name"
  shows "buildProviderBackend see env role (default_endpoint name prio) model mockCfg =
    Inr (default_mock_backend see name prio (mockCfg\<lparr>mk_model := model\<rparr>))"
proof -
  have "to_lower (trim_space ''mock'') = ''mock''" by code_simp
  then show ?thesis
    using assms
    by (simp add: buildProviderBackend_def default_endpoint_def default_mock_backend_def normalizeModels_def
        normalizeRouteRuleModels_def Let_def)
qed

lemma default_backends_built:
  assumes "cf_provider cfg = cf_provider default_config" and "buildProviderBackends see env cfg = Inr bs"
  obtains mp ms where
      "bs = [default_mock_backend see ''primary'' 100 mp, default_mock_backend see ''secondary'' 200 ms]"
    and "\<not> mk_fail_create ms" and "mk_response_text ms = []" and "mk_response_text mp = []"
proof -
  have "trim_space ''primary'' = ''primary''" "trim_space ''secondary'' = ''secondary''" by code_simp+
  then show thesis
    using assms that [of "plain_mock\<lparr>mk_fail_create := gc_primary_mock_fail_create (cf_gateway cfg),
        mk_fail_stream := gc_primary_mock_fail_stream (cf_gateway cfg),
        mk_model := gc_default_model (cf_gateway cfg)\<rparr>"
        "plain_mock\<lparr>mk_model := gc_default_model (cf_gateway cfg)\<rparr>"]
    by (simp add: buildProviderBackends_def default_config_def default_endpoint_builds plain_mock_def Let_def)
qed

lemma default_ranking:
  "rankBackends [default_mock_backend see ''primary'' 100 mp, default_mock_backend see ''secondary'' 200 ms] model =
     [default_mock_backend see ''primary'' 100 mp, default_mock_backend see ''secondary'' 200 ms]"
  by (simp add: rankBackends_def applicable_def backend_rank_def less_eq_rank_def less_rank_def rank_before_def Let_def)

definition mock_answered :: "string \<Rightarrow> chat_completion_response res \<times> 's \<Rightarrow> bool" where
  "mock_answered model x \<longleftrightarrow> (\<exists>resp s'. x = (Inr resp, s') \<and> resp_model resp = model \<and>
     map (\<lambda>c. msg_content (choice_message c)) (resp_choices resp) =
       [''This is a mock response from LLM Access Gateway.''])"

lemma mock_answers:
  assumes "\<not> mk_fail_create m" and "mk_response_text m = []"
  shows "mock_answered (req_model rq) (create_loop p ctx rq (default_mock_backend see name prio m # bs) n e t)"
  using assms
  by (cases "markSuccess name t")
    (simp add: mock_answered_def mock_CreateChatCompletion_def mock_NewWithConfig_def Let_def)

lemma mock_failover:
  assumes "\<not> mk_fail_create ms" and "mk_response_text ms = []" and "mk_response_text mp = []"
  shows "mock_answered (req_model rq) (create_loop p ctx rq
    [default_mock_backend see ''primary'' 100 mp, default_mock_backend see ''secondary'' 200 ms] n e t)"
    (is "mock_answered _ (create_loop p ctx rq [?a, ?b] n e t)")
proof (cases "mk_fail_create mp")
  case True
  then have "mock_CreateChatCompletion (mock_NewWithConfig mp) (rs_clock t) rq = Inl MockCreateFailed"
    by (simp add: mock_CreateChatCompletion_def mock_NewWithConfig_def)
  then have "create_loop p ctx rq [?a, ?b] n e t = create_loop p ctx rq [?b] (n + 1) MockCreateFailed
      (fail_backend p ''provider_request_failed'' ''create'' ''primary'' n
        (time_sub (rs_clock t) (rs_clock t)) MockCreateFailed t)"
    by (simp add: create_loop.simps(2) [of p ctx rq ?a "[?b]"] Let_def del: create_loop.simps)
  then show ?thesis using mock_answers assms by metis
next
  case False
  then show ?thesis using mock_answers assms by metis
qed

lemma default_dispatch:
  assumes "ro_backends p = [default_mock_backend see ''primary'' 100 mp, default_mock_backend see ''secondary'' 200 ms]"
      (is "_ = [?a, ?b]")
    and "\<not> cooling s ''secondary''"
    and "\<not> mk_fail_create ms" and "mk_response_text ms = []" and "mk_response_text mp = []"
  shows "mock_answered (req_model rq) (router_CreateChatCompletion p ctx rq s)"
proof -
  have "candidates_of p (req_model rq) s = ([?a, ?b], []) \<or> candidates_of p (req_model rq) s = ([?b], [?a])"
    using assms(1,2) by (auto simp: candidates_of_def default_ranking Let_def)
  then have "\<exists>t. router_CreateChatCompletion p ctx rq s = create_loop p ctx rq [?a, ?b] 1 no_error t \<or>
      router_CreateChatCompletion p ctx rq s = create_loop p ctx rq [?b] 1 no_error t"
    by (auto simp: router_CreateChatCompletion_def simp del: create_loop.simps)
  then show ?thesis using mock_failover [OF assms(3-5)] mock_answers [OF assms(3,4)] by metis
qed

text \<open>
  With the providers of the default configuration, the chat service answers every completion that
  has messages with the mock response, to the model asked for or the default one, whether or not the
  primary is set to fail and whatever the primary's health, as long as the secondary is not in a cooldown.
\<close>

lemma default_completion:
  assumes "cf_provider cfg = cf_provider default_config" and "buildProviderBackends see env cfg = Inr bs"
    and "cr_messages req \<noteq> []" and "\<not> cooling s ''secondary''"
  shows "\<exists>resp s'. CreateCompletion (gateway_chat_service cfg (gateway_router cfg bs)) ctx req s = (Inr resp, s') \<and>
    map (\<lambda>c. cm_content (cc_message c)) (cp_choices resp) =
      [''This is a mock response from LLM Access Gateway.''] \<and>
    cp_model resp = (if cr_model req = [] then gc_default_model (cf_gateway cfg) else cr_model req)"
proof -
  obtain mp ms where bs: "bs = [default_mock_backend see ''primary'' 100 mp, default_mock_backend see ''secondary'' 200 ms]"
    and m: "\<not> mk_fail_create ms" "mk_response_text ms = []" "mk_response_text mp = []"
    using assms(1,2) by (rule default_backends_built)
  let ?p = "gateway_router cfg bs"
  let ?preq = "\<lparr>req_model = if cr_model req = [] then gc_default_model (cf_gateway cfg) else cr_model req,
      req_messages = toProviderMessages (cr_messages req), req_stream = cr_stream req\<rparr>"
  have "ro_backends ?p = bs" by (simp add: gateway_router_def router_New_def Let_def)
  then have "mock_answered (req_model ?preq) (router_CreateChatCompletion ?p ctx ?preq s)"
    unfolding bs using assms(4) m by (rule default_dispatch)
  moreover have "prepareProviderRequest (gateway_chat_service cfg ?p) req = Inr ?preq"
    using assms(3) by (simp add: prepareProviderRequest_def gateway_chat_service_def)
  moreover have "svc_provider (gateway_chat_service cfg ?p) = router_provider ?p"
    "CreateChatCompletion (router_provider ?p) = router_CreateChatCompletion ?p"
    by (simp_all add: gateway_chat_service_def router_provider_def)
  ultimately show ?thesis
    by (auto simp: CreateCompletion_def mock_answered_def toChoices_def comp_def split del: if_split)
qed

definition idle_upstream :: "rstate upstream" where
  "idle_upstream =
     \<lparr>env_do = (\<lambda>dl rq s. (Inl (NewErr ''down''), s)), env_ctx_err = (\<lambda>dl s. None),
      env_wait = (\<lambda>dl d s. (None, s)), env_offer = (\<lambda>s. (None, s)), env_now = rs_clock\<rparr>"

lemma default_config_builds: "\<exists>bs. buildProviderBackends see env default_config = Inr bs"
proof -
  have "trim_space ''primary'' = ''primary''" "trim_space ''secondary'' = ''secondary''" by code_simp+
  then show ?thesis
    by (simp add: buildProviderBackends_def default_config_def default_endpoint_builds Let_def)
qed

section \<open>The seeded routing rules\<close>

text \<open>
  C33: The routing rules that are seeded from the configuration can be applied to the backends built from
  it. For a model, the ranking under them is the ranking of the configuration without the backends that
  list other models only: those are a last resort without rules, and are never tried with them.
\<close>

theorem seeded_rules_restrict:
  assumes "buildProviderBackends see env cfg = Inr bs" and "distinct (map be_name bs)"
    and "\<forall>b \<in> set bs. be_priority b < max_int \<and> (\<forall>m \<in> set (be_models b). fold_key m = m)"
    and "normal_model model \<noteq> []" and "fold_key (normal_model model) = normal_model model"
  shows "\<exists>rs. applyRouteRules bs (DesiredRouteRuleSeeds (cf_provider cfg)) = Inr (rs, True) \<and>
    map be_name rs = map be_name bs \<and>
    map be_name (rankBackends rs model) =
      map be_name (filter (\<lambda>b. 0 < fst (backendPreference b (normal_model model))) (rankBackends bs model))"
proof -
  let ?rules = "DesiredRouteRuleSeeds (cf_provider cfg)" and ?rcs = "configuredProviderEndpoints (cf_provider cfg)"
  have rules: "?rules = concat (map endpoint_rules ?rcs)" by (simp add: DesiredRouteRuleSeeds_def)
  have built: "list_all2 built ?rcs bs" using assms(1) by (rule buildProviderBackends_built)
  have known: "trim_space (rrec_backend_name r) \<noteq> [] \<and> (\<exists>b \<in> set bs. be_name b = trim_space (rrec_backend_name r))"
    if "r \<in> set ?rules" for r
  proof -
    from that obtain rc where rc: "rc \<in> set ?rcs" "r \<in> set (endpoint_rules rc)" unfolding rules by auto
    then obtain b where b: "b \<in> set bs" "built rc b"
      using built by (metis list_all2_conv_all_nth in_set_conv_nth)
    have "rrec_backend_name r = be_name b"
      using rc(2) b(2) by (auto simp: endpoint_rules_def built_def Let_def split: prod.splits if_splits)
    with b show ?thesis by (auto simp: built_def)
  qed
  have own: "rules_of (be_name b) ?rules \<noteq> []" if "b \<in> set bs" for b
    using seeds_rules_of [OF built assms(2) that] rules by simp
  have "bs \<noteq> []" using assms(1) by (rule built_nonempty)
  then have "?rules \<noteq> []" using own by (metis list.set_intros(1) neq_Nil_conv rules_of_empty_iff empty_iff list.set(1))
  then have "applyRouteRules bs ?rules = Inr (map (routed ?rules) bs, True)"
    using applyRouteRules_known [of ?rules bs] known own by (simp add: filter_True)
  moreover have "be_name (routed ?rules b) = be_name b" for b :: "('a, 'b) backend" by (simp add: routed_def)
  then have "map be_name (map (routed ?rules) xs) = map be_name xs" for xs :: "('a, 'b) backend list" by simp
  ultimately show ?thesis
    using routed_ranking [OF built assms(2,4,5,3)] rules by metis
qed

theorem seeded_rules_restrict_witness:
  "\<exists>bs rs. buildProviderBackends (\<lambda>evs s :: rstate. []) idle_upstream default_config = Inr (bs :: (unit, unit) backend list) \<and>
     applyRouteRules bs (DesiredRouteRuleSeeds (cf_provider default_config)) = Inr (rs, True) \<and>
     map be_name rs = [''primary'', ''secondary'']"
proof -
  obtain bs where bs: "buildProviderBackends (\<lambda>evs s :: rstate. []) idle_upstream default_config =
      Inr (bs :: (unit, unit) backend list)"
    using default_config_builds by blast
  then obtain mp ms where eq: "bs = [default_mock_backend (\<lambda>evs s. []) ''primary'' 100 mp,
      default_mock_backend (\<lambda>evs s. []) ''secondary'' 200 ms]"
    by (rule default_backends_built [OF refl])
  have m: "normal_model ''m'' = ''m''" "fold_key ''m'' = ''m''" unfolding normal_model_def by code_simp+
  from seeded_rules_restrict [OF bs, of "''m''"] m eq bs show ?thesis by (auto simp: max_int_def)
qed

end
