(* ===== verification/ProcessProperties.thy ===== *)
theory ProcessProperties
  imports ProcessFacts GatewayProperties
begin

text \<open>
  The properties of the gateway process as a whole: an app that \<open>mustBuildGatewayApp\<close> makes from a
  configuration, and the handler of the server that \<open>newGatewayServer\<close> makes of it. At the end a process
  on which their hypotheses hold.
\<close>



section \<open>A process to try them on\<close>

definition silent_net :: "(nat \<times> time) upstream" where
  "silent_net =
     \<lparr>env_do = (\<lambda>dl rq n. (Inl (NewErr ''down''), n)), env_ctx_err = (\<lambda>dl n. None),
      env_wait = (\<lambda>dl d n. (None, n)), env_offer = (\<lambda>n. (None, n)), env_now = snd\<rparr>"

lemma default_address: "rs_address (cf_redis default_config) = []"
  by (simp add: default_config_def)

lemma shop_rules: "route_rules (gw_db shop_gw) = []" "route_rules shop_db = []"
  by (simp_all add: shop_db_def empty_db_def)

lemma shop_wf: "wf_db (gw_db (hx_world shop_state))"
  by (simp add: wf_db_def wf_rows_def) (simp add: shop_db_def empty_db_def)

lemma shop_app:
  obtains app w' where "mustBuildGatewayApp (\<lambda>evs s. []) silent_net id default_config shop_gw = (Inr app, w')"
    and "ga_governance app = \<lparr>gs_store = mysql_store, gs_limiter = Some mysql_limiter, gs_now = process_now\<rparr>"
proof -
  obtain bs :: "(rest, gw attempt_handle) backend list"
    where bs: "buildProviderBackends (\<lambda>evs s. []) (upstream_of silent_net) default_config = Inr bs"
    using default_config_builds by blast
  have "on_db (mustLoadProviderBackends (\<lambda>evs s. []) (upstream_of silent_net) id default_config) shop_gw = (Inr bs, shop_gw)"
    using bs shop_rules
    by (simp add: mustLoadProviderBackends_def on_db_def ListRouteRules_def tableExists_def bindS_def
        select_rules_def applyRouteRules_def)
  then have "mustBuildGatewayApp (\<lambda>evs s. []) silent_net id default_config shop_gw =
      (Inr \<lparr>ga_auth = (\<lambda>h. on_db (LookupAPIKey id h)),
        ga_governance = \<lparr>gs_store = mysql_store, gs_limiter = Some mysql_limiter, gs_now = process_now\<rparr>,
        ga_usage = mysql_usage_reader,
        ga_chat = process_chat_service (gateway_chat_service default_config (gateway_router default_config bs)),
        ga_models = map process_model_source (collectModelSources bs),
        ga_provider = gateway_router default_config bs\<rparr>, shop_gw)"
    by (simp add: mustBuildGatewayApp_def gateway_app_of_def buildLimiter_def default_address Let_def)
  then show thesis by (rule that) simp
qed

definition calm :: "gw \<times> gw request_tracker \<Rightarrow> err option \<times> gw \<times> gw request_tracker" where
  "calm wt = (None, wt)"

lemma calm_reads: "reads_only calm"
  by (simp add: reads_only_def calm_def)

abbreviation shop_server :: "gateway_app \<Rightarrow> gw router_dependencies" where
  "shop_server app \<equiv> newGatewayServer calm default_config app shop_gw"

lemma shop_server_decodes:
  "and_then (read_body (limited_request (shop_server app) (shop_request ''bearer   key '')))
     (decode_struct dec_completion_request) = Inr shop_completion_request"
proof -
  have "and_then (read_body (shop_request ''bearer   key ''\<lparr>hq_body_limit := Some 1048576\<rparr>))
      (decode_struct dec_completion_request) = Inr shop_completion_request"
    unfolding shop_completion_request_def by code_simp
  moreover have "rd_max_body (shop_server app) = 1048576"
    by (simp add: newGatewayServer_def default_config_def)
  ultimately show ?thesis by (simp add: limited_request_def)
qed



end
