(* ===== verification/Float64.thy ===== *)
theory Float64
  imports Flags
begin

text \<open>
  Go's \<open>float64\<close> as the commands under \<open>cmd\<close> use it: conversion from integers, comparison, multiplication and
  division with IEEE 754 rounding to nearest and ties to even, and the text forms of \<open>strconv\<close> and \<open>fmt\<close>. A finite
  number \<open>Fin neg m e\<close> is \<open>m * 2 ^ e\<close> with its sign; \<open>e\<close> is at least -1074 and \<open>m\<close> has at most 53 bits, with the
  highest one set when \<open>e\<close> is above -1074, so that a number has one form.
\<close>

datatype f64 = NaN | Infinite bool | Fin bool int int

section \<open>Rounding\<close>

text \<open>The position of the highest bit of a positive number.\<close>

function log2_floor :: "int \<Rightarrow> int" where
  "log2_floor n = (if n < 2 then 0 else 1 + log2_floor (n div 2))"
  by pat_completeness auto
termination
  by (relation "measure nat") auto

declare log2_floor.simps [simp del]

text \<open>The integer nearest to a fraction, the even one of two.\<close>

definition round_half_even :: "int \<Rightarrow> int \<Rightarrow> int" where
  "round_half_even a b =
     (let q = a div b; r = a mod b in
      if 2 * r < b then q else if b < 2 * r then q + 1 else if even q then q else q + 1)"

text \<open>A fraction divided by a power of a base.\<close>

definition over_power :: "int \<Rightarrow> int \<Rightarrow> int \<times> int \<Rightarrow> int \<times> int" where
  "over_power base k ab = (let (a, b) = ab in if 0 \<le> k then (a, b * base ^ nat k) else (a * base ^ nat (- k), b))"

text \<open>The largest \<open>k\<close> with \<open>2 ^ k \<le> a / b\<close>.\<close>

definition exponent_of :: "int \<Rightarrow> int \<Rightarrow> int" where
  "exponent_of a b =
     (let k = log2_floor a - log2_floor b; (a', b') = over_power 2 k (a, b) in if b' \<le> a' then k else k - 1)"

text \<open>The \<open>float64\<close> nearest to \<open>a / b\<close>, for \<open>0 \<le> a\<close> and \<open>0 < b\<close>.\<close>

definition round_f64 :: "bool \<Rightarrow> int \<Rightarrow> int \<Rightarrow> f64" where
  "round_f64 neg a b =
     (if a = 0 then Fin neg 0 (- 1074)
      else
        let e = max (exponent_of a b - 52) (- 1074);
            (a', b') = over_power 2 e (a, b);
            m = round_half_even a' b';
            (m, e) = (if m = 2 ^ 53 then (2 ^ 52, e + 1) else (m, e))
        in if 971 < e then Infinite neg else Fin neg m e)"

section \<open>Arithmetic\<close>

definition f64_of_int :: "int \<Rightarrow> f64" where
  "f64_of_int n = round_f64 (n < 0) \<bar>n\<bar> 1"

definition fin_mult :: "bool \<Rightarrow> int \<Rightarrow> int \<Rightarrow> f64" where
  "fin_mult neg m e = (let (a, b) = over_power 2 (- e) (m, 1) in round_f64 neg a b)"

definition f64_div :: "f64 \<Rightarrow> f64 \<Rightarrow> f64" where
  "f64_div x y =
     (case (x, y) of
        (Fin s m e, Fin t n f) \<Rightarrow>
          if n = 0 then (if m = 0 then NaN else Infinite (s \<noteq> t))
          else let (a, b) = over_power 2 (f - e) (m, n) in round_f64 (s \<noteq> t) a b
      | (Infinite s, Fin t n f) \<Rightarrow> Infinite (s \<noteq> t)
      | (Fin s m e, Infinite t) \<Rightarrow> Fin (s \<noteq> t) 0 (- 1074)
      | _ \<Rightarrow> NaN)"

definition f64_mul :: "f64 \<Rightarrow> f64 \<Rightarrow> f64" where
  "f64_mul x y =
     (case (x, y) of
        (Fin s m e, Fin t n f) \<Rightarrow> fin_mult (s \<noteq> t) (m * n) (e + f)
      | (Infinite s, Fin t n f) \<Rightarrow> if n = 0 then NaN else Infinite (s \<noteq> t)
      | (Fin s m e, Infinite t) \<Rightarrow> if m = 0 then NaN else Infinite (s \<noteq> t)
      | (Infinite s, Infinite t) \<Rightarrow> Infinite (s \<noteq> t)
      | _ \<Rightarrow> NaN)"

text \<open>A finite number as a multiple of \<open>2 ^ -1074\<close>.\<close>

definition fin_units :: "bool \<Rightarrow> int \<Rightarrow> int \<Rightarrow> int" where
  "fin_units neg m e = (if neg then - 1 else 1) * m * 2 ^ nat (e + 1074)"

fun f64_less :: "f64 \<Rightarrow> f64 \<Rightarrow> bool" where
  "f64_less (Fin s m e) (Fin t n f) \<longleftrightarrow> fin_units s m e < fin_units t n f"
| "f64_less (Infinite s) (Infinite t) \<longleftrightarrow> s \<and> \<not> t"
| "f64_less (Infinite s) (Fin t n f) \<longleftrightarrow> s"
| "f64_less (Fin s m e) (Infinite t) \<longleftrightarrow> \<not> t"
| "f64_less _ _ \<longleftrightarrow> False"

fun f64_eq :: "f64 \<Rightarrow> f64 \<Rightarrow> bool" where
  "f64_eq (Fin s m e) (Fin t n f) \<longleftrightarrow> fin_units s m e = fin_units t n f"
| "f64_eq (Infinite s) (Infinite t) \<longleftrightarrow> s = t"
| "f64_eq _ _ \<longleftrightarrow> False"

definition f64_le :: "f64 \<Rightarrow> f64 \<Rightarrow> bool" where
  "f64_le x y \<longleftrightarrow> f64_less x y \<or> f64_eq x y"

text \<open>The integer part.\<close>

fun f64_trunc :: "f64 \<Rightarrow> int" where
  "f64_trunc (Fin s m e) =
     (let (a, b) = over_power 2 (- e) (m, 1) in if s then - (a div b) else a div b)"
| "f64_trunc _ = 0"

section \<open>Reading\<close>

text \<open>
  \<open>readFloat\<close> of \<open>strconv\<close>: the digits of the mantissa with an optional point, then the exponent. The scan gives
  the value of the digits, how many of them follow the point, whether there were any, and the rest.
\<close>

fun scan_mantissa :: "int \<Rightarrow> bool \<Rightarrow> int \<Rightarrow> int \<Rightarrow> bool \<Rightarrow> string \<Rightarrow> int \<times> int \<times> bool \<times> string" where
  "scan_mantissa base dot v frac any [] = (v, frac, any, [])"
| "scan_mantissa base dot v frac any (c # s) =
     (if c = CHR ''_'' then scan_mantissa base dot v frac any s
      else if c = CHR ''.'' then (if dot then (v, frac, any, c # s) else scan_mantissa base True v frac any s)
      else case alnum_val c of
        None \<Rightarrow> (v, frac, any, c # s)
      | Some d \<Rightarrow>
          if base \<le> d then (v, frac, any, c # s)
          else scan_mantissa base dot (base * v + d) (if dot then frac + 1 else frac) True s)"

fun scan_exponent_digits :: "int \<Rightarrow> string \<Rightarrow> int \<times> string" where
  "scan_exponent_digits e [] = (e, [])"
| "scan_exponent_digits e (c # s) =
     (if c = CHR ''_'' then scan_exponent_digits e s
      else if is_digit c then scan_exponent_digits (if e < 10000 then 10 * e + digit_val c else e) s
      else (e, c # s))"

definition scan_signed_exponent :: "string \<Rightarrow> (int \<times> string) option" where
  "scan_signed_exponent s =
     (let (neg, s) = (case s of [] \<Rightarrow> (False, s)
            | c # r \<Rightarrow> if c = CHR ''-'' then (True, r) else if c = CHR ''+'' then (False, r) else (False, s))
      in if s = [] \<or> \<not> is_digit (hd s) then None
         else let (e, r) = scan_exponent_digits 0 s in Some (if neg then - e else e, r))"

definition rational_f64 :: "bool \<Rightarrow> int \<Rightarrow> int \<Rightarrow> int \<Rightarrow> f64" where
  "rational_f64 neg v base e =
     (if 0 \<le> e then round_f64 neg (v * base ^ nat e) 1 else round_f64 neg v (base ^ nat (- e)))"

definition strip_sign :: "string \<Rightarrow> bool \<times> string" where
  "strip_sign s =
     (case s of [] \<Rightarrow> (False, s)
      | c # r \<Rightarrow> if c = CHR ''-'' then (True, r) else if c = CHR ''+'' then (False, r) else (False, s))"

definition special_float :: "string \<Rightarrow> f64 option" where
  "special_float s =
     (let (neg, u) = strip_sign s in
      if to_lower u \<in> {''inf'', ''infinity''} then Some (Infinite neg)
      else if to_lower s = ''nan'' then Some NaN
      else None)"

definition ParseFloat :: "string \<Rightarrow> int_error + f64" where
  "ParseFloat s =
     (case special_float s of
        Some x \<Rightarrow> Inr x
      | None \<Rightarrow>
          let (neg, u) = strip_sign s;
              hex = (case u of a # b # r \<Rightarrow> a = CHR ''0'' \<and> lower_char b = CHR ''x'' | _ \<Rightarrow> False);
              (v, frac, any, rest) = scan_mantissa (if hex then 16 else 10) False 0 0 False (if hex then drop 2 u else u);
              ends = (case rest of
                  [] \<Rightarrow> if hex then None else Some (0, [])
                | c # r \<Rightarrow> if lower_char c = (if hex then CHR ''p'' else CHR ''e'') then scan_signed_exponent r
                          else if hex then None else Some (0, rest))
          in if \<not> any then Inl ParseError
             else case ends of
               None \<Rightarrow> Inl ParseError
             | Some (e, rest) \<Rightarrow>
                 if rest \<noteq> [] \<or> CHR ''_'' \<in> set s \<and> \<not> underscoreOK u then Inl ParseError
                 else
                   let x = (if hex then rational_f64 neg v 2 (e - 4 * frac) else rational_f64 neg v 10 (e - frac))
                   in case x of Infinite _ \<Rightarrow> Inl RangeError | _ \<Rightarrow> Inr x)"

definition Float64Var :: "(f64 \<Rightarrow> 's \<Rightarrow> 's) \<Rightarrow> 's flag" where
  "Float64Var f = ValueFlag (\<lambda>v st.
     case ParseFloat v of
       Inr x \<Rightarrow> Inr (f x st)
     | Inl ParseError \<Rightarrow> Inl ''parse error''
     | Inl RangeError \<Rightarrow> Inl ''value out of range'')"

section \<open>Printing\<close>

text \<open>\<open>%.3f\<close>, and \<open>%g\<close> with the fewest digits that are read back as the number.\<close>

definition sign_text :: "bool \<Rightarrow> string" where
  "sign_text neg = (if neg then ''-'' else [])"

definition fixed3_text :: "f64 \<Rightarrow> string" where
  "fixed3_text x =
     (case x of
        NaN \<Rightarrow> ''NaN''
      | Infinite s \<Rightarrow> (if s then ''-Inf'' else ''+Inf'')
      | Fin s m e \<Rightarrow>
          let (a, b) = over_power 2 (- e) (m * 1000, 1); n = round_half_even a b;
              f = n mod 1000
          in sign_text s @ itoa (n div 1000) @ ''.'' @
             [digit_char (f div 100), digit_char (f div 10 mod 10), digit_char (f mod 10)])"

text \<open>The largest \<open>k\<close> with \<open>10 ^ k \<le> a / b\<close>, for positive numbers, counted from a lower bound.\<close>

fun log10_from :: "nat \<Rightarrow> int \<Rightarrow> int \<Rightarrow> int \<Rightarrow> int" where
  "log10_from 0 k a b = k"
| "log10_from (Suc fuel) k a b =
     (let (a', b') = over_power 10 (k + 1) (a, b) in if b' \<le> a' then log10_from fuel (k + 1) a b else k)"

text \<open>
  The decimal with \<open>n\<close> digits that is nearest to \<open>a / b\<close> among those that are read back as \<open>x\<close>: its digits as a
  number, and the power of ten of the last one. \<open>k\<close> is the power of ten of the first.
\<close>

definition decimal_with :: "f64 \<Rightarrow> bool \<Rightarrow> int \<Rightarrow> int \<Rightarrow> int \<Rightarrow> int \<Rightarrow> (int \<times> int) option" where
  "decimal_with x s a b k n =
     (let p = k - n + 1; (a', b') = over_power 10 p (a, b);
          low = a' div b'; near = round_half_even a' b'; up = low + 1;
          reads = (\<lambda>d. rational_f64 s d 10 p = x)
      in if reads low \<and> reads up then Some (near, p)
         else if reads low then Some (low, p)
         else if reads up then Some (up, p)
         else None)"

fun shortest_from :: "nat \<Rightarrow> f64 \<Rightarrow> bool \<Rightarrow> int \<Rightarrow> int \<Rightarrow> int \<Rightarrow> int \<Rightarrow> int \<times> int" where
  "shortest_from 0 x s a b k n = (a div b, 0)"
| "shortest_from (Suc fuel) x s a b k n =
     (case decimal_with x s a b k n of Some r \<Rightarrow> r | None \<Rightarrow> shortest_from fuel x s a b k (n + 1))"

text \<open>Digits \<open>ds\<close> with the point after the first \<open>dp\<close> of them.\<close>

definition general_text :: "string \<Rightarrow> int \<Rightarrow> string" where
  "general_text ds dp =
     (let e = dp - 1 in
      if e < - 4 \<or> 6 \<le> e
      then take 1 ds @ (if length ds \<le> 1 then [] else CHR ''.'' # drop 1 ds) @ ''e'' @
           (if e < 0 then ''-'' else ''+'') @ (if \<bar>e\<bar> < 10 then ''0'' else []) @ digits_of \<bar>e\<bar>
      else if dp \<le> 0 then ''0.'' @ replicate (nat (- dp)) CHR ''0'' @ ds
      else if int (length ds) \<le> dp then ds @ replicate (nat dp - length ds) CHR ''0''
      else take (nat dp) ds @ ''.'' @ drop (nat dp) ds)"

text \<open>17 digits are enough for every number, and 10 to the power of -324 is below all of them.\<close>

definition shortest_text :: "f64 \<Rightarrow> string" where
  "shortest_text x =
     (case x of
        NaN \<Rightarrow> ''NaN''
      | Infinite s \<Rightarrow> (if s then ''-Inf'' else ''+Inf'')
      | Fin s m e \<Rightarrow>
          sign_text s @
          (if m = 0 then ''0''
           else
             let (a, b) = over_power 2 (- e) (m, 1);
                 (d, p) = shortest_from 17 x s a b (log10_from 640 (- 324) a b) 1;
                 ds = digits_of d
             in general_text (trim_right_char CHR ''0'' ds) (int (length ds) + p)))"

end
