(* ===== verification/Durations.thy ===== *)
theory Durations
  imports Float64 Http
begin

text \<open>
  \<open>Duration.String\<close> and \<open>time.ParseDuration\<close> of the standard library, and the flags of that type. The fraction
  in a parsed duration is computed in \<open>float64\<close>, as there.
\<close>

section \<open>Printing\<close>

text \<open>The last \<open>prec\<close> digits of a number behind a point, without the zeros at the end.\<close>

definition fraction_text :: "nat \<Rightarrow> int \<Rightarrow> string" where
  "fraction_text prec v =
     (let ds = trim_right_char CHR ''0'' (digits_fixed prec v) in if ds = [] then [] else CHR ''.'' # ds)"

definition micro_sign :: string where
  "micro_sign = [CHR 0xC2, CHR 0xB5]"

definition duration_text :: "duration \<Rightarrow> string" where
  "duration_text d =
     (let u = \<bar>d\<bar> in
      if u = 0 then ''0s''
      else
        sign_text (d < 0) @
        (if u < 1000 then itoa u @ ''ns''
         else if u < millisecond then itoa (u div 1000) @ fraction_text 3 u @ micro_sign @ ''s''
         else if u < second then itoa (u div millisecond) @ fraction_text 6 u @ ''ms''
         else
           let s = u div second; m = s div 60; h = m div 60
           in (if h = 0 then [] else itoa h @ ''h'') @ (if m = 0 then [] else itoa (m mod 60) @ ''m'') @
              itoa (s mod 60) @ fraction_text 9 u @ ''s''))"

text \<open>\<open>Time.Format\<close> with the layout \<open>RFC3339\<close>.\<close>

definition format_rfc3339 :: "time \<Rightarrow> string" where
  "format_rfc3339 t = format_time (t div second * second)"

section \<open>Parsing\<close>

definition duration_unit :: "string \<Rightarrow> int option" where
  "duration_unit u =
     map_of [(''ns'', 1), (''us'', 1000), (micro_sign @ ''s'', 1000), ([CHR 0xCE, CHR 0xBC] @ ''s'', 1000),
       (''ms'', millisecond), (''s'', second), (''m'', minute), (''h'', 60 * minute)] u"

text \<open>\<open>leadingInt\<close>; \<open>None\<close> is its overflow.\<close>

fun leadingInt :: "int \<Rightarrow> string \<Rightarrow> (int \<times> string) option" where
  "leadingInt x [] = Some (x, [])"
| "leadingInt x (c # s) =
     (if \<not> is_digit c then Some (x, c # s)
      else if 2 ^ 63 div 10 < x then None
      else let x' = 10 * x + digit_val c in if 2 ^ 63 < x' then None else leadingInt x' s)"

text \<open>\<open>leadingFraction\<close>: digits that do not fit any more are passed over.\<close>

fun leadingFraction :: "bool \<Rightarrow> int \<Rightarrow> f64 \<Rightarrow> string \<Rightarrow> int \<times> f64 \<times> string" where
  "leadingFraction overflow x scale [] = (x, scale, [])"
| "leadingFraction overflow x scale (c # s) =
     (if \<not> is_digit c then (x, scale, c # s)
      else if overflow then leadingFraction overflow x scale s
      else if max_int div 10 < x then leadingFraction True x scale s
      else let y = 10 * x + digit_val c in
        if 2 ^ 63 < y then leadingFraction True x scale s
        else leadingFraction overflow y (f64_mul scale (f64_of_int 10)) s)"

definition duration_digit :: "char \<Rightarrow> bool" where
  "duration_digit c \<longleftrightarrow> c = CHR ''.'' \<or> is_digit c"

text \<open>The digits behind a point: their value, the power of ten, the text behind them and whether there were any.\<close>

definition duration_fraction :: "string \<Rightarrow> int \<times> f64 \<times> string \<times> bool" where
  "duration_fraction s =
     (if s \<noteq> [] \<and> hd s = CHR ''.''
      then let (f, k, r) = leadingFraction False 0 (f64_of_int 1) (tl s) in (f, k, r, length r \<noteq> length (tl s))
      else (0, f64_of_int 1, s, False))"

definition with_fraction :: "int \<Rightarrow> int \<Rightarrow> f64 \<Rightarrow> int \<Rightarrow> int" where
  "with_fraction v f k n =
     (if 0 < f then v + f64_trunc (f64_mul (f64_of_int f) (f64_div (f64_of_int n) k)) else v)"

text \<open>One number with its unit, and the text behind it.\<close>

definition duration_part :: "string \<Rightarrow> (int \<times> string) option" where
  "duration_part s =
     (if s = [] \<or> \<not> duration_digit (hd s) then None
      else
        (case leadingInt 0 s of
           None \<Rightarrow> None
         | Some (v, s1) \<Rightarrow>
             (case duration_fraction s1 of (f, k, s2, post) \<Rightarrow>
                if length s1 = length s \<and> \<not> post then None
                else
                  (case duration_unit (takeWhile (\<lambda>c. \<not> duration_digit c) s2) of
                     None \<Rightarrow> None
                   | Some n \<Rightarrow>
                       if 2 ^ 63 div n < v \<or> 2 ^ 63 < with_fraction (v * n) f k n then None
                       else Some (with_fraction (v * n) f k n, dropWhile (\<lambda>c. \<not> duration_digit c) s2)))))"

text \<open>
  The sum is a \<open>uint64\<close>. Each part takes a character at least, so the length of the text is enough fuel.
\<close>

fun duration_parts :: "nat \<Rightarrow> int \<Rightarrow> string \<Rightarrow> int option" where
  "duration_parts fuel d [] = Some d"
| "duration_parts 0 d (c # s) = None"
| "duration_parts (Suc fuel) d (c # s) =
     (case duration_part (c # s) of
        None \<Rightarrow> None
      | Some (v, rest) \<Rightarrow>
          (let d = (d + v) mod 2 ^ 64 in if 2 ^ 63 < d then None else duration_parts fuel d rest))"

definition ParseDuration :: "string \<Rightarrow> duration option" where
  "ParseDuration s =
     (let (neg, u) = strip_sign s in
      if u = ''0'' then Some 0
      else if u = [] then None
      else
        (case duration_parts (length u) 0 u of
           None \<Rightarrow> None
         | Some d \<Rightarrow> if neg then Some (- d) else if max_int < d then None else Some d))"

definition DurationVar :: "(duration \<Rightarrow> 's \<Rightarrow> 's) \<Rightarrow> 's flag" where
  "DurationVar f = ValueFlag (\<lambda>v st. case ParseDuration v of Some d \<Rightarrow> Inr (f d st) | None \<Rightarrow> Inl ''parse error'')"

section \<open>Lemmas\<close>

lemma leadingInt_length: "leadingInt x s = Some (v, r) \<Longrightarrow> length r \<le> length s"
  by (induction x s rule: leadingInt.induct) (auto simp: Let_def split: if_splits)

lemma leadingFraction_length: "leadingFraction ov x k s = (f, k', r) \<Longrightarrow> length r \<le> length s"
  by (induction ov x k s rule: leadingFraction.induct) (auto simp: Let_def split: if_splits)

text \<open>So the fuel decides nothing: every part is shorter than the text it was taken from.\<close>

lemma duration_fraction_length:
  "duration_fraction s = (f, k, r, post) \<Longrightarrow> length r \<le> length s \<and> (post \<longrightarrow> length r < length s)"
  by (cases s)
    (auto simp: duration_fraction_def Let_def split: if_splits prod.splits dest!: leadingFraction_length)

lemma duration_part_shorter:
  assumes "duration_part s = Some (v, rest)"
  shows "length rest < length s"
proof -
  obtain w s1 where w: "leadingInt 0 s = Some (w, s1)"
    using assms by (auto simp: duration_part_def split: if_splits option.splits)
  obtain f k s2 post where p: "duration_fraction s1 = (f, k, s2, post)" by (metis prod_cases4)
  have r: "rest = dropWhile (\<lambda>c. \<not> duration_digit c) s2" "length s1 \<noteq> length s \<or> post"
    using assms by (auto simp: duration_part_def w p split: if_splits option.splits)
  have "length rest \<le> length s2" unfolding r(1) by (rule length_dropWhile_le)
  then show ?thesis using leadingInt_length [OF w] duration_fraction_length [OF p] r(2) by linarith
qed

lemma duration_parts_fuel:
  "length s \<le> n \<Longrightarrow> length s \<le> k \<Longrightarrow> duration_parts n d s = duration_parts k d s"
proof (induction n d s arbitrary: k rule: duration_parts.induct)
  case (3 fuel d c s)
  then obtain k' where k: "k = Suc k'" by (cases k) auto
  show ?case
  proof (cases "duration_part (c # s)")
    case (Some q)
    then obtain v rest where q: "duration_part (c # s) = Some (v, rest)" by (cases q) auto
    from duration_part_shorter [OF q] 3 q k show ?thesis by (auto simp: Let_def)
  qed (use k in simp)
qed auto

end
