(* ===== verification/Tracing.thy ===== *)
theory Tracing
  imports Durations
begin

text \<open>
  The logger of \<open>third_party/zap\<close> and the spans of \<open>internal/obs/tracing/tracing.go\<close>. A span takes its identifier
  from a counter of the process, hands its own and its trace's identifier on in the context, and ends with a
  line in the log and with calls of the OpenTelemetry API, which is a parameter.
\<close>

section \<open>zap\<close>

text \<open>The dynamic types a field's value can have; \<open>AnyOther\<close> is what \<open>fmt.Sprint\<close> gives of another one.\<close>

datatype any_value =
    AnyString string | AnyInt int | AnyInt64 int | AnyUint64 u64 | AnyBool bool | AnyFloat64 f64
  | AnyDuration duration | AnyError err | AnyOther string

type_synonym zap_field = "string \<times> any_value"

fun fmt_Sprint :: "any_value \<Rightarrow> string" where
  "fmt_Sprint (AnyString s) = s"
| "fmt_Sprint (AnyInt n) = itoa n"
| "fmt_Sprint (AnyInt64 n) = itoa n"
| "fmt_Sprint (AnyUint64 u) = itoa (uint u)"
| "fmt_Sprint (AnyBool b) = (if b then ''true'' else ''false'')"
| "fmt_Sprint (AnyFloat64 x) = shortest_text x"
| "fmt_Sprint (AnyDuration d) = duration_text d"
| "fmt_Sprint (AnyError e) = err_text e"
| "fmt_Sprint (AnyOther s) = s"

definition zap_String :: "string \<Rightarrow> string \<Rightarrow> zap_field" where
  "zap_String key v = (key, AnyString v)"

definition zap_Int :: "string \<Rightarrow> int \<Rightarrow> zap_field" where
  "zap_Int key v = (key, AnyInt v)"

definition zap_Duration :: "string \<Rightarrow> duration \<Rightarrow> zap_field" where
  "zap_Duration key v = (key, AnyDuration v)"

definition zap_Error :: "err \<Rightarrow> zap_field" where
  "zap_Error e = (''error'', AnyError e)"

text \<open>
  A logger writes to standard error or, \<open>NewNop\<close>, nowhere. The lines are kept without the date and the time
  that \<open>log.LstdFlags\<close> puts in front.
\<close>

record zap_logger =
  zl_discard :: bool
  zl_level :: string

definition zap_Build :: "string \<Rightarrow> zap_logger" where
  "zap_Build level = \<lparr>zl_discard = False, zl_level = to_lower level\<rparr>"

definition zap_NewNop :: zap_logger where
  "zap_NewNop = \<lparr>zl_discard = True, zl_level = ''info''\<rparr>"

definition log_line :: "string \<Rightarrow> string \<Rightarrow> zap_field list \<Rightarrow> string" where
  "log_line level msg fs = level @ '' '' @ msg @ concat (map (\<lambda>(k, v). '' '' @ k @ ''='' @ fmt_Sprint v) fs)"

definition logger_log :: "zap_logger option \<Rightarrow> string \<Rightarrow> string \<Rightarrow> zap_field list \<Rightarrow> string list \<Rightarrow> string list" where
  "logger_log l level msg fs out =
     (case l of
        None \<Rightarrow> out
      | Some l \<Rightarrow> if zl_discard l then out else out @ [log_line level msg fs])"

definition logger_Info :: "zap_logger option \<Rightarrow> string \<Rightarrow> zap_field list \<Rightarrow> string list \<Rightarrow> string list" where
  "logger_Info l = logger_log l ''INFO''"

definition logger_Error :: "zap_logger option \<Rightarrow> string \<Rightarrow> zap_field list \<Rightarrow> string list \<Rightarrow> string list" where
  "logger_Error l = logger_log l ''ERROR''"

text \<open>\<open>Fatal\<close> ends the process: its exit status beside the lines.\<close>

definition logger_Fatal :: "zap_logger option \<Rightarrow> string \<Rightarrow> zap_field list \<Rightarrow> string list \<Rightarrow> int \<times> string list" where
  "logger_Fatal l msg fs out = (1, logger_log l ''FATAL'' msg fs out)"

section \<open>Attributes\<close>

datatype attribute_value = AttrString string | AttrInt int | AttrInt64 int | AttrBool bool | AttrFloat64 f64

type_synonym attribute = "string \<times> attribute_value"

definition baseSpanAttributes :: "string \<Rightarrow> string \<Rightarrow> string \<Rightarrow> string \<Rightarrow> string \<Rightarrow> attribute list" where
  "baseSpanAttributes name traceID spanID parentSpanID requestID =
     [(''lag.trace_id'', AttrString traceID), (''lag.span_id'', AttrString spanID),
      (''lag.parent_span_id'', AttrString parentSpanID), (''lag.request_id'', AttrString requestID),
      (''lag.span_name'', AttrString name)]"

text \<open>The conversion of a \<open>uint64\<close> to \<open>int64\<close> reads the same bits.\<close>

fun attribute_of :: "string \<Rightarrow> any_value \<Rightarrow> attribute" where
  "attribute_of key (AnyString s) = (key, AttrString s)"
| "attribute_of key (AnyInt n) = (key, AttrInt n)"
| "attribute_of key (AnyInt64 n) = (key, AttrInt64 n)"
| "attribute_of key (AnyUint64 u) = (key, AttrInt64 (sint u))"
| "attribute_of key (AnyBool b) = (key, AttrBool b)"
| "attribute_of key (AnyFloat64 x) = (key, AttrFloat64 x)"
| "attribute_of key (AnyDuration d) = (key @ ''_ms'', AttrInt64 (milliseconds d))"
| "attribute_of key (AnyError e) = (key, AttrString (err_text e))"
| "attribute_of key (AnyOther s) = (key, AttrString s)"

definition zapFieldsToAttributes :: "zap_field list \<Rightarrow> attribute list" where
  "zapFieldsToAttributes fs =
     concat (map (\<lambda>(k, v). let key = trim_space k in if key = [] then [] else [attribute_of (''lag.'' @ key) v]) fs)"

section \<open>The OpenTelemetry API\<close>

datatype span_kind = SpanKindServer | SpanKindInternal

datatype span_status = StatusOk | StatusError string

text \<open>\<open>'c\<close> is what a context holds for the API, \<open>'o\<close> its span and \<open>'w\<close> its state.\<close>

record ('c, 'o, 'w) otel =
  ot_start :: "string \<Rightarrow> span_kind \<Rightarrow> time \<Rightarrow> attribute list \<Rightarrow> 'c \<Rightarrow> 'w \<Rightarrow> ('c \<times> 'o) \<times> 'w"
  ot_set_attributes :: "'o \<Rightarrow> attribute list \<Rightarrow> 'w \<Rightarrow> 'w"
  ot_record_error :: "'o \<Rightarrow> err \<Rightarrow> 'w \<Rightarrow> 'w"
  ot_set_status :: "'o \<Rightarrow> span_status \<Rightarrow> 'w \<Rightarrow> 'w"
  ot_end :: "'o \<Rightarrow> time \<Rightarrow> 'w \<Rightarrow> 'w"

section \<open>Spans\<close>

record span_context =
  sc_trace_id :: string
  sc_span_id :: string
  sc_request_id :: string
  sc_logger :: "zap_logger option"

record 'o span =
  sp_logger :: "zap_logger option"
  sp_name :: string
  sp_trace_id :: string
  sp_span_id :: string
  sp_parent_span_id :: string
  sp_request_id :: string
  sp_started_at :: time
  sp_fields :: "zap_field list"
  sp_otel :: "'o option"

text \<open>A context: the value under \<open>traceContextKey\<close> and what the API keeps in it.\<close>

type_synonym 'c trace_ctx = "span_context option \<times> 'c"

record 'w trace_state =
  ts_span_counter :: u64
  ts_clock :: time
  ts_stderr :: "string list"
  ts_otel :: 'w

fun hex_fixed :: "nat \<Rightarrow> int \<Rightarrow> string" where
  "hex_fixed 0 n = []"
| "hex_fixed (Suc k) n = hex_fixed k (n div 16) @ [hex_digit (n mod 16)]"

text \<open>\<open>%016x\<close> of the incremented counter, which has 64 bits.\<close>

definition nextID :: "'w trace_state \<Rightarrow> string \<times> 'w trace_state" where
  "nextID s =
     (let n = ts_span_counter s + 1 in (hex_fixed 16 (uint n), s\<lparr>ts_span_counter := n\<rparr>))"

definition contextFrom :: "'c trace_ctx \<Rightarrow> span_context option" where
  "contextFrom ctx = fst ctx"

definition TraceIDFromContext :: "'c trace_ctx \<Rightarrow> string" where
  "TraceIDFromContext ctx = (case contextFrom ctx of None \<Rightarrow> [] | Some c \<Rightarrow> sc_trace_id c)"

definition SpanIDFromContext :: "'c trace_ctx \<Rightarrow> string" where
  "SpanIDFromContext ctx = (case contextFrom ctx of None \<Rightarrow> [] | Some c \<Rightarrow> sc_span_id c)"

definition logger_or_nop :: "zap_logger option \<Rightarrow> zap_logger option" where
  "logger_or_nop l = (case l of None \<Rightarrow> Some zap_NewNop | Some l \<Rightarrow> Some l)"

definition StartRequestSpan ::
    "('c, 'o, 'w) otel \<Rightarrow> 'c trace_ctx \<Rightarrow> zap_logger option \<Rightarrow> string \<Rightarrow> string \<Rightarrow> zap_field list \<Rightarrow> 'w trace_state \<Rightarrow>
     ('c trace_ctx \<times> 'o span) \<times> 'w trace_state" where
  "StartRequestSpan api ctx logger requestID name fs s =
     (let logger = logger_or_nop logger;
          (traceID, s) = (if requestID = [] then nextID s else (requestID, s));
          (spanID, s) = nextID s;
          startedAt = ts_clock s;
          ((c, otelSpan), w) = ot_start api name SpanKindServer startedAt
             (baseSpanAttributes name traceID spanID [] requestID @ zapFieldsToAttributes fs) (snd ctx) (ts_otel s)
      in (((Some \<lparr>sc_trace_id = traceID, sc_span_id = spanID, sc_request_id = requestID, sc_logger = logger\<rparr>, c),
           \<lparr>sp_logger = logger, sp_name = name, sp_trace_id = traceID, sp_span_id = spanID,
            sp_parent_span_id = [], sp_request_id = requestID, sp_started_at = startedAt, sp_fields = fs,
            sp_otel = Some otelSpan\<rparr>),
          s\<lparr>ts_otel := w\<rparr>))"

definition noopSpan :: "string \<Rightarrow> 'w trace_state \<Rightarrow> 'o span" where
  "noopSpan name s =
     \<lparr>sp_logger = Some zap_NewNop, sp_name = name, sp_trace_id = [], sp_span_id = [], sp_parent_span_id = [],
      sp_request_id = [], sp_started_at = ts_clock s, sp_fields = [], sp_otel = None\<rparr>"

definition StartSpan ::
    "('c, 'o, 'w) otel \<Rightarrow> 'c trace_ctx \<Rightarrow> string \<Rightarrow> zap_field list \<Rightarrow> 'w trace_state \<Rightarrow>
     ('c trace_ctx \<times> 'o span) \<times> 'w trace_state" where
  "StartSpan api ctx name fs s =
     (case contextFrom ctx of
        None \<Rightarrow> ((ctx, noopSpan name s), s)
      | Some parent \<Rightarrow>
          let (spanID, s) = nextID s;
              logger = logger_or_nop (sc_logger parent);
              startedAt = ts_clock s;
              ((c, otelSpan), w) = ot_start api name SpanKindInternal startedAt
                 (baseSpanAttributes name (sc_trace_id parent) spanID (sc_span_id parent) (sc_request_id parent)
                  @ zapFieldsToAttributes fs) (snd ctx) (ts_otel s)
          in (((Some \<lparr>sc_trace_id = sc_trace_id parent, sc_span_id = spanID,
                      sc_request_id = sc_request_id parent, sc_logger = logger\<rparr>, c),
               \<lparr>sp_logger = logger, sp_name = name, sp_trace_id = sc_trace_id parent, sp_span_id = spanID,
                sp_parent_span_id = sc_span_id parent, sp_request_id = sc_request_id parent,
                sp_started_at = startedAt, sp_fields = fs, sp_otel = Some otelSpan\<rparr>),
              s\<lparr>ts_otel := w\<rparr>))"

definition end_otel ::
    "('c, 'o, 'w) otel \<Rightarrow> 'o span \<Rightarrow> err option \<Rightarrow> string \<Rightarrow> duration \<Rightarrow> zap_field list \<Rightarrow> time \<Rightarrow> 'w \<Rightarrow> 'w" where
  "end_otel api sp e status d spanFields endedAt w =
     (case sp_otel sp of
        None \<Rightarrow> w
      | Some o' \<Rightarrow>
          let attrs = baseSpanAttributes (sp_name sp) (sp_trace_id sp) (sp_span_id sp) (sp_parent_span_id sp)
                        (sp_request_id sp) @
                      [(''lag.span_status'', AttrString status), (''lag.duration_ms'', AttrInt64 (milliseconds d))] @
                      zapFieldsToAttributes spanFields;
              w = ot_set_attributes api o' attrs w;
              w = (case e of
                     Some e \<Rightarrow> ot_set_status api o' (StatusError (err_text e)) (ot_record_error api o' e w)
                   | None \<Rightarrow> ot_set_status api o' StatusOk w)
          in ot_end api o' endedAt w)"

text \<open>\<open>End\<close>; the span of \<open>None\<close> is the \<open>nil\<close> one.\<close>

definition span_End ::
    "('c, 'o, 'w) otel \<Rightarrow> 'o span option \<Rightarrow> err option \<Rightarrow> zap_field list \<Rightarrow> 'w trace_state \<Rightarrow> 'w trace_state" where
  "span_End api sp e fs s =
     (case sp of
        None \<Rightarrow> s
      | Some sp \<Rightarrow>
          let endedAt = ts_clock s;
              d = time_sub endedAt (sp_started_at sp);
              status = (if e = None then ''ok'' else ''error'');
              spanFields = sp_fields sp @ fs @
                (case e of None \<Rightarrow> [] | Some e \<Rightarrow> [zap_String ''error'' (err_text e)]);
              w = end_otel api sp e status d spanFields endedAt (ts_otel s);
              logFields = spanFields @
                [zap_String ''trace_id'' (sp_trace_id sp), zap_String ''span_id'' (sp_span_id sp),
                 zap_String ''parent_span_id'' (sp_parent_span_id sp), zap_String ''request_id'' (sp_request_id sp),
                 zap_String ''span_name'' (sp_name sp), zap_String ''status'' status, zap_Duration ''duration'' d]
          in s\<lparr>ts_otel := w,
               ts_stderr := logger_Info (sp_logger sp) ''trace span finished'' logFields (ts_stderr s)\<rparr>)"

section \<open>Traces\<close>

text \<open>
  The spans that a process has started, the newest first, each with the context it was handed out in: by requests
  from contexts of their own, and below spans from contexts that derive from theirs. Anything else leaves the
  counter alone. A start counts as one step, since identifiers come from one atomic counter.
\<close>

inductive traced :: "('c, 'o, 'w) otel \<Rightarrow> 'w trace_state \<Rightarrow> ('c trace_ctx \<times> 'o span) list \<Rightarrow> bool" for api where
  fresh: "ts_span_counter s = 0 \<Longrightarrow> traced api s []"
| request: "traced api s sps \<Longrightarrow> StartRequestSpan api ctx logger requestID name fs s = (started, s') \<Longrightarrow>
    traced api s' (started # sps)"
| below: "traced api s sps \<Longrightarrow> (ctx, sp) \<in> set sps \<Longrightarrow> StartSpan api (fst ctx, c) name fs s = (started, s') \<Longrightarrow>
    traced api s' (started # sps)"
| elsewhere: "traced api s sps \<Longrightarrow> ts_span_counter s' = ts_span_counter s \<Longrightarrow> traced api s' sps"

lemma span_End_counter [simp]: "ts_span_counter (span_End api sp e fs s) = ts_span_counter s"
  by (simp add: span_End_def Let_def split: option.split)

lemma of_char_hex_digit:
  "0 \<le> n \<Longrightarrow> n < 16 \<Longrightarrow> (of_char (hex_digit n) :: int) = (if n < 10 then 48 + n else 87 + n)"
  by (simp add: hex_digit_def)

lemma hex_digit_inj:
  assumes "hex_digit a = hex_digit b" and "0 \<le> a" "a < 16" "0 \<le> b" "b < 16"
  shows "a = b"
proof -
  have "(if a < 10 then 48 + a else 87 + a) = (if b < 10 then 48 + b else 87 + b)"
    using of_char_hex_digit [OF assms(2,3)] of_char_hex_digit [OF assms(4,5)] assms(1) by argo
  with assms(2-5) show ?thesis by presburger
qed

lemma hex_fixed_inj:
  "hex_fixed k a = hex_fixed k b \<Longrightarrow> 0 \<le> a \<Longrightarrow> a < 16 ^ k \<Longrightarrow> 0 \<le> b \<Longrightarrow> b < 16 ^ k \<Longrightarrow> a = b"
proof (induction k arbitrary: a b)
  case (Suc k)
  have "n div 16 < 16 ^ k" if "n < 16 ^ Suc k" for n :: int
    using that div_bounds(1) [of 16 n] by simp
  with Suc.prems have d: "a div 16 = b div 16" by (intro Suc.IH) auto
  have m: "a mod 16 = b mod 16" using Suc.prems(1) by (intro hex_digit_inj) auto
  from d m show ?case by (metis div_mult_mod_eq)
qed simp

text \<open>The identifier of a number, and what the counter says of the identifiers handed out.\<close>

definition span_id :: "nat \<Rightarrow> string" where
  "span_id n = hex_fixed 16 (int n)"

lemma span_id_inj: "span_id m = span_id n \<Longrightarrow> m < 2 ^ 64 \<Longrightarrow> n < 2 ^ 64 \<Longrightarrow> m = n"
  using hex_fixed_inj [of 16 "int m" "int n"] by (simp add: span_id_def)

lemma nextID_number:
  assumes "ts_span_counter s = of_nat n" and "Suc n < 2 ^ 64"
  shows "nextID s = (span_id (Suc n), s\<lparr>ts_span_counter := of_nat (Suc n)\<rparr>)"
proof -
  have "uint (of_nat (Suc n) :: u64) = int (Suc n)"
    using assms(2) by (simp add: unsigned_of_nat take_bit_nat_eq_self del: of_nat_Suc)
  then show ?thesis using assms(1) by (simp add: nextID_def span_id_def Let_def add.commute)
qed

definition context_of_span :: "'c trace_ctx \<Rightarrow> 'o span \<Rightarrow> bool" where
  "context_of_span ctx sp \<longleftrightarrow>
     (\<exists>l. fst ctx = Some \<lparr>sc_trace_id = sp_trace_id sp, sc_span_id = sp_span_id sp,
                        sc_request_id = sp_request_id sp, sc_logger = l\<rparr>)"

lemma StartRequestSpan_started:
  assumes "StartRequestSpan api ctx l rid name fs s = ((ctx', sp), s')"
    and "ts_span_counter s = of_nat n" and "n + 2 < 2 ^ 64"
  shows "\<exists>k. ts_span_counter s' = of_nat k \<and> n < k \<and> k \<le> n + 2 \<and> sp_span_id sp = span_id k \<and>
           context_of_span ctx' sp \<and> sp_parent_span_id sp = [] \<and> sp_request_id sp = rid \<and>
           sp_trace_id sp = (if rid = [] then span_id (Suc n) else rid)"
proof (cases "rid = []")
  case True
  with assms nextID_number [of s n]
    nextID_number [of "s\<lparr>ts_span_counter := of_nat (Suc n)\<rparr>" "Suc n"]
  show ?thesis
    by (intro exI [of _ "n + 2"]) (auto simp: StartRequestSpan_def context_of_span_def Let_def split: prod.splits)
next
  case False
  with assms nextID_number [of s n] show ?thesis
    by (intro exI [of _ "Suc n"]) (auto simp: StartRequestSpan_def context_of_span_def Let_def split: prod.splits)
qed

lemma StartSpan_started:
  assumes "StartSpan api (fst ctx, c) name fs s = ((ctx', sp), s')" and "context_of_span ctx p"
    and "ts_span_counter s = of_nat n" and "Suc n < 2 ^ 64"
  shows "ts_span_counter s' = of_nat (Suc n) \<and> sp_span_id sp = span_id (Suc n) \<and> context_of_span ctx' sp \<and>
         sp_parent_span_id sp = sp_span_id p \<and> sp_trace_id sp = sp_trace_id p \<and> sp_request_id sp = sp_request_id p"
  using assms nextID_number [OF assms(3,4)]
  by (auto simp: StartSpan_def contextFrom_def context_of_span_def Let_def split: prod.splits)

text \<open>A span begins a trace of its request or is below an earlier span of its trace and request.\<close>

definition placed :: "'o span \<Rightarrow> 'o span list \<Rightarrow> bool" where
  "placed sp earlier \<longleftrightarrow>
     sp_parent_span_id sp = [] \<and> (sp_request_id sp \<noteq> [] \<longrightarrow> sp_trace_id sp = sp_request_id sp) \<or>
     (\<exists>p \<in> set earlier. sp_parent_span_id sp = sp_span_id p \<and> sp_trace_id sp = sp_trace_id p \<and>
        sp_request_id sp = sp_request_id p)"

fun all_placed :: "'o span list \<Rightarrow> bool" where
  "all_placed [] \<longleftrightarrow> True"
| "all_placed (sp # earlier) \<longleftrightarrow> placed sp earlier \<and> all_placed earlier"

definition numbered :: "nat \<Rightarrow> 'w trace_state \<Rightarrow> ('c trace_ctx \<times> 'o span) list \<Rightarrow> bool" where
  "numbered n s sps \<longleftrightarrow>
     ts_span_counter s = of_nat n \<and> n \<le> 2 * length sps \<and> (\<forall>(ctx, sp) \<in> set sps. context_of_span ctx sp) \<and>
     (\<forall>sp \<in> set (map snd sps). \<exists>k \<le> n. sp_span_id sp = span_id k) \<and>
     distinct (map sp_span_id (map snd sps)) \<and> all_placed (map snd sps)"

lemma numbered_started:
  assumes "numbered n s sps" and "ts_span_counter s' = of_nat k" and "n < k" and "k \<le> n + 2" and "k < 2 ^ 64"
    and "sp_span_id sp = span_id k" and "context_of_span ctx sp" and "placed sp (map snd sps)"
  shows "numbered k s' ((ctx, sp) # sps)"
proof -
  have new: "sp_span_id sp \<noteq> sp_span_id p" if "p \<in> set (map snd sps)" for p
  proof
    assume eq: "sp_span_id sp = sp_span_id p"
    from assms(1) that obtain j where j: "j \<le> n" "sp_span_id p = span_id j" unfolding numbered_def by metis
    then have "k = j" using span_id_inj [of k j] assms(3,5,6) eq by simp
    with j(1) assms(3) show False by simp
  qed
  have ids: "\<forall>p \<in> set (map snd sps). \<exists>j \<le> k. sp_span_id p = span_id j"
    using assms(1,3) unfolding numbered_def by (meson le_trans less_imp_le)
  from new have "sp_span_id sp \<notin> set (map sp_span_id (map snd sps))" by auto
  with assms ids show ?thesis by (simp add: numbered_def) auto
qed

lemma traced_numbered:
  "traced api s sps \<Longrightarrow> 2 * length sps < 2 ^ 64 \<Longrightarrow> \<exists>n. numbered n s sps"
proof (induction rule: traced.induct)
  case (fresh s)
  then show ?case by (auto simp: numbered_def intro!: exI [of _ 0])
next
  case (request s sps ctx l rid name fs started s')
  then obtain n where n: "numbered n s sps" by fastforce
  then have c: "ts_span_counter s = of_nat n" "n \<le> 2 * length sps" by (simp_all add: numbered_def)
  with request.prems have b: "n + 2 < 2 ^ 64" by simp
  obtain ctx' sp where st: "started = (ctx', sp)" by (cases started) auto
  from StartRequestSpan_started [OF request.hyps(2) [unfolded st] c(1) b] b n show ?case
    by (auto simp: st placed_def intro!: numbered_started)
next
  case (below s sps ctx p c name fs started s')
  then obtain n where n: "numbered n s sps" by fastforce
  then have c: "ts_span_counter s = of_nat n" "n \<le> 2 * length sps" and p: "context_of_span ctx p"
    using below.hyps(2) by (auto simp: numbered_def)
  with below.prems have b: "Suc n < 2 ^ 64" by simp
  obtain ctx' sp where st: "started = (ctx', sp)" by (cases started) auto
  from below.hyps(2) have "p \<in> set (map snd sps)" by force
  with StartSpan_started [OF below.hyps(3) [unfolded st] p c(1) b] b n show ?case
    unfolding st by (intro exI [of _ "Suc n"] numbered_started) (auto simp: placed_def simp del: of_nat_Suc)
next
  case (elsewhere s sps s')
  then show ?case by (auto simp: numbered_def)
qed

text \<open>
  C39: As long as fewer than \<open>2 ^ 63\<close> spans have been started, whatever requests and calls started them and in
  whatever order, no two spans have the same identifier, and every span either begins the trace of its request,
  under the request's identifier where it has one, or lies below an earlier span of the same trace and request.
\<close>

theorem spans_form_traces:
  assumes "traced api s sps" and "length sps < 2 ^ 63"
  shows "distinct (map sp_span_id (map snd sps)) \<and> all_placed (map snd sps)"
  using traced_numbered [OF assms(1)] assms(2) by (auto simp: numbered_def)

text \<open>Two requests, the first with an identifier and a span below its own.\<close>

definition demo_otel :: "(unit, nat, string list) otel" where
  "demo_otel =
     \<lparr>ot_start = (\<lambda>name k t as c w. ((c, length w), w @ [name])), ot_set_attributes = (\<lambda>o' as w. w),
      ot_record_error = (\<lambda>o' e w. w), ot_set_status = (\<lambda>o' st w. w), ot_end = (\<lambda>o' t w. w)\<rparr>"

definition demo_start :: "string list trace_state" where
  "demo_start = \<lparr>ts_span_counter = 0, ts_clock = 0, ts_stderr = [], ts_otel = []\<rparr>"

definition demo_request :: "string \<Rightarrow> string list trace_state \<Rightarrow> (unit trace_ctx \<times> nat span) \<times> string list trace_state" where
  "demo_request rid s = StartRequestSpan demo_otel (None, ()) None rid ''http.request'' [zap_String ''method'' ''POST''] s"

definition demo_below :: "unit trace_ctx \<Rightarrow> string list trace_state \<Rightarrow> (unit trace_ctx \<times> nat span) \<times> string list trace_state" where
  "demo_below ctx s = StartSpan demo_otel (fst ctx, ()) ''chat.handler'' [] s"

definition demo_traces :: "(unit trace_ctx \<times> nat span) list \<times> string list trace_state" where
  "demo_traces =
     (let (first, s) = demo_request ''r1'' demo_start; (below, s) = demo_below (fst first) s;
          (second, s) = demo_request [] s
      in ([second, below, first], s))"

lemma demo_traced: "traced demo_otel (snd demo_traces) (fst demo_traces)"
proof -
  obtain first s1 where a: "demo_request ''r1'' demo_start = (first, s1)" by fastforce
  obtain below s2 where b: "demo_below (fst first) s1 = (below, s2)" by fastforce
  obtain second s3 where c: "demo_request [] s2 = (second, s3)" by fastforce
  have "traced demo_otel demo_start []" by (rule traced.fresh) (simp add: demo_start_def)
  then have "traced demo_otel s1 [first]" using a unfolding demo_request_def by (rule traced.request)
  then have "traced demo_otel s2 [below, first]"
    by (rule traced.below [where ctx = "fst first" and sp = "snd first"]) (use b in \<open>simp_all add: demo_below_def\<close>)
  then have "traced demo_otel s3 [second, below, first]" using c unfolding demo_request_def by (rule traced.request)
  then show ?thesis by (simp add: demo_traces_def a b c)
qed

lemma spans_form_traces_witness:
  "length (fst demo_traces) = 3 \<and> distinct (map sp_span_id (map snd (fst demo_traces))) \<and>
   all_placed (map snd (fst demo_traces))"
proof -
  have l: "length (fst demo_traces) = 3" by (simp add: demo_traces_def split: prod.split)
  then have "length (fst demo_traces) < 2 ^ 63" by simp
  from spans_form_traces [OF demo_traced this] l show ?thesis by simp
qed

end
