(* ===== verification/Startup.thy ===== *)
theory Startup
  imports Process Tracing
begin

text \<open>
  The exporter of spans of \<open>internal/obs/oteltracing/oteltracing.go\<close> and the life of the process in
  \<open>cmd/gateway/main.go\<close>: what \<open>main\<close> does from reading the configuration until the server's shutdown, with the
  lines it logs, and the log of the router's events. \<open>Process\<close> has the services and the handler it serves.
\<close>

section \<open>oteltracing\<close>

record otel_config =
  oc_service_name :: string
  oc_traces_endpoint :: string
  oc_traces_insecure :: bool
  oc_export_timeout :: duration

record endpoint_config =
  ep_endpoint :: string
  ep_path :: string
  ep_insecure :: bool

text \<open>What is read of a \<open>url.URL\<close>; the parser of \<open>net/url\<close> is a parameter.\<close>

record parsed_url =
  pu_scheme :: string
  pu_host :: string
  pu_path :: string

definition normalizeEndpoint :: "(string \<Rightarrow> parsed_url res) \<Rightarrow> string \<Rightarrow> bool \<Rightarrow> endpoint_config res" where
  "normalizeEndpoint urlParse raw insecure =
     (let endpoint = trim_space raw in
      if endpoint = [] then Inl (NewErr ''otlp traces endpoint is required'')
      else if \<not> contains endpoint ''://''
      then Inr \<lparr>ep_endpoint = endpoint, ep_path = [], ep_insecure = insecure\<rparr>
      else
        (case urlParse endpoint of
           Inl e \<Rightarrow> Inl (WrapErr ''parse otlp traces endpoint'' e)
         | Inr u \<Rightarrow>
             if pu_host u = []
             then Inl (NewErr (''otlp traces endpoint '' @ go_quote raw @ '' must include a host''))
             else if pu_scheme u = ''http''
             then Inr \<lparr>ep_endpoint = pu_host u, ep_path = pu_path u, ep_insecure = True\<rparr>
             else if pu_scheme u = ''https''
             then Inr \<lparr>ep_endpoint = pu_host u, ep_path = pu_path u, ep_insecure = False\<rparr>
             else Inl (NewErr (''otlp traces endpoint scheme '' @ go_quote (pu_scheme u) @ '' is not supported''))))"

datatype exporter_option = WithEndpoint string | WithTimeout duration | WithURLPath string | WithInsecure

text \<open>
  The exporter and the resource of the OpenTelemetry packages are made by parameters. The result is the tracer
  provider that is installed, if any: its \<open>Shutdown\<close> is what \<open>Configure\<close> returns.
\<close>

record ('x, 'r) otel_sdk =
  os_url_parse :: "string \<Rightarrow> parsed_url res"
  os_new_exporter :: "exporter_option list \<Rightarrow> 'x res"
  os_merge_resource :: "(string \<times> string) list \<Rightarrow> 'r res"

record ('x, 'r) tracer_provider =
  tp_exporter :: 'x
  tp_resource :: 'r
  tp_batch_timeout :: duration
  tp_export_timeout :: duration

definition exporter_options :: "endpoint_config \<Rightarrow> duration \<Rightarrow> exporter_option list" where
  "exporter_options ep timeout =
     [WithEndpoint (ep_endpoint ep), WithTimeout timeout] @
     (if ep_path ep \<noteq> [] then [WithURLPath (ep_path ep)] else []) @
     (if ep_insecure ep then [WithInsecure] else [])"

definition otel_Configure ::
    "('x, 'r) otel_sdk \<Rightarrow> otel_config \<Rightarrow> zap_logger option \<Rightarrow> string list \<Rightarrow>
     ('x, 'r) tracer_provider option res \<times> string list" where
  "otel_Configure sdk cfg logger out =
     (let endpoint = trim_space (oc_traces_endpoint cfg) in
      if endpoint = [] then (Inr None, out)
      else
        let serviceName = trim_space (oc_service_name cfg);
            serviceName = (if serviceName = [] then ''llm-access-gateway'' else serviceName);
            timeout = (if oc_export_timeout cfg \<le> 0 then 5 * second else oc_export_timeout cfg)
        in case normalizeEndpoint (os_url_parse sdk) endpoint (oc_traces_insecure cfg) of
             Inl e \<Rightarrow> (Inl e, out)
           | Inr ep \<Rightarrow>
               (case os_new_exporter sdk (exporter_options ep timeout) of
                  Inl e \<Rightarrow> (Inl (WrapErr ''create otlp trace exporter'' e), out)
                | Inr exporter \<Rightarrow>
                    (case os_merge_resource sdk
                            [(''service.name'', serviceName), (''service.namespace'', ''llm-access-gateway'')] of
                       Inl e \<Rightarrow> (Inl (WrapErr ''create otel resource'' e), out)
                     | Inr r \<Rightarrow>
                         (Inr (Some \<lparr>tp_exporter = exporter, tp_resource = r, tp_batch_timeout = timeout,
                                     tp_export_timeout = timeout\<rparr>),
                          logger_Info logger ''otlp trace exporter enabled''
                            [zap_String ''service_name'' serviceName, zap_String ''endpoint'' endpoint] out))))"

section \<open>Events of the router in the log\<close>

definition event_fields :: "event \<Rightarrow> zap_field list" where
  "event_fields ev =
     [zap_String ''type'' (ev_type ev), zap_String ''operation'' (ev_operation ev),
      zap_String ''backend'' (ev_backend ev), zap_Int ''attempt'' (ev_attempt ev),
      zap_Int ''consecutive_failures'' (ev_failures ev)] @
     (if 0 < ev_duration ev then [zap_Duration ''duration'' (ev_duration ev)] else []) @
     (if is_zero_time (ev_unhealthy_until ev) then []
      else [zap_String ''unhealthy_until'' (format_rfc3339 (ev_unhealthy_until ev))]) @
     (if ev_error ev \<noteq> [] then [zap_String ''reason'' (ev_error ev)] else [])"

definition providerEventLogger_OnEvent :: "zap_logger option \<Rightarrow> event \<Rightarrow> string list \<Rightarrow> string list" where
  "providerEventLogger_OnEvent logger ev out =
     (if logger = None then out else logger_Info logger ''provider event'' (event_fields ev) out)"

section \<open>Starting\<close>

text \<open>
  A step of \<open>main\<close> ends the process, with a panic or, after a line by \<open>Fatal\<close>, with status 1, or goes on with a
  value. The state is the log and the world.
\<close>

datatype 'a startup = Panicked err | Exited int | Running 'a

type_synonym boot = "string list \<times> gw"

definition boot_then :: "'a startup \<times> 's \<Rightarrow> ('a \<Rightarrow> 's \<Rightarrow> 'b startup \<times> 's) \<Rightarrow> 'b startup \<times> 's" where
  "boot_then r f =
     (case r of
        (Panicked e, s) \<Rightarrow> (Panicked e, s)
      | (Exited n, s) \<Rightarrow> (Exited n, s)
      | (Running x, s) \<Rightarrow> f x s)"

definition boot_fatal :: "zap_logger \<Rightarrow> string \<Rightarrow> zap_field list \<Rightarrow> boot \<Rightarrow> 'a startup \<times> boot" where
  "boot_fatal logger msg fs s =
     (let (status, out) = logger_Fatal (Some logger) msg fs (fst s) in (Exited status, (out, snd s)))"

definition boot_log :: "(string list \<Rightarrow> string list) \<Rightarrow> boot \<Rightarrow> boot" where
  "boot_log f s = (f (fst s), snd s)"

definition mustLoadConfig :: "config res \<Rightarrow> boot \<Rightarrow> config startup \<times> boot" where
  "mustLoadConfig loaded s = (case loaded of Inl e \<Rightarrow> (Panicked e, s) | Inr cfg \<Rightarrow> (Running cfg, s))"

definition mustBuildLogger :: "config \<Rightarrow> zap_logger" where
  "mustBuildLogger cfg = zap_Build (cf_log_level cfg)"

definition otel_settings :: "config \<Rightarrow> otel_config" where
  "otel_settings cfg =
     \<lparr>oc_service_name = ob_service_name (cf_observability cfg),
      oc_traces_endpoint = ob_otlp_traces_endpoint (cf_observability cfg),
      oc_traces_insecure = ob_otlp_traces_insecure (cf_observability cfg),
      oc_export_timeout = go_mul (ob_otlp_export_timeout_seconds (cf_observability cfg)) second\<rparr>"

definition mustConfigureTracing ::
    "('x, 'r) otel_sdk \<Rightarrow> config \<Rightarrow> zap_logger \<Rightarrow> boot \<Rightarrow> ('x, 'r) tracer_provider option startup \<times> boot" where
  "mustConfigureTracing sdk cfg logger s =
     (case otel_Configure sdk (otel_settings cfg) (Some logger) (fst s) of
        (Inl e, out) \<Rightarrow> boot_fatal logger ''otel tracing setup failed'' [zap_Error e] (out, snd s)
      | (Inr tp, out) \<Rightarrow> (Running tp, (out, snd s)))"

text \<open>\<open>sqlOpen\<close> is the driver's check of the data source name, \<open>ping\<close> the answer of the database.\<close>

definition mustOpenDatabase ::
    "(string \<Rightarrow> unit res) \<Rightarrow> unit res \<Rightarrow> config \<Rightarrow> zap_logger \<Rightarrow> boot \<Rightarrow> unit startup \<times> boot" where
  "mustOpenDatabase sqlOpen ping cfg logger s =
     (if cf_mysql_dsn cfg = []
      then boot_fatal logger ''mysql dsn is required'' [zap_String ''field'' ''mysql.dsn''] s
      else
        (case sqlOpen (cf_mysql_dsn cfg) of
           Inl e \<Rightarrow> boot_fatal logger ''mysql open failed'' [zap_Error e] s
         | Inr _ \<Rightarrow>
             (case ping of
                Inl e \<Rightarrow> boot_fatal logger ''mysql ping failed'' [zap_Error e] s
              | Inr _ \<Rightarrow> (Running (), s))))"

text \<open>\<open>buildLimiter\<close> and \<open>mustLoadProviderBackends\<close> with what they log.\<close>

definition limiter_line :: "zap_logger \<Rightarrow> config \<Rightarrow> gw \<Rightarrow> string list \<Rightarrow> string list" where
  "limiter_line logger cfg w out =
     (if rs_address (cf_redis cfg) = [] then out
      else
        (case on_redis (Ping (gateway_redis_client (cf_redis cfg)) redis_network) w of
           (Inl e, _) \<Rightarrow>
             logger_Error (Some logger) ''redis ping failed, falling back to mysql limiter'' [zap_Error e] out
         | (Inr _, _) \<Rightarrow>
             logger_Info (Some logger) ''redis limiter enabled''
               [zap_String ''address'' (rs_address (cf_redis cfg)), zap_Int ''db'' (rs_db (cf_redis cfg))] out))"

definition logged_backends ::
    "(stream_event list \<Rightarrow> live \<Rightarrow> selection list) \<Rightarrow> live upstream \<Rightarrow> (string \<Rightarrow> string) \<Rightarrow> config \<Rightarrow>
     zap_logger \<Rightarrow> boot \<Rightarrow> (rest, gw attempt_handle) backend list startup \<times> boot" where
  "logged_backends see env coll cfg logger s =
     (case buildProviderBackends see env cfg of
        Inl e \<Rightarrow> boot_fatal logger ''provider setup failed'' [zap_Error e] s
      | Inr backends \<Rightarrow>
          (case on_db (ListRouteRules coll) (snd s) of
             (Inl e, w) \<Rightarrow> boot_fatal logger ''route rule load failed'' [zap_Error e] (fst s, w)
           | (Inr routeRules, w) \<Rightarrow>
               (case applyRouteRules backends routeRules of
                  Inl e \<Rightarrow> boot_fatal logger ''route rule setup failed'' [zap_Error e] (fst s, w)
                | Inr (backends, enabled) \<Rightarrow>
                    (Running backends,
                     if enabled
                     then (logger_Info (Some logger) ''database route rules enabled''
                             [zap_Int ''route_rule_count'' (int (length routeRules)),
                              zap_Int ''routed_backend_count'' (int (length backends))] (fst s), w)
                     else (fst s, w)))))"

text \<open>\<open>mustBuildGatewayApp\<close> of the process with its log.\<close>

definition logged_app ::
    "(stream_event list \<Rightarrow> live \<Rightarrow> selection list) \<Rightarrow> (nat \<times> time) upstream \<Rightarrow> (string \<Rightarrow> string) \<Rightarrow>
     config \<Rightarrow> zap_logger \<Rightarrow> boot \<Rightarrow> gateway_app startup \<times> boot" where
  "logged_app see net coll cfg logger s =
     (let (limiter, w) = buildLimiter cfg (snd s) in
      boot_then (logged_backends see (upstream_of net) coll cfg logger (limiter_line logger cfg (snd s) (fst s), w))
        (\<lambda>backends s. (Running (gateway_app_of coll cfg limiter backends), s)))"

section \<open>Serving\<close>

record server_timeouts =
  st_read_header :: duration
  st_read :: duration
  st_write :: duration
  st_idle :: duration

definition server_timeouts_of :: "config \<Rightarrow> server_timeouts" where
  "server_timeouts_of cfg =
     \<lparr>st_read_header = go_mul (sc_read_header_timeout_seconds (cf_server cfg)) second,
      st_read = go_mul (sc_read_timeout_seconds (cf_server cfg)) second,
      st_write = go_mul (sc_write_timeout_seconds (cf_server cfg)) second,
      st_idle = go_mul (sc_idle_timeout_seconds (cf_server cfg)) second\<rparr>"

record gateway_server =
  gsv_address :: string
  gsv_handler :: "gw router_dependencies"
  gsv_timeouts :: server_timeouts
  gsv_probe_interval :: duration

text \<open>
  The server of \<open>newGatewayServer\<close> and the first steps of \<open>runGatewayServer\<close>. The interval is that of the probe
  loop, which is not started when it is not positive.
\<close>

definition start_server ::
    "(gw \<times> gw request_tracker \<Rightarrow> err option \<times> gw \<times> gw request_tracker) \<Rightarrow> config \<Rightarrow> zap_logger \<Rightarrow>
     gateway_app \<Rightarrow> boot \<Rightarrow> gateway_server startup \<times> boot" where
  "start_server ctxErr cfg logger app s =
     (let seconds = gc_provider_probe_interval_seconds (cf_gateway cfg); interval = go_mul seconds second in
      (Running \<lparr>gsv_address = sc_address (cf_server cfg), gsv_handler = newGatewayServer ctxErr cfg app (snd s),
                gsv_timeouts = server_timeouts_of cfg, gsv_probe_interval = interval\<rparr>,
       boot_log (logger_Info (Some logger) ''gateway starting'' [zap_String ''address'' (sc_address (cf_server cfg))])
         (if 0 < seconds \<and> 0 < interval
          then boot_log (logger_Info (Some logger) ''provider probe loop enabled''
                 [zap_Duration ''interval'' interval]) s
          else s)))"

text \<open>\<open>main\<close> until the server listens.\<close>

definition gateway_main ::
    "config res \<Rightarrow> ('x, 'r) otel_sdk \<Rightarrow> (string \<Rightarrow> unit res) \<Rightarrow> unit res \<Rightarrow>
     (gw \<times> gw request_tracker \<Rightarrow> err option \<times> gw \<times> gw request_tracker) \<Rightarrow>
     (stream_event list \<Rightarrow> live \<Rightarrow> selection list) \<Rightarrow> (nat \<times> time) upstream \<Rightarrow> (string \<Rightarrow> string) \<Rightarrow>
     boot \<Rightarrow> gateway_server startup \<times> boot" where
  "gateway_main loaded sdk sqlOpen ping ctxErr see net coll s =
     boot_then (mustLoadConfig loaded s) (\<lambda>cfg s.
     let logger = mustBuildLogger cfg in
     boot_then (mustConfigureTracing sdk cfg logger s) (\<lambda>_ s.
     boot_then (mustOpenDatabase sqlOpen ping cfg logger s) (\<lambda>_ s.
     boot_then (logged_app see net coll cfg logger s) (\<lambda>app s.
     start_server ctxErr cfg logger app s))))"

text \<open>
  The end of \<open>runGatewayServer\<close> and the deferred \<open>shutdownTracing\<close>: listening failed, or a signal came and the
  shutdowns of the server and of the exporter had an error or not.
\<close>

datatype server_end = ListenError err | Signalled "err option"

definition shutdownTracing :: "('x, 'r) tracer_provider option \<Rightarrow> err option \<Rightarrow> zap_logger \<Rightarrow> string list \<Rightarrow> string list" where
  "shutdownTracing tp e logger out =
     (case (tp, e) of
        (Some _, Some e) \<Rightarrow> logger_Error (Some logger) ''otel tracing shutdown failed'' [zap_Error e] out
      | _ \<Rightarrow> out)"

definition gateway_ends ::
    "zap_logger \<Rightarrow> server_end \<Rightarrow> ('x, 'r) tracer_provider option \<Rightarrow> err option \<Rightarrow> string list \<Rightarrow> int \<times> string list" where
  "gateway_ends logger ended tp tracingError out =
     (case ended of
        ListenError e \<Rightarrow> logger_Fatal (Some logger) ''gateway stopped unexpectedly'' [zap_Error e] out
      | Signalled e \<Rightarrow>
          let out = logger_Info (Some logger) ''gateway shutting down'' [] out;
              out = (case e of
                       Some e \<Rightarrow> logger_Error (Some logger) ''graceful shutdown failed'' [zap_Error e] out
                     | None \<Rightarrow> out)
          in (0, shutdownTracing tp tracingError logger out))"

end
