(* ===== verification/StartupProperties.thy ===== *)
theory StartupProperties
  imports Startup ProcessFacts
begin

text \<open>
  When the process comes to serve: the conditions, that nothing else stops it, and how it ends otherwise.
\<close>

section \<open>The last line of a process that ends\<close>

definition fatal_end :: "string list \<Rightarrow> bool" where
  "fatal_end out \<longleftrightarrow> out \<noteq> [] \<and> has_prefix (last out) ''FATAL ''"

definition ends_fatally :: "'a startup \<times> boot \<Rightarrow> bool" where
  "ends_fatally r \<longleftrightarrow> fst r = Exited 1 \<and> fatal_end (fst (snd r))"

lemma boot_fatal_ends: "\<not> zl_discard logger \<Longrightarrow> ends_fatally (boot_fatal logger msg fs s)"
  by (simp add: ends_fatally_def boot_fatal_def logger_Fatal_def logger_log_def fatal_end_def log_line_def
      has_prefix_iff)

lemma boot_fatal_world [simp]: "snd (snd (boot_fatal logger msg fs s)) = snd s"
  by (simp add: boot_fatal_def logger_Fatal_def)

lemma boot_then_simps [simp]:
  "boot_then (Panicked e, s) f = (Panicked e, s)"
  "boot_then (Exited n, s) f = (Exited n, s)"
  "boot_then (Running x, s) f = f x s"
  by (simp_all add: boot_then_def)

lemma boot_then_ends: "ends_fatally r \<Longrightarrow> ends_fatally (boot_then r f)"
  by (cases r) (auto simp: ends_fatally_def boot_then_def)

lemma built_logger [simp]: "\<not> zl_discard (mustBuildLogger cfg)"
  by (simp add: mustBuildLogger_def zap_Build_def)

section \<open>The steps\<close>

lemma mustConfigureTracing_step:
  "(case fst (otel_Configure sdk (otel_settings cfg) (Some (mustBuildLogger cfg)) (fst s)) of
      Inl e \<Rightarrow> ends_fatally (mustConfigureTracing sdk cfg (mustBuildLogger cfg) s)
    | Inr tp \<Rightarrow> \<exists>out. mustConfigureTracing sdk cfg (mustBuildLogger cfg) s = (Running tp, (out, snd s)))"
  by (auto simp: mustConfigureTracing_def boot_fatal_ends split: sum.split prod.split)

lemma otel_Configure_log:
  "fst (otel_Configure sdk cfg logger out) = fst (otel_Configure sdk cfg None [])"
  by (simp add: otel_Configure_def Let_def split: sum.split)

definition database_opens :: "(string \<Rightarrow> unit res) \<Rightarrow> unit res \<Rightarrow> config \<Rightarrow> bool" where
  "database_opens sqlOpen ping cfg \<longleftrightarrow>
     cf_mysql_dsn cfg \<noteq> [] \<and> sqlOpen (cf_mysql_dsn cfg) = Inr () \<and> ping = Inr ()"

lemma mustOpenDatabase_step:
  "if database_opens sqlOpen ping cfg
   then mustOpenDatabase sqlOpen ping cfg (mustBuildLogger cfg) s = (Running (), s)
   else ends_fatally (mustOpenDatabase sqlOpen ping cfg (mustBuildLogger cfg) s)"
  by (auto simp: mustOpenDatabase_def database_opens_def boot_fatal_ends split: sum.split)

text \<open>The logged steps make the app of \<open>mustBuildGatewayApp\<close>, on the same world.\<close>

lemma logged_app_step:
  "(case mustBuildGatewayApp see net coll cfg (snd s) of
      (Inl e, w) \<Rightarrow> ends_fatally (logged_app see net coll cfg (mustBuildLogger cfg) s)
    | (Inr app, w) \<Rightarrow> \<exists>out. logged_app see net coll cfg (mustBuildLogger cfg) s = (Running app, (out, w)))"
proof -
  obtain l w where l: "buildLimiter cfg (snd s) = (l, w)" by fastforce
  show ?thesis
    by (auto simp: mustBuildGatewayApp_def logged_app_def l logged_backends_def mustLoadProviderBackends_def
        on_db_def boot_fatal_ends boot_then_ends split: sum.split prod.split)
qed

section \<open>Starting\<close>

text \<open>What has to hold for the process to serve, with the app it serves and the world it has then.\<close>

definition gateway_starts ::
    "config res \<Rightarrow> ('x, 'r) otel_sdk \<Rightarrow> (string \<Rightarrow> unit res) \<Rightarrow> unit res \<Rightarrow>
     (stream_event list \<Rightarrow> live \<Rightarrow> selection list) \<Rightarrow> (nat \<times> time) upstream \<Rightarrow> (string \<Rightarrow> string) \<Rightarrow> gw \<Rightarrow>
     (config \<times> gateway_app \<times> gw) option" where
  "gateway_starts loaded sdk sqlOpen ping see net coll w =
     (case loaded of
        Inl e \<Rightarrow> None
      | Inr cfg \<Rightarrow>
          if isl (fst (otel_Configure sdk (otel_settings cfg) None [])) \<or> \<not> database_opens sqlOpen ping cfg then None
          else case mustBuildGatewayApp see net coll cfg w of
            (Inl e, w) \<Rightarrow> None
          | (Inr app, w) \<Rightarrow> Some (cfg, app, w))"

text \<open>
  C40: The process serves exactly when the configuration loads, the exporter of spans can be made, the data source
  name is given and the database answers, and the backends, the routing rules and the services can be built; it then
  serves, at the configured address and with the configured timeouts, the handler of that app. It panics, having
  done nothing, exactly when the configuration does not load, and otherwise exits with status 1 after a line of the
  level FATAL.
\<close>

theorem process_start_decided:
  "case gateway_main loaded sdk sqlOpen ping ctxErr see net coll (out, w) of
     (Running server, (out', w')) \<Rightarrow>
       (\<exists>cfg app. gateway_starts loaded sdk sqlOpen ping see net coll w = Some (cfg, app, w') \<and>
          gsv_handler server = newGatewayServer ctxErr cfg app w' \<and>
          gsv_address server = sc_address (cf_server cfg) \<and> gsv_timeouts server = server_timeouts_of cfg)
   | (Panicked e, s') \<Rightarrow> loaded = Inl e \<and> s' = (out, w)
   | (Exited n, (out', w')) \<Rightarrow>
       (\<exists>cfg. loaded = Inr cfg) \<and> gateway_starts loaded sdk sqlOpen ping see net coll w = None \<and> n = 1 \<and>
       fatal_end out'"
proof (cases loaded)
  case (Inl e)
  then show ?thesis by (simp add: gateway_main_def mustLoadConfig_def)
next
  case (Inr cfg)
  let ?l = "mustBuildLogger cfg"
  let ?rest = "\<lambda>s. boot_then (logged_app see net coll cfg ?l s) (start_server ctxErr cfg ?l)"
  have main: "gateway_main (Inr cfg) sdk sqlOpen ping ctxErr see net coll (out, w) =
      boot_then (mustConfigureTracing sdk cfg ?l (out, w)) (\<lambda>_ s.
      boot_then (mustOpenDatabase sqlOpen ping cfg ?l s) (\<lambda>_ s. ?rest s))"
    by (simp add: gateway_main_def mustLoadConfig_def Let_def)
  have failed: ?thesis if "ends_fatally (gateway_main (Inr cfg) sdk sqlOpen ping ctxErr see net coll (out, w))"
    and "gateway_starts (Inr cfg) sdk sqlOpen ping see net coll w = None"
    using that by (auto simp: Inr ends_fatally_def split: prod.splits)
  show ?thesis
  proof (cases "fst (otel_Configure sdk (otel_settings cfg) None [])")
    case (Inl e)
    with mustConfigureTracing_step [of sdk cfg "(out, w)"] show ?thesis
      by (intro failed) (auto simp: main otel_Configure_log [of _ _ "Some _"] gateway_starts_def
          intro: boot_then_ends)
  next
    case (Inr tp)
    with mustConfigureTracing_step [of sdk cfg "(out, w)"] obtain out1
      where t: "mustConfigureTracing sdk cfg ?l (out, w) = (Running tp, (out1, w))"
      by (auto simp: otel_Configure_log [of _ _ "Some _"])
    show ?thesis
    proof (cases "database_opens sqlOpen ping cfg")
      case False
      with mustOpenDatabase_step [of sqlOpen ping cfg "(out1, w)"] show ?thesis
        by (intro failed) (auto simp: main t gateway_starts_def intro: boot_then_ends)
    next
      case True
      with mustOpenDatabase_step [of sqlOpen ping cfg "(out1, w)"]
      have on: "gateway_main (Inr cfg) sdk sqlOpen ping ctxErr see net coll (out, w) = ?rest (out1, w)"
        by (simp add: main t)
      obtain r w1 where b: "mustBuildGatewayApp see net coll cfg w = (r, w1)" by fastforce
      note step = logged_app_step [of see net coll cfg "(out1, w)", simplified b, simplified]
      show ?thesis
      proof (cases r)
        case (Inl e)
        with step b True show ?thesis
          by (intro failed) (auto simp: on gateway_starts_def intro: boot_then_ends)
      next
        case (Inr app)
        with step b True \<open>fst (otel_Configure sdk (otel_settings cfg) None []) = Inr tp\<close> show ?thesis
          by (auto simp: \<open>loaded = Inr cfg\<close> on gateway_starts_def start_server_def boot_log_def Let_def)
      qed
    qed
  qed
qed

end
