(* ===== verification/LoadTest.thy ===== *)
theory LoadTest
  imports Durations OpenAI
begin

text \<open>
  The load test of \<open>cmd/loadtest/main.go\<close>: its flags, the request it sends, how it reads an answer or a stream,
  its workers, and the summary with its percentiles and thresholds. The HTTP client is a parameter: an answer is
  a status, a body with an error of reading it or none, and the times at which its lines were read.
\<close>

section \<open>Configuration\<close>

record lt_config =
  lt_URL :: string
  lt_APIKey :: string
  lt_Model :: string
  lt_Message :: string
  lt_Requests :: int
  lt_Concurrency :: int
  lt_Stream :: bool
  lt_Timeout :: duration
  lt_JSON :: bool
  lt_MinSuccessRate :: f64
  lt_MaxLatencyP95 :: duration
  lt_MaxTTFTP95 :: duration

definition loadtest_flags :: "lt_config flag_set" where
  "loadtest_flags =
     [(''url'', StringVar (\<lambda>v c. c\<lparr>lt_URL := v\<rparr>)),
      (''auth-key'', StringVar (\<lambda>v c. c\<lparr>lt_APIKey := v\<rparr>)),
      (''model'', StringVar (\<lambda>v c. c\<lparr>lt_Model := v\<rparr>)),
      (''message'', StringVar (\<lambda>v c. c\<lparr>lt_Message := v\<rparr>)),
      (''requests'', IntVar (\<lambda>v c. c\<lparr>lt_Requests := v\<rparr>)),
      (''concurrency'', IntVar (\<lambda>v c. c\<lparr>lt_Concurrency := v\<rparr>)),
      (''stream'', BoolFlag (\<lambda>v c. c\<lparr>lt_Stream := v\<rparr>)),
      (''timeout'', DurationVar (\<lambda>v c. c\<lparr>lt_Timeout := v\<rparr>)),
      (''json'', BoolFlag (\<lambda>v c. c\<lparr>lt_JSON := v\<rparr>)),
      (''min-success-rate'', Float64Var (\<lambda>v c. c\<lparr>lt_MinSuccessRate := v\<rparr>)),
      (''max-latency-p95'', DurationVar (\<lambda>v c. c\<lparr>lt_MaxLatencyP95 := v\<rparr>)),
      (''max-ttft-p95'', DurationVar (\<lambda>v c. c\<lparr>lt_MaxTTFTP95 := v\<rparr>))]"

definition loadtest_parseFlags :: "string list \<Rightarrow> lt_config res" where
  "loadtest_parseFlags args =
     map_sum id snd (flag_Parse loadtest_flags args
       \<lparr>lt_URL = ''http://127.0.0.1:8080/v1/chat/completions'', lt_APIKey = [], lt_Model = [],
        lt_Message = ''hello from loadtest'', lt_Requests = 20, lt_Concurrency = 4, lt_Stream = False,
        lt_Timeout = 30 * second, lt_JSON = False, lt_MinSuccessRate = f64_of_int 0, lt_MaxLatencyP95 = 0,
        lt_MaxTTFTP95 = 0\<rparr>)"

section \<open>Requests\<close>

text \<open>A map is encoded with its keys sorted.\<close>

definition buildRequestBody :: "lt_config \<Rightarrow> string" where
  "buildRequestBody cfg =
     encode (JObj
       ([(''messages'', JArr [JObj [(''content'', JStr (lt_Message cfg)), (''role'', JStr ''user'')]])] @
        (if trim_space (lt_Model cfg) \<noteq> [] then [(''model'', JStr (lt_Model cfg))] else []) @
        [(''stream'', JBool (lt_Stream cfg))]))"

record lt_request =
  lq_method :: string
  lq_url :: string
  lq_header :: "(string \<times> string) list"
  lq_body :: string

definition loadtest_request :: "lt_config \<Rightarrow> lt_request" where
  "loadtest_request cfg =
     \<lparr>lq_method = ''POST'', lq_url = lt_URL cfg,
      lq_header = [(''Content-Type'', ''application/json''), (''Authorization'', ''Bearer '' @ lt_APIKey cfg)],
      lq_body = buildRequestBody cfg\<rparr>"

section \<open>Answers\<close>

record lt_response =
  lr_status :: int
  lr_body :: string
  lr_read_err :: "err option"
  lr_line_time :: "nat \<Rightarrow> time"
  lr_end_time :: time

record lt_result =
  lx_status :: int
  lx_latency :: duration
  lx_ttft :: duration
  lx_stream_chunks :: int
  lx_err :: "err option"

definition zero_result :: lt_result where
  "zero_result = \<lparr>lx_status = 0, lx_latency = 0, lx_ttft = 0, lx_stream_chunks = 0, lx_err = None\<rparr>"

definition failed_result :: "err \<Rightarrow> lt_result" where
  "failed_result e = zero_result\<lparr>lx_err := Some e\<rparr>"

definition answered :: "lt_response \<Rightarrow> time \<Rightarrow> err option \<Rightarrow> lt_result" where
  "answered resp started e =
     zero_result\<lparr>lx_status := lr_status resp, lx_latency := time_sub (lr_end_time resp) started, lx_err := e\<rparr>"

definition status_error :: "int \<Rightarrow> string \<Rightarrow> err" where
  "status_error status body = NewErr (''unexpected status '' @ itoa status @ '': '' @ trim_space body)"

definition completion_mark :: string where
  "completion_mark = quoted ''object'' @ '':'' @ quoted ''chat.completion''"

definition consumeJSON :: "lt_response \<Rightarrow> time \<Rightarrow> lt_result" where
  "consumeJSON resp started =
     (case lr_read_err resp of
        Some e \<Rightarrow> answered resp started (Some e)
      | None \<Rightarrow>
          if lr_status resp \<noteq> 200 then answered resp started (Some (status_error (lr_status resp) (lr_body resp)))
          else if \<not> contains (lr_body resp) completion_mark
          then answered resp started (Some (NewErr (''unexpected response body: '' @ trim_space (lr_body resp))))
          else answered resp started None)"

record stream_read_state =
  srs_body :: string
  srs_chunk_count :: int
  srs_ttft :: duration
  srs_saw_done :: bool

definition streamLineData :: "string \<Rightarrow> string option" where
  "streamLineData line =
     (let trimmed = trim_space line in
      if trimmed = [] \<or> \<not> has_prefix trimmed ''data: '' then None
      else Some (trim_space (trim_prefix trimmed ''data: '')))"

definition lt_consumeLine :: "time \<Rightarrow> string \<times> time \<Rightarrow> stream_read_state \<Rightarrow> stream_read_state" where
  "lt_consumeLine started lt s =
     (let (line, now) = lt; s = s\<lparr>srs_body := srs_body s @ line\<rparr> in
      case streamLineData line of
        None \<Rightarrow> s
      | Some data \<Rightarrow>
          let s = (if srs_ttft s = 0 \<and> data \<noteq> [] \<and> data \<noteq> ''[DONE]''
                   then s\<lparr>srs_ttft := time_sub now started\<rparr> else s)
          in if data = ''[DONE]'' then s\<lparr>srs_saw_done := True\<rparr>
             else s\<lparr>srs_chunk_count := srs_chunk_count s + 1\<rparr>)"

text \<open>\<open>ReadString\<close> gives the lines with their ends; what follows the last one is dropped with the error.\<close>

definition timed_lines :: "lt_response \<Rightarrow> (string \<times> time) list" where
  "timed_lines resp =
     (let lines = complete_lines (lr_body resp) in zip lines (map (lr_line_time resp) [0..<length lines]))"

definition consumeStream :: "lt_response \<Rightarrow> time \<Rightarrow> lt_result" where
  "consumeStream resp started =
     (let s = fold (lt_consumeLine started) (timed_lines resp)
                \<lparr>srs_body = [], srs_chunk_count = 0, srs_ttft = 0, srs_saw_done = False\<rparr>
      in case lr_read_err resp of
           Some e \<Rightarrow> answered resp started (Some e)
         | None \<Rightarrow>
             if lr_status resp \<noteq> 200
             then answered resp started (Some (status_error (lr_status resp) (srs_body s)))
             else if \<not> srs_saw_done s
             then answered resp started (Some (NewErr (''stream missing [DONE]: '' @ trim_space (srs_body s))))
             else if srs_chunk_count s < 1
             then answered resp started (Some (NewErr (''stream missing data chunks: '' @ trim_space (srs_body s))))
             else (answered resp started None)\<lparr>lx_ttft := srs_ttft s, lx_stream_chunks := srs_chunk_count s\<rparr>)"

text \<open>The client's \<open>NewRequest\<close> and \<open>Do\<close>; the timeout is that of the request's context.\<close>

definition executeOnce ::
    "(duration \<Rightarrow> lt_request \<Rightarrow> 'w \<Rightarrow> (lt_response res \<times> time) \<times> 'w) \<Rightarrow> lt_config \<Rightarrow> 'w \<Rightarrow> lt_result \<times> 'w" where
  "executeOnce client cfg w =
     (case client (lt_Timeout cfg) (loadtest_request cfg) w of
        ((Inl e, started), w) \<Rightarrow> (failed_result e, w)
      | ((Inr resp, started), w) \<Rightarrow>
          (if lt_Stream cfg then consumeStream resp started else consumeJSON resp started, w))"

section \<open>Workers\<close>

text \<open>
  A worker takes the next number from the shared counter; below the number of requests it executes one and
  stores the result under the number, otherwise it returns. \<open>pool_done\<close> remembers what was executed.
\<close>

datatype worker = Idle | Busy int | Returned

record pool =
  pool_next :: u64
  pool_workers :: "worker list"
  pool_results :: "lt_result list"
  pool_done :: "(int \<times> lt_result) list"

definition pool_start :: "lt_config \<Rightarrow> pool" where
  "pool_start cfg =
     \<lparr>pool_next = 0, pool_workers = replicate (nat (lt_Concurrency cfg)) Idle,
      pool_results = replicate (nat (lt_Requests cfg)) zero_result, pool_done = []\<rparr>"

definition take_index :: "lt_config \<Rightarrow> nat \<Rightarrow> pool \<Rightarrow> pool" where
  "take_index cfg w p =
     (let next = pool_next p + 1; index = go_add (sint next) (- 1) in
      p\<lparr>pool_next := next,
        pool_workers := (pool_workers p)[w := if lt_Requests cfg \<le> index then Returned else Busy index]\<rparr>)"

definition store_result :: "nat \<Rightarrow> int \<Rightarrow> lt_result \<Rightarrow> pool \<Rightarrow> pool" where
  "store_result w index r p =
     p\<lparr>pool_workers := (pool_workers p)[w := Idle], pool_results := (pool_results p)[nat index := r],
       pool_done := (index, r) # pool_done p\<rparr>"

inductive pool_step :: "lt_config \<Rightarrow> pool \<Rightarrow> pool \<Rightarrow> bool" for cfg where
  takes: "w < length (pool_workers p) \<Longrightarrow> pool_workers p ! w = Idle \<Longrightarrow> pool_step cfg p (take_index cfg w p)"
| stores: "w < length (pool_workers p) \<Longrightarrow> pool_workers p ! w = Busy index \<Longrightarrow>
    pool_step cfg p (store_result w index r p)"

inductive_cases pool_stepE: "pool_step cfg p q"

definition pool_finished :: "pool \<Rightarrow> bool" where
  "pool_finished p \<longleftrightarrow> list_all (\<lambda>x. x = Returned) (pool_workers p)"

record lt_report =
  lp_requests :: int
  lp_concurrency :: int
  lp_stream :: bool
  lp_total_duration :: duration
  lp_results :: "lt_result list"

text \<open>The report of \<open>runLoadTest\<close> when its workers have returned, \<open>elapsed\<close> after it began.\<close>

definition runLoadTest :: "lt_config \<Rightarrow> duration \<Rightarrow> pool \<Rightarrow> lt_report" where
  "runLoadTest cfg elapsed p =
     \<lparr>lp_requests = lt_Requests cfg, lp_concurrency = lt_Concurrency cfg, lp_stream = lt_Stream cfg,
      lp_total_duration = elapsed, lp_results = pool_results p\<rparr>"

section \<open>Summary\<close>

definition lt_percentile :: "duration list \<Rightarrow> int \<Rightarrow> duration" where
  "lt_percentile vs p =
     (if vs = [] then 0
      else
        let sorted = sort vs; n = int (length sorted) in
        if p \<le> 0 then sorted ! 0
        else if 100 \<le> p then sorted ! (length sorted - 1)
        else
          let index = trunc_div (go_add (go_mul n p) (- 1)) 100;
              index = (if index < 0 then 0 else index);
              index = (if n \<le> index then n - 1 else index)
          in sorted ! nat index)"

definition count_status :: "int \<Rightarrow> (int \<times> int) list \<Rightarrow> (int \<times> int) list" where
  "count_status st m = AList.update st (case map_of m st of None \<Rightarrow> 1 | Some n \<Rightarrow> n + 1) m"

record lt_totals =
  tt_status_counts :: "(int \<times> int) list"
  tt_latencies :: "duration list"
  tt_ttfts :: "duration list"
  tt_failures :: int
  tt_chunks :: int
  tt_sample_error :: string

definition add_result :: "lt_result \<Rightarrow> lt_totals \<Rightarrow> lt_totals" where
  "add_result item t =
     (let t = t\<lparr>tt_status_counts := count_status (lx_status item) (tt_status_counts t)\<rparr>;
          t = (if 0 < lx_latency item then t\<lparr>tt_latencies := tt_latencies t @ [lx_latency item]\<rparr> else t);
          t = (if 0 < lx_ttft item then t\<lparr>tt_ttfts := tt_ttfts t @ [lx_ttft item]\<rparr> else t);
          t = t\<lparr>tt_chunks := go_add (tt_chunks t) (lx_stream_chunks item)\<rparr>
      in case lx_err item of
           None \<Rightarrow> t
         | Some e \<Rightarrow>
             t\<lparr>tt_failures := tt_failures t + 1,
               tt_sample_error := (if tt_sample_error t = [] then err_text e else tt_sample_error t)\<rparr>)"

definition results_totals :: "lt_result list \<Rightarrow> lt_totals" where
  "results_totals items =
     fold add_result items
       \<lparr>tt_status_counts = [], tt_latencies = [], tt_ttfts = [], tt_failures = 0, tt_chunks = 0,
        tt_sample_error = []\<rparr>"

record lt_summary =
  ls_Requests :: int
  ls_Concurrency :: int
  ls_Stream :: bool
  ls_TotalDurationMS :: int
  ls_Success :: int
  ls_Failure :: int
  ls_StatusCounts :: "(int \<times> int) list"
  ls_LatencyP50MS :: int
  ls_LatencyP95MS :: int
  ls_LatencyMaxMS :: int
  ls_TTFTP50MS :: int
  ls_TTFTP95MS :: int
  ls_TTFTMaxMS :: int
  ls_StreamChunks :: int
  ls_SampleError :: string

definition percentile_ms :: "bool \<Rightarrow> duration list \<Rightarrow> int \<Rightarrow> int" where
  "percentile_ms shown vs p = (if shown \<and> 0 < length vs then milliseconds (lt_percentile vs p) else 0)"

definition buildSummary :: "lt_report \<Rightarrow> lt_summary" where
  "buildSummary rep =
     (let t = results_totals (lp_results rep) in
      \<lparr>ls_Requests = lp_requests rep, ls_Concurrency = lp_concurrency rep, ls_Stream = lp_stream rep,
       ls_TotalDurationMS = milliseconds (lp_total_duration rep),
       ls_Success = lp_requests rep - tt_failures t, ls_Failure = tt_failures t,
       ls_StatusCounts = tt_status_counts t,
       ls_LatencyP50MS = percentile_ms True (tt_latencies t) 50,
       ls_LatencyP95MS = percentile_ms True (tt_latencies t) 95,
       ls_LatencyMaxMS = percentile_ms True (tt_latencies t) 100,
       ls_TTFTP50MS = percentile_ms (lp_stream rep) (tt_ttfts t) 50,
       ls_TTFTP95MS = percentile_ms (lp_stream rep) (tt_ttfts t) 95,
       ls_TTFTMaxMS = percentile_ms (lp_stream rep) (tt_ttfts t) 100,
       ls_StreamChunks = tt_chunks t, ls_SampleError = tt_sample_error t\<rparr>)"

definition formatStatusCounts :: "(int \<times> int) list \<Rightarrow> string" where
  "formatStatusCounts counts =
     join '','' (map (\<lambda>k. itoa k @ ''='' @ itoa (the (map_of counts k))) (sort (map fst counts)))"

definition ms_text :: "int \<Rightarrow> string" where
  "ms_text ms = duration_text (go_mul ms millisecond)"

definition bool_text :: "bool \<Rightarrow> string" where
  "bool_text b = (if b then ''true'' else ''false'')"

definition printSummary :: "lt_summary \<Rightarrow> string list" where
  "printSummary smry =
     [''requests='' @ itoa (ls_Requests smry) @ '' concurrency='' @ itoa (ls_Concurrency smry) @ '' stream='' @
        bool_text (ls_Stream smry) @ '' total_duration='' @ ms_text (ls_TotalDurationMS smry),
      ''success='' @ itoa (ls_Success smry) @ '' failure='' @ itoa (ls_Failure smry),
      ''status_counts='' @ formatStatusCounts (ls_StatusCounts smry)] @
     (if 0 < ls_LatencyP95MS smry \<or> 0 < ls_LatencyP50MS smry \<or> 0 < ls_LatencyMaxMS smry
      then [''latency_p50='' @ ms_text (ls_LatencyP50MS smry) @ '' latency_p95='' @ ms_text (ls_LatencyP95MS smry) @
            '' latency_max='' @ ms_text (ls_LatencyMaxMS smry)]
      else []) @
     (if ls_Stream smry
      then [''stream_chunks_total='' @ itoa (ls_StreamChunks smry)] @
           (if 0 < ls_TTFTP95MS smry \<or> 0 < ls_TTFTP50MS smry \<or> 0 < ls_TTFTMaxMS smry
            then [''ttft_p50='' @ ms_text (ls_TTFTP50MS smry) @ '' ttft_p95='' @ ms_text (ls_TTFTP95MS smry) @
                  '' ttft_max='' @ ms_text (ls_TTFTMaxMS smry)]
            else [])
      else []) @
     (if ls_SampleError smry \<noteq> [] then [''sample_error='' @ ls_SampleError smry] else [])"

text \<open>The summary as JSON; a zero under \<open>omitempty\<close> is left out, and a map's keys are sorted as texts.\<close>

definition omit_zero :: "string \<Rightarrow> int \<Rightarrow> (string \<times> json) list" where
  "omit_zero name n = (if n = 0 then [] else [(name, num n)])"

definition status_counts_json :: "(int \<times> int) list \<Rightarrow> json" where
  "status_counts_json counts = JObj (sort_key fst (map (\<lambda>(k, n). (itoa k, num n)) counts))"

definition summary_json :: "lt_summary \<Rightarrow> json" where
  "summary_json smry =
     JObj ([(''requests'', num (ls_Requests smry)), (''concurrency'', num (ls_Concurrency smry)),
       (''stream'', JBool (ls_Stream smry)), (''total_duration_ms'', num (ls_TotalDurationMS smry)),
       (''success'', num (ls_Success smry)), (''failure'', num (ls_Failure smry)),
       (''status_counts'', status_counts_json (ls_StatusCounts smry)),
       (''latency_p50_ms'', num (ls_LatencyP50MS smry)), (''latency_p95_ms'', num (ls_LatencyP95MS smry)),
       (''latency_max_ms'', num (ls_LatencyMaxMS smry))] @
       omit_zero ''ttft_p50_ms'' (ls_TTFTP50MS smry) @ omit_zero ''ttft_p95_ms'' (ls_TTFTP95MS smry) @
       omit_zero ''ttft_max_ms'' (ls_TTFTMaxMS smry) @ omit_zero ''stream_chunks_total'' (ls_StreamChunks smry) @
       omit_empty ''sample_error'' (ls_SampleError smry))"

text \<open>\<open>json.MarshalIndent\<close> with two spaces.\<close>

definition new_line :: "nat \<Rightarrow> string" where
  "new_line depth = CHR 0x0A # concat (replicate depth ''  '')"

fun indented :: "nat \<Rightarrow> json \<Rightarrow> string" where
  "indented d (JArr vs) =
     (if vs = [] then ''[]''
      else CHR ''['' # new_line (d + 1) @ join ('','' @ new_line (d + 1)) (map (indented (d + 1)) vs) @ new_line d @ '']'')"
| "indented d (JObj ms) =
     (if ms = [] then [CHR 0x7B, CHR 0x7D]
      else CHR 0x7B # new_line (d + 1) @
           join ('','' @ new_line (d + 1)) (map (\<lambda>(k, v). quoted k @ '': '' @ indented (d + 1) v) ms) @
           new_line d @ [CHR 0x7D])"
| "indented d v = encode v"

definition printJSONSummary :: "lt_summary \<Rightarrow> string" where
  "printJSONSummary smry = indented 0 (summary_json smry) @ [CHR 0x0A]"

section \<open>Thresholds\<close>

definition evaluateThresholds :: "lt_summary \<Rightarrow> lt_config \<Rightarrow> err option" where
  "evaluateThresholds smry cfg =
     (let successRate = f64_div (f64_of_int (ls_Success smry)) (f64_of_int (ls_Requests smry)) in
      if f64_less (f64_of_int 0) (lt_MinSuccessRate cfg) \<and> f64_less successRate (lt_MinSuccessRate cfg)
      then Some (NewErr (''success rate '' @ fixed3_text successRate @ '' below threshold '' @
                   fixed3_text (lt_MinSuccessRate cfg)))
      else if 0 < lt_MaxLatencyP95 cfg \<and> lt_MaxLatencyP95 cfg < go_mul (ls_LatencyP95MS smry) millisecond
      then Some (NewErr (''latency p95 '' @ ms_text (ls_LatencyP95MS smry) @ '' exceeds threshold '' @
                   duration_text (lt_MaxLatencyP95 cfg)))
      else if 0 < lt_MaxTTFTP95 cfg \<and> \<not> ls_Stream smry
      then Some (NewErr ''max-ttft-p95 requires stream mode'')
      else if 0 < lt_MaxTTFTP95 cfg \<and> lt_MaxTTFTP95 cfg < go_mul (ls_TTFTP95MS smry) millisecond
      then Some (NewErr (''ttft p95 '' @ ms_text (ls_TTFTP95MS smry) @ '' exceeds threshold '' @
                   duration_text (lt_MaxTTFTP95 cfg)))
      else None)"

text \<open>
  \<open>main\<close> for the report that the load test makes: the status, the output and what is written to standard error.
  The flag package ends the process itself, with status 0 after a request for help and 2 after an error.
\<close>

definition lines_text :: "string list \<Rightarrow> string" where
  "lines_text ls = concat (map (\<lambda>l. l @ [CHR 0x0A]) ls)"

definition loadtest_main :: "(lt_config \<Rightarrow> lt_report) \<Rightarrow> string list \<Rightarrow> int \<times> string \<times> string" where
  "loadtest_main run args =
     (case loadtest_parseFlags args of
        Inl e \<Rightarrow> (if e = flag_help then 0 else 2, [], [])
      | Inr cfg \<Rightarrow>
          if lt_APIKey cfg = [] then (1, [], lines_text [''-auth-key is required''])
          else if lt_Requests cfg \<le> 0 \<or> lt_Concurrency cfg \<le> 0
          then (1, [], lines_text [''-requests and -concurrency must be > 0''])
          else
            let smry = buildSummary (run cfg);
                out = (if lt_JSON cfg then printJSONSummary smry else lines_text (printSummary smry))
            in case evaluateThresholds smry cfg of
                 Some e \<Rightarrow> (1, out, lines_text [''load test thresholds failed: '' @ err_text e])
               | None \<Rightarrow> (0, out, []))"

end
