(* ===== verification/LoadTestFacts.thy ===== *)
theory LoadTestFacts
  imports LoadTest ChainFacts
begin

text \<open>
  Facts on the parts of the load test: ranks in a sorted list, the distribution of the requests over the
  workers, the counts of the summary, and what its reader makes of the gateway's answers.
\<close>

section \<open>Ranks\<close>

lemma sorted_rank:
  fixes xs :: "'a :: linorder list"
  assumes "sorted xs" and "i < length xs"
  shows "Suc i \<le> length (filter (\<lambda>x. x \<le> xs ! i) xs)" and "length (filter (\<lambda>x. x < xs ! i) xs) \<le> i"
proof -
  have parts: "filter P xs = filter P (take (Suc i) xs) @ filter P (drop (Suc i) xs)"
    "filter P xs = filter P (take i xs) @ filter P (drop i xs)" for P
    by (simp_all flip: filter_append)
  have "filter (\<lambda>x. x \<le> xs ! i) (take (Suc i) xs) = take (Suc i) xs"
    using assms by (auto simp: filter_id_conv in_set_conv_nth sorted_iff_nth_mono)
  then show "Suc i \<le> length (filter (\<lambda>x. x \<le> xs ! i) xs)" using assms(2) by (simp add: parts(1))
  have "filter (\<lambda>x. x < xs ! i) (drop i xs) = []"
    using assms by (auto simp: filter_empty_conv in_set_conv_nth sorted_iff_nth_mono not_less)
  then show "length (filter (\<lambda>x. x < xs ! i) xs) \<le> i"
    using le_trans [OF length_filter_le [of _ "take i xs"]] assms(2) by (simp add: parts(2))
qed

lemma length_filter_sort: "length (filter P (sort xs)) = length (filter P xs)"
  by (metis mset_filter mset_sort size_mset)

definition nearest_rank :: "int list \<Rightarrow> int \<Rightarrow> int \<Rightarrow> bool" where
  "nearest_rank vs p x \<longleftrightarrow>
     x \<in> set vs \<and> p * int (length vs) \<le> 100 * int (length (filter (\<lambda>v. v \<le> x) vs)) \<and>
     100 * int (length (filter (\<lambda>v. v < x) vs)) < p * int (length vs)"

lemma nearest_rankI:
  assumes "i < length vs" and "p * int (length vs) \<le> 100 * (int i + 1)" and "100 * int i < p * int (length vs)"
  shows "nearest_rank vs p (sort vs ! i)"
proof -
  have i: "i < length (sort vs)" using assms(1) by simp
  then have "sort vs ! i \<in> set vs" by (metis nth_mem set_sort)
  moreover note sorted_rank [OF sorted_sort i, unfolded length_filter_sort]
  ultimately show ?thesis using assms(2,3) by (simp add: nearest_rank_def)
qed

lemma percentile_rank:
  assumes "vs \<noteq> []" and "1 \<le> p" "p \<le> 100" and "100 * int (length vs) \<le> max_int"
  shows "nearest_rank vs p (lt_percentile vs p)"
proof -
  let ?n = "int (length vs)"
  have n: "0 < ?n" using assms(1) by simp
  show ?thesis
  proof (cases "p = 100")
    case True
    then have "lt_percentile vs p = sort vs ! (length vs - 1)" using assms(1) by (simp add: lt_percentile_def)
    moreover have "nearest_rank vs p (sort vs ! (length vs - 1))"
      by (rule nearest_rankI) (use True n assms(1) in \<open>auto simp: of_nat_diff\<close>)
    ultimately show ?thesis by simp
  next
    case False
    have "?n * p \<le> ?n * 100" and "?n * 1 \<le> ?n * p" by (rule mult_left_mono; use assms(2,3) in simp)+
    then have h: "?n * p \<le> 100 * ?n" "?n \<le> ?n * p" by linarith+
    moreover have "min_int \<le> 0" by (simp add: min_int_def)
    ultimately have b: "in_int64 (?n * p)" "in_int64 (?n * p + - 1)" "0 \<le> ?n * p - 1" "?n * p \<le> 100 * ?n"
      using assms(4) n unfolding in_int64_def by linarith+
    have "trunc_div (go_add (go_mul ?n p) (- 1)) 100 = (?n * p - 1) div 100"
      using b by (simp add: go_mul_def trunc_div_nonneg)
    moreover have d: "0 \<le> (?n * p - 1) div 100" "100 * ((?n * p - 1) div 100) \<le> ?n * p - 1"
      "?n * p - 1 < 100 * ((?n * p - 1) div 100) + 100"
      using b(3) div_bounds [of 100 "?n * p - 1"] by (auto simp: pos_imp_zdiv_nonneg_iff)
    moreover have "(?n * p - 1) div 100 < ?n" using d(2) b(4) n by linarith
    ultimately have "lt_percentile vs p = sort vs ! nat ((?n * p - 1) div 100)"
      using assms(1-3) False by (simp add: lt_percentile_def Let_def)
    moreover have "nearest_rank vs p (sort vs ! nat ((?n * p - 1) div 100))"
      by (rule nearest_rankI) (use d \<open>(?n * p - 1) div 100 < ?n\<close> in \<open>auto simp: mult.commute\<close>)
    ultimately show ?thesis by simp
  qed
qed

section \<open>Workers\<close>

definition busy_of :: "worker \<Rightarrow> int list" where
  "busy_of x = (case x of Busy i \<Rightarrow> [i] | _ \<Rightarrow> [])"

definition busy :: "worker list \<Rightarrow> int multiset" where
  "busy ws = mset (concat (map busy_of ws))"

lemma busy_update:
  assumes "w < length ws"
  shows "busy (ws[w := y]) + mset (busy_of (ws ! w)) = busy ws + mset (busy_of y)"
proof -
  have "busy ws = busy (take w ws) + mset (busy_of (ws ! w)) + busy (drop (Suc w) ws)"
    unfolding busy_def by (subst id_take_nth_drop [OF assms]) simp
  moreover have "busy (ws[w := y]) = busy (take w ws) + mset (busy_of y) + busy (drop (Suc w) ws)"
    unfolding busy_def by (subst upd_conv_take_nth_drop [OF assms]) simp
  ultimately show ?thesis by simp
qed

definition returned :: "worker list \<Rightarrow> nat" where
  "returned ws = length (filter (\<lambda>x. x = Returned) ws)"

lemma returned_update:
  assumes "w < length ws"
  shows "returned (ws[w := y]) + (if ws ! w = Returned then 1 else 0) = returned ws + (if y = Returned then 1 else 0)"
proof -
  have "returned ws = returned (take w ws) + (if ws ! w = Returned then 1 else 0) + returned (drop (Suc w) ws)"
    unfolding returned_def by (subst id_take_nth_drop [OF assms]) simp
  moreover have "returned (ws[w := y]) = returned (take w ws) + (if y = Returned then 1 else 0) + returned (drop (Suc w) ws)"
    unfolding returned_def by (subst upd_conv_take_nth_drop [OF assms]) simp
  ultimately show ?thesis by simp
qed

text \<open>
  After \<open>k\<close> takes the indices below \<open>k\<close>, up to the number of requests, are at a worker or done, each once, and
  every further take has made a worker return.
\<close>

definition pool_inv :: "lt_config \<Rightarrow> nat \<Rightarrow> pool \<Rightarrow> bool" where
  "pool_inv cfg k p \<longleftrightarrow>
     pool_next p = of_nat k \<and> length (pool_workers p) = nat (lt_Concurrency cfg) \<and>
     length (pool_results p) = nat (lt_Requests cfg) \<and>
     busy (pool_workers p) + mset (map fst (pool_done p)) = mset (map int [0..<min k (nat (lt_Requests cfg))]) \<and>
     k = min k (nat (lt_Requests cfg)) + returned (pool_workers p) \<and>
     (\<forall>(i, r) \<in> set (pool_done p). 0 \<le> i \<and> i < lt_Requests cfg \<and> pool_results p ! nat i = r)"

definition pool_bounds :: "lt_config \<Rightarrow> bool" where
  "pool_bounds cfg \<longleftrightarrow> 0 < lt_Requests cfg \<and> 0 < lt_Concurrency cfg \<and> lt_Requests cfg + lt_Concurrency cfg \<le> max_int"

lemma idle_workers: "busy (replicate n Idle) = {#}" "returned (replicate n Idle) = 0"
  by (induction n) (simp_all add: busy_def busy_of_def returned_def)

lemma pool_inv_start: "pool_inv cfg 0 (pool_start cfg)"
  by (simp add: pool_inv_def pool_start_def idle_workers)

lemma returned_le: "returned ws \<le> length ws"
  by (simp add: returned_def)

lemma returned_less: "w < length ws \<Longrightarrow> ws ! w \<noteq> Returned \<Longrightarrow> returned ws < length ws"
  unfolding returned_def by (rule length_filter_less [OF nth_mem]) auto

lemma take_index_inv:
  assumes b: "pool_bounds cfg" and p: "pool_inv cfg k p" and w: "w < length (pool_workers p)"
    and idle: "pool_workers p ! w = Idle"
  shows "pool_inv cfg (Suc k) (take_index cfg w p)"
    and "busy (pool_workers (take_index cfg w p)) =
           busy (pool_workers p) + (if k < nat (lt_Requests cfg) then {#int k#} else {#})"
proof -
  let ?n = "nat (lt_Requests cfg)"
  have "k \<le> ?n + returned (pool_workers p)" using p by (simp add: pool_inv_def min_def split: if_splits)
  moreover have "returned (pool_workers p) < nat (lt_Concurrency cfg)"
    using returned_less [OF w] idle p by (simp add: pool_inv_def)
  ultimately have "int k < int ?n + int (nat (lt_Concurrency cfg))" by linarith
  then have "int k < lt_Requests cfg + lt_Concurrency cfg" using b by (simp add: pool_bounds_def)
  then have k: "int (Suc k) \<le> max_int" using b by (simp add: pool_bounds_def)
  have nxt: "pool_next p + 1 = of_nat (Suc k)" using p by (simp add: pool_inv_def add.commute)
  have "sint (of_nat (Suc k) :: u64) = int (Suc k)"
    using k wrap64_eq_sint [of "int (Suc k)"] by (simp add: in_int64_def min_int_def del: of_nat_Suc)
  then have index: "go_add (sint (pool_next p + 1)) (- 1) = int k"
    unfolding nxt using k by (subst go_add_exact) (simp_all add: in_int64_def min_int_def)
  let ?y = "if lt_Requests cfg \<le> int k then Returned else Busy (int k)"
  have take: "take_index cfg w p =
      p\<lparr>pool_next := of_nat (Suc k), pool_workers := (pool_workers p)[w := ?y]\<rparr>"
    unfolding take_index_def Let_def index by (simp only: nxt)
  have lt: "lt_Requests cfg \<le> int k \<longleftrightarrow> \<not> k < ?n" using b by (auto simp: pool_bounds_def)
  have bu: "busy ((pool_workers p)[w := ?y]) = busy (pool_workers p) + (if k < ?n then {#int k#} else {#})"
    using busy_update [OF w, of ?y] idle by (simp add: busy_of_def lt)
  then show "busy (pool_workers (take_index cfg w p)) =
      busy (pool_workers p) + (if k < ?n then {#int k#} else {#})" by (simp add: take)
  have re: "returned ((pool_workers p)[w := ?y]) = returned (pool_workers p) + (if k < ?n then 0 else 1)"
    using returned_update [OF w, of ?y] idle by (simp add: lt)
  show "pool_inv cfg (Suc k) (take_index cfg w p)"
  proof (cases "k < ?n")
    case True
    then have "min (Suc k) ?n = Suc k" "min k ?n = k" by simp_all
    with p bu re True show ?thesis by (simp add: pool_inv_def take add.commute)
  next
    case False
    then have "min (Suc k) ?n = ?n" "min k ?n = ?n" by simp_all
    with p bu re False show ?thesis by (simp add: pool_inv_def take)
  qed
qed

lemma store_result_inv:
  assumes p: "pool_inv cfg k p" and w: "w < length (pool_workers p)" and i: "pool_workers p ! w = Busy i"
  shows "pool_inv cfg k (store_result w i r p)"
    and "busy (pool_workers (store_result w i r p)) + {#i#} = busy (pool_workers p)"
proof -
  let ?n = "nat (lt_Requests cfg)"
  have bu: "busy ((pool_workers p)[w := Idle]) + {#i#} = busy (pool_workers p)"
    using busy_update [OF w, of Idle] i by (simp add: busy_of_def)
  then show "busy (pool_workers (store_result w i r p)) + {#i#} = busy (pool_workers p)"
    by (simp add: store_result_def)
  have re: "returned ((pool_workers p)[w := Idle]) = returned (pool_workers p)"
    using returned_update [OF w, of Idle] i by simp
  have all: "busy (pool_workers p) + mset (map fst (pool_done p)) = mset (map int [0..<min k ?n])"
    using p by (simp add: pool_inv_def)
  then have "i \<in># mset (map int [0..<min k ?n])" using bu by (metis union_iff multi_member_last)
  then have range: "0 \<le> i" "i < lt_Requests cfg" by auto
  have "count (mset (map int [0..<min k ?n])) i \<le> 1"
    using distinct_count_atmost_1 [of "map int [0..<min k ?n]"] by (simp add: distinct_map)
  then have new: "i \<notin> fst ` set (pool_done p)"
    unfolding all [symmetric] bu [symmetric] by (auto simp: count_eq_zero_iff)
  have "(pool_results p)[nat i := r] ! nat j = r'" if "(j, r') \<in> set (pool_done p)" for j r'
  proof -
    have "\<forall>(j, r') \<in> set (pool_done p). 0 \<le> j \<and> j < lt_Requests cfg \<and> pool_results p ! nat j = r'"
      using p by (simp add: pool_inv_def)
    with that have "0 \<le> j" "pool_results p ! nat j = r'" by auto
    moreover have "j \<noteq> i" using that new by force
    ultimately show ?thesis using range by simp
  qed
  moreover have "busy ((pool_workers p)[w := Idle]) + add_mset i (mset (map fst (pool_done p))) =
      mset (map int [0..<min k ?n])"
    using all bu by (metis add.assoc add_mset_add_single union_commute)
  ultimately show "pool_inv cfg k (store_result w i r p)"
    using p range re by (auto simp: pool_inv_def store_result_def)
qed

text \<open>The takes and stores that are left at most.\<close>

definition pool_measure :: "lt_config \<Rightarrow> nat \<Rightarrow> pool \<Rightarrow> nat" where
  "pool_measure cfg k p = 2 * (nat (lt_Requests cfg) + nat (lt_Concurrency cfg) - k) + size (busy (pool_workers p))"

lemma pool_inv_k: "pool_inv cfg k p \<Longrightarrow> k \<le> nat (lt_Requests cfg) + nat (lt_Concurrency cfg)"
  using returned_le [of "pool_workers p"] by (simp add: pool_inv_def min_def split: if_splits)

lemma pool_step_inv:
  assumes "pool_bounds cfg" and "pool_inv cfg k p" and "pool_step cfg p q"
  shows "\<exists>k'. pool_inv cfg k' q \<and> pool_measure cfg k' q < pool_measure cfg k p"
  using assms(3)
proof (rule pool_stepE)
  fix w assume w: "w < length (pool_workers p)" "pool_workers p ! w = Idle" and q: "q = take_index cfg w p"
  note t = take_index_inv [OF assms(1,2) w]
  with pool_inv_k [OF t(1)] show ?thesis
    by (intro exI [of _ "Suc k"]) (auto simp: q pool_measure_def split: if_splits)
next
  fix w i r assume w: "w < length (pool_workers p)" "pool_workers p ! w = Busy i" and q: "q = store_result w i r p"
  note t = store_result_inv [OF assms(2) w, of r]
  have "size (busy (pool_workers p)) = Suc (size (busy (pool_workers q)))"
    unfolding t(2) [symmetric] q by simp
  with t(1) show ?thesis by (intro exI [of _ k]) (simp add: q pool_measure_def)
qed

lemma pool_run_inv:
  assumes "pool_bounds cfg"
  shows "(pool_step cfg ^^ m) (pool_start cfg) p \<Longrightarrow>
    \<exists>k. pool_inv cfg k p \<and> m + pool_measure cfg k p \<le> pool_measure cfg 0 (pool_start cfg)"
proof (induction m arbitrary: p)
  case 0
  then show ?case using pool_inv_start [of cfg] by auto
next
  case (Suc m)
  then obtain q where q: "(pool_step cfg ^^ m) (pool_start cfg) q" "pool_step cfg q p" by auto
  from Suc.IH [OF q(1)] obtain k where k: "pool_inv cfg k q"
    "m + pool_measure cfg k q \<le> pool_measure cfg 0 (pool_start cfg)" by blast
  from pool_step_inv [OF assms k(1) q(2)] k(2) show ?case by fastforce
qed

lemma pool_start_measure: "pool_measure cfg 0 (pool_start cfg) = 2 * (nat (lt_Requests cfg) + nat (lt_Concurrency cfg))"
  by (simp add: pool_measure_def pool_start_def idle_workers)

lemma pool_finished_parts:
  assumes "pool_bounds cfg" and "pool_inv cfg k p" and "pool_finished p"
  shows "mset (map fst (pool_done p)) = mset (map int [0..<nat (lt_Requests cfg)])"
proof -
  have all: "\<forall>x \<in> set (pool_workers p). x = Returned" using assms(3) by (simp add: pool_finished_def list_all_iff)
  then have "busy (pool_workers p) = {#}" by (auto simp: busy_def busy_of_def)
  moreover have "returned (pool_workers p) = nat (lt_Concurrency cfg)"
    using all assms(2) by (simp add: returned_def pool_inv_def)
  then have "min k (nat (lt_Requests cfg)) = nat (lt_Requests cfg)"
    using assms(1,2) by (auto simp: pool_inv_def pool_bounds_def min_def)
  ultimately show ?thesis using assms(2) by (simp add: pool_inv_def)
qed

lemma pool_progress: "\<not> pool_finished p \<Longrightarrow> \<exists>q. pool_step cfg p q"
proof -
  assume "\<not> pool_finished p"
  then obtain w where w: "w < length (pool_workers p)" "pool_workers p ! w \<noteq> Returned"
    by (auto simp: pool_finished_def list_all_length)
  then show ?thesis by (cases "pool_workers p ! w") (auto intro: pool_step.intros)
qed

section \<open>The summary\<close>

definition counted :: "(int \<times> int) list \<Rightarrow> int \<Rightarrow> int" where
  "counted m st = (case map_of m st of None \<Rightarrow> 0 | Some n \<Rightarrow> n)"

definition tally :: "('a \<Rightarrow> bool) \<Rightarrow> 'a list \<Rightarrow> int" where
  "tally P xs = int (length (filter P xs))"

lemma tally_simps [simp]:
  "tally P [] = 0" "tally P (x # xs) = (if P x then 1 else 0) + tally P xs"
  by (simp_all add: tally_def)

lemma counted_status: "counted (count_status st m) st' = counted m st' + (if st = st' then 1 else 0)"
  by (simp add: counted_def count_status_def update_conv' split: option.split)

lemma add_result_fields [simp]:
  "tt_status_counts (add_result x t) = count_status (lx_status x) (tt_status_counts t)"
  "tt_latencies (add_result x t) = tt_latencies t @ (if 0 < lx_latency x then [lx_latency x] else [])"
  "tt_ttfts (add_result x t) = tt_ttfts t @ (if 0 < lx_ttft x then [lx_ttft x] else [])"
  "tt_failures (add_result x t) = tt_failures t + (if lx_err x = None then 0 else 1)"
  by (simp_all add: add_result_def Let_def split: option.split)

lemma totals_from:
  "counted (tt_status_counts (fold add_result xs t)) st =
     counted (tt_status_counts t) st + tally (\<lambda>x. lx_status x = st) xs"
  "tt_failures (fold add_result xs t) = tt_failures t + tally (\<lambda>x. lx_err x \<noteq> None) xs"
  "tt_latencies (fold add_result xs t) = tt_latencies t @ filter (\<lambda>d. 0 < d) (map lx_latency xs)"
  "tt_ttfts (fold add_result xs t) = tt_ttfts t @ filter (\<lambda>d. 0 < d) (map lx_ttft xs)"
  by (induction xs arbitrary: t) (auto simp: counted_status)

lemma results_totals_parts:
  "counted (tt_status_counts (results_totals xs)) st = tally (\<lambda>x. lx_status x = st) xs"
  "tt_failures (results_totals xs) = tally (\<lambda>x. lx_err x \<noteq> None) xs"
  "tt_latencies (results_totals xs) = filter (\<lambda>d. 0 < d) (map lx_latency xs)"
  "tt_ttfts (results_totals xs) = filter (\<lambda>d. 0 < d) (map lx_ttft xs)"
  by (simp_all add: results_totals_def totals_from) (simp add: counted_def)

lemma tally_complement: "int (length xs) - tally (\<lambda>x. \<not> P x) xs = tally P xs"
  by (induction xs) auto

section \<open>The gateway's answers\<close>

lemma data_line_payload: "plain_data d \<Longrightarrow> streamLineData (data_line d) = Some d"
  using trim_prefix_append [of "''data: ''" d]
  by (auto simp: streamLineData_def plain_data_def has_prefix_iff simp del: append_Cons append.append_Cons)

lemma blank_payload: "streamLineData [CHR 0x0A] = None"
  by code_simp

lemma done_payload: "streamLineData (''data: [DONE]'' @ [CHR 0x0A]) = Some ''[DONE]''"
  by code_simp

text \<open>What a line does besides to the text read and the time of the first chunk.\<close>

definition bears_chunk :: "string \<Rightarrow> bool" where
  "bears_chunk l \<longleftrightarrow> (case streamLineData l of None \<Rightarrow> False | Some d \<Rightarrow> d \<noteq> ''[DONE]'')"

lemma consumeLine_effect:
  "srs_chunk_count (lt_consumeLine st (line, t) s) = srs_chunk_count s + (if bears_chunk line then 1 else 0)"
  "srs_saw_done (lt_consumeLine st (line, t) s) \<longleftrightarrow> srs_saw_done s \<or> streamLineData line = Some ''[DONE]''"
  by (auto simp: lt_consumeLine_def bears_chunk_def Let_def split: option.split)

lemma consumed_lines:
  "srs_chunk_count (fold (lt_consumeLine st) ls s) = srs_chunk_count s +
     tally (\<lambda>(l, t). bears_chunk l) ls"
  "srs_saw_done (fold (lt_consumeLine st) ls s) \<longleftrightarrow>
     srs_saw_done s \<or> (\<exists>(l, t) \<in> set ls. streamLineData l = Some ''[DONE]'')"
  by (induction ls arbitrary: s) (auto simp: consumeLine_effect)

lemma tally_zip: "length ts = length xs \<Longrightarrow> tally (\<lambda>(l, t). P l) (zip xs ts) = tally P xs"
  by (induction xs ts rule: list_induct2') auto

lemma tally_append [simp]: "tally P (xs @ ys) = tally P xs + tally P ys"
  by (induction xs) auto

lemma framed_tally:
  assumes "list_all valid_chunk cs"
  shows "tally bears_chunk
      (concat (map (\<lambda>c. [data_line (chunk_text c), [CHR 0x0A]]) cs)) = int (length cs)"
  using assms
proof (induction cs)
  case (Cons c cs)
  then show ?case
    using data_line_payload [OF chunk_line(1) [of c]] chunk_line(2) [of c] by (simp add: blank_payload bears_chunk_def)
qed simp

lemma stream_consumed:
  assumes "list_all valid_chunk cs" and "cs \<noteq> []"
    and "lr_status resp = 200" and "lr_read_err resp = None"
    and "lr_body resp = frames (map toCompletionChunk cs) @ sse_done"
  shows "lx_err (consumeStream resp started) = None"
    and "lx_stream_chunks (consumeStream resp started) = int (length cs)"
proof -
  let ?ls = "concat (map (\<lambda>c. [data_line (chunk_text c), [CHR 0x0A]]) cs) @ [''data: [DONE]'' @ [CHR 0x0A], [CHR 0x0A]]"
  have "\<forall>c \<in> set cs. CHR 0x0A \<notin> set (chunk_text c)"
    using assms(1) chunk_line(3) by (auto simp: list_all_iff)
  from frames_lines [OF this] have lines: "timed_lines resp = zip ?ls (map (lr_line_time resp) [0..<length ?ls])"
    by (simp only: timed_lines_def Let_def assms(5))
  have "tally (\<lambda>(l, t). bears_chunk l) (timed_lines resp) = tally bears_chunk ?ls"
    unfolding lines by (rule tally_zip) simp
  also have "\<dots> = int (length cs)"
    using framed_tally [OF assms(1)] by (simp only: tally_append tally_simps bears_chunk_def blank_payload done_payload) simp
  finally have n: "tally (\<lambda>(l, t). bears_chunk l) (timed_lines resp) = int (length cs)" .
  have "''data: [DONE]'' @ [CHR 0x0A] \<in> set (map fst (timed_lines resp))" unfolding lines by (subst map_fst_zip) auto
  then obtain t where "(''data: [DONE]'' @ [CHR 0x0A], t) \<in> set (timed_lines resp)" by auto
  then have d: "\<exists>(l, t) \<in> set (timed_lines resp). streamLineData l = Some ''[DONE]''" using done_payload by blast
  have c: "0 < int (length cs)" using assms(2) by simp
  show "lx_err (consumeStream resp started) = None"
    "lx_stream_chunks (consumeStream resp started) = int (length cs)"
    using c d by (simp_all add: consumeStream_def consumed_lines n Let_def assms(3,4) answered_def zero_result_def)
qed

text \<open>The request: its members are sorted, which the handler does not mind.\<close>

definition loadtest_message :: "lt_config \<Rightarrow> completion_request" where
  "loadtest_message cfg =
     \<lparr>cr_model = (if trim_space (lt_Model cfg) = [] then [] else lt_Model cfg),
      cr_messages = [\<lparr>cm_role = ''user'', cm_content = lt_Message cfg\<rparr>], cr_stream = lt_Stream cfg\<rparr>"

lemma request_decoded:
  assumes "valid_utf8 (lt_Message cfg)" and "valid_utf8 (lt_Model cfg)"
  shows "and_then (decode_stream (buildRequestBody cfg)) (decode_struct dec_completion_request) =
    Inr (loadtest_message cfg)"
proof -
  define v where "v = JObj
       ([(''messages'', JArr [JObj [(''content'', JStr (lt_Message cfg)), (''role'', JStr ''user'')]])] @
        (if trim_space (lt_Model cfg) \<noteq> [] then [(''model'', JStr (lt_Model cfg))] else []) @
        [(''stream'', JBool (lt_Stream cfg))])"
  have "wf_json v" using assms by (auto simp: v_def)
  then have "decode_stream (encode v) = Inr v"
    using decode_stream_encode [of v "[]"] by (simp add: ends_value_def)
  moreover have "decode_struct dec_completion_request v = Inr (loadtest_message cfg)"
    by (simp add: v_def loadtest_message_def decode_struct_def dec_completion_request_def dec_cmessage_def
        string_field_def list_field_def bool_field_def read_field_def equal_fold_def lower_char_def)
  ultimately show ?thesis by (simp add: buildRequestBody_def v_def)
qed

lemma contains_infix: "contains (a @ b @ c) b"
  by (auto simp: contains_iff)

lemma completion_consumed:
  assumes "lr_status resp = 200" and "lr_read_err resp = None"
    and "lr_body resp = encode (completion_response_json r) @ tail" and "cp_object r = ''chat.completion''"
  shows "lx_err (consumeJSON resp started) = None"
proof -
  have "encode (completion_response_json r) =
      (CHR 0x7B # quoted ''id'' @ '':'' @ quoted (cp_id r) @ '','') @ completion_mark @
      ('','' @ quoted ''created'' @ '':'' @ itoa (cp_created r) @ '','' @ quoted ''model'' @ '':'' @ quoted (cp_model r) @
       '','' @ quoted ''choices'' @ '':'' @ encode (JArr (map cchoice_json (cp_choices r))) @ '','' @
       quoted ''usage'' @ '':'' @ encode (cusage_json (cp_usage r)) @ [CHR 0x7D])"
    by (simp add: completion_response_json_def assms(4) completion_mark_def num_def)
  then have "contains (lr_body resp) completion_mark"
    unfolding assms(3) by (simp only: append_assoc contains_infix)
  then show ?thesis by (simp add: consumeJSON_def assms(1,2) answered_def zero_result_def)
qed

end
