(* ===== verification/Float64Facts.thy ===== *)
theory Float64Facts
  imports Complex_Main Float64
begin

text \<open>
  What rounding does to a quotient, in real numbers: the value of a finite \<open>float64\<close>, that integers up to
  \<open>2 ^ 53\<close> are exact, and on which side of 1 a rounded quotient lies.
\<close>

definition fin_value :: "int \<Rightarrow> int \<Rightarrow> real" where
  "fin_value m e = of_int m * 2 powi e"

lemma fin_units_value: "- 1074 \<le> e \<Longrightarrow> of_int (fin_units False m e) = fin_value m (e + 1074)"
  by (simp add: fin_units_def fin_value_def power_int_def)

lemma fin_value_shift: "fin_value m (e + k) = fin_value m e * 2 powi k"
  by (simp add: fin_value_def power_int_add)

lemma fin_less_iff:
  assumes "- 1074 \<le> e" and "- 1074 \<le> f"
  shows "f64_less (Fin False m e) (Fin False n f) \<longleftrightarrow> fin_value m e < fin_value n f"
proof -
  have "f64_less (Fin False m e) (Fin False n f) \<longleftrightarrow>
      (of_int (fin_units False m e) :: real) < of_int (fin_units False n f)" by simp
  also have "\<dots> \<longleftrightarrow> fin_value m e * 2 powi 1074 < fin_value n f * 2 powi 1074"
    by (simp only: fin_units_value assms fin_value_shift)
  also have "\<dots> \<longleftrightarrow> fin_value m e < fin_value n f" by (rule mult_less_cancel_right_pos) (rule zero_less_power_int, simp)
  finally show ?thesis .
qed

section \<open>Scaling and rounding\<close>

lemma powi2_pos: "0 < (2 :: real) powi n"
  by simp

lemma powi2_less: "(2 :: real) powi m < 2 powi n \<Longrightarrow> m < n"
  using power_int_increasing [of n m "2 :: real"] by (meson not_le one_le_numeral)

lemma powi2_le: "(2 :: real) powi m \<le> 2 powi n \<Longrightarrow> m \<le> n"
  using power_int_strict_increasing [of n m "2 :: real"] by (meson not_le one_less_numeral_iff semiring_norm(76))

lemma over_power_value:
  assumes "over_power 2 k (a, b) = (a', b')" and "0 < b"
  shows "of_int a' / of_int b' = of_int a / of_int b / (2 :: real) powi k" and "0 < b'"
    and "0 \<le> a \<Longrightarrow> 0 \<le> a'" and "0 < a \<Longrightarrow> 0 < a'"
  using assms by (auto simp: over_power_def power_int_def field_simps split: if_splits)

lemma round_half_even_mono:
  assumes "0 < b"
  shows "of_int n \<le> of_int a / (of_int b :: real) \<Longrightarrow> n \<le> round_half_even a b"
    and "of_int a / (of_int b :: real) \<le> of_int n \<Longrightarrow> round_half_even a b \<le> n"
proof -
  have d: "a = b * (a div b) + a mod b" "0 \<le> a mod b" "a mod b < b" using assms by auto
  show "n \<le> round_half_even a b" if "of_int n \<le> of_int a / (of_int b :: real)"
  proof -
    have "(of_int (n * b) :: real) \<le> of_int a" using that assms by (simp add: field_simps)
    then have "n * b \<le> a" by (simp only: of_int_le_iff)
    then have "n \<le> a div b" using assms by (simp add: zdiv_mono1 [of "n * b" a b, simplified])
    then show ?thesis by (simp add: round_half_even_def Let_def)
  qed
  show "round_half_even a b \<le> n" if "of_int a / (of_int b :: real) \<le> of_int n"
  proof -
    have "(of_int a :: real) \<le> of_int (n * b)" using that assms by (simp add: field_simps)
    then have le: "a \<le> n * b" by (simp only: of_int_le_iff)
    have "b * (a div b) \<le> b * n" using d le by (simp only: mult.commute [of n b])
    then have q: "a div b \<le> n" using assms mult_le_cancel_left_pos by blast
    have "a div b + 1 \<le> n" if "a mod b \<noteq> 0"
    proof (rule ccontr)
      assume "\<not> a div b + 1 \<le> n"
      with q have "a div b = n" by simp
      with le d(1,2) that show False by (simp add: mult.commute)
    qed
    then show ?thesis using q assms by (auto simp: round_half_even_def Let_def)
  qed
qed

lemma round_half_even_exact: "0 < b \<Longrightarrow> of_int a / (of_int b :: real) = of_int n \<Longrightarrow> round_half_even a b = n"
  using round_half_even_mono(1) [of b n a] round_half_even_mono(2) [of b a n] by (simp add: order_antisym)

lemma log2_floor_bounds:
  "1 \<le> n \<Longrightarrow> 0 \<le> log2_floor n \<and> 2 ^ nat (log2_floor n) \<le> n \<and> n < 2 * 2 ^ nat (log2_floor n)"
proof (induction n rule: log2_floor.induct)
  case (1 n)
  show ?case
  proof (cases "n < 2")
    case True
    with 1(2) show ?thesis by (simp add: log2_floor.simps [of n])
  next
    case False
    then have IH: "0 \<le> log2_floor (n div 2)" "2 ^ nat (log2_floor (n div 2)) \<le> n div 2"
      "n div 2 < 2 * 2 ^ nat (log2_floor (n div 2))"
      using 1(1) by auto
    have "nat (1 + log2_floor (n div 2)) = Suc (nat (log2_floor (n div 2)))" using IH(1) by simp
    moreover define P where "P = (2 :: int) ^ nat (log2_floor (n div 2))"
    moreover from IH have "2 * P \<le> n" "n < 4 * P" unfolding P_def [symmetric] by presburger+
    ultimately show ?thesis using False IH(1) by (simp add: log2_floor.simps [of n])
  qed
qed

lemma log2_floor_powi:
  assumes "1 \<le> n"
  shows "2 powi log2_floor n \<le> (of_int n :: real)" and "(of_int n :: real) < 2 powi (log2_floor n + 1)"
proof -
  note b = log2_floor_bounds [OF assms]
  have p: "(2 :: real) powi log2_floor n = of_int (2 ^ nat (log2_floor n))" using b by (simp add: power_int_def)
  then show "2 powi log2_floor n \<le> (of_int n :: real)" using b by (simp only: of_int_le_iff)
  have "(2 :: real) powi (log2_floor n + 1) = of_int (2 * 2 ^ nat (log2_floor n))"
    by (subst power_int_add) (simp_all add: p)
  then show "(of_int n :: real) < 2 powi (log2_floor n + 1)" using b by (simp only: of_int_less_iff)
qed

lemma exponent_of_bounds:
  assumes "0 < a" and "0 < b"
  shows "2 powi exponent_of a b \<le> of_int a / (of_int b :: real)"
    and "of_int a / (of_int b :: real) < 2 powi (exponent_of a b + 1)"
proof -
  let ?q = "of_int a / (of_int b :: real)"
  define k where "k = log2_floor a - log2_floor b"
  obtain a' b' where s: "over_power 2 k (a, b) = (a', b')" by fastforce
  note v = over_power_value [OF s assms(2)]
  have la: "2 powi log2_floor a \<le> (of_int a :: real)" "(of_int a :: real) < 2 powi (log2_floor a + 1)"
    using log2_floor_powi [of a] assms(1) by auto
  have lb: "2 powi log2_floor b \<le> (of_int b :: real)" "(of_int b :: real) < 2 powi (log2_floor b + 1)"
    using log2_floor_powi [of b] assms(2) by auto
  have pos: "0 < (of_int b :: real)" "0 < (2 :: real) powi log2_floor b" using assms(2) by auto
  have "?q < 2 powi (log2_floor a + 1) / 2 powi log2_floor b"
    by (rule frac_less) (use la lb pos assms in simp_all)
  then have up: "?q < 2 powi (k + 1)" unfolding k_def by (subst (asm) power_int_diff [symmetric]) (simp_all add: algebra_simps)
  have "2 powi log2_floor a / 2 powi (log2_floor b + 1) < ?q"
    by (rule frac_less2) (use la lb pos assms in simp_all)
  then have low: "2 powi (k - 1) < ?q"
    unfolding k_def by (subst (asm) power_int_diff [symmetric]) (simp_all add: algebra_simps)
  have "b' \<le> a' \<longleftrightarrow> 1 \<le> of_int a' / (of_int b' :: real)" using v(2) by simp
  also have "\<dots> \<longleftrightarrow> 2 powi k \<le> ?q" unfolding v(1) by (subst pos_le_divide_eq) simp_all
  finally have e: "exponent_of a b = (if 2 powi k \<le> ?q then k else k - 1)"
    by (simp add: exponent_of_def Let_def k_def [symmetric] s)
  show "2 powi exponent_of a b \<le> ?q" using low by (simp add: e)
  show "?q < 2 powi (exponent_of a b + 1)" using up by (simp add: e)
qed

text \<open>A rounded number: its mantissa is the rounding at an exponent that leaves 53 bits.\<close>

lemma round_f64_cases:
  assumes "0 < a" and "0 < b"
  obtains m e a' b' where "over_power 2 e (a, b) = (a', b')" and "m = round_half_even a' b'"
    and "e = max (exponent_of a b - 52) (- 1074)"
    and "round_f64 neg a b = Infinite neg \<and> 971 \<le> e \<or>
         (\<exists>m' e'. round_f64 neg a b = Fin neg m' e' \<and> - 1074 \<le> e' \<and> fin_value m' e' = fin_value m e)"
proof -
  define e where "e = max (exponent_of a b - 52) (- 1074)"
  obtain a' b' where s: "over_power 2 e (a, b) = (a', b')" by fastforce
  define m where "m = round_half_even a' b'"
  have r: "round_f64 neg a b =
      (let (m, e) = (if m = 2 ^ 53 then (2 ^ 52, e + 1) else (m, e)) in if 971 < e then Infinite neg else Fin neg m e)"
    using assms(1) s by (simp add: round_f64_def Let_def e_def [symmetric] m_def [symmetric])
  have e: "- 1074 \<le> e" by (simp add: e_def)
  show thesis
  proof (rule that [OF s m_def e_def])
    show "round_f64 neg a b = Infinite neg \<and> 971 \<le> e \<or>
        (\<exists>m' e'. round_f64 neg a b = Fin neg m' e' \<and> - 1074 \<le> e' \<and> fin_value m' e' = fin_value m e)"
    proof (cases "m = 2 ^ 53")
      case True
      have "(2 :: real) powi (e + 1) = 2 powi e * 2" by (subst power_int_add) simp_all
      then have "fin_value (2 ^ 52) (e + 1) = fin_value m e" by (simp add: fin_value_def True)
      with True e show ?thesis by (auto simp: r)
    next
      case False
      with e show ?thesis by (auto simp: r)
    qed
  qed
qed

section \<open>Integers and quotients\<close>

lemma f64_one: "f64_of_int 1 = Fin False (2 ^ 52) (- 52)"
  by code_simp

lemma fin_value_one: "fin_value (2 ^ 52) (- 52) = 1" "fin_value 4503599627370496 (- 52) = 1"
  by (simp_all add: fin_value_def power_int_def power_one_over)

lemma round_f64_zero: "round_f64 neg 0 b = Fin neg 0 (- 1074)"
  by (simp add: round_f64_def)

text \<open>A positive integer up to \<open>2 ^ 53\<close> is its own \<open>float64\<close>.\<close>

lemma f64_of_int_exact:
  assumes "0 < n" and "n \<le> 2 ^ 53"
  shows "\<exists>m e. f64_of_int n = Fin False m e \<and> - 1074 \<le> e \<and> 0 < m \<and> fin_value m e = of_int n"
proof -
  have n: "f64_of_int n = round_f64 False n 1" using assms by (simp add: f64_of_int_def)
  obtain m e a' b' where o: "over_power 2 e (n, 1) = (a', b')" and m: "m = round_half_even a' b'"
    and e: "e = max (exponent_of n 1 - 52) (- 1074)"
    and r: "round_f64 False n 1 = Infinite False \<and> 971 \<le> e \<or>
      (\<exists>m' e'. round_f64 False n 1 = Fin False m' e' \<and> - 1074 \<le> e' \<and> fin_value m' e' = fin_value m e)"
    by (rule round_f64_cases [OF assms(1) zero_less_one, of False]) (rule that)
  note v = over_power_value [OF o]
  have "2 powi exponent_of n 1 \<le> (of_int n :: real)" using exponent_of_bounds(1) [of n 1] assms(1) by simp
  also have "\<dots> \<le> 2 powi 53" using assms(2) by (simp add: power_int_def)
  finally have "exponent_of n 1 \<le> 53" by (rule powi2_le)
  then have e1: "e \<le> 1" by (simp add: e)
  have "\<exists>k. of_int n / 2 powi e = (of_int k :: real)"
  proof (cases "e \<le> 0")
    case True
    then have "of_int n / 2 powi e = (of_int (n * 2 ^ nat (- e)) :: real)"
      by (simp add: power_int_def field_simps)
    then show ?thesis by blast
  next
    case False
    with e1 have "e = 1" by simp
    then have "exponent_of n 1 = 53" by (auto simp: e max_def split: if_splits)
    then have "(2 :: real) powi 53 \<le> of_int n" using exponent_of_bounds(1) [of n 1] assms(1) by simp
    then have "n = 2 ^ 53" using assms(2) by (simp add: power_int_def)
    with \<open>e = 1\<close> have "of_int n / 2 powi e = (of_int (2 ^ 52) :: real)" by simp
    then show ?thesis by blast
  qed
  then obtain k where k: "of_int n / 2 powi e = (of_int k :: real)" by blast
  then have "m = k" unfolding m using v by (intro round_half_even_exact) simp_all
  then have fv: "fin_value m e = of_int n" using k by (simp add: fin_value_def field_simps)
  from r e1 obtain m' e' where f: "round_f64 False n 1 = Fin False m' e'" "- 1074 \<le> e'" "fin_value m' e' = of_int n"
    using fv by auto
  moreover have "0 < of_int m' * (2 :: real) powi e'" using f(3) assms(1) by (simp add: fin_value_def)
  then have "0 < m'" using powi2_pos [of e'] by (simp add: zero_less_mult_iff not_less_iff_gr_or_eq)
  ultimately show ?thesis using n by auto
qed

text \<open>Rounding keeps a quotient on its side of 1, if it is not closer to 1 than the next number below.\<close>

lemma round_f64_below_one:
  assumes "0 < a" and "0 < b" and "of_int a / (of_int b :: real) \<le> 1 - 2 powi (- 53)"
  shows "f64_less (round_f64 False a b) (f64_of_int 1)"
proof -
  obtain m e a' b' where o: "over_power 2 e (a, b) = (a', b')" and m: "m = round_half_even a' b'"
    and e: "e = max (exponent_of a b - 52) (- 1074)"
    and r: "round_f64 False a b = Infinite False \<and> 971 \<le> e \<or>
      (\<exists>m' e'. round_f64 False a b = Fin False m' e' \<and> - 1074 \<le> e' \<and> fin_value m' e' = fin_value m e)"
    by (rule round_f64_cases [OF assms(1,2), of False]) (rule that)
  note v = over_power_value [OF o assms(2)]
  have "2 powi exponent_of a b \<le> of_int a / (of_int b :: real)" by (rule exponent_of_bounds(1) [OF assms(1,2)])
  also have "\<dots> < 2 powi 0" using assms(3) powi2_pos [of "- 53"] unfolding power_int_0_right by linarith
  finally have "exponent_of a b < 0" by (rule powi2_less)
  then have e53: "e \<le> - 53" by (simp add: e)
  have "of_int a' / (of_int b' :: real) \<le> (1 - 2 powi (- 53)) / 2 powi e"
    unfolding v(1) using assms(3) by (intro divide_right_mono) simp_all
  also have "\<dots> = of_int (2 ^ nat (- e) - 2 ^ nat (- e - 53))"
  proof -
    have "nat (- e) = nat (- e - 53) + 53" using e53 by simp
    then have "(2 :: real) ^ nat (- e) = 2 ^ nat (- e - 53) * 2 ^ 53" by (simp only: power_add)
    then show ?thesis using e53 by (simp add: power_int_def field_simps)
  qed
  finally have "m \<le> 2 ^ nat (- e) - 2 ^ nat (- e - 53)" unfolding m by (rule round_half_even_mono(2) [OF v(2)])
  then have "m < 2 ^ nat (- e)" by (smt (verit) zero_less_power)
  then have "(of_int m :: real) < of_int (2 ^ nat (- e))" by (simp only: of_int_less_iff)
  then have "of_int m * 2 powi e < (2 ^ nat (- e) * 2 powi e :: real)" by (intro mult_strict_right_mono) simp_all
  also have "\<dots> = 1" using e53 by (simp add: power_int_def field_simps)
  finally have "fin_value m e < 1" by (simp add: fin_value_def)
  with r e53 show ?thesis by (auto simp: f64_one fin_less_iff fin_value_one simp del: f64_less.simps)
qed

lemma round_f64_from_one:
  assumes "0 < a" and "0 < b" and "1 \<le> of_int a / (of_int b :: real)"
  shows "\<not> f64_less (round_f64 False a b) (f64_of_int 1)"
proof -
  obtain m e a' b' where o: "over_power 2 e (a, b) = (a', b')" and m: "m = round_half_even a' b'"
    and e: "e = max (exponent_of a b - 52) (- 1074)"
    and r: "round_f64 False a b = Infinite False \<and> 971 \<le> e \<or>
      (\<exists>m' e'. round_f64 False a b = Fin False m' e' \<and> - 1074 \<le> e' \<and> fin_value m' e' = fin_value m e)"
    by (rule round_f64_cases [OF assms(1,2), of False]) (rule that)
  note v = over_power_value [OF o assms(2)]
  have "2 powi 0 \<le> of_int a / (of_int b :: real)" using assms(3) by simp
  also have "\<dots> < 2 powi (exponent_of a b + 1)" by (rule exponent_of_bounds(2) [OF assms(1,2)])
  finally have "0 < exponent_of a b + 1" by (rule powi2_less)
  then have ek: "e = exponent_of a b - 52" "0 \<le> exponent_of a b" by (simp_all add: e)
  have "(of_int (2 ^ 52) :: real) = 2 powi exponent_of a b / 2 powi e"
    unfolding ek(1) by (subst power_int_diff [symmetric]) (simp_all add: power_int_def)
  also have "\<dots> \<le> of_int a' / of_int b'"
    unfolding v(1) using exponent_of_bounds(1) [OF assms(1,2)] by (intro divide_right_mono) simp_all
  finally have "2 ^ 52 \<le> m" unfolding m by (rule round_half_even_mono(1) [OF v(2)])
  then have "(of_int (2 ^ 52) :: real) \<le> of_int m" by (simp only: of_int_le_iff)
  then have "fin_value (2 ^ 52) (- 52) \<le> of_int m * 2 powi (- 52)" unfolding fin_value_def by (intro mult_right_mono) simp_all
  also have "\<dots> \<le> fin_value m e"
    unfolding fin_value_def by (intro mult_left_mono power_int_increasing) (use ek \<open>2 ^ 52 \<le> m\<close> in auto)
  finally have "1 \<le> fin_value m e" by (simp only: fin_value_one(1))
  with r show ?thesis by (auto simp: f64_one fin_less_iff fin_value_one not_less simp del: f64_less.simps(1))
qed

text \<open>A rate of successes is below 1 exactly when one is missing.\<close>

lemma success_rate_below_one:
  assumes "0 \<le> s" and "s \<le> r" and "0 < r" and "r \<le> 2 ^ 53"
  shows "f64_less (f64_div (f64_of_int s) (f64_of_int r)) (f64_of_int 1) \<longleftrightarrow> s < r"
proof (cases "s = 0")
  case True
  obtain n f where r: "f64_of_int r = Fin False n f" "0 < n" using f64_of_int_exact [of r] assms by auto
  have "f64_of_int 0 = Fin False 0 (- 1074)" by (simp add: f64_of_int_def round_f64_zero)
  then have "f64_div (f64_of_int 0) (f64_of_int r) = Fin False 0 (- 1074)"
    using r by (simp add: f64_div_def over_power_def round_f64_zero)
  then show ?thesis using True assms(3) by (simp add: f64_one fin_less_iff fin_value_one fin_value_def del: f64_less.simps)
next
  case False
  obtain m e where s: "f64_of_int s = Fin False m e" "0 < m" "fin_value m e = of_int s"
    using f64_of_int_exact [of s] assms False by auto
  obtain n f where r: "f64_of_int r = Fin False n f" "0 < n" "fin_value n f = of_int r"
    using f64_of_int_exact [of r] assms by auto
  obtain a b where o: "over_power 2 (f - e) (m, n) = (a, b)" by fastforce
  note v = over_power_value [OF o r(2)]
  have d: "f64_div (f64_of_int s) (f64_of_int r) = round_f64 False a b"
    using s(1) r(1,2) o by (simp add: f64_div_def)
  have "of_int a / of_int b = of_int s / (of_int r :: real)"
    unfolding v(1) s(3) [symmetric] r(3) [symmetric] fin_value_def by (subst power_int_diff) (simp_all add: field_simps)
  note q = this
  have pos: "0 < a" "0 < b" using v s(2) by simp_all
  show ?thesis
  proof (cases "s < r")
    case True
    have "of_int s / (of_int r :: real) \<le> of_int (r - 1) / of_int r" using True assms(3) by (intro divide_right_mono) auto
    also have "\<dots> = 1 - 1 / of_int r" using assms(3) by (simp add: field_simps)
    also have "\<dots> \<le> 1 - 2 powi (- 53)"
    proof -
      have "(of_int r :: real) \<le> of_int (2 ^ 53)" using assms(4) by (simp only: of_int_le_iff)
      then have "1 / 2 ^ 53 \<le> 1 / (of_int r :: real)" using assms(3) by (intro divide_left_mono) simp_all
      then show ?thesis by (simp add: power_int_def power_one_over)
    qed
    finally show ?thesis using round_f64_below_one [OF pos] q True by (simp add: d)
  next
    case False
    with assms have "s = r" by simp
    then have "1 \<le> of_int a / (of_int b :: real)" using q assms(3) by simp
    from round_f64_from_one [OF pos this] False show ?thesis by (simp add: d)
  qed
qed

end
