(* ===== verification/LoadTestProperties.thy ===== *)
theory LoadTestProperties
  imports LoadTestFacts Float64Facts
begin

text \<open>
  The load test: every request is executed once whatever the order of its workers, the summary counts what
  happened and its percentiles are order statistics, its thresholds hold what they say, and it reads the
  gateway's answers.
\<close>

text \<open>
  C34: However the workers interleave, a run makes at most two steps for every request and worker and never gets
  stuck before all workers have returned. Then every request has been executed exactly once, and its result is
  the one in the report.
\<close>

theorem load_executed_once:
  assumes "(pool_step cfg ^^ m) (pool_start cfg) p" and "pool_bounds cfg"
  shows "int m \<le> 2 * (lt_Requests cfg + lt_Concurrency cfg) \<and>
    (if pool_finished p
     then mset (map fst (pool_done p)) = mset (map int [0..<nat (lt_Requests cfg)]) \<and>
          (\<forall>(i, r) \<in> set (pool_done p). lp_results (runLoadTest cfg d p) ! nat i = r)
     else \<exists>q. pool_step cfg p q)"
proof -
  obtain k where k: "pool_inv cfg k p" "m + pool_measure cfg k p \<le> pool_measure cfg 0 (pool_start cfg)"
    using pool_run_inv [OF assms(2,1)] by blast
  have "int m \<le> 2 * (lt_Requests cfg + lt_Concurrency cfg)"
    using k(2) assms(2) by (simp add: pool_start_measure pool_bounds_def) linarith
  moreover have "(\<forall>(i, r) \<in> set (pool_done p). lp_results (runLoadTest cfg d p) ! nat i = r)"
    using k(1) by (auto simp: pool_inv_def runLoadTest_def)
  ultimately show ?thesis
    using pool_finished_parts [OF assms(2) k(1)] pool_progress [of p cfg] by auto
qed

definition demo_load :: lt_config where
  "demo_load =
     \<lparr>lt_URL = ''u'', lt_APIKey = ''k'', lt_Model = [], lt_Message = ''hi'', lt_Requests = 1, lt_Concurrency = 1,
      lt_Stream = True, lt_Timeout = second, lt_JSON = False, lt_MinSuccessRate = f64_of_int 1,
      lt_MaxLatencyP95 = 0, lt_MaxTTFTP95 = 0\<rparr>"

definition demo_pool :: pool where
  "demo_pool =
     take_index demo_load 0 (store_result 0 0 zero_result (take_index demo_load 0 (pool_start demo_load)))"

lemma demo_pool_run: "(pool_step demo_load ^^ 3) (pool_start demo_load) demo_pool"
proof -
  let ?p = "take_index demo_load 0 (pool_start demo_load)"
  let ?q = "store_result 0 0 zero_result ?p"
  have "0 < length (pool_workers (pool_start demo_load)) \<and> pool_workers (pool_start demo_load) ! 0 = Idle" by code_simp
  then have a: "pool_step demo_load (pool_start demo_load) ?p" by (intro pool_step.takes) auto
  have "0 < length (pool_workers ?p) \<and> pool_workers ?p ! 0 = Busy 0" by code_simp
  then have b: "pool_step demo_load ?p ?q" by (intro pool_step.stores) auto
  have "0 < length (pool_workers ?q) \<and> pool_workers ?q ! 0 = Idle" by code_simp
  then have c: "pool_step demo_load ?q demo_pool" unfolding demo_pool_def by (intro pool_step.takes) auto
  from a b c show ?thesis by (auto simp: numeral_3_eq_3 relcompp_apply)
qed

theorem load_executed_once_witness:
  "pool_finished demo_pool \<and> mset (map fst (pool_done demo_pool)) = {#0#}"
proof -
  have f: "pool_finished demo_pool" by code_simp
  have "pool_bounds demo_load" by (simp add: pool_bounds_def demo_load_def max_int_def)
  from load_executed_once [OF demo_pool_run this, of 0] f show ?thesis by (simp add: demo_load_def)
qed

text \<open>
  C38: The percentile \<open>p\<close> of measured durations is one of them, at least \<open>p\<close> percent of them are not above it, and
  less than \<open>p\<close> percent are below it.
\<close>

theorem percentile_is_nearest_rank:
  assumes "vs \<noteq> []" and "1 \<le> p" "p \<le> 100" and "100 * int (length vs) \<le> max_int"
  shows "let x = lt_percentile vs p in
    x \<in> set vs \<and> p * int (length vs) \<le> 100 * int (length (filter (\<lambda>v. v \<le> x) vs)) \<and>
    100 * int (length (filter (\<lambda>v. v < x) vs)) < p * int (length vs)"
  using percentile_rank [OF assms] by (simp add: nearest_rank_def Let_def)

theorem percentile_is_nearest_rank_witness:
  "lt_percentile [30, 10, 20] 95 = 30 \<and> lt_percentile [30, 10, 20] 95 \<in> set [30, 10, 20]"
proof -
  have "lt_percentile [30, 10, 20] 95 = 30" by code_simp
  with percentile_is_nearest_rank [of "[30, 10, 20]" 95] show ?thesis by (simp add: max_int_def)
qed

text \<open>
  The summary of a report with a result for every request counts the results without an error as successes,
  those with one as failures, and under every status the results with that status; with the success rate 1 as the
  only threshold the thresholds are met exactly when there was no failure.
\<close>

theorem summary_accounts:
  assumes "lp_requests rep = int (length (lp_results rep))" and "0 < lp_requests rep" and "lp_requests rep \<le> 2 ^ 53"
    and "lt_MinSuccessRate cfg = f64_of_int 1" and "lt_MaxLatencyP95 cfg = 0" and "lt_MaxTTFTP95 cfg = 0"
  shows "ls_Success (buildSummary rep) = tally (\<lambda>x. lx_err x = None) (lp_results rep) \<and>
    ls_Failure (buildSummary rep) = tally (\<lambda>x. lx_err x \<noteq> None) (lp_results rep) \<and>
    counted (ls_StatusCounts (buildSummary rep)) st = tally (\<lambda>x. lx_status x = st) (lp_results rep) \<and>
    (evaluateThresholds (buildSummary rep) cfg = None) = (ls_Failure (buildSummary rep) = 0)"
proof -
  let ?s = "ls_Success (buildSummary rep)" and ?f = "ls_Failure (buildSummary rep)"
  have f: "?f = tally (\<lambda>x. lx_err x \<noteq> None) (lp_results rep)" and r: "ls_Requests (buildSummary rep) = lp_requests rep"
    and sf: "?s = lp_requests rep - ?f"
    by (simp_all add: buildSummary_def Let_def results_totals_parts)
  have s: "?s = tally (\<lambda>x. lx_err x = None) (lp_results rep)"
    using tally_complement [of "lp_results rep" "\<lambda>x. lx_err x = None"] by (simp add: sf f assms(1))
  have st: "counted (ls_StatusCounts (buildSummary rep)) st = tally (\<lambda>x. lx_status x = st) (lp_results rep)"
    by (simp add: buildSummary_def Let_def results_totals_parts)
  have "0 \<le> ?s" "?s \<le> lp_requests rep" unfolding s assms(1) by (simp_all add: tally_def)
  from success_rate_below_one [OF this assms(2,3)]
  have "f64_less (f64_div (f64_of_int ?s) (f64_of_int (lp_requests rep))) (f64_of_int 1) \<longleftrightarrow> ?f \<noteq> 0"
    using \<open>?s \<le> lp_requests rep\<close> sf by auto
  moreover have "f64_less (f64_of_int 0) (f64_of_int 1)" by code_simp
  ultimately have "(evaluateThresholds (buildSummary rep) cfg = None) = (?f = 0)"
    by (simp add: evaluateThresholds_def Let_def assms(4-6) r)
  with s f st show ?thesis by blast
qed

definition demo_report :: lt_report where
  "demo_report =
     \<lparr>lp_requests = 2, lp_concurrency = 1, lp_stream = True, lp_total_duration = second,
      lp_results = [zero_result\<lparr>lx_status := 200, lx_latency := 5 * millisecond\<rparr>, failed_result IoEOF]\<rparr>"

theorem summary_accounts_witness:
  "ls_Success (buildSummary demo_report) = 1 \<and> ls_Failure (buildSummary demo_report) = 1 \<and>
   counted (ls_StatusCounts (buildSummary demo_report)) 200 = 1 \<and>
   evaluateThresholds (buildSummary demo_report) demo_load \<noteq> None"
  using summary_accounts [of demo_report demo_load 200]
  by (simp add: demo_report_def demo_load_def failed_result_def zero_result_def)

text \<open>
  C35: The load test and the gateway understand each other. The gateway decodes the body of a request, whose model
  and message are well-formed UTF-8, as the message of the command line; the stream that its handler writes for
  valid chunks counts as a success with that many chunks, and so does a completion that it writes.
\<close>

theorem load_test_understands_gateway:
  assumes "valid_utf8 (lt_Message cfg)" and "valid_utf8 (lt_Model cfg)"
    and "list_all valid_chunk cs" and "cs \<noteq> []"
    and "lr_status resp = 200" and "lr_read_err resp = None"
    and "lr_body resp = frames (map toCompletionChunk cs) @ sse_done"
    and "lr_status resp' = 200" and "lr_read_err resp' = None" and "cp_object r = ''chat.completion''"
    and "lr_body resp' = rw_body (writeJSON 200 (completion_response_json r) (new_writer False []))"
  shows "and_then (decode_stream (lq_body (loadtest_request cfg))) (decode_struct dec_completion_request) =
      Inr (loadtest_message cfg) \<and>
    lx_err (consumeStream resp started) = None \<and>
    lx_stream_chunks (consumeStream resp started) = int (length cs) \<and> lx_err (consumeJSON resp' started) = None"
proof -
  have "rw_body (writeJSON 200 v (new_writer False [])) = encode v @ [CHR 0x0A]" for v
    by (simp add: writeJSON_def write_bytes_def WriteHeader_def send_header_def set_header_def new_writer_def Let_def)
  with completion_consumed [OF assms(8,9) _ assms(10)] assms(11) have "lx_err (consumeJSON resp' started) = None"
    by simp
  with request_decoded [OF assms(1,2)] stream_consumed [OF assms(3-7)] show ?thesis
    by (simp add: loadtest_request_def)
qed

definition demo_answer :: "string \<Rightarrow> lt_response" where
  "demo_answer body = \<lparr>lr_status = 200, lr_body = body, lr_read_err = None, lr_line_time = (\<lambda>i. 7), lr_end_time = 9\<rparr>"

definition demo_chunk :: chat_completion_chunk where
  "demo_chunk =
     \<lparr>chunk_id = ''c1'', chunk_object = ''chat.completion.chunk'', chunk_created = 7, chunk_model = ''m'',
      chunk_choices = []\<rparr>"

definition demo_completion :: completion_response where
  "demo_completion =
     \<lparr>cp_id = ''r1'', cp_object = ''chat.completion'', cp_created = 7, cp_model = ''m'', cp_choices = [],
      cp_usage = \<lparr>cu_prompt_tokens = 1, cu_completion_tokens = 1, cu_total_tokens = 2\<rparr>\<rparr>"

theorem load_test_understands_gateway_witness:
  "lx_stream_chunks (consumeStream (demo_answer (frames [toCompletionChunk demo_chunk] @ sse_done)) 5) = 1 \<and>
   lx_err (consumeJSON (demo_answer (rw_body (writeJSON 200 (completion_response_json demo_completion)
     (new_writer False [])))) 5) = None"
proof -
  have v: "valid_utf8 (lt_Message demo_load)" "valid_utf8 (lt_Model demo_load)" "valid_chunk demo_chunk"
    by code_simp+
  show ?thesis
    using load_test_understands_gateway [OF v(1,2), where cs = "[demo_chunk]"
        and resp = "demo_answer (frames [toCompletionChunk demo_chunk] @ sse_done)"
        and resp' = "demo_answer (rw_body (writeJSON 200 (completion_response_json demo_completion) (new_writer False [])))"
        and r = demo_completion and started = 5] v(3)
    by (simp add: demo_answer_def demo_completion_def)
qed

end
