(* ===== verification/Nightly.thy ===== *)
theory Nightly
  imports LoadTest Metrics
begin

text \<open>
  The nightly tools: \<open>cmd/nightlycheck/main.go\<close>, which checks the summaries of load tests and the outputs and
  metrics of failure drills, and \<open>cmd/nightlyreport/main.go\<close>, which reports them. Reading a file is a parameter.
\<close>

section \<open>Reading files\<close>

type_synonym files = "string \<Rightarrow> string res"

definition httpStatusOKLine :: string where "httpStatusOKLine = ''HTTP/1.1 200 OK''"
definition streamDoneMarker :: string where "streamDoneMarker = ''data: [DONE]''"

definition readFile :: "files \<Rightarrow> string \<Rightarrow> string res" where
  "readFile fs path = (if trim_space path = [] then Inl (NewErr ''path is required'') else fs path)"

type_synonym metric_values = "(string \<times> f64) list"

text \<open>One line of a page of metrics; what is no sample is passed over.\<close>

definition read_metric_line :: "string \<Rightarrow> metric_values \<Rightarrow> metric_values" where
  "read_metric_line line ms =
     (let line = trim_space line in
      if line = [] \<or> has_prefix line ''#'' then ms
      else
        let parts = text_fields line in
        if length parts < 2 then ms
        else case ParseFloat (last parts) of
          Inl _ \<Rightarrow> ms
        | Inr value \<Rightarrow> AList.update (join '' '' (butlast parts)) value ms)"

definition parse_metrics :: "string \<Rightarrow> metric_values" where
  "parse_metrics body = fold read_metric_line (split_char CHR 0x0A body) []"

definition loadMetrics :: "files \<Rightarrow> string \<Rightarrow> metric_values res" where
  "loadMetrics fs path = (case readFile fs path of Inl e \<Rightarrow> Inl e | Inr body \<Rightarrow> Inr (parse_metrics body))"

text \<open>
  A map in a JSON struct: \<open>null\<close> clears it, an object adds to it. The keys of \<open>map[int]int\<close> are read as integers,
  and an element that is \<open>null\<close> is the zero value.
\<close>

fun assign_maps :: "string \<Rightarrow> ((string \<times> json) \<Rightarrow> ('k \<times> 'v) res) \<Rightarrow> json list \<Rightarrow> ('k \<times> 'v) list \<Rightarrow> ('k \<times> 'v) list res" where
  "assign_maps name dec [] m = Inr m"
| "assign_maps name dec (v # vs) m =
     (case v of
        JNull \<Rightarrow> assign_maps name dec vs []
      | JObj ms \<Rightarrow>
          (case fold (\<lambda>kv r. and_then r (\<lambda>m. and_then (dec kv) (\<lambda>(k, x). Inr (AList.update k x m)))) ms (Inr m) of
             Inl e \<Rightarrow> Inl e
           | Inr m \<Rightarrow> assign_maps name dec vs m)
      | _ \<Rightarrow> Inl (type_error name))"

definition int_entry :: "string \<Rightarrow> (string \<times> json) \<Rightarrow> (int \<times> int) res" where
  "int_entry name kv =
     (case atoi (fst kv) of
        None \<Rightarrow> Inl (type_error name)
      | Some k \<Rightarrow>
          (case snd kv of
             JNull \<Rightarrow> Inr (k, 0)
           | JNum lit \<Rightarrow> (case int_of_literal lit of Some n \<Rightarrow> Inr (k, n) | None \<Rightarrow> Inl (type_error name))
           | _ \<Rightarrow> Inl (type_error name)))"

definition string_entry :: "string \<Rightarrow> (string \<times> json) \<Rightarrow> (string \<times> string) res" where
  "string_entry name kv =
     (case snd kv of
        JNull \<Rightarrow> Inr (fst kv, [])
      | JStr s \<Rightarrow> Inr (fst kv, s)
      | _ \<Rightarrow> Inl (type_error name))"

definition int_map_field :: "string \<Rightarrow> (string \<times> json) list \<Rightarrow> (int \<times> int) list res" where
  "int_map_field name ms = assign_maps name (int_entry name) (field_values name ms) []"

definition string_map_field :: "string \<Rightarrow> (string \<times> json) list \<Rightarrow> (string \<times> string) list res" where
  "string_map_field name ms = assign_maps name (string_entry name) (field_values name ms) []"

definition load_json :: "files \<Rightarrow> ((string \<times> json) list \<Rightarrow> 'a res) \<Rightarrow> string \<Rightarrow> 'a res" where
  "load_json fs dec path = and_then (fs path) (\<lambda>body. and_then (unmarshal body) (decode_struct dec))"

record upstream_message =
  um_role :: string
  um_content :: string

record upstream_payload =
  up_model :: string
  up_max_tokens :: int
  up_system :: string
  up_messages :: "upstream_message list"

record recorded_request =
  rr_path :: string
  rr_headers :: "(string \<times> string) list"
  rr_payload :: upstream_payload

definition dec_upstream_message :: "(string \<times> json) list \<Rightarrow> upstream_message res" where
  "dec_upstream_message ms =
     and_then (string_field ''role'' ms) (\<lambda>r.
     and_then (string_field ''content'' ms) (\<lambda>c. Inr \<lparr>um_role = r, um_content = c\<rparr>))"

definition dec_upstream_payload :: "(string \<times> json) list \<Rightarrow> upstream_payload res" where
  "dec_upstream_payload ms =
     and_then (string_field ''model'' ms) (\<lambda>m.
     and_then (int_field ''max_tokens'' ms) (\<lambda>t.
     and_then (string_field ''system'' ms) (\<lambda>s.
     and_then (list_field ''messages'' dec_upstream_message ms) (\<lambda>msgs.
       Inr \<lparr>up_model = m, up_max_tokens = t, up_system = s, up_messages = msgs\<rparr>))))"

definition dec_recorded_request :: "(string \<times> json) list \<Rightarrow> recorded_request res" where
  "dec_recorded_request ms =
     and_then (string_field ''path'' ms) (\<lambda>p.
     and_then (string_map_field ''headers'' ms) (\<lambda>h.
     and_then (struct_field ''payload'' dec_upstream_payload
                 \<lparr>up_model = [], up_max_tokens = 0, up_system = [], up_messages = []\<rparr> ms) (\<lambda>b.
       Inr \<lparr>rr_path = p, rr_headers = h, rr_payload = b\<rparr>)))"

definition map_text :: "(string \<times> string) list \<Rightarrow> string \<Rightarrow> string" where
  "map_text m k = (case map_of m k of None \<Rightarrow> [] | Some v \<Rightarrow> v)"

section \<open>nightlycheck: configuration\<close>

record nc_config =
  nc_Mode :: string
  nc_MockNonStreamPath :: string
  nc_MockStreamPath :: string
  nc_AdapterNonStreamPath :: string
  nc_AdapterStreamPath :: string
  nc_MinSuccessRate :: f64
  nc_MockNonStreamMaxLatencyP95MS :: int
  nc_MockStreamMaxLatencyP95MS :: int
  nc_MockStreamMaxTTFTP95MS :: int
  nc_AdapterNonStreamMaxLatencyP95MS :: int
  nc_AdapterStreamMaxLatencyP95MS :: int
  nc_AdapterStreamMaxTTFTP95MS :: int
  nc_PrechunkOutputPath :: string
  nc_PrechunkMetricsPath :: string
  nc_PartialOutputPath :: string
  nc_PartialMetricsPath :: string
  nc_SystemOutputPath :: string
  nc_UpstreamRequestPath :: string
  nc_PrimaryBackendName :: string
  nc_SecondaryBackendName :: string
  nc_PartialOutputNeedle :: string

definition nightlycheck_defaults :: nc_config where
  "nightlycheck_defaults =
     \<lparr>nc_Mode = ''benchmarks'', nc_MockNonStreamPath = [], nc_MockStreamPath = [], nc_AdapterNonStreamPath = [],
      nc_AdapterStreamPath = [], nc_MinSuccessRate = f64_of_int 1, nc_MockNonStreamMaxLatencyP95MS = 150,
      nc_MockStreamMaxLatencyP95MS = 150, nc_MockStreamMaxTTFTP95MS = 75,
      nc_AdapterNonStreamMaxLatencyP95MS = 250, nc_AdapterStreamMaxLatencyP95MS = 400,
      nc_AdapterStreamMaxTTFTP95MS = 120, nc_PrechunkOutputPath = [], nc_PrechunkMetricsPath = [],
      nc_PartialOutputPath = [], nc_PartialMetricsPath = [], nc_SystemOutputPath = [], nc_UpstreamRequestPath = [],
      nc_PrimaryBackendName = ''openai-primary'', nc_SecondaryBackendName = ''secondary'',
      nc_PartialOutputNeedle = ''partial ''\<rparr>"

definition nightlycheck_flags :: "nc_config flag_set" where
  "nightlycheck_flags =
     [(''mode'', StringVar (\<lambda>v c. c\<lparr>nc_Mode := v\<rparr>)),
      (''mock-non-stream'', StringVar (\<lambda>v c. c\<lparr>nc_MockNonStreamPath := v\<rparr>)),
      (''mock-stream'', StringVar (\<lambda>v c. c\<lparr>nc_MockStreamPath := v\<rparr>)),
      (''adapter-non-stream'', StringVar (\<lambda>v c. c\<lparr>nc_AdapterNonStreamPath := v\<rparr>)),
      (''adapter-stream'', StringVar (\<lambda>v c. c\<lparr>nc_AdapterStreamPath := v\<rparr>)),
      (''min-success-rate'', Float64Var (\<lambda>v c. c\<lparr>nc_MinSuccessRate := v\<rparr>)),
      (''mock-non-stream-max-latency-p95-ms'', IntVar (\<lambda>v c. c\<lparr>nc_MockNonStreamMaxLatencyP95MS := v\<rparr>)),
      (''mock-stream-max-latency-p95-ms'', IntVar (\<lambda>v c. c\<lparr>nc_MockStreamMaxLatencyP95MS := v\<rparr>)),
      (''mock-stream-max-ttft-p95-ms'', IntVar (\<lambda>v c. c\<lparr>nc_MockStreamMaxTTFTP95MS := v\<rparr>)),
      (''adapter-non-stream-max-latency-p95-ms'', IntVar (\<lambda>v c. c\<lparr>nc_AdapterNonStreamMaxLatencyP95MS := v\<rparr>)),
      (''adapter-stream-max-latency-p95-ms'', IntVar (\<lambda>v c. c\<lparr>nc_AdapterStreamMaxLatencyP95MS := v\<rparr>)),
      (''adapter-stream-max-ttft-p95-ms'', IntVar (\<lambda>v c. c\<lparr>nc_AdapterStreamMaxTTFTP95MS := v\<rparr>)),
      (''prechunk-output'', StringVar (\<lambda>v c. c\<lparr>nc_PrechunkOutputPath := v\<rparr>)),
      (''prechunk-metrics'', StringVar (\<lambda>v c. c\<lparr>nc_PrechunkMetricsPath := v\<rparr>)),
      (''partial-output'', StringVar (\<lambda>v c. c\<lparr>nc_PartialOutputPath := v\<rparr>)),
      (''partial-metrics'', StringVar (\<lambda>v c. c\<lparr>nc_PartialMetricsPath := v\<rparr>)),
      (''system-output'', StringVar (\<lambda>v c. c\<lparr>nc_SystemOutputPath := v\<rparr>)),
      (''upstream-request'', StringVar (\<lambda>v c. c\<lparr>nc_UpstreamRequestPath := v\<rparr>)),
      (''primary-backend'', StringVar (\<lambda>v c. c\<lparr>nc_PrimaryBackendName := v\<rparr>)),
      (''secondary-backend'', StringVar (\<lambda>v c. c\<lparr>nc_SecondaryBackendName := v\<rparr>)),
      (''partial-output-needle'', StringVar (\<lambda>v c. c\<lparr>nc_PartialOutputNeedle := v\<rparr>))]"

definition nightlycheck_parseFlags :: "string list \<Rightarrow> nc_config res" where
  "nightlycheck_parseFlags args =
     (case flag_Parse nightlycheck_flags args nightlycheck_defaults of
        Inl e \<Rightarrow> Inl e
      | Inr (_, cfg) \<Rightarrow>
          if f64_less (nc_MinSuccessRate cfg) (f64_of_int 0) \<or> f64_less (f64_of_int 1) (nc_MinSuccessRate cfg)
          then Inl (NewErr ''-min-success-rate must be between 0 and 1'')
          else Inr cfg)"

section \<open>nightlycheck: summaries of load tests\<close>

record bench_summary =
  bs_Requests :: int
  bs_Concurrency :: int
  bs_Stream :: bool
  bs_Success :: int
  bs_Failure :: int
  bs_StatusCounts :: "(int \<times> int) list"
  bs_LatencyP95MS :: int
  bs_TTFTP95MS :: int
  bs_StreamChunks :: int
  bs_SampleError :: string

definition dec_bench_summary :: "(string \<times> json) list \<Rightarrow> bench_summary res" where
  "dec_bench_summary ms =
     and_then (int_field ''requests'' ms) (\<lambda>a.
     and_then (int_field ''concurrency'' ms) (\<lambda>b.
     and_then (bool_field ''stream'' ms) (\<lambda>c.
     and_then (int_field ''success'' ms) (\<lambda>d.
     and_then (int_field ''failure'' ms) (\<lambda>e.
     and_then (int_map_field ''status_counts'' ms) (\<lambda>f.
     and_then (int_field ''latency_p95_ms'' ms) (\<lambda>g.
     and_then (int_field ''ttft_p95_ms'' ms) (\<lambda>h.
     and_then (int_field ''stream_chunks_total'' ms) (\<lambda>i.
     and_then (string_field ''sample_error'' ms) (\<lambda>j.
       Inr \<lparr>bs_Requests = a, bs_Concurrency = b, bs_Stream = c, bs_Success = d, bs_Failure = e,
            bs_StatusCounts = f, bs_LatencyP95MS = g, bs_TTFTP95MS = h, bs_StreamChunks = i,
            bs_SampleError = j\<rparr>))))))))))"

record bench_expectation =
  be_Name :: string
  be_Path :: string
  be_ExpectStream :: bool
  be_MinSuccessRate :: f64
  be_MaxLatencyP95MS :: int
  be_MaxTTFTP95MS :: int

definition status_count :: "(int \<times> int) list \<Rightarrow> int \<Rightarrow> int" where
  "status_count m st = (case map_of m st of None \<Rightarrow> 0 | Some n \<Rightarrow> n)"

definition finding :: "bool \<Rightarrow> string \<Rightarrow> string list" where
  "finding b text = (if b then [text] else [])"

definition validateBenchmarkSummary :: "bench_expectation \<Rightarrow> bench_summary \<Rightarrow> string list" where
  "validateBenchmarkSummary x s =
     (let name = be_Name x; rate = f64_div (f64_of_int (bs_Success s)) (f64_of_int (bs_Requests s)) in
      if bs_Requests s \<le> 0 then [name @ '' has invalid requests count '' @ itoa (bs_Requests s)]
      else
        finding (bs_Stream s \<noteq> be_ExpectStream x)
          (name @ '' stream='' @ bool_text (bs_Stream s) @ '', want '' @ bool_text (be_ExpectStream x)) @
        finding (f64_less rate (be_MinSuccessRate x))
          (name @ '' success rate '' @ fixed3_text rate @ '' below '' @ fixed3_text (be_MinSuccessRate x)) @
        finding (0 < bs_Failure s) (name @ '' reported '' @ itoa (bs_Failure s) @ '' failed requests'') @
        finding (bs_SampleError s \<noteq> []) (name @ '' sample_error='' @ go_quote (bs_SampleError s)) @
        finding (status_count (bs_StatusCounts s) 200 \<noteq> bs_Success s)
          (name @ '' status_counts[200]='' @ itoa (status_count (bs_StatusCounts s) 200) @ '', want success='' @
           itoa (bs_Success s)) @
        finding (0 < be_MaxLatencyP95MS x \<and> be_MaxLatencyP95MS x < bs_LatencyP95MS s)
          (name @ '' latency_p95_ms='' @ itoa (bs_LatencyP95MS s) @ '' exceeded '' @ itoa (be_MaxLatencyP95MS x)) @
        finding (be_ExpectStream x \<and> bs_StreamChunks s \<le> 0)
          (name @ '' stream_chunks_total='' @ itoa (bs_StreamChunks s) @ '', want > 0'') @
        finding (0 < be_MaxTTFTP95MS x \<and> be_MaxTTFTP95MS x < bs_TTFTP95MS s)
          (name @ '' ttft_p95_ms='' @ itoa (bs_TTFTP95MS s) @ '' exceeded '' @ itoa (be_MaxTTFTP95MS x)))"

definition bench_expectations :: "nc_config \<Rightarrow> bench_expectation list" where
  "bench_expectations cfg =
     [\<lparr>be_Name = ''mock-non-stream'', be_Path = nc_MockNonStreamPath cfg, be_ExpectStream = False,
       be_MinSuccessRate = nc_MinSuccessRate cfg, be_MaxLatencyP95MS = nc_MockNonStreamMaxLatencyP95MS cfg,
       be_MaxTTFTP95MS = 0\<rparr>,
      \<lparr>be_Name = ''mock-stream'', be_Path = nc_MockStreamPath cfg, be_ExpectStream = True,
       be_MinSuccessRate = nc_MinSuccessRate cfg, be_MaxLatencyP95MS = nc_MockStreamMaxLatencyP95MS cfg,
       be_MaxTTFTP95MS = nc_MockStreamMaxTTFTP95MS cfg\<rparr>,
      \<lparr>be_Name = ''adapter-non-stream'', be_Path = nc_AdapterNonStreamPath cfg, be_ExpectStream = False,
       be_MinSuccessRate = nc_MinSuccessRate cfg, be_MaxLatencyP95MS = nc_AdapterNonStreamMaxLatencyP95MS cfg,
       be_MaxTTFTP95MS = 0\<rparr>,
      \<lparr>be_Name = ''adapter-stream'', be_Path = nc_AdapterStreamPath cfg, be_ExpectStream = True,
       be_MinSuccessRate = nc_MinSuccessRate cfg, be_MaxLatencyP95MS = nc_AdapterStreamMaxLatencyP95MS cfg,
       be_MaxTTFTP95MS = nc_AdapterStreamMaxTTFTP95MS cfg\<rparr>]"

definition check_benchmark :: "files \<Rightarrow> bench_expectation \<Rightarrow> string list" where
  "check_benchmark fs x =
     (if be_Path x = [] then [be_Name x @ '' artifact path is required'']
      else case load_json fs dec_bench_summary (be_Path x) of
        Inl e \<Rightarrow> [be_Name x @ '': '' @ err_text e]
      | Inr s \<Rightarrow> validateBenchmarkSummary x s)"

definition validateBenchmarkMode :: "files \<Rightarrow> nc_config \<Rightarrow> string list" where
  "validateBenchmarkMode fs cfg = concat (map (check_benchmark fs) (bench_expectations cfg))"

section \<open>nightlycheck: drills\<close>

definition requireContains :: "string \<Rightarrow> string \<Rightarrow> string \<Rightarrow> string list" where
  "requireContains label body needle =
     (if contains body needle then [] else [label @ '' missing '' @ go_quote needle])"

definition requireAbsent :: "string \<Rightarrow> string \<Rightarrow> string \<Rightarrow> string list" where
  "requireAbsent label body needle =
     (if \<not> contains body needle then [] else [label @ '' unexpectedly contained '' @ go_quote needle])"

definition requireMetricAtLeast :: "string \<Rightarrow> metric_values \<Rightarrow> string \<Rightarrow> f64 \<Rightarrow> string list" where
  "requireMetricAtLeast label metrics key minValue =
     (case map_of metrics key of
        None \<Rightarrow> [label @ '' missing metric '' @ key]
      | Some value \<Rightarrow>
          if f64_less value minValue
          then [label @ '' metric '' @ key @ ''='' @ shortest_text value @ '' below '' @ shortest_text minValue]
          else [])"

definition requireMetricAbsent :: "string \<Rightarrow> metric_values \<Rightarrow> string \<Rightarrow> string list" where
  "requireMetricAbsent label metrics key =
     (case map_of metrics key of
        None \<Rightarrow> []
      | Some value \<Rightarrow>
          if f64_eq value (f64_of_int 0) then []
          else [label @ '' metric '' @ key @ ''='' @ shortest_text value @ '', want absent or 0''])"

definition drill_metric :: "string \<Rightarrow> string \<Rightarrow> string" where
  "drill_metric type backend =
     ''lag_provider_events_total'' @ [CHR 0x7B] @ lbl ''type'' type @ '','' @ lbl ''operation'' ''stream'' @ '','' @
     lbl ''backend'' backend @ [CHR 0x7D]"

definition or_default :: "string \<Rightarrow> string \<Rightarrow> string" where
  "or_default s d = (if s = [] then d else s)"

definition check_file :: "string \<Rightarrow> 'a res \<Rightarrow> ('a \<Rightarrow> string list) \<Rightarrow> string list" where
  "check_file label r f = (case r of Inl e \<Rightarrow> [label @ '': '' @ err_text e] | Inr x \<Rightarrow> f x)"

definition validateStreamFailureMode :: "files \<Rightarrow> nc_config \<Rightarrow> string list" where
  "validateStreamFailureMode fs cfg =
     (let primary = or_default (trim_space (nc_PrimaryBackendName cfg)) ''openai-primary'';
          secondary = or_default (trim_space (nc_SecondaryBackendName cfg)) ''secondary'';
          needle = or_default (nc_PartialOutputNeedle cfg) ''partial '';
          one = f64_of_int 1
      in check_file ''prechunk output'' (readFile fs (nc_PrechunkOutputPath cfg)) (\<lambda>body.
           requireContains ''prechunk output'' body httpStatusOKLine @
           requireContains ''prechunk output'' body streamDoneMarker @
           requireContains ''prechunk output'' body ''chatcmpl-mock'') @
         check_file ''partial output'' (readFile fs (nc_PartialOutputPath cfg)) (\<lambda>body.
           requireContains ''partial output'' body httpStatusOKLine @
           requireContains ''partial output'' body needle @
           requireAbsent ''partial output'' body streamDoneMarker) @
         check_file ''prechunk metrics'' (loadMetrics fs (nc_PrechunkMetricsPath cfg)) (\<lambda>ms.
           requireMetricAtLeast ''prechunk metrics'' ms (drill_metric ''provider_request_failed'' primary) one @
           requireMetricAtLeast ''prechunk metrics'' ms (drill_metric ''provider_fallback_succeeded'' secondary) one) @
         check_file ''partial metrics'' (loadMetrics fs (nc_PartialMetricsPath cfg)) (\<lambda>ms.
           requireMetricAtLeast ''partial metrics'' ms (drill_metric ''provider_stream_interrupted'' primary) one @
           requireMetricAbsent ''partial metrics'' ms (drill_metric ''provider_fallback_succeeded'' secondary)))"

definition wanted_system :: string where
  "wanted_system = ''Be concise.'' @ [CHR 0x0A, CHR 0x0A] @ ''Use JSON only.''"

definition validateAnthropicRequestHeaders :: "(string \<times> string) list \<Rightarrow> string list" where
  "validateAnthropicRequestHeaders headers =
     finding (trim_space (map_text headers ''anthropic-version'') = [])
       ''upstream request missing anthropic-version header'' @
     finding (trim_space (map_text headers ''x-api-key'') = []) ''upstream request missing x-api-key header''"

definition validateAnthropicRequestMessages :: "upstream_message list \<Rightarrow> string list" where
  "validateAnthropicRequestMessages ms =
     (if length ms \<noteq> 1 then [''upstream request messages='' @ itoa (int (length ms)) @ '', want 1'']
      else
        finding (um_role (hd ms) \<noteq> ''user'')
          (''upstream request first role='' @ go_quote (um_role (hd ms)) @ '', want user'') @
        finding (um_content (hd ms) \<noteq> ''reply in five words'')
          (''upstream request first content='' @ go_quote (um_content (hd ms)) @ '', want '' @
           go_quote ''reply in five words'')) @
     finding (list_ex (\<lambda>m. equal_fold (trim_space (um_role m)) ''system'') ms)
       ''upstream request unexpectedly forwarded a system role inside messages''"

definition validateAnthropicRequestPayload :: "upstream_payload \<Rightarrow> string list" where
  "validateAnthropicRequestPayload p =
     finding (up_system p \<noteq> wanted_system)
       (''upstream request system='' @ go_quote (up_system p) @ '', want '' @ go_quote wanted_system) @
     finding (up_max_tokens p \<le> 0) (''upstream request max_tokens='' @ itoa (up_max_tokens p) @ '', want > 0'') @
     validateAnthropicRequestMessages (up_messages p)"

definition validateRecordedAnthropicRequest :: "recorded_request \<Rightarrow> string list" where
  "validateRecordedAnthropicRequest r =
     finding (rr_path r \<noteq> ''/v1/messages'')
       (''upstream request path='' @ go_quote (rr_path r) @ '', want /v1/messages'') @
     validateAnthropicRequestHeaders (rr_headers r) @ validateAnthropicRequestPayload (rr_payload r)"

definition validateAnthropicAdapterMode :: "files \<Rightarrow> nc_config \<Rightarrow> string list" where
  "validateAnthropicAdapterMode fs cfg =
     check_file ''system output'' (readFile fs (nc_SystemOutputPath cfg)) (\<lambda>body.
       requireContains ''system output'' body httpStatusOKLine @
       requireContains ''system output'' body ''messages=1;first_role=user'') @
     check_file ''upstream request'' (load_json fs dec_recorded_request (trim_space (nc_UpstreamRequestPath cfg)))
       validateRecordedAnthropicRequest @
     validateStreamFailureMode fs cfg"

text \<open>\<open>main\<close>: the status, the output and what is written to standard error.\<close>

definition nightlycheck_main :: "files \<Rightarrow> string list \<Rightarrow> int \<times> string \<times> string" where
  "nightlycheck_main fs args =
     (case nightlycheck_parseFlags args of
        Inl e \<Rightarrow> (1, [], lines_text [''parse flags: '' @ err_text e])
      | Inr cfg \<Rightarrow>
          let findings =
            (if nc_Mode cfg = ''benchmarks'' then Some (validateBenchmarkMode fs cfg)
             else if nc_Mode cfg = ''stream-failures'' then Some (validateStreamFailureMode fs cfg)
             else if nc_Mode cfg = ''anthropic-adapter'' then Some (validateAnthropicAdapterMode fs cfg)
             else None)
          in case findings of
            None \<Rightarrow> (1, [], lines_text [''unsupported mode '' @ go_quote (nc_Mode cfg)])
          | Some found \<Rightarrow>
              if 0 < length found then (1, [], lines_text (map (\<lambda>f. ''nightly regression: '' @ f) found))
              else (0, lines_text [''nightly check passed: mode='' @ nc_Mode cfg], []))"

end
