(* ===== verification/PageFacts.thy ===== *)
theory PageFacts
  imports Nightly MetricsFacts Float64Facts TextFacts
begin

text \<open>
  The page that the registry writes and the way the nightly tools read it: the page as a list of comments and
  samples, and that parsing it gives the values of the samples back.
\<close>

section \<open>Numbers\<close>

lemma scan_digits:
  "list_all is_digit s \<Longrightarrow>
   scan_mantissa 10 False v 0 any s = (foldl (\<lambda>v c. 10 * v + digit_val c) v s, 0, any \<or> s \<noteq> [], [])"
proof (induction s arbitrary: v any)
  case (Cons c s)
  then have c: "is_digit c" "list_all is_digit s" by simp_all
  then have "c \<noteq> CHR ''_''" "c \<noteq> CHR ''.''" "alnum_val c = Some (digit_val c)" "\<not> 10 \<le> digit_val c"
    using digit_val_bounds [of c] by (auto simp: alnum_val_digit) (auto simp: is_digit_def)
  with Cons.IH [OF c(2)] show ?case by simp
qed simp

lemma integer_not_infinite:
  assumes "0 \<le> n" and "n < 2 ^ 64"
  shows "round_f64 False n 1 \<noteq> Infinite s"
proof (cases "n = 0")
  case False
  with assms have pos: "0 < n" by simp
  obtain m e a' b' where e: "e = max (exponent_of n 1 - 52) (- 1074)"
    and r: "round_f64 False n 1 = Infinite False \<and> 971 \<le> e \<or>
      (\<exists>m' e'. round_f64 False n 1 = Fin False m' e' \<and> - 1074 \<le> e' \<and> fin_value m' e' = fin_value m e)"
    by (rule round_f64_cases [OF pos zero_less_one, of False]) (rule that)
  have "2 powi exponent_of n 1 \<le> (of_int n :: real)" using exponent_of_bounds(1) [OF pos zero_less_one] by simp
  also have "\<dots> \<le> of_int (2 ^ 64)" using assms(2) by (simp only: of_int_le_iff less_imp_le)
  also have "\<dots> = 2 powi 64" by (simp add: power_int_def)
  finally have "exponent_of n 1 \<le> 64" by (rule powi2_le)
  with e r show ?thesis by auto
qed (simp add: round_f64_zero)

lemma ParseFloat_itoa:
  assumes "0 \<le> n" and "n < 2 ^ 64"
  shows "ParseFloat (itoa n) = Inr (f64_of_int n)"
proof -
  have i: "itoa n = digits_of n" using assms(1) by (simp add: itoa_def)
  have d: "list_all is_digit (digits_of n)" using assms(1) by (rule digits_of_all)
  obtain c s where cs: "digits_of n = c # s" using digits_of_nonempty by (cases "digits_of n") auto
  with d have c: "is_digit c" "list_all is_digit s" by simp_all
  then have sign: "c \<noteq> CHR ''-''" "c \<noteq> CHR ''+''" "lower_char c = c" "c \<noteq> CHR ''i''" "c \<noteq> CHR ''n''"
    by (auto simp: lower_char_digit) (auto simp: is_digit_def)
  have u: "CHR ''_'' \<notin> set (c # s)"
    using d cs by (auto simp: list_all_iff is_digit_def)
  have x: "\<not> (case c # s of a # b # r \<Rightarrow> a = CHR ''0'' \<and> lower_char b = CHR ''x'' | _ \<Rightarrow> False)"
    using c(2) by (auto simp: lower_char_digit split: list.split) (auto simp: is_digit_def)
  have sp: "special_float (c # s) = None"
    using sign by (simp add: special_float_def strip_sign_def to_lower_def)
  have v: "foldl (\<lambda>v c. 10 * v + digit_val c) 0 (c # s) = n"
    using digits_val_digits_of [OF assms(1)] by (simp add: cs digits_val_def)
  have "rational_f64 False n 10 0 = f64_of_int n" using assms(1) by (simp add: rational_f64_def f64_of_int_def)
  moreover have "f64_of_int n \<noteq> Infinite b" for b
    using integer_not_infinite [OF assms] assms(1) by (simp add: f64_of_int_def)
  ultimately show ?thesis
    using scan_digits [of "c # s" 0 False] d sp x u v sign(1,2)
    by (simp add: i cs ParseFloat_def strip_sign_def Let_def del: foldl.simps split: f64.split)
qed

section \<open>One line\<close>

lemma fields_visible: "list_all visible s \<Longrightarrow> s \<noteq> [] \<Longrightarrow> text_fields s = [s]"
proof -
  have "list_all visible s \<Longrightarrow> cur @ s \<noteq> [] \<Longrightarrow> fields_from cur s = [rev cur @ s]" for cur
  proof (induction s arbitrary: cur)
    case Nil
    then show ?case by (simp add: fields_from.simps)
  next
    case (Cons c s)
    with Cons.IH [of "c # cur"] show ?case by (simp add: fields_from.simps strip_visible_front)
  qed
  then show "list_all visible s \<Longrightarrow> s \<noteq> [] \<Longrightarrow> text_fields s = [s]" by (simp add: text_fields_def)
qed

datatype page_line = Comment string | Sample string u64

fun line_text :: "page_line \<Rightarrow> string" where
  "line_text (Comment s) = CHR ''#'' # s"
| "line_text (Sample key n) = key @ CHR '' '' # utoa n"

fun good_line :: "page_line \<Rightarrow> bool" where
  "good_line (Comment s) \<longleftrightarrow> s \<noteq> [] \<and> visible (last s) \<and> CHR 0x0A \<notin> set s"
| "good_line (Sample key n) \<longleftrightarrow> key \<noteq> [] \<and> list_all visible key \<and> hd key \<noteq> CHR ''#''"

fun read_line :: "page_line \<Rightarrow> metric_values \<Rightarrow> metric_values" where
  "read_line (Comment s) ms = ms"
| "read_line (Sample key n) ms = AList.update key (f64_of_int (uint n)) ms"

lemma hash_visible: "visible CHR ''#''"
  by (simp add: visible_def)

lemma not_visible: "\<not> visible (CHR 0x0A)" "\<not> visible (CHR '' '')"
  by (simp_all add: visible_def)

lemma utoa_visible: "list_all visible (utoa n)" "utoa n \<noteq> []"
proof -
  show "list_all visible (utoa n)" using itoa_visible by (simp add: utoa_def)
  have "itoa (uint n) = digits_of (uint n)" by (simp add: itoa_def)
  then show "utoa n \<noteq> []" using digits_of_nonempty by (simp add: utoa_def)
qed

lemma ParseFloat_utoa: "ParseFloat (utoa n) = Inr (f64_of_int (uint n))"
  using uint_lt2p [of n] by (simp add: utoa_def ParseFloat_itoa)

lemma read_good_line:
  assumes "good_line l"
  shows "read_metric_line (line_text l) ms = read_line l ms" and "CHR 0x0A \<notin> set (line_text l)"
proof -
  have trimmed: "trim_space (line_text l) = line_text l"
    using assms utoa_visible last_in_set hash_visible
    by (intro trim_space_ends(1); cases l) (auto simp: hd_append list_all_iff)
  show "read_metric_line (line_text l) ms = read_line l ms"
  proof (cases l)
    case (Comment s)
    with trimmed show ?thesis by (simp add: read_metric_line_def)
  next
    case (Sample key n)
    with assms have k: "key \<noteq> []" "list_all visible key" "hd key \<noteq> CHR ''#''" by simp_all
    have "text_fields (line_text l) = [key, utoa n]"
      using k utoa_visible by (simp add: Sample fields_space fields_visible)
    moreover have "\<not> has_prefix (line_text l) ''#''" using k(1,3) by (cases key) (simp_all add: Sample)
    moreover have "line_text l \<noteq> []" by (simp add: Sample)
    ultimately show ?thesis
      using trimmed by (simp add: read_metric_line_def Sample ParseFloat_utoa Let_def)
  qed
  show "CHR 0x0A \<notin> set (line_text l)"
    using assms utoa_visible(1) not_visible by (cases l) (auto simp: list_all_iff)
qed

section \<open>A page\<close>

definition page_text :: "page_line list \<Rightarrow> string" where
  "page_text ls = concat (map (\<lambda>l. text_line (line_text l)) ls)"

lemma page_text_simps [simp]:
  "page_text [] = []" "page_text (l # ls) = text_line (line_text l) @ page_text ls"
  "page_text (ls @ ls') = page_text ls @ page_text ls'"
  by (simp_all add: page_text_def)

lemma parse_page: "list_all good_line ls \<Longrightarrow> parse_metrics (page_text ls) = fold read_line ls []"
proof -
  have "list_all good_line ls \<Longrightarrow> fold read_metric_line (split_char CHR 0x0A (page_text ls)) ms = fold read_line ls ms" for ms
  proof (induction ls arbitrary: ms)
    case Nil
    have "trim_space [] = []" by (simp add: trim_visible)
    then show ?case by (simp add: read_metric_line_def)
  next
    case (Cons l ls)
    then show ?case by (simp add: text_line_def split_char_append read_good_line)
  qed
  then show "list_all good_line ls \<Longrightarrow> parse_metrics (page_text ls) = fold read_line ls []"
    by (simp add: parse_metrics_def)
qed

text \<open>What a page says of a key: its last sample.\<close>

fun line_key :: "page_line \<Rightarrow> string option" where
  "line_key (Comment s) = None"
| "line_key (Sample key n) = Some key"

lemma lookup_absent: "\<forall>l \<in> set ls. line_key l \<noteq> Some k \<Longrightarrow> map_of (fold read_line ls ms) k = map_of ms k"
proof (induction ls arbitrary: ms)
  case (Cons l ls)
  then show ?case by (cases l) (auto simp: update_conv')
qed simp

lemma lookup_family:
  assumes "inj_on f (insert k (set ks))"
  shows "map_of (fold read_line (map (\<lambda>k. Sample (f k) (g k)) ks) ms) (f k) =
    (if k \<in> set ks then Some (f64_of_int (uint (g k))) else map_of ms (f k))"
  using assms
proof (induction ks arbitrary: ms)
  case (Cons x ks)
  have "inj_on f (insert k (set ks))" using Cons.prems by (rule inj_on_subset) auto
  moreover have "f x = f k \<longleftrightarrow> x = k" using Cons.prems by (auto simp: inj_on_def)
  ultimately show ?case using Cons.IH by (auto simp: update_conv')
qed simp

section \<open>The registry's page\<close>

definition help_page :: "string \<Rightarrow> string \<Rightarrow> string \<Rightarrow> page_line list" where
  "help_page name help kind =
     [Comment ('' HELP '' @ name @ '' '' @ help), Comment ('' TYPE '' @ name @ '' '' @ kind)]"

definition in_family :: "string \<Rightarrow> string \<Rightarrow> string" where
  "in_family name key = name @ [CHR 0x7B] @ key @ [CHR 0x7D]"

definition family_page :: "string \<Rightarrow> string \<Rightarrow> string \<Rightarrow> (string \<Rightarrow> u64) \<Rightarrow> string list \<Rightarrow> page_line list" where
  "family_page name help kind value keys =
     help_page name help kind @ map (\<lambda>key. Sample (in_family name key) (value key)) keys"

definition single_page :: "string \<Rightarrow> string \<Rightarrow> string \<Rightarrow> u64 \<Rightarrow> page_line list" where
  "single_page name help kind n = help_page name help kind @ [Sample name n]"

definition status_page :: "registry \<Rightarrow> string \<Rightarrow> string \<Rightarrow> (provider_status \<Rightarrow> u64) \<Rightarrow> page_line list" where
  "status_page r name help value =
     help_page name help ''gauge'' @
     map (\<lambda>key. Sample (in_family name (lbl ''backend'' (sanitize key))) (value (status_of (rg_statuses r) key)))
       (sortedKeys (rg_statuses r))"

definition events_name :: string where "events_name = ''lag_provider_events_total''"

definition page_before :: "registry \<Rightarrow> page_line list" where
  "page_before r =
     family_page ''lag_http_requests_total'' ''Total HTTP requests handled by the gateway.'' ''counter''
       (counter_of (rg_http_requests r)) (sortedKeys (rg_http_requests r)) @
     family_page ''lag_http_request_duration_milliseconds_sum'' ''Aggregate HTTP request duration in milliseconds.''
       ''counter'' (\<lambda>k. ds_sum_ms (sample_of (rg_http_durations r) k)) (sortedKeys (rg_http_durations r)) @
     family_page ''lag_http_request_duration_milliseconds_count'' ''Count of HTTP requests with latency recorded.''
       ''counter'' (\<lambda>k. ds_count (sample_of (rg_http_durations r) k)) (sortedKeys (rg_http_durations r)) @
     help_page events_name ''Total provider routing events.'' ''counter''"

definition page_after :: "registry \<Rightarrow> time \<Rightarrow> page_line list" where
  "page_after r now =
     family_page ''lag_provider_operation_duration_milliseconds_sum''
       ''Aggregate provider operation duration in milliseconds.'' ''counter''
       (\<lambda>k. ds_sum_ms (sample_of (rg_provider_durations r) k)) (sortedKeys (rg_provider_durations r)) @
     family_page ''lag_provider_operation_duration_milliseconds_count''
       ''Count of provider operations with latency recorded.'' ''counter''
       (\<lambda>k. ds_count (sample_of (rg_provider_durations r) k)) (sortedKeys (rg_provider_durations r)) @
     family_page ''lag_provider_probe_results_total'' ''Total provider probe results by backend and result.''
       ''counter'' (counter_of (rg_probe_results r)) (sortedKeys (rg_probe_results r)) @
     status_page r ''lag_provider_backend_healthy''
       ''Current provider backend health status (1=healthy, 0=unhealthy).''
       (\<lambda>st. boolToGauge (isProviderHealthy st now)) @
     status_page r ''lag_provider_backend_consecutive_failures'' ''Current consecutive failure count by backend.''
       (\<lambda>st. word_of_int (ps_failures st)) @
     status_page r ''lag_provider_backend_cooldown_remaining_milliseconds''
       ''Remaining cooldown time before a backend is re-eligible.'' (\<lambda>st. word_of_int (cooldown_remaining st now)) @
     single_page ''lag_provider_ready'' ''Current provider readiness derived from backend health.'' ''gauge''
       (boolToGauge (provider_ready r now)) @
     help_page ''lag_governance_rejections_total'' ''Total governance rejections by reason.'' ''counter'' @
     map (\<lambda>key. Sample (in_family ''lag_governance_rejections_total'' (lbl ''reason'' key)) (counter_of (rg_rejections r) key))
       (sortedKeys (rg_rejections r)) @
     single_page ''lag_readyz_failures_total'' ''Total /readyz abnormal responses.'' ''counter'' (rg_readyz_failures r) @
     single_page ''lag_stream_requests_total'' ''Total streamed responses that emitted at least one chunk.''
       ''counter'' (rg_stream_requests r) @
     single_page ''lag_stream_chunks_total'' ''Total SSE data chunks emitted before [DONE].'' ''counter''
       (rg_stream_chunks r) @
     single_page ''lag_stream_ttft_milliseconds_sum'' ''Aggregate TTFT in milliseconds for streamed responses.''
       ''counter'' (rg_ttft_sum r) @
     single_page ''lag_stream_ttft_milliseconds_count'' ''Count of streamed responses with TTFT recorded.''
       ''counter'' (rg_ttft_count r)"

definition event_samples :: "registry \<Rightarrow> page_line list" where
  "event_samples r =
     map (\<lambda>key. Sample (in_family events_name key) (counter_of (rg_provider_events r) key))
       (sortedKeys (rg_provider_events r))"

lemma page_text_help: "page_text (help_page name help kind) = help_lines name help kind"
  by (simp add: help_page_def help_lines_def)

lemma page_text_samples:
  "page_text (map (\<lambda>key. Sample (in_family name (f key)) (value key)) keys) =
   concat (map (\<lambda>key. labelled name (f key) (value key)) keys)"
  by (induction keys) (simp_all add: labelled_def in_family_def)

lemma page_text_gauges:
  "page_text (map (\<lambda>key. Sample (in_family name (lbl a (f key))) (value key)) keys) =
   concat (map (\<lambda>key. writeGauge name (lbl a (f key)) (value key)) keys)"
  by (induction keys) (simp_all add: writeGauge_def in_family_def lbl_def)

lemmas page_parts = family_page_def single_page_def page_text_help page_text_samples

lemma page_text_family: "page_text (family_page name help ''counter'' (counter_of m) (sortedKeys m)) = writeCounter name help m"
  by (simp add: page_parts writeCounter_def page_text_samples [where f = "\<lambda>k. k"])

lemma page_text_durations:
  "page_text (family_page s sh ''counter'' (\<lambda>k. ds_sum_ms (sample_of m k)) (sortedKeys m)) @
   page_text (family_page c ch ''counter'' (\<lambda>k. ds_count (sample_of m k)) (sortedKeys m)) =
   writeDurationSamples s sh c ch m"
  by (simp add: page_parts writeDurationSamples_def page_text_samples [where f = "\<lambda>k. k"])

lemma page_text_single: "page_text (single_page name help ''counter'' n) = plain_counter name help n"
  by (simp add: page_parts plain_counter_def)

lemma page_text_statuses:
  "page_text (status_page r name help value) =
   help_lines name help ''gauge'' @
   concat (map (\<lambda>key. writeGauge name (lbl ''backend'' (sanitize key)) (value (status_of (rg_statuses r) key)))
     (sortedKeys (rg_statuses r)))"
  by (simp add: status_page_def page_text_help page_text_gauges)

lemma page_text_ready:
  "page_text (single_page ''lag_provider_ready'' help ''gauge'' (boolToGauge b)) =
   help_lines ''lag_provider_ready'' help ''gauge'' @
   text_line (if b then ''lag_provider_ready 1'' else ''lag_provider_ready 0'')"
proof -
  have "utoa (boolToGauge True) = ''1''" "utoa (boolToGauge False) = ''0''" by code_simp+
  then show ?thesis by (cases b) (simp_all add: page_parts)
qed

lemma writeMetrics_page: "writeMetrics r now = page_text (page_before r @ event_samples r @ page_after r now)"
  unfolding page_before_def page_after_def event_samples_def writeMetrics_def
    page_text_durations [symmetric] page_text_family [symmetric] writeProviderStatusMetrics_def Let_def
    writeGovernanceMetrics_def writeStreamMetrics_def
  by (simp add: page_text_single page_text_statuses page_text_ready page_text_samples
      family_page_def [of "''lag_provider_events_total''"] page_text_help events_name_def)

section \<open>Pages that can be read\<close>

text \<open>A plain label has visible characters and no quote, so it is printed as it is.\<close>

definition plain_label :: "string \<Rightarrow> bool" where
  "plain_label s \<longleftrightarrow> list_all (\<lambda>c. visible c \<and> c \<noteq> CHR 0x22) s"

lemma sanitize_plain: "plain_label s \<Longrightarrow> sanitize s = s"
  unfolding plain_label_def sanitize_def replace_char_def by (induction s) auto

lemma plain_visible: "plain_label s \<Longrightarrow> list_all visible s"
  by (auto simp: plain_label_def list_all_iff)

lemma lbl_visible: "list_all visible k \<Longrightarrow> list_all visible v \<Longrightarrow> list_all visible (lbl k v)"
  by (simp add: lbl_def visible_def)

lemma in_family_visible: "list_all visible name \<Longrightarrow> list_all visible key \<Longrightarrow> list_all visible (in_family name key)"
  by (simp add: in_family_def visible_def)

lemma label_names_visible:
  "list_all (list_all visible)
    [''method'', ''path'', ''status'', ''type'', ''operation'', ''backend'', ''result'', ''reason'', ''error'', ''success'']"
  by code_simp

lemma label_visible:
  assumes "n \<in> set [''method'', ''path'', ''status'', ''type'', ''operation'', ''backend'', ''result'', ''reason'']"
    and "list_all visible v"
  shows "list_all visible (lbl n v)"
proof -
  from assms(1) have "list_all visible n" using label_names_visible unfolding list_all_iff [of "list_all visible"] by auto
  then show ?thesis using assms(2) by (rule lbl_visible)
qed

definition visible_keys :: "(string \<times> 'v) list \<Rightarrow> bool" where
  "visible_keys m \<longleftrightarrow> list_all (list_all visible) (map fst m)"

lemma visible_keys_sorted: "visible_keys m \<Longrightarrow> k \<in> set (sortedKeys m) \<Longrightarrow> list_all visible k"
  by (auto simp: visible_keys_def sortedKeys_def list_all_iff)

lemma in_sortedKeys: "k \<in> set (sortedKeys m) \<longleftrightarrow> map_of m k \<noteq> None"
  by (simp add: sortedKeys_def map_of_eq_None_iff)

lemma visible_keys_update [simp]: "visible_keys m \<Longrightarrow> list_all visible k \<Longrightarrow> visible_keys (AList.update k v m)"
  by (induction m) (auto simp: visible_keys_def)

definition plain_registry :: "registry \<Rightarrow> bool" where
  "plain_registry r \<longleftrightarrow>
     visible_keys (rg_http_requests r) \<and> visible_keys (rg_http_durations r) \<and> visible_keys (rg_provider_events r) \<and>
     visible_keys (rg_provider_durations r) \<and> visible_keys (rg_probe_results r) \<and> visible_keys (rg_rejections r) \<and>
     list_all plain_label (map fst (rg_statuses r))"

definition family_of :: "string \<Rightarrow> string" where
  "family_of key = takeWhile (\<lambda>c. c \<noteq> CHR 0x7B) key"

definition plain_name :: "string \<Rightarrow> bool" where
  "plain_name s \<longleftrightarrow> s \<noteq> [] \<and> list_all visible s \<and> hd s \<noteq> CHR ''#'' \<and> CHR 0x7B \<notin> set s"

definition plain_help :: "string \<Rightarrow> bool" where
  "plain_help s \<longleftrightarrow> s \<noteq> [] \<and> visible (last s) \<and> CHR 0x0A \<notin> set s"

lemma takeWhile_before: "c \<notin> set s \<Longrightarrow> takeWhile (\<lambda>x. x \<noteq> c) (s @ c # t) = s" "c \<notin> set s \<Longrightarrow> takeWhile (\<lambda>x. x \<noteq> c) s = s"
  by (induction s) auto

lemma family_of_simps: "plain_name name \<Longrightarrow> family_of (in_family name key) = name" "plain_name name \<Longrightarrow> family_of name = name"
  by (simp_all add: family_of_def in_family_def plain_name_def takeWhile_before)

definition other_line :: "page_line \<Rightarrow> bool" where
  "other_line l \<longleftrightarrow> good_line l \<and> (case line_key l of None \<Rightarrow> True | Some k \<Rightarrow> family_of k \<noteq> events_name)"

lemma plain_name_line: "plain_name name \<Longrightarrow> CHR 0x0A \<notin> set name"
  using not_visible(1) by (auto simp: plain_name_def list_all_iff)

lemma other_help: "plain_name name \<Longrightarrow> plain_help help \<Longrightarrow> plain_help kind \<Longrightarrow> list_all other_line (help_page name help kind)"
  using plain_name_line [of name] by (simp add: help_page_def other_line_def plain_help_def)

lemma good_sample: "plain_name name \<Longrightarrow> list_all visible key \<Longrightarrow> good_line (Sample (in_family name key) n)"
  using in_family_visible [of name key] by (cases name) (simp_all add: plain_name_def in_family_def)

lemma other_samples:
  "plain_name name \<Longrightarrow> name \<noteq> events_name \<Longrightarrow> \<forall>k \<in> set keys. list_all visible (f k) \<Longrightarrow>
   list_all other_line (map (\<lambda>k. Sample (in_family name (f k)) (value k)) keys)"
  using good_sample [of name] by (auto simp: other_line_def family_of_simps list_all_iff simp del: good_line.simps)

lemma other_single:
  "plain_name name \<Longrightarrow> name \<noteq> events_name \<Longrightarrow> plain_help help \<Longrightarrow> plain_help kind \<Longrightarrow>
   list_all other_line (single_page name help kind n)"
  using other_help [of name] by (simp add: single_page_def other_line_def family_of_simps) (simp add: plain_name_def)

lemma other_family:
  "plain_name name \<Longrightarrow> name \<noteq> events_name \<Longrightarrow> plain_help help \<Longrightarrow> plain_help kind \<Longrightarrow> visible_keys m \<Longrightarrow>
   list_all other_line (family_page name help kind value (sortedKeys m))"
  using other_samples [of name "sortedKeys m" "\<lambda>k. k"] visible_keys_sorted [of m]
  by (simp add: family_page_def other_help)

lemma other_status:
  assumes "plain_registry r" and "plain_name name" and "name \<noteq> events_name" and "plain_help help"
  shows "list_all other_line (status_page r name help value)"
proof -
  have "list_all visible (lbl ''backend'' (sanitize k))" if "k \<in> set (sortedKeys (rg_statuses r))" for k
  proof -
    from that assms(1) have "plain_label k" by (auto simp: plain_registry_def sortedKeys_def list_all_iff)
    then show ?thesis by (intro label_visible) (simp_all add: sanitize_plain plain_visible)
  qed
  moreover have "plain_help ''gauge''" by code_simp
  ultimately show ?thesis
    using assms(2-4) by (simp add: status_page_def other_help other_samples)
qed

lemma page_names:
  "list_all (\<lambda>name. plain_name name \<and> name \<noteq> events_name)
     [''lag_http_requests_total'', ''lag_http_request_duration_milliseconds_sum'',
      ''lag_http_request_duration_milliseconds_count'', ''lag_provider_operation_duration_milliseconds_sum'',
      ''lag_provider_operation_duration_milliseconds_count'', ''lag_provider_probe_results_total'',
      ''lag_provider_backend_healthy'', ''lag_provider_backend_consecutive_failures'',
      ''lag_provider_backend_cooldown_remaining_milliseconds'', ''lag_provider_ready'',
      ''lag_governance_rejections_total'', ''lag_readyz_failures_total'', ''lag_stream_requests_total'',
      ''lag_stream_chunks_total'', ''lag_stream_ttft_milliseconds_sum'', ''lag_stream_ttft_milliseconds_count'']"
  by code_simp

lemma page_helps:
  "list_all plain_help
     [''counter'', ''gauge'', ''Total HTTP requests handled by the gateway.'',
      ''Aggregate HTTP request duration in milliseconds.'', ''Count of HTTP requests with latency recorded.'',
      ''Total provider routing events.'', ''Aggregate provider operation duration in milliseconds.'',
      ''Count of provider operations with latency recorded.'',
      ''Total provider probe results by backend and result.'',
      ''Current provider backend health status (1=healthy, 0=unhealthy).'',
      ''Current consecutive failure count by backend.'',
      ''Remaining cooldown time before a backend is re-eligible.'',
      ''Current provider readiness derived from backend health.'', ''Total governance rejections by reason.'',
      ''Total /readyz abnormal responses.'', ''Total streamed responses that emitted at least one chunk.'',
      ''Total SSE data chunks emitted before [DONE].'', ''Aggregate TTFT in milliseconds for streamed responses.'',
      ''Count of streamed responses with TTFT recorded.'']"
  by code_simp

lemma events_name_plain: "plain_name events_name"
  by code_simp

lemma page_before_other: "plain_registry r \<Longrightarrow> list_all other_line (page_before r)"
  using page_names page_helps events_name_plain
  by (simp only: page_before_def list_all_append list.pred_inject simp_thms other_family other_help plain_registry_def)

lemma page_after_other:
  assumes "plain_registry r"
  shows "list_all other_line (page_after r now)"
proof -
  have "\<forall>k \<in> set (sortedKeys (rg_rejections r)). list_all visible (lbl ''reason'' k)"
    using assms visible_keys_sorted by (auto simp: plain_registry_def intro!: label_visible)
  moreover have "visible_keys (rg_provider_durations r)" "visible_keys (rg_probe_results r)"
    using assms by (simp_all add: plain_registry_def)
  ultimately show ?thesis
    using page_names page_helps
    by (simp only: page_after_def list_all_append list.pred_inject simp_thms other_family other_help other_samples other_single
        other_status [OF assms])
qed

text \<open>What a reader of the page finds for a key of the events.\<close>

lemma in_family_inj: "inj_on (in_family name) A"
  by (auto simp: inj_on_def in_family_def)

lemma events_read_back:
  assumes "plain_registry r"
  shows "map_of (parse_metrics (writeMetrics r now)) (in_family events_name k) =
    map_option (\<lambda>n. f64_of_int (uint (counter_of (rg_provider_events r) k))) (map_of (rg_provider_events r) k)"
proof -
  have other: "\<forall>l \<in> set ls. line_key l \<noteq> Some (in_family events_name k)" if "list_all other_line ls" for ls
    using that events_name_plain by (auto simp: list_all_iff other_line_def family_of_simps split: option.splits)
  have good: "list_all good_line ls" if "list_all other_line ls" for ls
    using that by (simp add: list_all_iff other_line_def)
  note b = page_before_other [OF assms] and a = page_after_other [OF assms, of now]
  have "\<forall>key \<in> set (sortedKeys (rg_provider_events r)). list_all visible key"
    using assms visible_keys_sorted by (auto simp: plain_registry_def)
  then have "list_all good_line (event_samples r)"
    using good_sample [OF events_name_plain] by (simp add: event_samples_def list_all_iff del: good_line.simps)
  with good [OF a] good [OF b] have "parse_metrics (writeMetrics r now) =
      fold read_line (page_after r now) (fold read_line (event_samples r) (fold read_line (page_before r) []))"
    by (simp add: writeMetrics_page parse_page del: page_text_simps)
  then have "map_of (parse_metrics (writeMetrics r now)) (in_family events_name k) =
      map_of (fold read_line (event_samples r) (fold read_line (page_before r) [])) (in_family events_name k)"
    by (simp add: lookup_absent [OF other [OF a]])
  also have "\<dots> = (if k \<in> set (sortedKeys (rg_provider_events r))
      then Some (f64_of_int (uint (counter_of (rg_provider_events r) k))) else None)"
    by (simp add: event_samples_def lookup_family [OF in_family_inj] lookup_absent [OF other [OF b]])
  also have "\<dots> = map_option (\<lambda>n. f64_of_int (uint (counter_of (rg_provider_events r) k))) (map_of (rg_provider_events r) k)"
    by (auto simp: in_sortedKeys)
  finally show ?thesis .
qed

end
