(* ===== verification/SummaryFacts.thy ===== *)
theory SummaryFacts
  imports Nightly LoadTestFacts Float64Facts
begin

text \<open>
  The summary that the load test prints as JSON is the summary that the nightly check reads: the parser on
  indented text, and the fields of the summary.
\<close>

section \<open>Indented text\<close>

definition reads :: "json \<Rightarrow> string \<Rightarrow> bool" where
  "reads v t \<longleftrightarrow> (\<forall>r. ends_value r \<longrightarrow> (\<exists>k. \<forall>n \<ge> k. parse_value n (t @ r) = Some (v, r)))"

lemma reads_encode: "wf_json v \<Longrightarrow> reads v (encode v)"
  using parses_encode by (simp add: reads_def parses_def)

lemma skip_space: "list_all is_ws w \<Longrightarrow> skip_ws (w @ s) = skip_ws s"
  by (simp add: skip_ws_def list_all_iff dropWhile_append2)

lemma parse_value_space: "list_all is_ws w \<Longrightarrow> parse_value n (w @ s) = parse_value n s"
  by (cases n) (simp_all add: skip_space)

lemma parse_members_space: "list_all is_ws w \<Longrightarrow> parse_members n (w @ s) = parse_members n s"
  by (cases n) (simp_all add: skip_space)

lemma ends_value_space: "list_all is_ws w \<Longrightarrow> ends_value (w @ CHR 0x7D # r)"
  by (cases w) (auto simp: ends_value_def is_ws_def is_digit_def)

lemma space_char: "parse_value n (CHR '' '' # s) = parse_value n s"
  using parse_value_space [of "[CHR '' '']" n s] by (simp add: is_ws_def)

lemma parse_members_indented:
  assumes "ms \<noteq> []" and "list_all is_ws w" and "list_all is_ws w'"
    and "\<forall>(k, v) \<in> set ms. valid_utf8 k \<and> reads v (f v)"
  shows "\<exists>k. \<forall>n \<ge> k. parse_members n
    (join ('','' @ w) (map (\<lambda>(k, v). quoted k @ '': '' @ f v) ms) @ w' @ CHR 0x7D # r) = Some (ms, r)"
  using assms(1,4)
proof (induction ms)
  case (Cons m ms)
  obtain key v where m: "m = (key, v)" by (metis surj_pair)
  have key: "valid_utf8 key" and v: "reads v (f v)" using Cons.prems by (auto simp: m)
  let ?rest = "join ('','' @ w) (map (\<lambda>(k, v). quoted k @ '': '' @ f v) ms) @ w' @ CHR 0x7D # r"
  define tail where "tail = (if ms = [] then w' @ CHR 0x7D # r else CHR '','' # w @ ?rest)"
  have shape: "join ('','' @ w) (map (\<lambda>(k, v). quoted k @ '': '' @ f v) (m # ms)) @ w' @ CHR 0x7D # r =
      CHR 0x22 # escape key @ CHR 0x22 # CHR '':'' # CHR '' '' # f v @ tail"
    by (simp add: m tail_def join_Cons quoted_def)
  have "ends_value tail"
    using ends_value_space [OF assms(3)] by (simp add: tail_def) (simp add: ends_value_def is_digit_def)
  then obtain k where k: "\<And>n. k \<le> n \<Longrightarrow> parse_value n (f v @ tail) = Some (v, tail)"
    using v unfolding reads_def by blast
  obtain k' where k': "\<And>n. k' \<le> n \<Longrightarrow> ms \<noteq> [] \<Longrightarrow> parse_members n (w @ ?rest) = Some (ms, r)"
    using Cons by (cases "ms = []") (auto simp: parse_members_space [OF assms(2)])
  have close: "skip_ws (w' @ CHR 0x7D # r) = CHR 0x7D # r" by (simp add: skip_space [OF assms(3)]) (simp add: skip_ws_def is_ws_def)
  have "parse_members n (CHR 0x22 # escape key @ CHR 0x22 # CHR '':'' # CHR '' '' # f v @ tail) = Some (m # ms, r)"
    if "Suc (max k k') \<le> n" for n
    using that k [of "n - 1"] k' [of "n - 1"] parse_string_quoted [OF key] close
    by (cases n; cases "ms = []") (simp_all add: skip_ws_def [of "_ # _"] is_ws_def m tail_def Let_def space_char)
  then show ?case unfolding shape by blast
qed simp

lemma reads_object:
  assumes "ms \<noteq> []" and "list_all is_ws w" and "list_all is_ws w'"
    and "\<forall>(k, v) \<in> set ms. valid_utf8 k \<and> reads v (f v)"
  shows "reads (JObj ms)
    (CHR 0x7B # w @ join ('','' @ w) (map (\<lambda>(k, v). quoted k @ '': '' @ f v) ms) @ w' @ [CHR 0x7D])"
  unfolding reads_def
proof (intro allI impI)
  fix r
  let ?t = "join ('','' @ w) (map (\<lambda>(k, v). quoted k @ '': '' @ f v) ms) @ w' @ CHR 0x7D # r"
  obtain k where k: "\<And>n. k \<le> n \<Longrightarrow> parse_members n ?t = Some (ms, r)"
    using parse_members_indented [OF assms] by blast
  obtain m ms' where ms: "ms = m # ms'" using assms(1) by (cases ms) auto
  have "hd ?t = CHR 0x22" "?t \<noteq> []" by (simp_all add: ms join_Cons quoted_def case_prod_beta)
  then have t: "\<not> has_prefix (skip_ws (w @ ?t)) [CHR 0x7D]"
    unfolding skip_space [OF assms(2)] by (cases ?t) (simp_all add: skip_ws_def is_ws_def)
  have "parse_value n (CHR 0x7B # w @ ?t) = Some (JObj ms, r)" if "Suc k \<le> n" for n
    using that k [of "n - 1"] t parse_value_at [of "CHR 0x7B" "w @ ?t" "n - 1"]
    by (cases n) (simp_all add: value_head_def is_ws_def parse_members_space [OF assms(2)])
  then show "\<exists>k. \<forall>n \<ge> k. parse_value n ((CHR 0x7B # w @ join ('','' @ w)
      (map (\<lambda>(k, v). quoted k @ '': '' @ f v) ms) @ w' @ [CHR 0x7D]) @ r) = Some (JObj ms, r)"
    by auto
qed

fun array_free :: "json \<Rightarrow> bool" where
  "array_free (JArr vs) \<longleftrightarrow> False"
| "array_free (JObj ms) \<longleftrightarrow> list_all (\<lambda>(k, v). array_free v) ms"
| "array_free _ \<longleftrightarrow> True"

lemma new_line_space: "list_all is_ws (new_line d)"
  by (auto simp: new_line_def is_ws_def list_all_iff)

lemma reads_indented: "wf_json v \<Longrightarrow> array_free v \<Longrightarrow> reads v (indented d v)"
proof (induction v arbitrary: d)
  case (JObj ms)
  show ?case
  proof (cases "ms = []")
    case True
    then show ?thesis using reads_encode [of "JObj []"] by simp
  next
    case False
    have "valid_utf8 k \<and> reads v (indented (d + 1) v)" if kv: "(k, v) \<in> set ms" for k v
    proof
      have "valid_utf8 k \<and> wf_json v" "array_free v" using kv JObj.prems by (auto simp: list_all_iff)
      then show "valid_utf8 k" "reads v (indented (d + 1) v)"
        by (simp, intro JObj.IH [OF kv]) (simp_all add: prod_set_defs)
    qed
    then have "\<forall>(k, v) \<in> set ms. valid_utf8 k \<and> reads v (indented (d + 1) v)" by blast
    from reads_object [OF False new_line_space new_line_space this] False show ?thesis by simp
  qed
next
  case JNull
  show ?case using reads_encode [of JNull] by simp
next
  case (JBool b)
  show ?case using reads_encode [of "JBool b"] by simp
next
  case (JNum lit)
  then show ?case using reads_encode [of "JNum lit"] by simp
next
  case (JStr s)
  then show ?case using reads_encode [of "JStr s"] by simp
qed simp

lemma unmarshal_indented:
  assumes "wf_json v" and "array_free v"
  shows "unmarshal (indented 0 v @ [CHR 0x0A]) = Inr v"
proof -
  let ?s = "indented 0 v @ [CHR 0x0A]"
  have "ends_value [CHR 0x0A]" by (simp add: ends_value_def is_digit_def)
  then obtain k where k: "\<And>n. k \<le> n \<Longrightarrow> parse_value n ?s = Some (v, [CHR 0x0A])"
    using reads_indented [OF assms, of 0] unfolding reads_def by blast
  have "parse_value (2 * length ?s + 2) ?s = parse_value (max k (2 * length ?s + 2)) ?s"
    by (rule parse_fuel(1)) simp_all
  also have "\<dots> = Some (v, [CHR 0x0A])" by (rule k) simp
  finally show ?thesis by (simp add: unmarshal_def skip_ws_def is_ws_def del: parse_value.simps)
qed

section \<open>The fields of a summary\<close>

text \<open>The summaries whose numbers are machine integers and whose error is a well-formed text.\<close>

definition plain_counts :: "(int \<times> int) list \<Rightarrow> bool" where
  "plain_counts m \<longleftrightarrow> distinct (map fst m) \<and> list_all (\<lambda>(st, n). in_int64 st \<and> in_int64 n) m"

definition plain_summary :: "lt_summary \<Rightarrow> bool" where
  "plain_summary s \<longleftrightarrow>
     in_int64 (ls_Requests s) \<and> in_int64 (ls_Concurrency s) \<and> in_int64 (ls_Success s) \<and> in_int64 (ls_Failure s) \<and>
     plain_counts (ls_StatusCounts s) \<and> in_int64 (ls_LatencyP95MS s) \<and> in_int64 (ls_TTFTP95MS s) \<and>
     in_int64 (ls_StreamChunks s) \<and> valid_utf8 (ls_SampleError s)"

definition update_all :: "('k \<times> 'v) list \<Rightarrow> ('k \<times> 'v) list \<Rightarrow> ('k \<times> 'v) list" where
  "update_all kvs m = fold (\<lambda>(k, v). AList.update k v) kvs m"

lemma map_of_update_all: "distinct (map fst kvs) \<Longrightarrow> map_of (update_all kvs m) = map_of m ++ map_of kvs"
proof (induction kvs arbitrary: m)
  case (Cons kv kvs)
  obtain k v where kv: "kv = (k, v)" by fastforce
  with Cons have "map_of (update_all (kv # kvs) m) = (map_of m)(k \<mapsto> v) ++ map_of kvs"
    by (simp add: update_all_def update_conv')
  also have "\<dots> = map_of m ++ map_of (kv # kvs)"
    using Cons.prems kv by (auto simp: map_add_def fun_eq_iff split: option.splits) (metis image_eqI map_of_SomeD fst_conv)
  finally show ?case .
qed (simp add: update_all_def)

lemma entries_read:
  assumes "list_all (\<lambda>(st, n). in_int64 st \<and> in_int64 n) m"
  shows "fold (\<lambda>kv r. and_then r (\<lambda>m. and_then (int_entry name kv) (\<lambda>(k, x). Inr (AList.update k x m))))
    (map (\<lambda>(k, n). (itoa k, num n)) m) (Inr m0) = Inr (update_all m m0)"
  using assms
proof (induction m arbitrary: m0)
  case (Cons kv m)
  obtain k n where kv: "kv = (k, n)" by fastforce
  with Cons.prems have "int_entry name (itoa k, num n) = Inr (k, n)"
    by (simp add: int_entry_def num_def int_of_literal_def atoi_itoa)
  with Cons kv show ?case by (simp add: update_all_def)
qed (simp add: update_all_def)

lemma insort_key_map: "insort_key f (g x) (map g ys) = map g (insort_key (\<lambda>x. f (g x)) x ys)"
  by (induction ys) auto

lemma sort_key_mapped: "sort_key f (map g xs) = map g (sort_key (\<lambda>x. f (g x)) xs)"
  by (induction xs) (simp_all add: insort_key_map)

lemma status_counts_read:
  assumes "plain_counts m"
  shows "\<exists>m'. assign_maps name (int_entry name) [status_counts_json m] [] = Inr m' \<and> map_of m' = map_of m"
proof -
  let ?m = "sort_key (\<lambda>kv. itoa (fst kv)) m"
  have sorted: "sort_key fst (map (\<lambda>(k, n). (itoa k, num n)) m) = map (\<lambda>(k, n). (itoa k, num n)) ?m"
    by (simp add: sort_key_mapped case_prod_beta)
  have "distinct (map fst ?m)" "list_all (\<lambda>(st, n). in_int64 st \<and> in_int64 n) ?m"
    using assms by (simp_all add: plain_counts_def distinct_map list_all_iff)
  then have "map_of (update_all ?m []) = map_of ?m"
    and "assign_maps name (int_entry name) [status_counts_json m] [] = Inr (update_all ?m [])"
    by (simp_all add: map_of_update_all status_counts_json_def sorted entries_read)
  moreover have "map_of ?m = map_of m"
    using assms \<open>distinct (map fst ?m)\<close> by (intro map_of_eqI) (auto simp: plain_counts_def)
  ultimately show ?thesis by auto
qed

definition bench_of :: "lt_summary \<Rightarrow> (int \<times> int) list \<Rightarrow> bench_summary" where
  "bench_of s m =
     \<lparr>bs_Requests = ls_Requests s, bs_Concurrency = ls_Concurrency s, bs_Stream = ls_Stream s,
      bs_Success = ls_Success s, bs_Failure = ls_Failure s, bs_StatusCounts = m,
      bs_LatencyP95MS = ls_LatencyP95MS s, bs_TTFTP95MS = ls_TTFTP95MS s, bs_StreamChunks = ls_StreamChunks s,
      bs_SampleError = ls_SampleError s\<rparr>"

lemma wf_summary: "valid_utf8 (ls_SampleError s) \<Longrightarrow> wf_json (summary_json s) \<and> array_free (summary_json s)"
proof -
  have "valid_utf8 (itoa k)" for k
  proof -
    have "\<forall>c \<in> set (itoa k). (of_char c :: nat) < 128"
      using in_itoa [of _ k] by (fastforce simp: is_digit_nat)
    moreover have "(\<forall>c \<in> set t. (of_char c :: nat) < 128) \<Longrightarrow> valid_utf8 t" for t
      by (induction t) (simp_all add: valid_utf8.simps(1))
    ultimately show ?thesis by blast
  qed
  then show "valid_utf8 (ls_SampleError s) \<Longrightarrow> wf_json (summary_json s) \<and> array_free (summary_json s)"
    by (auto simp: summary_json_def omit_zero_def omit_empty_def status_counts_json_def list_all_iff num_def [symmetric])
      (simp_all add: num_def)
qed

lemma summary_decoded:
  assumes "plain_summary s"
  shows "\<exists>m. decode_struct dec_bench_summary (summary_json s) = Inr (bench_of s m) \<and> map_of m = map_of (ls_StatusCounts s)"
proof -
  obtain m where m: "assign_maps ''status_counts'' (int_entry ''status_counts'') [status_counts_json (ls_StatusCounts s)] [] = Inr m"
    and same: "map_of m = map_of (ls_StatusCounts s)"
    using status_counts_read assms by (meson plain_summary_def)
  have "decode_struct dec_bench_summary (summary_json s) = Inr (bench_of s m)"
    using assms
    by (simp add: summary_json_def dec_bench_summary_def decoding bool_field_def int_map_field_def m bench_of_def plain_summary_def
        omit_zero_def omit_empty_def del: assign_maps.simps)
  with same show ?thesis by blast
qed

lemma load_summary:
  assumes "plain_summary s" and "fs path = Inr (printJSONSummary s)"
  shows "\<exists>m. load_json fs dec_bench_summary path = Inr (bench_of s m) \<and> map_of m = map_of (ls_StatusCounts s)"
proof -
  have "valid_utf8 (ls_SampleError s)" using assms(1) by (simp add: plain_summary_def)
  then have "unmarshal (printJSONSummary s) = Inr (summary_json s)"
    using wf_summary [of s] unmarshal_indented by (simp add: printJSONSummary_def)
  then show ?thesis using summary_decoded [OF assms(1)] assms(2) by (simp add: load_json_def)
qed

section \<open>Summaries of reports\<close>

text \<open>A report whose numbers are machine integers and whose errors are well-formed texts.\<close>

definition plain_report :: "lt_report \<Rightarrow> bool" where
  "plain_report rep \<longleftrightarrow>
     lp_requests rep = int (length (lp_results rep)) \<and> in_int64 (lp_requests rep) \<and> in_int64 (lp_concurrency rep) \<and>
     list_all (\<lambda>x. in_int64 (lx_status x) \<and> in_int64 (lx_latency x) \<and> in_int64 (lx_ttft x) \<and>
       (case lx_err x of None \<Rightarrow> True | Some e \<Rightarrow> valid_utf8 (err_text e))) (lp_results rep)"

lemma tally_range: "0 \<le> tally P xs" "tally P xs \<le> int (length xs)"
  by (simp_all add: tally_def)

lemma count_status_plain:
  assumes "distinct (map fst m)" and "\<forall>k \<in> fst ` set m. in_int64 k" and "in_int64 st"
  shows "distinct (map fst (count_status st m))" and "\<forall>k \<in> fst ` set (count_status st m). in_int64 k"
  using assms by (auto simp: count_status_def distinct_update dom_update)

definition plain_result :: "lt_result \<Rightarrow> bool" where
  "plain_result x \<longleftrightarrow> in_int64 (lx_status x) \<and> (case lx_err x of None \<Rightarrow> True | Some e \<Rightarrow> valid_utf8 (err_text e))"

definition plain_totals :: "lt_totals \<Rightarrow> bool" where
  "plain_totals t \<longleftrightarrow> distinct (map fst (tt_status_counts t)) \<and> (\<forall>k \<in> fst ` set (tt_status_counts t). in_int64 k) \<and>
     in_int64 (tt_chunks t) \<and> valid_utf8 (tt_sample_error t)"

lemma add_result_plain:
  assumes "plain_result x" and "plain_totals t"
  shows "plain_totals (add_result x t)"
proof -
  have "in_int64 (tt_chunks (add_result x t))"
    by (simp add: add_result_def Let_def go_add_def wrap64_range split: option.split)
  moreover have "valid_utf8 (tt_sample_error (add_result x t))"
    using assms by (auto simp: add_result_def Let_def plain_result_def plain_totals_def split: option.splits)
  moreover have "distinct (map fst (tt_status_counts t))" "\<forall>k \<in> fst ` set (tt_status_counts t). in_int64 k"
    "in_int64 (lx_status x)"
    using assms unfolding plain_totals_def plain_result_def by blast+
  note count_status_plain [OF this]
  ultimately show ?thesis unfolding plain_totals_def add_result_fields(1) by blast
qed

lemma totals_plain: "\<forall>x \<in> set xs. plain_result x \<Longrightarrow> plain_totals t \<Longrightarrow> plain_totals (fold add_result xs t)"
  by (induction xs arbitrary: t) (simp_all add: add_result_plain)

lemma results_totals_plain: "\<forall>x \<in> set xs. plain_result x \<Longrightarrow> plain_totals (results_totals xs)"
  unfolding results_totals_def by (rule totals_plain) (simp_all add: plain_totals_def)

lemma sort_nth: "i < length vs \<Longrightarrow> sort vs ! i \<in> set vs"
  by (metis length_sort nth_mem set_sort)

lemma percentile_in: "vs \<noteq> [] \<Longrightarrow> lt_percentile vs p \<in> set vs"
  by (auto simp: lt_percentile_def Let_def nat_less_iff intro!: sort_nth)

lemma milliseconds_range: "in_int64 d \<Longrightarrow> in_int64 (milliseconds d)"
proof -
  assume d: "in_int64 d"
  define q where "q = \<bar>d\<bar> div 1000000"
  have "0 \<le> q" by (simp add: q_def pos_imp_zdiv_nonneg_iff)
  moreover have "1000000 * q \<le> \<bar>d\<bar>" unfolding q_def by (rule div_bounds(1)) simp
  moreover have "milliseconds d = q \<or> milliseconds d = - q"
    by (simp add: milliseconds_def millisecond_def trunc_div_def q_def Let_def)
  ultimately show ?thesis using d by (auto simp: in_int64_def min_int_def max_int_def)
qed

lemma percentile_ms_range: "\<forall>v \<in> set vs. in_int64 v \<Longrightarrow> in_int64 (percentile_ms b vs p)"
  using percentile_in [of vs p] by (auto simp: percentile_ms_def milliseconds_range)

lemma plain_summary_of_report:
  assumes "plain_report rep"
  shows "plain_summary (buildSummary rep)"
proof -
  let ?xs = "lp_results rep" and ?t = "results_totals (lp_results rep)"
  have r: "lp_requests rep = int (length ?xs)" "in_int64 (lp_requests rep)" "in_int64 (lp_concurrency rep)"
    and x: "\<And>x. x \<in> set ?xs \<Longrightarrow> in_int64 (lx_status x) \<and> in_int64 (lx_latency x) \<and> in_int64 (lx_ttft x) \<and>
       (case lx_err x of None \<Rightarrow> True | Some e \<Rightarrow> valid_utf8 (err_text e))"
    using assms by (auto simp: plain_report_def list_all_iff)
  have within: "in_int64 i" if "0 \<le> i" "i \<le> int (length ?xs)" for i
    using in_int64_between [OF in_int64_numeral_0 r(2) that(1)] that(2) r(1) by simp
  have counts: "in_int64 (tally P ?xs)" for P using within tally_range by blast
  have "plain_totals ?t" using x by (intro results_totals_plain) (auto simp: plain_result_def)
  then have t: "distinct (map fst (tt_status_counts ?t))" "\<forall>k \<in> fst ` set (tt_status_counts ?t). in_int64 k"
    "in_int64 (tt_chunks ?t)" "valid_utf8 (tt_sample_error ?t)"
    by (simp_all add: plain_totals_def)
  have "in_int64 n" if "(st, n) \<in> set (tt_status_counts ?t)" for st n
  proof -
    have "n = counted (tt_status_counts ?t) st"
      using that t(1) by (simp add: counted_def)
    then show ?thesis using counts by (simp add: results_totals_parts)
  qed
  with t(1,2) have "plain_counts (tt_status_counts ?t)" by (force simp: plain_counts_def list_all_iff)
  moreover have "\<forall>v \<in> set (tt_latencies ?t). in_int64 v" "\<forall>v \<in> set (tt_ttfts ?t). in_int64 v"
    using x by (auto simp: results_totals_parts)
  moreover have "lp_requests rep - tt_failures ?t = tally (\<lambda>x. lx_err x = None) ?xs"
    using tally_complement [of ?xs "\<lambda>x. lx_err x = None"] r(1) by (simp add: results_totals_parts)
  moreover have "in_int64 (tt_failures ?t)" using counts by (simp add: results_totals_parts)
  ultimately show ?thesis
    using r t(3,4) counts
    by (simp add: plain_summary_def buildSummary_def Let_def percentile_ms_range)
qed

text \<open>The sample error is empty exactly without failures, when no error has an empty text.\<close>

lemma tally_zero: "tally P xs = 0 \<longleftrightarrow> (\<forall>x \<in> set xs. \<not> P x)"
  by (simp add: tally_def filter_empty_conv)

lemma tally_all: "tally P xs = int (length xs) \<longleftrightarrow> (\<forall>x \<in> set xs. P x)"
  using tally_complement [of xs P] tally_zero [of "\<lambda>x. \<not> P x" xs] by auto

lemma no_failure_no_error: "\<forall>x \<in> set xs. lx_err x = None \<Longrightarrow> tt_sample_error (results_totals xs) = []"
proof -
  have "\<forall>x \<in> set xs. lx_err x = None \<Longrightarrow> tt_sample_error (fold add_result xs t) = tt_sample_error t" for t
    by (induction xs arbitrary: t) (simp_all add: add_result_def Let_def)
  then show "\<forall>x \<in> set xs. lx_err x = None \<Longrightarrow> tt_sample_error (results_totals xs) = []"
    by (simp add: results_totals_def)
qed

end
