(* ===== verification/NightlyReport.thy ===== *)
theory NightlyReport
  imports Nightly
begin

text \<open>
  \<open>cmd/nightlyreport/main.go\<close>: the report in Markdown of benchmarks against a baseline and of the failure
  drills. Its own copies of the readers of \<open>nightlycheck\<close> are those of \<open>Nightly\<close>.
\<close>

section \<open>Configuration\<close>

record nr_config =
  nr_BaselinePath :: string
  nr_MockNonStreamPath :: string
  nr_MockStreamPath :: string
  nr_AdapterNonStreamPath :: string
  nr_AdapterStreamPath :: string
  nr_PrechunkOutputPath :: string
  nr_PrechunkMetricsPath :: string
  nr_PartialOutputPath :: string
  nr_PartialMetricsPath :: string
  nr_AnthropicSystemOutputPath :: string
  nr_AnthropicUpstreamRequestPath :: string
  nr_AnthropicPrechunkOutputPath :: string
  nr_AnthropicPrechunkMetricsPath :: string
  nr_AnthropicPartialOutputPath :: string
  nr_AnthropicPartialMetricsPath :: string
  nr_OutputPath :: string

definition nightlyreport_flags :: "nr_config flag_set" where
  "nightlyreport_flags =
     [(''baseline'', StringVar (\<lambda>v c. c\<lparr>nr_BaselinePath := v\<rparr>)),
      (''mock-non-stream'', StringVar (\<lambda>v c. c\<lparr>nr_MockNonStreamPath := v\<rparr>)),
      (''mock-stream'', StringVar (\<lambda>v c. c\<lparr>nr_MockStreamPath := v\<rparr>)),
      (''adapter-non-stream'', StringVar (\<lambda>v c. c\<lparr>nr_AdapterNonStreamPath := v\<rparr>)),
      (''adapter-stream'', StringVar (\<lambda>v c. c\<lparr>nr_AdapterStreamPath := v\<rparr>)),
      (''prechunk-output'', StringVar (\<lambda>v c. c\<lparr>nr_PrechunkOutputPath := v\<rparr>)),
      (''prechunk-metrics'', StringVar (\<lambda>v c. c\<lparr>nr_PrechunkMetricsPath := v\<rparr>)),
      (''partial-output'', StringVar (\<lambda>v c. c\<lparr>nr_PartialOutputPath := v\<rparr>)),
      (''partial-metrics'', StringVar (\<lambda>v c. c\<lparr>nr_PartialMetricsPath := v\<rparr>)),
      (''anthropic-system-output'', StringVar (\<lambda>v c. c\<lparr>nr_AnthropicSystemOutputPath := v\<rparr>)),
      (''anthropic-upstream-request'', StringVar (\<lambda>v c. c\<lparr>nr_AnthropicUpstreamRequestPath := v\<rparr>)),
      (''anthropic-prechunk-output'', StringVar (\<lambda>v c. c\<lparr>nr_AnthropicPrechunkOutputPath := v\<rparr>)),
      (''anthropic-prechunk-metrics'', StringVar (\<lambda>v c. c\<lparr>nr_AnthropicPrechunkMetricsPath := v\<rparr>)),
      (''anthropic-partial-output'', StringVar (\<lambda>v c. c\<lparr>nr_AnthropicPartialOutputPath := v\<rparr>)),
      (''anthropic-partial-metrics'', StringVar (\<lambda>v c. c\<lparr>nr_AnthropicPartialMetricsPath := v\<rparr>)),
      (''output'', StringVar (\<lambda>v c. c\<lparr>nr_OutputPath := v\<rparr>))]"

definition nightlyreport_parseFlags :: "string list \<Rightarrow> nr_config res" where
  "nightlyreport_parseFlags args =
     map_sum id snd (flag_Parse nightlyreport_flags args
       \<lparr>nr_BaselinePath = ''.github/nightly/benchmark-baseline.json'', nr_MockNonStreamPath = [],
        nr_MockStreamPath = [], nr_AdapterNonStreamPath = [], nr_AdapterStreamPath = [],
        nr_PrechunkOutputPath = [], nr_PrechunkMetricsPath = [], nr_PartialOutputPath = [],
        nr_PartialMetricsPath = [], nr_AnthropicSystemOutputPath = [], nr_AnthropicUpstreamRequestPath = [],
        nr_AnthropicPrechunkOutputPath = [], nr_AnthropicPrechunkMetricsPath = [],
        nr_AnthropicPartialOutputPath = [], nr_AnthropicPartialMetricsPath = [], nr_OutputPath = []\<rparr>)"

section \<open>Benchmarks\<close>

text \<open>The struct has the fields and names of the summary that the load test prints.\<close>

definition dec_summary :: "(string \<times> json) list \<Rightarrow> lt_summary res" where
  "dec_summary ms =
     and_then (int_field ''requests'' ms) (\<lambda>a.
     and_then (int_field ''concurrency'' ms) (\<lambda>b.
     and_then (bool_field ''stream'' ms) (\<lambda>c.
     and_then (int_field ''total_duration_ms'' ms) (\<lambda>d.
     and_then (int_field ''success'' ms) (\<lambda>e.
     and_then (int_field ''failure'' ms) (\<lambda>f.
     and_then (int_map_field ''status_counts'' ms) (\<lambda>g.
     and_then (int_field ''latency_p50_ms'' ms) (\<lambda>h.
     and_then (int_field ''latency_p95_ms'' ms) (\<lambda>i.
     and_then (int_field ''latency_max_ms'' ms) (\<lambda>j.
     and_then (int_field ''ttft_p50_ms'' ms) (\<lambda>k.
     and_then (int_field ''ttft_p95_ms'' ms) (\<lambda>l.
     and_then (int_field ''ttft_max_ms'' ms) (\<lambda>m.
     and_then (int_field ''stream_chunks_total'' ms) (\<lambda>n.
     and_then (string_field ''sample_error'' ms) (\<lambda>x.
       Inr \<lparr>ls_Requests = a, ls_Concurrency = b, ls_Stream = c, ls_TotalDurationMS = d, ls_Success = e,
            ls_Failure = f, ls_StatusCounts = g, ls_LatencyP50MS = h, ls_LatencyP95MS = i, ls_LatencyMaxMS = j,
            ls_TTFTP50MS = k, ls_TTFTP95MS = l, ls_TTFTMaxMS = m, ls_StreamChunks = n,
            ls_SampleError = x\<rparr>)))))))))))))))"

definition zero_summary :: lt_summary where
  "zero_summary =
     \<lparr>ls_Requests = 0, ls_Concurrency = 0, ls_Stream = False, ls_TotalDurationMS = 0, ls_Success = 0,
      ls_Failure = 0, ls_StatusCounts = [], ls_LatencyP50MS = 0, ls_LatencyP95MS = 0, ls_LatencyMaxMS = 0,
      ls_TTFTP50MS = 0, ls_TTFTP95MS = 0, ls_TTFTMaxMS = 0, ls_StreamChunks = 0, ls_SampleError = []\<rparr>"

record baseline_file =
  bf_Source :: string
  bf_Benchmarks :: "(string \<times> lt_summary) list"

definition summary_entry :: "(string \<times> json) \<Rightarrow> (string \<times> lt_summary) res" where
  "summary_entry kv =
     (case snd kv of
        JObj ms \<Rightarrow> and_then (dec_summary ms) (\<lambda>s. Inr (fst kv, s))
      | JNull \<Rightarrow> Inr (fst kv, zero_summary)
      | _ \<Rightarrow> Inl (type_error ''benchmarks''))"

definition dec_baseline :: "(string \<times> json) list \<Rightarrow> baseline_file res" where
  "dec_baseline ms =
     and_then (string_field ''source'' ms) (\<lambda>s.
     and_then (assign_maps ''benchmarks'' summary_entry (field_values ''benchmarks'' ms) []) (\<lambda>b.
       Inr \<lparr>bf_Source = s, bf_Benchmarks = b\<rparr>))"

record report_row =
  rw_Name :: string
  rw_Status :: string
  rw_Success :: string
  rw_LatencyP95 :: string
  rw_TTFTP95 :: string
  rw_TotalDuration :: string
  rw_StreamChunks :: string

definition formatDelta :: "int \<Rightarrow> int \<Rightarrow> string \<Rightarrow> string" where
  "formatDelta base current unit =
     (let delta = wrap64 (current - base); sign = (if delta < 0 then [] else ''+'') in
      if unit \<noteq> [] then itoa current @ unit @ '' ('' @ sign @ itoa delta @ unit @ '')''
      else itoa current @ '' ('' @ sign @ itoa delta @ '')'')"

definition formatOptionalDelta :: "int \<Rightarrow> int \<Rightarrow> string \<Rightarrow> string" where
  "formatOptionalDelta base current unit =
     (if base = 0 \<and> current = 0 then ''n/a'' else formatDelta base current unit)"

definition benchmarkStatus :: "lt_summary \<Rightarrow> lt_summary \<Rightarrow> string" where
  "benchmarkStatus baseline current =
     (if ls_Requests baseline = 0 then ''no-baseline''
      else if 0 < ls_Failure current \<or> ls_Success current < ls_Requests current then ''degraded''
      else if ls_LatencyP95MS baseline < ls_LatencyP95MS current then ''slower''
      else if ls_LatencyP95MS current < ls_LatencyP95MS baseline then ''faster''
      else ''steady'')"

definition summary_of :: "(string \<times> lt_summary) list \<Rightarrow> string \<Rightarrow> lt_summary" where
  "summary_of m k = (case map_of m k of None \<Rightarrow> zero_summary | Some s \<Rightarrow> s)"

definition benchmark_row :: "string \<Rightarrow> lt_summary \<Rightarrow> lt_summary \<Rightarrow> report_row" where
  "benchmark_row name base cur =
     \<lparr>rw_Name = name, rw_Status = benchmarkStatus base cur,
      rw_Success = itoa (ls_Success cur) @ ''/'' @ itoa (ls_Requests cur),
      rw_LatencyP95 = formatDelta (ls_LatencyP95MS base) (ls_LatencyP95MS cur) ''ms'',
      rw_TTFTP95 = formatOptionalDelta (ls_TTFTP95MS base) (ls_TTFTP95MS cur) ''ms'',
      rw_TotalDuration = formatDelta (ls_TotalDurationMS base) (ls_TotalDurationMS cur) ''ms'',
      rw_StreamChunks = formatOptionalDelta (ls_StreamChunks base) (ls_StreamChunks cur) []\<rparr>"

definition benchmarkRows :: "(string \<times> lt_summary) list \<Rightarrow> (string \<times> lt_summary) list \<Rightarrow> report_row list" where
  "benchmarkRows baseline current =
     map (\<lambda>name. benchmark_row name (summary_of baseline name) (summary_of current name)) (sort (map fst current))"

section \<open>Drills\<close>

record scenario_summary =
  sn_Name :: string
  sn_Status :: string
  sn_Signals :: "string list"

definition metricAtLeast :: "metric_values \<Rightarrow> string \<Rightarrow> f64 \<Rightarrow> bool" where
  "metricAtLeast ms key minValue \<longleftrightarrow> (case map_of ms key of None \<Rightarrow> False | Some v \<Rightarrow> f64_le minValue v)"

definition metricPresent :: "metric_values \<Rightarrow> string \<Rightarrow> bool" where
  "metricPresent ms key \<longleftrightarrow> (case map_of ms key of None \<Rightarrow> False | Some v \<Rightarrow> f64_less (f64_of_int 0) v)"

definition boolStatus :: "bool \<Rightarrow> string" where
  "boolStatus ok = (if ok then ''pass'' else ''fail'')"

definition okObservedSignal :: string where "okObservedSignal = ''200 OK observed''"

definition prechunk_ok :: "string \<Rightarrow> string \<Rightarrow> metric_values \<Rightarrow> bool" where
  "prechunk_ok primary body ms \<longleftrightarrow>
     contains body httpStatusOKLine \<and> contains body ''chatcmpl-mock'' \<and> contains body streamDoneMarker \<and>
     metricAtLeast ms (drill_metric ''provider_request_failed'' primary) (f64_of_int 1) \<and>
     metricAtLeast ms (drill_metric ''provider_fallback_succeeded'' ''secondary'') (f64_of_int 1)"

definition partial_ok :: "string \<Rightarrow> string \<Rightarrow> string \<Rightarrow> metric_values \<Rightarrow> bool" where
  "partial_ok primary needle body ms \<longleftrightarrow>
     contains body httpStatusOKLine \<and> contains body needle \<and> \<not> contains body streamDoneMarker \<and>
     metricAtLeast ms (drill_metric ''provider_stream_interrupted'' primary) (f64_of_int 1) \<and>
     \<not> metricPresent ms (drill_metric ''provider_fallback_succeeded'' ''secondary'')"

definition prechunk_signals :: "string list" where
  "prechunk_signals =
     [okObservedSignal, ''fallback stream body observed'', ''[DONE] observed'', ''provider_request_failed recorded'',
      ''provider_fallback_succeeded recorded'']"

definition wrapped :: "string \<Rightarrow> 'a res \<Rightarrow> ('a \<Rightarrow> 'b res) \<Rightarrow> 'b res" where
  "wrapped what r f = (case r of Inl e \<Rightarrow> Inl (WrapErr what e) | Inr x \<Rightarrow> f x)"

definition buildStreamScenarioSummaries :: "files \<Rightarrow> nr_config \<Rightarrow> scenario_summary list res" where
  "buildStreamScenarioSummaries fs cfg =
     wrapped ''pre-chunk output'' (readFile fs (nr_PrechunkOutputPath cfg)) (\<lambda>prechunkOutput.
     wrapped ''pre-chunk metrics'' (loadMetrics fs (nr_PrechunkMetricsPath cfg)) (\<lambda>prechunkMetrics.
     wrapped ''partial output'' (readFile fs (nr_PartialOutputPath cfg)) (\<lambda>partialOutput.
     wrapped ''partial metrics'' (loadMetrics fs (nr_PartialMetricsPath cfg)) (\<lambda>partialMetrics.
       Inr [\<lparr>sn_Name = ''Pre-first-chunk fallback'',
             sn_Status = boolStatus (prechunk_ok ''openai-primary'' prechunkOutput prechunkMetrics),
             sn_Signals = prechunk_signals\<rparr>,
            \<lparr>sn_Name = ''Post-first-chunk interruption'',
             sn_Status = boolStatus (partial_ok ''openai-primary'' ''partial '' partialOutput partialMetrics),
             sn_Signals = [okObservedSignal, ''partial chunk observed'', ''no [DONE] marker'',
               ''interrupt metric recorded'', ''no fallback-after-first-chunk metric'']\<rparr>]))))"

definition system_ok :: "string \<Rightarrow> recorded_request \<Rightarrow> bool" where
  "system_ok body r \<longleftrightarrow>
     contains body httpStatusOKLine \<and> contains body ''messages=1;first_role=user'' \<and>
     rr_path r = ''/v1/messages'' \<and> trim_space (map_text (rr_headers r) ''anthropic-version'') \<noteq> [] \<and>
     trim_space (map_text (rr_headers r) ''x-api-key'') \<noteq> [] \<and> up_system (rr_payload r) = wanted_system \<and>
     length (up_messages (rr_payload r)) = 1 \<and> um_role (hd (up_messages (rr_payload r))) = ''user'' \<and>
     um_content (hd (up_messages (rr_payload r))) = ''reply in five words''"

definition buildAnthropicScenarioSummaries :: "files \<Rightarrow> nr_config \<Rightarrow> scenario_summary list res" where
  "buildAnthropicScenarioSummaries fs cfg =
     wrapped ''anthropic system output'' (readFile fs (nr_AnthropicSystemOutputPath cfg)) (\<lambda>systemOutput.
     wrapped ''anthropic upstream request''
       (load_json fs dec_recorded_request (nr_AnthropicUpstreamRequestPath cfg)) (\<lambda>upstreamRequest.
     wrapped ''anthropic pre-chunk output'' (readFile fs (nr_AnthropicPrechunkOutputPath cfg)) (\<lambda>prechunkOutput.
     wrapped ''anthropic pre-chunk metrics'' (loadMetrics fs (nr_AnthropicPrechunkMetricsPath cfg)) (\<lambda>prechunkMetrics.
     wrapped ''anthropic partial output'' (readFile fs (nr_AnthropicPartialOutputPath cfg)) (\<lambda>partialOutput.
     wrapped ''anthropic partial metrics'' (loadMetrics fs (nr_AnthropicPartialMetricsPath cfg)) (\<lambda>partialMetrics.
       Inr [\<lparr>sn_Name = ''System prompt translation'', sn_Status = boolStatus (system_ok systemOutput upstreamRequest),
             sn_Signals = [okObservedSignal, ''gateway response confirms system join'',
               ''upstream captured /v1/messages'', ''anthropic-version header observed'',
               ''user-only message list observed'']\<rparr>,
            \<lparr>sn_Name = ''Anthropic pre-first-chunk fallback'',
             sn_Status = boolStatus (prechunk_ok ''anthropic-primary'' prechunkOutput prechunkMetrics),
             sn_Signals = prechunk_signals\<rparr>,
            \<lparr>sn_Name = ''Anthropic post-first-chunk interruption'',
             sn_Status = boolStatus (partial_ok ''anthropic-primary'' ''anthropic partial '' partialOutput partialMetrics),
             sn_Signals = [okObservedSignal, ''anthropic partial chunk observed'', ''no [DONE] marker'',
               ''interrupt metric recorded'', ''no fallback-after-first-chunk metric'']\<rparr>]))))))"

section \<open>The report\<close>

text \<open>
  Go iterates over a map in an order of its own: \<open>order\<close> gives the order in which the current summaries are
  loaded, which shows when more than one of them cannot be.
\<close>

definition current_paths :: "nr_config \<Rightarrow> (string \<times> string) list" where
  "current_paths cfg =
     [(''mock-non-stream'', nr_MockNonStreamPath cfg), (''mock-stream'', nr_MockStreamPath cfg),
      (''adapter-non-stream'', nr_AdapterNonStreamPath cfg), (''adapter-stream'', nr_AdapterStreamPath cfg)]"

fun load_current :: "files \<Rightarrow> (string \<times> string) list \<Rightarrow> (string \<times> lt_summary) list res" where
  "load_current fs [] = Inr []"
| "load_current fs ((name, path) # rest) =
     wrapped name (load_json fs dec_summary path) (\<lambda>s.
     and_then (load_current fs rest) (\<lambda>m. Inr ((name, s) # m)))"

definition table_row :: "string list \<Rightarrow> string" where
  "table_row cells = ''| '' @ join '' | '' cells @ '' |''"

definition row_cells :: "report_row \<Rightarrow> string list" where
  "row_cells r =
     [rw_Name r, rw_Status r, rw_Success r, rw_LatencyP95 r, rw_TTFTP95 r, rw_TotalDuration r, rw_StreamChunks r]"

definition scenario_row :: "scenario_summary \<Rightarrow> string" where
  "scenario_row s = table_row [sn_Name s, sn_Status s, join ''<br>'' (sn_Signals s)]"

definition report_lines ::
    "time \<Rightarrow> baseline_file \<Rightarrow> (string \<times> lt_summary) list \<Rightarrow> scenario_summary list \<Rightarrow> scenario_summary list \<Rightarrow> string list" where
  "report_lines now baseline current streamScenarios anthropicScenarios =
     [''# Nightly Verification Summary'', [], ''Generated: `'' @ format_rfc3339 now @ ''`'', [],
      ''## Benchmark Delta Vs Persisted Baseline'', [], ''Baseline source: `'' @ bf_Source baseline @ ''`'', [],
      ''| Scenario | Status | Success | Latency P95 | TTFT P95 | Total Duration | Stream Chunks |'',
      ''| --- | --- | --- | --- | --- | --- | --- |''] @
     map (\<lambda>r. table_row (row_cells r)) (benchmarkRows (bf_Benchmarks baseline) current) @
     [[], ''## Streaming Failure Drill Summary'', [], ''| Scenario | Status | Signals |'', ''| --- | --- | --- |''] @
     map scenario_row streamScenarios @
     [[], ''## Anthropic Adapter Drill Summary'', [], ''| Scenario | Status | Signals |'', ''| --- | --- | --- |''] @
     map scenario_row anthropicScenarios"

definition buildReport ::
    "((string \<times> string) list \<Rightarrow> (string \<times> string) list) \<Rightarrow> time \<Rightarrow> files \<Rightarrow> nr_config \<Rightarrow> string res" where
  "buildReport order now fs cfg =
     and_then (load_json fs dec_baseline (nr_BaselinePath cfg)) (\<lambda>baseline.
     and_then (load_current fs (order (current_paths cfg))) (\<lambda>current.
     and_then (buildStreamScenarioSummaries fs cfg) (\<lambda>streamScenarios.
     and_then (buildAnthropicScenarioSummaries fs cfg) (\<lambda>anthropicScenarios.
       Inr (lines_text (report_lines now baseline current streamScenarios anthropicScenarios))))))"

text \<open>
  \<open>main\<close>: the status, the output, what is written to standard error, and the file that is written, for which
  \<open>write\<close> makes the directories and writes the text.
\<close>

definition nightlyreport_main ::
    "((string \<times> string) list \<Rightarrow> (string \<times> string) list) \<Rightarrow> time \<Rightarrow> (string \<Rightarrow> string \<Rightarrow> unit res) \<Rightarrow> files \<Rightarrow>
     string list \<Rightarrow> int \<times> string \<times> string \<times> (string \<times> string) option" where
  "nightlyreport_main order now write fs args =
     (case nightlyreport_parseFlags args of
        Inl e \<Rightarrow> (1, [], lines_text [''parse flags: '' @ err_text e], None)
      | Inr cfg \<Rightarrow>
          (case buildReport order now fs cfg of
             Inl e \<Rightarrow> (1, [], lines_text [''build report: '' @ err_text e], None)
           | Inr report \<Rightarrow>
               if nr_OutputPath cfg = [] then (0, report, [], None)
               else case write (nr_OutputPath cfg) report of
                 Inl e \<Rightarrow> (1, [], lines_text [''write report: '' @ err_text e], None)
               | Inr _ \<Rightarrow> (0, [], [], Some (nr_OutputPath cfg, report))))"

end
