(* ===== verification/NightlyProperties.thy ===== *)
theory NightlyProperties
  imports PageFacts SummaryFacts NightlyReport
begin

text \<open>
  The nightly tools against the gateway and against each other: the check finds in the gateway's metrics exactly
  the events that happened, reads the summaries of the load test, and accepts what the report shows.
\<close>

section \<open>What the registry has heard\<close>

text \<open>The calls that reach a registry: events of the router, what the handlers measure, and statuses.\<close>

datatype registry_call = Heard event | Measured metric | Synced "backend_status list"

fun call_registry :: "registry_call \<Rightarrow> registry \<Rightarrow> registry" where
  "call_registry (Heard e) r = OnEvent e r"
| "call_registry (Measured m) r = apply_metric m r"
| "call_registry (Synced sts) r = SyncProviderStatuses sts r"

fun plain_metric :: "metric \<Rightarrow> bool" where
  "plain_metric (MetricHTTP meth path status d) \<longleftrightarrow> plain_label meth \<and> plain_label path"
| "plain_metric (MetricRejection reason) \<longleftrightarrow> plain_label reason"
| "plain_metric _ \<longleftrightarrow> True"

fun plain_call :: "registry_call \<Rightarrow> bool" where
  "plain_call (Heard e) \<longleftrightarrow> plain_label (ev_type e) \<and> plain_label (ev_operation e) \<and> plain_label (ev_backend e)"
| "plain_call (Measured m) \<longleftrightarrow> plain_metric m"
| "plain_call (Synced sts) \<longleftrightarrow> list_all (\<lambda>st. plain_label (st_name st)) sts"

definition stream_event_heard :: "string \<Rightarrow> string \<Rightarrow> registry_call \<Rightarrow> bool" where
  "stream_event_heard ty b c \<longleftrightarrow>
     (\<exists>e. c = Heard e \<and> ev_type e = ty \<and> ev_operation e = ''stream'' \<and> ev_backend e = b)"

section \<open>Labels stay plain\<close>

lemma visible_keys_increment: "visible_keys m \<Longrightarrow> list_all visible k \<Longrightarrow> visible_keys (increment k m)"
  by (simp add: increment_def)

lemma visible_keys_add_sample: "visible_keys m \<Longrightarrow> list_all visible k \<Longrightarrow> visible_keys (add_sample k d m)"
  by (simp add: add_sample_def Let_def)

lemma plain_names_update: "list_all plain_label (map fst m) \<Longrightarrow> plain_label k \<Longrightarrow> list_all plain_label (map fst (AList.update k v m))"
  by (induction m) auto

lemma plain_names_sync:
  "list_all (\<lambda>st. plain_label (st_name st)) sts \<Longrightarrow> list_all plain_label (map fst m) \<Longrightarrow>
   list_all plain_label (map fst (fold (\<lambda>st. AList.update (st_name st) (f st)) sts m))"
  by (induction sts arbitrary: m) (simp_all add: plain_names_update)

lemma comma_visible: "visible CHR '',''"
  by (simp add: visible_def)

lemma status_visible: "list_all visible (itoa n)"
  using itoa_visible by simp

lemma result_visible: "list_all visible ''erosuc''"
  by code_simp

lemma visible_key_parts:
  assumes "plain_call (Heard e)"
  shows "list_all visible (event_key e)"
    and "list_all visible (lbl ''operation'' (sanitize (ev_operation e)) @ '','' @ lbl ''backend'' (sanitize (ev_backend e)) @
           '','' @ lbl ''result'' (if b then ''error'' else ''success''))"
    and "list_all visible (lbl ''backend'' (sanitize (ev_backend e)) @ '','' @ lbl ''result'' (if b then ''error'' else ''success''))"
  using assms result_visible
  by (auto simp: event_key_def sanitize_plain plain_visible comma_visible intro!: label_visible)

lemma record_duration_plain: "plain_call (Heard e) \<Longrightarrow> plain_registry r \<Longrightarrow> plain_registry (record_duration e r)"
  using visible_key_parts(2) [of e] unfolding record_duration_def Let_def
  by (simp add: plain_registry_def visible_keys_add_sample)

lemma record_probe_plain: "plain_call (Heard e) \<Longrightarrow> plain_registry r \<Longrightarrow> plain_registry (record_probe e r)"
  using visible_key_parts(3) [of e] unfolding record_probe_def Let_def
  by (simp add: plain_registry_def visible_keys_increment)

lemma updateProviderStatus_plain: "plain_call (Heard e) \<Longrightarrow> plain_registry r \<Longrightarrow> plain_registry (updateProviderStatus e r)"
  by (simp add: updateProviderStatus_def Let_def plain_registry_def plain_names_update del: set_simps)

lemma OnEvent_plain: "plain_call (Heard e) \<Longrightarrow> plain_registry r \<Longrightarrow> plain_registry (OnEvent e r)"
  using visible_key_parts(1) [of e] unfolding OnEvent_def Let_def
  by (intro record_probe_plain record_duration_plain updateProviderStatus_plain)
    (simp_all add: plain_registry_def visible_keys_increment)

lemma http_key_visible: "plain_label meth \<Longrightarrow> plain_label path \<Longrightarrow> list_all visible (http_key meth path status)"
  by (auto simp: http_key_def sanitize_plain plain_visible comma_visible status_visible intro!: label_visible)

lemma apply_metric_plain: "plain_metric m \<Longrightarrow> plain_registry r \<Longrightarrow> plain_registry (apply_metric m r)"
  by (cases m) (simp_all add: plain_registry_def RecordHTTPRequest_def RecordReadyzFailure_def Let_def
      RecordGovernanceRejection_def RecordStreamRequest_def RecordStreamChunk_def visible_keys_increment
      visible_keys_add_sample http_key_visible sanitize_plain plain_visible)

lemma SyncProviderStatuses_plain:
  "list_all (\<lambda>st. plain_label (st_name st)) sts \<Longrightarrow> plain_registry r \<Longrightarrow> plain_registry (SyncProviderStatuses sts r)"
  by (simp add: SyncProviderStatuses_def plain_registry_def plain_names_sync)

lemma call_registry_plain: "plain_call c \<Longrightarrow> plain_registry r \<Longrightarrow> plain_registry (call_registry c r)"
  by (cases c) (simp_all add: OnEvent_plain apply_metric_plain SyncProviderStatuses_plain)

lemma calls_plain: "list_all plain_call cs \<Longrightarrow> plain_registry r \<Longrightarrow> plain_registry (fold call_registry cs r)"
  by (induction cs arbitrary: r) (simp_all add: call_registry_plain)

lemma NewRegistry_plain: "plain_registry NewRegistry"
  by (simp add: plain_registry_def NewRegistry_def visible_keys_def)

section \<open>Events are counted\<close>

fun call_key :: "registry_call \<Rightarrow> string option" where
  "call_key (Heard e) = Some (event_key e)"
| "call_key _ = None"

lemma OnEvent_events: "rg_provider_events (OnEvent e r) = increment (event_key e) (rg_provider_events r)"
  by (simp add: OnEvent_def Let_def record_probe_def record_duration_def updateProviderStatus_def del: set_simps)

lemma call_events:
  "rg_provider_events (call_registry c r) =
     (case call_key c of None \<Rightarrow> rg_provider_events r | Some k \<Rightarrow> increment k (rg_provider_events r))"
proof (cases c)
  case (Measured m)
  then show ?thesis
    by (cases m) (simp_all add: RecordHTTPRequest_def RecordReadyzFailure_def RecordGovernanceRejection_def
        RecordStreamRequest_def RecordStreamChunk_def Let_def)
qed (simp_all add: OnEvent_events SyncProviderStatuses_def)

lemma events_counted:
  "counter_of (rg_provider_events (fold call_registry cs r)) k =
     counter_of (rg_provider_events r) k + of_nat (length (filter (\<lambda>c. call_key c = Some k) cs)) \<and>
   (map_of (rg_provider_events (fold call_registry cs r)) k = None \<longleftrightarrow>
     map_of (rg_provider_events r) k = None \<and> (\<forall>c \<in> set cs. call_key c \<noteq> Some k))"
proof (induction cs arbitrary: r)
  case (Cons c cs)
  then show ?case
    by (auto simp: call_events increment_def update_conv' counter_of_def split: option.splits)
qed simp

lemma before_quote:
  "q \<notin> set v \<Longrightarrow> q \<notin> set v' \<Longrightarrow> v @ q # x = v' @ q # x' \<longleftrightarrow> v = v' \<and> x = x'"
proof (induction v arbitrary: v')
  case Nil
  then show ?case by (cases v') auto
next
  case (Cons c v)
  then show ?case by (cases v') auto
qed

lemma plain_no_quote: "plain_label s \<Longrightarrow> CHR 0x22 \<notin> set s"
  by (auto simp: plain_label_def list_all_iff)

definition stream_key :: "string \<Rightarrow> string \<Rightarrow> string" where
  "stream_key ty b = lbl ''type'' ty @ '','' @ lbl ''operation'' ''stream'' @ '','' @ lbl ''backend'' b"

lemma drill_metric_family: "drill_metric ty b = in_family events_name (stream_key ty b)"
  by (simp add: drill_metric_def in_family_def events_name_def stream_key_def)

lemma call_key_stream:
  assumes "plain_call c" and "plain_label ty" and "plain_label b"
  shows "call_key c = Some (stream_key ty b) \<longleftrightarrow> stream_event_heard ty b c"
proof (cases c)
  case (Heard e)
  with assms(1) have e: "plain_label (ev_type e)" "plain_label (ev_operation e)" "plain_label (ev_backend e)" by simp_all
  have q: "CHR 0x22 \<notin> set ''stream''" by simp
  note n = plain_no_quote [OF e(1)] plain_no_quote [OF e(2)] plain_no_quote [OF e(3)]
    plain_no_quote [OF assms(2)] plain_no_quote [OF assms(3)]
  have "event_key e = stream_key ty b \<longleftrightarrow>
      ev_type e @ CHR 0x22 # '',operation='' @ CHR 0x22 # ev_operation e @ CHR 0x22 # '',backend='' @ CHR 0x22 # ev_backend e @ CHR 0x22 # [] =
      ty @ CHR 0x22 # '',operation='' @ CHR 0x22 # ''stream'' @ CHR 0x22 # '',backend='' @ CHR 0x22 # b @ CHR 0x22 # []"
    by (simp add: event_key_def stream_key_def lbl_def sanitize_plain e)
  also have "\<dots> \<longleftrightarrow> ev_type e = ty \<and> ev_operation e = ''stream'' \<and> ev_backend e = b"
    by (simp only: before_quote [OF n(1,4)] before_quote [OF n(2) q] before_quote [OF n(3,5)] same_append_eq
        list.inject simp_thms)
  finally show ?thesis by (simp add: Heard stream_event_heard_def)
qed (simp_all add: stream_event_heard_def)

section \<open>The check and the metrics\<close>

lemma f64_eq_less: "f64_eq x z \<Longrightarrow> f64_less z y \<Longrightarrow> f64_less x y"
  by (cases x; cases z; cases y) auto

lemma counter_compared:
  assumes "0 \<le> n"
  shows "f64_less (f64_of_int n) (f64_of_int 1) \<longleftrightarrow> n = 0" and "f64_eq (f64_of_int n) (f64_of_int 0) \<longleftrightarrow> n = 0"
proof -
  have zero: "f64_less (f64_of_int 0) (f64_of_int 1)" "f64_eq (f64_of_int 0) (f64_of_int 0)" by code_simp+
  have pos: "\<not> f64_less (f64_of_int n) (f64_of_int 1)" if "n \<noteq> 0"
    using round_f64_from_one [of n 1] assms that by (simp add: f64_of_int_def)
  then show "f64_less (f64_of_int n) (f64_of_int 1) \<longleftrightarrow> n = 0" using zero(1) by auto
  show "f64_eq (f64_of_int n) (f64_of_int 0) \<longleftrightarrow> n = 0" using pos zero f64_eq_less by auto
qed

text \<open>
  C37: The check reads the metrics page of the gateway back. Whatever the registry has been told, in any order, by
  calls whose labels have visible characters and no quotes, and as long as there were fewer than \<open>2 ^ 64\<close> calls,
  the drill's requirement that an event of a stream on a backend is counted at least once holds of the page
  exactly when the registry heard such an event, and the requirement that it is absent exactly when it heard none.
\<close>

theorem nightly_sees_events:
  assumes "list_all plain_call cs" and "length cs < 2 ^ 64" and "plain_label ty" and "plain_label b"
  shows "let ms = parse_metrics (writeMetrics (fold call_registry cs NewRegistry) now) in
    (requireMetricAtLeast what ms (drill_metric ty b) (f64_of_int 1) = [] \<longleftrightarrow> (\<exists>c \<in> set cs. stream_event_heard ty b c)) \<and>
    (requireMetricAbsent what ms (drill_metric ty b) = [] \<longleftrightarrow> \<not> (\<exists>c \<in> set cs. stream_event_heard ty b c))"
proof -
  let ?r = "fold call_registry cs NewRegistry" and ?k = "stream_key ty b"
  let ?n = "length (filter (\<lambda>c. call_key c = Some ?k) cs)"
  have key: "call_key c = Some ?k \<longleftrightarrow> stream_event_heard ty b c" if "c \<in> set cs" for c
    using that assms(1,3,4) by (intro call_key_stream) (auto simp: list_all_iff)
  have none: "map_of (rg_provider_events ?r) ?k = None \<longleftrightarrow> \<not> (\<exists>c \<in> set cs. stream_event_heard ty b c)"
    and n: "counter_of (rg_provider_events ?r) ?k = of_nat ?n"
    using events_counted [of cs NewRegistry ?k] key by (simp_all add: NewRegistry_def counter_of_def)
  have "?n < 2 ^ 64" using assms(2) length_filter_le [of "\<lambda>c. call_key c = Some ?k" cs] by linarith
  then have u: "uint (counter_of (rg_provider_events ?r) ?k) = int ?n"
    by (simp add: n unsigned_of_nat take_bit_nat_eq_self)
  have "int ?n = 0 \<longleftrightarrow> \<not> (\<exists>c \<in> set cs. stream_event_heard ty b c)"
    using key by (simp add: filter_empty_conv)
  moreover have "map_of (parse_metrics (writeMetrics ?r now)) (drill_metric ty b) =
      map_option (\<lambda>_. f64_of_int (int ?n)) (map_of (rg_provider_events ?r) ?k)"
    using events_read_back [OF calls_plain [OF assms(1) NewRegistry_plain]] u by (simp add: drill_metric_family)
  ultimately show ?thesis
    using none counter_compared [of "int ?n"]
    by (auto simp: requireMetricAtLeast_def requireMetricAbsent_def Let_def split: option.splits)
qed

definition demo_calls :: "registry_call list" where
  "demo_calls =
     [Heard \<lparr>ev_type = ''provider_request_failed'', ev_operation = ''stream'', ev_backend = ''openai-primary'',
        ev_attempt = 1, ev_duration = 5 * millisecond, ev_failures = 1, ev_unhealthy_until = 0, ev_error = ''io''\<rparr>,
      Measured (MetricHTTP ''POST'' ''/v1/chat/completions'' 200 (7 * millisecond)), Measured (MetricRejection ''rpm'')]"

theorem nightly_sees_events_witness:
  "let ms = parse_metrics (writeMetrics (fold call_registry demo_calls NewRegistry) 0) in
    requireMetricAtLeast ''m'' ms (drill_metric ''provider_request_failed'' ''openai-primary'') (f64_of_int 1) = [] \<and>
    requireMetricAbsent ''m'' ms (drill_metric ''provider_fallback_succeeded'' ''secondary'') = []"
proof -
  have n: "length demo_calls < 2 ^ 64" by (simp add: demo_calls_def)
  have plain: "list_all plain_call demo_calls" "plain_label ''provider_request_failed''"
    "plain_label ''openai-primary''" "plain_label ''provider_fallback_succeeded''" "plain_label ''secondary''"
    by code_simp+
  show ?thesis
    using nightly_sees_events [OF plain(1) n plain(2,3)] nightly_sees_events [OF plain(1) n plain(4,5)]
    by (simp add: Let_def demo_calls_def stream_event_heard_def)
qed

section \<open>The check and the report\<close>

text \<open>A value that is not negative and a number; without it the two tools differ.\<close>

definition count_value :: "f64 \<Rightarrow> bool" where
  "count_value v \<longleftrightarrow> f64_le (f64_of_int 0) v"

lemma count_value_compared:
  assumes "count_value v"
  shows "f64_le (f64_of_int 1) v \<longleftrightarrow> \<not> f64_less v (f64_of_int 1)" and "f64_less (f64_of_int 0) v \<longleftrightarrow> \<not> f64_eq v (f64_of_int 0)"
proof -
  have z: "f64_of_int 0 = Fin False 0 (- 1074)" by code_simp
  show "f64_le (f64_of_int 1) v \<longleftrightarrow> \<not> f64_less v (f64_of_int 1)"
    using assms by (cases v) (auto simp: f64_le_def f64_one z count_value_def)
  show "f64_less (f64_of_int 0) v \<longleftrightarrow> \<not> f64_eq v (f64_of_int 0)"
    using assms by (cases v) (auto simp: f64_le_def z count_value_def)
qed

definition count_values :: "metric_values \<Rightarrow> bool" where
  "count_values ms \<longleftrightarrow> list_all (\<lambda>(k, v). count_value v) ms"

lemma metric_checks_agree:
  assumes "count_values ms"
  shows "requireMetricAtLeast what ms key (f64_of_int 1) = [] \<longleftrightarrow> metricAtLeast ms key (f64_of_int 1)"
    and "requireMetricAbsent what ms key = [] \<longleftrightarrow> \<not> metricPresent ms key"
proof -
  have "count_value v" if "map_of ms key = Some v" for v
    using assms map_of_SomeD [OF that] by (auto simp: count_values_def list_all_iff)
  note v = count_value_compared [OF this]
  show "requireMetricAtLeast what ms key (f64_of_int 1) = [] \<longleftrightarrow> metricAtLeast ms key (f64_of_int 1)"
    using v(1) by (auto simp: requireMetricAtLeast_def metricAtLeast_def split: option.split)
  show "requireMetricAbsent what ms key = [] \<longleftrightarrow> \<not> metricPresent ms key"
    using v(2) by (auto simp: requireMetricAbsent_def metricPresent_def split: option.split)
qed

lemma boolStatus_pass: "boolStatus b = ''pass'' \<longleftrightarrow> b"
  by (simp add: boolStatus_def)

lemma required_empty:
  "requireContains what body needle = [] \<longleftrightarrow> contains body needle"
  "requireAbsent what body needle = [] \<longleftrightarrow> \<not> contains body needle"
  "finding b x = [] \<longleftrightarrow> \<not> b" "check_file what r f = [] \<longleftrightarrow> (case r of Inl e \<Rightarrow> False | Inr x \<Rightarrow> f x = [])"
  by (simp_all add: requireContains_def requireAbsent_def finding_def check_file_def split: sum.split)

definition file_metrics :: "files \<Rightarrow> string \<Rightarrow> bool" where
  "file_metrics fs path \<longleftrightarrow> (case loadMetrics fs path of Inl e \<Rightarrow> True | Inr ms \<Rightarrow> count_values ms)"

text \<open>The drills of the check, as the conditions of the report.\<close>

lemma stream_check_conditions:
  assumes "file_metrics fs (nc_PrechunkMetricsPath cfg)" and "file_metrics fs (nc_PartialMetricsPath cfg)"
    and "or_default (trim_space (nc_SecondaryBackendName cfg)) ''secondary'' = ''secondary''"
  shows "validateStreamFailureMode fs cfg = [] \<longleftrightarrow>
    (\<exists>body1 ms1 body2 ms2. readFile fs (nc_PrechunkOutputPath cfg) = Inr body1 \<and>
       loadMetrics fs (nc_PrechunkMetricsPath cfg) = Inr ms1 \<and>
       readFile fs (nc_PartialOutputPath cfg) = Inr body2 \<and> loadMetrics fs (nc_PartialMetricsPath cfg) = Inr ms2 \<and>
       prechunk_ok (or_default (trim_space (nc_PrimaryBackendName cfg)) ''openai-primary'') body1 ms1 \<and>
       partial_ok (or_default (trim_space (nc_PrimaryBackendName cfg)) ''openai-primary'')
         (or_default (nc_PartialOutputNeedle cfg) ''partial '') body2 ms2)"
  using assms(1,2) unfolding validateStreamFailureMode_def Let_def append_is_Nil_conv required_empty assms(3)
  by (auto simp: required_empty metric_checks_agree file_metrics_def prechunk_ok_def partial_ok_def split: sum.splits)

lemma validated_request:
  "validateRecordedAnthropicRequest r = [] \<longleftrightarrow>
     0 < up_max_tokens (rr_payload r) \<and> rr_path r = ''/v1/messages'' \<and>
     trim_space (map_text (rr_headers r) ''anthropic-version'') \<noteq> [] \<and>
     trim_space (map_text (rr_headers r) ''x-api-key'') \<noteq> [] \<and> up_system (rr_payload r) = wanted_system \<and>
     length (up_messages (rr_payload r)) = 1 \<and> um_role (hd (up_messages (rr_payload r))) = ''user'' \<and>
     um_content (hd (up_messages (rr_payload r))) = ''reply in five words''"
proof -
  have "\<not> equal_fold (trim_space ''user'') ''system''" by code_simp
  then show ?thesis
    by (cases "up_messages (rr_payload r)")
      (auto simp: validateRecordedAnthropicRequest_def validateAnthropicRequestHeaders_def
        validateAnthropicRequestPayload_def validateAnthropicRequestMessages_def required_empty)
qed

text \<open>The same files and the names of the nightly workflow for both tools.\<close>

definition stream_drills_shared :: "nc_config \<Rightarrow> nr_config \<Rightarrow> bool" where
  "stream_drills_shared c r \<longleftrightarrow>
     nc_PrechunkOutputPath c = nr_PrechunkOutputPath r \<and> nc_PrechunkMetricsPath c = nr_PrechunkMetricsPath r \<and>
     nc_PartialOutputPath c = nr_PartialOutputPath r \<and> nc_PartialMetricsPath c = nr_PartialMetricsPath r \<and>
     nc_PrimaryBackendName c = ''openai-primary'' \<and> nc_SecondaryBackendName c = ''secondary'' \<and>
     nc_PartialOutputNeedle c = ''partial ''"

definition anthropic_drills_shared :: "nc_config \<Rightarrow> nr_config \<Rightarrow> bool" where
  "anthropic_drills_shared c r \<longleftrightarrow>
     nc_PrechunkOutputPath c = nr_AnthropicPrechunkOutputPath r \<and>
     nc_PrechunkMetricsPath c = nr_AnthropicPrechunkMetricsPath r \<and>
     nc_PartialOutputPath c = nr_AnthropicPartialOutputPath r \<and>
     nc_PartialMetricsPath c = nr_AnthropicPartialMetricsPath r \<and>
     nc_SystemOutputPath c = nr_AnthropicSystemOutputPath r \<and>
     nc_UpstreamRequestPath c = nr_AnthropicUpstreamRequestPath r \<and>
     trim_space (nr_AnthropicUpstreamRequestPath r) = nr_AnthropicUpstreamRequestPath r \<and>
     nc_PrimaryBackendName c = ''anthropic-primary'' \<and> nc_SecondaryBackendName c = ''secondary'' \<and>
     nc_PartialOutputNeedle c = ''anthropic partial ''"

definition all_pass :: "scenario_summary list res \<Rightarrow> bool" where
  "all_pass r \<longleftrightarrow> (case r of Inl e \<Rightarrow> False | Inr ss \<Rightarrow> list_all (\<lambda>s. sn_Status s = ''pass'') ss)"

definition tokens_recorded :: "files \<Rightarrow> string \<Rightarrow> bool" where
  "tokens_recorded fs path \<longleftrightarrow>
     (case load_json fs dec_recorded_request path of Inl e \<Rightarrow> False | Inr r \<Rightarrow> 0 < up_max_tokens (rr_payload r))"

lemma drill_names:
  "or_default (trim_space ''openai-primary'') d = ''openai-primary''"
  "or_default (trim_space ''anthropic-primary'') d = ''anthropic-primary''"
  "or_default (trim_space ''secondary'') d = ''secondary''"
  "or_default ''partial '' d = ''partial ''" "or_default ''anthropic partial '' d = ''anthropic partial ''"
proof -
  have "list_all visible ''openai-primary''" "list_all visible ''anthropic-primary''" "list_all visible ''secondary''"
    by code_simp+
  then show "or_default (trim_space ''openai-primary'') d = ''openai-primary''"
    "or_default (trim_space ''anthropic-primary'') d = ''anthropic-primary''"
    "or_default (trim_space ''secondary'') d = ''secondary''"
    by (simp_all only: trim_visible) (simp_all add: or_default_def)
qed (simp_all add: or_default_def)

text \<open>
  C38: The report shows what the check accepts. For the same files, with metrics that are numbers and not negative,
  the check of the stream drills has no finding exactly when the report can be made and both its stream scenarios
  pass; and the check of the Anthropic drills has none exactly when all three Anthropic scenarios pass and the
  recorded request asks for a positive number of tokens, which the report does not look at.
\<close>

theorem report_agrees_with_check:
  assumes "stream_drills_shared c r" and "anthropic_drills_shared c' r"
    and "file_metrics fs (nr_PrechunkMetricsPath r)" and "file_metrics fs (nr_PartialMetricsPath r)"
    and "file_metrics fs (nr_AnthropicPrechunkMetricsPath r)" and "file_metrics fs (nr_AnthropicPartialMetricsPath r)"
  shows "(validateStreamFailureMode fs c = [] \<longleftrightarrow> all_pass (buildStreamScenarioSummaries fs r)) \<and>
    (validateAnthropicAdapterMode fs c' = [] \<longleftrightarrow>
      all_pass (buildAnthropicScenarioSummaries fs r) \<and> tokens_recorded fs (nr_AnthropicUpstreamRequestPath r))"
proof
  have c: "file_metrics fs (nc_PrechunkMetricsPath c)" "file_metrics fs (nc_PartialMetricsPath c)"
    "or_default (trim_space (nc_SecondaryBackendName c)) ''secondary'' = ''secondary''"
    using assms(1,3,4) by (simp_all add: stream_drills_shared_def drill_names)
  from assms(1) show "validateStreamFailureMode fs c = [] \<longleftrightarrow> all_pass (buildStreamScenarioSummaries fs r)"
    unfolding stream_check_conditions [OF c] stream_drills_shared_def
    by (auto simp: drill_names buildStreamScenarioSummaries_def wrapped_def all_pass_def boolStatus_pass split: sum.split)
next
  have c': "file_metrics fs (nc_PrechunkMetricsPath c')" "file_metrics fs (nc_PartialMetricsPath c')"
    "or_default (trim_space (nc_SecondaryBackendName c')) ''secondary'' = ''secondary''"
    using assms(2,5,6) by (simp_all add: anthropic_drills_shared_def drill_names)
  from assms(2) show "validateAnthropicAdapterMode fs c' = [] \<longleftrightarrow>
      all_pass (buildAnthropicScenarioSummaries fs r) \<and> tokens_recorded fs (nr_AnthropicUpstreamRequestPath r)"
    unfolding validateAnthropicAdapterMode_def append_is_Nil_conv stream_check_conditions [OF c']
      anthropic_drills_shared_def required_empty validated_request
    by (auto simp: drill_names buildAnthropicScenarioSummaries_def wrapped_def all_pass_def boolStatus_pass system_ok_def
        tokens_recorded_def split: sum.splits)
qed

definition demo_metrics :: "bool \<Rightarrow> page_line list" where
  "demo_metrics partial =
     (if partial then [Sample (drill_metric ''provider_stream_interrupted'' ''openai-primary'') 1]
      else [Sample (drill_metric ''provider_request_failed'' ''openai-primary'') 1,
            Sample (drill_metric ''provider_fallback_succeeded'' ''secondary'') 2])"

definition demo_files :: files where
  "demo_files path =
     (if path = ''out1'' then Inr ''HTTP/1.1 200 OK chatcmpl-mock data: [DONE]''
      else if path = ''out2'' then Inr ''HTTP/1.1 200 OK partial text''
      else if path = ''m1'' then Inr (page_text (demo_metrics False))
      else if path = ''m2'' then Inr (page_text (demo_metrics True))
      else Inl IoEOF)"

definition demo_check :: nc_config where
  "demo_check = nightlycheck_defaults\<lparr>nc_PrechunkOutputPath := ''out1'', nc_PrechunkMetricsPath := ''m1'',
     nc_PartialOutputPath := ''out2'', nc_PartialMetricsPath := ''m2''\<rparr>"

definition demo_nightly_report :: nr_config where
  "demo_nightly_report =
     \<lparr>nr_BaselinePath = [], nr_MockNonStreamPath = [], nr_MockStreamPath = [], nr_AdapterNonStreamPath = [],
      nr_AdapterStreamPath = [], nr_PrechunkOutputPath = ''out1'', nr_PrechunkMetricsPath = ''m1'',
      nr_PartialOutputPath = ''out2'', nr_PartialMetricsPath = ''m2'', nr_AnthropicSystemOutputPath = [],
      nr_AnthropicUpstreamRequestPath = [], nr_AnthropicPrechunkOutputPath = [],
      nr_AnthropicPrechunkMetricsPath = [], nr_AnthropicPartialOutputPath = [],
      nr_AnthropicPartialMetricsPath = [], nr_OutputPath = []\<rparr>"

lemma demo_paths: "trim_space ''m1'' = ''m1''" "trim_space ''m2'' = ''m2''" "trim_space ''out1'' = ''out1''" "trim_space ''out2'' = ''out2''"
  by code_simp+

lemma demo_loaded:
  "loadMetrics demo_files ''m1'' = Inr (fold read_line (demo_metrics False) [])"
  "loadMetrics demo_files ''m2'' = Inr (fold read_line (demo_metrics True) [])"
proof -
  have "list_all good_line (demo_metrics False)" "list_all good_line (demo_metrics True)" by code_simp+
  then show "loadMetrics demo_files ''m1'' = Inr (fold read_line (demo_metrics False) [])"
    "loadMetrics demo_files ''m2'' = Inr (fold read_line (demo_metrics True) [])"
    by (simp_all add: loadMetrics_def readFile_def demo_paths demo_files_def parse_page)
qed

theorem report_agrees_with_check_witness:
  "validateStreamFailureMode demo_files demo_check = [] \<and> all_pass (buildStreamScenarioSummaries demo_files demo_nightly_report)"
proof -
  let ?anthropic = "demo_check\<lparr>nc_PrechunkOutputPath := [], nc_PrechunkMetricsPath := [], nc_PartialOutputPath := [],
    nc_PartialMetricsPath := [], nc_PrimaryBackendName := ''anthropic-primary'', nc_PartialOutputNeedle := ''anthropic partial ''\<rparr>"
  have shared: "stream_drills_shared demo_check demo_nightly_report" "anthropic_drills_shared ?anthropic demo_nightly_report"
    by (simp_all add: stream_drills_shared_def anthropic_drills_shared_def demo_check_def demo_nightly_report_def
        nightlycheck_defaults_def trim_visible)
  have counts: "count_values (fold read_line (demo_metrics False) [])" "count_values (fold read_line (demo_metrics True) [])"
    by code_simp+
  have "readFile demo_files [] = Inl (NewErr ''path is required'')" by (simp add: readFile_def trim_visible)
  then have files: "file_metrics demo_files (nr_PrechunkMetricsPath demo_nightly_report)"
    "file_metrics demo_files (nr_PartialMetricsPath demo_nightly_report)"
    "file_metrics demo_files (nr_AnthropicPrechunkMetricsPath demo_nightly_report)"
    "file_metrics demo_files (nr_AnthropicPartialMetricsPath demo_nightly_report)"
    using counts by (simp_all add: file_metrics_def demo_nightly_report_def demo_loaded) (simp_all add: loadMetrics_def)
  have "prechunk_ok ''openai-primary'' ''HTTP/1.1 200 OK chatcmpl-mock data: [DONE]'' (fold read_line (demo_metrics False) [])"
    "partial_ok ''openai-primary'' ''partial '' ''HTTP/1.1 200 OK partial text'' (fold read_line (demo_metrics True) [])"
    by code_simp+
  then have "all_pass (buildStreamScenarioSummaries demo_files demo_nightly_report)"
    by (simp add: buildStreamScenarioSummaries_def demo_nightly_report_def demo_loaded readFile_def demo_paths demo_files_def
        wrapped_def all_pass_def boolStatus_def)
  with report_agrees_with_check [OF shared files] show ?thesis by blast
qed

section \<open>The check and the load test\<close>

text \<open>
  C36: The check reads what the load test prints. For a load test of at least one and at most \<open>2 ^ 53\<close> requests whose
  numbers are machine integers, whose JSON output is the file of an expectation with success rate 1, the check has
  no finding exactly when every request was answered with status 200 and without an error, the test streamed as
  expected, streams had chunks, and the percentiles of the summary are within the limits that are set.
\<close>

theorem nightly_accepts_load_test:
  assumes "plain_report rep" and "0 < lp_requests rep" and "lp_requests rep \<le> 2 ^ 53"
    and "be_MinSuccessRate x = f64_of_int 1" and "be_Path x \<noteq> []"
    and "fs (be_Path x) = Inr (printJSONSummary (buildSummary rep))"
  shows "check_benchmark fs x = [] \<longleftrightarrow>
    (\<forall>r \<in> set (lp_results rep). lx_err r = None \<and> lx_status r = 200) \<and> lp_stream rep = be_ExpectStream x \<and>
    (0 < be_MaxLatencyP95MS x \<longrightarrow> ls_LatencyP95MS (buildSummary rep) \<le> be_MaxLatencyP95MS x) \<and>
    (be_ExpectStream x \<longrightarrow> 0 < ls_StreamChunks (buildSummary rep)) \<and>
    (0 < be_MaxTTFTP95MS x \<longrightarrow> ls_TTFTP95MS (buildSummary rep) \<le> be_MaxTTFTP95MS x)"
proof -
  let ?s = "buildSummary rep" and ?xs = "lp_results rep"
  let ?ok = "\<forall>r \<in> set ?xs. lx_err r = None" and ?ok200 = "\<forall>r \<in> set ?xs. lx_err r = None \<and> lx_status r = 200"
  obtain m where m: "load_json fs dec_bench_summary (be_Path x) = Inr (bench_of ?s m)" "map_of m = map_of (ls_StatusCounts ?s)"
    using load_summary [where fs = fs and path = "be_Path x", OF plain_summary_of_report [OF assms(1)] assms(6)] by blast
  have n: "lp_requests rep = int (length ?xs)" using assms(1) by (simp add: plain_report_def)
  have f: "ls_Failure ?s = tally (\<lambda>r. lx_err r \<noteq> None) ?xs"
    and q: "ls_Success ?s = lp_requests rep - ls_Failure ?s" "ls_Requests ?s = lp_requests rep" "ls_Stream ?s = lp_stream rep"
    by (simp_all add: buildSummary_def Let_def results_totals_parts)
  have c: "status_count m 200 = tally (\<lambda>r. lx_status r = 200) ?xs"
    using m(2) by (simp add: status_count_def counted_def [symmetric] buildSummary_def Let_def results_totals_parts)
  have fz: "0 \<le> ls_Failure ?s" "ls_Failure ?s \<le> lp_requests rep" "ls_Failure ?s = 0 \<longleftrightarrow> ?ok"
    using tally_range tally_zero [of "\<lambda>r. lx_err r \<noteq> None" ?xs] by (simp_all add: f n)
  then have rate: "f64_less (f64_div (f64_of_int (ls_Success ?s)) (f64_of_int (lp_requests rep))) (f64_of_int 1) \<longleftrightarrow> \<not> ?ok"
    using success_rate_below_one [of "ls_Success ?s" "lp_requests rep"] assms(2,3) q(1) by auto
  have "?ok \<Longrightarrow> ls_SampleError ?s = []" using no_failure_no_error by (simp add: buildSummary_def Let_def)
  moreover have "?ok \<Longrightarrow> status_count m 200 = ls_Success ?s \<longleftrightarrow> (\<forall>r \<in> set ?xs. lx_status r = 200)"
    using tally_all [of "\<lambda>r. lx_status r = 200" ?xs] fz(3) q(1) by (simp add: c n)
  moreover have "0 < ls_Failure ?s \<longleftrightarrow> \<not> ?ok" using fz by auto
  ultimately have "validateBenchmarkSummary x (bench_of ?s m) = [] \<longleftrightarrow>
      ?ok200 \<and> lp_stream rep = be_ExpectStream x \<and> \<not> (0 < be_MaxLatencyP95MS x \<and> be_MaxLatencyP95MS x < ls_LatencyP95MS ?s) \<and>
      \<not> (be_ExpectStream x \<and> ls_StreamChunks ?s \<le> 0) \<and> \<not> (0 < be_MaxTTFTP95MS x \<and> be_MaxTTFTP95MS x < ls_TTFTP95MS ?s)"
    using assms(2) rate
    by (auto simp: validateBenchmarkSummary_def Let_def bench_of_def q(2,3) assms(4) required_empty)
  then show ?thesis using assms(5) by (auto simp: check_benchmark_def m(1) not_less not_le)
qed

definition passing_report :: lt_report where
  "passing_report =
     \<lparr>lp_requests = 2, lp_concurrency = 1, lp_stream = False, lp_total_duration = second,
      lp_results = replicate 2 (zero_result\<lparr>lx_status := 200, lx_latency := 5 * millisecond\<rparr>)\<rparr>"

definition mock_expectation :: bench_expectation where
  "mock_expectation =
     \<lparr>be_Name = ''mock-non-stream'', be_Path = ''f'', be_ExpectStream = False, be_MinSuccessRate = f64_of_int 1,
      be_MaxLatencyP95MS = 150, be_MaxTTFTP95MS = 0\<rparr>"

theorem nightly_accepts_load_test_witness:
  "check_benchmark (\<lambda>path. Inr (printJSONSummary (buildSummary passing_report))) mock_expectation = []"
proof -
  have "plain_report passing_report" "ls_LatencyP95MS (buildSummary passing_report) \<le> 150" by code_simp+
  then show ?thesis
    using nightly_accepts_load_test [of passing_report mock_expectation "\<lambda>path. Inr (printJSONSummary (buildSummary passing_report))"]
    by (simp add: mock_expectation_def) (simp add: passing_report_def zero_result_def)
qed

text \<open>What NaN does to the checks: as a minimal rate it is accepted, and as a metric it passes the check but not the report.\<close>

lemma nan_rate_accepted:
  "case nightlycheck_parseFlags [''-min-success-rate'', ''NaN''] of Inr cfg \<Rightarrow> nc_MinSuccessRate cfg = NaN | Inl e \<Rightarrow> False"
  by code_simp

lemma nan_metric_differs:
  "requireMetricAtLeast what [(key, NaN)] key (f64_of_int 1) = []" "\<not> metricAtLeast [(key, NaN)] key (f64_of_int 1)"
  by (simp_all add: requireMetricAtLeast_def metricAtLeast_def f64_le_def f64_one)

end
