(* ===== verification/OtlpStub.thy ===== *)
theory OtlpStub
  imports LoadTest
begin

text \<open>
  \<open>cmd/otlpstub/main.go\<close>: the stand-in for a collector of spans that the tests of tracing use. It counts the exports
  and writes what the last one was to a file. Making the directory and writing the file are a parameter, and the
  expected path is one that \<open>http.ServeMux\<close> matches as it is, without a method, a host, wildcards or a final slash,
  and other than \<open>/healthz\<close> (registering that twice panics).
\<close>

record capture =
  ca_request_count :: int
  ca_method :: string
  ca_path :: string
  ca_content_type :: string
  ca_content_length :: int
  ca_updated_at :: time

record stub_recorder =
  sr_path :: string
  sr_state :: capture

definition newRecorder :: "string \<Rightarrow> stub_recorder" where
  "newRecorder path =
     \<lparr>sr_path = path,
      sr_state = \<lparr>ca_request_count = 0, ca_method = [], ca_path = [], ca_content_type = [], ca_content_length = 0,
                  ca_updated_at = 0\<rparr>\<rparr>"

record stub_request =
  sq_method :: string
  sq_path :: string
  sq_content_type :: string
  sq_content_length :: int

definition capture_json :: "capture \<Rightarrow> json" where
  "capture_json c =
     JObj [(''request_count'', num (ca_request_count c)), (''method'', JStr (ca_method c)),
       (''path'', JStr (ca_path c)), (''content_type'', JStr (ca_content_type c)),
       (''content_length'', num (ca_content_length c)), (''updated_at'', JStr (format_time (ca_updated_at c)))]"

text \<open>\<open>write\<close> is \<open>os.MkdirAll\<close> of the file's directory and \<open>os.WriteFile\<close>.\<close>

definition stub_record ::
    "(string \<Rightarrow> string \<Rightarrow> 'w \<Rightarrow> unit res \<times> 'w) \<Rightarrow> time \<Rightarrow> stub_request \<Rightarrow> stub_recorder \<Rightarrow> 'w \<Rightarrow>
     unit res \<times> stub_recorder \<times> 'w" where
  "stub_record write now req r w =
     (let r = r\<lparr>sr_state := \<lparr>ca_request_count = go_add (ca_request_count (sr_state r)) 1, ca_method = sq_method req,
                ca_path = sq_path req, ca_content_type = sq_content_type req,
                ca_content_length = sq_content_length req, ca_updated_at = now\<rparr>\<rparr>;
          (result, w) = write (sr_path r) (indented 0 (capture_json (sr_state r)) @ [CHR 0x0A]) w
      in (result, r, w))"

text \<open>The two handlers of \<open>main\<close> behind the mux, with the status and the body of the answer.\<close>

definition stub_collect ::
    "(string \<Rightarrow> string \<Rightarrow> 'w \<Rightarrow> unit res \<times> 'w) \<Rightarrow> time \<Rightarrow> stub_request \<Rightarrow> stub_recorder \<Rightarrow> 'w \<Rightarrow>
     (int \<times> string) \<times> stub_recorder \<times> 'w" where
  "stub_collect write now req r w =
     (if sq_method req \<noteq> ''POST'' then ((405, ''method not allowed'' @ [CHR 0x0A]), r, w)
      else
        (case stub_record write now req r w of
           (Inl e, r, w) \<Rightarrow> ((500, ''record request: '' @ err_text e @ [CHR 0x0A]), r, w)
         | (Inr _, r, w) \<Rightarrow> ((200, [CHR 0x7B, CHR 0x7D]), r, w)))"

definition stub_serve ::
    "(string \<Rightarrow> string \<Rightarrow> 'w \<Rightarrow> unit res \<times> 'w) \<Rightarrow> string \<Rightarrow> time \<Rightarrow> stub_request \<Rightarrow> stub_recorder \<Rightarrow> 'w \<Rightarrow>
     (int \<times> string) \<times> stub_recorder \<times> 'w" where
  "stub_serve write path now req r w =
     (if sq_path req = path then stub_collect write now req r w
      else if sq_path req = ''/healthz''
      then ((200, encode (JObj [(''status'', JStr ''ok'')])), r, w)
      else ((404, ''404 page not found'' @ [CHR 0x0A]), r, w))"

record stub_config =
  sb_address :: string
  sb_output :: string
  sb_path :: string

definition stub_flags :: "stub_config flag_set" where
  "stub_flags =
     [(''address'', StringVar (\<lambda>v c. c\<lparr>sb_address := v\<rparr>)), (''output'', StringVar (\<lambda>v c. c\<lparr>sb_output := v\<rparr>)),
      (''path'', StringVar (\<lambda>v c. c\<lparr>sb_path := v\<rparr>))]"

text \<open>
  \<open>main\<close> until it listens: the configuration and the handler, or the status with which the flag package ends the
  process.
\<close>

definition stub_main ::
    "(string \<Rightarrow> string \<Rightarrow> 'w \<Rightarrow> unit res \<times> 'w) \<Rightarrow> string list \<Rightarrow>
     int + stub_config \<times> stub_recorder \<times> (time \<Rightarrow> stub_request \<Rightarrow> stub_recorder \<Rightarrow> 'w \<Rightarrow> (int \<times> string) \<times> stub_recorder \<times> 'w)" where
  "stub_main write args =
     (case flag_Parse stub_flags args
             \<lparr>sb_address = ''127.0.0.1:4318'', sb_output = ''/tmp/lag-otlpstub-capture.json'', sb_path = ''/v1/traces''\<rparr> of
        Inl e \<Rightarrow> Inl (if e = flag_help then 0 else 2)
      | Inr (_, cfg) \<Rightarrow> Inr (cfg, newRecorder (sb_output cfg), stub_serve write (sb_path cfg)))"

text \<open>
  After any sequence of requests the recorder has counted the exports, those \<open>POST\<close> requests to the expected path,
  and the state is that of the last one; a write that fails is answered with 500 and counted all the same.
\<close>

definition is_export :: "string \<Rightarrow> stub_request \<Rightarrow> bool" where
  "is_export path req \<longleftrightarrow> sq_method req = ''POST'' \<and> sq_path req = path"

fun stub_run ::
    "(string \<Rightarrow> string \<Rightarrow> 'w \<Rightarrow> unit res \<times> 'w) \<Rightarrow> string \<Rightarrow> (time \<times> stub_request) list \<Rightarrow> stub_recorder \<Rightarrow> 'w \<Rightarrow>
     (int \<times> string) list \<times> stub_recorder \<times> 'w" where
  "stub_run write path [] r w = ([], r, w)"
| "stub_run write path ((now, req) # reqs) r w =
     (let (a, r, w) = stub_serve write path now req r w; (as, r, w) = stub_run write path reqs r w in (a # as, r, w))"

lemma stub_serve_count:
  assumes "stub_serve write path now req r w = (a, r', w')" and "in_int64 (ca_request_count (sr_state r) + 1)"
  shows "ca_request_count (sr_state r') = ca_request_count (sr_state r) + (if is_export path req then 1 else 0)"
  using assms by (auto simp: stub_serve_def stub_collect_def stub_record_def is_export_def Let_def
      split: if_splits sum.splits prod.splits)

lemma stub_counts_exports:
  assumes "stub_run write path reqs r w = (as, r', w')"
    and "0 \<le> ca_request_count (sr_state r)" and "ca_request_count (sr_state r) + int (length reqs) \<le> max_int"
  shows "ca_request_count (sr_state r') =
      ca_request_count (sr_state r) + int (length (filter (\<lambda>(t, q). is_export path q) reqs)) \<and> length as = length reqs"
  using assms
proof (induction reqs arbitrary: r w as)
  case (Cons tq reqs)
  obtain now req where q: "tq = (now, req)" by fastforce
  obtain a r1 w1 where s: "stub_serve write path now req r w = (a, r1, w1)" by (metis prod_cases3)
  obtain as' where t: "stub_run write path reqs r1 w1 = (as', r', w')" "as = a # as'"
    using Cons.prems(1) by (auto simp: q s split: prod.splits)
  have "in_int64 (ca_request_count (sr_state r) + 1)"
    using Cons.prems(2,3) by (simp add: in_int64_def min_int_def)
  note c = stub_serve_count [OF s this]
  then show ?case using Cons.IH [OF t(1)] Cons.prems(2,3) by (simp add: q t(2))
qed simp

end
