(* ===== verification/Spec2Isabelle.thy ===== *)
theory Spec2Isabelle
  imports ProviderProperties StoreProperties ApiProperties ServiceProperties CommandProperties ProcessProperties
    StartupProperties LoadTestProperties NightlyProperties OtlpStub
begin

text \<open>
  LLM Access Gateway: an HTTP gateway between the tenants of an organisation and language model providers.
  A request carries an API key; the gateway authenticates it, admits it within the limits and the budget of
  its tenant, sends it to one of several provider backends, answers with the completion or its stream, and
  keeps what was used in MySQL. This development models the program function by function, as executable
  definitions under the source's names, and proves what makes each part and their composition correct.

  PARTS AND HOW THEY INTERACT

  A request enters \<open>NewRouter\<close> (internal/api/router.go): the chi middleware gives it an identifier and keeps
  the status of the answer, then the route's handler runs behind \<open>requireAPIKey\<close> and the limit of the body.
  The chat handler decodes the request, calls the governance service's \<open>BeginRequest\<close>, which inserts the
  request's row or rejects it, and calls the chat service with a tracker in the context. The chat service
  calls the provider router, which ranks its backends, skips those in a cooldown and tries one after the
  other. A backend is an adapter over HTTP (OpenAI, Anthropic, Ollama) or the mock; every attempt of an
  adapter begins and completes a row of its own through the tracker. At the end the handler completes the
  request's row and the limiter is told the tokens. The router reports events to the metrics registry. The
  process reads its configuration and the routing rules of the database once, at its start.

  State is passed explicitly. The database (\<open>db\<close>), the Redis server (\<open>redis\<close>) and the router's states and
  events (\<open>rstate\<close>) are records; \<open>gw\<close> is the world of the gateway that contains them, \<open>http_state\<close> that world
  with the response writer and the calls of the metrics registry. Errors are values of \<open>err\<close> in the type
  \<open>'a res\<close> = \<open>err + 'a\<close>, every early return of the source is a branch, and Go's \<open>int\<close> is \<open>int\<close> with the wrap-around
  of 64 bits written out (\<open>go_add\<close>, \<open>go_mul\<close>). Failures of the database, the network, the Redis connection and
  the client's connection are scripts in the state (\<open>db_faults\<close>, \<open>r_faults\<close>, \<open>rw_faults\<close>): a theorem over all
  states is one over all failures at any point.

  THEORIES AND SOURCES

  Prelude, Texts, Errors: Go integers, results, sequencing, \<open>strings\<close>, \<open>strconv\<close>, \<open>fmt\<close>, errors and their
  wrapping. Calendar: \<open>time.Format\<close>. Json: \<open>encoding/json\<close> (encoder, scanner, decoding into structs). Sha256: the hash
  of keys, on words of 32 bits.
  ProviderTypes: internal/provider. Adapter: what internal/provider/openai, ollama and anthropic (chat.go)
  have in common, the retry loop \<open>doRequest\<close> with the recording of attempts; OpenAI, Ollama, Anthropic: their
  requests, responses and stream readers; MockProvider: internal/provider/mock.
  ChatService: internal/service/chat/service.go. Router: internal/provider/router/chat.go.
  Auth: internal/auth/service.go. Database: the tables and the driver. AuthStore: internal/store/mysql
  auth_store.go and bootstrap.go. GovernanceTypes, GovernanceService: internal/service/governance/service.go.
  GovernanceStore: internal/store/mysql/governance_store.go with its two admission transactions.
  RoutingStore: routing_store.go, internal/routingpolicy and the rules' way into the router.
  RedisProtocol, RedisClient: internal/store/redis/client.go, with the Lua script on the server's side;
  Limiters: mysql_limiter.go and redis_limiter.go. UsageService: internal/service/usage and models.
  Config: internal/config/config.go and third_party/viper. Metrics: internal/obs/metrics/registry.go.
  Chi: third_party/chi. Http, Api: internal/api with the JSON forms of its messages.
  Gateway, Process: cmd/gateway/main.go, the app and the handler of its server.
  Flags: the package \<open>flag\<close>; Float64: \<open>float64\<close> with its rounding, parsing and printing; Durations: the text and the
  parsing of durations, RFC 3339. Commands: cmd/devinit and cmd/routerulectl. LoadTest: cmd/loadtest. Nightly:
  cmd/nightlycheck; NightlyReport: cmd/nightlyreport; OtlpStub: cmd/otlpstub. Tracing: third_party/zap and internal/obs/tracing;
  Startup: internal/obs/oteltracing and \<open>main\<close> of cmd/gateway, from the configuration to the shutdown.

  WHAT THE LEMMAS SHOW

  Locales state the interfaces: \<open>usage_ledger\<close> (what the governance service asks of a store), \<open>rate_limiter\<close>
  (of a limiter), \<open>attempt_book\<close> (what the adapters ask of a recorder), \<open>router_relation\<close> (a relation on the
  router's world that has the steps of its operations has the operations) and \<open>call_steps\<close> (the same for the
  adapters). They are interpreted on the MySQL store and the store without transactions, on both limiters,
  on the tracker, on the circuit breaker, on the registry's mirror of the router and on the rows of
  requests, and on the upstreams of the process.
  Admission, Ledger, Completion, AttemptBook: the transactions refine decisions on the aggregates of the
  tables, no interleaving overspends a budget, attempts and requests are charged and settled. RowFacts,
  ProcessFacts: a request adds at most one row and leaves none open, in a gateway of any configuration.
  RouterFacts, RouterProperties: ranking, dispatch, commitment of streams, the breaker and its schedule.
  ProviderProperties, CallRelation: retries are bounded, streams are delivered or end in an error, attempts are
  closed. RedisLimits: atomicity of the script whatever the connection does. ApiFacts, ApiProperties: what an
  answer implies about authentication, admission and the row. ChainFacts, JsonFacts, ServiceProperties: the
  JSON, event stream and RESP formats are read back by the gateway's own readers. StoreTyping, AuthStoreFacts,
  RoutingFacts, StoreProperties: typing of the tables, authentication, schema, seed and routing rules.
  MetricsFacts, ConfigFacts, GatewayFacts, GatewayProperties, ProcessProperties: the parts put together.
  StartupProperties: when the process serves and how it ends otherwise. LoadTestFacts, LoadTestProperties,
  Float64Facts: every request of a load test is executed once whatever its workers' order, its summary and
  percentiles, and that it reads the gateway's answers. PageFacts, SummaryFacts, NightlyProperties: the metrics
  page and the load test's summary are read back by the nightly check, which agrees with the nightly report.

  FUEL

  Recursive calls that the source bounds by its input have fuel: \<open>2 * length + 1\<close> for the Redis reader
  (redis_reader_terminates shows that it decides no result) and \<open>2 * length + 2\<close> for the JSON parser (the
  lemmas on its fuel in JsonFacts). Other loops are structural or have a termination proof. The goroutines of
  a stream are the list of events that the router's \<open>select\<close> sees, waits included.

  ASSUMED OF THE ENVIRONMENT

  The collation of text columns, the upstreams' answers, the error of a request's context and the way a
  stream's events arrive are parameters. The events of a provider's stream are produced before they are
  forwarded. A write that fails sends nothing. A mark of the router and its event are one step for the
  registry, as for one request at a time. Times are in UTC. Letters are folded in ASCII. The limits of MySQL's
  \<open>INT\<close> columns show as failures of statements. JSON nesting deeper than Go's limit is not cut off. A panic of the
  Redis reader is the error \<open>Panic\<close>; nothing else in the model panics, so \<open>Recoverer\<close> passes requests on.

  NOT MODELLED

  The calls with which the handlers, services and the router start and end their spans (Tracing has the
  operations they call), the log line of a request, \<open>net/url\<close> and the OpenTelemetry packages (parameters of
  Startup), what the flag package prints after an error and the directories that
  nightlyreport makes for its files.
\<close>

end
